(* ===== verification/Prelude.thy ===== *)
theory Prelude
  imports Main "HOL-Library.Word"
begin

unbundle bit_operations_syntax

section \<open>Shared vocabulary of the development\<close>

text \<open>
  Machine types, little-endian byte strings, and the generic facts on lists and maps that the
  component theories share. Both peers of the remoting link are little-endian x86-64, so the
  bytes of an integer in memory, which \<^verbatim>\<open>std::memcpy\<close> moves to and from the wire, are its
  base-256 digits, least significant first.
\<close>

type_synonym byte = "8 word"
type_synonym bytes = "byte list"
type_synonym u16 = "16 word"
type_synonym u32 = "32 word"
type_synonym u64 = "64 word"

named_theorems wire_simps \<open>equations that compute the byte strings of the writers\<close>
named_theorems reader_simps \<open>equations that step a reader over a known prefix\<close>

subsection \<open>Little-endian digits\<close>

fun le_bytes :: "nat \<Rightarrow> 'a::len word \<Rightarrow> bytes" where
  "le_bytes 0 w = []"
| "le_bytes (Suc n) w = ucast w # le_bytes n (drop_bit 8 w)"

fun of_le_bytes :: "bytes \<Rightarrow> 'a::len word" where
  "of_le_bytes [] = 0"
| "of_le_bytes (b # bs) = ucast b OR push_bit 8 (of_le_bytes bs)"

lemma length_le_bytes [simp]: "length (le_bytes n w) = n"
  by (induction n arbitrary: w) auto

lemma of_le_bytes_le_bytes_take: "of_le_bytes (le_bytes n w) = take_bit (8 * n) (w :: 'a::len word)"
proof (induction n arbitrary: w)
  case (Suc n)
  have "ucast (ucast w :: byte) OR push_bit 8 (take_bit (8 * n) (drop_bit 8 w)) = take_bit (8 * Suc n) w"
    by (rule bit_word_eqI) (auto simp: bit_simps)
  with Suc show ?case by simp
qed simp

lemma of_le_bytes_le_bytes:
  "LENGTH('a) \<le> 8 * n \<Longrightarrow> of_le_bytes (le_bytes n w) = (w :: 'a::len word)"
  by (simp add: of_le_bytes_le_bytes_take take_bit_word_eq_self)

lemma le_bytes_of_le_bytes:
  "8 * length bs \<le> LENGTH('a) \<Longrightarrow> le_bytes (length bs) (of_le_bytes bs :: 'a::len word) = bs"
proof (induction bs)
  case (Cons b bs)
  let ?w = "of_le_bytes bs :: 'a word"
  from Cons.prems have len: "8 \<le> LENGTH('a)" "8 + 8 * length bs \<le> LENGTH('a)" by simp_all
  have hd: "ucast (ucast b OR push_bit 8 ?w) = b"
    using len(1) by (intro bit_word_eqI) (auto simp: bit_simps)
  have small: "take_bit (8 * length bs) ?w = ?w"
    using Cons len(2) of_le_bytes_le_bytes_take [of "length bs" ?w] by simp
  have "bit ?w n \<Longrightarrow> n < 8 * length bs" for n
    using small by (metis bit_take_bit_iff)
  then have tl: "drop_bit 8 (ucast b OR push_bit 8 ?w) = ?w"
    using len(2) by (intro bit_word_eqI) (fastforce simp: bit_simps dest: bit_imp_le_length)
  show ?case using Cons hd tl by simp
qed simp

lemma unat_of_nat_small: "n < 2 ^ LENGTH('a) \<Longrightarrow> unat (of_nat n :: 'a::len word) = n"
  by (simp add: unat_of_nat)

lemma unat_less_64: "unat (w :: u64) < 2 ^ 64"
  using unsigned_less [of w] by simp

lemma unat_less_32: "unat (w :: u32) < 2 ^ 32"
  using unsigned_less [of w] by simp

lemma unat_minus_one_word64: "unat (- 1 :: u64) = 2 ^ 64 - 1"
  by (simp add: unsigned_minus_1_eq_mask mask_eq_exp_minus_1)

text \<open>The guard \<open>a <= MAX - b\<close> is what makes the sum \<open>a + b\<close> exact.\<close>

lemma word_add_no_overflow: "(a :: u64) \<le> - 1 - b \<Longrightarrow> unat (a + b) = unat a + unat b"
proof -
  assume "a \<le> - 1 - b"
  then have "unat a \<le> unat (- 1 - b)" by (simp add: word_le_nat_alt)
  also have "\<dots> = 2 ^ 64 - 1 - unat b" by (subst unat_sub) (simp_all add: word_order.extremum unat_minus_one_word64)
  finally have "unat a + unat b < 2 ^ 64" using unat_less_64 [of b] by simp
  then show ?thesis by (simp add: unat_word_ariths)
qed

text \<open>One-based indices carried in machine words.\<close>

lemma index_less: "i \<noteq> 0 \<Longrightarrow> unat i \<le> n \<Longrightarrow> unat i - Suc 0 < n"
  using unat_gt_0 [of i] by linarith

lemma index_inj: "i \<noteq> 0 \<Longrightarrow> j \<noteq> 0 \<Longrightarrow> unat i - Suc 0 = unat j - Suc 0 \<longleftrightarrow> i = j"
  by (metis Suc_pred' One_nat_def unat_gt_0 word_unat_eq_iff)

subsection \<open>Lists and association lists\<close>

lemma take_append_exact [simp]: "n = length xs \<Longrightarrow> take n (xs @ ys) = xs"
  by simp

lemma drop_append_exact [simp]: "n = length xs \<Longrightarrow> drop n (xs @ ys) = ys"
  by simp

definition alist_erase_if :: "('v \<Rightarrow> bool) \<Rightarrow> ('k \<times> 'v) list \<Rightarrow> ('k \<times> 'v) list" where
  "alist_erase_if P al = filter (\<lambda>kv. \<not> P (snd kv)) al"

subsection \<open>Transition systems\<close>

text \<open>
  The concurrent components are step relations whose steps are the critical sections of the code.
  A component supplies its initial states, its steps and an invariant; what holds in every
  reachable state follows here once.
\<close>

locale invariant_system =
  fixes init :: "'s \<Rightarrow> bool" and step :: "'s \<Rightarrow> 's \<Rightarrow> bool" and inv :: "'s \<Rightarrow> bool"
  assumes init_inv: "init s \<Longrightarrow> inv s"
    and step_inv: "inv s \<Longrightarrow> step s s' \<Longrightarrow> inv s'"
begin

lemma steps_inv: "step\<^sup>*\<^sup>* s s' \<Longrightarrow> inv s \<Longrightarrow> inv s'"
  by (induction rule: rtranclp_induct) (auto intro: step_inv)

lemma reachable_inv: "init s \<Longrightarrow> step\<^sup>*\<^sup>* s s' \<Longrightarrow> inv s'"
  using steps_inv init_inv by blast

end

text \<open>
  A system whose steps use up a measure and that can step until it is done: every run that goes on
  as long as it can ends, and ends done.
\<close>

locale draining_system =
  fixes step :: "'s \<Rightarrow> 's \<Rightarrow> bool" and inv :: "'s \<Rightarrow> bool" and work :: "'s \<Rightarrow> nat" and finished :: "'s \<Rightarrow> bool"
  assumes step_inv: "inv s \<Longrightarrow> step s s' \<Longrightarrow> inv s'"
    and step_work: "inv s \<Longrightarrow> step s s' \<Longrightarrow> work s' < work s"
    and progress: "inv s \<Longrightarrow> \<not> finished s \<Longrightarrow> \<exists>s'. step s s'"
begin

lemma stuck_finished: "inv s \<Longrightarrow> \<forall>s'. \<not> step s s' \<Longrightarrow> finished s"
  using progress by blast

lemma run_bound: "inv s \<Longrightarrow> (step ^^ n) s s' \<Longrightarrow> inv s' \<and> n + work s' \<le> work s"
proof (induction n arbitrary: s')
  case (Suc n)
  then obtain t where t: "(step ^^ n) s t" "step t s'" by auto
  with Suc.IH Suc.prems(1) have "inv t" "n + work t \<le> work s" by blast+
  with step_inv [OF _ t(2)] step_work [OF _ t(2)] show ?case by auto
qed simp

lemma drains: "inv s \<Longrightarrow> \<exists>s'. step\<^sup>*\<^sup>* s s' \<and> finished s'"
proof (induction "work s" arbitrary: s rule: less_induct)
  case less
  show ?case
  proof (cases "finished s")
    case False
    with progress less.prems obtain t where t: "step s t" by blast
    with less.hyps [OF step_work step_inv] less.prems obtain s' where "step\<^sup>*\<^sup>* t s'" "finished s'" by blast
    with t show ?thesis by (meson converse_rtranclp_into_rtranclp)
  qed auto
qed

end

end
