(* ===== verification/Wire.thy ===== *)
theory Wire
  imports Prelude
begin

section \<open>Framing and the bounds-checked reader (common/wire.hpp, common/wire.cpp)\<close>

text \<open>
  The byte level of the protocol: the \<open>Writer\<close> that appends little-endian values, the
  \<open>Reader\<close> with its sticky failure flag, the 16-byte message header, and whole-message
  send and receive over a socket. A socket call's outcome is an element of a script (how many
  bytes moved, interrupted, timed out, failed), so a theorem about every script is a theorem
  about every fragmentation of the stream; an exhausted script is a call that is still blocked,
  and the blocked loop has the value \<open>None\<close>. The interface \<open>wire_codec\<close> states what
  a writer/reader pair promises; it is interpreted on every primitive.
\<close>

subsection \<open>Status codes and limits\<close>

datatype Status = Ok | UnsupportedCommand | DecodeError

definition status_code :: "Status \<Rightarrow> u32" where
  "status_code s = (case s of Ok \<Rightarrow> 0 | UnsupportedCommand \<Rightarrow> 1 | DecodeError \<Rightarrow> 2)"

definition kMaxPayload :: u32 where
  "kMaxPayload = 64 * 1024 * 1024"

subsection \<open>Writer\<close>

type_synonym Writer = bytes

definition w_raw :: "Writer \<Rightarrow> bytes \<Rightarrow> Writer" where
  "w_raw w data = w @ data"

definition w_u32 :: "Writer \<Rightarrow> u32 \<Rightarrow> Writer" where
  "w_u32 w v = w_raw w (le_bytes 4 v)"

definition w_u64 :: "Writer \<Rightarrow> u64 \<Rightarrow> Writer" where
  "w_u64 w v = w_raw w (le_bytes 8 v)"

definition w_i32 :: "Writer \<Rightarrow> u32 \<Rightarrow> Writer" where
  "w_i32 w v = w_raw w (le_bytes 4 v)"

definition w_f32 :: "Writer \<Rightarrow> u32 \<Rightarrow> Writer" where
  "w_f32 w v = w_raw w (le_bytes 4 v)"

definition w_handle :: "Writer \<Rightarrow> u64 \<Rightarrow> Writer" where
  "w_handle w v = w_u64 w v"

definition w_bytes :: "Writer \<Rightarrow> bytes \<Rightarrow> Writer" where
  "w_bytes w data =
     (let w' = w_u32 w (of_nat (length data)) in if data \<noteq> [] then w_raw w' data else w')"

definition w_string :: "Writer \<Rightarrow> bytes option \<Rightarrow> Writer" where
  "w_string w s = w_bytes w (case s of None \<Rightarrow> [] | Some cs \<Rightarrow> takeWhile (\<lambda>c. c \<noteq> 0) cs)"

definition w_append :: "Writer \<Rightarrow> Writer \<Rightarrow> Writer" where
  "w_append w other = w @ other"

text \<open>The bytes a blob contributes: its 32-bit length, then its content.\<close>

definition blob :: "bytes \<Rightarrow> bytes" where
  "blob data = le_bytes 4 (of_nat (length data) :: u32) @ data"

lemma writer_bytes [wire_simps]:
  "w_u32 w v = w @ le_bytes 4 v"
  "w_u64 w v' = w @ le_bytes 8 v'"
  "w_i32 w v = w @ le_bytes 4 v"
  "w_f32 w v = w @ le_bytes 4 v"
  "w_handle w v' = w @ le_bytes 8 v'"
  "w_bytes w data = w @ blob data"
  by (simp_all add: w_u32_def w_u64_def w_i32_def w_f32_def w_handle_def w_bytes_def w_raw_def
      blob_def Let_def)

lemma w_string_bytes [wire_simps]: "0 \<notin> set cs \<Longrightarrow> w_string w (Some cs) = w @ blob cs"
proof -
  assume "0 \<notin> set cs"
  then have "takeWhile (\<lambda>c. c \<noteq> 0) cs = cs" by (auto simp: takeWhile_eq_all_conv)
  then show ?thesis unfolding w_string_def option.case by (simp only: writer_bytes)
qed

subsection \<open>Reader\<close>

record Reader =
  m_data :: bytes
  m_pos :: nat
  m_failed :: bool

definition Reader_init :: "bytes \<Rightarrow> Reader" where
  "Reader_init data = \<lparr>m_data = data, m_pos = 0, m_failed = False\<rparr>"

definition r_ok :: "Reader \<Rightarrow> bool" where
  "r_ok r \<longleftrightarrow> \<not> m_failed r"

definition r_remaining :: "Reader \<Rightarrow> nat" where
  "r_remaining r = (if m_failed r then 0 else length (m_data r) - m_pos r)"

definition r_read :: "nat \<Rightarrow> Reader \<Rightarrow> 'a::len word \<times> Reader" where
  "r_read n r =
     (if m_failed r \<or> m_pos r + n > length (m_data r) then (0, r\<lparr>m_failed := True\<rparr>)
      else (of_le_bytes (take n (drop (m_pos r) (m_data r))), r\<lparr>m_pos := m_pos r + n\<rparr>))"

definition r_u32 :: "Reader \<Rightarrow> u32 \<times> Reader" where
  "r_u32 = r_read 4"

definition r_u64 :: "Reader \<Rightarrow> u64 \<times> Reader" where
  "r_u64 = r_read 8"

definition r_i32 :: "Reader \<Rightarrow> u32 \<times> Reader" where
  "r_i32 = r_read 4"

definition r_f32 :: "Reader \<Rightarrow> u32 \<times> Reader" where
  "r_f32 = r_read 4"

definition r_handle :: "Reader \<Rightarrow> u64 \<times> Reader" where
  "r_handle = r_u64"

definition r_bytes :: "nat \<Rightarrow> Reader \<Rightarrow> bytes option \<times> Reader" where
  "r_bytes max_size r =
     (let (sz, r1) = r_u32 r; n = unat sz in
      if m_failed r1 \<or> n > max_size \<or> n > length (m_data r1) - m_pos r1
      then (None, r1\<lparr>m_failed := True\<rparr>)
      else (Some (take n (drop (m_pos r1) (m_data r1))), r1\<lparr>m_pos := m_pos r1 + n\<rparr>))"

definition UINT32_MAX :: nat where
  "UINT32_MAX = 2 ^ 32 - 1"

definition r_string :: "Reader \<Rightarrow> bytes option \<times> Reader" where
  "r_string r = r_bytes UINT32_MAX r"

text \<open>Sequencing \<open>n\<close> reads of one kind, the shape of every array loop of the handlers.\<close>

fun r_list :: "(Reader \<Rightarrow> 'b \<times> Reader) \<Rightarrow> nat \<Rightarrow> Reader \<Rightarrow> 'b list \<times> Reader" where
  "r_list dec 0 r = ([], r)"
| "r_list dec (Suc n) r =
     (let (x, r1) = dec r; (xs, r2) = r_list dec n r1 in (x # xs, r2))"

subsection \<open>The reader's invariant and what a decoder may do to a reader\<close>

definition reader_inv :: "Reader \<Rightarrow> bool" where
  "reader_inv r \<longleftrightarrow> m_pos r \<le> length (m_data r)"

definition r_rest :: "Reader \<Rightarrow> bytes" where
  "r_rest r = (if m_failed r then [] else drop (m_pos r) (m_data r))"

definition r_skip :: "nat \<Rightarrow> Reader \<Rightarrow> Reader" where
  "r_skip n r = r\<lparr>m_pos := m_pos r + n\<rparr>"

definition r_advances :: "Reader \<Rightarrow> Reader \<Rightarrow> bool" where
  "r_advances r r' \<longleftrightarrow> m_data r' = m_data r \<and> m_pos r \<le> m_pos r' \<and> m_pos r' \<le> length (m_data r)
     \<and> (m_failed r \<longrightarrow> m_failed r')"

lemma reader_init_inv [simp]: "reader_inv (Reader_init data)" "r_rest (Reader_init data) = data"
  "r_ok (Reader_init data)"
  by (simp_all add: reader_inv_def Reader_init_def r_rest_def r_ok_def)

lemma length_r_rest: "length (r_rest r) = r_remaining r"
  by (simp add: r_rest_def r_remaining_def)

lemma r_skip_simps [reader_simps]:
  "m_failed (r_skip n r) = m_failed r" "m_data (r_skip n r) = m_data r"
  "m_pos (r_skip n r) = m_pos r + n" "r_skip m (r_skip n r) = r_skip (n + m) r"
  "r_skip 0 r = r"
  by (simp_all add: r_skip_def algebra_simps)

lemma r_rest_skip: "r_rest r = xs @ ys \<Longrightarrow> r_rest (r_skip (length xs) r) = ys"
proof -
  assume "r_rest r = xs @ ys"
  then have "drop (length xs) (r_rest r) = ys" by simp
  then show ?thesis by (auto simp: r_rest_def r_skip_def add.commute split: if_splits)
qed

lemma r_advances_refl: "reader_inv r \<Longrightarrow> r_advances r r"
  by (simp add: r_advances_def reader_inv_def)

lemma r_advances_inv: "r_advances r r' \<Longrightarrow> reader_inv r'"
  by (simp add: r_advances_def reader_inv_def)

lemma r_advances_trans: "r_advances r s \<Longrightarrow> r_advances s t \<Longrightarrow> r_advances r t"
  by (auto simp: r_advances_def)

lemma r_read_advances: "reader_inv r \<Longrightarrow> r_advances r (snd (r_read n r))"
  by (auto simp: r_read_def r_advances_def reader_inv_def)

lemma r_bytes_advances: "reader_inv r \<Longrightarrow> r_advances r (snd (r_bytes mx r))"
proof -
  assume inv: "reader_inv r"
  obtain sz r1 where r1: "r_u32 r = (sz, r1)" by force
  have "r_advances r (snd (r_u32 r))" using inv by (simp add: r_u32_def r_read_advances)
  with r1 have adv: "r_advances r r1" by simp
  then show ?thesis using r1
    by (auto simp: r_bytes_def Let_def r_advances_def)
qed

subsection \<open>The contract of a writer/reader pair\<close>

text \<open>
  \<open>enc a\<close> is what the writer appends for \<open>a\<close>; \<open>dec\<close> reads a value back,
  \<open>view a\<close> being what the receiver is meant to see (the same value for plain data, the
  resolved object for a handle). A decoder consumes exactly the encoding when it is there, never
  moves outside the message, and never clears a failure.
\<close>

locale wire_codec =
  fixes enc :: "'a \<Rightarrow> bytes" and dec :: "Reader \<Rightarrow> 'b \<times> Reader"
    and view :: "'a \<Rightarrow> 'b" and wf :: "'a \<Rightarrow> bool"
  assumes dec_enc: "wf a \<Longrightarrow> r_ok r \<Longrightarrow> r_rest r = enc a @ tail \<Longrightarrow>
      dec r = (view a, r_skip (length (enc a)) r)"
    and dec_advances: "reader_inv r \<Longrightarrow> r_advances r (snd (dec r))"
begin

lemma dec_enc_init:
  "wf a \<Longrightarrow> fst (dec (Reader_init (enc a @ tail))) = view a
     \<and> r_rest (snd (dec (Reader_init (enc a @ tail)))) = tail"
  using dec_enc [of a "Reader_init (enc a @ tail)" tail] r_rest_skip [of "Reader_init (enc a @ tail)"]
  by simp

lemma list_roundtrip:
  "list_all wf xs \<Longrightarrow> r_ok r \<Longrightarrow> r_rest r = concat (map enc xs) @ tail \<Longrightarrow>
     r_list dec (length xs) r = (map view xs, r_skip (length (concat (map enc xs))) r)"
proof (induction xs arbitrary: r)
  case Nil
  then show ?case by (simp add: reader_simps)
next
  case (Cons x xs)
  from Cons.prems have first: "dec r = (view x, r_skip (length (enc x)) r)"
    by (intro dec_enc [where tail = "concat (map enc xs) @ tail"]) simp_all
  have rest: "r_rest (r_skip (length (enc x)) r) = concat (map enc xs) @ tail"
    using Cons.prems by (intro r_rest_skip) simp
  have "r_list dec (length xs) (r_skip (length (enc x)) r) =
      (map view xs, r_skip (length (concat (map enc xs))) (r_skip (length (enc x)) r))"
    using Cons.prems rest by (intro Cons.IH) (simp_all add: r_ok_def reader_simps)
  with first show ?case by (simp add: reader_simps)
qed

lemma list_advances: "reader_inv r \<Longrightarrow> r_advances r (snd (r_list dec n r))"
proof (induction n arbitrary: r)
  case 0
  then show ?case by (simp add: r_advances_refl)
next
  case (Suc n)
  obtain x r1 where x: "dec r = (x, r1)" by force
  obtain xs r2 where xs: "r_list dec n r1 = (xs, r2)" by force
  from dec_advances [OF Suc.prems] x have a: "r_advances r r1" by simp
  with Suc.IH [of r1] xs have "r_advances r1 r2" by (simp add: r_advances_inv)
  with a have "r_advances r r2" by (rule r_advances_trans)
  then show ?case using x xs by simp
qed

lemma dec_sticky: "reader_inv r \<Longrightarrow> m_failed r \<Longrightarrow> m_failed (snd (dec r))"
  using dec_advances by (auto simp: r_advances_def)

end

lemma r_read_enc:
  fixes v :: "'a::len word"
  assumes "r_ok r" and "r_rest r = le_bytes n v @ tail" and "LENGTH('a) \<le> 8 * n"
  shows "r_read n r = (v, r_skip n r)"
proof -
  from assms(1,2) have rest: "drop (m_pos r) (m_data r) = le_bytes n v @ tail"
    by (simp add: r_rest_def r_ok_def)
  then have "n \<le> length (m_data r) - m_pos r"
    by (metis length_append length_drop length_le_bytes le_add1)
  moreover have "n = 0 \<or> m_pos r < length (m_data r)"
    using rest by (cases "n = 0") (auto simp: not_less dest: arg_cong [where f = length])
  moreover have "n \<noteq> 0" using assms(3) by (metis len_gt_0 le_0_eq mult_0_right neq0_conv)
  ultimately show ?thesis
    using assms rest by (auto simp: r_read_def r_skip_def r_ok_def of_le_bytes_le_bytes)
qed

lemma r_bytes_enc:
  assumes ok: "r_ok r" and rest: "r_rest r = blob data @ tail"
    and len: "length data < 2 ^ 32" "length data \<le> mx"
  shows "r_bytes mx r = (Some data, r_skip (length (blob data)) r)"
proof -
  let ?r1 = "r_skip 4 r"
  have sz: "r_u32 r = (of_nat (length data), ?r1)"
    using ok rest by (simp add: r_u32_def blob_def r_read_enc [where tail = "data @ tail"])
  have "r_rest ?r1 = data @ tail"
    using r_rest_skip [of r "le_bytes 4 (of_nat (length data) :: u32)" "data @ tail"] rest
    by (simp add: blob_def)
  then have d: "drop (m_pos r + 4) (m_data r) = data @ tail"
    using ok by (simp add: r_rest_def r_ok_def reader_simps)
  have n: "unat (of_nat (length data) :: u32) = length data"
    using len(1) by (simp add: unat_of_nat_small)
  have "length data \<le> length (m_data r) - (m_pos r + 4)"
    by (metis d length_append length_drop le_add1)
  then show ?thesis using ok sz n d len(2)
    by (simp add: r_bytes_def r_ok_def reader_simps blob_def r_skip_def)
qed

interpretation u32c: wire_codec "le_bytes 4" r_u32 "\<lambda>v. v" "\<lambda>_. True"
  by unfold_locales (auto simp: r_u32_def intro: r_read_enc r_read_advances)

interpretation u64c: wire_codec "le_bytes 8" r_u64 "\<lambda>v. v" "\<lambda>_. True"
  by unfold_locales (auto simp: r_u64_def intro: r_read_enc r_read_advances)

interpretation i32c: wire_codec "le_bytes 4" r_i32 "\<lambda>v. v" "\<lambda>_. True"
  by unfold_locales (auto simp: r_i32_def intro: r_read_enc r_read_advances)

interpretation handlec: wire_codec "le_bytes 8" r_handle "\<lambda>v. v" "\<lambda>_. True"
  by unfold_locales (auto simp: r_handle_def intro: u64c.dec_enc [simplified] u64c.dec_advances)

interpretation stringc: wire_codec blob r_string Some "\<lambda>s. length s < 2 ^ 32"
  by unfold_locales
    (auto simp: r_string_def UINT32_MAX_def intro!: r_bytes_enc r_bytes_advances)

text \<open>
  A reader that has consumed \<open>pre\<close> and has \<open>rest\<close> left; the equations step it over
  what a writer produced, so a handler runs symbolically on an encoded request.
\<close>

definition Reader_at :: "bytes \<Rightarrow> bytes \<Rightarrow> Reader" where
  "Reader_at pre rest = \<lparr>m_data = pre @ rest, m_pos = length pre, m_failed = False\<rparr>"

lemma reader_at_basics [reader_simps]:
  "Reader_init data = Reader_at [] data" "r_ok (Reader_at pre rest)" "r_remaining (Reader_at pre rest) = length rest"
  "r_skip (length x) (Reader_at pre (x @ rest)) = Reader_at (pre @ x) rest"
  by (simp_all add: Reader_init_def Reader_at_def r_ok_def r_remaining_def r_skip_def)

lemma reader_at_rest: "r_rest (Reader_at pre rest) = rest"
  by (simp add: Reader_at_def r_rest_def)

context wire_codec
begin

lemma dec_at: "wf a \<Longrightarrow> dec (Reader_at pre (enc a @ rest)) = (view a, Reader_at (pre @ enc a) rest)"
  using dec_enc [of a "Reader_at pre (enc a @ rest)" rest]
  by (simp add: reader_at_rest reader_at_basics)

end

lemma reader_at_steps [reader_simps]:
  "r_u32 (Reader_at pre (le_bytes 4 v @ rest)) = (v, Reader_at (pre @ le_bytes 4 v) rest)"
  "r_i32 (Reader_at pre (le_bytes 4 v @ rest)) = (v, Reader_at (pre @ le_bytes 4 v) rest)"
  "r_u64 (Reader_at pre (le_bytes 8 x @ rest)) = (x, Reader_at (pre @ le_bytes 8 x) rest)"
  "r_handle (Reader_at pre (le_bytes 8 x @ rest)) = (x, Reader_at (pre @ le_bytes 8 x) rest)"
  "length cs < 2 ^ 32 \<Longrightarrow> r_string (Reader_at pre (blob cs @ rest)) = (Some cs, Reader_at (pre @ blob cs) rest)"
  using u32c.dec_at i32c.dec_at u64c.dec_at handlec.dec_at stringc.dec_at by simp_all

lemma reader_at_bytes [reader_simps]:
  assumes "length cs < 2 ^ 32" "length cs \<le> mx"
  shows "r_bytes mx (Reader_at pre (blob cs @ rest)) = (Some cs, Reader_at (pre @ blob cs) rest)"
    and "r_bytes mx (Reader_at pre (blob cs)) = (Some cs, Reader_at (pre @ blob cs) [])"
  using r_bytes_enc [OF _ _ assms, of "Reader_at pre (blob cs @ rest)" rest]
    r_bytes_enc [OF _ _ assms, of "Reader_at pre (blob cs)" "[]"]
    reader_at_basics(4) [of "blob cs" pre "[]"]
  by (simp_all add: reader_at_rest reader_at_basics)

lemma reader_at_last [reader_simps]:
  "r_u32 (Reader_at pre (le_bytes 4 v)) = (v, Reader_at (pre @ le_bytes 4 v) [])"
  "r_i32 (Reader_at pre (le_bytes 4 v)) = (v, Reader_at (pre @ le_bytes 4 v) [])"
  "r_u64 (Reader_at pre (le_bytes 8 x)) = (x, Reader_at (pre @ le_bytes 8 x) [])"
  "r_handle (Reader_at pre (le_bytes 8 x)) = (x, Reader_at (pre @ le_bytes 8 x) [])"
  using reader_at_steps(1-4) [of pre _ "[]"] by simp_all

subsection \<open>Whole-message send and receive over a socket\<close>

datatype io_result = Moved nat | Interrupted | TimedOut | IoFailed

text \<open>
  \<open>Moved n\<close> is a call that moved at most \<open>n\<close> bytes (never more than asked for or
  available); \<open>Moved 0\<close> is the orderly shutdown of the peer.
\<close>

fun write_all :: "bytes \<Rightarrow> io_result list \<Rightarrow> (bool \<times> bytes \<times> io_result list) option" where
  "write_all [] script = Some (True, [], script)"
| "write_all (b # bs) [] = None"
| "write_all (b # bs) (Moved n # script) =
     (if n = 0 then Some (False, [], script)
      else map_option (\<lambda>(ok, sent, rest). (ok, take n (b # bs) @ sent, rest))
             (write_all (drop n (b # bs)) script))"
| "write_all (b # bs) (Interrupted # script) = write_all (b # bs) script"
| "write_all (b # bs) (TimedOut # script) = Some (False, [], script)"
| "write_all (b # bs) (IoFailed # script) = Some (False, [], script)"

fun read_all :: "nat \<Rightarrow> bytes \<Rightarrow> io_result list \<Rightarrow> (bytes option \<times> bytes \<times> io_result list) option" where
  "read_all 0 incoming script = Some (Some [], incoming, script)"
| "read_all (Suc k) incoming [] = None"
| "read_all (Suc k) incoming (Moved n # script) =
     (let got = take (min n (Suc k)) incoming in
      if got = [] then Some (None, incoming, script)
      else map_option (\<lambda>(data, rest). (map_option ((@) got) data, rest))
             (read_all (Suc k - length got) (drop (length got) incoming) script))"
| "read_all (Suc k) incoming (Interrupted # script) = read_all (Suc k) incoming script"
| "read_all (Suc k) incoming (TimedOut # script) = Some (None, incoming, script)"
| "read_all (Suc k) incoming (IoFailed # script) = Some (None, incoming, script)"

record MessageHeader =
  opcode :: u32
  payload_size :: u32
  request_id :: u64

definition header_bytes :: "MessageHeader \<Rightarrow> bytes" where
  "header_bytes h = le_bytes 4 (opcode h) @ le_bytes 4 (payload_size h) @ le_bytes 8 (request_id h)"

definition header_of_bytes :: "bytes \<Rightarrow> MessageHeader" where
  "header_of_bytes bs = \<lparr>opcode = of_le_bytes (take 4 bs), payload_size = of_le_bytes (take 4 (drop 4 bs)),
     request_id = of_le_bytes (take 8 (drop 8 bs))\<rparr>"

definition send_message ::
  "u32 \<Rightarrow> bytes \<Rightarrow> u64 \<Rightarrow> io_result list \<Rightarrow> (bool \<times> bytes \<times> io_result list) option" where
  "send_message op payload rid script =
     (let header = \<lparr>opcode = op, payload_size = of_nat (length payload), request_id = rid\<rparr> in
      case write_all (header_bytes header) script of
        None \<Rightarrow> None
      | Some (False, sent, script') \<Rightarrow> Some (False, sent, script')
      | Some (True, sent, script') \<Rightarrow>
          if payload = [] then Some (True, sent, script')
          else map_option (\<lambda>(ok, sent', script''). (ok, sent @ sent', script'')) (write_all payload script'))"

definition recv_message ::
  "bytes \<Rightarrow> io_result list \<Rightarrow> ((MessageHeader \<times> bytes) option \<times> bytes \<times> io_result list) option" where
  "recv_message incoming script =
     (case read_all 16 incoming script of
        None \<Rightarrow> None
      | Some (None, rest) \<Rightarrow> Some (None, rest)
      | Some (Some hb, incoming', script') \<Rightarrow>
          let header = header_of_bytes hb in
          if payload_size header > kMaxPayload then Some (None, incoming', script')
          else if payload_size header = 0 then Some (Some (header, []), incoming', script')
          else map_option (\<lambda>(data, rest). (map_option (Pair header) data, rest))
                 (read_all (unat (payload_size header)) incoming' script'))"

text \<open>What a well-behaved peer puts on the stream for one message.\<close>

definition message_bytes :: "u32 \<times> bytes \<times> u64 \<Rightarrow> bytes" where
  "message_bytes m = (case m of (op, payload, rid) \<Rightarrow>
     header_bytes \<lparr>opcode = op, payload_size = of_nat (length payload), request_id = rid\<rparr> @ payload)"

definition message_header :: "u32 \<times> bytes \<times> u64 \<Rightarrow> MessageHeader" where
  "message_header m = (case m of (op, payload, rid) \<Rightarrow>
     \<lparr>opcode = op, payload_size = of_nat (length payload), request_id = rid\<rparr>)"

text \<open>A script that keeps moving: \<open>n\<close> productive calls before any failure.\<close>

fun steady :: "nat \<Rightarrow> io_result list \<Rightarrow> bool" where
  "steady 0 script = True"
| "steady (Suc n) (Moved k # script) = (k \<noteq> 0 \<and> steady n script)"
| "steady (Suc n) (Interrupted # script) = steady (Suc n) script"
| "steady (Suc n) _ = False"

lemma steady_mono: "steady (n + m) script \<Longrightarrow> steady n script"
  by (induction n script rule: steady.induct) auto

lemma steady_less: "steady n script \<Longrightarrow> m \<le> n \<Longrightarrow> steady m script"
  using steady_mono [of m "n - m"] by simp

lemma write_all_sent:
  "write_all bs script = Some (ok, sent, rest) \<Longrightarrow> \<exists>tail. bs = sent @ tail \<and> (ok \<longleftrightarrow> tail = [])"
proof (induction bs script arbitrary: sent rest rule: write_all.induct)
  case (3 b bs n script)
  show ?case
  proof (cases "n = 0")
    case False
    with "3.prems" obtain sent' where
      w: "write_all (drop n (b # bs)) script = Some (ok, sent', rest)" and s: "sent = take n (b # bs) @ sent'"
      by auto
    from "3.IH" [OF False w] obtain tail where "drop n (b # bs) = sent' @ tail" "ok \<longleftrightarrow> tail = []"
      by blast
    then show ?thesis using s by (metis append.assoc append_take_drop_id)
  qed (use 3 in auto)
qed auto

lemma write_all_steady:
  "steady (length bs + m) script \<Longrightarrow> \<exists>rest. write_all bs script = Some (True, bs, rest) \<and> steady m rest"
proof (induction bs script rule: write_all.induct)
  case (3 b bs n script)
  from "3.prems" have n: "n \<noteq> 0" and st: "steady (length bs + m) script" by auto
  have "steady (length (drop n (b # bs)) + m) script"
    using n by (intro steady_less [OF st]) auto
  with "3.IH" n obtain rest where
    "write_all (drop n (b # bs)) script = Some (True, drop n (b # bs), rest)" "steady m rest" by blast
  then show ?case using n by simp
qed auto

lemma read_all_steady:
  "steady (k + m) script \<Longrightarrow> k \<le> length incoming \<Longrightarrow>
     \<exists>rest. read_all k incoming script = Some (Some (take k incoming), drop k incoming, rest) \<and> steady m rest"
proof (induction k incoming script rule: read_all.induct)
  case (3 k incoming n script)
  let ?got = "take (min n (Suc k)) incoming"
  from "3.prems" have n: "n \<noteq> 0" and st: "steady (k + m) script" and len: "Suc k \<le> length incoming" by auto
  from n len have gotlen: "length ?got = min n (Suc k)" and ne: "?got \<noteq> []" by auto
  have "steady (Suc k - length ?got + m) script"
    using n gotlen by (intro steady_less [OF st]) auto
  moreover have "Suc k - length ?got \<le> length (drop (length ?got) incoming)" using len by simp
  ultimately obtain rest where
    r: "read_all (Suc k - length ?got) (drop (length ?got) incoming) script =
      Some (Some (take (Suc k - length ?got) (drop (length ?got) incoming)),
            drop (Suc k - length ?got) (drop (length ?got) incoming), rest)" and "steady m rest"
    using "3.IH" [OF refl ne] by blast
  moreover have "?got @ take (Suc k - length ?got) (drop (length ?got) incoming) = take (Suc k) incoming"
    unfolding gotlen using gotlen len by (metis le_add_diff_inverse min.cobounded2 take_add)
  ultimately show ?case using ne gotlen by (simp add: Let_def)
qed auto

lemma header_roundtrip [simp]: "header_of_bytes (header_bytes h) = h"
  by (simp add: header_of_bytes_def header_bytes_def of_le_bytes_le_bytes)

lemma length_header_bytes [simp]: "length (header_bytes h) = 16"
  by (simp add: header_bytes_def)

lemma length_message_bytes [simp]: "length (message_bytes (op, payload, rid)) = 16 + length payload"
  by (simp add: message_bytes_def)

lemma send_message_steady:
  assumes "steady (16 + length payload + m) script"
  shows "\<exists>rest. send_message op payload rid script = Some (True, message_bytes (op, payload, rid), rest)
           \<and> steady m rest"
proof -
  let ?h = "\<lparr>opcode = op, payload_size = of_nat (length payload), request_id = rid\<rparr>"
  have "steady (length (header_bytes ?h) + (length payload + m)) script" using assms by (simp add: add.assoc)
  from write_all_steady [OF this] obtain mid where
    h: "write_all (header_bytes ?h) script = Some (True, header_bytes ?h, mid)"
    and st: "steady (length payload + m) mid" by blast
  from write_all_steady [OF st] obtain rest where
    "write_all payload mid = Some (True, payload, rest)" "steady m rest" by blast
  then show ?thesis using h st by (auto simp: send_message_def message_bytes_def)
qed

lemma payload_size_bound:
  assumes "length payload \<le> unat kMaxPayload"
  shows "unat (of_nat (length payload) :: u32) = length payload"
    and "\<not> kMaxPayload < (of_nat (length payload) :: u32)"
proof -
  have "length payload \<le> 67108864" using assms by (simp add: kMaxPayload_def)
  then show *: "unat (of_nat (length payload) :: u32) = length payload"
    by (intro unat_of_nat_small) simp
  show "\<not> kMaxPayload < (of_nat (length payload) :: u32)"
    using assms * by (simp add: word_less_nat_alt)
qed

lemma recv_message_steady:
  assumes size: "length payload \<le> unat kMaxPayload"
    and steady: "steady (16 + length payload + m) script"
  shows "\<exists>rest. recv_message (message_bytes (op, payload, rid) @ tail) script =
       Some (Some (message_header (op, payload, rid), payload), tail, rest) \<and> steady m rest"
proof -
  let ?h = "\<lparr>opcode = op, payload_size = of_nat (length payload), request_id = rid\<rparr>"
  let ?in = "header_bytes ?h @ payload @ tail"
  have "steady (16 + (length payload + m)) script" using steady by (simp add: add.assoc)
  from read_all_steady [OF this, of ?in] obtain mid where
    h: "read_all 16 ?in script = Some (Some (header_bytes ?h), payload @ tail, mid)"
    and st: "steady (length payload + m) mid" by auto
  from read_all_steady [OF st, of "payload @ tail"] obtain rest where
    p: "read_all (length payload) (payload @ tail) mid = Some (Some payload, tail, rest)"
    and "steady m rest" by auto
  moreover have "(of_nat (length payload) :: u32) = 0 \<Longrightarrow> payload = []"
    using payload_size_bound(1) [OF size] by (metis length_0_conv unat_0)
  ultimately show ?thesis using h st payload_size_bound [OF size]
    by (auto simp: recv_message_def message_bytes_def message_header_def Let_def)
qed

text \<open>Receiving a whole conversation, one message after another.\<close>

fun recv_messages :: "nat \<Rightarrow> bytes \<Rightarrow> io_result list \<Rightarrow> (MessageHeader \<times> bytes) list option" where
  "recv_messages 0 incoming script = Some []"
| "recv_messages (Suc n) incoming script =
     (case recv_message incoming script of
        Some (Some m, incoming', script') \<Rightarrow> map_option ((#) m) (recv_messages n incoming' script')
      | _ \<Rightarrow> None)"

subsection \<open>Properties\<close>

text \<open>
  C1. Framing is lossless under every fragmentation: a conversation of messages of at most
  64 MiB each, sent back to back on one stream, is received as exactly those messages in order,
  however the socket splits the transfers and however often calls are interrupted, provided the
  receive calls keep moving bytes.
\<close>

theorem conversation_roundtrip:
  assumes "\<forall>(op, payload, rid) \<in> set ms. length payload \<le> unat kMaxPayload"
    and "steady (length (concat (map message_bytes ms))) script"
  shows "recv_messages (length ms) (concat (map message_bytes ms) @ tail) script =
           Some (map (\<lambda>m. (message_header m, fst (snd m))) ms)"
  using assms
proof (induction ms arbitrary: script)
  case Nil
  then show ?case by simp
next
  case (Cons m ms)
  obtain op payload rid where m: "m = (op, payload, rid)" by (cases m)
  from Cons.prems have size: "length payload \<le> unat kMaxPayload" by (auto simp: m)
  have "steady (16 + length payload + length (concat (map message_bytes ms))) script"
    using Cons.prems(2) by (simp add: m add.assoc)
  from recv_message_steady [OF size this, of op rid "concat (map message_bytes ms) @ tail"]
  obtain rest where r: "recv_message (message_bytes m @ concat (map message_bytes ms) @ tail) script =
       Some (Some (message_header m, payload), concat (map message_bytes ms) @ tail, rest)"
    and "steady (length (concat (map message_bytes ms))) rest" by (auto simp: m)
  with Cons show ?case by (simp add: m)
qed

theorem conversation_roundtrip_witness:
  "recv_messages (length [(5 :: u32, [] :: bytes, 7 :: u64), (1, [9, 8], 3)])
     (concat (map message_bytes [(5, [], 7), (1, [9, 8], 3)]) @ [42])
     (Interrupted # replicate 34 (Moved 1)) =
   Some (map (\<lambda>m. (message_header m, fst (snd m))) [(5, [], 7), (1, [9, 8], 3)])"
proof (rule conversation_roundtrip)
  show "steady (length (concat (map message_bytes [(5, [], 7), (1, [9, 8], 3)])))
          (Interrupted # replicate 34 (Moved 1))"
    by (simp add: eval_nat_numeral)
qed (simp add: kMaxPayload_def)

text \<open>
  A peer cannot make the receiver allocate: whatever bytes arrive and however they arrive, a
  header that announces more than 64 MiB ends the receive with failure, with exactly the sixteen
  header bytes consumed and no payload buffer sized from the announced length.
\<close>

theorem recv_message_rejects_oversize:
  assumes "steady 16 script" and "kMaxPayload < payload_size h"
  shows "\<exists>rest. recv_message (header_bytes h @ tail) script = Some (None, tail, rest)"
proof -
  from read_all_steady [of 16 0 script "header_bytes h @ tail"] assms(1) obtain rest where
    "read_all 16 (header_bytes h @ tail) script = Some (Some (header_bytes h), tail, rest)" by auto
  then show ?thesis using assms(2) by (simp add: recv_message_def)
qed

theorem recv_message_rejects_oversize_witness:
  "\<exists>rest. recv_message (header_bytes \<lparr>opcode = 2, payload_size = 0xFFFFFFFF, request_id = 1\<rparr> @ [1, 2])
       (replicate 16 (Moved 4)) = Some (None, [1, 2], rest)"
proof (rule recv_message_rejects_oversize)
  show "steady 16 (replicate 16 (Moved 4))" by (simp add: eval_nat_numeral)
qed (simp add: kMaxPayload_def)

text \<open>
  C2. The reader never leaves its buffer and never recovers: every primitive read and every
  array loop over a decoder built from them keeps the position inside the message, never changes
  the message, never moves backwards, and never clears a failure, whatever the bytes are.
\<close>

theorem reader_stays_in_bounds:
  assumes "reader_inv r"
  shows "r_advances r (snd (r_list r_u32 n r)) \<and> r_advances r (snd (r_list r_u64 n r))
       \<and> r_advances r (snd (r_list r_i32 n r)) \<and> r_advances r (snd (r_list r_handle n r))
       \<and> r_advances r (snd (r_list r_string n r)) \<and> r_advances r (snd (r_bytes mx r))"
  using u32c.list_advances [OF assms] u64c.list_advances [OF assms] i32c.list_advances [OF assms]
    handlec.list_advances [OF assms] stringc.list_advances [OF assms] r_bytes_advances [OF assms]
  by blast

theorem reader_stays_in_bounds_witness:
  "r_advances (Reader_init [1, 0, 0, 0, 9]) (snd (r_list r_u32 3 (Reader_init [1, 0, 0, 0, 9])))
   \<and> m_failed (snd (r_list r_u32 3 (Reader_init [1, 0, 0, 0, 9])))"
proof -
  have "m_failed (snd (r_list r_u32 3 (Reader_init [1, 0, 0, 0, 9])))" by code_simp
  then show ?thesis using reader_stays_in_bounds [of "Reader_init [1, 0, 0, 0, 9]" 3 0] by simp
qed

text \<open>
  Blobs and strings survive the wire: an array of byte strings, each shorter than 4 GiB,
  written with \<open>Writer::bytes\<close> one after another is read back by as many
  \<open>Reader::string\<close> calls, in order, with the reader positioned exactly after the last.
\<close>

theorem string_array_roundtrip:
  assumes "list_all (\<lambda>s. length s < 2 ^ 32) ss"
  shows "r_list r_string (length ss) (Reader_init (foldl w_bytes [] ss @ tail)) =
           (map Some ss, r_skip (length (foldl w_bytes [] ss)) (Reader_init (foldl w_bytes [] ss @ tail)))"
proof -
  have f: "foldl w_bytes acc ss = acc @ concat (map blob ss)" for acc
    by (induction ss arbitrary: acc) (simp_all add: wire_simps)
  show ?thesis unfolding f using stringc.list_roundtrip [OF assms, of "Reader_init _" tail] by simp
qed

theorem string_array_roundtrip_witness:
  "r_list r_string (length [[1, 2 :: byte], [], [7]]) (Reader_init (foldl w_bytes [] [[1, 2], [], [7]] @ [5])) =
     (map Some [[1, 2], [], [7]],
      r_skip (length (foldl w_bytes [] [[1, 2], [], [7]])) (Reader_init (foldl w_bytes [] [[1, 2], [], [7]] @ [5])))"
  by (rule string_array_roundtrip) simp

end
