(* ===== verification/Connection.thy ===== *)
theory Connection
  imports Wire
begin

section \<open>The client's multiplexed connection (client/remote_objects.cpp, \<open>Connection\<close>)\<close>

text \<open>
  Any thread of the application may have a request outstanding. A request registers a waiter under
  a fresh id, sends, and blocks until the waiter is done; one receiver thread matches replies to
  waiters; a watchdog pings while requests are outstanding; a failure of any kind releases every
  waiter. The critical sections under \<open>pending_mutex\<close>, and the later stores to a waiter
  under the waiter's own mutex, are separate steps, so the step relation has every interleaving the
  locks allow. Waiters are shared objects: a waiter is its position in \<open>waiters\<close>.
\<close>

subsection \<open>State\<close>

record Pending =
  p_opcode :: u32
  p_reply :: bytes
  p_done :: bool
  p_ok :: bool

text \<open>
  Beside the members of the struct: the waiters created so far; those that \<open>fail_all\<close> has
  taken out of the map and not yet released; the one the receiver has taken out and not yet
  completed, with the reply it will store; the requests of \<open>try_round_trip\<close> callers that have
  registered and not yet taken the send lock; and the waiters whose caller withdrew and returned.
\<close>

record Connection =
  pending :: "u64 \<Rightarrow> nat option"
  next_request_id :: u64
  failed :: bool
  conn_stopping :: bool
  heartbeat_enabled :: bool
  application_pending :: nat
  heartbeat_id :: u64
  waiters :: "Pending list"
  releasing :: "nat list"
  delivering :: "(nat \<times> bytes) option"
  unsent_ids :: "(u64 \<times> nat) list"
  withdrawn :: "nat list"

definition Connection_init :: Connection where
  "Connection_init = \<lparr>pending = Map.empty, next_request_id = 1, failed = False, conn_stopping = False,
     heartbeat_enabled = False, application_pending = 0, heartbeat_id = 0, waiters = [], releasing = [],
     delivering = None, unsent_ids = [], withdrawn = []\<rparr>"

definition Pending_new :: "u32 \<Rightarrow> Pending" where
  "Pending_new op = \<lparr>p_opcode = op, p_reply = [], p_done = False, p_ok = False\<rparr>"

definition kMaxPending :: nat where
  "kMaxPending = 1024"

definition kPingOpcode :: u32 where
  "kPingOpcode = 5"

subsection \<open>Request ids\<close>

text \<open>The loop that skips zero and the ids in use; nothing bounds it but the ids being finite.\<close>

partial_function (option) alloc_request_id :: "(u64 \<Rightarrow> bool) \<Rightarrow> u64 \<Rightarrow> (u64 \<times> u64) option" where
  "alloc_request_id used n =
     (if n = 0 \<or> used n then alloc_request_id used (n + 1) else Some (n, n + 1))"

lemma alloc_request_id_steps:
  "(\<forall>j<k. n + of_nat j = 0 \<or> used (n + of_nat j)) \<Longrightarrow> n + of_nat k \<noteq> 0 \<Longrightarrow> \<not> used (n + of_nat k) \<Longrightarrow>
     alloc_request_id used n = Some (n + of_nat k, n + of_nat k + 1)"
proof (induction k arbitrary: n)
  case 0
  then show ?case by (subst alloc_request_id.simps) simp
next
  case (Suc k)
  have first: "n = 0 \<or> used n" using Suc.prems(1) [rule_format, of 0] by simp
  have "\<forall>j<k. n + 1 + of_nat j = 0 \<or> used (n + 1 + of_nat j)"
  proof (intro allI impI)
    fix j assume "j < k"
    then show "n + 1 + of_nat j = 0 \<or> used (n + 1 + of_nat j)"
      using Suc.prems(1) [rule_format, of "Suc j"] by (simp add: add.assoc)
  qed
  from Suc.IH [OF this] Suc.prems(2,3) have
    "alloc_request_id used (n + 1) = Some (n + of_nat (Suc k), n + of_nat (Suc k) + 1)" by (simp add: add.assoc)
  with first show ?case by (subst alloc_request_id.simps) simp
qed

lemma alloc_request_id_total:
  assumes "free \<noteq> 0" "\<not> used free"
  obtains i where "alloc_request_id used n = Some (i, i + 1)" "i \<noteq> 0" "\<not> used i"
proof -
  let ?P = "\<lambda>k. n + of_nat k \<noteq> 0 \<and> \<not> used (n + of_nat k)"
  have "n + of_nat (unat (free - n)) = free" by simp
  with assms have ex: "?P (unat (free - n))" by simp
  define k where "k = (LEAST k. ?P k)"
  have k: "?P k" unfolding k_def by (rule LeastI) (rule ex)
  have "\<forall>j<k. n + of_nat j = 0 \<or> used (n + of_nat j)"
    using not_less_Least unfolding k_def by blast
  from alloc_request_id_steps [OF this] k that show thesis by blast
qed

subsection \<open>Operations\<close>

definition pending_size :: "Connection \<Rightarrow> nat" where
  "pending_size c = card (dom (pending c))"

text \<open>\<open>round_trip\<close> and \<open>try_round_trip\<close>, first critical section.\<close>

definition register_request :: "u32 \<Rightarrow> Connection \<Rightarrow> (u64 \<times> Connection) option" where
  "register_request op c =
     (if failed c \<or> pending_size c \<ge> kMaxPending then None
      else case alloc_request_id (\<lambda>i. pending c i \<noteq> None) (next_request_id c) of
        None \<Rightarrow> None
      | Some (rid, next) \<Rightarrow>
          Some (rid, c\<lparr>next_request_id := next, waiters := waiters c @ [Pending_new op],
            pending := (pending c)(rid \<mapsto> length (waiters c)), application_pending := application_pending c + 1\<rparr>))"

definition try_register :: "u32 \<Rightarrow> Connection \<Rightarrow> Connection option" where
  "try_register op c = map_option (\<lambda>(rid, c'). c'\<lparr>unsent_ids := (rid, length (waiters c)) # unsent_ids c\<rparr>) (register_request op c)"

text \<open>The send lock was taken and the message sent; or it was not, and the request is withdrawn.\<close>

definition try_sent :: "u64 \<times> nat \<Rightarrow> Connection \<Rightarrow> Connection" where
  "try_sent r c = c\<lparr>unsent_ids := remove1 r (unsent_ids c)\<rparr>"

definition dec_application_pending :: "Connection \<Rightarrow> Connection" where
  "dec_application_pending c =
     (if application_pending c \<noteq> 0 then c\<lparr>application_pending := application_pending c - 1\<rparr> else c)"

definition withdraw_request :: "u64 \<times> nat \<Rightarrow> Connection \<Rightarrow> Connection" where
  "withdraw_request r c =
     dec_application_pending (c\<lparr>pending := (pending c)(fst r := None),
       unsent_ids := remove1 r (unsent_ids c),
       withdrawn := (if pending c (fst r) = None then withdrawn c else snd r # withdrawn c)\<rparr>)"

text \<open>\<open>watchdog_loop\<close>, registering a ping.\<close>

definition register_heartbeat :: "Connection \<Rightarrow> (u64 \<times> Connection) option" where
  "register_heartbeat c =
     (if conn_stopping c \<or> failed c \<or> \<not> heartbeat_enabled c \<or> heartbeat_id c \<noteq> 0 \<or> application_pending c = 0 then None
      else case alloc_request_id (\<lambda>i. pending c i \<noteq> None) (next_request_id c) of
        None \<Rightarrow> None
      | Some (rid, next) \<Rightarrow>
          Some (rid, c\<lparr>next_request_id := next, waiters := waiters c @ [Pending_new kPingOpcode],
            pending := (pending c)(rid \<mapsto> length (waiters c)), heartbeat_id := rid\<rparr>))"

text \<open>
  What the watchdog does when the wait for its ping's answer is over: the connection is given up only
  if the ping is unanswered while an application request is outstanding.
\<close>

datatype heartbeat_verdict = HeartbeatFail | HeartbeatPark | HeartbeatContinue

definition watchdog_verdict :: "bool \<Rightarrow> u64 \<Rightarrow> Connection \<Rightarrow> heartbeat_verdict" where
  "watchdog_verdict completed rid c =
     (if \<not> completed \<and> heartbeat_id c = rid \<and> application_pending c \<noteq> 0 \<and> \<not> conn_stopping c \<and> \<not> failed c then HeartbeatFail
      else if \<not> completed \<and> heartbeat_id c = rid then HeartbeatPark
      else HeartbeatContinue)"

text \<open>\<open>fail_all\<close>: the part under \<open>pending_mutex\<close>, then the release of one waiter.\<close>

definition fail_all :: "nat list \<Rightarrow> Connection \<Rightarrow> Connection" where
  "fail_all order c =
     (if failed c then c
      else c\<lparr>failed := True, conn_stopping := True, application_pending := 0, heartbeat_id := 0,
             releasing := releasing c @ order, pending := Map.empty\<rparr>)"

definition release_waiter :: "nat \<Rightarrow> Connection \<Rightarrow> Connection" where
  "release_waiter w c =
     c\<lparr>waiters := (waiters c)[w := (waiters c ! w)\<lparr>p_done := True, p_ok := False\<rparr>], releasing := remove1 w (releasing c)\<rparr>"

text \<open>\<open>receive_loop\<close>: matching a message, then completing its waiter.\<close>

definition match_reply :: "MessageHeader \<Rightarrow> bytes \<Rightarrow> Connection \<Rightarrow> Connection option" where
  "match_reply h payload c =
     (case pending c (request_id h) of
        None \<Rightarrow> None
      | Some w \<Rightarrow>
          if request_id h = 0 \<or> opcode h \<noteq> p_opcode (waiters c ! w) then None
          else Some ((if request_id h = heartbeat_id c then c\<lparr>heartbeat_id := 0\<rparr> else dec_application_pending c)
                 \<lparr>pending := (pending c)(request_id h := None), delivering := Some (w, payload)\<rparr>))"

definition reply_status_ok :: "bytes \<Rightarrow> bool" where
  "reply_status_ok payload \<longleftrightarrow> length payload \<ge> 4 \<and> (of_le_bytes (take 4 payload) :: u32) = status_code Ok"

definition complete_waiter :: "Connection \<Rightarrow> Connection" where
  "complete_waiter c =
     (case delivering c of None \<Rightarrow> c
      | Some (w, payload) \<Rightarrow>
          c\<lparr>waiters := (waiters c)[w := (waiters c ! w)\<lparr>p_reply := payload, p_done := True, p_ok := reply_status_ok payload\<rparr>],
            delivering := None\<rparr>)"

definition enable_heartbeat :: "Connection \<Rightarrow> Connection" where
  "enable_heartbeat c = c\<lparr>heartbeat_enabled := True\<rparr>"

subsection \<open>Interleavings\<close>

text \<open>
  The receiver handles one message at a time; a message that matches nothing, a closed socket, a
  failed send and a missed heartbeat all lead to \<open>fail_all\<close>, which may therefore happen at any
  time and visits the waiters of the map in any order. The peer answers requests it was sent: a reply
  to a request that its \<open>try_round_trip\<close> caller has not sent yet is the one thing it does not do.
\<close>

inductive conn_step :: "Connection \<Rightarrow> Connection \<Rightarrow> bool" where
  register: "register_request op c = Some (i, c') \<Longrightarrow> conn_step c c'"
| try_register: "try_register op c = Some c' \<Longrightarrow> conn_step c c'"
| try_sent: "r \<in> set (unsent_ids c) \<Longrightarrow> conn_step c (try_sent r c)"
| withdraw: "r \<in> set (unsent_ids c) \<Longrightarrow> conn_step c (withdraw_request r c)"
| heartbeat: "register_heartbeat c = Some (i, c') \<Longrightarrow> conn_step c c'"
| enable: "conn_step c (enable_heartbeat c)"
| matching: "delivering c = None \<Longrightarrow> match_reply h payload c = Some c' \<Longrightarrow> request_id h \<notin> fst ` set (unsent_ids c) \<Longrightarrow>
    conn_step c c'"
| complete: "delivering c \<noteq> None \<Longrightarrow> conn_step c (complete_waiter c)"
| fail: "set order = ran (pending c) \<Longrightarrow> distinct order \<Longrightarrow> conn_step c (fail_all order c)"
| release: "w \<in> set (releasing c) \<Longrightarrow> conn_step c (release_waiter w c)"

inductive_cases conn_stepE: "conn_step c c'"

subsection \<open>Invariant\<close>

text \<open>
  A waiter that is not done and not withdrawn is in exactly one place: the map, the receiver's hand,
  or the list that \<open>fail_all\<close> is releasing. After a failure the map is empty.
\<close>

definition in_hand :: "Connection \<Rightarrow> nat set" where
  "in_hand c = (case delivering c of None \<Rightarrow> {} | Some (w, _) \<Rightarrow> {w})"

definition waiting :: "Connection \<Rightarrow> nat set" where
  "waiting c = {w. w < length (waiters c) \<and> \<not> p_done (waiters c ! w) \<and> w \<notin> set (withdrawn c)}"

definition waiters_inv :: "Connection \<Rightarrow> bool" where
  "waiters_inv c \<longleftrightarrow> ran (pending c) \<union> set (releasing c) \<union> in_hand c = waiting c
     \<and> (\<forall>i j w. pending c i = Some w \<longrightarrow> pending c j = Some w \<longrightarrow> i = j)
     \<and> distinct (releasing c) \<and> ran (pending c) \<inter> set (releasing c) = {}
     \<and> in_hand c \<inter> (ran (pending c) \<union> set (releasing c)) = {}
     \<and> set (withdrawn c) \<subseteq> {..<length (waiters c)}"

definition ids_wf :: "Connection \<Rightarrow> bool" where
  "ids_wf c \<longleftrightarrow> pending c 0 = None
     \<and> card (dom (pending c) - {heartbeat_id c}) \<le> kMaxPending
     \<and> (failed c \<longrightarrow> pending c = Map.empty)
     \<and> (heartbeat_id c \<noteq> 0 \<longrightarrow> pending c (heartbeat_id c) \<noteq> None)
     \<and> application_pending c = card (dom (pending c) - {heartbeat_id c})"

definition unsent_wf :: "Connection \<Rightarrow> bool" where
  "unsent_wf c \<longleftrightarrow> (\<forall>i w. \<not> failed c \<longrightarrow> (i, w) \<in> set (unsent_ids c) \<longrightarrow> pending c i = Some w \<and> i \<noteq> heartbeat_id c)
     \<and> distinct (unsent_ids c)"

definition conn_inv :: "Connection \<Rightarrow> bool" where
  "conn_inv c \<longleftrightarrow> waiters_inv c \<and> ids_wf c \<and> unsent_wf c"

lemma ran_remove: "\<forall>i j w. m i = Some w \<longrightarrow> m j = Some w \<longrightarrow> i = j \<Longrightarrow> m i = Some w \<Longrightarrow> ran (m(i := None)) = ran m - {w}"
  unfolding ran_def by (auto split: if_splits) (metis option.inject)

lemma pending_size_bound: "ids_wf c \<Longrightarrow> pending_size c \<le> Suc kMaxPending"
  using card_Diff_singleton_if [of "dom (pending c)" "heartbeat_id c"]
  unfolding ids_wf_def pending_size_def by (auto split: if_splits)

lemma alloc_in_use:
  assumes "ids_wf c"
  shows "\<exists>i. alloc_request_id (\<lambda>i. pending c i \<noteq> None) n = Some (i, i + 1) \<and> i \<noteq> 0 \<and> pending c i = None"
proof -
  have "card (insert 0 (dom (pending c))) \<le> Suc (Suc kMaxPending)"
    using pending_size_bound [OF assms] by (simp add: pending_size_def card_insert_if)
  then have "insert 0 (dom (pending c)) \<noteq> UNIV" by (auto simp: kMaxPending_def card_word)
  then obtain free where "free \<noteq> 0" "pending c free = None" by auto
  then show ?thesis
    using alloc_request_id_total [of free "\<lambda>i. pending c i \<noteq> None" n] by (metis (mono_tags))
qed

lemma waiters_inv_register:
  assumes "waiters_inv c" "pending c i = None"
  shows "waiters_inv (c\<lparr>next_request_id := n, waiters := waiters c @ [Pending_new op],
    pending := (pending c)(i \<mapsto> length (waiters c))\<rparr>)"
proof -
  let ?n = "length (waiters c)"
  from assms(1) have fresh: "?n \<notin> ran (pending c)" "?n \<notin> set (releasing c)" "?n \<notin> in_hand c" "?n \<notin> set (withdrawn c)"
    unfolding waiters_inv_def waiting_def by blast+
  have "waiting (c\<lparr>next_request_id := n, waiters := waiters c @ [Pending_new op],
    pending := (pending c)(i \<mapsto> ?n)\<rparr>) = insert ?n (waiting c)"
    using fresh(4) by (auto simp: waiting_def nth_append Pending_new_def less_Suc_eq)
  with assms fresh show ?thesis
    by (auto simp: waiters_inv_def in_hand_def ran_map_upd dest: ranI split: option.splits)
qed

lemma waiters_inv_other [simp]:
  "waiters_inv (c\<lparr>application_pending := a\<rparr>) = waiters_inv c" "waiters_inv (c\<lparr>heartbeat_id := h\<rparr>) = waiters_inv c"
  "waiters_inv (c\<lparr>heartbeat_enabled := e\<rparr>) = waiters_inv c" "waiters_inv (c\<lparr>unsent_ids := u\<rparr>) = waiters_inv c"
  by (simp_all add: waiters_inv_def in_hand_def waiting_def)

lemma waiters_inv_cong:
  "waiters_inv c \<Longrightarrow> pending c' = pending c \<Longrightarrow> waiters c' = waiters c \<Longrightarrow> releasing c' = releasing c \<Longrightarrow>
   delivering c' = delivering c \<Longrightarrow> withdrawn c' = withdrawn c \<Longrightarrow> waiters_inv c'"
  by (simp add: waiters_inv_def in_hand_def waiting_def)

lemma waiters_inv_dec [simp]: "waiters_inv (dec_application_pending c) = waiters_inv c"
  by (simp add: dec_application_pending_def)

lemma dec_fields [simp]:
  "pending (dec_application_pending c) = pending c" "waiters (dec_application_pending c) = waiters c"
  "failed (dec_application_pending c) = failed c" "heartbeat_id (dec_application_pending c) = heartbeat_id c"
  "unsent_ids (dec_application_pending c) = unsent_ids c" "releasing (dec_application_pending c) = releasing c"
  "delivering (dec_application_pending c) = delivering c" "withdrawn (dec_application_pending c) = withdrawn c"
  "application_pending (dec_application_pending c) = application_pending c - 1"
  by (simp_all add: dec_application_pending_def)

lemma waiters_inv_withdraw:
  assumes "waiters_inv c" "pending c i = Some w"
  shows "waiters_inv (c\<lparr>pending := (pending c)(i := None), unsent_ids := u, withdrawn := w # withdrawn c\<rparr>)"
proof -
  have "w \<in> ran (pending c)" using assms(2) by (rule ranI)
  moreover have "ran ((pending c)(i := None)) = ran (pending c) - {w}"
    using assms by (intro ran_remove) (auto simp: waiters_inv_def)
  ultimately show ?thesis using assms
    by (auto simp: waiters_inv_def waiting_def in_hand_def split: option.splits if_splits)
qed

lemma waiters_inv_match:
  assumes "waiters_inv c" "pending c i = Some w" "delivering c = None"
  shows "waiters_inv (c\<lparr>pending := (pending c)(i := None), delivering := Some (w, p)\<rparr>)"
proof -
  have "w \<in> ran (pending c)" using assms(2) by (rule ranI)
  moreover have "ran ((pending c)(i := None)) = ran (pending c) - {w}"
    using assms by (intro ran_remove) (auto simp: waiters_inv_def)
  ultimately show ?thesis using assms
    by (auto simp: waiters_inv_def waiting_def in_hand_def split: option.splits if_splits)
qed

lemma waiting_done: "p_done q \<Longrightarrow> waiting (c\<lparr>waiters := (waiters c)[w := q]\<rparr>) = waiting c - {w}"
  by (cases "w < length (waiters c)") (auto simp: waiting_def nth_list_update list_update_beyond split: if_splits)

lemma waiters_inv_complete:
  assumes "waiters_inv c" "delivering c = Some (w, p)" "p_done q"
  shows "waiters_inv (c\<lparr>waiters := (waiters c)[w := q], delivering := None\<rparr>)"
  using assms waiting_done [of q c w] by (auto simp: waiters_inv_def in_hand_def waiting_def)

lemma waiters_inv_release:
  assumes "waiters_inv c" "w \<in> set (releasing c)" "p_done q"
  shows "waiters_inv (c\<lparr>waiters := (waiters c)[w := q], releasing := remove1 w (releasing c)\<rparr>)"
proof -
  let ?c = "c\<lparr>waiters := (waiters c)[w := q], releasing := remove1 w (releasing c)\<rparr>"
  have "waiting ?c = waiting c - {w}" using waiting_done [OF assms(3), of c w] by (simp add: waiting_def)
  moreover have "w \<notin> ran (pending c)" "w \<notin> in_hand c" using assms unfolding waiters_inv_def by blast+
  moreover have "set (releasing ?c) = set (releasing c) - {w}" using assms by (simp add: waiters_inv_def)
  moreover have "in_hand ?c = in_hand c" by (simp add: in_hand_def)
  ultimately show ?thesis using assms(1) unfolding waiters_inv_def by auto
qed

lemma waiters_inv_fail:
  assumes "waiters_inv c" "set order = ran (pending c)" "distinct order"
  shows "waiters_inv (fail_all order c)"
  using assms by (auto simp: waiters_inv_def fail_all_def waiting_def in_hand_def)

lemma ids_wf_insert:
  assumes "ids_wf c" "pending c i = None" "i \<noteq> 0" "\<not> failed c" "heartbeat_id c \<noteq> i"
    and "card (dom (pending c) - {heartbeat_id c}) < kMaxPending"
  shows "ids_wf (c\<lparr>next_request_id := n, waiters := ws, pending := (pending c)(i \<mapsto> w),
    application_pending := application_pending c + 1\<rparr>)"
proof -
  have "dom ((pending c)(i \<mapsto> w)) - {heartbeat_id c} = insert i (dom (pending c) - {heartbeat_id c})" using assms(5) by auto
  moreover have "i \<notin> dom (pending c) - {heartbeat_id c}" using assms(2) by auto
  ultimately have "card (dom ((pending c)(i \<mapsto> w)) - {heartbeat_id c}) = Suc (card (dom (pending c) - {heartbeat_id c}))"
    by (metis card_insert_disjoint finite)
  with assms show ?thesis by (simp add: ids_wf_def)
qed

lemma ids_wf_heartbeat:
  assumes "ids_wf c" "pending c i = None" "i \<noteq> 0" "\<not> failed c" "heartbeat_id c = 0"
  shows "ids_wf (c\<lparr>next_request_id := n, waiters := ws, pending := (pending c)(i \<mapsto> w), heartbeat_id := i\<rparr>)"
proof -
  have "dom ((pending c)(i \<mapsto> w)) - {i} = dom (pending c)" using assms(2) by auto
  moreover have "dom (pending c) - {0} = dom (pending c)" using assms(1) by (auto simp: ids_wf_def)
  ultimately show ?thesis using assms by (simp add: ids_wf_def)
qed

lemma ids_wf_remove:
  assumes "ids_wf c" "pending c i = Some w" "i \<noteq> heartbeat_id c"
  shows "ids_wf ((dec_application_pending c)\<lparr>pending := (pending c)(i := None)\<rparr>)"
proof -
  have "dom (pending c) - {i} - {heartbeat_id c} = dom (pending c) - {heartbeat_id c} - {i}" by auto
  moreover have "i \<in> dom (pending c) - {heartbeat_id c}" using assms by auto
  ultimately have "card (dom (pending c) - {i} - {heartbeat_id c}) = card (dom (pending c) - {heartbeat_id c}) - 1"
    by (metis card_Diff_singleton)
  with assms show ?thesis by (auto simp: ids_wf_def)
qed

lemma ids_wf_remove_heartbeat:
  assumes "ids_wf c" "pending c (heartbeat_id c) = Some w"
  shows "ids_wf (c\<lparr>heartbeat_id := 0, pending := (pending c)(heartbeat_id c := None)\<rparr>)"
proof -
  have "dom (pending c) - {heartbeat_id c} - {0} = dom (pending c) - {heartbeat_id c}"
    using assms(1) by (auto simp: ids_wf_def)
  with assms show ?thesis by (auto simp: ids_wf_def)
qed

lemma unsent_wf_other [simp]:
  "unsent_wf (c\<lparr>waiters := ws\<rparr>) = unsent_wf c" "unsent_wf (c\<lparr>releasing := r\<rparr>) = unsent_wf c"
  "unsent_wf (c\<lparr>delivering := d\<rparr>) = unsent_wf c" "unsent_wf (c\<lparr>heartbeat_enabled := e\<rparr>) = unsent_wf c"
  by (simp_all add: unsent_wf_def)

lemma ids_wf_other [simp]:
  "ids_wf (c\<lparr>waiters := ws\<rparr>) = ids_wf c" "ids_wf (c\<lparr>releasing := r\<rparr>) = ids_wf c"
  "ids_wf (c\<lparr>delivering := d\<rparr>) = ids_wf c" "ids_wf (c\<lparr>heartbeat_enabled := e\<rparr>) = ids_wf c"
  "ids_wf (c\<lparr>unsent_ids := u\<rparr>) = ids_wf c" "ids_wf (c\<lparr>withdrawn := v\<rparr>) = ids_wf c"
  by (simp_all add: ids_wf_def)

subsection \<open>Every step keeps it\<close>

lemma unsent_wf_pending_mono:
  "unsent_wf c \<Longrightarrow> failed c' = failed c \<Longrightarrow> unsent_ids c' = unsent_ids c \<Longrightarrow>
   (\<And>j v. (j, v) \<in> set (unsent_ids c) \<Longrightarrow> pending c j = Some v \<Longrightarrow> j \<noteq> heartbeat_id c \<Longrightarrow>
      pending c' j = Some v \<and> j \<noteq> heartbeat_id c') \<Longrightarrow> unsent_wf c'"
  unfolding unsent_wf_def by (metis (no_types, lifting))

lemma register_request_some:
  assumes "register_request op c = Some (i, c')" "ids_wf c"
  shows "i \<noteq> 0 \<and> pending c i = None \<and> \<not> failed c \<and> pending_size c < kMaxPending \<and>
    c' = c\<lparr>next_request_id := i + 1, waiters := waiters c @ [Pending_new op],
            pending := (pending c)(i \<mapsto> length (waiters c)), application_pending := application_pending c + 1\<rparr>"
  using assms(1) alloc_in_use [OF assms(2), of "next_request_id c"]
  by (auto simp: register_request_def split: if_splits)

lemma register_heartbeat_some:
  assumes "register_heartbeat c = Some (i, c')" "ids_wf c"
  shows "i \<noteq> 0 \<and> pending c i = None \<and> \<not> failed c \<and> heartbeat_id c = 0 \<and>
    c' = c\<lparr>next_request_id := i + 1, waiters := waiters c @ [Pending_new kPingOpcode],
            pending := (pending c)(i \<mapsto> length (waiters c)), heartbeat_id := i\<rparr>"
  using assms(1) alloc_in_use [OF assms(2), of "next_request_id c"]
  by (auto simp: register_heartbeat_def split: if_splits)

lemma conn_inv_register:
  assumes "conn_inv c" "register_request op c = Some (i, c')"
  shows "conn_inv c'"
proof -
  note r = register_request_some [OF assms(2)]
  have inv: "waiters_inv c" "ids_wf c" "unsent_wf c" using assms(1) by (simp_all add: conn_inv_def)
  note r = r [OF inv(2)]
  have "card (dom (pending c) - {heartbeat_id c}) \<le> pending_size c"
    unfolding pending_size_def by (rule card_mono) auto
  with r have small: "card (dom (pending c) - {heartbeat_id c}) < kMaxPending" by simp
  have "heartbeat_id c \<noteq> i" using r inv(2) by (auto simp: ids_wf_def)
  with r inv small have "ids_wf c'" using ids_wf_insert [of c i] by simp
  moreover have "waiters_inv c'" using r waiters_inv_register [OF inv(1), of i] by simp
  moreover have "unsent_wf c'" by (rule unsent_wf_pending_mono [OF inv(3)]) (use r in auto)
  ultimately show ?thesis by (simp add: conn_inv_def)
qed

lemma conn_inv_try_register:
  assumes "conn_inv c" "try_register op c = Some c'"
  shows "conn_inv c'"
proof -
  obtain i c1 where c1: "register_request op c = Some (i, c1)"
    and c': "c' = c1\<lparr>unsent_ids := (i, length (waiters c)) # unsent_ids c\<rparr>"
    using assms(2) by (auto simp: try_register_def)
  note inv = conn_inv_register [OF assms(1) c1]
  have "ids_wf c" using assms(1) by (simp add: conn_inv_def)
  note r = register_request_some [OF c1 this]
  have "heartbeat_id c \<noteq> i" using r assms(1) by (auto simp: conn_inv_def ids_wf_def)
  moreover have "(i, length (waiters c)) \<notin> set (unsent_ids c)"
    using r assms(1) by (auto simp: conn_inv_def unsent_wf_def)
  moreover have "unsent_wf c1" "unsent_ids c1 = unsent_ids c" "pending c1 i = Some (length (waiters c))" "heartbeat_id c1 = heartbeat_id c"
    using inv r by (simp_all add: conn_inv_def)
  ultimately have "unsent_wf c'" unfolding c' unsent_wf_def by auto
  then show ?thesis using inv c' by (simp add: conn_inv_def)
qed

lemma conn_inv_heartbeat:
  assumes "conn_inv c" "register_heartbeat c = Some (i, c')"
  shows "conn_inv c'"
proof -
  have inv: "waiters_inv c" "ids_wf c" "unsent_wf c" using assms(1) by (simp_all add: conn_inv_def)
  note r = register_heartbeat_some [OF assms(2) inv(2)]
  have "ids_wf c'" using r ids_wf_heartbeat [OF inv(2), of i] by simp
  moreover have "waiters_inv c'" using r waiters_inv_register [OF inv(1), of i] by simp
  moreover have "unsent_wf c'" by (rule unsent_wf_pending_mono [OF inv(3)]) (use r in auto)
  ultimately show ?thesis by (simp add: conn_inv_def)
qed

lemma conn_inv_withdraw:
  assumes "conn_inv c" "r \<in> set (unsent_ids c)"
  shows "conn_inv (withdraw_request r c)"
proof -
  have inv: "waiters_inv c" "ids_wf c" "unsent_wf c" using assms(1) by (simp_all add: conn_inv_def)
  show ?thesis
  proof (cases "failed c")
    case True
    then have e: "pending c = Map.empty" "application_pending c = 0" using inv(2) by (auto simp: ids_wf_def)
    then have "withdraw_request r c = c\<lparr>unsent_ids := remove1 r (unsent_ids c)\<rparr>"
      by (simp add: withdraw_request_def dec_application_pending_def)
    then show ?thesis using inv True by (simp add: conn_inv_def unsent_wf_def)
  next
    case False
    obtain i w where r: "r = (i, w)" by fastforce
    with False inv(3) assms(2) have p: "pending c i = Some w" "i \<noteq> heartbeat_id c" by (auto simp: unsent_wf_def)
    have "waiters_inv (withdraw_request r c)"
      using waiters_inv_withdraw [OF inv(1) p(1)] p r by (simp add: withdraw_request_def)
    moreover have "ids_wf (withdraw_request r c)"
      using ids_wf_remove [OF inv(2) p] r p by (simp add: withdraw_request_def ids_wf_def)
    moreover have "unsent_wf (withdraw_request r c)"
    proof -
      have "j \<noteq> i" if "(j, v) \<in> set (remove1 r (unsent_ids c))" for j v
        using that inv(3) r p False by (force simp: unsent_wf_def)
      moreover have "set (remove1 r (unsent_ids c)) \<subseteq> set (unsent_ids c)" by (rule set_remove1_subset)
      ultimately show ?thesis using inv(3) r p by (auto simp: unsent_wf_def withdraw_request_def)
    qed
    ultimately show ?thesis by (simp add: conn_inv_def)
  qed
qed

lemma Pending_completed: "q\<lparr>p_reply := r, p_done := d, p_ok := k\<rparr> = \<lparr>p_opcode = p_opcode q, p_reply = r, p_done = d, p_ok = k\<rparr>"
  by (cases q) simp

lemma match_reply_some:
  assumes "match_reply h payload c = Some c'"
  obtains w where "pending c (request_id h) = Some w" "request_id h \<noteq> 0" "opcode h = p_opcode (waiters c ! w)"
    "c' = (if request_id h = heartbeat_id c then c\<lparr>heartbeat_id := 0\<rparr> else dec_application_pending c)
            \<lparr>pending := (pending c)(request_id h := None), delivering := Some (w, payload)\<rparr>"
  using assms by (auto simp: match_reply_def split: option.splits if_splits)

lemma conn_inv_match:
  assumes "conn_inv c" "delivering c = None" "match_reply h payload c = Some c'" "request_id h \<notin> fst ` set (unsent_ids c)"
  shows "conn_inv c'"
proof -
  have inv: "waiters_inv c" "ids_wf c" "unsent_wf c" using assms(1) by (simp_all add: conn_inv_def)
  from assms(3) obtain w where w: "pending c (request_id h) = Some w" "request_id h \<noteq> 0"
    and c': "c' = (if request_id h = heartbeat_id c then c\<lparr>heartbeat_id := 0\<rparr> else dec_application_pending c)
            \<lparr>pending := (pending c)(request_id h := None), delivering := Some (w, payload)\<rparr>"
    by (rule match_reply_some)
  have "waiters_inv c'"
    by (rule waiters_inv_cong [OF waiters_inv_match [OF inv(1) w(1) assms(2), of payload]]) (simp_all add: c')
  moreover have "ids_wf c'"
  proof (cases "request_id h = heartbeat_id c")
    case True
    with ids_wf_remove_heartbeat [OF inv(2), of w] w c' show ?thesis by simp
  next
    case False
    with ids_wf_remove [OF inv(2) w(1)] c' show ?thesis by simp
  qed
  moreover have "unsent_wf c'"
  proof (rule unsent_wf_pending_mono [OF inv(3)])
    fix j v assume j: "(j, v) \<in> set (unsent_ids c)" "pending c j = Some v" "j \<noteq> heartbeat_id c"
    then have "j \<noteq> request_id h" "j \<noteq> 0" using assms(4) inv(2) by (force simp: ids_wf_def)+
    with j c' show "pending c' j = Some v \<and> j \<noteq> heartbeat_id c'" by simp
  qed (simp_all add: c')
  ultimately show ?thesis by (simp add: conn_inv_def)
qed

lemma conn_inv_step: "conn_step c c' \<Longrightarrow> conn_inv c \<Longrightarrow> conn_inv c'"
proof (induction rule: conn_step.induct)
  case (try_sent r c)
  then show ?case by (auto simp: conn_inv_def try_sent_def unsent_wf_def dest: notin_set_remove1)
next
  case (complete c)
  then show ?case
    using waiters_inv_complete by (auto simp: conn_inv_def complete_waiter_def)
next
  case (fail order c)
  then show ?case using waiters_inv_fail by (auto simp: conn_inv_def fail_all_def ids_wf_def unsent_wf_def)
next
  case (release w c)
  then show ?case using waiters_inv_release by (auto simp: conn_inv_def release_waiter_def)
next
  case (enable c)
  then show ?case by (simp add: enable_heartbeat_def conn_inv_def)
qed (blast intro: conn_inv_register conn_inv_try_register conn_inv_heartbeat conn_inv_withdraw conn_inv_match)+

lemma conn_inv_init: "conn_inv Connection_init"
  by (simp add: Connection_init_def conn_inv_def waiters_inv_def ids_wf_def unsent_wf_def in_hand_def waiting_def)

interpretation conn: invariant_system "\<lambda>c. c = Connection_init" conn_step conn_inv
  by unfold_locales (simp_all add: conn_inv_init conn_inv_step)

subsection \<open>Releasing the waiters after a failure\<close>

inductive drain_step :: "Connection \<Rightarrow> Connection \<Rightarrow> bool" where
  "delivering c \<noteq> None \<Longrightarrow> drain_step c (complete_waiter c)"
| "w \<in> set (releasing c) \<Longrightarrow> drain_step c (release_waiter w c)"

lemma drain_conn_step: "drain_step c c' \<Longrightarrow> conn_step c c'"
  by (auto elim!: drain_step.cases intro: conn_step.intros)

definition drain_work :: "Connection \<Rightarrow> nat" where
  "drain_work c = length (releasing c) + (if delivering c = None then 0 else 1)"

interpretation drain: draining_system drain_step "\<lambda>c. conn_inv c \<and> failed c" drain_work "\<lambda>c. waiting c = {}"
proof
  fix c c' assume inv: "conn_inv c \<and> failed c" and step: "drain_step c c'"
  from step inv show "conn_inv c' \<and> failed c'"
    using conn_inv_step [OF drain_conn_step [OF step]]
    by (cases rule: drain_step.cases) (auto simp: complete_waiter_def release_waiter_def split: option.splits)
  from step show "drain_work c' < drain_work c"
    by (cases rule: drain_step.cases)
      (auto simp: complete_waiter_def release_waiter_def drain_work_def length_remove1 dest: length_pos_if_in_set split: option.splits)
next
  fix c assume inv: "conn_inv c \<and> failed c" and more: "waiting c \<noteq> {}"
  then have "set (releasing c) \<noteq> {} \<or> delivering c \<noteq> None"
    by (cases "delivering c") (auto simp: conn_inv_def waiters_inv_def ids_wf_def in_hand_def)
  then show "\<exists>c'. drain_step c c'" by (meson drain_step.intros ex_in_conv)
qed

subsection \<open>A completed request is final\<close>

lemma waiter_done_final: "conn_step c c' \<Longrightarrow> conn_inv c \<Longrightarrow> w < length (waiters c) \<Longrightarrow> p_done (waiters c ! w) \<Longrightarrow>
   w < length (waiters c') \<and> waiters c' ! w = waiters c ! w"
proof (induction rule: conn_step.induct)
  case (register op c i c')
  then show ?case using register_request_some [of op c i c'] by (auto simp: nth_append conn_inv_def)
next
  case (try_register op c c')
  then obtain i c1 where "register_request op c = Some (i, c1)" "waiters c' = waiters c1"
    by (auto simp: try_register_def)
  with try_register show ?case using register_request_some [of op c i c1] by (auto simp: nth_append conn_inv_def)
next
  case (heartbeat c i c')
  then show ?case using register_heartbeat_some [of c i c'] by (auto simp: nth_append conn_inv_def)
next
  case (matching c h payload c')
  from matching(2) show ?case by (rule match_reply_some) (use matching in simp)
next
  case (complete c)
  then have "w \<notin> in_hand c" by (auto simp: conn_inv_def waiters_inv_def waiting_def)
  with complete show ?case by (auto simp: complete_waiter_def in_hand_def split: option.splits)
next
  case (release v c)
  then have "v \<in> waiting c" unfolding conn_inv_def waiters_inv_def by blast
  with release have "v \<noteq> w" by (auto simp: waiting_def)
  with release show ?case by (simp add: release_waiter_def)
qed (simp_all add: try_sent_def withdraw_request_def enable_heartbeat_def fail_all_def)

lemma waiter_done_final_steps: "conn_step\<^sup>*\<^sup>* c c' \<Longrightarrow> conn_inv c \<Longrightarrow> w < length (waiters c) \<Longrightarrow> p_done (waiters c ! w) \<Longrightarrow>
   w < length (waiters c') \<and> waiters c' ! w = waiters c ! w"
proof (induction rule: rtranclp_induct)
  case (step d d')
  then show ?case using waiter_done_final [OF step(2) conn.steps_inv [OF step(1)]] by simp
qed simp

subsection \<open>Properties\<close>

text \<open>
  C17. Request registration. In every reachable state of a connection that has not failed and has
  fewer than 1024 requests outstanding, the id loop ends and the request is registered under an id
  that is not zero and not in use; a ping can always be registered when the watchdog asks for one, so
  at most 1025 ids are ever in use.
\<close>

theorem register_request_fresh:
  assumes "conn_step\<^sup>*\<^sup>* Connection_init c" "\<not> failed c"
  shows "(pending_size c < kMaxPending \<longrightarrow>
      (\<exists>i c'. register_request op c = Some (i, c') \<and> i \<noteq> 0 \<and> pending c i = None
        \<and> pending c' = (pending c)(i \<mapsto> length (waiters c)) \<and> waiters c' = waiters c @ [Pending_new op]))
    \<and> (heartbeat_enabled c \<and> \<not> conn_stopping c \<and> heartbeat_id c = 0 \<and> application_pending c \<noteq> 0 \<longrightarrow>
      (\<exists>i c'. register_heartbeat c = Some (i, c') \<and> i \<noteq> 0 \<and> pending c i = None \<and> heartbeat_id c' = i))
    \<and> pending_size c \<le> 1025"
proof -
  have wf: "ids_wf c" using conn.reachable_inv [OF refl assms(1)] by (simp add: conn_inv_def)
  obtain i where "alloc_request_id (\<lambda>i. pending c i \<noteq> None) (next_request_id c) = Some (i, i + 1)" "i \<noteq> 0" "pending c i = None"
    using alloc_in_use [OF wf] by blast
  with assms(2) pending_size_bound [OF wf] show ?thesis
    by (simp add: register_request_def register_heartbeat_def kMaxPending_def)
qed

definition conn_example :: Connection where
  "conn_example = snd (the (register_request 7 Connection_init))"

lemma conn_example_eq: "conn_example = Connection_init\<lparr>next_request_id := 2, waiters := [Pending_new 7],
    pending := [1 \<mapsto> 0], application_pending := 1\<rparr>"
  unfolding conn_example_def
  by (simp add: register_request_def pending_size_def kMaxPending_def Connection_init_def)
    (subst alloc_request_id.simps, simp)

lemma conn_example_reachable: "conn_step\<^sup>*\<^sup>* Connection_init conn_example"
proof -
  have "register_request 7 Connection_init = Some (1, conn_example)" unfolding conn_example_eq
    by (simp add: register_request_def pending_size_def kMaxPending_def Connection_init_def)
      (subst alloc_request_id.simps, simp)
  then show ?thesis by (auto intro: conn_step.register)
qed

lemma conn_example_failed: "conn_step\<^sup>*\<^sup>* Connection_init (fail_all [0] conn_example)"
  by (rule rtranclp.rtrancl_into_rtrancl [OF conn_example_reachable], rule conn_step.fail) (simp_all add: conn_example_eq)

theorem register_request_fresh_witness:
  "\<exists>i c'. register_request 9 conn_example = Some (i, c') \<and> i \<noteq> 0 \<and> i \<noteq> 1 \<and> p_opcode (waiters c' ! 1) = 9"
  using register_request_fresh [OF conn_example_reachable, of 9]
  by (auto simp: conn_example_eq pending_size_def kMaxPending_def Connection_init_def Pending_new_def)

text \<open>
  C18. No caller waits for ever on a failed connection. In every reachable state after a failure, the
  stores still owed to waiters (the receiver's one delivery, and the releases of \<open>fail_all\<close>)
  are bounded, and when they have been made, every waiter whose caller has not withdrawn is done: a
  request that was registered, matched, or already being released when the failure came is not lost.
\<close>

theorem failure_releases_every_waiter:
  assumes "conn_step\<^sup>*\<^sup>* Connection_init c" "failed c"
  shows "(\<exists>c'. drain_step\<^sup>*\<^sup>* c c' \<and> waiting c' = {})
    \<and> (\<forall>n c'. (drain_step ^^ n) c c' \<longrightarrow> n \<le> length (releasing c) + 1)
    \<and> ((\<forall>c'. \<not> drain_step c c') \<longrightarrow> (\<forall>w < length (waiters c). p_done (waiters c ! w) \<or> w \<in> set (withdrawn c)))"
proof -
  have inv: "conn_inv c \<and> failed c" using conn.reachable_inv [OF refl assms(1)] assms(2) by simp
  have "drain_work c \<le> length (releasing c) + 1" by (simp add: drain_work_def)
  then show ?thesis
    using drain.drains [OF inv] drain.run_bound [OF inv] drain.stuck_finished [OF inv]
    by (fastforce simp: waiting_def)
qed

theorem failure_releases_every_waiter_witness:
  "waiting (fail_all [0] conn_example) = {0} \<and> (\<exists>c'. drain_step\<^sup>*\<^sup>* (fail_all [0] conn_example) c' \<and> waiting c' = {})"
  using failure_releases_every_waiter [OF conn_example_failed]
  by (simp add: waiting_def conn_example_eq fail_all_def Connection_init_def Pending_new_def) auto

text \<open>
  C19. A reply reaches the request it answers and no other. When the receiver accepts a message in a
  reachable state, its id is not zero and in use, its opcode is that of the request registered under
  the id, and completing it stores the payload in that request's waiter (done, and ok exactly when the
  status word is Ok), leaves every other waiter as it was, and retires the id. Any other message is
  refused, and a waiter that is done never changes again.
\<close>

theorem reply_reaches_its_request:
  assumes "conn_step\<^sup>*\<^sup>* Connection_init c" "delivering c = None"
  shows "(case match_reply h payload c of
      Some c' \<Rightarrow> (\<exists>w. pending c (request_id h) = Some w \<and> request_id h \<noteq> 0 \<and> w < length (waiters c)
          \<and> p_opcode (waiters c ! w) = opcode h \<and> pending (complete_waiter c') = (pending c)(request_id h := None)
          \<and> waiters (complete_waiter c') = (waiters c)[w := \<lparr>p_opcode = opcode h, p_reply = payload, p_done = True,
              p_ok = reply_status_ok payload\<rparr>])
    | None \<Rightarrow> request_id h = 0 \<or> pending c (request_id h) = None
        \<or> (\<exists>w. pending c (request_id h) = Some w \<and> p_opcode (waiters c ! w) \<noteq> opcode h))
    \<and> (\<forall>c' w. conn_step\<^sup>*\<^sup>* c c' \<longrightarrow> w < length (waiters c) \<longrightarrow> p_done (waiters c ! w) \<longrightarrow> waiters c' ! w = waiters c ! w)"
proof -
  have inv: "conn_inv c" using conn.reachable_inv [OF refl assms(1)] .
  have final: "waiters c' ! w = waiters c ! w" if "conn_step\<^sup>*\<^sup>* c c'" "w < length (waiters c)" "p_done (waiters c ! w)" for c' w
    using waiter_done_final_steps [OF that(1) inv that(2,3)] by simp
  have bound: "w < length (waiters c)" if "pending c i = Some w" for i w
    using inv ranI [of "pending c" i w] that unfolding conn_inv_def waiters_inv_def waiting_def by blast
  have "match_reply h payload c = Some c' \<Longrightarrow> \<exists>w. pending c (request_id h) = Some w \<and> request_id h \<noteq> 0 \<and> w < length (waiters c)
          \<and> p_opcode (waiters c ! w) = opcode h \<and> pending (complete_waiter c') = (pending c)(request_id h := None)
          \<and> waiters (complete_waiter c') = (waiters c)[w := \<lparr>p_opcode = opcode h, p_reply = payload, p_done = True,
              p_ok = reply_status_ok payload\<rparr>]" for c'
    by (erule match_reply_some) (use bound in \<open>auto simp: complete_waiter_def Pending_completed\<close>)
  moreover have "match_reply h payload c = None \<Longrightarrow> request_id h = 0 \<or> pending c (request_id h) = None
        \<or> (\<exists>w. pending c (request_id h) = Some w \<and> p_opcode (waiters c ! w) \<noteq> opcode h)"
    by (auto simp: match_reply_def split: option.splits if_splits)
  ultimately show ?thesis
    by (intro conjI) (simp split: option.split, use final in blast)
qed

theorem reply_reaches_its_request_witness:
  "\<exists>c'. match_reply \<lparr>opcode = 7, payload_size = 4, request_id = 1\<rparr> (le_bytes 4 (0 :: u32)) conn_example = Some c'
     \<and> p_done (waiters (complete_waiter c') ! 0) \<and> p_ok (waiters (complete_waiter c') ! 0) \<and> pending (complete_waiter c') 1 = None"
  using reply_reaches_its_request [OF conn_example_reachable, of "\<lparr>opcode = 7, payload_size = 4, request_id = 1\<rparr>" "le_bytes 4 (0 :: u32)"]
  by (auto simp: conn_example_eq Connection_init_def match_reply_def Pending_new_def complete_waiter_def dec_application_pending_def
    reply_status_ok_def status_code_def of_le_bytes_le_bytes)

text \<open>
  The watchdog's count is exact. In every reachable state \<open>application_pending\<close> is the number
  of outstanding requests other than the ping, so the saturating decrement never saturates, and the
  watchdog gives up on a ping only while a request of the application is outstanding.
\<close>

theorem application_pending_exact:
  assumes "conn_step\<^sup>*\<^sup>* Connection_init c"
  shows "application_pending c = card {i. pending c i \<noteq> None \<and> i \<noteq> heartbeat_id c}
    \<and> (heartbeat_id c \<noteq> 0 \<longrightarrow> pending c (heartbeat_id c) \<noteq> None)
    \<and> (\<forall>i. pending c i \<noteq> None \<and> i \<noteq> heartbeat_id c \<longrightarrow> application_pending c \<noteq> 0)
    \<and> (watchdog_verdict completed rid c = HeartbeatFail \<longrightarrow> \<not> completed \<and> (\<exists>i. pending c i \<noteq> None \<and> i \<noteq> rid))"
proof -
  have wf: "ids_wf c" using conn.reachable_inv [OF refl assms] by (simp add: conn_inv_def)
  have set: "dom (pending c) - {heartbeat_id c} = {i. pending c i \<noteq> None \<and> i \<noteq> heartbeat_id c}" by auto
  have n: "application_pending c = card {i. pending c i \<noteq> None \<and> i \<noteq> heartbeat_id c}"
    using wf unfolding ids_wf_def set by simp
  then have "application_pending c = 0 \<longleftrightarrow> {i. pending c i \<noteq> None \<and> i \<noteq> heartbeat_id c} = {}" by simp
  with n wf show ?thesis by (auto simp: watchdog_verdict_def ids_wf_def split: if_splits)
qed

theorem application_pending_exact_witness: "application_pending conn_example = card {i. pending conn_example i \<noteq> None \<and> i \<noteq> heartbeat_id conn_example}"
  using application_pending_exact [OF conn_example_reachable, of True 0] by blast

end
