(* ===== verification/Objects.thy ===== *)
theory Objects
  imports Wire
begin

section \<open>Server-side object tables (server/objects.hpp, server/session.cpp)\<close>

text \<open>
  Every object a client learns about is named by a 1-based index into a table of native handles;
  slots are never reused. This theory models \<open>Table\<close> with all its operations, the
  \<open>ObjectTables\<close> of a connection, and the teardown of a device
  (\<open>destroy_device_objects\<close>) and of a connection (\<open>destroy_session_objects\<close>). The
  Vulkan driver is not modelled: the calls a teardown makes to it are recorded, in order, in a
  log. The interface \<open>id_table\<close> is what the handlers rely on; it is interpreted on
  \<open>Table\<close>.
\<close>

abbreviation VK_NULL_HANDLE :: u64 where
  "VK_NULL_HANDLE \<equiv> 0"

subsection \<open>Table\<close>

record Table =
  m_slots :: "u64 list"
  m_owners :: "u64 list"

definition Table_empty :: Table where
  "Table_empty = \<lparr>m_slots = [], m_owners = []\<rparr>"

definition tbl_size :: "Table \<Rightarrow> nat" where
  "tbl_size t = length (m_slots t)"

definition tbl_add :: "Table \<Rightarrow> u64 \<Rightarrow> u64 \<Rightarrow> u64 \<times> Table" where
  "tbl_add t v owner =
     (let t' = \<lparr>m_slots = m_slots t @ [v], m_owners = m_owners t @ [owner]\<rparr>
      in (of_nat (length (m_slots t')), t'))"

fun find_slot :: "u64 \<Rightarrow> u64 \<Rightarrow> nat \<Rightarrow> (u64 \<times> u64) list \<Rightarrow> nat option" where
  "find_slot v owner i [] = None"
| "find_slot v owner i ((s, w) # rest) =
     (if s = v \<and> w = owner then Some i else find_slot v owner (Suc i) rest)"

definition tbl_add_unique :: "Table \<Rightarrow> u64 \<Rightarrow> u64 \<Rightarrow> u64 \<times> Table" where
  "tbl_add_unique t v owner =
     (case find_slot v owner 0 (zip (m_slots t) (m_owners t)) of
        Some i \<Rightarrow> (of_nat (i + 1), t)
      | None \<Rightarrow> tbl_add t v owner)"

definition tbl_get :: "Table \<Rightarrow> u64 \<Rightarrow> u64" where
  "tbl_get t i = (if i = 0 \<or> unat i > length (m_slots t) then VK_NULL_HANDLE else m_slots t ! (unat i - 1))"

definition tbl_take :: "Table \<Rightarrow> u64 \<Rightarrow> u64 \<times> Table" where
  "tbl_take t i =
     (if i = 0 \<or> unat i > length (m_slots t) then (VK_NULL_HANDLE, t)
      else (m_slots t ! (unat i - 1),
            \<lparr>m_slots = (m_slots t)[unat i - 1 := VK_NULL_HANDLE],
             m_owners = (m_owners t)[unat i - 1 := VK_NULL_HANDLE]\<rparr>))"

definition tbl_owner :: "Table \<Rightarrow> u64 \<Rightarrow> u64" where
  "tbl_owner t i = (if i = 0 \<or> unat i > length (m_owners t) then VK_NULL_HANDLE else m_owners t ! (unat i - 1))"

definition tbl_owned_by :: "Table \<Rightarrow> u64 \<Rightarrow> u64 \<Rightarrow> bool" where
  "tbl_owned_by t i device \<longleftrightarrow> tbl_get t i \<noteq> VK_NULL_HANDLE \<and> tbl_owner t i = device"

definition tbl_retire_owned :: "Table \<Rightarrow> u64 \<Rightarrow> Table" where
  "tbl_retire_owned t device =
     \<lparr>m_slots = map (\<lambda>(s, w). if w = device then VK_NULL_HANDLE else s) (zip (m_slots t) (m_owners t)),
      m_owners = map (\<lambda>w. if w = device then VK_NULL_HANDLE else w) (m_owners t)\<rparr>"

definition table_inv :: "Table \<Rightarrow> bool" where
  "table_inv t \<longleftrightarrow> length (m_owners t) = length (m_slots t) \<and> length (m_slots t) < 2 ^ 64"

subsection \<open>What the handlers rely on\<close>

datatype table_op = AddOp u64 u64 | AddUniqueOp u64 u64 | TakeOp u64 | RetireOp u64

definition tbl_step :: "Table \<Rightarrow> table_op \<Rightarrow> Table" where
  "tbl_step t x = (case x of AddOp v w \<Rightarrow> snd (tbl_add t v w) | AddUniqueOp v w \<Rightarrow> snd (tbl_add_unique t v w)
     | TakeOp i \<Rightarrow> snd (tbl_take t i) | RetireOp d \<Rightarrow> tbl_retire_owned t d)"

text \<open>
  The contract: a fresh index names the object just added, indices already handed out keep their
  meaning, an operation never turns a dead index into a live one, and a destroyed index is dead.
\<close>

locale id_table =
  fixes get :: "'t \<Rightarrow> u64 \<Rightarrow> u64" and add :: "'t \<Rightarrow> u64 \<Rightarrow> u64 \<Rightarrow> u64 \<times> 't"
    and take :: "'t \<Rightarrow> u64 \<Rightarrow> u64 \<times> 't" and step :: "'t \<Rightarrow> table_op \<Rightarrow> 't"
    and count :: "'t \<Rightarrow> nat" and inv :: "'t \<Rightarrow> bool"
  assumes add_fresh: "inv t \<Longrightarrow> Suc (count t) < 2 ^ 64 \<Longrightarrow> unat (fst (add t v w)) = Suc (count t)"
    and get_add: "inv t \<Longrightarrow> Suc (count t) < 2 ^ 64 \<Longrightarrow> get (snd (add t v w)) (fst (add t v w)) = v"
    and take_value: "fst (take t i) = get t i"
    and get_take: "inv t \<Longrightarrow> get (snd (take t i)) i = VK_NULL_HANDLE"
    and get_unissued: "count t < unat i \<Longrightarrow> get t i = VK_NULL_HANDLE"
    and step_keeps: "inv t \<Longrightarrow> unat i \<le> count t \<Longrightarrow> get (step t x) i \<in> {get t i, VK_NULL_HANDLE}"
    and step_inv: "inv t \<Longrightarrow> Suc (count t) < 2 ^ 64 \<Longrightarrow> inv (step t x)"
    and step_count: "inv t \<Longrightarrow> count t \<le> count (step t x) \<and> count (step t x) \<le> Suc (count t)"
begin

lemma run_inv:
  "inv t \<Longrightarrow> count t + length xs < 2 ^ 64 \<Longrightarrow> inv (foldl step t xs) \<and> count t \<le> count (foldl step t xs)"
proof (induction xs arbitrary: t)
  case (Cons x xs)
  from Cons.prems have i: "inv (step t x)" by (intro step_inv) simp_all
  from step_count [OF Cons.prems(1), of x] Cons.prems(2) have "count (step t x) + length xs < 2 ^ 64" by simp
  with Cons.IH [OF i] step_count [OF Cons.prems(1), of x] show ?case by simp
qed simp

lemma run_keeps:
  "inv t \<Longrightarrow> count t + length xs < 2 ^ 64 \<Longrightarrow> unat i \<le> count t \<Longrightarrow>
     get (foldl step t xs) i \<in> {get t i, VK_NULL_HANDLE}"
proof (induction xs arbitrary: t)
  case (Cons x xs)
  from Cons.prems have i: "inv (step t x)" by (intro step_inv) simp_all
  note c = step_count [OF Cons.prems(1), of x]
  from Cons.IH [OF i] c Cons.prems have "get (foldl step (step t x) xs) i \<in> {get (step t x) i, VK_NULL_HANDLE}"
    by simp
  with step_keeps [OF Cons.prems(1,3), of x] show ?case by auto
qed simp

lemma dead_stays_dead:
  assumes "inv t" "count (snd (take t i)) + length xs < 2 ^ 64" "inv (snd (take t i))"
    "unat i \<le> count (snd (take t i))"
  shows "get (foldl step (snd (take t i)) xs) i = VK_NULL_HANDLE"
  using run_keeps [OF assms(3,2,4)] get_take [OF assms(1), of i] by auto

end

lemma find_slot_Some:
  "find_slot v w i xs = Some j \<Longrightarrow> i \<le> j \<and> j < i + length xs \<and> xs ! (j - i) = (v, w)"
proof (induction v w i xs arbitrary: j rule: find_slot.induct)
  case (2 v owner i s w rest)
  show ?case
  proof (cases "s = v \<and> w = owner")
    case False
    with 2 have "find_slot v owner (Suc i) rest = Some j" by auto
    from "2.IH" [OF False this] show ?thesis by (auto simp: nth_Cons' Suc_diff_le)
  qed (use 2 in auto)
qed simp

lemma tbl_take_size [simp]: "tbl_size (snd (tbl_take t i)) = tbl_size t"
  by (simp add: tbl_take_def tbl_size_def)

lemma tbl_take_inv: "table_inv t \<Longrightarrow> table_inv (snd (tbl_take t i))"
  by (simp add: tbl_take_def table_inv_def)

lemma tbl_retire_inv: "table_inv t \<Longrightarrow> table_inv (tbl_retire_owned t d)"
  by (simp add: tbl_retire_owned_def table_inv_def)

lemma tbl_get_take: "tbl_get (snd (tbl_take t i)) j = (if j = i then VK_NULL_HANDLE else tbl_get t j)"
  by (auto simp: tbl_take_def tbl_get_def nth_list_update index_less index_inj)

lemma tbl_get_retire:
  assumes "table_inv t"
  shows "tbl_get (tbl_retire_owned t d) i = (if tbl_owner t i = d then VK_NULL_HANDLE else tbl_get t i)"
proof (cases "i = 0 \<or> unat i > length (m_slots t)")
  case False
  then have "unat i - Suc 0 < length (m_slots t)" by (intro index_less) simp_all
  with False assms show ?thesis
    by (auto simp: tbl_get_def tbl_owner_def tbl_retire_owned_def table_inv_def)
qed (use assms in \<open>auto simp: tbl_get_def tbl_retire_owned_def table_inv_def\<close>)

lemma tbl_get_add_old:
  "unat i \<le> tbl_size t \<Longrightarrow> tbl_get (snd (tbl_add t v w)) i = tbl_get t i"
  by (auto simp: tbl_get_def tbl_add_def tbl_size_def nth_append index_less)

interpretation tbl: id_table tbl_get tbl_add tbl_take tbl_step tbl_size table_inv
proof unfold_locales
  fix t :: Table and v w :: u64
  assume "Suc (tbl_size t) < 2 ^ 64"
  then show fresh: "unat (fst (tbl_add t v w)) = Suc (tbl_size t)"
    using unat_of_nat_small [where 'a = 64, of "Suc (tbl_size t)"] by (simp add: tbl_add_def tbl_size_def)
  then have "fst (tbl_add t v w) \<noteq> 0" by (metis nat.distinct(1) unat_0)
  with fresh show "tbl_get (snd (tbl_add t v w)) (fst (tbl_add t v w)) = v"
    by (simp add: tbl_get_def) (simp add: tbl_add_def tbl_size_def)
next
  fix t x and i :: u64
  assume inv: "table_inv t" and i: "unat i \<le> tbl_size t"
  show "tbl_get (tbl_step t x) i \<in> {tbl_get t i, VK_NULL_HANDLE}"
    using i inv by (cases x) (auto simp: tbl_step_def tbl_add_unique_def tbl_get_add_old tbl_get_take
        tbl_get_retire split: option.splits)
next
  fix t x
  assume inv: "table_inv t"
  show "tbl_size t \<le> tbl_size (tbl_step t x) \<and> tbl_size (tbl_step t x) \<le> Suc (tbl_size t)"
    using inv by (cases x) (auto simp: tbl_step_def tbl_add_unique_def tbl_add_def tbl_size_def
        tbl_retire_owned_def table_inv_def tbl_take_def split: option.splits)
  assume "Suc (tbl_size t) < 2 ^ 64"
  then show "table_inv (tbl_step t x)"
    using inv tbl_take_inv tbl_retire_inv
    by (cases x) (auto simp: tbl_step_def tbl_add_unique_def tbl_add_def tbl_size_def table_inv_def
        split: option.splits)
qed (auto simp: tbl_get_def tbl_take_def tbl_size_def index_less)

subsection \<open>The tables of one connection\<close>

datatype table_kind =
    Devices | Queues | CommandPools | CommandBuffers | Buffers | Images | ImageViews | BufferViews
  | Memories | RenderPasses | Framebuffers | ShaderModules | Pipelines | PipelineLayouts
  | PipelineCaches | DescriptorSetLayouts | DescriptorPools | DescriptorSets | Samplers
  | DescriptorUpdateTemplates | SamplerYcbcrConversions | Semaphores | Fences | Events | QueryPools
  | Surfaces | Swapchains

record ServerMemory =
  mem_handle :: u64
  mem_owner :: u64
  mem_size :: u64
  mem_property_flags :: u32
  mem_map_alignment :: u64
  mem_non_coherent_atom_size :: u64

record DescriptorSetOwner =
  dso_device :: u64
  dso_pool :: u64

type_synonym template_entry = "u32 \<times> u32 \<times> u32 \<times> u32 \<times> u64 \<times> u64"

text \<open>
  The table members of the struct are one function from their names; the unordered maps that the
  code iterates over are association lists, their order standing for the unspecified iteration
  order.
\<close>

record ObjectTables =
  capabilities :: u32
  tables :: "table_kind \<Rightarrow> Table"
  memory_metadata :: "(u64 \<times> ServerMemory) list"
  device_physical_devices :: "(u64 \<times> u64) list"
  command_buffer_devices :: "(u64 \<times> u64) list"
  descriptor_set_owners :: "(u64 \<times> DescriptorSetOwner) list"
  descriptor_update_template_owners :: "(u64 \<times> u64) list"
  descriptor_update_template_entries :: "(u64 \<times> template_entry list) list"
  sampler_ycbcr_conversion_owners :: "(u64 \<times> u64) list"
  swapchain_devices :: "(u64 \<times> u64) list"
  swapchain_surfaces :: "(u64 \<times> u64) list"
  swapchain_image_ids :: "(u64 \<times> u64 list) list"

definition ObjectTables_init :: ObjectTables where
  "ObjectTables_init = \<lparr>capabilities = 0, tables = (\<lambda>_. Table_empty), memory_metadata = [],
     device_physical_devices = [], command_buffer_devices = [], descriptor_set_owners = [],
     descriptor_update_template_owners = [], descriptor_update_template_entries = [],
     sampler_ycbcr_conversion_owners = [], swapchain_devices = [], swapchain_surfaces = [],
     swapchain_image_ids = []\<rparr>"

definition resolve :: "ObjectTables \<Rightarrow> table_kind \<Rightarrow> u64 \<Rightarrow> u64" where
  "resolve t k i = tbl_get (tables t k) i"

definition set_table :: "table_kind \<Rightarrow> Table \<Rightarrow> ObjectTables \<Rightarrow> ObjectTables" where
  "set_table k tab t = t\<lparr>tables := (tables t)(k := tab)\<rparr>"

subsection \<open>Teardown of a device\<close>

text \<open>
  The calls into the Vulkan driver: those that end an object's life by name, any other by its
  function and its arguments, decoded structures being trees of numbers and blobs.
\<close>

datatype vk = VNum u64 | VBytes bytes | VList "vk list"

datatype native_call =
    NativeDeviceWaitIdle u64
  | NativeDestroy table_kind u64 u64   \<comment> \<open>which destroy function, device, object\<close>
  | NativeDestroyDevice u64
  | NativeDestroySurface u64
  | ReleaseSurfaceWindow u64   \<comment> \<open>\<open>Server::release_surface_window\<close>\<close>
  | NativeCall string "vk list"

definition table_ids :: "Table \<Rightarrow> u64 list" where
  "table_ids t = map of_nat [1..<Suc (tbl_size t)]"

definition destroy_one :: "table_kind \<Rightarrow> u64 \<Rightarrow> u64 \<Rightarrow> Table \<times> native_call list \<Rightarrow> Table \<times> native_call list" where
  "destroy_one k device i = (\<lambda>(tab, log).
     if \<not> tbl_owned_by tab i device then (tab, log)
     else let (obj, tab') = tbl_take tab i in
       (tab', if obj \<noteq> VK_NULL_HANDLE then log @ [NativeDestroy k device obj] else log))"

definition destroy_owned :: "u64 \<Rightarrow> table_kind \<Rightarrow> ObjectTables \<times> native_call list \<Rightarrow> ObjectTables \<times> native_call list" where
  "destroy_owned device k = (\<lambda>(t, log).
     let (tab, log') = fold (destroy_one k device) (table_ids (tables t k)) (tables t k, log)
     in (set_table k tab t, log'))"

definition retire_swapchain_images :: "u64 \<Rightarrow> ObjectTables \<Rightarrow> ObjectTables" where
  "retire_swapchain_images device t =
     set_table Images
       (fold (\<lambda>(sc, imgs) tab.
          if tbl_owner (tables t Swapchains) sc \<noteq> device then tab
          else fold (\<lambda>img tab. snd (tbl_take tab img)) imgs tab)
        (swapchain_image_ids t) (tables t Images)) t"

definition retire_kind :: "u64 \<Rightarrow> table_kind \<Rightarrow> ObjectTables \<Rightarrow> ObjectTables" where
  "retire_kind device k t = set_table k (tbl_retire_owned (tables t k) device) t"

definition erase_device_metadata :: "u64 \<Rightarrow> ObjectTables \<Rightarrow> ObjectTables" where
  "erase_device_metadata device t =
     (let dead_templates = map fst (filter (\<lambda>kv. snd kv = device) (descriptor_update_template_owners t));
          dead_swapchains = map fst (filter (\<lambda>kv. snd kv = device) (swapchain_devices t)) in
      t\<lparr>device_physical_devices := filter (\<lambda>kv. fst kv \<noteq> device) (device_physical_devices t),
        command_buffer_devices := alist_erase_if (\<lambda>d. d = device) (command_buffer_devices t),
        memory_metadata := alist_erase_if (\<lambda>m. mem_owner m = device) (memory_metadata t),
        descriptor_set_owners := alist_erase_if (\<lambda>w. dso_device w = device) (descriptor_set_owners t),
        descriptor_update_template_entries :=
          filter (\<lambda>kv. fst kv \<notin> set dead_templates) (descriptor_update_template_entries t),
        descriptor_update_template_owners := alist_erase_if (\<lambda>d. d = device) (descriptor_update_template_owners t),
        sampler_ycbcr_conversion_owners := alist_erase_if (\<lambda>d. d = device) (sampler_ycbcr_conversion_owners t),
        swapchain_surfaces := filter (\<lambda>kv. fst kv \<notin> set dead_swapchains) (swapchain_surfaces t),
        swapchain_devices := alist_erase_if (\<lambda>d. d = device) (swapchain_devices t),
        swapchain_image_ids :=
          filter (\<lambda>kv. tbl_owner (tables t Swapchains) (fst kv) \<noteq> VK_NULL_HANDLE) (swapchain_image_ids t)\<rparr>)"

definition first_kinds :: "table_kind list" where
  "first_kinds = [Framebuffers, Pipelines, DescriptorPools, DescriptorUpdateTemplates, ImageViews,
     BufferViews, Samplers, ShaderModules, PipelineLayouts, DescriptorSetLayouts, RenderPasses,
     PipelineCaches, QueryPools, Events, Fences, Semaphores, SamplerYcbcrConversions, CommandPools,
     Buffers]"

definition last_kinds :: "table_kind list" where
  "last_kinds = [Images, Swapchains, Memories]"

definition implicit_kinds :: "table_kind list" where
  "implicit_kinds = [CommandBuffers, DescriptorSets, Queues]"

definition destroy_device_objects ::
  "ObjectTables \<times> native_call list \<Rightarrow> u64 \<Rightarrow> bool \<times> ObjectTables \<times> native_call list" where
  "destroy_device_objects st device =
     (if device = VK_NULL_HANDLE then (False, st)
      else let (t0, log0) = st;
               (t1, log1) = fold (destroy_owned device) first_kinds (t0, log0 @ [NativeDeviceWaitIdle device]);
               t2 = retire_swapchain_images device t1;
               (t3, log3) = fold (destroy_owned device) last_kinds (t2, log1);
               t4 = fold (retire_kind device) implicit_kinds t3;
               t5 = erase_device_metadata device t4
           in (True, t5, log3 @ [NativeDestroyDevice device]))"

text \<open>The whole connection: every device that is still there, then every surface.\<close>

definition close_device :: "u64 \<Rightarrow> ObjectTables \<times> native_call list \<Rightarrow> ObjectTables \<times> native_call list" where
  "close_device i = (\<lambda>(t, log).
     let (device, tab) = tbl_take (tables t Devices) i; t' = set_table Devices tab t in
     if device \<noteq> VK_NULL_HANDLE then snd (destroy_device_objects (t', log) device) else (t', log))"

definition destroy_session_objects :: "ObjectTables \<Rightarrow> ObjectTables \<times> native_call list" where
  "destroy_session_objects t0 =
     (let (t, log) = fold close_device (table_ids (tables t0 Devices)) (t0, [])
      in (t, log @ concat (map (\<lambda>s. [NativeDestroySurface s, ReleaseSurfaceWindow s])
            (filter (\<lambda>s. s \<noteq> VK_NULL_HANDLE) (m_slots (tables t Surfaces))))))"

subsection \<open>What one sweep over a table does\<close>

definition cleared :: "u64 \<Rightarrow> Table \<Rightarrow> Table" where
  "cleared device tab =
     \<lparr>m_slots = map (\<lambda>(s, w). if s \<noteq> 0 \<and> w = device then 0 else s) (zip (m_slots tab) (m_owners tab)),
      m_owners = map (\<lambda>(s, w). if s \<noteq> 0 \<and> w = device then 0 else w) (zip (m_slots tab) (m_owners tab))\<rparr>"

definition owned_list :: "u64 \<Rightarrow> Table \<Rightarrow> u64 list" where
  "owned_list device tab =
     map fst (filter (\<lambda>(s, w). s \<noteq> 0 \<and> w = device) (zip (m_slots tab) (m_owners tab)))"

lemma destroy_one_at:
  assumes "length pw = length ps" "length ps < 2 ^ 64 - 1"
  shows "destroy_one k d (of_nat (Suc (length ps))) (\<lparr>m_slots = ps @ s # ss, m_owners = pw @ w # ws\<rparr>, log) =
    (if s \<noteq> 0 \<and> w = d
     then (\<lparr>m_slots = ps @ 0 # ss, m_owners = pw @ 0 # ws\<rparr>, log @ [NativeDestroy k d s])
     else (\<lparr>m_slots = ps @ s # ss, m_owners = pw @ w # ws\<rparr>, log))"
proof -
  let ?i = "of_nat (Suc (length ps)) :: u64"
  have n: "unat ?i = Suc (length ps)" using assms(2) by (intro unat_of_nat_small) simp
  then have "?i \<noteq> 0" by (metis nat.distinct(1) unat_0)
  then show ?thesis using n assms(1)
    by (simp add: destroy_one_def tbl_owned_by_def tbl_get_def tbl_owner_def tbl_take_def nth_append
        list_update_append)
qed

lemma destroy_sweep:
  assumes "length ws = length ss" "length pw = length ps" "length ps + length ss < 2 ^ 64"
  shows "fold (destroy_one k d) (map of_nat [Suc (length ps)..<Suc (length ps + length ss)])
      (\<lparr>m_slots = ps @ ss, m_owners = pw @ ws\<rparr>, log) =
    (\<lparr>m_slots = ps @ map (\<lambda>(s, w). if s \<noteq> 0 \<and> w = d then 0 else s) (zip ss ws),
      m_owners = pw @ map (\<lambda>(s, w). if s \<noteq> 0 \<and> w = d then 0 else w) (zip ss ws)\<rparr>,
     log @ map (NativeDestroy k d) (map fst (filter (\<lambda>(s, w). s \<noteq> 0 \<and> w = d) (zip ss ws))))"
  using assms
proof (induction ws ss arbitrary: ps pw log rule: list_induct2)
  case (Cons w ws s ss)
  let ?s = "if s \<noteq> 0 \<and> w = d then 0 else s" and ?w = "if s \<noteq> 0 \<and> w = d then 0 else w"
  let ?log = "if s \<noteq> 0 \<and> w = d then log @ [NativeDestroy k d s] else log"
  have ids: "[Suc (length ps)..<Suc (length ps + length (s # ss))] =
      Suc (length ps) # [Suc (length (ps @ [?s]))..<Suc (length (ps @ [?s]) + length ss)]"
    by (subst upt_conv_Cons) (simp_all del: upt_Suc)
  have one: "destroy_one k d (of_nat (Suc (length ps)))
      (\<lparr>m_slots = ps @ s # ss, m_owners = pw @ w # ws\<rparr>, log) =
      (\<lparr>m_slots = (ps @ [?s]) @ ss, m_owners = (pw @ [?w]) @ ws\<rparr>, ?log)"
    using Cons.prems by (subst destroy_one_at) auto
  have "length (pw @ [?w]) = length (ps @ [?s])" "length (ps @ [?s]) + length ss < 2 ^ 64"
    using Cons.prems by simp_all
  from Cons.IH [OF this, of ?log] show ?case
    by (subst ids) (simp only: list.map fold.simps comp_apply one, auto)
qed simp

lemma Table_eta: "\<lparr>m_slots = m_slots tab, m_owners = m_owners tab\<rparr> = tab"
  by (cases tab) simp

lemma destroy_owned_eq:
  assumes "table_inv (tables t k)"
  shows "destroy_owned d k (t, log) =
    (set_table k (cleared d (tables t k)) t, log @ map (NativeDestroy k d) (owned_list d (tables t k)))"
  using assms destroy_sweep [of "m_owners (tables t k)" "m_slots (tables t k)" "[]" "[]" k d log]
  by (simp add: destroy_owned_def table_ids_def tbl_size_def table_inv_def cleared_def owned_list_def
      Table_eta del: upt_Suc)

lemma cleared_inv [simp]: "table_inv tab \<Longrightarrow> table_inv (cleared d tab)"
  by (simp add: table_inv_def cleared_def)

lemma tbl_get_cleared:
  "table_inv tab \<Longrightarrow> tbl_get (cleared d tab) i = (if tbl_owned_by tab i d then 0 else tbl_get tab i)"
  by (auto simp: tbl_get_def tbl_owner_def tbl_owned_by_def cleared_def table_inv_def index_less)

lemma tbl_owner_cleared:
  "table_inv tab \<Longrightarrow> tbl_owner (cleared d tab) i = (if tbl_owned_by tab i d then 0 else tbl_owner tab i)"
  by (auto simp: tbl_get_def tbl_owner_def tbl_owned_by_def cleared_def table_inv_def index_less)

lemma tbl_owner_take: "table_inv tab \<Longrightarrow> tbl_owner (snd (tbl_take tab i)) j = (if j = i then 0 else tbl_owner tab j)"
  by (auto simp: tbl_take_def tbl_owner_def table_inv_def nth_list_update index_less index_inj)

lemma tbl_owner_retire: "tbl_owner (tbl_retire_owned tab d) i = (if tbl_owner tab i = d then 0 else tbl_owner tab i)"
  by (auto simp: tbl_owner_def tbl_retire_owned_def index_less)

subsection \<open>Sweeps over several tables\<close>

definition tables_inv :: "ObjectTables \<Rightarrow> bool" where
  "tables_inv t \<longleftrightarrow> (\<forall>k. table_inv (tables t k))"

lemma set_table_simps [simp]:
  "tables (set_table k tab t) = (tables t)(k := tab)"
  "swapchain_image_ids (set_table k tab t) = swapchain_image_ids t"
  by (simp_all add: set_table_def)

lemma destroy_owned_fold:
  assumes "tables_inv t" "distinct ks"
  shows "fold (destroy_owned d) ks (t, log) =
    (t\<lparr>tables := (\<lambda>k. if k \<in> set ks then cleared d (tables t k) else tables t k)\<rparr>,
     log @ concat (map (\<lambda>k. map (NativeDestroy k d) (owned_list d (tables t k))) ks))"
  using assms
proof (induction ks arbitrary: t log)
  case (Cons k ks)
  let ?t = "set_table k (cleared d (tables t k)) t"
  have "table_inv (tables t k)" using Cons.prems(1) by (simp add: tables_inv_def)
  note one = destroy_owned_eq [OF this, of d log]
  have inv: "tables_inv ?t" using Cons.prems(1) by (simp add: tables_inv_def)
  have calls: "map (\<lambda>k'. map (NativeDestroy k' d) (owned_list d (tables ?t k'))) ks =
      map (\<lambda>k'. map (NativeDestroy k' d) (owned_list d (tables t k'))) ks"
    using Cons.prems(2) by (auto intro!: map_cong)
  have "(\<lambda>k'. if k' \<in> set ks then cleared d (tables ?t k') else tables ?t k') =
      (\<lambda>k'. if k' \<in> set (k # ks) then cleared d (tables t k') else tables t k')"
    using Cons.prems(2) by auto
  then have tabs: "?t\<lparr>tables := \<lambda>k'. if k' \<in> set ks then cleared d (tables ?t k') else tables ?t k'\<rparr> =
      t\<lparr>tables := \<lambda>k'. if k' \<in> set (k # ks) then cleared d (tables t k') else tables t k'\<rparr>"
    by (simp add: set_table_def)
  from Cons.prems(2) have "distinct ks" by simp
  from Cons.IH [OF inv this] show ?case
    by (simp only: fold.simps comp_apply one calls tabs) simp
qed simp

definition borrowed_images :: "u64 \<Rightarrow> ObjectTables \<Rightarrow> u64 set" where
  "borrowed_images d t = {img. \<exists>sc imgs. (sc, imgs) \<in> set (swapchain_image_ids t)
     \<and> tbl_owner (tables t Swapchains) sc = d \<and> img \<in> set imgs}"

lemma take_fold_get:
  "table_inv tab \<Longrightarrow>
     table_inv (fold (\<lambda>img tab. snd (tbl_take tab img)) imgs tab)
     \<and> tbl_get (fold (\<lambda>img tab. snd (tbl_take tab img)) imgs tab) i = (if i \<in> set imgs then 0 else tbl_get tab i)
     \<and> tbl_owner (fold (\<lambda>img tab. snd (tbl_take tab img)) imgs tab) i = (if i \<in> set imgs then 0 else tbl_owner tab i)"
  by (induction imgs arbitrary: tab) (auto simp: tbl_take_inv tbl_get_take tbl_owner_take)

lemma retire_fold_get:
  "table_inv tab \<Longrightarrow>
     (let tab' = fold (\<lambda>(sc, imgs) tab. if ow sc \<noteq> d then tab
          else fold (\<lambda>img tab. snd (tbl_take tab img)) imgs tab) cache tab;
          b = \<exists>sc imgs. (sc, imgs) \<in> set cache \<and> ow sc = d \<and> i \<in> set imgs in
      table_inv tab' \<and> tbl_get tab' i = (if b then 0 else tbl_get tab i)
      \<and> tbl_owner tab' i = (if b then 0 else tbl_owner tab i))"
proof (induction cache arbitrary: tab)
  case (Cons c cache)
  obtain sc imgs where c: "c = (sc, imgs)" by (cases c)
  let ?tab = "if ow sc \<noteq> d then tab else fold (\<lambda>img tab. snd (tbl_take tab img)) imgs tab"
  from take_fold_get [OF Cons.prems] have inv: "table_inv ?tab" using Cons.prems by simp
  from Cons.IH [OF inv] take_fold_get [OF Cons.prems, of imgs i] show ?case
    by (auto simp: c Let_def)
qed simp

lemma retire_swapchain_images_get:
  assumes "tables_inv t"
  shows "tables_inv (retire_swapchain_images d t)"
    and "k \<noteq> Images \<Longrightarrow> tables (retire_swapchain_images d t) k = tables t k"
    and "tbl_get (tables (retire_swapchain_images d t) Images) i =
      (if i \<in> borrowed_images d t then 0 else tbl_get (tables t Images) i)"
    and "tbl_owner (tables (retire_swapchain_images d t) Images) i =
      (if i \<in> borrowed_images d t then 0 else tbl_owner (tables t Images) i)"
  using assms retire_fold_get [of "tables t Images" "tbl_owner (tables t Swapchains)" d "swapchain_image_ids t"]
  by (auto simp: tables_inv_def retire_swapchain_images_def borrowed_images_def Let_def)

subsection \<open>The state and the calls of a device teardown\<close>

lemma kind_sets:
  "set first_kinds = UNIV - {Devices, Surfaces, Images, Swapchains, Memories, CommandBuffers, DescriptorSets, Queues}"
  "distinct first_kinds" "distinct last_kinds" "distinct implicit_kinds"
proof -
  show "set first_kinds = UNIV - {Devices, Surfaces, Images, Swapchains, Memories, CommandBuffers, DescriptorSets, Queues}"
  proof (rule set_eqI)
    fix k show "k \<in> set first_kinds \<longleftrightarrow>
        k \<in> UNIV - {Devices, Surfaces, Images, Swapchains, Memories, CommandBuffers, DescriptorSets, Queues}"
      by (cases k) (simp_all add: first_kinds_def)
  qed
qed (simp_all add: first_kinds_def last_kinds_def implicit_kinds_def)

lemma retire_kind_fold:
  assumes "distinct ks"
  shows "tables (fold (retire_kind d) ks t) k = (if k \<in> set ks then tbl_retire_owned (tables t k) d else tables t k)"
  using assms by (induction ks arbitrary: t) (auto simp: retire_kind_def)

lemma tables_erase [simp]: "tables (erase_device_metadata d t) = tables t"
  by (simp add: erase_device_metadata_def Let_def)

definition teardown_table :: "u64 \<Rightarrow> ObjectTables \<Rightarrow> table_kind \<Rightarrow> Table" where
  "teardown_table d t k =
     (if k \<in> {Devices, Surfaces} then tables t k
      else if k \<in> set implicit_kinds then tbl_retire_owned (tables t k) d
      else if k = Images then cleared d (tables (retire_swapchain_images d t) Images)
      else cleared d (tables t k))"

definition teardown_calls :: "u64 \<Rightarrow> ObjectTables \<Rightarrow> native_call list" where
  "teardown_calls d t =
     [NativeDeviceWaitIdle d]
     @ concat (map (\<lambda>k. map (NativeDestroy k d) (owned_list d (tables t k))) first_kinds)
     @ map (NativeDestroy Images d) (owned_list d (tables (retire_swapchain_images d t) Images))
     @ map (NativeDestroy Swapchains d) (owned_list d (tables t Swapchains))
     @ map (NativeDestroy Memories d) (owned_list d (tables t Memories))
     @ [NativeDestroyDevice d]"

lemma retire_images_cong:
  assumes "tables t' Images = tables t Images" "tables t' Swapchains = tables t Swapchains"
    "swapchain_image_ids t' = swapchain_image_ids t"
  shows "tables (retire_swapchain_images d t') Images = tables (retire_swapchain_images d t) Images"
  using assms by (simp add: retire_swapchain_images_def)

lemma destroy_device_objects_eq:
  assumes inv: "tables_inv t" and d: "d \<noteq> VK_NULL_HANDLE"
  obtains t' where "destroy_device_objects (t, log) d = (True, t', log @ teardown_calls d t)"
    and "tables t' = teardown_table d t"
proof -
  define t1 where "t1 = t\<lparr>tables := (\<lambda>k. if k \<in> set first_kinds then cleared d (tables t k) else tables t k)\<rparr>"
  define t2 where "t2 = retire_swapchain_images d t1"
  define t3 where "t3 = t2\<lparr>tables := (\<lambda>k. if k \<in> set last_kinds then cleared d (tables t2 k) else tables t2 k)\<rparr>"
  have inv1: "tables_inv t1" using inv by (simp add: tables_inv_def t1_def)
  have inv2: "tables_inv t2" unfolding t2_def by (rule retire_swapchain_images_get(1) [OF inv1])
  have img: "tables t2 Images = tables (retire_swapchain_images d t) Images"
    unfolding t2_def by (rule retire_images_cong) (simp_all add: kind_sets(1) t1_def)
  have other: "k \<noteq> Images \<Longrightarrow> tables t2 k = (if k \<in> set first_kinds then cleared d (tables t k) else tables t k)" for k
    using retire_swapchain_images_get(2) [OF inv1, of k d] by (simp add: t1_def t2_def)
  have keep: "tables t2 Swapchains = tables t Swapchains" "tables t2 Memories = tables t Memories"
    by (simp_all add: other kind_sets(1))
  note f1 = destroy_owned_fold [OF inv kind_sets(2), of d "log @ [NativeDeviceWaitIdle d]", folded t1_def]
  note f2 = destroy_owned_fold [OF inv2 kind_sets(3), of d, folded t3_def]
  have "destroy_device_objects (t, log) d =
      (True, erase_device_metadata d (fold (retire_kind d) implicit_kinds t3), log @ teardown_calls d t)"
    unfolding destroy_device_objects_def Let_def prod.case f1 t2_def [symmetric] f2
    using d by (simp add: teardown_calls_def last_kinds_def img keep)
  moreover have "tables (erase_device_metadata d (fold (retire_kind d) implicit_kinds t3)) = teardown_table d t"
  proof
    fix k
    show "tables (erase_device_metadata d (fold (retire_kind d) implicit_kinds t3)) k = teardown_table d t k"
      using img other [of k]
      by (cases k) (simp_all add: retire_kind_def kind_sets(1) teardown_table_def last_kinds_def
          implicit_kinds_def t3_def)
  qed
  ultimately show thesis by (rule that)
qed

lemma teardown_table_get:
  assumes inv: "tables_inv t" and k: "k \<notin> {Devices, Surfaces}"
  shows "tbl_get (teardown_table d t k) i =
    (if tbl_owned_by (tables t k) i d \<or> k = Images \<and> i \<in> borrowed_images d t then 0
     else tbl_get (tables t k) i)"
proof (cases "k = Images")
  case True
  have "table_inv (tables (retire_swapchain_images d t) Images)"
    using retire_swapchain_images_get(1) [OF inv] by (simp add: tables_inv_def)
  then show ?thesis using True retire_swapchain_images_get(3,4) [OF inv, of d i]
    by (auto simp: teardown_table_def implicit_kinds_def tbl_get_cleared tbl_owned_by_def)
next
  case False
  from inv have "table_inv (tables t k)" by (simp add: tables_inv_def)
  then show ?thesis using False k
    by (auto simp: teardown_table_def tbl_get_cleared tbl_get_retire tbl_owned_by_def)
qed

lemma teardown_table_owner:
  assumes inv: "tables_inv t" and k: "k \<notin> {Devices, Surfaces}" and live: "tbl_get (teardown_table d t k) i \<noteq> 0"
  shows "tbl_owner (teardown_table d t k) i = tbl_owner (tables t k) i" "tbl_owner (tables t k) i \<noteq> d"
proof -
  from live teardown_table_get [OF inv k, of d i] have
    not: "\<not> tbl_owned_by (tables t k) i d" "k = Images \<Longrightarrow> i \<notin> borrowed_images d t" "tbl_get (tables t k) i \<noteq> 0"
    by (auto split: if_splits)
  then show ne: "tbl_owner (tables t k) i \<noteq> d" by (auto simp: tbl_owned_by_def)
  have ti: "table_inv (tables t k)" "table_inv (tables (retire_swapchain_images d t) Images)"
    using inv retire_swapchain_images_get(1) [OF inv] by (simp_all add: tables_inv_def)
  show "tbl_owner (teardown_table d t k) i = tbl_owner (tables t k) i"
    using not ne ti retire_swapchain_images_get(3,4) [OF inv, of d i]
    by (auto simp: teardown_table_def tbl_owner_cleared tbl_owner_retire tbl_owned_by_def)
qed

lemma teardown_table_inv: "tables_inv t \<Longrightarrow> table_inv (teardown_table d t k)"
  using retire_swapchain_images_get(1) [of t d]
  by (auto simp: teardown_table_def tables_inv_def intro: tbl_retire_inv)


subsection \<open>The teardown of a connection\<close>

text \<open>Every live child names, as its owner, a device that the connection still holds.\<close>

definition owners_live :: "ObjectTables \<Rightarrow> bool" where
  "owners_live t \<longleftrightarrow> (\<forall>k i. k \<notin> {Devices, Surfaces} \<longrightarrow> tbl_get (tables t k) i \<noteq> 0 \<longrightarrow>
     tbl_owner (tables t k) i \<noteq> 0 \<and> (\<exists>j. tbl_get (tables t Devices) j = tbl_owner (tables t k) i))"

definition is_device_call :: "native_call \<Rightarrow> bool" where
  "is_device_call c = (case c of NativeDeviceWaitIdle d \<Rightarrow> True | NativeDestroy k d v \<Rightarrow> True | NativeDestroyDevice d \<Rightarrow> True | _ \<Rightarrow> False)"

lemma teardown_calls_device: "list_all (\<lambda>c. is_device_call c) (teardown_calls d t)"
  by (auto simp: teardown_calls_def is_device_call_def list_all_iff)

lemma close_device_step:
  assumes inv: "tables_inv t" and own: "owners_live t"
    and res: "close_device i (t, log) = (t', log')"
  shows "tables_inv t' \<and> owners_live t'
    \<and> (list_all (\<lambda>c. is_device_call c) log \<longrightarrow> list_all (\<lambda>c. is_device_call c) log')
    \<and> tables t' Surfaces = tables t Surfaces
    \<and> (\<forall>j. tbl_get (tables t' Devices) j = (if j = i then 0 else tbl_get (tables t Devices) j))"
proof -
  obtain d tab where tk: "tbl_take (tables t Devices) i = (d, tab)" by force
  let ?u = "set_table Devices tab t"
  have d: "d = tbl_get (tables t Devices) i" using tbl.take_value [of "tables t Devices" i] tk by simp
  have get: "tbl_get tab j = (if j = i then 0 else tbl_get (tables t Devices) j)" for j
    using tbl_get_take [of "tables t Devices" i j] tk by simp
  have "table_inv tab" using tbl_take_inv [of "tables t Devices" i] inv tk by (simp add: tables_inv_def)
  then have uinv: "tables_inv ?u" using inv by (simp add: tables_inv_def)
  show ?thesis
  proof (cases "d = 0")
    case True
    then have same: "tbl_get tab j = tbl_get (tables t Devices) j" for j using get [of j] d by auto
    from True res tk have "t' = ?u" "log' = log" by (auto simp: close_device_def Let_def)
    moreover have "owners_live ?u" using own by (auto simp: owners_live_def same)
    ultimately show ?thesis using uinv get by simp
  next
    case False
    from destroy_device_objects_eq [OF uinv False, of log] obtain t2 where
      t2: "destroy_device_objects (?u, log) d = (True, t2, log @ teardown_calls d ?u)"
        "tables t2 = teardown_table d ?u" by blast
    from res tk False t2(1) have eq: "t' = t2" "log' = log @ teardown_calls d ?u"
      by (auto simp: close_device_def Let_def)
    have dev: "tables t' Devices = tab" "tables t' Surfaces = tables t Surfaces"
      by (simp_all add: eq t2(2) teardown_table_def)
    have "owners_live t'"
      unfolding owners_live_def
    proof (intro allI impI)
      fix k j assume k: "k \<notin> {Devices, Surfaces}" and live: "tbl_get (tables t' k) j \<noteq> 0"
      then have live': "tbl_get (teardown_table d ?u k) j \<noteq> 0" by (simp add: eq t2(2))
      have ow: "tbl_owner (tables t' k) j = tbl_owner (tables t k) j" "tbl_owner (tables t k) j \<noteq> d"
        using teardown_table_owner [OF uinv k live'] k by (simp_all add: eq t2(2))
      have "tbl_get (tables t k) j \<noteq> 0"
        using live' k teardown_table_get [OF uinv k, of d j] by (auto split: if_splits)
      with own k obtain m where "tbl_owner (tables t k) j \<noteq> 0"
        "tbl_get (tables t Devices) m = tbl_owner (tables t k) j" by (auto simp: owners_live_def)
      moreover from this ow(2) d have "m \<noteq> i" by auto
      ultimately show "tbl_owner (tables t' k) j \<noteq> 0 \<and> (\<exists>m. tbl_get (tables t' Devices) m = tbl_owner (tables t' k) j)"
        using ow(1) get [of m] dev(1) by auto
    qed
    moreover have "tables_inv t'" using teardown_table_inv [OF uinv] by (simp add: tables_inv_def eq t2(2))
    ultimately show ?thesis using teardown_calls_device [of d ?u] dev get by (simp add: eq(2))
  qed
qed

lemma close_device_fold:
  "tables_inv t \<Longrightarrow> owners_live t \<Longrightarrow> list_all (\<lambda>c. is_device_call c) log \<Longrightarrow>
   fold close_device ids (t, log) = (t', log') \<Longrightarrow>
     tables_inv t' \<and> owners_live t' \<and> list_all (\<lambda>c. is_device_call c) log'
     \<and> tables t' Surfaces = tables t Surfaces
     \<and> (\<forall>j. tbl_get (tables t' Devices) j = (if j \<in> set ids then 0 else tbl_get (tables t Devices) j))"
proof (induction ids arbitrary: t log)
  case (Cons i ids)
  obtain u l where u: "close_device i (t, log) = (u, l)" by force
  from close_device_step [OF Cons.prems(1,2) u] Cons.IH [of u l] Cons.prems(3,4) u show ?case by simp
qed simp

lemma unlisted_dead: "table_inv tab \<Longrightarrow> i \<notin> set (table_ids tab) \<Longrightarrow> tbl_get tab i = 0"
proof (rule ccontr)
  assume inv: "table_inv tab" and no: "i \<notin> set (table_ids tab)" and "tbl_get tab i \<noteq> 0"
  then have "i \<noteq> 0" "unat i \<le> tbl_size tab" by (auto simp: tbl_get_def tbl_size_def split: if_splits)
  moreover have "of_nat (unat i) = i" by simp
  ultimately have "i \<in> of_nat ` {1..<Suc (tbl_size tab)}"
    using unat_gt_0 [of i] by (intro image_eqI [of _ _ "unat i"]) auto
  with no show False by (simp add: table_ids_def del: upt_Suc)
qed

subsection \<open>Ownership is kept by what handlers may do to the tables\<close>

text \<open>
  Slot by slot, without going through 64-bit ids, so that growth needs no bound: every live slot
  of a child table names a handle that stands in the device table. \<open>tables_step\<close> relates
  tables before and after a handler; it composes because tables only grow.
\<close>

definition lengths_ok :: "ObjectTables \<Rightarrow> bool" where
  "lengths_ok t \<longleftrightarrow> (\<forall>k. length (m_owners (tables t k)) = length (m_slots (tables t k)))"

definition bounded :: "ObjectTables \<Rightarrow> bool" where
  "bounded t \<longleftrightarrow> (\<forall>k. tbl_size (tables t k) < 2 ^ 64)"

definition slots_owned :: "ObjectTables \<Rightarrow> bool" where
  "slots_owned t \<longleftrightarrow> (\<forall>k. k \<notin> {Devices, Surfaces} \<longrightarrow> (\<forall>(v, w) \<in> set (zip (m_slots (tables t k)) (m_owners (tables t k))).
     v \<noteq> 0 \<longrightarrow> w \<noteq> 0 \<and> w \<in> set (m_slots (tables t Devices))))"

definition tables_step :: "ObjectTables \<Rightarrow> ObjectTables \<Rightarrow> bool" where
  "tables_step t t' \<longleftrightarrow> (lengths_ok t \<longrightarrow> lengths_ok t' \<and> (\<forall>k. tbl_size (tables t k) \<le> tbl_size (tables t' k))
     \<and> (slots_owned t \<and> bounded t' \<longrightarrow> slots_owned t'))"

lemma tables_inv_iff: "tables_inv t \<longleftrightarrow> lengths_ok t \<and> bounded t"
  by (auto simp: tables_inv_def lengths_ok_def bounded_def table_inv_def tbl_size_def)

lemma slot_ids:
  assumes "table_inv tab"
  shows "(v, w) \<in> set (zip (m_slots tab) (m_owners tab)) \<longleftrightarrow>
    (\<exists>i. i \<noteq> 0 \<and> unat i \<le> tbl_size tab \<and> tbl_get tab i = v \<and> tbl_owner tab i = w)" (is "?l \<longleftrightarrow> ?r")
proof
  assume ?l
  then obtain n where n: "n < length (m_slots tab)" "m_slots tab ! n = v" "m_owners tab ! n = w"
    by (auto simp: set_zip)
  let ?i = "of_nat (Suc n) :: u64"
  have u: "unat ?i = Suc n" using n(1) assms by (intro unat_of_nat_small) (simp add: table_inv_def)
  then have "?i \<noteq> 0" by (metis nat.distinct(1) unat_0)
  moreover from this have "tbl_get tab ?i = v" "tbl_owner tab ?i = w"
    using u n assms by (simp_all add: tbl_get_def tbl_owner_def table_inv_def)
  ultimately show ?r using u n(1) by (intro exI [of _ ?i]) (simp add: tbl_size_def)
next
  assume ?r
  then show ?l using assms index_less
    by (fastforce simp: set_zip tbl_get_def tbl_owner_def tbl_size_def table_inv_def)
qed

lemma tbl_get_slot: "tbl_get tab i \<noteq> 0 \<Longrightarrow> tbl_get tab i \<in> set (m_slots tab)"
  by (auto simp: tbl_get_def index_less split: if_splits)

lemma slot_tbl_get:
  assumes "table_inv tab" "v \<in> set (m_slots tab)"
  shows "\<exists>i. tbl_get tab i = v"
proof -
  from assms(2) obtain n where "n < length (m_slots tab)" "m_slots tab ! n = v" by (auto simp: in_set_conv_nth)
  with assms(1) have "(v, m_owners tab ! n) \<in> set (zip (m_slots tab) (m_owners tab))"
    by (auto simp: table_inv_def set_zip)
  then show ?thesis using slot_ids [OF assms(1)] by blast
qed

lemma owners_live_iff:
  assumes "tables_inv t"
  shows "owners_live t \<longleftrightarrow> slots_owned t"
proof -
  have ti: "table_inv (tables t k)" for k using assms by (simp add: tables_inv_def)
  have dev: "w \<noteq> 0 \<Longrightarrow> (\<exists>j. tbl_get (tables t Devices) j = w) \<longleftrightarrow> w \<in> set (m_slots (tables t Devices))" for w
    using tbl_get_slot slot_tbl_get [OF ti] by blast
  have live: "tbl_get (tables t k) i \<noteq> 0 \<Longrightarrow> i \<noteq> 0 \<and> unat i \<le> tbl_size (tables t k)" for k i
    by (auto simp: tbl_get_def tbl_size_def split: if_splits)
  have each: "(\<forall>i. tbl_get (tables t k) i \<noteq> 0 \<longrightarrow> P (tbl_owner (tables t k) i)) \<longleftrightarrow>
      (\<forall>(v, w) \<in> set (zip (m_slots (tables t k)) (m_owners (tables t k))). v \<noteq> 0 \<longrightarrow> P w)" for k P
    using live [of k] slot_ids [OF ti, of _ _ k] by fastforce
  have "owners_live t \<longleftrightarrow> (\<forall>k. k \<notin> {Devices, Surfaces} \<longrightarrow> (\<forall>i. tbl_get (tables t k) i \<noteq> 0 \<longrightarrow>
      (\<lambda>w. w \<noteq> 0 \<and> w \<in> set (m_slots (tables t Devices))) (tbl_owner (tables t k) i)))"
    unfolding owners_live_def using dev by metis
  also have "\<dots> \<longleftrightarrow> slots_owned t" unfolding slots_owned_def by (subst each) (rule refl)
  finally show ?thesis .
qed

lemma tables_step_refl [intro, simp]: "tables_step t t"
  by (simp add: tables_step_def)

lemma tables_step_trans:
  assumes tu: "tables_step t u" and uv: "tables_step u v"
  shows "tables_step t v"
  unfolding tables_step_def
proof
  assume "lengths_ok t"
  with tu have u: "lengths_ok u" "\<And>k. tbl_size (tables t k) \<le> tbl_size (tables u k)"
    "slots_owned t \<Longrightarrow> bounded u \<Longrightarrow> slots_owned u" by (simp_all add: tables_step_def)
  with uv have v: "lengths_ok v" "\<And>k. tbl_size (tables u k) \<le> tbl_size (tables v k)"
    "slots_owned u \<Longrightarrow> bounded v \<Longrightarrow> slots_owned v" by (simp_all add: tables_step_def)
  have "bounded v \<Longrightarrow> bounded u" unfolding bounded_def using v(2) le_less_trans by blast
  then show "lengths_ok v \<and> (\<forall>k. tbl_size (tables t k) \<le> tbl_size (tables v k))
      \<and> (slots_owned t \<and> bounded v \<longrightarrow> slots_owned v)"
    using u v order_trans by blast
qed

lemma tables_step_meta: "tables t' = tables t \<Longrightarrow> tables_step t t'"
  by (simp add: tables_step_def lengths_ok_def slots_owned_def)

lemma tables_step_add:
  assumes "k \<in> {Devices, Surfaces} \<or> v = 0 \<or> (w \<noteq> 0 \<and> w \<in> set (m_slots (tables t Devices)))"
  shows "tables_step t (set_table k (snd (tbl_add (tables t k) v w)) t)"
  unfolding tables_step_def
proof (intro conjI impI)
  let ?t = "set_table k (snd (tbl_add (tables t k) v w)) t"
  assume l: "lengths_ok t"
  show "\<forall>k'. tbl_size (tables t k') \<le> tbl_size (tables ?t k')"
    by (simp add: tbl_add_def tbl_size_def)
  show "lengths_ok ?t" using l by (auto simp: lengths_ok_def tbl_add_def)
  assume "slots_owned t \<and> bounded ?t"
  with l have a: "lengths_ok t \<and> slots_owned t \<and> bounded ?t" by simp
  have len: "length (m_owners (tables t k)) = length (m_slots (tables t k))" using a by (simp add: lengths_ok_def)
  have sub: "set (m_slots (tables t Devices)) \<subseteq> set (m_slots (tables ?t Devices))" by (auto simp: tbl_add_def)
  have "w' \<noteq> 0 \<and> w' \<in> set (m_slots (tables ?t Devices))"
    if k': "k' \<notin> {Devices, Surfaces}" and v': "v' \<noteq> 0"
      and m: "(v', w') \<in> set (zip (m_slots (tables ?t k')) (m_owners (tables ?t k')))" for k' v' w'
  proof -
    consider "(v', w') \<in> set (zip (m_slots (tables t k')) (m_owners (tables t k')))" | "k' = k" "v' = v" "w' = w"
      using m len by (cases "k' = k") (auto simp: tbl_add_def)
    then show ?thesis
    proof cases
      case 1
      with a k' v' have "w' \<noteq> 0 \<and> w' \<in> set (m_slots (tables t Devices))" unfolding slots_owned_def by blast
      with sub show ?thesis by blast
    next
      case 2
      with assms k' v' sub show ?thesis by auto
    qed
  qed
  then show "slots_owned ?t" unfolding slots_owned_def by blast
qed

lemma tables_step_add_unique:
  assumes "k \<in> {Devices, Surfaces} \<or> v = 0 \<or> (w \<noteq> 0 \<and> w \<in> set (m_slots (tables t Devices)))"
  shows "tables_step t (set_table k (snd (tbl_add_unique (tables t k) v w)) t)"
  using tables_step_add [OF assms]
  by (auto simp: tbl_add_unique_def set_table_def split: option.splits)

lemma tables_step_take:
  assumes "k \<noteq> Devices"
  shows "tables_step t (set_table k (snd (tbl_take (tables t k) i)) t)"
  unfolding tables_step_def
proof (intro conjI impI)
  let ?t = "set_table k (snd (tbl_take (tables t k) i)) t"
  assume l: "lengths_ok t"
  show "\<forall>k'. tbl_size (tables t k') \<le> tbl_size (tables ?t k')" by simp
  show "lengths_ok ?t" using l by (auto simp: lengths_ok_def tbl_take_def)
  assume "slots_owned t \<and> bounded ?t"
  with l have a: "lengths_ok t \<and> slots_owned t \<and> bounded ?t" by simp
  then have b: "bounded t" by (auto simp: bounded_def split: if_splits)
  have inv: "tables_inv t" using a b by (simp add: tables_inv_iff)
  have inv': "tables_inv ?t" using inv by (simp add: tables_inv_def tbl_take_inv)
  have ti: "table_inv (tables t k)" using inv by (simp add: tables_inv_def)
  have "owners_live t" using a owners_live_iff [OF inv] by simp
  then have "owners_live ?t" using assms
    by (auto simp: owners_live_def tbl_get_take tbl_owner_take [OF ti])
  then show "slots_owned ?t" using owners_live_iff [OF inv'] by simp
qed

definition shape :: "Table \<Rightarrow> nat \<times> nat" where
  "shape tab = (length (m_slots tab), length (m_owners tab))"

lemma shape_take [simp]: "shape (snd (tbl_take tab i)) = shape tab"
  by (simp add: shape_def tbl_take_def)

lemma shape_destroy_one: "shape (fst (destroy_one k d i st)) = shape (fst st)"
  by (cases st) (simp add: destroy_one_def case_prod_unfold Let_def)

lemma shape_fold_destroy: "shape (fst (fold (destroy_one k d) is st)) = shape (fst st)"
  by (induction "is" arbitrary: st) (simp_all add: shape_destroy_one)

lemma shape_destroy_owned: "shape (tables (fst (destroy_owned d k st)) k') = shape (tables (fst st) k')"
  using shape_fold_destroy [of k d "table_ids (tables (fst st) k)" "(tables (fst st) k, snd st)"]
  by (auto simp: destroy_owned_def Let_def split: prod.splits)

lemma shape_destroy_owned_fold: "shape (tables (fst (fold (destroy_owned d) ks st)) k') = shape (tables (fst st) k')"
  by (induction ks arbitrary: st) (simp_all add: shape_destroy_owned)

lemma shape_retire_images: "shape (tables (retire_swapchain_images d t) k') = shape (tables t k')"
proof -
  have take: "shape (fold (\<lambda>img tab. snd (tbl_take tab img)) imgs tab) = shape tab" for imgs tab
    by (induction imgs arbitrary: tab) simp_all
  have "shape (fold (\<lambda>(sc, imgs) tab. if ow sc \<noteq> d then tab
      else fold (\<lambda>img tab. snd (tbl_take tab img)) imgs tab) cache tab) = shape tab" for ow cache tab
    by (induction cache arbitrary: tab) (auto simp: take)
  from this [of "tbl_owner (tables t Swapchains)" "swapchain_image_ids t" "tables t Images"]
  show ?thesis by (simp add: retire_swapchain_images_def)
qed

lemma shape_retire_kind:
  assumes "\<forall>k. length (m_owners (tables t k)) = length (m_slots (tables t k))"
  shows "shape (tables (fold (retire_kind d) ks t) k') = shape (tables t k')"
  using assms
proof (induction ks arbitrary: t)
  case (Cons k ks)
  have one: "shape (tables (retire_kind d k t) k') = shape (tables t k')" for k'
    using Cons.prems by (simp add: retire_kind_def shape_def tbl_retire_owned_def)
  then have "\<forall>k'. length (m_owners (tables (retire_kind d k t) k')) = length (m_slots (tables (retire_kind d k t) k'))"
    using Cons.prems by (simp add: shape_def)
  with Cons.IH one show ?case by simp
qed simp

lemma destroy_device_objects_shape:
  assumes "lengths_ok t"
  shows "shape (tables (fst (snd (destroy_device_objects (t, log) d))) k) = shape (tables t k)"
proof (cases "d = 0")
  case True
  then show ?thesis by (simp add: destroy_device_objects_def)
next
  case False
  obtain t1 log1 where f1: "fold (destroy_owned d) first_kinds (t, log @ [NativeDeviceWaitIdle d]) = (t1, log1)" by force
  obtain t3 log3 where f3: "fold (destroy_owned d) last_kinds (retire_swapchain_images d t1, log1) = (t3, log3)" by force
  have s3: "shape (tables t3 k) = shape (tables t k)" for k
    using shape_destroy_owned_fold [of d last_kinds "(retire_swapchain_images d t1, log1)" k]
      shape_destroy_owned_fold [of d first_kinds "(t, log @ [NativeDeviceWaitIdle d])" k] f1 f3
    by (simp add: shape_retire_images)
  then have "\<forall>k. length (m_owners (tables t3 k)) = length (m_slots (tables t3 k))"
    using assms by (simp add: shape_def lengths_ok_def)
  then show ?thesis using False s3 f1 f3
    by (simp add: destroy_device_objects_def Let_def shape_retire_kind)
qed

lemma close_device_shape:
  assumes "lengths_ok t"
  shows "shape (tables (fst (close_device i (t, log))) k) = shape (tables t k)"
proof -
  obtain d tab where tk: "tbl_take (tables t Devices) i = (d, tab)" by force
  have tab: "shape tab = shape (tables t Devices)" using shape_take [of "tables t Devices" i] tk by simp
  then have "lengths_ok (set_table Devices tab t)" using assms by (auto simp: lengths_ok_def shape_def)
  from destroy_device_objects_shape [OF this, of log d k] tab show ?thesis
    by (auto simp: close_device_def tk Let_def)
qed

lemma tables_step_close_device: "tables_step t (fst (close_device i (t, log)))"
  unfolding tables_step_def
proof (intro impI conjI)
  let ?t = "fst (close_device i (t, log))"
  assume l: "lengths_ok t"
  note sh = close_device_shape [OF l, of i log]
  show l': "lengths_ok ?t" using l sh by (simp add: lengths_ok_def shape_def)
  show "\<forall>k. tbl_size (tables t k) \<le> tbl_size (tables ?t k)" using sh by (simp add: tbl_size_def shape_def)
  assume o: "slots_owned t \<and> bounded ?t"
  then have "bounded t" using sh by (simp add: bounded_def tbl_size_def shape_def)
  with l have inv: "tables_inv t" by (simp add: tables_inv_iff)
  have inv': "tables_inv ?t" using l' o by (simp add: tables_inv_iff)
  have "owners_live t" using o owners_live_iff [OF inv] by simp
  then have "owners_live ?t" using close_device_step [OF inv, of i log] by (cases "close_device i (t, log)") auto
  then show "slots_owned ?t" using owners_live_iff [OF inv'] by simp
qed

lemma session_teardown:
  assumes inv: "tables_inv t" and own: "owners_live t"
  shows "\<exists>t' device_calls. destroy_session_objects t =
      (t', device_calls @ concat (map (\<lambda>s. [NativeDestroySurface s, ReleaseSurfaceWindow s])
          (filter (\<lambda>s. s \<noteq> VK_NULL_HANDLE) (m_slots (tables t Surfaces)))))
    \<and> list_all (\<lambda>c. is_device_call c) device_calls
    \<and> (\<forall>k i. k \<noteq> Surfaces \<longrightarrow> resolve t' k i = VK_NULL_HANDLE)"
proof -
  obtain t' log where f: "fold close_device (table_ids (tables t Devices)) (t, []) = (t', log)" by force
  from close_device_fold [OF inv own _ f] have
    r: "owners_live t'" "list_all (\<lambda>c. is_device_call c) log" "tables t' Surfaces = tables t Surfaces"
      "\<And>j. tbl_get (tables t' Devices) j =
        (if j \<in> set (table_ids (tables t Devices)) then 0 else tbl_get (tables t Devices) j)"
    by auto
  have dead: "tbl_get (tables t' Devices) j = 0" for j
    using unlisted_dead [of "tables t Devices" j] inv by (simp add: r(4) tables_inv_def)
  then have "resolve t' k i = VK_NULL_HANDLE" if "k \<noteq> Surfaces" for k i
    using r(1) that by (cases "k = Devices") (auto simp: resolve_def owners_live_def)
  moreover have "destroy_session_objects t =
      (t', log @ concat (map (\<lambda>s. [NativeDestroySurface s, ReleaseSurfaceWindow s])
          (filter (\<lambda>s. s \<noteq> VK_NULL_HANDLE) (m_slots (tables t Surfaces)))))"
    using f r(3) by (simp add: destroy_session_objects_def)
  ultimately show ?thesis using r(2) by blast
qed

subsection \<open>Properties\<close>

text \<open>
  C3. Use after destroy is refused forever: once an id has been taken out of a table, no sequence
  of later additions, unique additions, destructions and device retirements makes that id resolve
  to an object again (as long as fewer than \<open>2 ^ 64\<close> slots were ever used), while an id that
  was not destroyed resolves to its original object or to nothing, never to another object.
\<close>

theorem destroyed_id_never_revived:
  assumes "table_inv t" and "tbl_size t + length ops < 2 ^ 64" and "unat i \<le> tbl_size t"
  shows "tbl_get (foldl tbl_step (snd (tbl_take t i)) ops) i = VK_NULL_HANDLE
    \<and> tbl_get (foldl tbl_step t ops) i \<in> {tbl_get t i, VK_NULL_HANDLE}"
  using tbl.dead_stays_dead [of t i ops] tbl.run_keeps [OF assms] tbl_take_inv [OF assms(1), of i] assms
  by simp

theorem destroyed_id_never_revived_witness:
  "tbl_get (foldl tbl_step (snd (tbl_take \<lparr>m_slots = [7, 8], m_owners = [1, 1]\<rparr> 2)) [AddOp 8 1, AddUniqueOp 8 1, RetireOp 3]) 2
     = VK_NULL_HANDLE
   \<and> tbl_get (foldl tbl_step \<lparr>m_slots = [7, 8], m_owners = [1, 1]\<rparr> [AddOp 8 1, AddUniqueOp 8 1, RetireOp 3]) 2
     \<in> {tbl_get \<lparr>m_slots = [7, 8], m_owners = [1, 1]\<rparr> 2, VK_NULL_HANDLE}"
  by (rule destroyed_id_never_revived) (simp_all add: table_inv_def tbl_size_def)

text \<open>
  C4. Destroying a device kills exactly what belongs to it: afterwards an id of any table other
  than the device and surface tables is dead if its object was owned by that device, or if it is
  the id of a borrowed image of one of the device's swapchains, and otherwise resolves as before;
  ids of devices and surfaces are untouched.
\<close>

theorem destroy_device_objects_exact:
  assumes "tables_inv t" and "device \<noteq> VK_NULL_HANDLE"
  shows "resolve (fst (snd (destroy_device_objects (t, log) device))) k i =
    (if k \<notin> {Devices, Surfaces} \<and> (tbl_owned_by (tables t k) i device \<or> k = Images \<and> i \<in> borrowed_images device t)
     then VK_NULL_HANDLE else resolve t k i)"
proof -
  from destroy_device_objects_eq [OF assms, of log] obtain t' where
    "destroy_device_objects (t, log) device = (True, t', log @ teardown_calls device t)"
    "tables t' = teardown_table device t" by blast
  then show ?thesis using teardown_table_get [OF assms(1), of k device i]
    by (cases "k \<in> {Devices, Surfaces}") (auto simp: resolve_def teardown_table_def)
qed

theorem destroy_device_objects_exact_witness:
  "resolve (fst (snd (destroy_device_objects
       (ObjectTables_init\<lparr>tables := (\<lambda>_. Table_empty)(Fences := \<lparr>m_slots = [5, 6], m_owners = [9, 4]\<rparr>)\<rparr>, []) 9))) Fences 1 =
    (if Fences \<notin> {Devices, Surfaces} \<and> (tbl_owned_by (tables (ObjectTables_init\<lparr>tables := (\<lambda>_. Table_empty)(Fences := \<lparr>m_slots = [5, 6], m_owners = [9, 4]\<rparr>)\<rparr>) Fences) 1 9
       \<or> Fences = Images \<and> 1 \<in> borrowed_images 9 (ObjectTables_init\<lparr>tables := (\<lambda>_. Table_empty)(Fences := \<lparr>m_slots = [5, 6], m_owners = [9, 4]\<rparr>)\<rparr>))
     then VK_NULL_HANDLE else resolve (ObjectTables_init\<lparr>tables := (\<lambda>_. Table_empty)(Fences := \<lparr>m_slots = [5, 6], m_owners = [9, 4]\<rparr>)\<rparr>) Fences 1)"
  by (rule destroy_device_objects_exact) (simp_all add: tables_inv_def table_inv_def Table_empty_def)

text \<open>
  The driver sees a dependency-safe teardown: the calls made for a device are exactly one
  wait for idle, then one destroy per live owned object, table by table in the order of the code
  (framebuffers and pipelines before the views, layouts and render passes they use; images after
  their views; swapchains and memory last), then the device itself. No object of another device
  is passed to the driver, and the memory is freed after every buffer and image.
\<close>

theorem destroy_device_objects_calls:
  assumes "tables_inv t" and "device \<noteq> VK_NULL_HANDLE"
  shows "snd (snd (destroy_device_objects (t, log) device)) =
    log @ [NativeDeviceWaitIdle device]
     @ concat (map (\<lambda>k. map (NativeDestroy k device) (owned_list device (tables t k))) first_kinds)
     @ map (NativeDestroy Images device) (owned_list device (tables (retire_swapchain_images device t) Images))
     @ map (NativeDestroy Swapchains device) (owned_list device (tables t Swapchains))
     @ map (NativeDestroy Memories device) (owned_list device (tables t Memories))
     @ [NativeDestroyDevice device]"
proof -
  from destroy_device_objects_eq [OF assms, of log] obtain t' where
    "destroy_device_objects (t, log) device = (True, t', log @ teardown_calls device t)" by blast
  then show ?thesis by (simp add: teardown_calls_def)
qed

theorem destroy_device_objects_calls_witness:
  "snd (snd (destroy_device_objects (ObjectTables_init, []) 9)) =
    [] @ [NativeDeviceWaitIdle 9]
     @ concat (map (\<lambda>k. map (NativeDestroy k 9) (owned_list 9 (tables ObjectTables_init k))) first_kinds)
     @ map (NativeDestroy Images 9) (owned_list 9 (tables (retire_swapchain_images 9 ObjectTables_init) Images))
     @ map (NativeDestroy Swapchains 9) (owned_list 9 (tables ObjectTables_init Swapchains))
     @ map (NativeDestroy Memories 9) (owned_list 9 (tables ObjectTables_init Memories))
     @ [NativeDestroyDevice 9]"
  by (rule destroy_device_objects_calls)
    (simp_all add: tables_inv_def table_inv_def ObjectTables_init_def Table_empty_def)

text \<open>
  The presentation engine's images are never destroyed by the server: where every image
  handle stands in one slot, the handle of an image borrowed from a swapchain of the device is not
  in any destroy call of the teardown, although its id is dead afterwards.
\<close>

theorem borrowed_images_not_destroyed:
  assumes inv: "tables_inv t" and d: "device \<noteq> VK_NULL_HANDLE"
    and uniq: "\<And>j. resolve t Images j = resolve t Images i \<Longrightarrow> j = i"
    and img: "i \<in> borrowed_images device t"
  shows "NativeDestroy Images device (resolve t Images i) \<notin> set (snd (snd (destroy_device_objects (t, []) device)))
    \<and> resolve (fst (snd (destroy_device_objects (t, []) device))) Images i = VK_NULL_HANDLE"
proof -
  from destroy_device_objects_eq [OF inv d, of "[]"] obtain t' where
    eq: "destroy_device_objects (t, []) device = (True, t', [] @ teardown_calls device t)"
      "tables t' = teardown_table device t" by blast
  let ?tab = "tables (retire_swapchain_images device t) Images"
  have ti: "table_inv ?tab" using retire_swapchain_images_get(1) [OF inv] by (simp add: tables_inv_def)
  have "resolve t Images i \<notin> set (owned_list device ?tab)"
  proof
    assume "resolve t Images i \<in> set (owned_list device ?tab)"
    then obtain n where n: "n < length (m_slots ?tab)" "m_slots ?tab ! n = resolve t Images i"
      "resolve t Images i \<noteq> 0" by (auto simp: owned_list_def set_zip)
    then have small: "Suc n < 2 ^ 64" using ti by (simp add: table_inv_def)
    let ?j = "of_nat (Suc n) :: u64"
    have j: "unat ?j = Suc n" using small by (intro unat_of_nat_small) simp
    then have "?j \<noteq> 0" by (metis nat.distinct(1) unat_0)
    with j n have get: "tbl_get ?tab ?j = resolve t Images i" by (simp add: tbl_get_def)
    with n(3) retire_swapchain_images_get(3) [OF inv, of device ?j]
    have "resolve t Images ?j = resolve t Images i" "?j \<notin> borrowed_images device t"
      by (auto simp: resolve_def split: if_splits)
    with uniq img show False by metis
  qed
  then have "NativeDestroy Images device (resolve t Images i) \<notin> set (teardown_calls device t)"
    by (auto simp: teardown_calls_def first_kinds_def)
  then show ?thesis using eq img teardown_table_get [OF inv, of Images device i] by (simp add: resolve_def)
qed

definition borrowed_example :: ObjectTables where
  "borrowed_example = ObjectTables_init\<lparr>
     tables := (\<lambda>_. Table_empty)(Images := \<lparr>m_slots = [11, 12], m_owners = [9, 9]\<rparr>,
       Swapchains := \<lparr>m_slots = [3], m_owners = [9]\<rparr>, Devices := \<lparr>m_slots = [9], m_owners = [0]\<rparr>),
     swapchain_image_ids := [(1, [2])]\<rparr>"

lemma borrowed_example_inv: "tables_inv borrowed_example"
  by (simp add: tables_inv_def table_inv_def borrowed_example_def Table_empty_def)

theorem borrowed_images_not_destroyed_witness:
  "NativeDestroy Images 9 (resolve borrowed_example Images 2)
       \<notin> set (snd (snd (destroy_device_objects (borrowed_example, []) 9)))
   \<and> resolve (fst (snd (destroy_device_objects (borrowed_example, []) 9))) Images 2 = VK_NULL_HANDLE"
proof (rule borrowed_images_not_destroyed [OF borrowed_example_inv])
  show "2 \<in> borrowed_images 9 borrowed_example"
    by (auto simp: borrowed_images_def borrowed_example_def tbl_owner_def)
  fix j assume "resolve borrowed_example Images j = resolve borrowed_example Images 2"
  then have "j \<noteq> 0" "unat j \<le> 2" "[11, 12 :: u64] ! (unat j - 1) = 12"
    by (auto simp: resolve_def borrowed_example_def tbl_get_def split: if_splits)
  then have "unat j = 2" using unat_gt_0 [of j] by (cases "unat j = 1") (auto simp: le_Suc_eq numeral_2_eq_2)
  then have "unat j = unat (2 :: u64)" by simp
  then show "j = 2" by (simp only: word_unat_eq_iff)
qed simp

text \<open>
  C5. A disconnect leaves nothing behind: if every live child belongs to a device the connection
  holds, then after \<open>destroy_session_objects\<close> no id of any table but the surfaces' resolves,
  and the calls to the driver are the device teardowns followed by one destroy and one window
  release for each live surface, so no surface is destroyed before the swapchains on it.
\<close>

theorem destroy_session_objects_complete:
  assumes inv: "tables_inv t" and own: "owners_live t"
  shows "\<exists>t' device_calls. destroy_session_objects t =
      (t', device_calls @ concat (map (\<lambda>s. [NativeDestroySurface s, ReleaseSurfaceWindow s])
          (filter (\<lambda>s. s \<noteq> VK_NULL_HANDLE) (m_slots (tables t Surfaces)))))
    \<and> list_all (\<lambda>c. is_device_call c) device_calls
    \<and> (\<forall>k i. k \<noteq> Surfaces \<longrightarrow> resolve t' k i = VK_NULL_HANDLE)"
  using session_teardown [OF inv own] .

theorem destroy_session_objects_complete_witness:
  "\<exists>t' device_calls. destroy_session_objects borrowed_example =
      (t', device_calls @ concat (map (\<lambda>s. [NativeDestroySurface s, ReleaseSurfaceWindow s])
          (filter (\<lambda>s. s \<noteq> VK_NULL_HANDLE) (m_slots (tables borrowed_example Surfaces)))))
    \<and> list_all (\<lambda>c. is_device_call c) device_calls
    \<and> (\<forall>k i. k \<noteq> Surfaces \<longrightarrow> resolve t' k i = VK_NULL_HANDLE)"
proof (rule destroy_session_objects_complete [OF borrowed_example_inv])
  have own: "tbl_owner (tables borrowed_example k) i = 9"
    if "k \<notin> {Devices, Surfaces}" "tbl_get (tables borrowed_example k) i \<noteq> 0" for k i
    using that index_less [of i 2] unat_gt_0 [of i] by (auto simp: borrowed_example_def tbl_get_def tbl_owner_def Table_empty_def
        less_Suc_eq numeral_2_eq_2 split: if_splits)
  have "tbl_get (tables borrowed_example Devices) 1 = 9" by (simp add: borrowed_example_def tbl_get_def)
  with own show "owners_live borrowed_example" unfolding owners_live_def by fastforce
qed

end
