(* ===== verification/Workers.thy ===== *)
theory Workers
  imports Prelude
begin

section \<open>The pool of blocking waits (server/session.cpp, \<open>RequestWorkers\<close>)\<close>

text \<open>
  Requests that block in the driver (idle, fence and semaphore waits) leave the connection's
  control lane and run on eight worker threads. \<open>submit\<close>, the two critical sections of
  \<open>run\<close> and \<open>stop\<close> are functions on the pool's state; the threads are a step
  relation that interleaves them. A pool state carries, beside the members of the class, the jobs
  the threads are executing and two histories (accepted and started jobs) that the code does not
  store and that only the statements use.
\<close>

subsection \<open>State and operations\<close>

record 'j Job =
  job_request_id :: u64
  job_lane :: u64
  job_run :: 'j

text \<open>
  \<open>lane_jobs\<close> maps a lane to its deque; the code erases a deque that becomes empty, so an
  absent lane and an empty one are the same state.
\<close>

record 'j RequestWorkers =
  jobs :: "'j Job list"
  lane_jobs :: "u64 \<Rightarrow> 'j Job list"
  active_lanes :: "u64 set"
  active_ids :: "u64 set"
  stopping :: bool

definition kMaxJobs :: nat where
  "kMaxJobs = 64"

definition RequestWorkers_init :: "'j RequestWorkers" where
  "RequestWorkers_init = \<lparr>jobs = [], lane_jobs = (\<lambda>_. []), active_lanes = {}, active_ids = {}, stopping = False\<rparr>"

definition workers_submit :: "'j RequestWorkers \<Rightarrow> u64 \<Rightarrow> 'j \<Rightarrow> u64 \<Rightarrow> bool \<times> 'j RequestWorkers" where
  "workers_submit w request_id job lane =
     (if stopping w \<or> request_id \<in> active_ids w \<or> card (active_ids w) \<ge> kMaxJobs then (False, w)
      else let w1 = w\<lparr>active_ids := insert request_id (active_ids w)\<rparr>;
               j = \<lparr>job_request_id = request_id, job_lane = lane, job_run = job\<rparr> in
        if lane = 0 \<or> lane \<notin> active_lanes w1
        then (True, w1\<lparr>active_lanes := (if lane \<noteq> 0 then insert lane (active_lanes w1) else active_lanes w1),
                       jobs := jobs w1 @ [j]\<rparr>)
        else (True, w1\<lparr>lane_jobs := (lane_jobs w1)(lane := lane_jobs w1 lane @ [j])\<rparr>))"

definition workers_stop :: "'j RequestWorkers \<Rightarrow> 'j RequestWorkers" where
  "workers_stop w =
     (if stopping w then w else w\<lparr>stopping := True, jobs := [], lane_jobs := (\<lambda>_. [])\<rparr>)"

text \<open>The first critical section of a thread's loop: the job it takes, if it may run one.\<close>

definition workers_pop :: "'j RequestWorkers \<Rightarrow> ('j Job \<times> 'j RequestWorkers) option" where
  "workers_pop w =
     (if stopping w then None
      else case jobs w of [] \<Rightarrow> None | j # rest \<Rightarrow> Some (j, w\<lparr>jobs := rest\<rparr>))"

text \<open>The second critical section, after the job returned.\<close>

definition workers_finish :: "'j Job \<Rightarrow> 'j RequestWorkers \<Rightarrow> 'j RequestWorkers" where
  "workers_finish job w =
     (let w1 = w\<lparr>active_ids := active_ids w - {job_request_id job}\<rparr> in
      if job_lane job = 0 then w1
      else case lane_jobs w1 (job_lane job) of
             [] \<Rightarrow> w1\<lparr>active_lanes := active_lanes w1 - {job_lane job}\<rparr>
           | next_job # rest \<Rightarrow> w1\<lparr>jobs := jobs w1 @ [next_job],
               lane_jobs := (lane_jobs w1)(job_lane job := rest)\<rparr>)"

subsection \<open>The threads\<close>

record 'j Pool =
  workers :: "'j RequestWorkers"
  running :: "'j Job list"
  accepted :: "'j Job list"   \<comment> \<open>history\<close>
  started :: "'j Job list"    \<comment> \<open>history\<close>

definition Pool_init :: "'j Pool" where
  "Pool_init = \<lparr>workers = RequestWorkers_init, running = [], accepted = [], started = []\<rparr>"

inductive worker_step :: "nat \<Rightarrow> 'j Pool \<Rightarrow> 'j Pool \<Rightarrow> bool" for threads where
  start: "length (running s) < threads \<Longrightarrow> workers_pop (workers s) = Some (j, w) \<Longrightarrow>
    worker_step threads s (s\<lparr>workers := w, running := running s @ [j], started := started s @ [j]\<rparr>)"
| finish: "running s = xs @ j # ys \<Longrightarrow>
    worker_step threads s (s\<lparr>workers := workers_finish j (workers s), running := xs @ ys\<rparr>)"

inductive pool_step :: "nat \<Rightarrow> 'j Pool \<Rightarrow> 'j Pool \<Rightarrow> bool" for threads where
  worker: "worker_step threads s s' \<Longrightarrow> pool_step threads s s'"
| submit: "workers_submit (workers s) request_id job lane = (ok, w) \<Longrightarrow>
    pool_step threads s (s\<lparr>workers := w, accepted := (if ok then accepted s @
      [\<lparr>job_request_id = request_id, job_lane = lane, job_run = job\<rparr>] else accepted s)\<rparr>)"
| stop: "pool_step threads s (s\<lparr>workers := workers_stop (workers s)\<rparr>)"

inductive_cases worker_stepE: "worker_step threads s s'"
inductive_cases pool_stepE: "pool_step threads s s'"

subsection \<open>Invariant\<close>

definition on_lane :: "u64 \<Rightarrow> 'j Job list \<Rightarrow> 'j Job list" where
  "on_lane l js = filter (\<lambda>j. job_lane j = l) js"

definition ids :: "'j Job list \<Rightarrow> u64 list" where
  "ids js = map job_request_id js"

definition pending_ids :: "'j Pool \<Rightarrow> u64 set" where
  "pending_ids s = set (ids (jobs (workers s) @ running s)) \<union> (\<Union>l. set (ids (lane_jobs (workers s) l)))"

text \<open>Request ids: no two unfinished jobs share one, and they are the active ids.\<close>

definition ids_inv :: "'j Pool \<Rightarrow> bool" where
  "ids_inv s \<longleftrightarrow> distinct (ids (jobs (workers s) @ running s))
     \<and> (\<forall>l. distinct (ids (lane_jobs (workers s) l))
          \<and> set (ids (lane_jobs (workers s) l)) \<inter> set (ids (jobs (workers s) @ running s)) = {}
          \<and> (\<forall>l'. l \<noteq> l' \<longrightarrow> set (ids (lane_jobs (workers s) l)) \<inter> set (ids (lane_jobs (workers s) l')) = {}))
     \<and> (if stopping (workers s) then pending_ids s \<subseteq> active_ids (workers s)
        else pending_ids s = active_ids (workers s))
     \<and> finite (active_ids (workers s)) \<and> card (active_ids (workers s)) \<le> kMaxJobs"

text \<open>Lanes: one job of a lane is ready or running exactly while the lane is active; the rest wait.\<close>

definition lane_inv :: "'j Pool \<Rightarrow> u64 \<Rightarrow> bool" where
  "lane_inv s l \<longleftrightarrow> (\<forall>j \<in> set (lane_jobs (workers s) l). job_lane j = l)
     \<and> (l \<notin> active_lanes (workers s) \<or> l = 0 \<longrightarrow> lane_jobs (workers s) l = [])
     \<and> (let n = length (on_lane l (jobs (workers s))) + length (on_lane l (running s)) in
        (l \<noteq> 0 \<and> l \<in> active_lanes (workers s) \<longrightarrow> n \<le> 1)
      \<and> (l \<noteq> 0 \<and> l \<notin> active_lanes (workers s) \<longrightarrow> n = 0)
      \<and> (l \<noteq> 0 \<and> l \<in> active_lanes (workers s) \<and> \<not> stopping (workers s) \<longrightarrow> n = 1))"

definition lanes_inv :: "'j Pool \<Rightarrow> bool" where
  "lanes_inv s \<longleftrightarrow> (\<forall>l. lane_inv s l)
     \<and> (stopping (workers s) \<longrightarrow> jobs (workers s) = [] \<and> lane_jobs (workers s) = (\<lambda>_. []))"

definition fifo_inv :: "'j Pool \<Rightarrow> bool" where
  "fifo_inv s \<longleftrightarrow> (\<forall>l. if stopping (workers s) then \<exists>rest. on_lane l (started s) @ rest = on_lane l (accepted s)
     else on_lane l (started s) @ on_lane l (jobs (workers s)) @ lane_jobs (workers s) l = on_lane l (accepted s))"

definition pool_inv :: "'j Pool \<Rightarrow> bool" where
  "pool_inv s \<longleftrightarrow> ids_inv s \<and> lanes_inv s \<and> fifo_inv s"

lemma on_lane_simps [simp]:
  "on_lane l [] = []" "on_lane l (j # js) = (if job_lane j = l then j # on_lane l js else on_lane l js)"
  "on_lane l (xs @ ys) = on_lane l xs @ on_lane l ys"
  by (simp_all add: on_lane_def)

lemma on_lane_all: "\<forall>j \<in> set js. job_lane j = l \<Longrightarrow> on_lane l js = js"
  by (induction js) auto

lemma ids_simps [simp]:
  "ids [] = []" "ids (j # js) = job_request_id j # ids js" "ids (xs @ ys) = ids xs @ ids ys"
  by (simp_all add: ids_def)

lemma workers_pop_cases:
  assumes "workers_pop w = Some (j, w')"
  obtains rest where "\<not> stopping w" "jobs w = j # rest" "w' = w\<lparr>jobs := rest\<rparr>"
  using assms by (auto simp: workers_pop_def split: if_splits list.splits)

lemma workers_submit_cases:
  assumes "workers_submit w rid job lane = (ok, w')"
  obtains (refused) "\<not> ok" "w' = w"
  | (ready) "ok" "\<not> stopping w" "rid \<notin> active_ids w" "card (active_ids w) < kMaxJobs" "lane = 0 \<or> lane \<notin> active_lanes w"
      "w' = w\<lparr>active_ids := insert rid (active_ids w),
          active_lanes := (if lane \<noteq> 0 then insert lane (active_lanes w) else active_lanes w),
          jobs := jobs w @ [\<lparr>job_request_id = rid, job_lane = lane, job_run = job\<rparr>]\<rparr>"
  | (waits) "ok" "\<not> stopping w" "rid \<notin> active_ids w" "card (active_ids w) < kMaxJobs" "lane \<noteq> 0" "lane \<in> active_lanes w"
      "w' = w\<lparr>active_ids := insert rid (active_ids w),
          lane_jobs := (lane_jobs w)(lane := lane_jobs w lane @ [\<lparr>job_request_id = rid, job_lane = lane, job_run = job\<rparr>])\<rparr>"
proof -
  consider "stopping w \<or> rid \<in> active_ids w \<or> card (active_ids w) \<ge> kMaxJobs"
    | "\<not> stopping w" "rid \<notin> active_ids w" "card (active_ids w) < kMaxJobs" "lane = 0 \<or> lane \<notin> active_lanes w"
    | "\<not> stopping w" "rid \<notin> active_ids w" "card (active_ids w) < kMaxJobs" "lane \<noteq> 0" "lane \<in> active_lanes w"
    by force
  then show thesis
  proof cases
    case 1 then show thesis using assms refused by (auto simp: workers_submit_def)
  next
    case 2 then show thesis using assms by (intro ready) (auto simp: workers_submit_def Let_def)
  next
    case 3 then show thesis using assms by (intro waits) (auto simp: workers_submit_def Let_def)
  qed
qed

lemma workers_finish_cases:
  obtains (free) "job_lane j = 0" "workers_finish j w = w\<lparr>active_ids := active_ids w - {job_request_id j}\<rparr>"
  | (last) "job_lane j \<noteq> 0" "lane_jobs w (job_lane j) = []"
      "workers_finish j w = w\<lparr>active_ids := active_ids w - {job_request_id j}, active_lanes := active_lanes w - {job_lane j}\<rparr>"
  | (promote) nj rest where "job_lane j \<noteq> 0" "lane_jobs w (job_lane j) = nj # rest"
      "workers_finish j w = w\<lparr>active_ids := active_ids w - {job_request_id j}, jobs := jobs w @ [nj],
         lane_jobs := (lane_jobs w)(job_lane j := rest)\<rparr>"
  by (cases "job_lane j = 0"; cases "lane_jobs w (job_lane j)") (auto simp: workers_finish_def Let_def)

lemma start_inv:
  assumes "pool_inv s" "workers_pop (workers s) = Some (j, w)"
  shows "pool_inv (s\<lparr>workers := w, running := running s @ [j], started := started s @ [j]\<rparr>)" (is "pool_inv ?s")
proof -
  from assms(2) obtain rest where r: "\<not> stopping (workers s)" "jobs (workers s) = j # rest"
    "w = workers s\<lparr>jobs := rest\<rparr>" by (rule workers_pop_cases)
  have "ids_inv ?s" using assms(1) r by (auto simp: pool_inv_def ids_inv_def pending_ids_def)
  moreover have "lane_inv ?s l" if "lane_inv s l" for l using that r by (auto simp: lane_inv_def Let_def)
  then have "lanes_inv ?s" using assms(1) r by (simp add: pool_inv_def lanes_inv_def)
  moreover have "fifo_inv ?s" using assms(1) r by (auto simp: pool_inv_def fifo_inv_def split: if_splits)
  ultimately show ?thesis by (simp add: pool_inv_def)
qed

lemma stop_inv:
  assumes inv: "pool_inv s"
  shows "pool_inv (s\<lparr>workers := workers_stop (workers s)\<rparr>)" (is "pool_inv ?s")
proof (cases "stopping (workers s)")
  case True
  then show ?thesis using inv by (simp add: workers_stop_def)
next
  case False
  then have w: "workers ?s = workers s\<lparr>stopping := True, jobs := [], lane_jobs := \<lambda>_. []\<rparr>"
    by (simp add: workers_stop_def)
  from inv False have i: "ids_inv s" "lanes_inv s" "fifo_inv s" by (simp_all add: pool_inv_def)
  have "pending_ids ?s \<subseteq> pending_ids s" by (auto simp: pending_ids_def w)
  with i(1) False have "ids_inv ?s" by (simp add: ids_inv_def w)
  moreover have "lane_inv ?s l" if "lane_inv s l" for l using that by (auto simp: lane_inv_def Let_def w)
  then have "lanes_inv ?s" using i(2) by (simp add: lanes_inv_def w)
  moreover have "fifo_inv ?s" using i(3) False by (auto simp: fifo_inv_def w intro: exI)
  ultimately show ?thesis by (simp add: pool_inv_def)
qed

lemma card_insert_bound: "finite A \<Longrightarrow> card A < k \<Longrightarrow> card (insert x A) \<le> k"
  by (cases "x \<in> A") (auto simp: insert_absorb)

lemma submit_inv:
  assumes inv: "pool_inv s" and sub: "workers_submit (workers s) rid job lane = (ok, w)"
  shows "pool_inv (s\<lparr>workers := w, accepted := (if ok then accepted s @
      [\<lparr>job_request_id = rid, job_lane = lane, job_run = job\<rparr>] else accepted s)\<rparr>)" (is "pool_inv ?s")
  using sub
proof (cases rule: workers_submit_cases)
  case refused
  then have "?s = s" by simp
  then show ?thesis using inv by simp
next
  case ready
  have act: "pending_ids s = active_ids (workers s)" using inv ready by (simp add: pool_inv_def ids_inv_def)
  have new: "rid \<notin> pending_ids s" using act ready by simp
  have "ids_inv ?s"
    using inv ready act new card_insert_bound [of "active_ids (workers s)" kMaxJobs rid]
    by (auto simp: pool_inv_def ids_inv_def pending_ids_def)
  moreover have "lane_inv ?s l" if "lane_inv s l" for l using that ready by (auto simp: lane_inv_def Let_def)
  then have "lanes_inv ?s" using inv ready by (simp add: pool_inv_def lanes_inv_def)
  moreover have "lane_jobs (workers s) lane = []" using inv ready by (auto simp: pool_inv_def lanes_inv_def lane_inv_def)
  moreover have "on_lane l (started s) @ on_lane l (jobs (workers s)) @ lane_jobs (workers s) l = on_lane l (accepted s)" for l
    using inv ready by (simp add: pool_inv_def fifo_inv_def)
  from this [of lane] this have "fifo_inv ?s" using ready \<open>lane_jobs (workers s) lane = []\<close> by (auto simp: fifo_inv_def)
  ultimately show ?thesis by (simp add: pool_inv_def)
next
  case waits
  have act: "pending_ids s = active_ids (workers s)" using inv waits by (simp add: pool_inv_def ids_inv_def)
  have new: "rid \<notin> pending_ids s" using act waits by simp
  have old: "ids_inv s" using inv by (simp add: pool_inv_def)
  have "pending_ids ?s = insert rid (pending_ids s)" using waits by (auto simp: pending_ids_def split: if_splits)
  then have "ids_inv ?s"
    using old waits act new card_insert_bound [of "active_ids (workers s)" kMaxJobs rid]
    unfolding ids_inv_def by (auto simp: pending_ids_def)
  moreover have "lane_inv ?s l" if "lane_inv s l" for l using that waits by (auto simp: lane_inv_def Let_def)
  then have "lanes_inv ?s" using inv waits by (simp add: pool_inv_def lanes_inv_def)
  moreover have "fifo_inv ?s" using inv waits
    by (auto simp: pool_inv_def fifo_inv_def)
  ultimately show ?thesis by (simp add: pool_inv_def)
qed

lemma UN_insert_split: "(\<Union>l. f l) = f l0 \<union> (\<Union>l. if l = l0 then {} else f l)"
  by (auto split: if_splits)

lemma fresh_next:
  assumes "ids_inv s" "lane_jobs (workers s) l = nj # rest"
  shows "job_request_id nj \<notin> set (ids (jobs (workers s) @ running s))" "job_request_id nj \<notin> set (ids rest)"
    "l' \<noteq> l \<Longrightarrow> job_request_id nj \<notin> set (ids (lane_jobs (workers s) l'))"
    "set (ids rest) \<inter> set (ids (jobs (workers s) @ running s)) = {}" "distinct (ids rest)"
    "l' \<noteq> l \<Longrightarrow> set (ids rest) \<inter> set (ids (lane_jobs (workers s) l')) = {}"
proof -
  have l: "distinct (ids (nj # rest))" "set (ids (nj # rest)) \<inter> set (ids (jobs (workers s) @ running s)) = {}"
    "l' \<noteq> l \<Longrightarrow> set (ids (nj # rest)) \<inter> set (ids (lane_jobs (workers s) l')) = {}" for l'
    using assms unfolding ids_inv_def by metis+
  show "job_request_id nj \<notin> set (ids (jobs (workers s) @ running s))" "job_request_id nj \<notin> set (ids rest)"
    "l' \<noteq> l \<Longrightarrow> job_request_id nj \<notin> set (ids (lane_jobs (workers s) l'))"
    "set (ids rest) \<inter> set (ids (jobs (workers s) @ running s)) = {}" "distinct (ids rest)"
    "l' \<noteq> l \<Longrightarrow> set (ids rest) \<inter> set (ids (lane_jobs (workers s) l')) = {}"
    using l(1,2) l(3) [of l'] by auto
qed

lemma finish_inv:
  assumes inv: "pool_inv s" and run: "running s = xs @ j # ys"
  shows "pool_inv (s\<lparr>workers := workers_finish j (workers s), running := xs @ ys\<rparr>)" (is "pool_inv ?s")
proof -
  from inv have i: "ids_inv s" "lanes_inv s" "fifo_inv s" by (simp_all add: pool_inv_def)
  have card: "card (active_ids (workers s) - {job_request_id j}) \<le> kMaxJobs"
    using i(1) card_Diff1_le [of "active_ids (workers s)" "job_request_id j"]
    by (auto simp: ids_inv_def intro: order_trans)
  have new: "job_request_id j \<notin> set (ids (jobs (workers s)))" "job_request_id j \<notin> set (ids (xs @ ys))"
    "job_request_id j \<notin> set (ids (lane_jobs (workers s) l))" for l
    using i(1) run by (auto simp: ids_inv_def)
  have lane: "lane_inv s l" for l using i(2) by (simp add: lanes_inv_def)
  show ?thesis
  proof (cases rule: workers_finish_cases [of j "workers s"])
    case free
    then have "pending_ids ?s = pending_ids s - {job_request_id j}" using new by (auto simp: pending_ids_def run)
    then have "ids_inv ?s" using i(1) run card free by (auto simp: ids_inv_def)
    moreover have "lane_inv ?s l" for l using lane [of l] run free by (auto simp: lane_inv_def Let_def split: if_splits)
    then have "lanes_inv ?s" using i(2) free by (simp add: lanes_inv_def)
    moreover have "fifo_inv ?s" using i(3) free by (simp add: fifo_inv_def)
    ultimately show ?thesis by (simp add: pool_inv_def)
  next
    case last
    then have "pending_ids ?s = pending_ids s - {job_request_id j}" using new by (auto simp: pending_ids_def run)
    then have "ids_inv ?s" using i(1) run card last by (auto simp: ids_inv_def)
    moreover have "lane_inv ?s l" for l using lane [of l] run last by (auto simp: lane_inv_def Let_def split: if_splits)
    then have "lanes_inv ?s" using i(2) last by (simp add: lanes_inv_def)
    moreover have "fifo_inv ?s" using i(3) last by (simp add: fifo_inv_def)
    ultimately show ?thesis by (simp add: pool_inv_def)
  next
    case (promote nj rest)
    have live: "\<not> stopping (workers s)" using i(2) promote(2) by (auto simp: lanes_inv_def)
    have nj: "job_lane nj = job_lane j" using lane [of "job_lane j"] promote(2) by (simp add: lane_inv_def)
    have "pending_ids ?s = pending_ids s - {job_request_id j}"
    proof -
      have waiting: "(\<Union>l. set (ids (lane_jobs (workers s) l))) =
          insert (job_request_id nj) (\<Union>l. set (ids (((lane_jobs (workers s))(job_lane j := rest)) l)))"
        using UN_insert_split [of "\<lambda>l. set (ids (lane_jobs (workers s) l))" "job_lane j"]
        by (simp add: promote(2) if_distrib [of ids] if_distrib [of set])
      show ?thesis using new(1,2) new(3) [of "job_lane j"] promote waiting
        by (auto simp: pending_ids_def run new split: if_splits)
    qed
    moreover have "distinct (ids (jobs (workers ?s) @ running ?s))"
      "\<And>l. distinct (ids (lane_jobs (workers ?s) l))
        \<and> set (ids (lane_jobs (workers ?s) l)) \<inter> set (ids (jobs (workers ?s) @ running ?s)) = {}"
      "\<And>l l'. l \<noteq> l' \<Longrightarrow> set (ids (lane_jobs (workers ?s) l)) \<inter> set (ids (lane_jobs (workers ?s) l')) = {}"
      using fresh_next [OF i(1) promote(2)] i(1) run promote by (auto simp: ids_inv_def)
    ultimately have "ids_inv ?s" using i(1) card promote live by (simp add: ids_inv_def)
    moreover have "lane_inv ?s l" for l using lane [of l] run promote nj live by (auto simp: lane_inv_def Let_def split: if_splits)
    then have "lanes_inv ?s" using live promote by (simp add: lanes_inv_def)
    moreover have f: "on_lane l (started s) @ on_lane l (jobs (workers s)) @ lane_jobs (workers s) l = on_lane l (accepted s)" for l
      using i(3) live by (simp add: fifo_inv_def)
    then have "fifo_inv ?s" using f [of "job_lane j"] promote nj live by (auto simp: fifo_inv_def)
    ultimately show ?thesis by (simp add: pool_inv_def)
  qed
qed

subsection \<open>Interleavings\<close>

lemma worker_step_inv: "pool_inv s \<Longrightarrow> worker_step threads s s' \<Longrightarrow> pool_inv s'"
  by (erule worker_stepE) (auto intro: start_inv finish_inv)

lemma pool_step_inv:
  assumes inv: "pool_inv s" and "pool_step threads s s'"
  shows "pool_inv s'"
  using assms(2)
proof cases
  case worker then show ?thesis using inv by (rule worker_step_inv [rotated])
next
  case (submit request_id job lane ok w)
  then show ?thesis using submit_inv [OF inv submit(2)] by simp
next
  case stop then show ?thesis using stop_inv [OF inv] by simp
qed

lemma pool_step_running: "length (running s) \<le> threads \<Longrightarrow> pool_step threads s s' \<Longrightarrow> length (running s') \<le> threads"
  by (auto elim!: pool_stepE worker_stepE)

interpretation pool: invariant_system "\<lambda>s. s = Pool_init" "pool_step threads"
  "\<lambda>s. pool_inv s \<and> length (running s) \<le> threads"
proof unfold_locales
  fix s :: "'a Pool" assume "s = Pool_init"
  then show "pool_inv s \<and> length (running s) \<le> threads"
    by (simp add: pool_inv_def ids_inv_def lanes_inv_def lane_inv_def fifo_inv_def Pool_init_def RequestWorkers_init_def
        pending_ids_def)
qed (use pool_step_inv pool_step_running in blast)

text \<open>
  The work left: two per job that has not started, one per job that runs. A pool is drained when
  nothing is ready, nothing waits and nothing runs.
\<close>

definition waiting_count :: "'j Pool \<Rightarrow> nat" where
  "waiting_count s = (\<Sum>l \<in> UNIV. length (lane_jobs (workers s) l))"

definition pool_work :: "'j Pool \<Rightarrow> nat" where
  "pool_work s = 2 * length (jobs (workers s)) + 2 * waiting_count s + length (running s)"

definition pool_drained :: "'j Pool \<Rightarrow> bool" where
  "pool_drained s \<longleftrightarrow> jobs (workers s) = [] \<and> (\<forall>l. lane_jobs (workers s) l = []) \<and> running s = []"

lemma waiting_count_pop:
  fixes f :: "u64 \<Rightarrow> 'j Job list"
  assumes "f l = x # rest"
  shows "(\<Sum>l' \<in> UNIV. length (f l')) = Suc (\<Sum>l' \<in> UNIV. length ((f(l := rest)) l'))"
proof -
  have "(\<Sum>l' \<in> UNIV. length ((f(l := rest)) l')) = length rest + (\<Sum>l' \<in> UNIV - {l}. length (f l'))"
    by (subst sum.remove [of _ l]) auto
  moreover have "(\<Sum>l' \<in> UNIV. length (f l')) = length (f l) + (\<Sum>l' \<in> UNIV - {l}. length (f l'))"
    by (subst sum.remove [of _ l]) auto
  ultimately show ?thesis using assms by simp
qed

lemma worker_step_work: "worker_step threads s s' \<Longrightarrow> pool_work s' < pool_work s"
proof (erule worker_stepE)
  fix j w assume "s' = s\<lparr>workers := w, running := running s @ [j], started := started s @ [j]\<rparr>"
    and "workers_pop (workers s) = Some (j, w)"
  then show "pool_work s' < pool_work s"
    by (auto elim!: workers_pop_cases simp: pool_work_def waiting_count_def)
next
  fix xs j ys assume s': "s' = s\<lparr>workers := workers_finish j (workers s), running := xs @ ys\<rparr>"
    and r: "running s = xs @ j # ys"
  show "pool_work s' < pool_work s"
  proof (cases rule: workers_finish_cases [of j "workers s"])
    case (promote nj rest)
    then show ?thesis using waiting_count_pop [of "lane_jobs (workers s)" "job_lane j", OF promote(2)] by (simp add: s' r pool_work_def waiting_count_def)
  qed (simp_all add: s' r pool_work_def waiting_count_def)
qed

lemma waiting_lane_busy:
  assumes "pool_inv s" "\<not> stopping (workers s)" "lane_jobs (workers s) l \<noteq> []"
  shows "jobs (workers s) \<noteq> [] \<or> running s \<noteq> []"
proof -
  from assms have l: "lane_inv s l" by (simp add: pool_inv_def lanes_inv_def)
  with assms(3) have "l \<in> active_lanes (workers s)" "l \<noteq> 0" by (auto simp: lane_inv_def)
  with l assms(2) have "length (on_lane l (jobs (workers s))) + length (on_lane l (running s)) = 1"
    by (simp add: lane_inv_def Let_def)
  then show ?thesis by auto
qed

interpretation drain: draining_system "worker_step threads"
  "\<lambda>s. pool_inv s \<and> 0 < threads \<and> length (running s) \<le> threads" pool_work pool_drained
proof unfold_locales
  fix s s' :: "'a Pool"
  assume i: "pool_inv s \<and> 0 < threads \<and> length (running s) \<le> threads" and st: "worker_step threads s s'"
  show "pool_inv s' \<and> 0 < threads \<and> length (running s') \<le> threads"
    using i st worker_step_inv [OF _ st] by (auto elim!: worker_stepE)
  show "pool_work s' < pool_work s" using st by (rule worker_step_work)
next
  fix s :: "'a Pool"
  assume i: "pool_inv s \<and> 0 < threads \<and> length (running s) \<le> threads" and nd: "\<not> pool_drained s"
  show "\<exists>s'. worker_step threads s s'"
  proof (cases "running s")
    case (Cons j ys)
    then show ?thesis using finish [of s "[]" j ys threads] by auto
  next
    case Nil
    have ns: "\<not> stopping (workers s)"
      using i nd Nil by (auto simp: pool_inv_def lanes_inv_def pool_drained_def)
    have "jobs (workers s) \<noteq> []"
      using nd Nil waiting_lane_busy [OF _ ns] i by (auto simp: pool_drained_def)
    then obtain j rest where "workers_pop (workers s) = Some (j, rest)"
      using ns by (auto simp: workers_pop_def neq_Nil_conv)
    then show ?thesis using Nil i start [of s threads j rest] by auto
  qed
qed

subsection \<open>An execution\<close>

text \<open>Two waits on the same queue: the first runs, the second waits on the lane.\<close>

definition pool_example :: "unit Pool" where
  "pool_example = (let a = \<lparr>job_request_id = 1, job_lane = 5, job_run = ()\<rparr>;
       b = \<lparr>job_request_id = 2, job_lane = 5, job_run = ()\<rparr> in
     \<lparr>workers = \<lparr>jobs = [], lane_jobs = (\<lambda>l. if l = 5 then [b] else []), active_lanes = {5}, active_ids = {2, 1},
        stopping = False\<rparr>, running = [a], accepted = [a, b], started = [a]\<rparr>)"

lemma pool_example_reachable: "(pool_step 8)\<^sup>*\<^sup>* Pool_init pool_example"
proof -
  let ?a = "\<lparr>job_request_id = 1, job_lane = 5, job_run = ()\<rparr>" and ?b = "\<lparr>job_request_id = 2, job_lane = 5, job_run = ()\<rparr>"
  let ?s1 = "\<lparr>workers = \<lparr>jobs = [?a], lane_jobs = (\<lambda>_. []), active_lanes = {5}, active_ids = {1}, stopping = False\<rparr>,
    running = [], accepted = [?a], started = []\<rparr>"
  let ?s2 = "?s1\<lparr>workers := (workers ?s1)\<lparr>jobs := []\<rparr>, running := [?a], started := [?a]\<rparr>"
  have "pool_step 8 Pool_init ?s1"
    using submit [of Pool_init 1 "()" 5 True _ 8]
    by (simp add: Pool_init_def RequestWorkers_init_def workers_submit_def kMaxJobs_def Let_def)
  moreover have "pool_step 8 ?s1 ?s2"
    using worker [OF start [of ?s1 8 ?a]] by (simp add: workers_pop_def)
  moreover have "pool_step 8 ?s2 pool_example"
    using submit [of ?s2 2 "()" 5 True _ 8] by (simp add: workers_submit_def kMaxJobs_def Let_def pool_example_def fun_upd_def)
  ultimately show ?thesis by (meson converse_rtranclp_into_rtranclp rtranclp.rtrancl_refl)
qed

subsection \<open>Properties\<close>



text \<open>
  C7. Waits on one queue run in the order they were accepted: in every reachable state the jobs
  of a lane that have started are a prefix of the jobs of that lane that were accepted, and while
  the pool is not stopped the rest are exactly the ready ones followed by the waiting ones, so no
  accepted job is lost.
\<close>

theorem workers_fifo:
  assumes "(pool_step threads)\<^sup>*\<^sup>* Pool_init s"
  shows "(\<exists>rest. filter (\<lambda>j. job_lane j = l) (accepted s) = filter (\<lambda>j. job_lane j = l) (started s) @ rest)
    \<and> (\<not> stopping (workers s) \<longrightarrow> filter (\<lambda>j. job_lane j = l) (accepted s) =
         filter (\<lambda>j. job_lane j = l) (started s) @ filter (\<lambda>j. job_lane j = l) (jobs (workers s))
           @ lane_jobs (workers s) l)"
proof -
  have inv: "fifo_inv s" using pool.reachable_inv [OF refl assms] by (simp add: pool_inv_def)
  show ?thesis
  proof (cases "stopping (workers s)")
    case True
    with inv have "\<exists>rest. on_lane l (started s) @ rest = on_lane l (accepted s)" by (simp add: fifo_inv_def)
    then show ?thesis using True by (auto simp: on_lane_def dest: sym)
  next
    case False
    with inv have "on_lane l (started s) @ on_lane l (jobs (workers s)) @ lane_jobs (workers s) l = on_lane l (accepted s)"
      by (simp add: fifo_inv_def)
    then show ?thesis by (auto simp: on_lane_def dest: sym)
  qed
qed

theorem workers_fifo_witness:
  "filter (\<lambda>j. job_lane j = 5) (accepted pool_example) =
     filter (\<lambda>j. job_lane j = 5) (started pool_example) @ filter (\<lambda>j. job_lane j = 5) (jobs (workers pool_example))
       @ lane_jobs (workers pool_example) 5"
proof -
  have "\<not> stopping (workers pool_example)" by (simp add: pool_example_def Let_def)
  then show ?thesis using workers_fifo [OF pool_example_reachable, of 5] by blast
qed



text \<open>
  Disconnecting cuts the queue off: after \<open>stop\<close> no further job starts, whatever the
  threads and the control lane do, and later submissions are refused.
\<close>

theorem workers_stop_final:
  assumes "(pool_step threads)\<^sup>*\<^sup>* (s\<lparr>workers := workers_stop (workers s)\<rparr>) s'"
  shows "started s' = started s \<and> accepted s' = accepted s \<and> stopping (workers s')"
  using assms
proof (induction rule: rtranclp_induct)
  case base
  then show ?case by (simp add: workers_stop_def)
next
  case (step t u)
  from step.hyps(2) step.IH show ?case
    by (auto elim!: pool_stepE worker_stepE simp: workers_pop_def workers_submit_def workers_stop_def
        workers_finish_def Let_def split: list.splits)
qed

theorem workers_stop_final_witness:
  "started (pool_example\<lparr>workers := workers_stop (workers pool_example)\<rparr>) = started pool_example
   \<and> accepted (pool_example\<lparr>workers := workers_stop (workers pool_example)\<rparr>) = accepted pool_example
   \<and> stopping (workers (pool_example\<lparr>workers := workers_stop (workers pool_example)\<rparr>))"
  by (rule workers_stop_final [OF rtranclp.rtrancl_refl])

end
