(* ===== verification/Session.thy ===== *)
theory Session
  imports Objects Workers "HOL-Library.State_Monad" "HOL-Library.AList"
begin

section \<open>A connection: sessions, replies and the serve loop (server/session.hpp, server/session.cpp)\<close>

text \<open>
  A handler is a computation in the state monad over a \<open>Session\<close>: the message's reader, the
  reply's writer, the connection's tables and error counter, and two logs of what left the
  process, the replies sent and the calls made to the Vulkan driver. The driver, the values that
  the build generates (opcodes, digests) and the process environment are fields of a
  \<open>Server\<close> record that every definition takes as an argument. \<open>serve_message\<close> is one
  turn of \<open>Server::serve\<close>'s loop on the control lane; blocking waits leave it as jobs of the
  worker pool, whose body is \<open>run_wait_job\<close>.
\<close>

subsection \<open>The environment\<close>

record NativeResult =
  nr_result :: u32
  nr_handles :: "u64 list"
  nr_values :: "u64 list"
  nr_data :: bytes
  nr_out :: "vk list"

record Server =
  physical_devices :: "u64 list"
  loader_api_version :: u32
  coherent_enabled :: bool
  kWireSchemaRevision :: bytes
  kRegistrySha256 :: bytes
  kWireAbi :: bytes
  kCommandSetDigest :: bytes
  op_vkQueueWaitIdle :: u32
  op_vkDeviceWaitIdle :: u32
  op_vkWaitForFences :: u32
  op_vkWaitSemaphores :: u32
  has_wayland :: bool
  own_window_forced :: bool
  native :: "native_call list \<Rightarrow> native_call \<Rightarrow> NativeResult"
  proc_addr :: "u64 \<Rightarrow> string \<Rightarrow> bool"
  read_struct :: "string \<Rightarrow> ObjectTables \<Rightarrow> Reader \<Rightarrow> vk option \<times> Reader"
  write_struct :: "string \<Rightarrow> vk \<Rightarrow> NativeResult \<Rightarrow> bytes"

text \<open>
  What a driver call returns: its result, the handles, numbers and bytes it wrote, and the structures
  it filled as trees of their fields. The handle it wrote to its \<open>i\<close>-th output; outputs start
  out null.
\<close>

definition nr_handle :: "NativeResult \<Rightarrow> nat \<Rightarrow> u64" where
  "nr_handle r i = (if i < length (nr_handles r) then nr_handles r ! i else VK_NULL_HANDLE)"

definition nr_value :: "NativeResult \<Rightarrow> nat \<Rightarrow> u64" where
  "nr_value r i = (if i < length (nr_values r) then nr_values r ! i else 0)"

definition physical_device_from_id :: "Server \<Rightarrow> u64 \<Rightarrow> u64" where
  "physical_device_from_id srv i =
     (if i = 0 \<or> unat i > length (physical_devices srv) then VK_NULL_HANDLE
      else physical_devices srv ! (unat i - 1))"

abbreviation VK_SUCCESS :: u32 where "VK_SUCCESS \<equiv> 0"
abbreviation VK_TIMEOUT :: u32 where "VK_TIMEOUT \<equiv> 2"

definition VK_ERROR_DEVICE_LOST :: u32 where
  "VK_ERROR_DEVICE_LOST = - 4"

definition kOpHandshake :: u32 where "kOpHandshake = 1"
definition kOpPing :: u32 where "kOpPing = 5"

definition kMaxArrayElements :: u32 where
  "kMaxArrayElements = push_bit 20 1"

definition kCapabilityWholeCopyHostCoherent :: u32 where
  "kCapabilityWholeCopyHostCoherent = push_bit 0 1"

definition kKnownCapabilities :: u32 where
  "kKnownCapabilities = kCapabilityWholeCopyHostCoherent"

subsection \<open>Session\<close>

record Session =
  reader :: Reader
  writer :: Writer
  s_tables :: ObjectTables
  oneway_errors :: u32
  s_opcode :: u32
  s_request_id :: u64
  replied :: bool
  close_connection :: bool
  sent :: "(u32 \<times> bytes \<times> u64) list"
  native_log :: "native_call list"

type_synonym 'a handler = "(Session, 'a) state"

definition rd :: "(Reader \<Rightarrow> 'a \<times> Reader) \<Rightarrow> 'a handler" where
  "rd dec = State (\<lambda>s. let (v, r) = dec (reader s) in (v, s\<lparr>reader := r\<rparr>))"

definition reader_ok :: "bool handler" where
  "reader_ok = State (\<lambda>s. (r_ok (reader s), s))"

definition reader_remaining :: "nat handler" where
  "reader_remaining = State (\<lambda>s. (r_remaining (reader s), s))"

definition wr :: "(Writer \<Rightarrow> Writer) \<Rightarrow> unit handler" where
  "wr f = State (\<lambda>s. ((), s\<lparr>writer := f (writer s)\<rparr>))"

definition put_u32 :: "u32 \<Rightarrow> unit handler" where "put_u32 v = wr (\<lambda>w. w_u32 w v)"
definition put_i32 :: "u32 \<Rightarrow> unit handler" where "put_i32 v = wr (\<lambda>w. w_i32 w v)"
definition put_u64 :: "u64 \<Rightarrow> unit handler" where "put_u64 v = wr (\<lambda>w. w_u64 w v)"
definition put_handle :: "u64 \<Rightarrow> unit handler" where "put_handle v = wr (\<lambda>w. w_handle w v)"
definition put_bytes :: "bytes \<Rightarrow> unit handler" where "put_bytes v = wr (\<lambda>w. w_bytes w v)"

definition reply :: "unit handler" where
  "reply = State (\<lambda>s. if replied s then ((), s)
     else let s1 = s\<lparr>replied := True\<rparr> in
       if s_request_id s1 = 0 then ((), s1)
       else ((), s1\<lparr>sent := sent s1 @ [(s_opcode s1, writer s1, s_request_id s1)]\<rparr>))"

definition reply_status :: "Status \<Rightarrow> unit handler" where
  "reply_status st = do { put_u32 (status_code st); reply }"

definition mark_oneway_error :: "unit handler" where
  "mark_oneway_error = State (\<lambda>s. ((), s\<lparr>oneway_errors := oneway_errors s + 1\<rparr>))"

definition count_fits :: "Reader \<Rightarrow> u32 \<Rightarrow> nat \<Rightarrow> bool" where
  "count_fits r count min_wire_bytes \<longleftrightarrow>
     unat count \<le> r_remaining r div (if min_wire_bytes = 0 then 1 else min_wire_bytes)"

definition reader_count_fits :: "u32 \<Rightarrow> nat \<Rightarrow> bool handler" where
  "reader_count_fits count n = State (\<lambda>s. (count_fits (reader s) count n, s))"

text \<open>Table accesses and driver calls of the handlers.\<close>

definition get_object :: "table_kind \<Rightarrow> u64 \<Rightarrow> u64 handler" where
  "get_object k i = State (\<lambda>s. (resolve (s_tables s) k i, s))"

definition get_objects :: "table_kind \<Rightarrow> u64 list \<Rightarrow> u64 list handler" where
  "get_objects k is = State (\<lambda>s. (map (resolve (s_tables s) k) is, s))"

definition owner_object :: "table_kind \<Rightarrow> u64 \<Rightarrow> u64 handler" where
  "owner_object k i = State (\<lambda>s. (tbl_owner (tables (s_tables s) k) i, s))"

definition query_tables :: "(ObjectTables \<Rightarrow> 'a) \<Rightarrow> 'a handler" where
  "query_tables f = State (\<lambda>s. (f (s_tables s), s))"

text \<open>
  A decoded structure is the list of its members in the order of its C declaration, padding left out.
\<close>

fun num_of :: "vk \<Rightarrow> u64 option" where
  "num_of (VNum v) = Some v"
| "num_of v = None"

fun list_of :: "vk \<Rightarrow> vk list option" where
  "list_of (VList vs) = Some vs"
| "list_of v = None"

definition vk_member :: "nat \<Rightarrow> vk \<Rightarrow> u64" where
  "vk_member i v = (case list_of v of Some vs \<Rightarrow> (if i < length vs then case num_of (vs ! i) of Some x \<Rightarrow> x | None \<Rightarrow> 0 else 0) | None \<Rightarrow> 0)"

definition rd_struct :: "Server \<Rightarrow> string \<Rightarrow> vk option handler" where
  "rd_struct srv name = State (\<lambda>s. let (v, r) = read_struct srv name (s_tables s) (reader s) in (v, s\<lparr>reader := r\<rparr>))"

definition rd_with :: "(ObjectTables \<Rightarrow> Reader \<Rightarrow> 'a \<times> Reader) \<Rightarrow> 'a handler" where
  "rd_with dec = State (\<lambda>s. let (v, r) = dec (s_tables s) (reader s) in (v, s\<lparr>reader := r\<rparr>))"

definition owned_by_object :: "table_kind \<Rightarrow> u64 \<Rightarrow> u64 \<Rightarrow> bool handler" where
  "owned_by_object k i device = State (\<lambda>s. (tbl_owned_by (tables (s_tables s) k) i device, s))"

definition add_object :: "table_kind \<Rightarrow> u64 \<Rightarrow> u64 \<Rightarrow> u64 handler" where
  "add_object k v owner = State (\<lambda>s. let (i, tab) = tbl_add (tables (s_tables s) k) v owner
     in (i, s\<lparr>s_tables := set_table k tab (s_tables s)\<rparr>))"

definition add_unique_object :: "table_kind \<Rightarrow> u64 \<Rightarrow> u64 \<Rightarrow> u64 handler" where
  "add_unique_object k v owner = State (\<lambda>s. let (i, tab) = tbl_add_unique (tables (s_tables s) k) v owner
     in (i, s\<lparr>s_tables := set_table k tab (s_tables s)\<rparr>))"

definition take_object :: "table_kind \<Rightarrow> u64 \<Rightarrow> u64 handler" where
  "take_object k i = State (\<lambda>s. let (v, tab) = tbl_take (tables (s_tables s) k) i
     in (v, s\<lparr>s_tables := set_table k tab (s_tables s)\<rparr>))"

definition update_tables :: "(ObjectTables \<Rightarrow> ObjectTables) \<Rightarrow> unit handler" where
  "update_tables f = State (\<lambda>s. ((), s\<lparr>s_tables := f (s_tables s)\<rparr>))"

definition call_native :: "Server \<Rightarrow> native_call \<Rightarrow> NativeResult handler" where
  "call_native srv c = State (\<lambda>s. (native srv (native_log s) c, s\<lparr>native_log := native_log s @ [c]\<rparr>))"

definition take_errors :: "u32 handler" where
  "take_errors = State (\<lambda>s. (oneway_errors s, s\<lparr>oneway_errors := 0\<rparr>))"

definition read_errors :: "u32 handler" where
  "read_errors = State (\<lambda>s. (oneway_errors s, s))"

text \<open>
  Element loops that stop at the first element that does not decode, and the element most of them
  read: an id that has to name a live object.
\<close>

fun read_each :: "(Reader \<Rightarrow> 'a option \<times> Reader) \<Rightarrow> nat \<Rightarrow> Reader \<Rightarrow> 'a list option \<times> Reader" where
  "read_each dec 0 r = (Some [], r)"
| "read_each dec (Suc n) r =
     (case dec r of
        (None, r1) \<Rightarrow> (None, r1)
      | (Some v, r1) \<Rightarrow> (case read_each dec n r1 of (vs, r2) \<Rightarrow> (map_option ((#) v) vs, r2)))"

definition read_live :: "ObjectTables \<Rightarrow> table_kind \<Rightarrow> Reader \<Rightarrow> u64 option \<times> Reader" where
  "read_live t k r =
     (let (i, r1) = r_handle r; v = resolve t k i in (if v = VK_NULL_HANDLE then None else Some v, r1))"

subsection \<open>The handshake (server/handlers_instance.cpp)\<close>

definition server_capabilities :: "Server \<Rightarrow> u32" where
  "server_capabilities srv = (if coherent_enabled srv then kCapabilityWholeCopyHostCoherent else 0)"

definition handshake_matches :: "Server \<Rightarrow> bytes option \<Rightarrow> bytes option \<Rightarrow> bytes option \<Rightarrow> bytes option \<Rightarrow> u32 \<Rightarrow> u32 \<Rightarrow> bool" where
  "handshake_matches srv client_schema client_registry client_abi client_digest supported required \<longleftrightarrow>
     (let selected = supported AND server_capabilities srv;
          capabilities_valid =
            (supported AND NOT kKnownCapabilities = 0 \<and> required AND NOT kKnownCapabilities = 0 \<and>
             required AND NOT supported = 0 \<and> required AND NOT selected = 0)
      in capabilities_valid \<and>
         client_schema = Some (kWireSchemaRevision srv) \<and> client_registry = Some (kRegistrySha256 srv) \<and>
         client_abi = Some (kWireAbi srv) \<and> client_digest = Some (kCommandSetDigest srv))"

definition handle_Handshake :: "Server \<Rightarrow> unit handler" where
  "handle_Handshake srv = do {
     client_schema \<leftarrow> rd r_string;
     client_registry \<leftarrow> rd r_string;
     client_abi \<leftarrow> rd r_string;
     client_digest \<leftarrow> rd r_string;
     supported_capabilities \<leftarrow> rd r_u32;
     required_capabilities \<leftarrow> rd r_u32;
     ok \<leftarrow> reader_ok;
     left \<leftarrow> reader_remaining;
     let selected_capabilities = supported_capabilities AND server_capabilities srv;
     let matched = (ok \<and> left = 0 \<and> handshake_matches srv client_schema client_registry client_abi client_digest
        supported_capabilities required_capabilities);
     put_u32 (status_code (if matched then Ok else DecodeError));
     put_bytes (kCommandSetDigest srv);
     put_u32 (of_nat (length (physical_devices srv)));
     put_u32 (loader_api_version srv);
     put_u32 (if matched then selected_capabilities else 0);
     reply;
     if matched then update_tables (\<lambda>t. t\<lparr>capabilities := selected_capabilities\<rparr>)
     else State (\<lambda>s. ((), s\<lparr>close_connection := True\<rparr>))
   }"

subsection \<open>Blocking waits on the worker pool\<close>

datatype wait_job =
    IdleJob u32 u64 u64 u32
  | FenceWaitJob u64 bool u64 "u64 list"
  | SemaphoreWaitJob u64 u32 u64 "u64 list" "u64 list"

text \<open>
  The polling loop of a wait. What the loop observes is a script: at each turn whether the
  connection is closing, the nanoseconds since the start, and what the driver's wait of one slice
  returned. An exhausted script is a loop that has not returned yet.
\<close>

definition kSliceNs :: u64 where
  "kSliceNs = 100000000"

definition UINT64_MAX :: u64 where
  "UINT64_MAX = - 1"

definition wait_slice :: "u64 \<Rightarrow> u64 \<Rightarrow> u64" where
  "wait_slice timeout spent =
     (if timeout = UINT64_MAX then kSliceNs
      else if spent \<ge> timeout then 0 else min kSliceNs (timeout - spent))"

fun wait_loop :: "u64 \<Rightarrow> bool \<Rightarrow> u32 \<Rightarrow> (bool \<times> u64 \<times> u32) list \<Rightarrow> (u32 \<times> u64 list) option" where
  "wait_loop timeout first result [] = None"
| "wait_loop timeout first result ((closing, spent, native_result) # script) =
     (if closing then Some (VK_ERROR_DEVICE_LOST, [])
      else if timeout \<noteq> UINT64_MAX \<and> \<not> first \<and> spent \<ge> timeout then Some (result, [])
      else if native_result \<noteq> VK_TIMEOUT then Some (native_result, [wait_slice timeout spent])
      else map_option (\<lambda>(r, slices). (r, wait_slice timeout spent # slices))
             (wait_loop timeout False native_result script))"

text \<open>The reply a finished job sends, given the driver's result.\<close>

definition wait_job_reply :: "Server \<Rightarrow> wait_job \<Rightarrow> u32 \<Rightarrow> u32 \<times> bytes" where
  "wait_job_reply srv job result = (case job of
     IdleJob opc queue device errors \<Rightarrow>
       (opc, let w = w_i32 (w_u32 [] (status_code Ok)) result in
             if opc = op_vkDeviceWaitIdle srv then w_u32 w errors else w)
   | FenceWaitJob device wait_all timeout fences \<Rightarrow>
       (op_vkWaitForFences srv, w_i32 (w_u32 [] (status_code Ok)) result)
   | SemaphoreWaitJob device flags timeout semaphores vals \<Rightarrow>
       (op_vkWaitSemaphores srv, w_i32 (w_u32 [] (status_code Ok)) result))"

end
