(* ===== verification/HandlerLogic.thy ===== *)
theory HandlerLogic
  imports Session
begin

section \<open>What every handler keeps\<close>

text \<open>
  Compositional judgements on handlers, proved once for each primitive and each way the code
  composes them, so that a handler's obligations follow from its text: \<open>unsent\<close> handlers
  send nothing, \<open>answers\<close> is the reply discipline of a request handler,
  \<open>replies_once\<close> the weaker one of a handler that may also stay silent, and
  \<open>keeps\<close> is ownership of the object tables, relative to a set of handles that were read
  from the device table.
\<close>

abbreviation exec :: "'a handler \<Rightarrow> Session \<Rightarrow> Session" where
  "exec m s \<equiv> snd (run_state m s)"

definition unsent :: "'a handler \<Rightarrow> bool" where
  "unsent m \<longleftrightarrow> (\<forall>s. sent (exec m s) = sent s \<and> replied (exec m s) = replied s
     \<and> s_opcode (exec m s) = s_opcode s \<and> s_request_id (exec m s) = s_request_id s)"

definition answers :: "'a handler \<Rightarrow> bool" where
  "answers m \<longleftrightarrow> (\<forall>s. \<not> replied s \<longrightarrow> (\<exists>body. sent (exec m s) = sent s @
     (if s_request_id s = 0 then [] else [(s_opcode s, body, s_request_id s)])))"

definition replies_once :: "'a handler \<Rightarrow> bool" where
  "replies_once m \<longleftrightarrow> (\<forall>s. \<not> replied s \<longrightarrow> sent (exec m s) = sent s \<or>
     (s_request_id s \<noteq> 0 \<and> (\<exists>body. sent (exec m s) = sent s @ [(s_opcode s, body, s_request_id s)])))"

definition live_devices :: "Session \<Rightarrow> u64 set" where
  "live_devices s = insert 0 (set (m_slots (tables (s_tables s) Devices)))"

definition keeps :: "u64 set \<Rightarrow> 'a handler \<Rightarrow> bool" where
  "keeps D m \<longleftrightarrow> (\<forall>s. D \<subseteq> live_devices s \<longrightarrow>
     tables_step (s_tables s) (s_tables (exec m s)) \<and> D \<subseteq> live_devices (exec m s))"

named_theorems handler_intros \<open>introduction rules of the handler judgements\<close>
named_theorems run_simps \<open>what the primitives compute\<close>

lemma run_prims [run_simps]:
  "run_state (rd dec) s = (fst (dec (reader s)), s\<lparr>reader := snd (dec (reader s))\<rparr>)"
  "run_state reader_ok s = (r_ok (reader s), s)"
  "run_state reader_remaining s = (r_remaining (reader s), s)"
  "run_state (wr f) s = ((), s\<lparr>writer := f (writer s)\<rparr>)"
  "run_state mark_oneway_error s = ((), s\<lparr>oneway_errors := oneway_errors s + 1\<rparr>)"
  "run_state (reader_count_fits count n) s = (count_fits (reader s) count n, s)"
  "run_state (get_object k i) s = (resolve (s_tables s) k i, s)"
  "run_state (get_objects k is) s = (map (resolve (s_tables s) k) is, s)"
  "run_state (owner_object k i) s = (tbl_owner (tables (s_tables s) k) i, s)"
  "run_state (query_tables q) s = (q (s_tables s), s)"
  "run_state (owned_by_object k i d) s = (tbl_owned_by (tables (s_tables s) k) i d, s)"
  "run_state (rd_struct srv name) s = (fst (read_struct srv name (s_tables s) (reader s)),
     s\<lparr>reader := snd (read_struct srv name (s_tables s) (reader s))\<rparr>)"
  "run_state (rd_with dect) s = (fst (dect (s_tables s) (reader s)), s\<lparr>reader := snd (dect (s_tables s) (reader s))\<rparr>)"
  "run_state (add_object k v w) s = (fst (tbl_add (tables (s_tables s) k) v w),
     s\<lparr>s_tables := set_table k (snd (tbl_add (tables (s_tables s) k) v w)) (s_tables s)\<rparr>)"
  "run_state (add_unique_object k v w) s = (fst (tbl_add_unique (tables (s_tables s) k) v w),
     s\<lparr>s_tables := set_table k (snd (tbl_add_unique (tables (s_tables s) k) v w)) (s_tables s)\<rparr>)"
  "run_state (take_object k i) s = (fst (tbl_take (tables (s_tables s) k) i),
     s\<lparr>s_tables := set_table k (snd (tbl_take (tables (s_tables s) k) i)) (s_tables s)\<rparr>)"
  "run_state (update_tables g) s = ((), s\<lparr>s_tables := g (s_tables s)\<rparr>)"
  "run_state (call_native srv c) s = (native srv (native_log s) c, s\<lparr>native_log := native_log s @ [c]\<rparr>)"
  "run_state take_errors s = (oneway_errors s, s\<lparr>oneway_errors := 0\<rparr>)"
  "run_state read_errors s = (oneway_errors s, s)"
  by (simp_all add: rd_def reader_ok_def reader_remaining_def wr_def mark_oneway_error_def
      reader_count_fits_def get_object_def get_objects_def owner_object_def query_tables_def owned_by_object_def
      rd_struct_def rd_with_def add_object_def add_unique_object_def take_object_def update_tables_def
      call_native_def take_errors_def read_errors_def case_prod_unfold Let_def)

lemma run_puts [run_simps]:
  "run_state (put_u32 v) s = ((), s\<lparr>writer := w_u32 (writer s) v\<rparr>)"
  "run_state (put_i32 v) s = ((), s\<lparr>writer := w_i32 (writer s) v\<rparr>)"
  "run_state (put_u64 x) s = ((), s\<lparr>writer := w_u64 (writer s) x\<rparr>)"
  "run_state (put_handle x) s = ((), s\<lparr>writer := w_handle (writer s) x\<rparr>)"
  "run_state (put_bytes b) s = ((), s\<lparr>writer := w_bytes (writer s) b\<rparr>)"
  by (simp_all add: put_u32_def put_i32_def put_u64_def put_handle_def put_bytes_def run_simps)

lemma run_reply [run_simps]:
  "\<not> replied s \<Longrightarrow> run_state reply s =
     ((), s\<lparr>replied := True, sent := sent s @ (if s_request_id s = 0 then [] else [(s_opcode s, writer s, s_request_id s)])\<rparr>)"
  by (simp add: reply_def Let_def)

subsection \<open>Sending\<close>

lemma unsent_prims [handler_intros]:
  "unsent (State_Monad.return x)" "unsent (rd dec)" "unsent reader_ok" "unsent reader_remaining" "unsent (wr f)"
  "unsent mark_oneway_error" "unsent (reader_count_fits count n)" "unsent (get_object k i)" "unsent (get_objects k is)"
  "unsent (owner_object k i)" "unsent (query_tables q)" "unsent (owned_by_object k i d)" "unsent (rd_struct srv name)"
  "unsent (rd_with dect)" "unsent (add_object k v w)" "unsent (add_unique_object k v w)" "unsent (take_object k i)"
  "unsent (update_tables g)" "unsent (call_native srv c)" "unsent take_errors" "unsent read_errors"
  "unsent (put_u32 a)" "unsent (put_i32 a)" "unsent (put_u64 b)" "unsent (put_handle b)" "unsent (put_bytes bs)"
  by (simp_all add: unsent_def run_simps)

lemma unsent_bind [handler_intros]: "unsent m \<Longrightarrow> (\<And>x. unsent (f x)) \<Longrightarrow> unsent (State_Monad.bind m f)"
  by (simp add: unsent_def case_prod_unfold)

lemma answers_bind [handler_intros]:
  assumes m: "unsent m" and f: "\<And>x. answers (f x)"
  shows "answers (State_Monad.bind m f)"
  unfolding answers_def
proof (intro allI impI)
  fix s :: Session assume "\<not> replied s"
  with m f [of "fst (run_state m s)"] show "\<exists>body. sent (exec (m \<bind> f) s) = sent s @
      (if s_request_id s = 0 then [] else [(s_opcode s, body, s_request_id s)])"
    unfolding answers_def unsent_def run_state_bind case_prod_unfold by metis
qed

lemma answers_reply [handler_intros]: "answers reply"
  by (auto simp: answers_def run_simps)

lemma answers_reply_then: "unsent m \<Longrightarrow> answers (State_Monad.bind reply (\<lambda>_. m))"
  by (auto simp: answers_def run_simps unsent_def)

lemma answers_reply_status [handler_intros]: "answers (reply_status st)"
  unfolding reply_status_def by (intro handler_intros)

lemma answers_replies_once: "answers m \<Longrightarrow> replies_once m"
  unfolding answers_def replies_once_def by (force split: if_splits)

lemma unsent_replies_once: "unsent m \<Longrightarrow> replies_once m"
  unfolding unsent_def replies_once_def by blast

lemma replies_once_bind:
  assumes m: "unsent m" and f: "\<And>x. replies_once (f x)"
  shows "replies_once (State_Monad.bind m f)"
  unfolding replies_once_def
proof (intro allI impI)
  fix s :: Session assume "\<not> replied s"
  with m f [of "fst (run_state m s)"] show "sent (exec (m \<bind> f) s) = sent s \<or>
     (s_request_id s \<noteq> 0 \<and> (\<exists>body. sent (exec (m \<bind> f) s) = sent s @ [(s_opcode s, body, s_request_id s)]))"
    unfolding replies_once_def unsent_def run_state_bind case_prod_unfold by metis
qed

lemma judgement_if [handler_intros]:
  "(b \<Longrightarrow> unsent x) \<Longrightarrow> (\<not> b \<Longrightarrow> unsent y) \<Longrightarrow> unsent (if b then x else y)"
  "(b \<Longrightarrow> answers x) \<Longrightarrow> (\<not> b \<Longrightarrow> answers y) \<Longrightarrow> answers (if b then x else y)"
  "(b \<Longrightarrow> keeps D x) \<Longrightarrow> (\<not> b \<Longrightarrow> keeps D y) \<Longrightarrow> keeps D (if b then x else y)"
  by simp_all

lemma judgement_let [handler_intros]:
  "unsent (f v) \<Longrightarrow> unsent (Let v f)" "answers (f v) \<Longrightarrow> answers (Let v f)" "keeps D (f v) \<Longrightarrow> keeps D (Let v f)"
  by simp_all

lemma judgement_option [handler_intros]:
  "unsent x \<Longrightarrow> (\<And>v. unsent (f v)) \<Longrightarrow> unsent (case opt of None \<Rightarrow> x | Some v \<Rightarrow> f v)"
  "answers x \<Longrightarrow> (\<And>v. answers (f v)) \<Longrightarrow> answers (case opt of None \<Rightarrow> x | Some v \<Rightarrow> f v)"
  "keeps D x \<Longrightarrow> (\<And>v. keeps D (f v)) \<Longrightarrow> keeps D (case opt of None \<Rightarrow> x | Some v \<Rightarrow> f v)"
  by (cases opt; simp)+

lemma judgement_prod [handler_intros]:
  "(\<And>a b. unsent (h a b)) \<Longrightarrow> unsent (case p of (a, b) \<Rightarrow> h a b)"
  "(\<And>a b. answers (h a b)) \<Longrightarrow> answers (case p of (a, b) \<Rightarrow> h a b)"
  "(\<And>a b. keeps D (h a b)) \<Longrightarrow> keeps D (case p of (a, b) \<Rightarrow> h a b)"
  by (cases p; simp)+

subsection \<open>Ownership\<close>

lemma keeps_prims [handler_intros]:
  "keeps D (State_Monad.return x)" "keeps D (rd dec)" "keeps D reader_ok" "keeps D reader_remaining" "keeps D (wr f)"
  "keeps D mark_oneway_error" "keeps D (reader_count_fits count n)" "keeps D (get_object k i)" "keeps D (get_objects k is)"
  "keeps D (owner_object k i)" "keeps D (query_tables q)" "keeps D (owned_by_object k i d)" "keeps D (rd_struct srv name)"
  "keeps D (rd_with dect)" "keeps D (call_native srv c)" "keeps D take_errors" "keeps D read_errors"
  "keeps D (put_u32 a)" "keeps D (put_i32 a)" "keeps D (put_u64 b)" "keeps D (put_handle b)" "keeps D (put_bytes bs)"
  by (simp_all add: keeps_def run_simps live_devices_def)

lemma keeps_reply [handler_intros]: "keeps D reply" "keeps D (reply_status st)"
  by (auto simp: keeps_def reply_status_def reply_def run_simps Let_def live_devices_def)

lemma keeps_bind: "keeps D m \<Longrightarrow> (\<And>x. keeps D (f x)) \<Longrightarrow> keeps D (State_Monad.bind m f)"
  unfolding keeps_def run_state_bind case_prod_unfold by (meson tables_step_trans)

lemma keeps_bind_device:
  assumes "\<And>d. keeps (insert d D) (f d)"
  shows "keeps D (State_Monad.bind (get_object Devices i) f)"
  unfolding keeps_def
proof (intro allI impI)
  fix s assume D: "D \<subseteq> live_devices s"
  let ?d = "resolve (s_tables s) Devices i"
  have "?d \<in> live_devices s" using tbl_get_slot [of "tables (s_tables s) Devices" i]
    by (auto simp: live_devices_def resolve_def)
  with D have "insert ?d D \<subseteq> live_devices s" by simp
  with assms [of ?d] show "tables_step (s_tables s) (s_tables (exec (get_object Devices i \<bind> f) s))
      \<and> D \<subseteq> live_devices (exec (get_object Devices i \<bind> f) s)"
    by (auto simp: keeps_def run_simps)
qed

lemma live_devices_set_table [simp]:
  "k \<noteq> Devices \<Longrightarrow> live_devices (s\<lparr>s_tables := set_table k tab (s_tables s)\<rparr>) = live_devices s"
  by (simp add: live_devices_def)

lemma keeps_add [handler_intros]:
  assumes "k \<noteq> Devices" "w \<in> D" "w \<noteq> 0 \<or> k = Surfaces"
  shows "keeps D (add_object k v w)" "keeps D (add_unique_object k v w)"
proof -
  have "k \<in> {Devices, Surfaces} \<or> v = 0 \<or> (w \<noteq> 0 \<and> w \<in> set (m_slots (tables (s_tables s) Devices)))"
    if "D \<subseteq> live_devices s" for s using assms that by (auto simp: live_devices_def)
  then show "keeps D (add_object k v w)" "keeps D (add_unique_object k v w)"
    using assms(1) by (simp_all add: keeps_def run_simps tables_step_add tables_step_add_unique)
qed

lemma keeps_take [handler_intros]: "k \<noteq> Devices \<Longrightarrow> keeps D (take_object k i)"
  by (simp add: keeps_def run_simps tables_step_take)

lemma keeps_add_device [handler_intros]: "keeps D (add_object Devices v w)"
proof -
  have "tables_step t (set_table Devices (snd (tbl_add (tables t Devices) v w)) t)" for t
    by (intro tables_step_add) simp
  moreover have "live_devices s \<subseteq> live_devices (exec (add_object Devices v w) s)" for s
    by (auto simp: run_simps live_devices_def tbl_add_def)
  ultimately show ?thesis by (auto simp: keeps_def run_simps)
qed

lemma keeps_update [handler_intros]: "(\<And>t. tables (g t) = tables t) \<Longrightarrow> keeps D (update_tables g)"
  by (simp add: keeps_def run_simps tables_step_meta live_devices_def)

text \<open>Taking a list of ids out of one table.\<close>

lemma set_table_twice [simp]: "set_table k a (set_table k b t) = set_table k a t"
  by (simp add: set_table_def)

lemma tables_step_takes:
  "k \<noteq> Devices \<Longrightarrow> tables_step t (set_table k (fold (\<lambda>i tab. snd (tbl_take tab i)) is (tables t k)) t)"
proof (induction "is" arbitrary: t)
  case Nil
  then show ?case by (simp add: set_table_def)
next
  case (Cons i "is")
  let ?u = "set_table k (snd (tbl_take (tables t k) i)) t"
  have "tables_step t ?u" using Cons.prems by (rule tables_step_take)
  moreover have "tables_step ?u (set_table k (fold (\<lambda>i tab. snd (tbl_take tab i)) is (tables ?u k)) ?u)"
    by (rule Cons.IH [OF Cons.prems])
  ultimately show ?case by (auto elim: tables_step_trans)
qed

lemma tables_step_via: "tables_step t u \<Longrightarrow> tables t' = tables u \<Longrightarrow> tables_step t t'"
  using tables_step_meta tables_step_trans by blast

end
