(* ===== verification/HandlersDevice.thy ===== *)
theory HandlersDevice
  imports HandlerLogic
begin

section \<open>Device-level handlers (server/handlers_device.cpp)\<close>

text \<open>
  One definition per handler: devices and queues, fences and semaphores, every plain object of a
  device, pipelines and descriptor sets. Each reads its arguments in the order of the code,
  resolves ids through the connection's tables, calls the driver, and replies or counts a one-way
  error. The readers of the create-info structures (common/marshal.cpp) are the environment's
  \<open>read_struct\<close>. \<open>SERVER_CREATE\<close> and \<open>SERVER_DESTROY\<close> are the two macros
  most objects come from.
\<close>

subsection \<open>Devices and queues\<close>

definition handle_CreateDevice :: "Server \<Rightarrow> unit handler" where
  "handle_CreateDevice srv = do {
     physdev_id \<leftarrow> rd r_handle;
     let physdev = physical_device_from_id srv physdev_id;
     ok \<leftarrow> reader_ok;
     if \<not> ok \<or> physdev = VK_NULL_HANDLE then reply_status DecodeError else do {
     info \<leftarrow> rd_struct srv ''read_DeviceCreateInfo'';
     case info of None \<Rightarrow> reply_status DecodeError | Some i \<Rightarrow> do {
     r \<leftarrow> call_native srv (NativeCall ''vkCreateDevice'' [VNum physdev, i]);
     put_u32 (status_code Ok);
     put_i32 (nr_result r);
     device_id \<leftarrow> (if nr_result r = VK_SUCCESS then do {
         device_id \<leftarrow> add_object Devices (nr_handle r 0) VK_NULL_HANDLE;
         update_tables (\<lambda>t. t\<lparr>device_physical_devices := AList.update (nr_handle r 0) physdev (device_physical_devices t)\<rparr>);
         State_Monad.return device_id }
       else State_Monad.return 0);
     put_handle device_id;
     reply }}}"

definition handle_DestroyDevice :: "unit handler" where
  "handle_DestroyDevice = do {
     i \<leftarrow> rd r_handle;
     device \<leftarrow> take_object Devices i;
     ok \<leftarrow> reader_ok;
     if \<not> ok \<or> device = VK_NULL_HANDLE then mark_oneway_error
     else State (\<lambda>s. let (t, log) = snd (destroy_device_objects (s_tables s, native_log s) device)
                    in ((), s\<lparr>s_tables := t, native_log := log\<rparr>)) }"

definition handle_GetDeviceQueue :: "Server \<Rightarrow> unit handler" where
  "handle_GetDeviceQueue srv = do {
     device_id \<leftarrow> rd r_handle;
     device \<leftarrow> get_object Devices device_id;
     family \<leftarrow> rd r_u32;
     index \<leftarrow> rd r_u32;
     ok \<leftarrow> reader_ok;
     if \<not> ok \<or> device = VK_NULL_HANDLE then reply_status DecodeError else do {
     r \<leftarrow> call_native srv (NativeCall ''vkGetDeviceQueue'' [VNum device, VNum (ucast family), VNum (ucast index)]);
     put_u32 (status_code Ok);
     queue_id \<leftarrow> add_unique_object Queues (nr_handle r 0) device;
     put_handle queue_id;
     reply }}"

definition handle_GetDeviceQueue2 :: "Server \<Rightarrow> unit handler" where
  "handle_GetDeviceQueue2 srv = do {
     device_id \<leftarrow> rd r_handle;
     d \<leftarrow> get_object Devices device_id;
     flags \<leftarrow> rd r_u32;
     family \<leftarrow> rd r_u32;
     index \<leftarrow> rd r_u32;
     ok \<leftarrow> reader_ok;
     if \<not> ok \<or> d = VK_NULL_HANDLE then reply_status DecodeError
     else if \<not> proc_addr srv d ''vkGetDeviceQueue2'' then reply_status UnsupportedCommand else do {
     r \<leftarrow> call_native srv (NativeCall ''vkGetDeviceQueue2'' [VNum d, VNum (ucast flags), VNum (ucast family), VNum (ucast index)]);
     let q = nr_handle r 0;
     put_u32 (status_code Ok);
     queue_id \<leftarrow> (if q \<noteq> VK_NULL_HANDLE then add_unique_object Queues q d else State_Monad.return 0);
     put_handle queue_id;
     reply }}"

definition handle_GetDeviceGroupPeerMemoryFeatures :: "Server \<Rightarrow> unit handler" where
  "handle_GetDeviceGroupPeerMemoryFeatures srv = do {
     device_id \<leftarrow> rd r_handle;
     d \<leftarrow> get_object Devices device_id;
     heap \<leftarrow> rd r_u32;
     local_device \<leftarrow> rd r_u32;
     remote_device \<leftarrow> rd r_u32;
     ok \<leftarrow> reader_ok;
     if \<not> ok \<or> d = VK_NULL_HANDLE then reply_status DecodeError
     else if \<not> proc_addr srv d ''vkGetDeviceGroupPeerMemoryFeatures'' then reply_status UnsupportedCommand else do {
     r \<leftarrow> call_native srv (NativeCall ''vkGetDeviceGroupPeerMemoryFeatures''
       [VNum d, VNum (ucast heap), VNum (ucast local_device), VNum (ucast remote_device)]);
     put_u32 (status_code Ok);
     put_u32 (ucast (nr_value r 0));
     reply }}"

subsection \<open>Semaphores and query pools\<close>

definition handle_GetSemaphoreCounterValue :: "Server \<Rightarrow> unit handler" where
  "handle_GetSemaphoreCounterValue srv = do {
     device_id \<leftarrow> rd r_handle;
     d \<leftarrow> get_object Devices device_id;
     sem_id \<leftarrow> rd r_handle;
     sem \<leftarrow> get_object Semaphores sem_id;
     ok \<leftarrow> reader_ok;
     if \<not> ok \<or> d = VK_NULL_HANDLE \<or> sem = VK_NULL_HANDLE then reply_status DecodeError
     else if \<not> proc_addr srv d ''vkGetSemaphoreCounterValue'' then reply_status UnsupportedCommand else do {
     r \<leftarrow> call_native srv (NativeCall ''vkGetSemaphoreCounterValue'' [VNum d, VNum sem]);
     put_u32 (status_code Ok);
     put_i32 (nr_result r);
     put_u64 (nr_value r 0);
     reply }}"

text \<open>
  \<open>handle_WaitSemaphores\<close> and \<open>handle_WaitForFences\<close> are registered, which is what
  makes the serve loop accept the opcodes; the loop resolves the waits itself and never runs them.
\<close>

definition handle_WaitSemaphores :: "Server \<Rightarrow> unit handler" where
  "handle_WaitSemaphores srv = do {
     device_id \<leftarrow> rd r_handle;
     d \<leftarrow> get_object Devices device_id;
     flags \<leftarrow> rd r_u32;
     count \<leftarrow> rd r_u32;
     fits \<leftarrow> reader_count_fits count 16;
     if count > kMaxArrayElements \<or> \<not> fits then reply_status DecodeError else do {
     pairs \<leftarrow> rd (r_list (\<lambda>r. let (i, r1) = r_handle r; (x, r2) = r_u64 r1 in ((i, x), r2)) (unat count));
     sems \<leftarrow> get_objects Semaphores (map fst pairs);
     timeout \<leftarrow> rd r_u64;
     ok \<leftarrow> reader_ok;
     if \<not> (d \<noteq> VK_NULL_HANDLE \<and> list_all (\<lambda>v. v \<noteq> VK_NULL_HANDLE) sems) \<or> \<not> ok then reply_status DecodeError
     else if \<not> proc_addr srv d ''vkWaitSemaphores'' then reply_status UnsupportedCommand else do {
     put_u32 (status_code Ok);
     r \<leftarrow> call_native srv (NativeCall ''vkWaitSemaphores''
       [VNum d, VNum (ucast flags), VList (map VNum sems), VList (map (VNum \<circ> snd) pairs), VNum timeout]);
     put_i32 (nr_result r);
     reply }}}"

definition handle_SignalSemaphore :: "Server \<Rightarrow> unit handler" where
  "handle_SignalSemaphore srv = do {
     device_id \<leftarrow> rd r_handle;
     d \<leftarrow> get_object Devices device_id;
     sem_id \<leftarrow> rd r_handle;
     sem \<leftarrow> get_object Semaphores sem_id;
     x \<leftarrow> rd r_u64;
     ok \<leftarrow> reader_ok;
     if \<not> ok \<or> d = VK_NULL_HANDLE \<or> sem = VK_NULL_HANDLE then reply_status DecodeError
     else if \<not> proc_addr srv d ''vkSignalSemaphore'' then reply_status UnsupportedCommand else do {
     put_u32 (status_code Ok);
     r \<leftarrow> call_native srv (NativeCall ''vkSignalSemaphore'' [VNum d, VNum sem, VNum x]);
     put_i32 (nr_result r);
     reply }}"

definition handle_ResetQueryPool :: "Server \<Rightarrow> unit handler" where
  "handle_ResetQueryPool srv = do {
     device_id \<leftarrow> rd r_handle;
     d \<leftarrow> get_object Devices device_id;
     pool_id \<leftarrow> rd r_handle;
     pool \<leftarrow> get_object QueryPools pool_id;
     first \<leftarrow> rd r_u32;
     count \<leftarrow> rd r_u32;
     ok \<leftarrow> reader_ok;
     if \<not> ok \<or> d = VK_NULL_HANDLE \<or> pool = VK_NULL_HANDLE then mark_oneway_error
     else if \<not> proc_addr srv d ''vkResetQueryPool'' then mark_oneway_error else do {
     call_native srv (NativeCall ''vkResetQueryPool'' [VNum d, VNum pool, VNum (ucast first), VNum (ucast count)]);
     State_Monad.return () }}"

subsection \<open>Queue submission\<close>

definition handle_QueueSubmit2 :: "Server \<Rightarrow> unit handler" where
  "handle_QueueSubmit2 srv = do {
     queue_id \<leftarrow> rd r_handle;
     queue \<leftarrow> get_object Queues queue_id;
     fence_id \<leftarrow> rd r_handle;
     fence \<leftarrow> get_object Fences fence_id;
     count \<leftarrow> rd r_u32;
     fits \<leftarrow> reader_count_fits count 16;
     if queue = VK_NULL_HANDLE \<or> (fence_id \<noteq> 0 \<and> fence = VK_NULL_HANDLE) \<or> count > kMaxArrayElements \<or> \<not> fits
     then reply_status DecodeError else do {
     infos \<leftarrow> rd_with (\<lambda>t. read_each (read_struct srv ''read_SubmitInfo2'' t) (unat count));
     ok \<leftarrow> reader_ok;
     left \<leftarrow> reader_remaining;
     if infos = None \<or> \<not> ok \<or> left \<noteq> 0 then reply_status DecodeError else do {
     owner \<leftarrow> owner_object Queues queue_id;
     if \<not> (owner \<noteq> VK_NULL_HANDLE \<and> proc_addr srv owner ''vkQueueSubmit2KHR'') then reply_status UnsupportedCommand else do {
     r \<leftarrow> call_native srv (NativeCall ''vkQueueSubmit2KHR'' [VNum queue, VList (the infos), VNum fence]);
     put_u32 (status_code Ok);
     put_i32 (nr_result r);
     errors \<leftarrow> take_errors;
     put_u32 errors;
     reply }}}}"

text \<open>A counted array of \<open>VkSubmitInfo\<close>: bounded count, then elements until one fails.\<close>

definition read_counted :: "nat \<Rightarrow> (Reader \<Rightarrow> 'a option \<times> Reader) \<Rightarrow> Reader \<Rightarrow> 'a list option \<times> Reader" where
  "read_counted min_bytes dec r =
     (let (count, r1) = r_u32 r in
      if count > kMaxArrayElements \<or> \<not> count_fits r1 count min_bytes then (None, r1)
      else read_each dec (unat count) r1)"

definition read_wait_stage :: "ObjectTables \<Rightarrow> Reader \<Rightarrow> vk option \<times> Reader" where
  "read_wait_stage t r =
     (let (sem, r1) = read_live t Semaphores r; (stage, r2) = r_u32 r1
      in (map_option (\<lambda>v. VList [VNum v, VNum (ucast stage)]) sem, r2))"

definition read_submit :: "Server \<Rightarrow> ObjectTables \<Rightarrow> Reader \<Rightarrow> vk option \<times> Reader" where
  "read_submit srv t r =
     (case read_struct srv ''read_pnext_chain/Submit'' t r of
        (None, r1) \<Rightarrow> (None, r1)
      | (Some pnext, r1) \<Rightarrow>
        (case read_counted 12 (read_wait_stage t) r1 of
           (None, r2) \<Rightarrow> (None, r2)
         | (Some waits, r2) \<Rightarrow>
           (case read_counted 8 (read_live t CommandBuffers) r2 of
              (None, r3) \<Rightarrow> (None, r3)
            | (Some cbs, r3) \<Rightarrow>
              (case read_counted 8 (read_live t Semaphores) r3 of
                 (None, r4) \<Rightarrow> (None, r4)
               | (Some signals, r4) \<Rightarrow>
                   (if r_ok r4 then Some (VList [pnext, VList waits, VList (map VNum cbs), VList (map VNum signals)])
                    else None, r4)))))"

definition handle_QueueSubmit :: "Server \<Rightarrow> unit handler" where
  "handle_QueueSubmit srv = do {
     queue_id \<leftarrow> rd r_handle;
     queue \<leftarrow> get_object Queues queue_id;
     fence_id \<leftarrow> rd r_handle;
     fence \<leftarrow> get_object Fences fence_id;
     submit_count \<leftarrow> rd r_u32;
     fits \<leftarrow> reader_count_fits submit_count 16;
     if submit_count > kMaxArrayElements \<or> \<not> fits then reply_status DecodeError else do {
     ok \<leftarrow> reader_ok;
     if \<not> (ok \<and> queue \<noteq> VK_NULL_HANDLE \<and> (fence_id = 0 \<or> fence \<noteq> VK_NULL_HANDLE))
     then reply_status DecodeError else do {
     submits \<leftarrow> rd_with (\<lambda>t. read_each (read_submit srv t) (unat submit_count));
     left \<leftarrow> reader_remaining;
     if submits = None \<or> left \<noteq> 0 then reply_status DecodeError else do {
     r \<leftarrow> call_native srv (NativeCall ''vkQueueSubmit'' [VNum queue, VList (the submits), VNum fence]);
     put_u32 (status_code Ok);
     put_i32 (nr_result r);
     errors \<leftarrow> take_errors;
     put_u32 errors;
     reply }}}}"

text \<open>
  \<open>vkQueueBindSparse\<close>: unlike a submit, an id that names nothing becomes a null handle. The code
  goes on reading after an element that does not decode and then refuses; here it refuses at once.
\<close>

definition read_any :: "ObjectTables \<Rightarrow> table_kind \<Rightarrow> Reader \<Rightarrow> vk option \<times> Reader" where
  "read_any t k r = (let (i, r1) = r_handle r in (Some (VNum (resolve t k i)), r1))"

definition read_memory_bind :: "ObjectTables \<Rightarrow> Reader \<Rightarrow> vk option \<times> Reader" where
  "read_memory_bind t r =
     (let (offset, r1) = r_u64 r; (sz, r2) = r_u64 r1; (memory, r3) = r_handle r2; (memory_offset, r4) = r_u64 r3; (flags, r5) = r_u32 r4
      in (Some (VList [VNum offset, VNum sz, VNum (resolve t Memories memory), VNum memory_offset, VNum (ucast flags)]), r5))"

definition read_image_bind :: "ObjectTables \<Rightarrow> Reader \<Rightarrow> vk option \<times> Reader" where
  "read_image_bind t r =
     (let (region, r1) = r_list r_u32 9 r; (memory, r2) = r_handle r1; (memory_offset, r3) = r_u64 r2; (flags, r4) = r_u32 r3
      in (Some (VList [VList (map (VNum \<circ> ucast) region), VNum (resolve t Memories memory), VNum memory_offset, VNum (ucast flags)]), r4))"

definition read_resource_binds :: "table_kind \<Rightarrow> nat \<Rightarrow> (ObjectTables \<Rightarrow> Reader \<Rightarrow> vk option \<times> Reader) \<Rightarrow> ObjectTables \<Rightarrow> Reader \<Rightarrow> vk option \<times> Reader" where
  "read_resource_binds k min_bytes dec t r =
     (let (i, r1) = r_handle r in
      case read_counted min_bytes (dec t) r1 of
        (None, r2) \<Rightarrow> (None, r2)
      | (Some binds, r2) \<Rightarrow> (Some (VList [VNum (resolve t k i), VList binds]), r2))"

fun read_parts :: "(Reader \<Rightarrow> vk list option \<times> Reader) list \<Rightarrow> Reader \<Rightarrow> vk list option \<times> Reader" where
  "read_parts [] r = (Some [], r)"
| "read_parts (dec # decs) r = (case dec r of
      (None, r1) \<Rightarrow> (None, r1)
    | (Some vs, r1) \<Rightarrow> (case read_parts decs r1 of (rest, r2) \<Rightarrow> (map_option ((#) (VList vs)) rest, r2)))"

definition read_bind_sparse :: "Server \<Rightarrow> ObjectTables \<Rightarrow> Reader \<Rightarrow> vk option \<times> Reader" where
  "read_bind_sparse srv t r =
     (case read_struct srv ''read_pnext_chain/Submit'' t r of
        (None, r1) \<Rightarrow> (None, r1)
      | (Some pnext, r1) \<Rightarrow>
        (case read_parts [read_counted 8 (read_any t Semaphores),
             read_counted 12 (read_resource_binds Buffers 36 read_memory_bind t),
             read_counted 12 (read_resource_binds Images 36 read_memory_bind t),
             read_counted 12 (read_resource_binds Images 56 read_image_bind t),
             read_counted 8 (read_any t Semaphores)] r1 of
           (None, r2) \<Rightarrow> (None, r2)
         | (Some parts, r2) \<Rightarrow> (if r_ok r2 then Some (VList (pnext # parts)) else None, r2)))"

definition handle_QueueBindSparse :: "Server \<Rightarrow> unit handler" where
  "handle_QueueBindSparse srv = do {
     queue_id \<leftarrow> rd r_handle;
     queue \<leftarrow> get_object Queues queue_id;
     fence_id \<leftarrow> rd r_handle;
     fence \<leftarrow> get_object Fences fence_id;
     n \<leftarrow> rd r_u32;
     fits \<leftarrow> reader_count_fits n 16;
     if n > kMaxArrayElements \<or> \<not> fits then reply_status DecodeError
     else if queue = VK_NULL_HANDLE then reply_status DecodeError else do {
     infos \<leftarrow> rd_with (\<lambda>t. read_each (read_bind_sparse srv t) (unat n));
     case infos of None \<Rightarrow> reply_status DecodeError | Some is \<Rightarrow> do {
     r \<leftarrow> call_native srv (NativeCall ''vkQueueBindSparse'' [VNum queue, VList is, VNum fence]);
     put_u32 (status_code Ok);
     put_i32 (nr_result r);
     errors \<leftarrow> take_errors;
     put_u32 errors;
     reply }}}"

definition handle_QueueWaitIdle :: "Server \<Rightarrow> unit handler" where
  "handle_QueueWaitIdle srv = do {
     queue_id \<leftarrow> rd r_handle;
     queue \<leftarrow> get_object Queues queue_id;
     ok \<leftarrow> reader_ok;
     if \<not> ok \<or> queue = VK_NULL_HANDLE then reply_status DecodeError else do {
     r \<leftarrow> call_native srv (NativeCall ''vkQueueWaitIdle'' [VNum queue]);
     put_u32 (status_code Ok);
     put_i32 (nr_result r);
     reply }}"

definition handle_DeviceWaitIdle :: "Server \<Rightarrow> unit handler" where
  "handle_DeviceWaitIdle srv = do {
     device_id \<leftarrow> rd r_handle;
     device \<leftarrow> get_object Devices device_id;
     ok \<leftarrow> reader_ok;
     if \<not> ok \<or> device = VK_NULL_HANDLE then reply_status DecodeError else do {
     r \<leftarrow> call_native srv (NativeDeviceWaitIdle device);
     put_u32 (status_code Ok);
     put_i32 (nr_result r);
     errors \<leftarrow> take_errors;
     put_u32 errors;
     reply }}"

subsection \<open>Creation and destruction\<close>

text \<open>
  \<open>SERVER_CREATE\<close>; \<open>handle_CreateFence\<close>, \<open>handle_CreateSemaphore\<close> and
  \<open>handle_CreateDescriptorSetLayout\<close> are the same text written out.
\<close>

definition server_create :: "Server \<Rightarrow> string \<Rightarrow> string \<Rightarrow> table_kind \<Rightarrow> unit handler" where
  "server_create srv read_fn create_fn k = do {
     device_id \<leftarrow> rd r_handle;
     device \<leftarrow> get_object Devices device_id;
     ok \<leftarrow> reader_ok;
     if \<not> ok \<or> device = VK_NULL_HANDLE then reply_status DecodeError else do {
     info \<leftarrow> rd_struct srv read_fn;
     case info of None \<Rightarrow> reply_status DecodeError | Some i \<Rightarrow> do {
     r \<leftarrow> call_native srv (NativeCall create_fn [VNum device, i]);
     put_u32 (status_code Ok);
     put_i32 (nr_result r);
     obj_id \<leftarrow> (if nr_result r = VK_SUCCESS then add_object k (nr_handle r 0) device else State_Monad.return 0);
     put_handle obj_id;
     reply }}}"

text \<open>\<open>SERVER_DESTROY\<close>\<close>

definition server_destroy :: "Server \<Rightarrow> table_kind \<Rightarrow> unit handler" where
  "server_destroy srv k = do {
     device_id \<leftarrow> rd r_handle;
     device \<leftarrow> get_object Devices device_id;
     i \<leftarrow> rd r_handle;
     ok \<leftarrow> reader_ok;
     owned \<leftarrow> owned_by_object k i device;
     if \<not> ok \<or> device = VK_NULL_HANDLE \<or> \<not> owned then mark_oneway_error else do {
     obj \<leftarrow> take_object k i;
     if obj = VK_NULL_HANDLE then mark_oneway_error else do {
     call_native srv (NativeDestroy k device obj);
     State_Monad.return () }}}"

definition handle_CreateFence :: "Server \<Rightarrow> unit handler" where
  "handle_CreateFence srv = server_create srv ''read_FenceCreateInfo'' ''vkCreateFence'' Fences"

text \<open>Unlike the macro, these two empty the slot before they look at the device.\<close>

definition destroy_unchecked :: "Server \<Rightarrow> table_kind \<Rightarrow> unit handler" where
  "destroy_unchecked srv k = do {
     device_id \<leftarrow> rd r_handle;
     device \<leftarrow> get_object Devices device_id;
     i \<leftarrow> rd r_handle;
     obj \<leftarrow> take_object k i;
     ok \<leftarrow> reader_ok;
     if \<not> ok \<or> device = VK_NULL_HANDLE then mark_oneway_error else do {
     call_native srv (NativeDestroy k device obj);
     State_Monad.return () }}"

definition handle_DestroyFence :: "Server \<Rightarrow> unit handler" where
  "handle_DestroyFence srv = destroy_unchecked srv Fences"

definition handle_CreateSemaphore :: "Server \<Rightarrow> unit handler" where
  "handle_CreateSemaphore srv = server_create srv ''read_SemaphoreCreateInfo'' ''vkCreateSemaphore'' Semaphores"

definition handle_DestroySemaphore :: "Server \<Rightarrow> unit handler" where
  "handle_DestroySemaphore srv = destroy_unchecked srv Semaphores"

definition create_instances :: "(string \<times> string \<times> string \<times> table_kind) list" where
  "create_instances = [
     (''vkCreateBuffer'', ''read_BufferCreateInfo'', ''vkCreateBuffer'', Buffers),
     (''vkCreateImage'', ''read_ImageCreateInfo'', ''vkCreateImage'', Images),
     (''vkCreateImageView'', ''read_ImageViewCreateInfo'', ''vkCreateImageView'', ImageViews),
     (''vkCreateBufferView'', ''read_BufferViewCreateInfo'', ''vkCreateBufferView'', BufferViews),
     (''vkCreateEvent'', ''read_EventCreateInfo'', ''vkCreateEvent'', Events),
     (''vkCreateQueryPool'', ''read_QueryPoolCreateInfo'', ''vkCreateQueryPool'', QueryPools),
     (''vkCreateSampler'', ''read_SamplerCreateInfo'', ''vkCreateSampler'', Samplers),
     (''vkCreatePipelineCache'', ''read_PipelineCacheCreateInfo'', ''vkCreatePipelineCache'', PipelineCaches),
     (''vkCreatePipelineLayout'', ''read_PipelineLayoutCreateInfo'', ''vkCreatePipelineLayout'', PipelineLayouts),
     (''vkCreateRenderPass'', ''read_RenderPassCreateInfo'', ''vkCreateRenderPass'', RenderPasses),
     (''vkCreateFramebuffer'', ''read_FramebufferCreateInfo'', ''vkCreateFramebuffer'', Framebuffers),
     (''vkCreateDescriptorPool'', ''read_DescriptorPoolCreateInfo'', ''vkCreateDescriptorPool'', DescriptorPools)]"

definition destroy_instances :: "(string \<times> table_kind) list" where
  "destroy_instances = [
     (''vkDestroyBuffer'', Buffers), (''vkDestroyImage'', Images), (''vkDestroyImageView'', ImageViews),
     (''vkDestroyBufferView'', BufferViews), (''vkDestroyEvent'', Events), (''vkDestroyQueryPool'', QueryPools),
     (''vkDestroySampler'', Samplers), (''vkDestroyShaderModule'', ShaderModules),
     (''vkDestroyPipelineCache'', PipelineCaches), (''vkDestroyPipelineLayout'', PipelineLayouts),
     (''vkDestroyPipeline'', Pipelines), (''vkDestroyRenderPass'', RenderPasses),
     (''vkDestroyFramebuffer'', Framebuffers), (''vkDestroyDescriptorSetLayout'', DescriptorSetLayouts)]"

definition handle_CreateShaderModule :: "Server \<Rightarrow> unit handler" where
  "handle_CreateShaderModule srv = do {
     device_id \<leftarrow> rd r_handle;
     device \<leftarrow> get_object Devices device_id;
     info \<leftarrow> rd_struct srv ''read_ShaderModuleCreateInfo'';
     ok \<leftarrow> reader_ok;
     left \<leftarrow> reader_remaining;
     if info = None \<or> \<not> ok \<or> left \<noteq> 0 \<or> device = VK_NULL_HANDLE then reply_status DecodeError else do {
     r \<leftarrow> call_native srv (NativeCall ''vkCreateShaderModule'' [VNum device, the info]);
     put_u32 (status_code Ok);
     put_i32 (nr_result r);
     obj_id \<leftarrow> (if nr_result r = VK_SUCCESS then add_object ShaderModules (nr_handle r 0) device else State_Monad.return 0);
     put_handle obj_id;
     reply }}"

definition handle_CreateRenderPass2 :: "Server \<Rightarrow> unit handler" where
  "handle_CreateRenderPass2 srv = do {
     device_id \<leftarrow> rd r_handle;
     device \<leftarrow> get_object Devices device_id;
     ok \<leftarrow> reader_ok;
     if \<not> ok \<or> device = VK_NULL_HANDLE then reply_status DecodeError else do {
     info \<leftarrow> rd_struct srv ''read_RenderPassCreateInfo2'';
     case info of None \<Rightarrow> reply_status DecodeError | Some i \<Rightarrow>
     if \<not> (proc_addr srv device ''vkCreateRenderPass2'' \<or> proc_addr srv device ''vkCreateRenderPass2KHR'')
     then reply_status UnsupportedCommand else do {
     r \<leftarrow> call_native srv (NativeCall (if proc_addr srv device ''vkCreateRenderPass2'' then ''vkCreateRenderPass2''
       else ''vkCreateRenderPass2KHR'') [VNum device, i]);
     put_u32 (status_code Ok);
     put_i32 (nr_result r);
     obj_id \<leftarrow> (if nr_result r = VK_SUCCESS then add_object RenderPasses (nr_handle r 0) device else State_Monad.return 0);
     put_handle obj_id;
     reply }}}"

definition handle_CreateDescriptorSetLayout :: "Server \<Rightarrow> unit handler" where
  "handle_CreateDescriptorSetLayout srv =
     server_create srv ''read_DescriptorSetLayoutCreateInfo'' ''vkCreateDescriptorSetLayout'' DescriptorSetLayouts"

subsection \<open>Fences, events and queries\<close>

definition handle_ResetFences :: "Server \<Rightarrow> unit handler" where
  "handle_ResetFences srv = do {
     device_id \<leftarrow> rd r_handle;
     device \<leftarrow> get_object Devices device_id;
     count \<leftarrow> rd r_u32;
     fits \<leftarrow> reader_count_fits count 8;
     if count = 0 \<or> count > kMaxArrayElements \<or> \<not> fits then reply_status DecodeError else do {
     fence_ids \<leftarrow> rd (r_list r_handle (unat count));
     fences \<leftarrow> get_objects Fences fence_ids;
     ok \<leftarrow> reader_ok;
     left \<leftarrow> reader_remaining;
     if \<not> (device \<noteq> VK_NULL_HANDLE \<and> list_all (\<lambda>v. v \<noteq> VK_NULL_HANDLE) fences) \<or> \<not> ok \<or> left \<noteq> 0
     then reply_status DecodeError else do {
     put_u32 (status_code Ok);
     r \<leftarrow> call_native srv (NativeCall ''vkResetFences'' [VNum device, VList (map VNum fences)]);
     put_i32 (nr_result r);
     reply }}}"

definition handle_GetFenceStatus :: "Server \<Rightarrow> unit handler" where
  "handle_GetFenceStatus srv = do {
     device_id \<leftarrow> rd r_handle;
     device \<leftarrow> get_object Devices device_id;
     fence_id \<leftarrow> rd r_handle;
     fence \<leftarrow> get_object Fences fence_id;
     ok \<leftarrow> reader_ok;
     left \<leftarrow> reader_remaining;
     if \<not> ok \<or> left \<noteq> 0 \<or> device = VK_NULL_HANDLE \<or> fence = VK_NULL_HANDLE then reply_status DecodeError else do {
     r \<leftarrow> call_native srv (NativeCall ''vkGetFenceStatus'' [VNum device, VNum fence]);
     put_u32 (status_code Ok);
     put_i32 (nr_result r);
     reply }}"

definition handle_WaitForFences :: "Server \<Rightarrow> unit handler" where
  "handle_WaitForFences srv = do {
     device_id \<leftarrow> rd r_handle;
     device \<leftarrow> get_object Devices device_id;
     wait_all \<leftarrow> rd r_u32;
     count \<leftarrow> rd r_u32;
     fits \<leftarrow> reader_count_fits count 8;
     if count = 0 \<or> count > kMaxArrayElements \<or> \<not> fits then reply_status DecodeError else do {
     fence_ids \<leftarrow> rd (r_list r_handle (unat count));
     fences \<leftarrow> get_objects Fences fence_ids;
     timeout \<leftarrow> rd r_u64;
     ok \<leftarrow> reader_ok;
     left \<leftarrow> reader_remaining;
     if \<not> (device \<noteq> VK_NULL_HANDLE \<and> list_all (\<lambda>v. v \<noteq> VK_NULL_HANDLE) fences) \<or> \<not> ok \<or> left \<noteq> 0
     then reply_status DecodeError else do {
     r \<leftarrow> call_native srv (NativeCall ''vkWaitForFences''
       [VNum device, VList (map VNum fences), VNum (if wait_all \<noteq> 0 then 1 else 0), VNum timeout]);
     put_u32 (status_code Ok);
     put_i32 (nr_result r);
     reply }}}"

definition handle_EventOperation :: "Server \<Rightarrow> nat \<Rightarrow> unit handler" where
  "handle_EventOperation srv operation = do {
     device_id \<leftarrow> rd r_handle;
     device \<leftarrow> get_object Devices device_id;
     event_id \<leftarrow> rd r_handle;
     event \<leftarrow> get_object Events event_id;
     ok \<leftarrow> reader_ok;
     if \<not> ok \<or> device = VK_NULL_HANDLE \<or> event = VK_NULL_HANDLE then reply_status DecodeError else do {
     r \<leftarrow> call_native srv (NativeCall (if operation = 0 then ''vkGetEventStatus''
       else if operation = 1 then ''vkSetEvent'' else ''vkResetEvent'') [VNum device, VNum event]);
     put_u32 (status_code Ok);
     put_i32 (nr_result r);
     reply }}"

definition kQueryDataLimit :: u64 where
  "kQueryDataLimit = 64 * 1024 * 1024"

text \<open>The driver's output fills the buffer the handler sized, so its data is cut or padded to that size.\<close>

definition fill_buffer :: "nat \<Rightarrow> bytes \<Rightarrow> bytes" where
  "fill_buffer n data = take n data @ replicate (n - length data) 0"

definition handle_GetQueryPoolResults :: "Server \<Rightarrow> unit handler" where
  "handle_GetQueryPoolResults srv = do {
     device_id \<leftarrow> rd r_handle;
     device \<leftarrow> get_object Devices device_id;
     pool_id \<leftarrow> rd r_handle;
     pool \<leftarrow> get_object QueryPools pool_id;
     first \<leftarrow> rd r_u32;
     count \<leftarrow> rd r_u32;
     size64 \<leftarrow> rd r_u64;
     stride \<leftarrow> rd r_u64;
     flags \<leftarrow> rd r_u32;
     ok \<leftarrow> reader_ok;
     if \<not> ok \<or> device = VK_NULL_HANDLE \<or> pool = VK_NULL_HANDLE \<or> size64 > kQueryDataLimit
     then reply_status DecodeError else do {
     r \<leftarrow> call_native srv (NativeCall ''vkGetQueryPoolResults''
       [VNum device, VNum pool, VNum (ucast first), VNum (ucast count), VNum size64, VNum stride, VNum (ucast flags)]);
     put_u32 (status_code Ok);
     put_i32 (nr_result r);
     put_bytes (fill_buffer (unat size64) (nr_data r));
     reply }}"

definition handle_GetPipelineCacheData :: "Server \<Rightarrow> unit handler" where
  "handle_GetPipelineCacheData srv = do {
     device_id \<leftarrow> rd r_handle;
     device \<leftarrow> get_object Devices device_id;
     cache_id \<leftarrow> rd r_handle;
     cache \<leftarrow> get_object PipelineCaches cache_id;
     capacity64 \<leftarrow> rd r_u64;
     want \<leftarrow> rd r_u32;
     ok \<leftarrow> reader_ok;
     if \<not> ok \<or> device = VK_NULL_HANDLE \<or> cache = VK_NULL_HANDLE \<or> capacity64 > kQueryDataLimit
     then reply_status DecodeError else do {
     r \<leftarrow> call_native srv (NativeCall ''vkGetPipelineCacheData''
       [VNum device, VNum cache, VNum capacity64, VNum (if want \<noteq> 0 \<and> capacity64 \<noteq> 0 then 1 else 0)]);
     let sz = nr_value r 0;
     let data = fill_buffer (if want \<noteq> 0 then unat capacity64 else 0) (nr_data r);
     put_u32 (status_code Ok);
     put_i32 (nr_result r);
     put_u64 sz;
     put_bytes (take (unat sz) data);
     reply }}"

definition handle_MergePipelineCaches :: "Server \<Rightarrow> unit handler" where
  "handle_MergePipelineCaches srv = do {
     device_id \<leftarrow> rd r_handle;
     device \<leftarrow> get_object Devices device_id;
     dst_id \<leftarrow> rd r_handle;
     dst \<leftarrow> get_object PipelineCaches dst_id;
     count \<leftarrow> rd r_u32;
     fits \<leftarrow> reader_count_fits count 8;
     if count > kMaxArrayElements \<or> \<not> fits then reply_status DecodeError else do {
     source_ids \<leftarrow> rd (r_list r_handle (unat count));
     sources \<leftarrow> get_objects PipelineCaches source_ids;
     ok \<leftarrow> reader_ok;
     if \<not> ok \<or> \<not> (device \<noteq> VK_NULL_HANDLE \<and> dst \<noteq> VK_NULL_HANDLE \<and> list_all (\<lambda>v. v \<noteq> VK_NULL_HANDLE) sources)
     then reply_status DecodeError else do {
     r \<leftarrow> call_native srv (NativeCall ''vkMergePipelineCaches'' [VNum device, VNum dst, VList (map VNum sources)]);
     put_u32 (status_code Ok);
     put_i32 (nr_result r);
     reply }}}"

definition handle_GetRenderAreaGranularity :: "Server \<Rightarrow> unit handler" where
  "handle_GetRenderAreaGranularity srv = do {
     device_id \<leftarrow> rd r_handle;
     device \<leftarrow> get_object Devices device_id;
     pass_id \<leftarrow> rd r_handle;
     render_pass \<leftarrow> get_object RenderPasses pass_id;
     ok \<leftarrow> reader_ok;
     if \<not> ok \<or> device = VK_NULL_HANDLE \<or> render_pass = VK_NULL_HANDLE then reply_status DecodeError else do {
     r \<leftarrow> call_native srv (NativeCall ''vkGetRenderAreaGranularity'' [VNum device, VNum render_pass]);
     put_u32 (status_code Ok);
     put_u32 (ucast (nr_value r 0));
     put_u32 (ucast (nr_value r 1));
     reply }}"

definition handle_GetImageSubresourceLayout :: "Server \<Rightarrow> unit handler" where
  "handle_GetImageSubresourceLayout srv = do {
     device_id \<leftarrow> rd r_handle;
     device \<leftarrow> get_object Devices device_id;
     image_id \<leftarrow> rd r_handle;
     image_h \<leftarrow> get_object Images image_id;
     aspectMask \<leftarrow> rd r_u32;
     mipLevel \<leftarrow> rd r_u32;
     arrayLayer \<leftarrow> rd r_u32;
     ok \<leftarrow> reader_ok;
     if \<not> ok \<or> device = VK_NULL_HANDLE then reply_status DecodeError else do {
     r \<leftarrow> call_native srv (NativeCall ''vkGetImageSubresourceLayout''
       [VNum device, VNum image_h, VNum (ucast aspectMask), VNum (ucast mipLevel), VNum (ucast arrayLayer)]);
     put_u32 (status_code Ok);
     put_u64 (nr_value r 0);
     put_u64 (nr_value r 1);
     put_u64 (nr_value r 2);
     put_u64 (nr_value r 3);
     put_u64 (nr_value r 4);
     reply }}"

end
