(* ===== verification/HandlersMemory.thy ===== *)
theory HandlersMemory
  imports HandlersDevice
begin

section \<open>Memory handlers (server/handlers_memory.cpp, common/memory_contract.hpp)\<close>

text \<open>
  Allocation, transfer of mapped bytes, binding and requirements. A transfer maps the allocation,
  copies, flushes or invalidates, and unmaps; the copies to and from the mapping are logged beside
  the driver calls as \<open>memcpy_to\<close> and \<open>memcpy_from\<close>, so that the contents of a device
  allocation are a function of the log.
\<close>

subsection \<open>The memory contract\<close>

definition VK_MEMORY_PROPERTY_HOST_VISIBLE_BIT :: u32 where "VK_MEMORY_PROPERTY_HOST_VISIBLE_BIT = 0x2"
definition VK_MEMORY_PROPERTY_HOST_COHERENT_BIT :: u32 where "VK_MEMORY_PROPERTY_HOST_COHERENT_BIT = 0x4"
definition VK_MEMORY_PROPERTY_DEVICE_COHERENT_BIT_AMD :: u32 where "VK_MEMORY_PROPERTY_DEVICE_COHERENT_BIT_AMD = 0x40"
definition VK_MEMORY_PROPERTY_DEVICE_UNCACHED_BIT_AMD :: u32 where "VK_MEMORY_PROPERTY_DEVICE_UNCACHED_BIT_AMD = 0x80"

definition VK_WHOLE_SIZE :: u64 where "VK_WHOLE_SIZE = - 1"

definition public_memory_property_flags :: "u32 \<Rightarrow> u32 \<Rightarrow> u32" where
  "public_memory_property_flags flags caps =
     (let hidden0 = VK_MEMORY_PROPERTY_DEVICE_COHERENT_BIT_AMD OR VK_MEMORY_PROPERTY_DEVICE_UNCACHED_BIT_AMD;
          hidden = (if caps AND kCapabilityWholeCopyHostCoherent = 0 then hidden0 OR VK_MEMORY_PROPERTY_HOST_COHERENT_BIT else hidden0)
      in flags AND NOT hidden)"

subsection \<open>Transfers\<close>

definition kMaxMappedChunk :: u64 where
  "kMaxMappedChunk = 64 * 1024 * 1024 - 64"

definition align_down :: "u64 \<Rightarrow> u64 \<Rightarrow> u64" where
  "align_down v alignment = v AND NOT (alignment - 1)"

definition validate_transfer :: "ObjectTables \<Rightarrow> u64 \<Rightarrow> u64 \<Rightarrow> u64 \<Rightarrow> u64 \<Rightarrow> ServerMemory option" where
  "validate_transfer t device_id memory_id offset sz =
     (let device = resolve t Devices device_id in
      case map_of (memory_metadata t) memory_id of
        None \<Rightarrow> None
      | Some m \<Rightarrow>
          if device = VK_NULL_HANDLE \<or> mem_owner m \<noteq> device \<or>
             mem_property_flags m AND VK_MEMORY_PROPERTY_HOST_VISIBLE_BIT = 0 \<or> sz = 0 \<or>
             sz > kMaxMappedChunk \<or> offset > mem_size m \<or> sz > mem_size m - offset
          then None else Some m)"

definition map_offset_of :: "ServerMemory \<Rightarrow> u64 \<Rightarrow> u64" where
  "map_offset_of m offset =
     align_down offset (if mem_map_alignment m > mem_non_coherent_atom_size m then mem_map_alignment m
                        else mem_non_coherent_atom_size m)"

definition is_coherent :: "ServerMemory \<Rightarrow> bool" where
  "is_coherent m \<longleftrightarrow> mem_property_flags m AND VK_MEMORY_PROPERTY_HOST_COHERENT_BIT \<noteq> 0"

text \<open>The range that is flushed or invalidated around a transfer of non-coherent memory.\<close>

definition native_range :: "ServerMemory \<Rightarrow> u64 \<Rightarrow> u64 \<Rightarrow> u64 \<times> u64" where
  "native_range m offset sz =
     (let atom = mem_non_coherent_atom_size m;
          range_offset = align_down offset atom;
          requested_end = offset + sz
      in (range_offset,
          if requested_end = mem_size m then VK_WHOLE_SIZE
          else ((requested_end + atom - 1) AND NOT (atom - 1)) - range_offset))"

definition range_call :: "string \<Rightarrow> ServerMemory \<Rightarrow> u64 \<Rightarrow> u64 \<Rightarrow> native_call" where
  "range_call name m offset sz =
     NativeCall name [VNum (mem_owner m), VNum (mem_handle m), VNum (fst (native_range m offset sz)), VNum (snd (native_range m offset sz))]"

definition map_call :: "ServerMemory \<Rightarrow> u64 \<Rightarrow> native_call" where
  "map_call m offset = NativeCall ''vkMapMemory'' [VNum (mem_owner m), VNum (mem_handle m), VNum (map_offset_of m offset), VNum VK_WHOLE_SIZE]"

definition unmap_call :: "ServerMemory \<Rightarrow> native_call" where
  "unmap_call m = NativeCall ''vkUnmapMemory'' [VNum (mem_owner m), VNum (mem_handle m)]"

definition map_transfer_upload :: "Server \<Rightarrow> ServerMemory \<Rightarrow> u64 \<Rightarrow> u64 \<Rightarrow> bytes \<Rightarrow> u32 handler" where
  "map_transfer_upload srv m offset sz upload = do {
     mapped \<leftarrow> call_native srv (map_call m offset);
     if nr_result mapped \<noteq> VK_SUCCESS then State_Monad.return (nr_result mapped) else do {
     call_native srv (NativeCall ''memcpy_to'' [VNum (mem_handle m), VNum (offset - map_offset_of m offset), VBytes (take (unat sz) upload)]);
     result \<leftarrow> (if is_coherent m then State_Monad.return VK_SUCCESS else do {
         r \<leftarrow> call_native srv (range_call ''vkFlushMappedMemoryRanges'' m offset sz);
         State_Monad.return (nr_result r) });
     call_native srv (unmap_call m);
     State_Monad.return result }}"

definition map_transfer_download :: "Server \<Rightarrow> ServerMemory \<Rightarrow> u64 \<Rightarrow> u64 \<Rightarrow> (u32 \<times> bytes) handler" where
  "map_transfer_download srv m offset sz = do {
     mapped \<leftarrow> call_native srv (map_call m offset);
     if nr_result mapped \<noteq> VK_SUCCESS then State_Monad.return (nr_result mapped, []) else do {
     result \<leftarrow> (if is_coherent m then State_Monad.return VK_SUCCESS else do {
         r \<leftarrow> call_native srv (range_call ''vkInvalidateMappedMemoryRanges'' m offset sz);
         State_Monad.return (nr_result r) });
     download \<leftarrow> (if result = VK_SUCCESS then do {
         r \<leftarrow> call_native srv (NativeCall ''memcpy_from'' [VNum (mem_handle m), VNum (offset - map_offset_of m offset), VNum sz]);
         State_Monad.return (fill_buffer (unat sz) (nr_data r)) }
       else State_Monad.return []);
     call_native srv (unmap_call m);
     State_Monad.return (result, download) }}"

subsection \<open>Allocation\<close>

text \<open>\<open>allocationSize\<close> and \<open>memoryTypeIndex\<close> of a decoded \<open>VkMemoryAllocateInfo\<close>.\<close>

definition allocate_size :: "vk \<Rightarrow> u64" where
  "allocate_size info = vk_member 2 info"

definition allocate_type_index :: "vk \<Rightarrow> u64" where
  "allocate_type_index info = vk_member 3 info"

definition handle_AllocateMemory :: "Server \<Rightarrow> unit handler" where
  "handle_AllocateMemory srv = do {
     device_id \<leftarrow> rd r_handle;
     device \<leftarrow> get_object Devices device_id;
     ok \<leftarrow> reader_ok;
     if \<not> ok \<or> device = VK_NULL_HANDLE then reply_status DecodeError else do {
     info \<leftarrow> rd_struct srv ''read_MemoryAllocateInfo'';
     case info of None \<Rightarrow> reply_status DecodeError | Some i \<Rightarrow> do {
     physical \<leftarrow> query_tables (\<lambda>t. map_of (device_physical_devices t) device);
     case physical of None \<Rightarrow> reply_status DecodeError | Some pd \<Rightarrow> do {
     mp \<leftarrow> call_native srv (NativeCall ''vkGetPhysicalDeviceMemoryProperties'' [VNum pd]);
     props \<leftarrow> call_native srv (NativeCall ''vkGetPhysicalDeviceProperties'' [VNum pd]);
     let index = allocate_type_index i;
     if index \<ge> nr_value mp 0 then reply_status DecodeError else do {
     r \<leftarrow> call_native srv (NativeCall ''vkAllocateMemory'' [VNum device, i]);
     let flags = (ucast (nr_value mp (1 + unat index)) :: u32);
     public_flags \<leftarrow> query_tables (\<lambda>t. public_memory_property_flags flags (capabilities t));
     let map_alignment = nr_value props 0;
     let atom_size = nr_value props 1;
     mem_id \<leftarrow> (if nr_result r = VK_SUCCESS then do {
         mem_id \<leftarrow> add_object Memories (nr_handle r 0) device;
         update_tables (\<lambda>t. t\<lparr>memory_metadata := AList.update mem_id \<lparr>mem_handle = nr_handle r 0, mem_owner = device,
           mem_size = allocate_size i, mem_property_flags = flags, mem_map_alignment = map_alignment,
           mem_non_coherent_atom_size = atom_size\<rparr> (memory_metadata t)\<rparr>);
         State_Monad.return mem_id }
       else State_Monad.return 0);
     put_u32 (status_code Ok);
     put_i32 (nr_result r);
     put_handle mem_id;
     put_u32 public_flags;
     put_u64 map_alignment;
     put_u64 atom_size;
     reply }}}}}"

definition handle_FreeMemory :: "Server \<Rightarrow> unit handler" where
  "handle_FreeMemory srv = do {
     device_id \<leftarrow> rd r_handle;
     device \<leftarrow> get_object Devices device_id;
     mem_id \<leftarrow> rd r_handle;
     metadata \<leftarrow> query_tables (\<lambda>t. map_of (memory_metadata t) mem_id);
     ok \<leftarrow> reader_ok;
     if \<not> ok \<or> device = VK_NULL_HANDLE \<or> map_option mem_owner metadata \<noteq> Some device then mark_oneway_error else do {
     memory \<leftarrow> take_object Memories mem_id;
     update_tables (\<lambda>t. t\<lparr>memory_metadata := AList.delete mem_id (memory_metadata t)\<rparr>);
     call_native srv (NativeDestroy Memories device memory);
     State_Monad.return () }}"

definition handle_FlushMappedMemory :: "Server \<Rightarrow> unit handler" where
  "handle_FlushMappedMemory srv = do {
     device_id \<leftarrow> rd r_handle;
     memory_id \<leftarrow> rd r_handle;
     offset \<leftarrow> rd r_u64;
     sz \<leftarrow> rd r_u64;
     data \<leftarrow> rd (r_bytes (unat kMaxMappedChunk));
     ok \<leftarrow> reader_ok;
     memory \<leftarrow> query_tables (\<lambda>t. validate_transfer t device_id memory_id offset sz);
     case (data, memory) of
       (Some upload, Some m) \<Rightarrow>
         if of_nat (length upload) \<noteq> sz \<or> \<not> ok then reply_status DecodeError else do {
         result \<leftarrow> map_transfer_upload srv m offset sz upload;
         put_u32 (status_code Ok);
         put_i32 result;
         reply }
     | _ \<Rightarrow> reply_status DecodeError }"

definition handle_DownloadMappedMemory :: "Server \<Rightarrow> unit handler" where
  "handle_DownloadMappedMemory srv = do {
     device_id \<leftarrow> rd r_handle;
     memory_id \<leftarrow> rd r_handle;
     offset \<leftarrow> rd r_u64;
     sz \<leftarrow> rd r_u64;
     ok \<leftarrow> reader_ok;
     memory \<leftarrow> query_tables (\<lambda>t. validate_transfer t device_id memory_id offset sz);
     case memory of None \<Rightarrow> reply_status DecodeError | Some m \<Rightarrow>
     if \<not> ok then reply_status DecodeError else do {
     res \<leftarrow> map_transfer_download srv m offset sz;
     put_u32 (status_code Ok);
     put_i32 (fst res);
     put_bytes (snd res);
     reply }}"

subsection \<open>Binding and requirements\<close>

definition bind_memory :: "Server \<Rightarrow> table_kind \<Rightarrow> string \<Rightarrow> unit handler" where
  "bind_memory srv k name = do {
     device_id \<leftarrow> rd r_handle;
     device \<leftarrow> get_object Devices device_id;
     obj_id \<leftarrow> rd r_handle;
     obj \<leftarrow> get_object k obj_id;
     mem_id \<leftarrow> rd r_handle;
     memory \<leftarrow> get_object Memories mem_id;
     offset \<leftarrow> rd r_u64;
     ok \<leftarrow> reader_ok;
     if \<not> ok \<or> device = VK_NULL_HANDLE then reply_status DecodeError else do {
     put_u32 (status_code Ok);
     r \<leftarrow> call_native srv (NativeCall name [VNum device, VNum obj, VNum memory, VNum offset]);
     put_i32 (nr_result r);
     reply }}"

definition handle_BindBufferMemory :: "Server \<Rightarrow> unit handler" where
  "handle_BindBufferMemory srv = bind_memory srv Buffers ''vkBindBufferMemory''"

definition handle_BindImageMemory :: "Server \<Rightarrow> unit handler" where
  "handle_BindImageMemory srv = bind_memory srv Images ''vkBindImageMemory''"

definition write_memory_requirements :: "NativeResult \<Rightarrow> unit handler" where
  "write_memory_requirements r = do { put_u64 (nr_value r 0); put_u64 (nr_value r 1); put_u32 (ucast (nr_value r 2)) }"

definition memory_requirements :: "Server \<Rightarrow> table_kind \<Rightarrow> string \<Rightarrow> unit handler" where
  "memory_requirements srv k name = do {
     device_id \<leftarrow> rd r_handle;
     device \<leftarrow> get_object Devices device_id;
     obj_id \<leftarrow> rd r_handle;
     obj \<leftarrow> get_object k obj_id;
     ok \<leftarrow> reader_ok;
     if \<not> ok \<or> device = VK_NULL_HANDLE then reply_status DecodeError else do {
     r \<leftarrow> call_native srv (NativeCall name [VNum device, VNum obj]);
     put_u32 (status_code Ok);
     write_memory_requirements r;
     reply }}"

definition handle_GetBufferMemoryRequirements :: "Server \<Rightarrow> unit handler" where
  "handle_GetBufferMemoryRequirements srv = memory_requirements srv Buffers ''vkGetBufferMemoryRequirements''"

definition handle_GetImageMemoryRequirements :: "Server \<Rightarrow> unit handler" where
  "handle_GetImageMemoryRequirements srv = memory_requirements srv Images ''vkGetImageMemoryRequirements''"

definition handle_GetDeviceMemoryCommitment :: "Server \<Rightarrow> unit handler" where
  "handle_GetDeviceMemoryCommitment srv = do {
     device_id \<leftarrow> rd r_handle;
     device \<leftarrow> get_object Devices device_id;
     mem_id \<leftarrow> rd r_handle;
     memory \<leftarrow> get_object Memories mem_id;
     ok \<leftarrow> reader_ok;
     if \<not> ok \<or> device = VK_NULL_HANDLE \<or> memory = VK_NULL_HANDLE then reply_status DecodeError else do {
     r \<leftarrow> call_native srv (NativeCall ''vkGetDeviceMemoryCommitment'' [VNum device, VNum memory]);
     put_u32 (status_code Ok);
     put_u64 (nr_value r 0);
     reply }}"

text \<open>
  A driver fills an array of sparse requirements; entry \<open>i\<close> is nine consecutive outputs, six
  32-bit words and three 64-bit ones.
\<close>

definition put_sparse_requirements :: "NativeResult \<Rightarrow> nat \<Rightarrow> unit handler" where
  "put_sparse_requirements r i = do {
     put_u32 (ucast (nr_value r (9 * i + 1)));
     put_u32 (ucast (nr_value r (9 * i + 2)));
     put_u32 (ucast (nr_value r (9 * i + 3)));
     put_u32 (ucast (nr_value r (9 * i + 4)));
     put_u32 (ucast (nr_value r (9 * i + 5)));
     put_u32 (ucast (nr_value r (9 * i + 6)));
     put_u64 (nr_value r (9 * i + 7));
     put_u64 (nr_value r (9 * i + 8));
     put_u64 (nr_value r (9 * i + 9)) }"

fun put_all :: "('a \<Rightarrow> unit handler) \<Rightarrow> 'a list \<Rightarrow> unit handler" where
  "put_all f [] = State_Monad.return ()"
| "put_all f (x # xs) = do { f x; put_all f xs }"

definition sparse_requirements_tail :: "Server \<Rightarrow> u64 \<Rightarrow> u64 \<Rightarrow> string \<Rightarrow> (u32 \<Rightarrow> u32 \<Rightarrow> u32) \<Rightarrow> unit handler" where
  "sparse_requirements_tail srv device image_h name written = do {
     q \<leftarrow> call_native srv (NativeCall name [VNum device, VNum image_h]);
     let count = (ucast (nr_value q 0) :: u32);
     if count > kMaxArrayElements then reply_status DecodeError else do {
     r \<leftarrow> (if count \<noteq> 0 then call_native srv (NativeCall name [VNum device, VNum image_h, VNum (ucast count)]) else State_Monad.return q);
     let count2 = ((if count \<noteq> 0 then ucast (nr_value r 0) else count) :: u32);
     put_u32 (status_code Ok);
     put_u32 count2;
     put_all (put_sparse_requirements r) [0..<unat (written count count2)];
     reply }}"

definition handle_GetImageSparseMemoryRequirements :: "Server \<Rightarrow> unit handler" where
  "handle_GetImageSparseMemoryRequirements srv = do {
     device_id \<leftarrow> rd r_handle;
     device \<leftarrow> get_object Devices device_id;
     image_id \<leftarrow> rd r_handle;
     image_h \<leftarrow> get_object Images image_id;
     ok \<leftarrow> reader_ok;
     if \<not> ok \<or> device = VK_NULL_HANDLE \<or> image_h = VK_NULL_HANDLE then reply_status DecodeError
     else sparse_requirements_tail srv device image_h ''vkGetImageSparseMemoryRequirements'' (\<lambda>first second. second) }"

definition handle_GetImageSparseMemoryRequirements2 :: "Server \<Rightarrow> unit handler" where
  "handle_GetImageSparseMemoryRequirements2 srv = do {
     device_id \<leftarrow> rd r_handle;
     device \<leftarrow> get_object Devices device_id;
     image_id \<leftarrow> rd r_handle;
     image_h \<leftarrow> get_object Images image_id;
     ok \<leftarrow> reader_ok;
     if \<not> ok \<or> device = VK_NULL_HANDLE \<or> image_h = VK_NULL_HANDLE then reply_status DecodeError
     else if \<not> proc_addr srv device ''vkGetImageSparseMemoryRequirements2'' then reply_status UnsupportedCommand
     else sparse_requirements_tail srv device image_h ''vkGetImageSparseMemoryRequirements2'' (\<lambda>first second. first) }"

definition handle_BindBufferMemory2 :: "Server \<Rightarrow> unit handler" where
  "handle_BindBufferMemory2 srv = do {
     device_id \<leftarrow> rd r_handle;
     d \<leftarrow> get_object Devices device_id;
     n \<leftarrow> rd r_u32;
     fits \<leftarrow> reader_count_fits n 24;
     if n > kMaxArrayElements \<or> \<not> fits then reply_status DecodeError else do {
     infos \<leftarrow> rd_with (\<lambda>t. r_list (\<lambda>r. let (b, r1) = r_handle r; (m, r2) = r_handle r1; (off, r3) = r_u64 r2
         in (VList [VNum (resolve t Buffers b), VNum (resolve t Memories m), VNum off], r3)) (unat n));
     ok \<leftarrow> reader_ok;
     if \<not> ok \<or> d = VK_NULL_HANDLE then reply_status DecodeError
     else if \<not> proc_addr srv d ''vkBindBufferMemory2'' then reply_status UnsupportedCommand else do {
     put_u32 (status_code Ok);
     r \<leftarrow> call_native srv (NativeCall ''vkBindBufferMemory2'' [VNum d, VList infos]);
     put_i32 (nr_result r);
     reply }}}"

text \<open>
  The element loop of the image variant goes on reading ids after a chain failed to decode, but reads
  no further chain (\<open>ok = ok && read_pnext_chain(...)\<close>); a null device is such a failure from
  the start.
\<close>

fun read_bind_images :: "Server \<Rightarrow> ObjectTables \<Rightarrow> bool \<Rightarrow> nat \<Rightarrow> Reader \<Rightarrow> (bool \<times> vk list) \<times> Reader" where
  "read_bind_images srv t ok 0 r = ((ok, []), r)"
| "read_bind_images srv t ok (Suc n) r =
     (let (i, r1) = r_handle r; (m, r2) = r_handle r1; (off, r3) = r_u64 r2;
          (chain, r4) = (if ok then read_struct srv ''read_pnext_chain/BindImageMemory2'' t r3 else (None, r3));
          ((ok', vs), r5) = read_bind_images srv t (ok \<and> chain \<noteq> None) n r4
      in ((ok', VList [VNum (resolve t Images i), VNum (resolve t Memories m), VNum off,
             (case chain of None \<Rightarrow> VList [] | Some v \<Rightarrow> v)] # vs), r5))"

definition handle_BindImageMemory2 :: "Server \<Rightarrow> unit handler" where
  "handle_BindImageMemory2 srv = do {
     device_id \<leftarrow> rd r_handle;
     d \<leftarrow> get_object Devices device_id;
     n \<leftarrow> rd r_u32;
     fits \<leftarrow> reader_count_fits n 28;
     if n > kMaxArrayElements \<or> \<not> fits then reply_status DecodeError else do {
     res \<leftarrow> rd_with (\<lambda>t. read_bind_images srv t (d \<noteq> VK_NULL_HANDLE) (unat n));
     ok \<leftarrow> reader_ok;
     if \<not> fst res \<or> \<not> ok then reply_status DecodeError
     else if \<not> proc_addr srv d ''vkBindImageMemory2'' then reply_status UnsupportedCommand else do {
     put_u32 (status_code Ok);
     r \<leftarrow> call_native srv (NativeCall ''vkBindImageMemory2'' [VNum d, VList (snd res)]);
     put_i32 (nr_result r);
     reply }}}"

definition put_raw :: "bytes \<Rightarrow> unit handler" where
  "put_raw b = wr (\<lambda>w. w @ b)"

definition handle_GetBufferMemoryRequirements2 :: "Server \<Rightarrow> unit handler" where
  "handle_GetBufferMemoryRequirements2 srv = do {
     device_id \<leftarrow> rd r_handle;
     d \<leftarrow> get_object Devices device_id;
     buffer_id \<leftarrow> rd r_handle;
     buffer \<leftarrow> get_object Buffers buffer_id;
     chain \<leftarrow> (if d = VK_NULL_HANDLE then State_Monad.return None else rd_struct srv ''read_pnext_output_topology/MemoryRequirements2'');
     case chain of None \<Rightarrow> reply_status DecodeError | Some topology \<Rightarrow>
     if \<not> proc_addr srv d ''vkGetBufferMemoryRequirements2'' then reply_status UnsupportedCommand else do {
     r \<leftarrow> call_native srv (NativeCall ''vkGetBufferMemoryRequirements2'' [VNum d, VNum buffer, topology]);
     put_u32 (status_code Ok);
     write_memory_requirements r;
     put_raw (write_struct srv ''write_pnext_output_values/MemoryRequirements2'' topology r);
     reply }}"

definition handle_GetImageMemoryRequirements2 :: "Server \<Rightarrow> unit handler" where
  "handle_GetImageMemoryRequirements2 srv = do {
     device_id \<leftarrow> rd r_handle;
     d \<leftarrow> get_object Devices device_id;
     image_id \<leftarrow> rd r_handle;
     image_h \<leftarrow> get_object Images image_id;
     chain \<leftarrow> (if d = VK_NULL_HANDLE then State_Monad.return None else rd_struct srv ''read_pnext_chain/MemoryRequirements2'');
     case chain of None \<Rightarrow> reply_status DecodeError | Some input \<Rightarrow> do {
     out \<leftarrow> rd_struct srv ''read_pnext_output_topology/MemoryRequirements2'';
     case out of None \<Rightarrow> reply_status DecodeError | Some topology \<Rightarrow>
     if \<not> proc_addr srv d ''vkGetImageMemoryRequirements2'' then reply_status UnsupportedCommand else do {
     r \<leftarrow> call_native srv (NativeCall ''vkGetImageMemoryRequirements2'' [VNum d, VNum image_h, input, topology]);
     put_u32 (status_code Ok);
     write_memory_requirements r;
     put_raw (write_struct srv ''write_pnext_output_values/MemoryRequirements2'' topology r);
     reply }}}"

definition handle_GetBufferDeviceAddress :: "Server \<Rightarrow> unit handler" where
  "handle_GetBufferDeviceAddress srv = do {
     device_id \<leftarrow> rd r_handle;
     d \<leftarrow> get_object Devices device_id;
     buffer_id \<leftarrow> rd r_handle;
     b \<leftarrow> get_object Buffers buffer_id;
     ok \<leftarrow> reader_ok;
     left \<leftarrow> reader_remaining;
     if \<not> ok \<or> left \<noteq> 0 \<or> d = VK_NULL_HANDLE \<or> b = VK_NULL_HANDLE then reply_status DecodeError
     else if \<not> (proc_addr srv d ''vkGetBufferDeviceAddress'' \<or> proc_addr srv d ''vkGetBufferDeviceAddressKHR'')
     then reply_status UnsupportedCommand else do {
     put_u32 (status_code Ok);
     r \<leftarrow> call_native srv (NativeCall (if proc_addr srv d ''vkGetBufferDeviceAddress'' then ''vkGetBufferDeviceAddress''
       else ''vkGetBufferDeviceAddressKHR'') [VNum d, VNum b]);
     put_u64 (nr_value r 0);
     reply }}"

definition opaque_capture_address :: "table_kind \<Rightarrow> unit handler" where
  "opaque_capture_address k = do {
     device_id \<leftarrow> rd r_handle;
     d \<leftarrow> get_object Devices device_id;
     obj_id \<leftarrow> rd r_handle;
     obj \<leftarrow> get_object k obj_id;
     ok \<leftarrow> reader_ok;
     if \<not> ok \<or> d = VK_NULL_HANDLE \<or> obj = VK_NULL_HANDLE then reply_status DecodeError else do {
     put_u32 (status_code Ok);
     put_u64 0;
     reply }}"

definition handle_GetBufferOpaqueCaptureAddress :: "unit handler" where
  "handle_GetBufferOpaqueCaptureAddress = opaque_capture_address Buffers"

definition handle_GetDeviceMemoryOpaqueCaptureAddress :: "unit handler" where
  "handle_GetDeviceMemoryOpaqueCaptureAddress = opaque_capture_address Memories"

end
