(* ===== verification/ClientMemory.thy ===== *)
theory ClientMemory
  imports Connection HandlersMemory
begin

section \<open>Mapped memory on the client (client/remote_objects.cpp, client/memory.cpp)\<close>

text \<open>
  An application's pointer into device memory is a pointer into a shadow buffer on the client. Its
  bytes move in bounded messages: on explicit flush and invalidate, and, for memory the server
  offers as host coherent, by comparing the shadow with a baseline of what both sides last agreed
  on. A round trip of the connection is the argument \<open>rt\<close>, which takes an opcode and a request
  and gives the reply's bytes, or \<open>None\<close> where \<open>round_trip\<close> returns false; \<open>'w\<close> is
  the state at the other end of the link.
\<close>

type_synonym 'w round_trip = "u32 \<Rightarrow> bytes \<Rightarrow> 'w \<Rightarrow> bytes option \<times> 'w"

subsection \<open>State\<close>

record MemoryAllocation =
  ma_size :: u64
  ma_memory_type_index :: u32
  ma_property_flags :: u32
  ma_non_coherent_atom_size :: u64
  ma_emulated_coherent :: bool

text \<open>The shadow buffer is its bytes; the allocation it lives in is freed with the entry.\<close>

record MappedRange =
  mr_memory_id :: u64
  mr_offset :: u64
  mr_size :: u64
  mr_shadow :: bytes
  mr_emulated_coherent :: bool
  mr_transfer_ready :: bool
  mr_baseline :: bytes

record RemoteDevice =
  remote_id :: u64
  mapped :: "MappedRange list"
  memories :: "(u64 \<times> MemoryAllocation) list"
  map_alignment :: u64
  instance_capabilities :: u32
  buffer_bindings :: "(u64 \<times> u64 \<times> u64) list"
  image_bindings :: "(u64 \<times> u64 \<times> u64) list"

text \<open>\<open>VkMappedMemoryRange\<close>: the memory, the offset in it and the size.\<close>

type_synonym memory_range = "u64 \<times> u64 \<times> u64"

definition client_kMaxMappedChunk :: u64 where
  "client_kMaxMappedChunk = 64 * 1024 * 1024 - 64"

definition kOpFlushMappedMemory :: u32 where "kOpFlushMappedMemory = 2"
definition kOpDownloadMappedMemory :: u32 where "kOpDownloadMappedMemory = 3"

subsection \<open>Ranges and chunks\<close>

definition resolve_range :: "MappedRange list \<Rightarrow> memory_range \<Rightarrow> (nat \<times> u64 \<times> u64) option" where
  "resolve_range ms req = (case req of (memory, req_offset, req_size) \<Rightarrow>
     case find (\<lambda>i. mr_memory_id (ms ! i) = memory) [0..<length ms] of
       None \<Rightarrow> None
     | Some i \<Rightarrow>
         let candidate = ms ! i in
         if req_offset < mr_offset candidate then None
         else let loc = req_offset - mr_offset candidate in
         if loc > mr_size candidate then None
         else let available = mr_size candidate - loc;
                  resolved = (if req_size = VK_WHOLE_SIZE then available else req_size)
         in if resolved > available then None else Some (i, req_offset, resolved))"

text \<open>
  The size of the next message: as much as fits, cut down to whole atoms unless it is the last one.
  \<open>atom\<close> is what the allocation table says, if the allocation is in it.
\<close>

definition next_chunk :: "u64 option \<Rightarrow> u64 \<Rightarrow> u64 option" where
  "next_chunk atom left =
     (let chunk = min client_kMaxMappedChunk left in
      if chunk < left then
        (case atom of None \<Rightarrow> None
         | Some a \<Rightarrow> let c = chunk - chunk mod a in if c = 0 then None else Some c)
      else Some chunk)"

lemma next_chunk_bounds:
  assumes "next_chunk atom left = Some c" "0 < left"
  shows "0 < c" "c \<le> left" "c \<le> client_kMaxMappedChunk"
proof -
  have k: "0 < client_kMaxMappedChunk" by (simp add: client_kMaxMappedChunk_def)
  have sub: "(x :: u64) - x mod a \<le> x" for x a
    by (simp add: word_le_nat_alt unat_sub unat_mod)
  have "0 < c \<and> c \<le> left \<and> c \<le> client_kMaxMappedChunk"
    using assms k sub [of "min client_kMaxMappedChunk left"]
    by (auto simp: next_chunk_def Let_def word_gt_0 min_def split: if_splits option.splits intro: order_trans)
  then show "0 < c" "c \<le> left" "c \<le> client_kMaxMappedChunk" by simp_all
qed

subsection \<open>Requests and replies\<close>

definition transfer_request :: "u64 \<Rightarrow> u64 \<Rightarrow> u64 \<Rightarrow> u64 \<Rightarrow> bytes" where
  "transfer_request dev mid offset sz = w_u64 (w_u64 (w_handle (w_handle [] dev) mid) offset) sz"

definition flush_request :: "u64 \<Rightarrow> u64 \<Rightarrow> u64 \<Rightarrow> bytes \<Rightarrow> bytes" where
  "flush_request dev mid offset data = w_bytes (transfer_request dev mid offset (of_nat (length data))) data"

text \<open>Status, then the driver's result; \<open>None\<close> for a reply that is not one.\<close>

definition read_result :: "bytes \<Rightarrow> (u32 \<times> Reader) option" where
  "read_result reply_bytes =
     (let (status, r1) = r_u32 (Reader_init reply_bytes); (result, r2) = r_i32 r1
      in if status \<noteq> status_code Ok \<or> \<not> r_ok r2 then None else Some (result, r2))"

text \<open>
  One message of a flush and one of a download. The first component is \<open>VK_SUCCESS\<close> or what the
  caller returns.
\<close>

definition flush_once :: "'w round_trip \<Rightarrow> u64 \<Rightarrow> u64 \<Rightarrow> u64 \<Rightarrow> bytes \<Rightarrow> 'w \<Rightarrow> u32 \<times> 'w" where
  "flush_once rt dev mid offset data w =
     (case rt kOpFlushMappedMemory (flush_request dev mid offset data) w of
        (None, w1) \<Rightarrow> (VK_ERROR_DEVICE_LOST, w1)
      | (Some rep, w1) \<Rightarrow> (case read_result rep of None \<Rightarrow> (VK_ERROR_DEVICE_LOST, w1) | Some (result, _) \<Rightarrow> (result, w1)))"

definition download_once :: "'w round_trip \<Rightarrow> u64 \<Rightarrow> u64 \<Rightarrow> u64 \<Rightarrow> u64 \<Rightarrow> 'w \<Rightarrow> (u32 \<times> bytes) \<times> 'w" where
  "download_once rt dev mid offset chunk w =
     (case rt kOpDownloadMappedMemory (transfer_request dev mid offset chunk) w of
        (None, w1) \<Rightarrow> ((VK_ERROR_DEVICE_LOST, []), w1)
      | (Some rep, w1) \<Rightarrow>
          (case read_result rep of
             None \<Rightarrow> ((VK_ERROR_DEVICE_LOST, []), w1)
           | Some (result, r) \<Rightarrow>
               if result \<noteq> VK_SUCCESS then ((result, []), w1)
               else case r_bytes (unat chunk) r of
                 (Some bs, r1) \<Rightarrow> if length bs \<noteq> unat chunk \<or> \<not> r_ok r1 then ((VK_ERROR_DEVICE_LOST, []), w1)
                                 else ((VK_SUCCESS, bs), w1)
               | (None, _) \<Rightarrow> ((VK_ERROR_DEVICE_LOST, []), w1)))"

text \<open>\<open>memcpy\<close> into a buffer at an offset.\<close>

definition blit :: "bytes \<Rightarrow> nat \<Rightarrow> bytes \<Rightarrow> bytes" where
  "blit dst at src = take at dst @ src @ drop (at + length src) dst"

definition sub_bytes :: "nat \<Rightarrow> nat \<Rightarrow> bytes \<Rightarrow> bytes" where
  "sub_bytes at n bs = take n (drop at bs)"

subsection \<open>Flush and download of named ranges\<close>

text \<open>
  The chunk loop of one range: \<open>offset\<close> is the range's offset in the allocation, \<open>loc\<close>
  its offset in the shadow, \<open>done\<close> how much has been moved.
\<close>

function flush_range :: "'w round_trip \<Rightarrow> u64 \<Rightarrow> u64 \<Rightarrow> u64 option \<Rightarrow> bytes \<Rightarrow> u64 \<Rightarrow> u64 \<Rightarrow> u64 \<Rightarrow> u64 \<Rightarrow> 'w \<Rightarrow> u32 \<times> 'w" where
  "flush_range rt dev mid atom shadow offset loc sz moved w =
     (if moved < sz then
        (case next_chunk atom (sz - moved) of
           None \<Rightarrow> (VK_ERROR_DEVICE_LOST, w)
         | Some chunk \<Rightarrow>
             (case flush_once rt dev mid (offset + moved) (sub_bytes (unat (loc + moved)) (unat chunk) shadow) w of
                (result, w1) \<Rightarrow>
                  if result \<noteq> VK_SUCCESS then (result, w1)
                  else flush_range rt dev mid atom shadow offset loc sz (moved + chunk) w1))
      else (VK_SUCCESS, w))"
  by pat_completeness auto

lemma chunk_progress:
  assumes "moved < (sz :: u64)" "next_chunk atom (sz - moved) = Some chunk"
  shows "unat (moved + chunk) = unat moved + unat chunk" "moved + chunk \<le> sz" "unat (sz - (moved + chunk)) < unat (sz - moved)"
proof -
  have pos: "0 < sz - moved" using assms(1) by (simp add: word_gt_0)
  note b = next_chunk_bounds [OF assms(2) pos]
  have left: "unat (sz - moved) = unat sz - unat moved" using assms(1) by (simp add: unat_sub order_less_imp_le)
  have le: "unat chunk \<le> unat sz - unat moved" using b(2) left by (simp add: word_le_nat_alt)
  have lt: "unat moved < unat sz" using assms(1) by (simp add: word_less_nat_alt)
  then show add: "unat (moved + chunk) = unat moved + unat chunk"
    using le unat_less_64 [of sz] by (simp add: unat_word_ariths)
  then show done_le: "moved + chunk \<le> sz" using le lt by (simp add: word_le_nat_alt)
  have "0 < unat chunk" using b(1) by (simp add: word_gt_0 unat_gt_0)
  moreover have "unat (sz - (moved + chunk)) = unat sz - (unat moved + unat chunk)"
    using done_le add by (simp add: unat_sub)
  ultimately show "unat (sz - (moved + chunk)) < unat (sz - moved)" using left le lt by simp
qed

termination flush_range
  by (relation "measure (\<lambda>(rt, dev, mid, atom, shadow, offset, loc, sz, moved, w). unat (sz - moved))")
    (auto dest: chunk_progress)

declare flush_range.simps [simp del]

text \<open>A download writes the shadow and, where there is one, the baseline.\<close>

function download_range :: "'w round_trip \<Rightarrow> u64 \<Rightarrow> u64 option \<Rightarrow> MappedRange \<Rightarrow> u64 \<Rightarrow> u64 \<Rightarrow> u64 \<Rightarrow> u64 \<Rightarrow> 'w \<Rightarrow> (u32 \<times> MappedRange) \<times> 'w" where
  "download_range rt dev atom m offset loc sz moved w =
     (if moved < sz then
        (case next_chunk atom (sz - moved) of
           None \<Rightarrow> ((VK_ERROR_DEVICE_LOST, m), w)
         | Some chunk \<Rightarrow>
             (case download_once rt dev (mr_memory_id m) (offset + moved) chunk w of
                ((result, bs), w1) \<Rightarrow>
                  if result \<noteq> VK_SUCCESS then ((result, m), w1)
                  else let m1 = m\<lparr>mr_shadow := blit (mr_shadow m) (unat (loc + moved)) bs\<rparr>;
                           m2 = (if mr_emulated_coherent m1 \<and> length (mr_baseline m1) = unat (mr_size m1)
                                 then m1\<lparr>mr_baseline := blit (mr_baseline m1) (unat (loc + moved)) bs\<rparr> else m1)
                       in download_range rt dev atom m2 offset loc sz (moved + chunk) w1))
      else ((VK_SUCCESS, m), w))"
  by pat_completeness auto
termination download_range
  by (relation "measure (\<lambda>(rt, dev, atom, m, offset, loc, sz, moved, w). unat (sz - moved))")
    (auto dest: chunk_progress)

declare download_range.simps [simp del]

definition atom_of :: "RemoteDevice \<Rightarrow> u64 \<Rightarrow> u64 option" where
  "atom_of d mid = map_option ma_non_coherent_atom_size (map_of (memories d) mid)"

fun flush_mapped :: "'w round_trip \<Rightarrow> RemoteDevice \<Rightarrow> memory_range list \<Rightarrow> 'w \<Rightarrow> u32 \<times> 'w" where
  "flush_mapped rt d [] w = (VK_SUCCESS, w)"
| "flush_mapped rt d (req # reqs) w =
     (case resolve_range (mapped d) req of
        None \<Rightarrow> (VK_ERROR_DEVICE_LOST, w)
      | Some (i, offset, sz) \<Rightarrow>
          let m = mapped d ! i in
          (case flush_range rt (remote_id d) (mr_memory_id m) (atom_of d (mr_memory_id m)) (mr_shadow m)
                  offset (offset - mr_offset m) sz 0 w of
             (result, w1) \<Rightarrow> if result \<noteq> VK_SUCCESS then (result, w1) else flush_mapped rt d reqs w1))"

fun download_mapped :: "'w round_trip \<Rightarrow> RemoteDevice \<Rightarrow> memory_range list \<Rightarrow> 'w \<Rightarrow> (u32 \<times> RemoteDevice) \<times> 'w" where
  "download_mapped rt d [] w = ((VK_SUCCESS, d), w)"
| "download_mapped rt d (req # reqs) w =
     (case resolve_range (mapped d) req of
        None \<Rightarrow> ((VK_ERROR_DEVICE_LOST, d), w)
      | Some (i, offset, sz) \<Rightarrow>
          let m = mapped d ! i in
          (case download_range rt (remote_id d) (atom_of d (mr_memory_id m)) m offset (offset - mr_offset m) sz 0 w of
             ((result, m'), w1) \<Rightarrow>
               let d1 = d\<lparr>mapped := (mapped d)[i := m']\<rparr> in
               if result \<noteq> VK_SUCCESS then ((result, d1), w1) else download_mapped rt d1 reqs w1))"

end
