(* ===== verification/ClientCoherent.thy ===== *)
theory ClientCoherent
  imports ClientMemory
begin

section \<open>Emulated coherent memory (client/remote_objects.cpp, client/memory.cpp)\<close>

text \<open>
  Memory that the server offers as host coherent is kept coherent by hand: before work is submitted
  \<open>publish_coherent_mapped\<close> sends the bytes of every shadow that differ from its baseline, in
  runs that swallow gaps shorter than 4096 equal bytes; after work has completed
  \<open>acquire_coherent_mapped\<close> fetches the device's bytes and merges them, a byte the host has
  written since the last exchange staying as the host wrote it. The entry points that create, map,
  unmap and free memory keep the tables these work on.
\<close>

subsection \<open>Scanning\<close>

text \<open>\<open>while (i < n && P(i)) ++i;\<close>\<close>

function scan :: "(nat \<Rightarrow> bool) \<Rightarrow> nat \<Rightarrow> nat \<Rightarrow> nat" where
  "scan P n i = (if i < n \<and> P i then scan P n (Suc i) else i)"
  by pat_completeness auto
termination scan by (relation "measure (\<lambda>(P, n, i). n - i)") auto

declare scan.simps [simp del]

lemma scan_spec:
  "i \<le> scan P n i \<and> (\<forall>j. i \<le> j \<and> j < scan P n i \<longrightarrow> P j) \<and> (scan P n i < n \<longrightarrow> \<not> P (scan P n i)) \<and> scan P n i \<le> max i n"
proof (induction P n i rule: scan.induct)
  case (1 P n i)
  show ?case
  proof (cases "i < n \<and> P i")
    case True
    with 1 have "Suc i \<le> scan P n (Suc i) \<and> (\<forall>j. Suc i \<le> j \<and> j < scan P n (Suc i) \<longrightarrow> P j)
      \<and> (scan P n (Suc i) < n \<longrightarrow> \<not> P (scan P n (Suc i))) \<and> scan P n (Suc i) \<le> max (Suc i) n" by blast
    moreover have "j = i \<or> Suc i \<le> j" if "i \<le> j" for j using that by linarith
    ultimately show ?thesis using True by (subst (1 2 3 4 5) scan.simps) (auto simp: le_max_iff_disj)
  qed (subst (1 2 3 4 5) scan.simps, auto)
qed

lemmas scan_ge = scan_spec [THEN conjunct1]
lemmas scan_all = scan_spec [THEN conjunct2, THEN conjunct1, rule_format, OF conjI]
lemmas scan_stop = scan_spec [THEN conjunct2, THEN conjunct2, THEN conjunct1, rule_format]
lemmas scan_le = scan_spec [THEN conjunct2, THEN conjunct2, THEN conjunct2]

definition kGapLimit :: nat where
  "kGapLimit = 4096"

definition same_at :: "bytes \<Rightarrow> bytes \<Rightarrow> nat \<Rightarrow> bool" where
  "same_at shadow baseline i \<longleftrightarrow> shadow ! i = baseline ! i"

definition gap_end :: "bytes \<Rightarrow> bytes \<Rightarrow> nat \<Rightarrow> nat \<Rightarrow> nat" where
  "gap_end shadow baseline n gap_begin = scan (\<lambda>j. same_at shadow baseline j \<and> j - gap_begin < kGapLimit) n gap_begin"

definition diff_end :: "bytes \<Rightarrow> bytes \<Rightarrow> nat \<Rightarrow> nat \<Rightarrow> nat" where
  "diff_end shadow baseline n i = scan (\<lambda>j. \<not> same_at shadow baseline j) n i"

text \<open>The end of the run that starts with the byte before \<open>e\<close>.\<close>

function run_end :: "bytes \<Rightarrow> bytes \<Rightarrow> nat \<Rightarrow> nat \<Rightarrow> nat" where
  "run_end shadow baseline n e =
     (if e < n then
        let g = gap_end shadow baseline n e in
        if g = n \<or> g - e = kGapLimit then e else run_end shadow baseline n (diff_end shadow baseline n g)
      else e)"
  by pat_completeness auto

lemma gap_end_bounds: "e < n \<Longrightarrow> e \<le> gap_end shadow baseline n e \<and> gap_end shadow baseline n e \<le> n"
  using scan_ge scan_le [of "\<lambda>j. same_at shadow baseline j \<and> j - e < kGapLimit" n e] unfolding gap_end_def by simp

lemma gap_end_length: "gap_end shadow baseline n e - e \<le> kGapLimit"
proof (rule ccontr)
  let ?g = "gap_end shadow baseline n e"
  assume "\<not> ?g - e \<le> kGapLimit"
  then have "e \<le> ?g - 1" "?g - 1 < ?g" "?g - 1 - e \<ge> kGapLimit" by (simp_all add: kGapLimit_def)
  then show False using scan_all [of e "?g - 1" "\<lambda>j. same_at shadow baseline j \<and> j - e < kGapLimit" n]
    unfolding gap_end_def by simp
qed

lemma gap_end_differs:
  assumes "e < n" "gap_end shadow baseline n e \<noteq> n" "gap_end shadow baseline n e - e \<noteq> kGapLimit"
  shows "\<not> same_at shadow baseline (gap_end shadow baseline n e)"
proof -
  let ?g = "gap_end shadow baseline n e"
  have "?g < n" "?g - e < kGapLimit"
    using gap_end_bounds [OF assms(1), of shadow baseline] gap_end_length [of shadow baseline n e] assms(2,3) by linarith+
  then show ?thesis using scan_stop [of "\<lambda>j. same_at shadow baseline j \<and> j - e < kGapLimit" n e]
    unfolding gap_end_def by blast
qed

lemma diff_end_bounds:
  assumes "g < n" "\<not> same_at shadow baseline g"
  shows "g < diff_end shadow baseline n g \<and> diff_end shadow baseline n g \<le> n"
proof -
  have "diff_end shadow baseline n g = scan (\<lambda>j. \<not> same_at shadow baseline j) n (Suc g)"
    unfolding diff_end_def using assms by (subst scan.simps) simp
  then show ?thesis using scan_ge [of "Suc g"] scan_le [of "\<lambda>j. \<not> same_at shadow baseline j" n "Suc g"] assms(1)
    by (metis Suc_leI Suc_le_eq max_absorb2)
qed

lemma run_end_step:
  assumes "e < n" "\<not> (gap_end shadow baseline n e = n \<or> gap_end shadow baseline n e - e = kGapLimit)"
  shows "e < diff_end shadow baseline n (gap_end shadow baseline n e)
    \<and> diff_end shadow baseline n (gap_end shadow baseline n e) \<le> n"
proof -
  have "e \<le> gap_end shadow baseline n e" "gap_end shadow baseline n e < n"
    using gap_end_bounds [OF assms(1), of shadow baseline] assms(2) by linarith+
  moreover have "\<not> same_at shadow baseline (gap_end shadow baseline n e)"
    using gap_end_differs [OF assms(1)] assms(2) by blast
  ultimately show ?thesis using diff_end_bounds [of "gap_end shadow baseline n e" n shadow baseline] by linarith
qed

termination run_end
proof (relation "measure (\<lambda>(shadow, baseline, n, e). n - e)")
  fix shadow baseline n e g
  assume "e < n" "g = gap_end shadow baseline n e" "\<not> (g = n \<or> g - e = kGapLimit)"
  with run_end_step [of e n shadow baseline]
  show "((shadow, baseline, n, diff_end shadow baseline n g), shadow, baseline, n, e) \<in> measure (\<lambda>(shadow, baseline, n, e). n - e)"
    by (auto intro: diff_less_mono2)
qed simp

declare run_end.simps [simp del]

lemma run_end_bounds: "e \<le> n \<Longrightarrow> e \<le> run_end shadow baseline n e \<and> run_end shadow baseline n e \<le> n"
proof (induction shadow baseline n e rule: run_end.induct)
  case (1 shadow baseline n e)
  show ?case
  proof (cases "e < n \<and> \<not> (gap_end shadow baseline n e = n \<or> gap_end shadow baseline n e - e = kGapLimit)")
    case True
    let ?e = "diff_end shadow baseline n (gap_end shadow baseline n e)"
    have b: "e < ?e" "?e \<le> n" using run_end_step True by blast+
    have "run_end shadow baseline n e = run_end shadow baseline n ?e" using True by (subst run_end.simps) simp
    moreover have "?e \<le> run_end shadow baseline n ?e \<and> run_end shadow baseline n ?e \<le> n"
      using 1 True b by blast
    ultimately show ?thesis using b by simp
  next
    case False
    then have "run_end shadow baseline n e = e" by (subst run_end.simps) auto
    then show ?thesis using 1 by simp
  qed
qed

subsection \<open>Publish\<close>

definition coherent_chunk :: "nat \<Rightarrow> nat" where
  "coherent_chunk left = min (unat client_kMaxMappedChunk) left"

lemma coherent_chunk_bounds: "0 < left \<Longrightarrow> 0 < coherent_chunk left \<and> coherent_chunk left \<le> left \<and> coherent_chunk left \<le> 67108800"
  by (simp add: coherent_chunk_def client_kMaxMappedChunk_def)

text \<open>The messages of one run; the baseline follows the shadow as far as they got.\<close>

function send_run :: "'w round_trip \<Rightarrow> u64 \<Rightarrow> MappedRange \<Rightarrow> nat \<Rightarrow> nat \<Rightarrow> 'w \<Rightarrow> (bool \<times> MappedRange) \<times> 'w" where
  "send_run rt dev m fin moved w =
     (if moved < fin then
        let chunk = coherent_chunk (fin - moved);
            data = sub_bytes moved chunk (mr_shadow m)
        in (case flush_once rt dev (mr_memory_id m) (mr_offset m + of_nat moved) data w of
              (result, w1) \<Rightarrow>
                if result \<noteq> VK_SUCCESS then ((False, m), w1)
                else send_run rt dev (m\<lparr>mr_baseline := blit (mr_baseline m) moved data\<rparr>) fin (moved + chunk) w1)
      else ((True, m), w))"
  by pat_completeness auto
termination send_run
  by (relation "measure (\<lambda>(rt, dev, m, fin, moved, w). fin - moved)") (auto simp: coherent_chunk_def client_kMaxMappedChunk_def)

declare send_run.simps [simp del]

lemma send_run_fields:
  "send_run rt dev m fin moved w = ((ok, m'), w') \<Longrightarrow> mr_shadow m' = mr_shadow m \<and> mr_memory_id m' = mr_memory_id m
     \<and> mr_offset m' = mr_offset m \<and> mr_size m' = mr_size m"
proof (induction rt dev m fin moved w arbitrary: ok m' w' rule: send_run.induct)
  case (1 rt dev m fin moved w)
  show ?case
  proof (cases "moved < fin")
    case True
    obtain result w1 where f: "flush_once rt dev (mr_memory_id m) (mr_offset m + of_nat moved)
      (sub_bytes moved (coherent_chunk (fin - moved)) (mr_shadow m)) w = (result, w1)" by fastforce
    show ?thesis
    proof (cases "result = VK_SUCCESS")
      case success: True
      let ?m = "m\<lparr>mr_baseline := blit (mr_baseline m) moved (sub_bytes moved (coherent_chunk (fin - moved)) (mr_shadow m))\<rparr>"
      have "send_run rt dev ?m fin (moved + coherent_chunk (fin - moved)) w1 = ((ok, m'), w')"
        using 1(2) True f success by (subst (asm) send_run.simps) (simp add: Let_def)
      from 1(1) [OF True refl refl f [symmetric] _ this] success show ?thesis by simp
    qed (use 1(2) True f in \<open>subst (asm) send_run.simps, auto simp: Let_def\<close>)
  qed (use 1(2) in \<open>subst (asm) send_run.simps, auto\<close>)
qed

function publish_mapping :: "'w round_trip \<Rightarrow> u64 \<Rightarrow> MappedRange \<Rightarrow> nat \<Rightarrow> 'w \<Rightarrow> (bool \<times> MappedRange) \<times> 'w" where
  "publish_mapping rt dev m start w =
     (if start < unat (mr_size m) then
        let first = scan (same_at (mr_shadow m) (mr_baseline m)) (unat (mr_size m)) start in
        if first = unat (mr_size m) then ((True, m), w)
        else let fin = run_end (mr_shadow m) (mr_baseline m) (unat (mr_size m)) (Suc first) in
          (case send_run rt dev m fin first w of
             ((ok, m1), w1) \<Rightarrow> if \<not> ok then ((False, m1), w1) else publish_mapping rt dev m1 fin w1)
      else ((True, m), w))"
  by pat_completeness auto

lemma publish_progress:
  assumes "start < n" "scan P n start \<noteq> n"
  shows "start \<le> scan P n start" "scan P n start < run_end shadow baseline n (Suc (scan P n start))"
    "run_end shadow baseline n (Suc (scan P n start)) \<le> n"
proof -
  have "scan P n start < n" using scan_le [of P n start] assms by (simp add: max_def split: if_splits)
  then show "start \<le> scan P n start" "scan P n start < run_end shadow baseline n (Suc (scan P n start))"
    "run_end shadow baseline n (Suc (scan P n start)) \<le> n"
    using scan_ge [of start P n] run_end_bounds [of "Suc (scan P n start)" n shadow baseline] by linarith+
qed

termination publish_mapping
proof (relation "measure (\<lambda>(rt, dev, m, start, w). unat (mr_size m) - start)")
  fix rt :: "'w round_trip" and dev m start w first fin p w1 ok m1
  assume less: "start < unat (mr_size m)" "first = scan (same_at (mr_shadow m) (mr_baseline m)) (unat (mr_size m)) start"
    "first \<noteq> unat (mr_size m)" "fin = run_end (mr_shadow m) (mr_baseline m) (unat (mr_size m)) (Suc first)"
    and sent: "(p, w1) = send_run rt dev m fin first w" "(ok, m1) = p"
  have "mr_size m1 = mr_size m" using send_run_fields [of rt dev m fin first w ok m1 w1] sent by simp
  with less publish_progress(1) [of start "unat (mr_size m)" "same_at (mr_shadow m) (mr_baseline m)"]
    publish_progress(2) [of start "unat (mr_size m)" "same_at (mr_shadow m) (mr_baseline m)" "mr_shadow m" "mr_baseline m"]
  show "((rt, dev, m1, fin, w1), rt, dev, m, start, w) \<in> measure (\<lambda>(rt, dev, m, start, w). unat (mr_size m) - start)"
    by simp
qed simp

declare publish_mapping.simps [simp del]

text \<open>The loop over the mappings, in table order, stopping at the first failure.\<close>

fun publish_coherent_mapped :: "'w round_trip \<Rightarrow> u64 \<Rightarrow> MappedRange list \<Rightarrow> 'w \<Rightarrow> (bool \<times> MappedRange list) \<times> 'w" where
  "publish_coherent_mapped rt dev [] w = ((True, []), w)"
| "publish_coherent_mapped rt dev (m # ms) w =
     (if \<not> mr_emulated_coherent m \<or> \<not> mr_transfer_ready m
      then (case publish_coherent_mapped rt dev ms w of ((ok, ms'), w') \<Rightarrow> ((ok, m # ms'), w'))
      else case publish_mapping rt dev m 0 w of
        ((False, m1), w1) \<Rightarrow> ((False, m1 # ms), w1)
      | ((True, m1), w1) \<Rightarrow> (case publish_coherent_mapped rt dev ms w1 of ((ok, ms'), w') \<Rightarrow> ((ok, m1 # ms'), w')))"

subsection \<open>Acquire\<close>

definition merge_byte :: "byte \<Rightarrow> byte \<Rightarrow> byte \<Rightarrow> byte" where
  "merge_byte shadow baseline incoming = (if shadow = baseline then incoming else shadow)"

definition merge_chunk :: "MappedRange \<Rightarrow> nat \<Rightarrow> bytes \<Rightarrow> MappedRange" where
  "merge_chunk m base bs =
     m\<lparr>mr_shadow := blit (mr_shadow m) base
         (map (\<lambda>i. merge_byte (mr_shadow m ! (base + i)) (mr_baseline m ! (base + i)) (bs ! i)) [0..<length bs]),
       mr_baseline := blit (mr_baseline m) base bs\<rparr>"

function acquire_mapping :: "'w round_trip \<Rightarrow> u64 \<Rightarrow> MappedRange \<Rightarrow> nat \<Rightarrow> 'w \<Rightarrow> (bool \<times> MappedRange) \<times> 'w" where
  "acquire_mapping rt dev m moved w =
     (if moved < unat (mr_size m) then
        let chunk = coherent_chunk (unat (mr_size m) - moved) in
        (case download_once rt dev (mr_memory_id m) (mr_offset m + of_nat moved) (of_nat chunk) w of
           ((result, bs), w1) \<Rightarrow>
             if result \<noteq> VK_SUCCESS then ((False, m), w1)
             else acquire_mapping rt dev (merge_chunk m moved bs) (moved + chunk) w1)
      else ((True, m), w))"
  by pat_completeness auto
termination acquire_mapping
  by (relation "measure (\<lambda>(rt, dev, m, moved, w). unat (mr_size m) - moved)")
    (auto simp: merge_chunk_def coherent_chunk_def client_kMaxMappedChunk_def)

declare acquire_mapping.simps [simp del]

fun acquire_coherent_mapped ::
  "'w round_trip \<Rightarrow> u64 \<Rightarrow> u64 list option \<Rightarrow> MappedRange list \<Rightarrow> 'w \<Rightarrow> (bool \<times> MappedRange list) \<times> 'w" where
  "acquire_coherent_mapped rt dev memory_ids [] w = ((True, []), w)"
| "acquire_coherent_mapped rt dev memory_ids (m # ms) w =
     (if \<not> mr_emulated_coherent m \<or> \<not> mr_transfer_ready m \<or> (case memory_ids of None \<Rightarrow> False | Some is \<Rightarrow> mr_memory_id m \<notin> set is)
      then (case acquire_coherent_mapped rt dev memory_ids ms w of ((ok, ms'), w') \<Rightarrow> ((ok, m # ms'), w'))
      else case acquire_mapping rt dev m 0 w of
        ((False, m1), w1) \<Rightarrow> ((False, m1 # ms), w1)
      | ((True, m1), w1) \<Rightarrow> (case acquire_coherent_mapped rt dev memory_ids ms w1 of ((ok, ms'), w') \<Rightarrow> ((ok, m1 # ms'), w')))"

end
