(* ===== verification/MemoryLink.thy ===== *)
theory MemoryLink
  imports ClientCoherent
begin

section \<open>Mapped memory over a link that works\<close>

text \<open>
  What the client relies on at the other end of the connection, as the locale \<open>memory_link\<close>:
  a flush request of at most one chunk inside the allocation stores its bytes, a download request
  returns them, and both say so in their reply. Inside it, the chunked loops of the client move
  exactly the bytes of their range. The server's handlers provide the laws (\<open>MemoryEndToEnd\<close>).
\<close>

subsection \<open>Stores\<close>

definition write_at :: "(nat \<Rightarrow> byte) \<Rightarrow> nat \<Rightarrow> bytes \<Rightarrow> nat \<Rightarrow> byte" where
  "write_at f a bs = (\<lambda>i. if a \<le> i \<and> i < a + length bs then bs ! (i - a) else f i)"

lemma write_at_Nil [simp]: "write_at f a [] = f"
  by (auto simp: write_at_def fun_eq_iff)

lemma write_at_append: "write_at (write_at f a xs) (a + length xs) ys = write_at f a (xs @ ys)"
  by (auto simp: write_at_def fun_eq_iff nth_append)

definition bytes_at :: "(nat \<Rightarrow> byte) \<Rightarrow> nat \<Rightarrow> nat \<Rightarrow> bytes" where
  "bytes_at f a n = map f [a..<a + n]"

lemma length_bytes_at [simp]: "length (bytes_at f a n) = n"
  by (simp add: bytes_at_def)

lemma bytes_at_append: "bytes_at f a k @ bytes_at f (a + k) n = bytes_at f a (k + n)"
  unfolding bytes_at_def map_append [symmetric] add.assoc [symmetric] by (simp add: upt_add_eq_append [symmetric])

lemma length_sub_bytes: "a + n \<le> length bs \<Longrightarrow> length (sub_bytes a n bs) = n"
  by (simp add: sub_bytes_def)

lemma sub_bytes_split: "sub_bytes a k bs @ sub_bytes (a + k) n bs = sub_bytes a (k + n) bs"
  by (simp add: sub_bytes_def take_add add.commute)

lemma sub_bytes_nth: "a + n \<le> length bs \<Longrightarrow> i < n \<Longrightarrow> sub_bytes a n bs ! i = bs ! (a + i)"
  by (simp add: sub_bytes_def)

lemma length_blit: "at + length src \<le> length dst \<Longrightarrow> length (blit dst at src) = length dst"
  by (simp add: blit_def)

lemma blit_Nil [simp]: "blit dst at [] = dst"
  by (simp add: blit_def)

lemma blit_append: "at \<le> length dst \<Longrightarrow> blit (blit dst at xs) (at + length xs) ys = blit dst at (xs @ ys)"
  by (simp add: blit_def min_def ac_simps)

lemma nth_blit: "at + length src \<le> length dst \<Longrightarrow> i < length dst \<Longrightarrow>
   blit dst at src ! i = (if at \<le> i \<and> i < at + length src then src ! (i - at) else dst ! i)"
  by (auto simp: blit_def nth_append min_def)

subsection \<open>The link\<close>

locale memory_link =
  fixes rt :: "'w round_trip" and good :: "'w \<Rightarrow> bool" and contents :: "'w \<Rightarrow> nat \<Rightarrow> byte"
    and dev mid :: u64 and msize :: nat
  assumes flush_law: "good w \<Longrightarrow> data \<noteq> [] \<Longrightarrow> length data \<le> unat client_kMaxMappedChunk \<Longrightarrow> unat offset + length data \<le> msize \<Longrightarrow>
      \<exists>w'. rt kOpFlushMappedMemory (flush_request dev mid offset data) w =
             (Some (le_bytes 4 (status_code Ok) @ le_bytes 4 VK_SUCCESS), w')
        \<and> good w' \<and> contents w' = write_at (contents w) (unat offset) data"
    and download_law: "good w \<Longrightarrow> 0 < chunk \<Longrightarrow> chunk \<le> client_kMaxMappedChunk \<Longrightarrow> unat offset + unat chunk \<le> msize \<Longrightarrow>
      \<exists>w'. rt kOpDownloadMappedMemory (transfer_request dev mid offset chunk) w =
             (Some (le_bytes 4 (status_code Ok) @ le_bytes 4 VK_SUCCESS @ blob (bytes_at (contents w) (unat offset) (unat chunk))), w')
        \<and> good w' \<and> contents w' = contents w"
    and msize_word: "msize < 2 ^ 64"

lemma read_result_ok:
  "read_result (le_bytes 4 (status_code Ok) @ le_bytes 4 VK_SUCCESS @ rest) =
     Some (VK_SUCCESS, Reader_at (le_bytes 4 (status_code Ok) @ le_bytes 4 VK_SUCCESS) rest)"
  by (simp add: read_result_def reader_simps)

text \<open>Chunking works when a chunk can hold at least one atom, or when one message is enough.\<close>

definition atom_ok :: "u64 option \<Rightarrow> u64 \<Rightarrow> bool" where
  "atom_ok atom sz \<longleftrightarrow> sz \<le> client_kMaxMappedChunk \<or> (\<exists>a. atom = Some a \<and> 0 < a \<and> a \<le> client_kMaxMappedChunk)"

lemma next_chunk_some:
  assumes "atom_ok atom sz" "left \<le> sz"
  obtains c where "next_chunk atom left = Some c"
proof (cases "left \<le> client_kMaxMappedChunk")
  case True
  then have "next_chunk atom left = Some left" by (simp add: next_chunk_def min_def)
  then show thesis by (rule that)
next
  case False
  let ?k = "client_kMaxMappedChunk"
  from assms False obtain a where a: "atom = Some a" "0 < a" "a \<le> ?k" by (auto simp: atom_ok_def)
  have "?k mod a < a" using a(2) by (simp add: word_mod_less_divisor)
  with a(3) have "?k - ?k mod a \<noteq> 0" by auto
  with False a(1) have "next_chunk atom left = Some (?k - ?k mod a)" by (auto simp: next_chunk_def min_def Let_def not_le)
  then show thesis by (rule that)
qed

subsection \<open>What a transfer leaves in a mapping\<close>

text \<open>What a download leaves in the mapping.\<close>

definition received :: "MappedRange \<Rightarrow> nat \<Rightarrow> bytes \<Rightarrow> MappedRange" where
  "received m at bs = m\<lparr>mr_shadow := blit (mr_shadow m) at bs,
     mr_baseline := (if mr_emulated_coherent m \<and> length (mr_baseline m) = unat (mr_size m) then blit (mr_baseline m) at bs else mr_baseline m)\<rparr>"

lemma received_Nil: "received m at [] = m"
  by (simp add: received_def)

lemma received_append:
  assumes "at + length xs \<le> unat (mr_size m)" "length (mr_shadow m) = unat (mr_size m)"
  shows "received (received m at xs) (at + length xs) ys = received m at (xs @ ys)"
  using assms by (auto simp: received_def blit_append length_blit)

text \<open>The merge of an acquire, from a position on.\<close>

definition merged :: "MappedRange \<Rightarrow> nat \<Rightarrow> (nat \<Rightarrow> byte) \<Rightarrow> MappedRange" where
  "merged m moved f =
     m\<lparr>mr_shadow := map (\<lambda>i. if i < moved then mr_shadow m ! i
            else merge_byte (mr_shadow m ! i) (mr_baseline m ! i) (f (unat (mr_offset m) + i))) [0..<unat (mr_size m)],
       mr_baseline := take moved (mr_baseline m) @ bytes_at f (unat (mr_offset m) + moved) (unat (mr_size m) - moved)\<rparr>"

lemma merged_all: "length (mr_shadow m) = unat (mr_size m) \<Longrightarrow> length (mr_baseline m) = unat (mr_size m) \<Longrightarrow>
   merged m (unat (mr_size m)) f = m"
  by (cases m) (auto simp: merged_def bytes_at_def intro!: nth_equalityI)

lemma merge_chunk_merged:
  assumes "moved + c \<le> unat (mr_size m)" "length (mr_shadow m) = unat (mr_size m)" "length (mr_baseline m) = unat (mr_size m)"
  shows "merged (merge_chunk m moved (bytes_at f (unat (mr_offset m) + moved) c)) (moved + c) f = merged m moved f"
proof -
  let ?bs = "bytes_at f (unat (mr_offset m) + moved) c"
  let ?n = "unat (mr_size m)" and ?m = "merge_chunk m moved ?bs"
  have bs: "?bs ! i = f (unat (mr_offset m) + moved + i)" if "i < c" for i using that by (simp add: bytes_at_def)
  have f: "mr_offset ?m = mr_offset m" "mr_size ?m = mr_size m" by (simp_all add: merge_chunk_def)
  have sh: "mr_shadow ?m ! i = (if moved \<le> i \<and> i < moved + c
      then merge_byte (mr_shadow m ! i) (mr_baseline m ! i) (f (unat (mr_offset m) + i)) else mr_shadow m ! i)" if "i < ?n" for i
    using that assms nth_blit [of moved "map (\<lambda>i. merge_byte (mr_shadow m ! (moved + i)) (mr_baseline m ! (moved + i)) (?bs ! i)) [0..<length ?bs]" "mr_shadow m" i]
      bs [of "i - moved"] by (auto simp: merge_chunk_def)
  have bl: "mr_baseline ?m ! i = (if moved \<le> i \<and> i < moved + c then f (unat (mr_offset m) + i) else mr_baseline m ! i)"
    "length (mr_baseline ?m) = ?n" if "i < ?n" for i
    using that assms nth_blit [of moved ?bs "mr_baseline m" i] bs [of "i - moved"] by (auto simp: merge_chunk_def length_blit)
  have "mr_shadow (merged ?m (moved + c) f) = mr_shadow (merged m moved f)"
    using sh bl f by (auto simp: merged_def)
  moreover have "take (moved + c) (mr_baseline ?m) @ bytes_at f (unat (mr_offset m) + (moved + c)) (?n - (moved + c)) =
      take moved (mr_baseline m) @ bytes_at f (unat (mr_offset m) + moved) (?n - moved)"
  proof -
    have "take (moved + c) (mr_baseline ?m) = take moved (mr_baseline m) @ ?bs"
      using assms by (simp add: merge_chunk_def blit_def)
    moreover have "?bs @ bytes_at f (unat (mr_offset m) + (moved + c)) (?n - (moved + c)) = bytes_at f (unat (mr_offset m) + moved) (?n - moved)"
      using bytes_at_append [of f "unat (mr_offset m) + moved" c "?n - (moved + c)"] assms(1) by (simp add: add.assoc)
    ultimately show ?thesis by simp
  qed
  ultimately show ?thesis using f by (simp add: merged_def merge_chunk_def)
qed

subsection \<open>The client over a link\<close>

context memory_link
begin

lemma flush_once_ok:
  assumes "good w" "data \<noteq> []" "length data \<le> unat client_kMaxMappedChunk" "unat offset + length data \<le> msize"
  obtains w' where "flush_once rt dev mid offset data w = (VK_SUCCESS, w')" "good w'"
    "contents w' = write_at (contents w) (unat offset) data"
  using flush_law [OF assms] read_result_ok [of "[]"] that by (auto simp: flush_once_def)

lemma download_once_ok:
  assumes "good w" "0 < chunk" "chunk \<le> client_kMaxMappedChunk" "unat offset + unat chunk \<le> msize"
  obtains w' where "download_once rt dev mid offset chunk w = ((VK_SUCCESS, bytes_at (contents w) (unat offset) (unat chunk)), w')"
    "good w'" "contents w' = contents w"
proof -
  let ?bs = "bytes_at (contents w) (unat offset) (unat chunk)"
  obtain w' where w': "rt kOpDownloadMappedMemory (transfer_request dev mid offset chunk) w =
      (Some (le_bytes 4 (status_code Ok) @ le_bytes 4 VK_SUCCESS @ blob ?bs), w')" "good w'" "contents w' = contents w"
    using download_law [OF assms] by blast
  have small: "length ?bs < 2 ^ 32"
    using assms(3) by (simp add: word_le_nat_alt client_kMaxMappedChunk_def)
  have "r_bytes (unat chunk) (Reader_at pre (blob ?bs)) = (Some ?bs, Reader_at (pre @ blob ?bs) [])" for pre
    using small by (simp add: reader_at_bytes)
  with w' that show thesis by (simp add: download_once_def read_result_ok reader_simps)
qed

lemma flush_range_ok:
  assumes "good w" "moved \<le> sz" "atom_ok atom sz" and range: "unat offset + unat sz \<le> msize"
    and fits: "unat loc + unat sz \<le> length shadow" "length shadow < 2 ^ 64"
  shows "\<exists>w'. flush_range rt dev mid atom shadow offset loc sz moved w = (VK_SUCCESS, w') \<and> good w'
    \<and> contents w' = write_at (contents w) (unat offset + unat moved) (sub_bytes (unat loc + unat moved) (unat sz - unat moved) shadow)"
  using assms(1,2)
proof (induction "unat (sz - moved)" arbitrary: moved w rule: less_induct)
  case less
  show ?case
  proof (cases "moved < sz")
    case False
    with less.prems(2) have "moved = sz" by simp
    with less.prems(1) show ?thesis by (subst flush_range.simps) (simp add: sub_bytes_def)
  next
    case True
    obtain c where c: "next_chunk atom (sz - moved) = Some c"
      using next_chunk_some [OF assms(3), of "sz - moved"] True by (meson order_less_imp_le word_sub_le)
    note prog = chunk_progress [OF True c]
    have pos: "0 < sz - moved" using True by (simp add: word_gt_0)
    note b = next_chunk_bounds [OF c pos]
    have lt: "unat moved < unat sz" using True by (simp add: word_less_nat_alt)
    have le: "unat moved + unat c \<le> unat sz" using prog(1,2) by (simp add: word_le_nat_alt)
    have addr: "unat (loc + moved) = unat loc + unat moved" using fits lt by (simp add: unat_word_ariths)
    have off: "unat (offset + moved) = unat offset + unat moved" using range msize_word lt by (simp add: unat_word_ariths)
    let ?data = "sub_bytes (unat (loc + moved)) (unat c) shadow"
    have len: "length ?data = unat c" using fits(1) le by (intro length_sub_bytes) (simp add: addr)
    have "unat c \<noteq> 0" using b(1) by (simp add: word_gt_0 unat_eq_0)
    then have ne: "?data \<noteq> []" using len by (metis list.size(3))
    have "length ?data \<le> unat client_kMaxMappedChunk" using b(3) len by (simp add: word_le_nat_alt)
    moreover have "unat (offset + moved) + length ?data \<le> msize" using len le range off by simp
    ultimately obtain w1 where w1: "flush_once rt dev mid (offset + moved) ?data w = (VK_SUCCESS, w1)" "good w1"
        "contents w1 = write_at (contents w) (unat (offset + moved)) ?data"
      using flush_once_ok [OF less.prems(1) ne] by blast
    obtain w2 where w2: "flush_range rt dev mid atom shadow offset loc sz (moved + c) w1 = (VK_SUCCESS, w2)" "good w2"
        "contents w2 = write_at (contents w1) (unat offset + unat (moved + c))
           (sub_bytes (unat loc + unat (moved + c)) (unat sz - unat (moved + c)) shadow)"
      using less.hyps [OF prog(3) w1(2) prog(2)] by blast
    have "sub_bytes (unat loc + unat moved) (unat sz - unat moved) shadow =
        ?data @ sub_bytes (unat loc + unat (moved + c)) (unat sz - unat (moved + c)) shadow"
      using sub_bytes_split [of "unat loc + unat moved" "unat c" shadow "unat sz - unat moved - unat c"] le prog(1) addr
      by (simp add: add.assoc)
    then have "contents w2 = write_at (contents w) (unat offset + unat moved)
        (sub_bytes (unat loc + unat moved) (unat sz - unat moved) shadow)"
      using w2(3) w1(3) write_at_append [of "contents w" "unat offset + unat moved" ?data] len prog(1) off
      by (simp add: add.assoc)
    with w1 w2 True c show ?thesis by (subst flush_range.simps) simp
  qed
qed

lemma download_range_ok:
  assumes "good w" "moved \<le> sz" "atom_ok atom sz" and range: "unat offset + unat sz \<le> msize"
    and "unat loc + unat sz \<le> unat (mr_size m)" "length (mr_shadow m) = unat (mr_size m)" "mr_memory_id m = mid"
  shows "\<exists>w'. download_range rt dev atom m offset loc sz moved w =
      ((VK_SUCCESS, received m (unat loc + unat moved) (bytes_at (contents w) (unat offset + unat moved) (unat sz - unat moved))), w')
    \<and> good w' \<and> contents w' = contents w"
  using assms(1,2,5-)
proof (induction "unat (sz - moved)" arbitrary: moved w m rule: less_induct)
  case less
  show ?case
  proof (cases "moved < sz")
    case False
    with less.prems(2) have "moved = sz" by simp
    with less.prems(1) show ?thesis by (subst download_range.simps) (simp add: bytes_at_def received_Nil)
  next
    case True
    obtain c where c: "next_chunk atom (sz - moved) = Some c"
      using next_chunk_some [OF assms(3), of "sz - moved"] True by (meson order_less_imp_le word_sub_le)
    note prog = chunk_progress [OF True c]
    have pos: "0 < sz - moved" using True by (simp add: word_gt_0)
    note b = next_chunk_bounds [OF c pos]
    have lt: "unat moved < unat sz" using True by (simp add: word_less_nat_alt)
    have le: "unat moved + unat c \<le> unat sz" using prog(1,2) by (simp add: word_le_nat_alt)
    have addr: "unat (loc + moved) = unat loc + unat moved"
      using less.prems(3) lt unat_less_64 [of "mr_size m"] by (simp add: unat_word_ariths)
    have off: "unat (offset + moved) = unat offset + unat moved" using range msize_word lt by (simp add: unat_word_ariths)
    let ?bs = "bytes_at (contents w) (unat (offset + moved)) (unat c)"
    have "unat (offset + moved) + unat c \<le> msize" using le range off by simp
    then obtain w1 where w1: "download_once rt dev mid (offset + moved) c w = ((VK_SUCCESS, ?bs), w1)" "good w1"
        "contents w1 = contents w"
      using download_once_ok [OF less.prems(1) b(1) b(3)] by blast
    let ?m = "received m (unat loc + unat moved) ?bs"
    have m: "mr_size ?m = mr_size m" "mr_memory_id ?m = mid" "length (mr_shadow ?m) = unat (mr_size ?m)"
      using less.prems(3-5) le by (simp_all add: received_def length_blit)
    obtain w2 where w2: "download_range rt dev atom ?m offset loc sz (moved + c) w1 =
        ((VK_SUCCESS, received ?m (unat loc + unat (moved + c))
            (bytes_at (contents w1) (unat offset + unat (moved + c)) (unat sz - unat (moved + c)))), w2)"
        "good w2" "contents w2 = contents w1"
      using less.hyps [OF prog(3) w1(2) prog(2), of ?m] m less.prems(3) by auto
    have "bytes_at (contents w) (unat offset + unat moved) (unat sz - unat moved) =
        ?bs @ bytes_at (contents w) (unat offset + unat (moved + c)) (unat sz - unat (moved + c))"
      using bytes_at_append [of "contents w" "unat offset + unat moved" "unat c" "unat sz - unat (moved + c)"] le prog(1) off
      by (simp add: add.assoc)
    then have r: "received ?m (unat loc + unat (moved + c)) (bytes_at (contents w) (unat offset + unat (moved + c)) (unat sz - unat (moved + c))) =
        received m (unat loc + unat moved) (bytes_at (contents w) (unat offset + unat moved) (unat sz - unat moved))"
      using received_append [of "unat loc + unat moved" ?bs m] less.prems(3,4) le prog(1) by (simp add: add.assoc)
    have "download_range rt dev atom m offset loc sz moved w = download_range rt dev atom ?m offset loc sz (moved + c) w1"
      using True c w1(1) less.prems(5) addr by (subst download_range.simps) (auto simp: received_def Let_def)
    with w2 w1 r show ?thesis by simp
  qed
qed

lemma send_run_ok:
  assumes "good w" "moved \<le> fin" "fin \<le> unat (mr_size m)" "length (mr_shadow m) = unat (mr_size m)" "mr_memory_id m = mid"
    "length (mr_baseline m) = unat (mr_size m)" "unat (mr_offset m) + unat (mr_size m) \<le> msize"
  shows "\<exists>w'. send_run rt dev m fin moved w =
      ((True, m\<lparr>mr_baseline := blit (mr_baseline m) moved (sub_bytes moved (fin - moved) (mr_shadow m))\<rparr>), w')
    \<and> good w' \<and> contents w' = write_at (contents w) (unat (mr_offset m) + moved) (sub_bytes moved (fin - moved) (mr_shadow m))"
  using assms
proof (induction "fin - moved" arbitrary: moved w m rule: less_induct)
  case less
  show ?case
  proof (cases "moved < fin")
    case False
    with less.prems(1,2) show ?thesis by (subst send_run.simps) (simp add: sub_bytes_def)
  next
    case True
    let ?c = "coherent_chunk (fin - moved)" and ?sh = "mr_shadow m"
    have c: "0 < ?c" "?c \<le> fin - moved" "?c \<le> unat client_kMaxMappedChunk"
      using coherent_chunk_bounds [of "fin - moved"] True by (simp_all add: coherent_chunk_def)
    have m64: "moved < 2 ^ 64" using True less.prems(3) unat_less_64 [of "mr_size m"] by linarith
    have off: "unat (mr_offset m + of_nat moved) = unat (mr_offset m) + moved"
      using less.prems(3,7) True msize_word m64 by (simp add: unat_word_ariths unat_of_nat_small)
    let ?d = "sub_bytes moved ?c ?sh"
    have len: "length ?d = ?c" using c(2) less.prems(2-4) True by (intro length_sub_bytes) simp
    have "?d \<noteq> []" using c(1) len by (metis list.size(3) less_numeral_extra(3))
    moreover have "unat (mr_offset m + of_nat moved) + length ?d \<le> msize" using len off c(2) less.prems(3,7) True by simp
    ultimately obtain w1 where w1: "flush_once rt dev mid (mr_offset m + of_nat moved) ?d w = (VK_SUCCESS, w1)" "good w1"
        "contents w1 = write_at (contents w) (unat (mr_offset m + of_nat moved)) ?d"
      using flush_once_ok [OF less.prems(1)] len c(3) by (metis (no_types))
    let ?m = "m\<lparr>mr_baseline := blit (mr_baseline m) moved ?d\<rparr>"
    have "length (mr_baseline ?m) = unat (mr_size ?m)" using less.prems(3,6) len c(2) True by (simp add: length_blit)
    moreover have "fin - (moved + ?c) < fin - moved" "moved + ?c \<le> fin" using c True by linarith+
    ultimately obtain w2 where w2: "send_run rt dev ?m fin (moved + ?c) w1 =
        ((True, ?m\<lparr>mr_baseline := blit (mr_baseline ?m) (moved + ?c) (sub_bytes (moved + ?c) (fin - (moved + ?c)) ?sh)\<rparr>), w2)"
        "good w2" "contents w2 = write_at (contents w1) (unat (mr_offset m) + (moved + ?c)) (sub_bytes (moved + ?c) (fin - (moved + ?c)) ?sh)"
      using less.hyps [of "moved + ?c" w1 ?m] less.prems w1(2) by auto
    have split: "sub_bytes moved (fin - moved) ?sh = ?d @ sub_bytes (moved + ?c) (fin - (moved + ?c)) ?sh"
    proof -
      have "?c + (fin - (moved + ?c)) = fin - moved" using c(2) True by linarith
      then show ?thesis using sub_bytes_split [of moved ?c ?sh "fin - (moved + ?c)"] by simp
    qed
    have "blit (mr_baseline ?m) (moved + ?c) (sub_bytes (moved + ?c) (fin - (moved + ?c)) ?sh) =
        blit (mr_baseline m) moved (sub_bytes moved (fin - moved) ?sh)"
      using split blit_append [of moved "mr_baseline m" ?d] len less.prems(3,6) True by simp
    moreover have "contents w2 = write_at (contents w) (unat (mr_offset m) + moved) (sub_bytes moved (fin - moved) ?sh)"
      using w2(3) w1(3) split off len write_at_append [of "contents w" "unat (mr_offset m) + moved" ?d] by (simp add: add.assoc)
    moreover have "send_run rt dev m fin moved w = send_run rt dev ?m fin (moved + ?c) w1"
      using True w1(1) less.prems(5) by (subst send_run.simps) (simp add: Let_def)
    ultimately show ?thesis using w2 by simp
  qed
qed

lemma publish_mapping_ok:
  assumes "good w" "start \<le> unat (mr_size m)" "length (mr_shadow m) = unat (mr_size m)" "mr_memory_id m = mid"
    "length (mr_baseline m) = unat (mr_size m)" "unat (mr_offset m) + unat (mr_size m) \<le> msize"
  shows "\<exists>w'. publish_mapping rt dev m start w = ((True, m\<lparr>mr_baseline := take start (mr_baseline m) @ drop start (mr_shadow m)\<rparr>), w')
    \<and> good w'
    \<and> (\<forall>j. contents w' j = contents w j \<or> (unat (mr_offset m) + start \<le> j \<and> j < unat (mr_offset m) + unat (mr_size m)
         \<and> contents w' j = mr_shadow m ! (j - unat (mr_offset m))))
    \<and> (\<forall>i. start \<le> i \<longrightarrow> i < unat (mr_size m) \<longrightarrow> mr_shadow m ! i \<noteq> mr_baseline m ! i \<longrightarrow>
         contents w' (unat (mr_offset m) + i) = mr_shadow m ! i)"
  using assms
proof (induction "unat (mr_size m) - start" arbitrary: start w m rule: less_induct)
  case less
  let ?n = "unat (mr_size m)" and ?sh = "mr_shadow m" and ?bl = "mr_baseline m" and ?off = "unat (mr_offset m)"
  define first where "first = scan (same_at ?sh ?bl) ?n start"
  have skipped: "?sh ! j = ?bl ! j" if "start \<le> j" "j < first" for j
    using scan_all [of start j "same_at ?sh ?bl" ?n] that unfolding first_def by (simp add: same_at_def)
  show ?case
  proof (cases "start < ?n")
    case False
    with less.prems(2) have "start = ?n" by simp
    then have "m\<lparr>mr_baseline := take start ?bl @ drop start ?sh\<rparr> = m" using less.prems(3,5) by (cases m) simp
    moreover have "publish_mapping rt dev m start w = ((True, m), w)" using False by (subst publish_mapping.simps) simp
    ultimately show ?thesis using False less.prems(1) by auto
  next
    case start: True
    show ?thesis
    proof (cases "first = ?n")
      case True
      have "take start ?bl @ drop start ?sh = ?bl"
        by (rule nth_equalityI) (use less.prems(3,5) start skipped True in \<open>auto simp: nth_append\<close>)
      then have "m\<lparr>mr_baseline := take start ?bl @ drop start ?sh\<rparr> = m" by (cases m) simp
      moreover have "publish_mapping rt dev m start w = ((True, m), w)" using start True unfolding first_def by (subst publish_mapping.simps) simp
      ultimately show ?thesis using less.prems(1) skipped True by auto
    next
      case False
      define fin where "fin = run_end ?sh ?bl ?n (Suc first)"
      have p: "start \<le> first" "first < fin" "fin \<le> ?n"
        using publish_progress(1) [OF start] publish_progress(2,3) [OF start, of _ ?sh ?bl] False unfolding fin_def first_def by blast+
      define run where "run = sub_bytes first (fin - first) ?sh"
      have len: "length run = fin - first" using p less.prems(3) unfolding run_def by (intro length_sub_bytes) simp
      have run_nth: "run ! i = ?sh ! (first + i)" if "i < fin - first" for i
        using p less.prems(3) that unfolding run_def by (intro sub_bytes_nth) simp_all
      let ?m = "m\<lparr>mr_baseline := blit ?bl first run\<rparr>"
      obtain w1 where w1: "send_run rt dev m fin first w = ((True, ?m), w1)" "good w1"
          "contents w1 = write_at (contents w) (?off + first) run"
        using send_run_ok [OF less.prems(1) order_less_imp_le [OF p(2)] p(3) less.prems(3-6)] unfolding run_def by blast
      have bl: "blit ?bl first run ! i = (if first \<le> i \<and> i < fin then ?sh ! i else ?bl ! i)" if "i < ?n" for i
        using nth_blit [of first run ?bl i] len p run_nth less.prems(5) that by auto
      have "length (mr_baseline ?m) = ?n" using len p less.prems(5) by (simp add: length_blit)
      moreover have "?n - fin < ?n - start" using p by linarith
      ultimately obtain w2 where w2: "publish_mapping rt dev ?m fin w1 =
          ((True, ?m\<lparr>mr_baseline := take fin (mr_baseline ?m) @ drop fin ?sh\<rparr>), w2)" "good w2"
          "\<forall>j. contents w2 j = contents w1 j \<or> (?off + fin \<le> j \<and> j < ?off + ?n \<and> contents w2 j = ?sh ! (j - ?off))"
          "\<forall>i. fin \<le> i \<longrightarrow> i < ?n \<longrightarrow> ?sh ! i \<noteq> mr_baseline ?m ! i \<longrightarrow> contents w2 (?off + i) = ?sh ! i"
        using less.hyps [of ?m fin w1] less.prems p w1(2) by auto
      have "take fin (mr_baseline ?m) @ drop fin ?sh = take start ?bl @ drop start ?sh"
        by (rule nth_equalityI) (use less.prems(3,5) p bl len skipped in \<open>auto simp: nth_append length_blit min_def not_less\<close>)
      then have m2: "?m\<lparr>mr_baseline := take fin (mr_baseline ?m) @ drop fin ?sh\<rparr> =
          m\<lparr>mr_baseline := take start ?bl @ drop start ?sh\<rparr>" by simp
      have c1: "contents w1 j = (if ?off + first \<le> j \<and> j < ?off + fin then ?sh ! (j - ?off) else contents w j)" for j
        using w1(3) len p run_nth [of "j - (?off + first)"] by (auto simp: write_at_def)
      have "\<forall>j. contents w2 j = contents w j \<or> (?off + start \<le> j \<and> j < ?off + ?n \<and> contents w2 j = ?sh ! (j - ?off))"
        using w2(3) c1 p by (smt (verit, best) add_le_mono1 add_less_cancel_left le_trans less_imp_le_nat nat_add_left_cancel_le order_less_le_trans)
      moreover have "contents w2 (?off + i) = ?sh ! i" if i: "start \<le> i" "i < ?n" "?sh ! i \<noteq> ?bl ! i" for i
      proof -
        have "first \<le> i" using skipped i by (metis not_le)
        then show ?thesis
          using w2(3) [rule_format, of "?off + i"] w2(4) c1 [of "?off + i"] bl [OF i(2)] i by (cases "i < fin") auto
      qed
      moreover have "publish_mapping rt dev m start w = publish_mapping rt dev ?m fin w1"
        using start False w1(1) unfolding first_def fin_def by (subst publish_mapping.simps) (simp add: Let_def)
      ultimately show ?thesis using w2(1,2) m2 by auto
    qed
  qed
qed

lemma acquire_mapping_ok:
  assumes "good w" "moved \<le> unat (mr_size m)" "length (mr_shadow m) = unat (mr_size m)" "mr_memory_id m = mid"
    "length (mr_baseline m) = unat (mr_size m)" "unat (mr_offset m) + unat (mr_size m) \<le> msize"
  shows "\<exists>w'. acquire_mapping rt dev m moved w = ((True, merged m moved (contents w)), w') \<and> good w' \<and> contents w' = contents w"
  using assms
proof (induction "unat (mr_size m) - moved" arbitrary: moved w m rule: less_induct)
  case less
  let ?n = "unat (mr_size m)"
  show ?case
  proof (cases "moved < ?n")
    case False
    with less.prems(2) have "moved = ?n" by simp
    with less.prems show ?thesis by (subst acquire_mapping.simps) (simp add: merged_all)
  next
    case True
    let ?c = "coherent_chunk (?n - moved)"
    have c: "0 < ?c" "moved + ?c \<le> ?n" "?c \<le> 67108800" using coherent_chunk_bounds [of "?n - moved"] True by linarith+
    have c64: "unat (of_nat ?c :: u64) = ?c" using c(3) by (simp add: unat_of_nat_small)
    have m64: "moved < 2 ^ 64" using True unat_less_64 [of "mr_size m"] by linarith
    have off: "unat (mr_offset m + of_nat moved) = unat (mr_offset m) + moved"
      using less.prems(6) True msize_word m64 by (simp add: unat_word_ariths unat_of_nat_small)
    have "(0 :: u64) < of_nat ?c" "(of_nat ?c :: u64) \<le> client_kMaxMappedChunk"
      using c c64 by (simp_all add: word_less_nat_alt word_le_nat_alt client_kMaxMappedChunk_def)
    moreover have "unat (mr_offset m + of_nat moved) + unat (of_nat ?c :: u64) \<le> msize"
      using c c64 off less.prems(6) by simp
    ultimately obtain w1 where w1: "download_once rt dev mid (mr_offset m + of_nat moved) (of_nat ?c) w =
        ((VK_SUCCESS, bytes_at (contents w) (unat (mr_offset m) + moved) ?c), w1)" "good w1" "contents w1 = contents w"
      using download_once_ok [OF less.prems(1)] off c64 by metis
    let ?m = "merge_chunk m moved (bytes_at (contents w) (unat (mr_offset m) + moved) ?c)"
    have m: "mr_size ?m = mr_size m" "mr_offset ?m = mr_offset m" "mr_memory_id ?m = mid"
        "length (mr_shadow ?m) = ?n" "length (mr_baseline ?m) = ?n"
      using less.prems(3-5) c(2) by (simp_all add: merge_chunk_def length_blit)
    have "?n - (moved + ?c) < ?n - moved" using c(1) True by linarith
    then obtain w2 where w2: "acquire_mapping rt dev ?m (moved + ?c) w1 = ((True, merged ?m (moved + ?c) (contents w1)), w2)"
        "good w2" "contents w2 = contents w1"
      using less.hyps [of ?m "moved + ?c" w1] m w1(2) c(2) less.prems(6) by auto
    moreover have "acquire_mapping rt dev m moved w = acquire_mapping rt dev ?m (moved + ?c) w1"
      using True w1(1) less.prems(4) by (subst acquire_mapping.simps) (simp add: Let_def)
    ultimately show ?thesis using w1(3) merge_chunk_merged [OF c(2) less.prems(3,5), of "contents w"] by simp
  qed
qed

end

end
