(* ===== verification/HandlersDescriptor.thy ===== *)
theory HandlersDescriptor
  imports HandlersDevice
begin

section \<open>Pipelines and descriptors (server/handlers_device.cpp)\<close>

text \<open>
  The handlers that create several objects at once (pipelines, descriptor sets), those that keep
  side tables beside the object tables (descriptor sets and their pool, update templates, YCbCr
  conversions), and the update of a set through a template, with its buffer arithmetic at the
  64-bit width of the code.
\<close>

subsection \<open>Descriptor pools and sets\<close>

text \<open>Every set of a pool dies with the pool: its slot is emptied and its owner entry erased.\<close>

definition retire_pool_sets :: "u64 \<Rightarrow> ObjectTables \<Rightarrow> ObjectTables" where
  "retire_pool_sets pool t =
     (let dead = map fst (filter (\<lambda>(i, ow). dso_pool ow = pool) (descriptor_set_owners t)) in
      (set_table DescriptorSets (fold (\<lambda>i tab. snd (tbl_take tab i)) dead (tables t DescriptorSets)) t)
        \<lparr>descriptor_set_owners := filter (\<lambda>(i, ow). dso_pool ow \<noteq> pool) (descriptor_set_owners t)\<rparr>)"

definition handle_DestroyDescriptorPool :: "Server \<Rightarrow> unit handler" where
  "handle_DestroyDescriptorPool srv = do {
     device_id \<leftarrow> rd r_handle;
     device \<leftarrow> get_object Devices device_id;
     pool_id \<leftarrow> rd r_handle;
     pool \<leftarrow> get_object DescriptorPools pool_id;
     ok \<leftarrow> reader_ok;
     left \<leftarrow> reader_remaining;
     if \<not> ok \<or> left \<noteq> 0 \<or> device = VK_NULL_HANDLE \<or> pool = VK_NULL_HANDLE then mark_oneway_error else do {
     take_object DescriptorPools pool_id;
     update_tables (retire_pool_sets pool);
     call_native srv (NativeDestroy DescriptorPools device pool);
     State_Monad.return () }}"

definition free_sets :: "u64 list \<Rightarrow> ObjectTables \<Rightarrow> ObjectTables" where
  "free_sets is t =
     (set_table DescriptorSets (fold (\<lambda>i tab. snd (tbl_take tab i)) is (tables t DescriptorSets)) t)
       \<lparr>descriptor_set_owners := filter (\<lambda>(i, ow). i \<notin> set is) (descriptor_set_owners t)\<rparr>"

definition set_is_from :: "ObjectTables \<Rightarrow> u64 \<Rightarrow> u64 \<Rightarrow> u64 \<Rightarrow> bool" where
  "set_is_from t device pool i \<longleftrightarrow> resolve t DescriptorSets i \<noteq> VK_NULL_HANDLE \<and>
     (case map_of (descriptor_set_owners t) i of None \<Rightarrow> False
      | Some ow \<Rightarrow> dso_device ow = device \<and> dso_pool ow = pool)"

definition handle_FreeDescriptorSets :: "Server \<Rightarrow> unit handler" where
  "handle_FreeDescriptorSets srv = do {
     device_id \<leftarrow> rd r_handle;
     device \<leftarrow> get_object Devices device_id;
     pool_id \<leftarrow> rd r_handle;
     pool \<leftarrow> get_object DescriptorPools pool_id;
     count \<leftarrow> rd r_u32;
     fits \<leftarrow> reader_count_fits count 8;
     if count > kMaxArrayElements \<or> \<not> fits then reply_status DecodeError else do {
     set_ids \<leftarrow> rd (r_list r_handle (unat count));
     sets \<leftarrow> get_objects DescriptorSets set_ids;
     owned \<leftarrow> query_tables (\<lambda>t. list_all (set_is_from t device pool) set_ids);
     ok \<leftarrow> reader_ok;
     left \<leftarrow> reader_remaining;
     if \<not> ok \<or> left \<noteq> 0 \<or> \<not> (device \<noteq> VK_NULL_HANDLE \<and> pool \<noteq> VK_NULL_HANDLE \<and> owned)
     then reply_status DecodeError else do {
     r \<leftarrow> call_native srv (NativeCall ''vkFreeDescriptorSets'' [VNum device, VNum pool, VList (map VNum sets)]);
     (if nr_result r = VK_SUCCESS then update_tables (free_sets set_ids) else State_Monad.return ());
     put_u32 (status_code Ok);
     put_i32 (nr_result r);
     reply }}}"

definition handle_ResetDescriptorPool :: "Server \<Rightarrow> unit handler" where
  "handle_ResetDescriptorPool srv = do {
     device_id \<leftarrow> rd r_handle;
     device \<leftarrow> get_object Devices device_id;
     pool_id \<leftarrow> rd r_handle;
     pool \<leftarrow> get_object DescriptorPools pool_id;
     flags \<leftarrow> rd r_u32;
     ok \<leftarrow> reader_ok;
     left \<leftarrow> reader_remaining;
     if \<not> ok \<or> device = VK_NULL_HANDLE \<or> pool = VK_NULL_HANDLE then reply_status DecodeError
     else if left \<noteq> 0 then reply_status DecodeError else do {
     r \<leftarrow> call_native srv (NativeCall ''vkResetDescriptorPool'' [VNum device, VNum pool, VNum (ucast flags)]);
     (if nr_result r = VK_SUCCESS then update_tables (retire_pool_sets pool) else State_Monad.return ());
     put_u32 (status_code Ok);
     put_i32 (nr_result r);
     reply }}"

text \<open>\<open>descriptorPool\<close> and \<open>descriptorSetCount\<close> of a decoded \<open>VkDescriptorSetAllocateInfo\<close>.\<close>

definition allocate_pool :: "vk \<Rightarrow> u64" where
  "allocate_pool info = vk_member 2 info"

definition allocate_count :: "vk \<Rightarrow> nat" where
  "allocate_count info = unat (ucast (vk_member 3 info) :: u32)"

fun add_descriptor_sets :: "bool \<Rightarrow> u64 \<Rightarrow> u64 \<Rightarrow> u64 list \<Rightarrow> unit handler" where
  "add_descriptor_sets success device pool [] = State_Monad.return ()"
| "add_descriptor_sets success device pool (h # hs) = do {
     set_id \<leftarrow> (if success then do {
         i \<leftarrow> add_object DescriptorSets h device;
         update_tables (\<lambda>t. t\<lparr>descriptor_set_owners :=
           AList.update i \<lparr>dso_device = device, dso_pool = pool\<rparr> (descriptor_set_owners t)\<rparr>);
         State_Monad.return i }
       else State_Monad.return 0);
     put_handle set_id;
     add_descriptor_sets success device pool hs }"

definition handle_AllocateDescriptorSets :: "Server \<Rightarrow> unit handler" where
  "handle_AllocateDescriptorSets srv = do {
     device_id \<leftarrow> rd r_handle;
     device \<leftarrow> get_object Devices device_id;
     ok \<leftarrow> reader_ok;
     if \<not> ok \<or> device = VK_NULL_HANDLE then reply_status DecodeError else do {
     info \<leftarrow> rd_struct srv ''read_DescriptorSetAllocateInfo'';
     case info of None \<Rightarrow> reply_status DecodeError | Some i \<Rightarrow> do {
     r \<leftarrow> call_native srv (NativeCall ''vkAllocateDescriptorSets'' [VNum device, i]);
     put_u32 (status_code Ok);
     put_i32 (nr_result r);
     put_u32 (of_nat (allocate_count i));
     add_descriptor_sets (nr_result r = VK_SUCCESS) device (allocate_pool i)
       (map (nr_handle r) [0..<allocate_count i]);
     reply }}}"

subsection \<open>Pipelines\<close>

fun add_pipelines :: "u64 \<Rightarrow> u64 list \<Rightarrow> unit handler" where
  "add_pipelines device [] = State_Monad.return ()"
| "add_pipelines device (h # hs) = do {
     i \<leftarrow> (if h \<noteq> VK_NULL_HANDLE then add_object Pipelines h device else State_Monad.return 0);
     put_handle i;
     add_pipelines device hs }"

definition handle_CreateGraphicsPipelines :: "Server \<Rightarrow> unit handler" where
  "handle_CreateGraphicsPipelines srv = do {
     device_id \<leftarrow> rd r_handle;
     device \<leftarrow> get_object Devices device_id;
     cache_id \<leftarrow> rd r_handle;
     cache \<leftarrow> get_object PipelineCaches cache_id;
     count \<leftarrow> rd r_u32;
     fits \<leftarrow> reader_count_fits count 4;
     if count > kMaxArrayElements \<or> \<not> fits then reply_status DecodeError else do {
     ok \<leftarrow> reader_ok;
     infos \<leftarrow> (if ok then rd_with (\<lambda>t. read_each (read_struct srv ''read_GraphicsPipelineCreateInfo'' t) (unat count))
               else State_Monad.return None);
     if infos = None \<or> \<not> (device \<noteq> VK_NULL_HANDLE \<and> (cache_id = 0 \<or> cache \<noteq> VK_NULL_HANDLE))
     then reply_status DecodeError else do {
     r \<leftarrow> (if count \<noteq> 0 then call_native srv (NativeCall ''vkCreateGraphicsPipelines'' [VNum device, VNum cache, VList (the infos)])
           else State_Monad.return \<lparr>nr_result = VK_SUCCESS, nr_handles = [], nr_values = [], nr_data = [], nr_out = []\<rparr>);
     put_u32 (status_code Ok);
     put_i32 (nr_result r);
     put_u32 count;
     add_pipelines device (map (nr_handle r) [0..<unat count]);
     reply }}}"

definition handle_CreateComputePipelines :: "Server \<Rightarrow> unit handler" where
  "handle_CreateComputePipelines srv = do {
     device_id \<leftarrow> rd r_handle;
     device \<leftarrow> get_object Devices device_id;
     cache_id \<leftarrow> rd r_handle;
     cache \<leftarrow> get_object PipelineCaches cache_id;
     count \<leftarrow> rd r_u32;
     fits \<leftarrow> reader_count_fits count 4;
     if count > kMaxArrayElements \<or> \<not> fits then reply_status DecodeError else do {
     ok \<leftarrow> reader_ok;
     if \<not> (ok \<and> device \<noteq> VK_NULL_HANDLE \<and> (cache_id = 0 \<or> cache \<noteq> VK_NULL_HANDLE)) then reply_status DecodeError else do {
     infos \<leftarrow> rd_with (\<lambda>t. read_each (read_struct srv ''read_ComputePipelineCreateInfo'' t) (unat count));
     if infos = None then reply_status DecodeError else do {
     r \<leftarrow> (if count \<noteq> 0 then call_native srv (NativeCall ''vkCreateComputePipelines'' [VNum device, VNum cache, VList (the infos)])
           else State_Monad.return \<lparr>nr_result = VK_SUCCESS, nr_handles = [], nr_values = [], nr_data = [], nr_out = []\<rparr>);
     put_u32 (status_code Ok);
     put_i32 (nr_result r);
     put_u32 count;
     add_pipelines device (map (nr_handle r) [0..<unat count]);
     reply }}}}"

subsection \<open>Descriptor updates\<close>

definition handle_UpdateDescriptorSets :: "Server \<Rightarrow> unit handler" where
  "handle_UpdateDescriptorSets srv = do {
     device_id \<leftarrow> rd r_handle;
     device \<leftarrow> get_object Devices device_id;
     write_count \<leftarrow> rd r_u32;
     fits \<leftarrow> reader_count_fits write_count 4;
     if write_count > kMaxArrayElements \<or> \<not> fits then mark_oneway_error else do {
     ok \<leftarrow> reader_ok;
     if \<not> (ok \<and> device \<noteq> VK_NULL_HANDLE) then mark_oneway_error else do {
     writes \<leftarrow> rd_with (\<lambda>t. read_each (read_struct srv ''read_WriteDescriptorSet'' t) (unat write_count));
     if writes = None then mark_oneway_error else do {
     copies \<leftarrow> rd_with (\<lambda>t. read_counted 4 (read_struct srv ''read_CopyDescriptorSet'' t));
     ok \<leftarrow> reader_ok;
     left \<leftarrow> reader_remaining;
     if copies = None \<or> \<not> ok \<or> left \<noteq> 0 then mark_oneway_error else do {
     call_native srv (NativeCall ''vkUpdateDescriptorSets'' [VNum device, VList (the writes), VList (the copies)]);
     State_Monad.return () }}}}}"

definition handle_GetDescriptorSetLayoutSupport :: "Server \<Rightarrow> unit handler" where
  "handle_GetDescriptorSetLayoutSupport srv = do {
     device_id \<leftarrow> rd r_handle;
     d \<leftarrow> get_object Devices device_id;
     if d = VK_NULL_HANDLE then reply_status DecodeError else do {
     info \<leftarrow> rd_struct srv ''read_DescriptorSetLayoutCreateInfo'';
     case info of None \<Rightarrow> reply_status DecodeError | Some i \<Rightarrow>
     if \<not> proc_addr srv d ''vkGetDescriptorSetLayoutSupport'' then reply_status UnsupportedCommand else do {
     r \<leftarrow> call_native srv (NativeCall ''vkGetDescriptorSetLayoutSupport'' [VNum d, i]);
     put_u32 (status_code Ok);
     put_u32 (ucast (nr_value r 0));
     reply }}}"

subsection \<open>YCbCr conversions\<close>

definition handle_CreateSamplerYcbcrConversion :: "Server \<Rightarrow> unit handler" where
  "handle_CreateSamplerYcbcrConversion srv = do {
     device_id \<leftarrow> rd r_handle;
     d \<leftarrow> get_object Devices device_id;
     if d = VK_NULL_HANDLE then reply_status DecodeError else do {
     info \<leftarrow> rd_struct srv ''read_SamplerYcbcrConversionCreateInfo'';
     case info of None \<Rightarrow> reply_status DecodeError | Some i \<Rightarrow>
     if \<not> proc_addr srv d ''vkCreateSamplerYcbcrConversion'' then reply_status UnsupportedCommand else do {
     r \<leftarrow> call_native srv (NativeCall ''vkCreateSamplerYcbcrConversion'' [VNum d, i]);
     obj_id \<leftarrow> (if nr_result r = VK_SUCCESS then add_object SamplerYcbcrConversions (nr_handle r 0) d else State_Monad.return 0);
     (if obj_id \<noteq> 0 then update_tables (\<lambda>t. t\<lparr>sampler_ycbcr_conversion_owners :=
         AList.update obj_id d (sampler_ycbcr_conversion_owners t)\<rparr>) else State_Monad.return ());
     put_u32 (status_code Ok);
     put_i32 (nr_result r);
     put_handle obj_id;
     reply }}}"

definition handle_DestroySamplerYcbcrConversion :: "Server \<Rightarrow> unit handler" where
  "handle_DestroySamplerYcbcrConversion srv = do {
     device_id \<leftarrow> rd r_handle;
     d \<leftarrow> get_object Devices device_id;
     i \<leftarrow> rd r_handle;
     owner \<leftarrow> query_tables (\<lambda>t. map_of (sampler_ycbcr_conversion_owners t) i);
     ok \<leftarrow> reader_ok;
     if \<not> ok \<or> d = VK_NULL_HANDLE \<or> owner \<noteq> Some d then mark_oneway_error else do {
     obj \<leftarrow> take_object SamplerYcbcrConversions i;
     if \<not> proc_addr srv d ''vkDestroySamplerYcbcrConversion'' \<or> obj = VK_NULL_HANDLE then mark_oneway_error else do {
     call_native srv (NativeDestroy SamplerYcbcrConversions d obj);
     update_tables (\<lambda>t. t\<lparr>sampler_ycbcr_conversion_owners := AList.delete i (sampler_ycbcr_conversion_owners t)\<rparr>) }}}"

end
