(* ===== verification/HandlersTemplate.thy ===== *)
theory HandlersTemplate
  imports HandlersDescriptor
begin

section \<open>Descriptor update templates (server/handlers_device.cpp, common/marshal.cpp)\<close>

text \<open>
  A template is a list of entries, each an array of descriptors at \<open>offset + i * stride\<close> of a
  buffer. The server sizes that buffer from the entries the client sent, then writes the
  descriptors of an update into it. All of the arithmetic is on \<open>size_t\<close>, here 64-bit words.
  The buffer's content is the list of writes, each an offset and the decoded descriptor.
\<close>

subsection \<open>The create info of a template\<close>

definition kTemplateCreateInfoType :: u32 where
  "kTemplateCreateInfoType = 1000085000"

definition read_template_entry :: "Reader \<Rightarrow> template_entry \<times> Reader" where
  "read_template_entry r =
     (let (dstBinding, r1) = r_u32 r; (dstArrayElement, r2) = r_u32 r1; (descriptorCount, r3) = r_u32 r2;
          (descriptorType, r4) = r_i32 r3; (offset, r5) = r_u64 r4; (stride, r6) = r_u64 r5
      in ((dstBinding, dstArrayElement, descriptorCount, descriptorType, offset, stride), r6))"

definition entry_vk :: "template_entry \<Rightarrow> vk" where
  "entry_vk = (\<lambda>(a, b, c, d, offset, stride).
     VList [VNum (ucast a), VNum (ucast b), VNum (ucast c), VNum (ucast d), VNum offset, VNum stride])"

text \<open>\<open>valid_count\<close> for an element of 32 bytes: the count is at most \<open>kMaxArrayElements\<close>.\<close>

definition read_DescriptorUpdateTemplateCreateInfo ::
  "ObjectTables \<Rightarrow> Reader \<Rightarrow> (template_entry list \<times> vk) option \<times> Reader" where
  "read_DescriptorUpdateTemplateCreateInfo t r =
     (let (sType, r1) = r_i32 r; (flags, r2) = r_u32 r1; (count, r3) = r_u32 r2 in
      if \<not> r_ok r3 \<or> sType \<noteq> kTemplateCreateInfoType \<or> count > kMaxArrayElements \<or> unat count > r_remaining r3 div 32
      then (None, r3)
      else let (entries, r4) = r_list read_template_entry (unat count) r3;
               (templateType, r5) = r_i32 r4; (layout, r6) = r_handle r5;
               (bindPoint, r7) = r_i32 r6; (pipeline, r8) = r_handle r7; (set_no, r9) = r_u32 r8
           in (if r_ok r9 then Some (entries, VList [VNum (ucast flags), VList (map entry_vk entries), VNum (ucast templateType),
                 VNum (if layout \<noteq> 0 then resolve t DescriptorSetLayouts layout else VK_NULL_HANDLE),
                 VNum (ucast bindPoint), VNum (if pipeline \<noteq> 0 then resolve t PipelineLayouts pipeline else VK_NULL_HANDLE),
                 VNum (ucast set_no)])
               else None, r9))"

definition handle_CreateDescriptorUpdateTemplate :: "Server \<Rightarrow> unit handler" where
  "handle_CreateDescriptorUpdateTemplate srv = do {
     device_id \<leftarrow> rd r_handle;
     d \<leftarrow> get_object Devices device_id;
     if d = VK_NULL_HANDLE then reply_status DecodeError else do {
     info \<leftarrow> rd_with read_DescriptorUpdateTemplateCreateInfo;
     case info of None \<Rightarrow> reply_status DecodeError | Some (entries, i) \<Rightarrow>
     if \<not> proc_addr srv d ''vkCreateDescriptorUpdateTemplate'' then reply_status UnsupportedCommand else do {
     r \<leftarrow> call_native srv (NativeCall ''vkCreateDescriptorUpdateTemplate'' [VNum d, i]);
     obj_id \<leftarrow> (if nr_result r = VK_SUCCESS then add_object DescriptorUpdateTemplates (nr_handle r 0) d else State_Monad.return 0);
     (if obj_id \<noteq> 0 then update_tables (\<lambda>t. t\<lparr>
         descriptor_update_template_owners := AList.update obj_id d (descriptor_update_template_owners t),
         descriptor_update_template_entries := AList.update obj_id entries (descriptor_update_template_entries t)\<rparr>)
      else State_Monad.return ());
     put_u32 (status_code Ok);
     put_i32 (nr_result r);
     put_handle obj_id;
     reply }}}"

definition handle_DestroyDescriptorUpdateTemplate :: "Server \<Rightarrow> unit handler" where
  "handle_DestroyDescriptorUpdateTemplate srv = do {
     device_id \<leftarrow> rd r_handle;
     d \<leftarrow> get_object Devices device_id;
     i \<leftarrow> rd r_handle;
     owner \<leftarrow> query_tables (\<lambda>t. map_of (descriptor_update_template_owners t) i);
     ok \<leftarrow> reader_ok;
     if \<not> ok \<or> d = VK_NULL_HANDLE \<or> owner \<noteq> Some d then mark_oneway_error else do {
     obj \<leftarrow> take_object DescriptorUpdateTemplates i;
     if \<not> proc_addr srv d ''vkDestroyDescriptorUpdateTemplate'' \<or> obj = VK_NULL_HANDLE then mark_oneway_error else do {
     call_native srv (NativeDestroy DescriptorUpdateTemplates d obj);
     update_tables (\<lambda>t. t\<lparr>descriptor_update_template_owners := AList.delete i (descriptor_update_template_owners t),
       descriptor_update_template_entries := AList.delete i (descriptor_update_template_entries t)\<rparr>) }}}"

subsection \<open>Sizing the buffer\<close>

definition is_texel :: "u32 \<Rightarrow> bool" where
  "is_texel ty \<longleftrightarrow> ty = 4 \<or> ty = 5"

definition is_image_type :: "u32 \<Rightarrow> bool" where
  "is_image_type ty \<longleftrightarrow> ty = 0 \<or> ty = 1 \<or> ty = 2 \<or> ty = 3 \<or> ty = 10"

text \<open>\<open>sizeof\<close> of \<open>VkBufferView\<close>, \<open>VkDescriptorImageInfo\<close> and \<open>VkDescriptorBufferInfo\<close>.\<close>

definition template_elem :: "u32 \<Rightarrow> u64" where
  "template_elem ty =
     (if is_texel ty then 8
      else if ty \<le> 10 \<and> ty \<noteq> 6 \<and> ty \<noteq> 7 \<and> ty \<noteq> 8 \<and> ty \<noteq> 9 then 24 else 24)"

definition SIZE_MAX :: u64 where
  "SIZE_MAX = - 1"

definition kTemplateDataLimit :: u64 where
  "kTemplateDataLimit = 64 * 1024 * 1024"

definition entry_span :: "template_entry \<Rightarrow> u64" where
  "entry_span = (\<lambda>(_, _, count, _, _, stride). ucast (count - 1) * stride)"

definition entry_rejected :: "template_entry \<Rightarrow> bool" where
  "entry_rejected e = (case e of (_, _, count, ty, offset, stride) \<Rightarrow>
     count > kMaxArrayElements \<or>
     (count \<noteq> 0 \<and> (offset > SIZE_MAX - entry_span e \<or> offset + entry_span e > SIZE_MAX - template_elem ty)))"

definition entry_end :: "template_entry \<Rightarrow> u64" where
  "entry_end e = (case e of (_, _, count, ty, offset, stride) \<Rightarrow>
     offset + ucast (if count \<noteq> 0 then count - 1 else 0) * stride + (if count \<noteq> 0 then template_elem ty else 0))"

fun template_size_loop :: "template_entry list \<Rightarrow> u64 \<Rightarrow> u64 option" where
  "template_size_loop [] sz = Some sz"
| "template_size_loop (e # es) sz =
     (if entry_rejected e then None else template_size_loop es (max sz (entry_end e)))"

definition template_size :: "template_entry list \<Rightarrow> u64 option" where
  "template_size es =
     (case template_size_loop es 0 of None \<Rightarrow> None
      | Some sz \<Rightarrow> if sz > kTemplateDataLimit then None else Some sz)"

subsection \<open>Filling it\<close>

definition read_descriptor :: "ObjectTables \<Rightarrow> u32 \<Rightarrow> Reader \<Rightarrow> vk \<times> Reader" where
  "read_descriptor t ty r =
     (if is_texel ty then let (i, r1) = r_handle r in (VNum (resolve t BufferViews i), r1)
      else if is_image_type ty then
        let (s, r1) = r_handle r; (v, r2) = r_handle r1; (l, r3) = r_i32 r2
        in (VList [VNum (resolve t Samplers s), VNum (resolve t ImageViews v), VNum (ucast l)], r3)
      else
        let (b, r1) = r_handle r; (off, r2) = r_u64 r1; (range, r3) = r_u64 r2
        in (VList [VNum (resolve t Buffers b), VNum off, VNum range], r3))"

text \<open>The offsets one entry writes at, and the bytes it writes there.\<close>

definition entry_writes :: "template_entry \<Rightarrow> (u64 \<times> u64) list" where
  "entry_writes = (\<lambda>(_, _, count, ty, offset, stride).
     map (\<lambda>i. (offset + of_nat i * stride, template_elem ty)) [0..<unat count])"

definition template_writes :: "template_entry list \<Rightarrow> (u64 \<times> u64) list" where
  "template_writes es = concat (map entry_writes es)"

fun read_template_data :: "ObjectTables \<Rightarrow> template_entry list \<Rightarrow> Reader \<Rightarrow> (u64 \<times> vk) list option \<times> Reader" where
  "read_template_data t [] r = (Some [], r)"
| "read_template_data t (e # es) r =
     (let (count, r1) = r_u32 r; (ty, r2) = r_i32 r1 in
      (case e of (_, _, ecount, ety, offset, stride) \<Rightarrow>
        if count \<noteq> ecount \<or> ty \<noteq> ety then (None, r2)
        else let (ds, r3) = r_list (read_descriptor t ty) (unat count) r2;
                 (rest, r4) = read_template_data t es r3
             in (map_option ((@) (zip (map fst (entry_writes e)) ds)) rest, r4)))"

definition handle_UpdateDescriptorSetWithTemplate :: "Server \<Rightarrow> unit handler" where
  "handle_UpdateDescriptorSetWithTemplate srv = do {
     device_id \<leftarrow> rd r_handle;
     d \<leftarrow> get_object Devices device_id;
     set_id \<leftarrow> rd r_handle;
     dset \<leftarrow> get_object DescriptorSets set_id;
     i \<leftarrow> rd r_handle;
     obj \<leftarrow> get_object DescriptorUpdateTemplates i;
     meta \<leftarrow> query_tables (\<lambda>t. map_of (descriptor_update_template_entries t) i);
     n \<leftarrow> rd r_u32;
     (case meta of None \<Rightarrow> mark_oneway_error | Some entries \<Rightarrow>
      if d = VK_NULL_HANDLE \<or> dset = VK_NULL_HANDLE \<or> obj = VK_NULL_HANDLE \<or> unat n \<noteq> length entries
      then mark_oneway_error
      else (case template_size entries of None \<Rightarrow> mark_oneway_error | Some sz \<Rightarrow> do {
        data \<leftarrow> rd_with (\<lambda>t. read_template_data t entries);
        ok \<leftarrow> reader_ok;
        left \<leftarrow> reader_remaining;
        if data = None \<or> \<not> ok \<or> left \<noteq> 0 then mark_oneway_error
        else if \<not> proc_addr srv d ''vkUpdateDescriptorSetWithTemplate'' then mark_oneway_error else do {
        call_native srv (NativeCall ''vkUpdateDescriptorSetWithTemplate''
          [VNum d, VNum dset, VNum obj, VNum sz, VList (map (\<lambda>(off, v). VList [VNum off, v]) (the data))]);
        State_Monad.return () }})) }"

subsection \<open>Bounds\<close>

lemma template_size_loop_mono: "template_size_loop es sz = Some tot \<Longrightarrow> sz \<le> tot"
proof (induction es arbitrary: sz)
  case (Cons e es)
  from Cons.prems have "template_size_loop es (max sz (entry_end e)) = Some tot" by (simp split: if_splits)
  then have "max sz (entry_end e) \<le> tot" by (rule Cons.IH)
  then show ?case by simp
qed simp

lemma template_size_loop_entry:
  "template_size_loop es sz = Some tot \<Longrightarrow> e \<in> set es \<Longrightarrow> \<not> entry_rejected e \<and> entry_end e \<le> tot"
proof (induction es arbitrary: sz)
  case (Cons x xs)
  then have rest: "template_size_loop xs (max sz (entry_end x)) = Some tot" "\<not> entry_rejected x"
    by (auto split: if_splits)
  from template_size_loop_mono [OF rest(1)] have "entry_end x \<le> tot" by simp
  with rest Cons show ?case by auto
qed simp

lemma entry_write_bound:
  assumes ok: "\<not> entry_rejected e" and e: "e = (b, a, count, ty, offset, stride)"
    and span: "unat (count - 1) * unat stride < 2 ^ 64" and i: "i < unat count"
  shows "unat (offset + of_nat i * stride) + unat (template_elem ty) \<le> unat (entry_end e)"
proof -
  have c: "count \<noteq> 0" using i by auto
  then have c1: "unat (count - 1) = unat count - 1" by (simp add: unat_minus_one)
  have small: "unat count < 2 ^ 32" by (rule unat_less_32)
  have sp: "unat (entry_span e) = unat (count - 1) * unat stride"
  proof -
    have "unat (ucast (count - 1) :: u64) = unat (count - 1)"
      by (simp add: unsigned_ucast_eq take_bit_nat_eq_self less_trans [OF unat_less_32])
    then show ?thesis using span by (simp add: e entry_span_def unat_word_ariths)
  qed
  have iu: "unat (of_nat i :: u64) = i" using i small by (intro unat_of_nat_small) simp
  have im: "i * unat stride \<le> unat (count - 1) * unat stride" using i c1 by (intro mult_right_mono) auto
  then have isu: "unat (of_nat i * stride) = i * unat stride" using le_less_trans [OF im span] iu by (simp add: unat_word_ariths)
  from ok c have b1: "offset \<le> SIZE_MAX - entry_span e" "offset + entry_span e \<le> SIZE_MAX - template_elem ty"
    by (auto simp: entry_rejected_def e)
  have u1: "unat (offset + entry_span e) = unat offset + unat (entry_span e)"
    using word_add_no_overflow b1(1) by (simp add: SIZE_MAX_def)
  have u2: "unat (offset + entry_span e + template_elem ty) = unat offset + unat (entry_span e) + unat (template_elem ty)"
    using word_add_no_overflow [of "offset + entry_span e"] b1(2) u1 by (simp add: SIZE_MAX_def)
  have en: "entry_end e = offset + entry_span e + template_elem ty" using c by (simp add: e entry_end_def entry_span_def)
  have "unat offset + i * unat stride < 2 ^ 64"
  proof -
    have "unat offset + i * unat stride \<le> unat offset + unat (entry_span e)" using im sp by (simp only: add_left_mono)
    also have "\<dots> < 2 ^ 64" using u1 unat_less_64 [of "offset + entry_span e"] by (simp only:)
    finally show ?thesis .
  qed
  then have "unat (offset + of_nat i * stride) = unat offset + i * unat stride"
    using isu by (simp add: unat_word_ariths)
  then show ?thesis using en u2 im sp by simp
qed

subsection \<open>Properties\<close>

text \<open>
  A template update stays inside its buffer when the sizes are honest: if the buffer was sized
  from the entries and no entry's \<open>(count - 1) * stride\<close> exceeds 64 bits, then every
  descriptor written through the template lies inside the buffer, however the offsets, strides and
  counts were chosen, and the buffer is at most 64 MiB.
\<close>

theorem template_writes_in_bounds:
  assumes sz: "template_size es = Some sz"
    and honest: "\<forall>(b, a, count, ty, offset, stride) \<in> set es. unat (count - 1) * unat stride < 2 ^ 64"
    and w: "(off, len) \<in> set (template_writes es)"
  shows "unat off + unat len \<le> unat sz \<and> sz \<le> kTemplateDataLimit"
proof -
  from sz have total: "template_size_loop es 0 = Some sz" "sz \<le> kTemplateDataLimit"
    by (auto simp: template_size_def split: option.splits if_splits)
  from w obtain e where e: "e \<in> set es" "(off, len) \<in> set (entry_writes e)" by (auto simp: template_writes_def)
  obtain b a count ty offset stride where t: "e = (b, a, count, ty, offset, stride)" by (cases e)
  from e(2) t obtain i where i: "i < unat count" "off = offset + of_nat i * stride" "len = template_elem ty"
    by (auto simp: entry_writes_def)
  from template_size_loop_entry [OF total(1) e(1)] have ok: "\<not> entry_rejected e" "entry_end e \<le> sz" by simp_all
  have "unat (count - 1) * unat stride < 2 ^ 64" using honest e(1) t by auto
  from entry_write_bound [OF ok(1) t this i(1)] ok(2) i total(2) show ?thesis by (simp add: word_le_nat_alt)
qed

theorem template_writes_in_bounds_witness:
  "unat (16 :: u64) + unat (24 :: u64) \<le> unat (40 :: u64) \<and> (40 :: u64) \<le> kTemplateDataLimit"
proof (rule template_writes_in_bounds)
  show "template_size [(0, 0, 2, 6, 0, 16)] = Some 40" by code_simp
  show "(16, 24) \<in> set (template_writes [(0, 0, 2, 6, 0, 16)])" by code_simp
qed simp


end
