(* ===== verification/HandlersCommand.thy ===== *)
theory HandlersCommand
  imports HandlersMemory
begin

section \<open>Command pools, command buffers and recording (server/handlers_command.cpp)\<close>

text \<open>
  The lifecycle of pools and buffers, and one definition per recorded command. A recorded command
  reads the command buffer, then its arguments in the order of the wire, and is passed to the driver
  if the message decoded and the handles it needs are live; anything else is counted as a one-way
  error. \<open>cmd_plain\<close>, \<open>cmd_ext\<close> and \<open>cmd_regions\<close> are the three shapes most
  of the file repeats: fixed arguments, fixed arguments for a function looked up on the buffer's
  device, and fixed arguments followed by a counted array of structures.
\<close>

subsection \<open>Pools and buffers\<close>

definition handle_CreateCommandPool :: "Server \<Rightarrow> unit handler" where
  "handle_CreateCommandPool srv = server_create srv ''read_CommandPoolCreateInfo'' ''vkCreateCommandPool'' CommandPools"

definition handle_DestroyCommandPool :: "Server \<Rightarrow> unit handler" where
  "handle_DestroyCommandPool srv = do {
     device_id \<leftarrow> rd r_handle;
     device \<leftarrow> get_object Devices device_id;
     i \<leftarrow> rd r_handle;
     ok \<leftarrow> reader_ok;
     owned \<leftarrow> owned_by_object CommandPools i device;
     if \<not> ok \<or> device = VK_NULL_HANDLE \<or> \<not> owned then mark_oneway_error else do {
     obj \<leftarrow> take_object CommandPools i;
     call_native srv (NativeDestroy CommandPools device obj);
     State_Monad.return () }}"

text \<open>\<open>commandBufferCount\<close> of a decoded \<open>VkCommandBufferAllocateInfo\<close>.\<close>

definition command_buffer_count :: "vk \<Rightarrow> u32" where
  "command_buffer_count info = ucast (vk_member 4 info)"

fun add_command_buffers :: "bool \<Rightarrow> u64 \<Rightarrow> u64 list \<Rightarrow> unit handler" where
  "add_command_buffers success device [] = State_Monad.return ()"
| "add_command_buffers success device (cb # cbs) = do {
     i \<leftarrow> (if success then add_object CommandBuffers cb device else State_Monad.return 0);
     (if i \<noteq> 0 then update_tables (\<lambda>t. t\<lparr>command_buffer_devices := AList.update cb device (command_buffer_devices t)\<rparr>)
      else State_Monad.return ());
     put_handle i;
     add_command_buffers success device cbs }"

text \<open>A message that does not decode gets a status into the reply buffer, and no reply.\<close>

definition handle_AllocateCommandBuffers :: "Server \<Rightarrow> unit handler" where
  "handle_AllocateCommandBuffers srv = do {
     device_id \<leftarrow> rd r_handle;
     device \<leftarrow> get_object Devices device_id;
     ok \<leftarrow> reader_ok;
     if \<not> ok \<or> device = VK_NULL_HANDLE then put_u32 (status_code DecodeError) else do {
     info \<leftarrow> rd_struct srv ''read_CommandBufferAllocateInfo'';
     case info of None \<Rightarrow> put_u32 (status_code DecodeError) | Some i \<Rightarrow> do {
     r \<leftarrow> call_native srv (NativeCall ''vkAllocateCommandBuffers'' [VNum device, i]);
     put_u32 (status_code Ok);
     put_i32 (nr_result r);
     put_u32 (command_buffer_count i);
     add_command_buffers (nr_result r = VK_SUCCESS) device (map (nr_handle r) [0..<unat (command_buffer_count i)]);
     reply }}}"

fun take_command_buffers :: "u64 list \<Rightarrow> u64 list handler" where
  "take_command_buffers [] = State_Monad.return []"
| "take_command_buffers (i # is) = do {
     cb \<leftarrow> take_object CommandBuffers i;
     update_tables (\<lambda>t. t\<lparr>command_buffer_devices := AList.delete cb (command_buffer_devices t)\<rparr>);
     cbs \<leftarrow> take_command_buffers is;
     State_Monad.return (cb # cbs) }"

definition handle_FreeCommandBuffers :: "Server \<Rightarrow> unit handler" where
  "handle_FreeCommandBuffers srv = do {
     device_id \<leftarrow> rd r_handle;
     device \<leftarrow> get_object Devices device_id;
     pool_id \<leftarrow> rd r_handle;
     pool \<leftarrow> get_object CommandPools pool_id;
     count \<leftarrow> rd r_u32;
     fits \<leftarrow> reader_count_fits count 8;
     if \<not> fits then mark_oneway_error else do {
     ids \<leftarrow> rd (r_list r_handle (unat count));
     cbs \<leftarrow> take_command_buffers ids;
     ok \<leftarrow> reader_ok;
     if \<not> ok \<or> device = VK_NULL_HANDLE then mark_oneway_error else do {
     call_native srv (NativeCall ''vkFreeCommandBuffers'' [VNum device, VNum pool, VList (map VNum cbs)]);
     State_Monad.return () }}}"

definition rd_command_buffer :: "u64 handler" where
  "rd_command_buffer = do { i \<leftarrow> rd r_handle; get_object CommandBuffers i }"

definition native_unit :: "Server \<Rightarrow> native_call \<Rightarrow> unit handler" where
  "native_unit srv c = do { call_native srv c; State_Monad.return () }"

definition native_checked :: "Server \<Rightarrow> native_call \<Rightarrow> unit handler" where
  "native_checked srv c = do { r \<leftarrow> call_native srv c; if nr_result r \<noteq> VK_SUCCESS then mark_oneway_error else State_Monad.return () }"

definition handle_BeginCommandBuffer :: "Server \<Rightarrow> unit handler" where
  "handle_BeginCommandBuffer srv = do {
     cb \<leftarrow> rd_command_buffer;
     ok \<leftarrow> reader_ok;
     if \<not> ok \<or> cb = VK_NULL_HANDLE then mark_oneway_error else do {
     info \<leftarrow> rd_struct srv ''read_CommandBufferBeginInfo'';
     case info of None \<Rightarrow> mark_oneway_error | Some i \<Rightarrow> native_checked srv (NativeCall ''vkBeginCommandBuffer'' [VNum cb, i]) }}"

definition handle_EndCommandBuffer :: "Server \<Rightarrow> unit handler" where
  "handle_EndCommandBuffer srv = do {
     cb \<leftarrow> rd_command_buffer;
     ok \<leftarrow> reader_ok;
     if \<not> ok \<or> cb = VK_NULL_HANDLE then mark_oneway_error
     else native_checked srv (NativeCall ''vkEndCommandBuffer'' [VNum cb]) }"

definition handle_ResetCommandBuffer :: "Server \<Rightarrow> unit handler" where
  "handle_ResetCommandBuffer srv = do {
     cb \<leftarrow> rd_command_buffer;
     flags \<leftarrow> rd r_u32;
     ok \<leftarrow> reader_ok;
     if \<not> ok \<or> cb = VK_NULL_HANDLE then mark_oneway_error
     else native_checked srv (NativeCall ''vkResetCommandBuffer'' [VNum cb, VNum (ucast flags)]) }"

definition handle_TrimCommandPool :: "Server \<Rightarrow> unit handler" where
  "handle_TrimCommandPool srv = do {
     device_id \<leftarrow> rd r_handle;
     d \<leftarrow> get_object Devices device_id;
     pool_id \<leftarrow> rd r_handle;
     p \<leftarrow> get_object CommandPools pool_id;
     flags \<leftarrow> rd r_u32;
     ok \<leftarrow> reader_ok;
     if \<not> ok \<or> d = VK_NULL_HANDLE \<or> p = VK_NULL_HANDLE then mark_oneway_error
     else if \<not> proc_addr srv d ''vkTrimCommandPool'' then mark_oneway_error
     else native_unit srv (NativeCall ''vkTrimCommandPool'' [VNum d, VNum p, VNum (ucast flags)]) }"

definition handle_ResetCommandPool :: "Server \<Rightarrow> unit handler" where
  "handle_ResetCommandPool srv = do {
     device_id \<leftarrow> rd r_handle;
     device \<leftarrow> get_object Devices device_id;
     pool_id \<leftarrow> rd r_handle;
     pool \<leftarrow> get_object CommandPools pool_id;
     flags \<leftarrow> rd r_u32;
     ok \<leftarrow> reader_ok;
     if \<not> ok \<or> device = VK_NULL_HANDLE \<or> pool = VK_NULL_HANDLE then reply_status DecodeError else do {
     put_u32 (status_code Ok);
     r \<leftarrow> call_native srv (NativeCall ''vkResetCommandPool'' [VNum device, VNum pool, VNum (ucast flags)]);
     put_i32 (nr_result r);
     reply }}"

subsection \<open>The shapes of recorded commands\<close>

text \<open>
  One wire argument: integers and floats of a width, an object id that may be unknown (its handle is
  then null), and one that has to be live.
\<close>

datatype arg = AU32 | AI32 | AF32 | AU64 | AObj table_kind | ALive table_kind

definition rd_arg :: "arg \<Rightarrow> (vk \<times> bool) handler" where
  "rd_arg a = (case a of
     AU32 \<Rightarrow> do { v \<leftarrow> rd r_u32; State_Monad.return (VNum (ucast v), True) }
   | AI32 \<Rightarrow> do { v \<leftarrow> rd r_i32; State_Monad.return (VNum (ucast v), True) }
   | AF32 \<Rightarrow> do { v \<leftarrow> rd r_f32; State_Monad.return (VNum (ucast v), True) }
   | AU64 \<Rightarrow> do { v \<leftarrow> rd r_u64; State_Monad.return (VNum v, True) }
   | AObj k \<Rightarrow> do { i \<leftarrow> rd r_handle; v \<leftarrow> get_object k i; State_Monad.return (VNum v, True) }
   | ALive k \<Rightarrow> do { i \<leftarrow> rd r_handle; v \<leftarrow> get_object k i; State_Monad.return (VNum v, v \<noteq> VK_NULL_HANDLE) })"

fun rd_args :: "arg list \<Rightarrow> (vk list \<times> bool) handler" where
  "rd_args [] = State_Monad.return ([], True)"
| "rd_args (a # as) = do {
     (v, l) \<leftarrow> rd_arg a;
     (vs, ls) \<leftarrow> rd_args as;
     State_Monad.return (v # vs, l \<and> ls) }"

definition cmd_plain :: "Server \<Rightarrow> string \<Rightarrow> arg list \<Rightarrow> unit handler" where
  "cmd_plain srv name as = do {
     cb \<leftarrow> rd_command_buffer;
     (vs, live) \<leftarrow> rd_args as;
     ok \<leftarrow> reader_ok;
     if \<not> ok \<or> cb = VK_NULL_HANDLE \<or> \<not> live then mark_oneway_error
     else native_unit srv (NativeCall name (VNum cb # vs)) }"

text \<open>\<open>command_buffer_devices.find(cb)\<close>: no entry is an error.\<close>

definition cmd_ext :: "Server \<Rightarrow> string \<Rightarrow> arg list \<Rightarrow> unit handler" where
  "cmd_ext srv name as = do {
     cb \<leftarrow> rd_command_buffer;
     (vs, live) \<leftarrow> rd_args as;
     ok \<leftarrow> reader_ok;
     owner \<leftarrow> query_tables (\<lambda>t. map_of (command_buffer_devices t) cb);
     if \<not> ok \<or> cb = VK_NULL_HANDLE \<or> \<not> live then mark_oneway_error
     else case owner of None \<Rightarrow> mark_oneway_error | Some d \<Rightarrow>
       if \<not> proc_addr srv d name then mark_oneway_error
       else native_unit srv (NativeCall name (VNum cb # vs)) }"

text \<open>\<open>command_buffer_devices[cb]\<close>: no entry makes one, with a null device.\<close>

definition device_of_command_buffer :: "u64 \<Rightarrow> u64 handler" where
  "device_of_command_buffer cb = do {
     owner \<leftarrow> query_tables (\<lambda>t. map_of (command_buffer_devices t) cb);
     (case owner of Some d \<Rightarrow> State_Monad.return ()
      | None \<Rightarrow> update_tables (\<lambda>t. t\<lparr>command_buffer_devices := AList.update cb VK_NULL_HANDLE (command_buffer_devices t)\<rparr>));
     State_Monad.return (case owner of Some d \<Rightarrow> d | None \<Rightarrow> VK_NULL_HANDLE) }"

definition cmd_looked_up :: "Server \<Rightarrow> string \<Rightarrow> u64 \<Rightarrow> vk list \<Rightarrow> unit handler" where
  "cmd_looked_up srv name cb vs = do {
     d \<leftarrow> device_of_command_buffer cb;
     if \<not> proc_addr srv d name then mark_oneway_error else native_unit srv (NativeCall name (VNum cb # vs)) }"

definition rd_regions :: "Server \<Rightarrow> string \<Rightarrow> u32 \<Rightarrow> vk list option handler" where
  "rd_regions srv read_fn count = do {
     ok \<leftarrow> reader_ok;
     if ok then rd_with (\<lambda>t. read_each (read_struct srv read_fn t) (unat count)) else State_Monad.return None }"

definition cmd_regions :: "Server \<Rightarrow> string \<Rightarrow> arg list \<Rightarrow> bool \<Rightarrow> string \<Rightarrow> unit handler" where
  "cmd_regions srv name as nonzero read_fn = do {
     cb \<leftarrow> rd_command_buffer;
     (vs, live) \<leftarrow> rd_args as;
     count \<leftarrow> rd r_u32;
     fits \<leftarrow> reader_count_fits count 4;
     if (nonzero \<and> count = 0) \<or> \<not> fits then mark_oneway_error else do {
     regions \<leftarrow> rd_regions srv read_fn count;
     if regions = None \<or> cb = VK_NULL_HANDLE \<or> \<not> live then mark_oneway_error
     else native_unit srv (NativeCall name (VNum cb # vs @ [VList (the regions)])) }}"

subsection \<open>Commands with fixed arguments\<close>

definition handle_CmdNextSubpass :: "Server \<Rightarrow> unit handler" where
  "handle_CmdNextSubpass srv = cmd_plain srv ''vkCmdNextSubpass'' [AI32]"

definition handle_CmdEndRenderPass :: "Server \<Rightarrow> unit handler" where
  "handle_CmdEndRenderPass srv = cmd_plain srv ''vkCmdEndRenderPass'' []"

definition handle_CmdSetFragmentShadingRateKHR :: "Server \<Rightarrow> unit handler" where
  "handle_CmdSetFragmentShadingRateKHR srv = cmd_ext srv ''vkCmdSetFragmentShadingRateKHR'' [AU32, AU32, AI32, AI32]"

definition handle_CmdSetDeviceMask :: "Server \<Rightarrow> unit handler" where
  "handle_CmdSetDeviceMask srv = cmd_ext srv ''vkCmdSetDeviceMask'' [AU32]"

definition handle_CmdDispatchBase :: "Server \<Rightarrow> unit handler" where
  "handle_CmdDispatchBase srv = cmd_ext srv ''vkCmdDispatchBase'' [AU32, AU32, AU32, AU32, AU32, AU32]"

definition handle_CmdBindPipeline :: "Server \<Rightarrow> unit handler" where
  "handle_CmdBindPipeline srv = cmd_plain srv ''vkCmdBindPipeline'' [AI32, AObj Pipelines]"

definition handle_CmdDraw :: "Server \<Rightarrow> unit handler" where
  "handle_CmdDraw srv = cmd_plain srv ''vkCmdDraw'' [AU32, AU32, AU32, AU32]"

definition handle_CmdDispatch :: "Server \<Rightarrow> unit handler" where
  "handle_CmdDispatch srv = cmd_plain srv ''vkCmdDispatch'' [AU32, AU32, AU32]"

definition handle_CmdDrawIndexed :: "Server \<Rightarrow> unit handler" where
  "handle_CmdDrawIndexed srv = cmd_plain srv ''vkCmdDrawIndexed'' [AU32, AU32, AU32, AI32, AU32]"

definition handle_CmdDrawIndirect :: "Server \<Rightarrow> unit handler" where
  "handle_CmdDrawIndirect srv = cmd_plain srv ''vkCmdDrawIndirect'' [ALive Buffers, AU64, AU32, AU32]"

definition handle_CmdDrawIndexedIndirect :: "Server \<Rightarrow> unit handler" where
  "handle_CmdDrawIndexedIndirect srv = cmd_plain srv ''vkCmdDrawIndexedIndirect'' [ALive Buffers, AU64, AU32, AU32]"

definition handle_CmdDispatchIndirect :: "Server \<Rightarrow> unit handler" where
  "handle_CmdDispatchIndirect srv = cmd_plain srv ''vkCmdDispatchIndirect'' [ALive Buffers, AU64]"

definition cmd_indirect_count :: "Server \<Rightarrow> string \<Rightarrow> unit handler" where
  "cmd_indirect_count srv name = do {
     cb \<leftarrow> rd_command_buffer;
     (vs, live) \<leftarrow> rd_args [ALive Buffers, AU64, ALive Buffers, AU64, AU32, AU32];
     ok \<leftarrow> reader_ok;
     if \<not> ok \<or> cb = VK_NULL_HANDLE \<or> \<not> live then mark_oneway_error else cmd_looked_up srv name cb vs }"

definition handle_CmdDrawIndirectCount :: "Server \<Rightarrow> unit handler" where
  "handle_CmdDrawIndirectCount srv = cmd_indirect_count srv ''vkCmdDrawIndirectCount''"

definition handle_CmdDrawIndexedIndirectCount :: "Server \<Rightarrow> unit handler" where
  "handle_CmdDrawIndexedIndirectCount srv = cmd_indirect_count srv ''vkCmdDrawIndexedIndirectCount''"

definition handle_CmdBeginQuery :: "Server \<Rightarrow> unit handler" where
  "handle_CmdBeginQuery srv = cmd_plain srv ''vkCmdBeginQuery'' [ALive QueryPools, AU32, AU32]"

definition handle_CmdEndQuery :: "Server \<Rightarrow> unit handler" where
  "handle_CmdEndQuery srv = cmd_plain srv ''vkCmdEndQuery'' [ALive QueryPools, AU32]"

definition handle_CmdResetQueryPool :: "Server \<Rightarrow> unit handler" where
  "handle_CmdResetQueryPool srv = cmd_plain srv ''vkCmdResetQueryPool'' [ALive QueryPools, AU32, AU32]"

definition handle_CmdWriteTimestamp :: "Server \<Rightarrow> unit handler" where
  "handle_CmdWriteTimestamp srv = cmd_plain srv ''vkCmdWriteTimestamp'' [AU32, ALive QueryPools, AU32]"

definition handle_CmdCopyQueryPoolResults :: "Server \<Rightarrow> unit handler" where
  "handle_CmdCopyQueryPoolResults srv =
     cmd_plain srv ''vkCmdCopyQueryPoolResults'' [ALive QueryPools, AU32, AU32, ALive Buffers, AU64, AU64, AU32]"

definition handle_CmdSetEvent :: "Server \<Rightarrow> unit handler" where
  "handle_CmdSetEvent srv = cmd_plain srv ''vkCmdSetEvent'' [ALive Events, AU32]"

definition handle_CmdResetEvent :: "Server \<Rightarrow> unit handler" where
  "handle_CmdResetEvent srv = cmd_plain srv ''vkCmdResetEvent'' [ALive Events, AU32]"

definition handle_CmdSetLineWidth :: "Server \<Rightarrow> unit handler" where
  "handle_CmdSetLineWidth srv = cmd_plain srv ''vkCmdSetLineWidth'' [AF32]"

definition handle_CmdSetDepthBias :: "Server \<Rightarrow> unit handler" where
  "handle_CmdSetDepthBias srv = cmd_plain srv ''vkCmdSetDepthBias'' [AF32, AF32, AF32]"

definition handle_CmdSetBlendConstants :: "Server \<Rightarrow> unit handler" where
  "handle_CmdSetBlendConstants srv = cmd_plain srv ''vkCmdSetBlendConstants'' [AF32, AF32, AF32, AF32]"

definition handle_CmdSetDepthBounds :: "Server \<Rightarrow> unit handler" where
  "handle_CmdSetDepthBounds srv = cmd_plain srv ''vkCmdSetDepthBounds'' [AF32, AF32]"

definition handle_CmdSetStencilCompareMask :: "Server \<Rightarrow> unit handler" where
  "handle_CmdSetStencilCompareMask srv = cmd_plain srv ''vkCmdSetStencilCompareMask'' [AU32, AU32]"

definition handle_CmdSetStencilWriteMask :: "Server \<Rightarrow> unit handler" where
  "handle_CmdSetStencilWriteMask srv = cmd_plain srv ''vkCmdSetStencilWriteMask'' [AU32, AU32]"

definition handle_CmdSetStencilReference :: "Server \<Rightarrow> unit handler" where
  "handle_CmdSetStencilReference srv = cmd_plain srv ''vkCmdSetStencilReference'' [AU32, AU32]"

subsection \<open>Commands with counted regions\<close>

definition handle_CmdSetViewport :: "Server \<Rightarrow> unit handler" where
  "handle_CmdSetViewport srv = cmd_regions srv ''vkCmdSetViewport'' [AU32] False ''read_Viewport''"

definition handle_CmdSetScissor :: "Server \<Rightarrow> unit handler" where
  "handle_CmdSetScissor srv = cmd_regions srv ''vkCmdSetScissor'' [AU32] False ''read_Rect2D''"

definition handle_CmdCopyBuffer :: "Server \<Rightarrow> unit handler" where
  "handle_CmdCopyBuffer srv = cmd_regions srv ''vkCmdCopyBuffer'' [AObj Buffers, AObj Buffers] False ''read_BufferCopy''"

definition handle_CmdCopyBufferToImage :: "Server \<Rightarrow> unit handler" where
  "handle_CmdCopyBufferToImage srv =
     cmd_regions srv ''vkCmdCopyBufferToImage'' [AObj Buffers, AObj Images, AI32] False ''read_BufferImageCopy''"

definition handle_CmdCopyImageToBuffer :: "Server \<Rightarrow> unit handler" where
  "handle_CmdCopyImageToBuffer srv =
     cmd_regions srv ''vkCmdCopyImageToBuffer'' [AObj Images, AI32, AObj Buffers] False ''read_BufferImageCopy''"

definition handle_CmdCopyImage :: "Server \<Rightarrow> unit handler" where
  "handle_CmdCopyImage srv =
     cmd_regions srv ''vkCmdCopyImage'' [ALive Images, AI32, ALive Images, AI32] True ''read_ImageCopy''"

definition handle_CmdBlitImage :: "Server \<Rightarrow> unit handler" where
  "handle_CmdBlitImage srv = do {
     cb \<leftarrow> rd_command_buffer;
     (vs, live) \<leftarrow> rd_args [ALive Images, AI32, ALive Images, AI32];
     count \<leftarrow> rd r_u32;
     fits \<leftarrow> reader_count_fits count 4;
     if count = 0 \<or> \<not> fits then mark_oneway_error else do {
     regions \<leftarrow> rd_regions srv ''read_ImageBlit'' count;
     case regions of None \<Rightarrow> mark_oneway_error | Some rs \<Rightarrow> do {
     filt \<leftarrow> rd r_i32;
     ok \<leftarrow> reader_ok;
     if \<not> ok \<or> cb = VK_NULL_HANDLE \<or> \<not> live then mark_oneway_error
     else native_unit srv (NativeCall ''vkCmdBlitImage'' (VNum cb # vs @ [VList rs, VNum (ucast filt)])) }}}"

subsection \<open>Render passes\<close>

definition handle_CmdBeginRenderPass :: "Server \<Rightarrow> unit handler" where
  "handle_CmdBeginRenderPass srv = do {
     cb \<leftarrow> rd_command_buffer;
     ok \<leftarrow> reader_ok;
     if \<not> ok \<or> cb = VK_NULL_HANDLE then mark_oneway_error else do {
     info \<leftarrow> rd_struct srv ''read_RenderPassBeginInfo'';
     case info of None \<Rightarrow> mark_oneway_error | Some i \<Rightarrow> do {
     contents \<leftarrow> rd r_i32;
     ok2 \<leftarrow> reader_ok;
     if \<not> ok2 then mark_oneway_error
     else native_unit srv (NativeCall ''vkCmdBeginRenderPass'' [VNum cb, i, VNum (ucast contents)]) }}}"

fun rd_structs :: "Server \<Rightarrow> string list \<Rightarrow> vk list option handler" where
  "rd_structs srv [] = State_Monad.return (Some [])"
| "rd_structs srv (name # names) = do {
     v \<leftarrow> rd_struct srv name;
     case v of None \<Rightarrow> State_Monad.return None | Some x \<Rightarrow> do {
     vs \<leftarrow> rd_structs srv names;
     State_Monad.return (map_option ((#) x) vs) }}"

definition cmd_subpass2 :: "Server \<Rightarrow> string \<Rightarrow> string list \<Rightarrow> unit handler" where
  "cmd_subpass2 srv name read_fns = do {
     cb \<leftarrow> rd_command_buffer;
     ok \<leftarrow> reader_ok;
     if \<not> ok \<or> cb = VK_NULL_HANDLE then mark_oneway_error else do {
     infos \<leftarrow> rd_structs srv read_fns;
     case infos of None \<Rightarrow> mark_oneway_error | Some vs \<Rightarrow> do {
     owner \<leftarrow> query_tables (\<lambda>t. map_of (command_buffer_devices t) cb);
     case owner of None \<Rightarrow> mark_oneway_error | Some d \<Rightarrow>
     if \<not> proc_addr srv d name then mark_oneway_error else native_unit srv (NativeCall name (VNum cb # vs)) }}}"

definition handle_CmdBeginRenderPass2 :: "Server \<Rightarrow> unit handler" where
  "handle_CmdBeginRenderPass2 srv =
     cmd_subpass2 srv ''vkCmdBeginRenderPass2KHR'' [''read_RenderPassBeginInfo'', ''read_SubpassBeginInfo'']"

definition handle_CmdNextSubpass2 :: "Server \<Rightarrow> unit handler" where
  "handle_CmdNextSubpass2 srv = cmd_subpass2 srv ''vkCmdNextSubpass2KHR'' [''read_SubpassBeginInfo'', ''read_SubpassEndInfo'']"

definition handle_CmdEndRenderPass2 :: "Server \<Rightarrow> unit handler" where
  "handle_CmdEndRenderPass2 srv = cmd_subpass2 srv ''vkCmdEndRenderPass2KHR'' [''read_SubpassEndInfo'']"

subsection \<open>Bindings\<close>

definition handle_CmdBindDescriptorSets :: "Server \<Rightarrow> unit handler" where
  "handle_CmdBindDescriptorSets srv = do {
     cb \<leftarrow> rd_command_buffer;
     bind_point \<leftarrow> rd r_i32;
     layout_id \<leftarrow> rd r_handle;
     layout \<leftarrow> get_object PipelineLayouts layout_id;
     first_set \<leftarrow> rd r_u32;
     count \<leftarrow> rd r_u32;
     fits \<leftarrow> reader_count_fits count 8;
     if count > kMaxArrayElements \<or> \<not> fits then mark_oneway_error else do {
     set_ids \<leftarrow> rd (r_list r_handle (unat count));
     sets \<leftarrow> get_objects DescriptorSets set_ids;
     dyn_count \<leftarrow> rd r_u32;
     dyn_fits \<leftarrow> reader_count_fits dyn_count 4;
     if dyn_count > kMaxArrayElements \<or> \<not> dyn_fits then mark_oneway_error else do {
     offsets \<leftarrow> rd (r_list r_u32 (unat dyn_count));
     ok \<leftarrow> reader_ok;
     left \<leftarrow> reader_remaining;
     if \<not> ok \<or> left \<noteq> 0 \<or> \<not> (cb \<noteq> VK_NULL_HANDLE \<and> layout \<noteq> VK_NULL_HANDLE \<and> (bind_point = 0 \<or> bind_point = 1)
          \<and> list_all (\<lambda>v. v \<noteq> VK_NULL_HANDLE) sets)
     then mark_oneway_error
     else native_unit srv (NativeCall ''vkCmdBindDescriptorSets'' [VNum cb, VNum (ucast bind_point), VNum layout,
       VNum (ucast first_set), VList (map VNum sets), VList (map (VNum \<circ> ucast) offsets)]) }}}"

definition handle_CmdBindVertexBuffers :: "Server \<Rightarrow> unit handler" where
  "handle_CmdBindVertexBuffers srv = do {
     cb \<leftarrow> rd_command_buffer;
     first \<leftarrow> rd r_u32;
     count \<leftarrow> rd r_u32;
     fits \<leftarrow> reader_count_fits count 16;
     if count > kMaxArrayElements \<or> \<not> fits then mark_oneway_error else do {
     pairs \<leftarrow> rd (r_list (\<lambda>r. let (i, r1) = r_handle r; (off, r2) = r_u64 r1 in ((i, off), r2)) (unat count));
     buffers \<leftarrow> get_objects Buffers (map fst pairs);
     ok \<leftarrow> reader_ok;
     if \<not> ok \<or> \<not> (cb \<noteq> VK_NULL_HANDLE \<and> list_all (\<lambda>v. v \<noteq> VK_NULL_HANDLE) buffers) then mark_oneway_error
     else native_unit srv (NativeCall ''vkCmdBindVertexBuffers'' [VNum cb, VNum (ucast first), VList (map VNum buffers),
       VList (map (VNum \<circ> snd) pairs)]) }}"

definition handle_CmdBindIndexBuffer :: "Server \<Rightarrow> unit handler" where
  "handle_CmdBindIndexBuffer srv = do {
     cb \<leftarrow> rd_command_buffer;
     buffer_id \<leftarrow> rd r_handle;
     buffer \<leftarrow> get_object Buffers buffer_id;
     offset \<leftarrow> rd r_u64;
     index_type \<leftarrow> rd r_i32;
     ok \<leftarrow> reader_ok;
     if \<not> ok \<or> cb = VK_NULL_HANDLE \<or> buffer = VK_NULL_HANDLE \<or> \<not> (index_type = 0 \<or> index_type = 1) then mark_oneway_error
     else native_unit srv (NativeCall ''vkCmdBindIndexBuffer'' [VNum cb, VNum buffer, VNum offset, VNum (ucast index_type)]) }"

definition handle_CmdExecuteCommands :: "Server \<Rightarrow> unit handler" where
  "handle_CmdExecuteCommands srv = do {
     cb \<leftarrow> rd_command_buffer;
     n \<leftarrow> rd r_u32;
     fits \<leftarrow> reader_count_fits n 8;
     if n > kMaxArrayElements \<or> \<not> fits then mark_oneway_error else do {
     ids \<leftarrow> rd (r_list r_handle (unat n));
     v \<leftarrow> get_objects CommandBuffers ids;
     ok \<leftarrow> reader_ok;
     if \<not> ok \<or> cb = VK_NULL_HANDLE then mark_oneway_error
     else native_unit srv (NativeCall ''vkCmdExecuteCommands'' [VNum cb, VList (map VNum v)]) }}"

definition kMaxPushConstantBytes :: nat where
  "kMaxPushConstantBytes = 65536"

definition handle_CmdPushConstants :: "Server \<Rightarrow> unit handler" where
  "handle_CmdPushConstants srv = do {
     cb \<leftarrow> rd_command_buffer;
     layout_id \<leftarrow> rd r_handle;
     layout \<leftarrow> get_object PipelineLayouts layout_id;
     stage_flags \<leftarrow> rd r_u32;
     offset \<leftarrow> rd r_u32;
     values \<leftarrow> rd (r_bytes kMaxPushConstantBytes);
     ok \<leftarrow> reader_ok;
     left \<leftarrow> reader_remaining;
     case values of None \<Rightarrow> mark_oneway_error | Some vs \<Rightarrow>
     if \<not> ok \<or> left \<noteq> 0 \<or> cb = VK_NULL_HANDLE \<or> layout = VK_NULL_HANDLE \<or> vs = [] \<or> offset AND 3 \<noteq> 0 \<or> length vs mod 4 \<noteq> 0
     then mark_oneway_error
     else native_unit srv (NativeCall ''vkCmdPushConstants'' [VNum cb, VNum layout, VNum (ucast stage_flags), VNum (ucast offset), VBytes vs]) }"

subsection \<open>Fills, updates and clears\<close>

definition handle_CmdFillBuffer :: "Server \<Rightarrow> unit handler" where
  "handle_CmdFillBuffer srv = do {
     cb \<leftarrow> rd_command_buffer;
     dst_id \<leftarrow> rd r_handle;
     dst \<leftarrow> get_object Buffers dst_id;
     dst_offset \<leftarrow> rd r_u64;
     sz \<leftarrow> rd r_u64;
     data \<leftarrow> rd r_u32;
     ok \<leftarrow> reader_ok;
     if \<not> ok \<or> cb = VK_NULL_HANDLE \<or> dst = VK_NULL_HANDLE \<or> dst_offset AND 3 \<noteq> 0 \<or>
        (sz \<noteq> VK_WHOLE_SIZE \<and> (sz = 0 \<or> sz AND 3 \<noteq> 0))
     then mark_oneway_error
     else native_unit srv (NativeCall ''vkCmdFillBuffer'' [VNum cb, VNum dst, VNum dst_offset, VNum sz, VNum (ucast data)]) }"

definition handle_CmdUpdateBuffer :: "Server \<Rightarrow> unit handler" where
  "handle_CmdUpdateBuffer srv = do {
     cb \<leftarrow> rd_command_buffer;
     dst_id \<leftarrow> rd r_handle;
     dst \<leftarrow> get_object Buffers dst_id;
     dst_offset \<leftarrow> rd r_u64;
     data_size \<leftarrow> rd r_u64;
     data \<leftarrow> rd (r_bytes 65536);
     ok \<leftarrow> reader_ok;
     case data of None \<Rightarrow> mark_oneway_error | Some bs \<Rightarrow>
     if \<not> ok \<or> cb = VK_NULL_HANDLE \<or> dst = VK_NULL_HANDLE \<or> dst_offset AND 3 \<noteq> 0 \<or> data_size = 0 \<or>
        data_size > 65536 \<or> data_size AND 3 \<noteq> 0 \<or> of_nat (length bs) \<noteq> data_size
     then mark_oneway_error
     else native_unit srv (NativeCall ''vkCmdUpdateBuffer'' [VNum cb, VNum dst, VNum dst_offset, VNum data_size, VBytes bs]) }"

text \<open>\<open>sizeof(VkImageSubresourceRange)\<close> is 20, of the two clear unions 16.\<close>

definition read_sized_bytes :: "nat \<Rightarrow> nat \<Rightarrow> Reader \<Rightarrow> vk option \<times> Reader" where
  "read_sized_bytes limit n r =
     (case r_bytes limit r of
        (None, r1) \<Rightarrow> (None, r1)
      | (Some bs, r1) \<Rightarrow> (if length bs = n then Some (VBytes bs) else None, r1))"

definition handle_CmdClearColorImage :: "Server \<Rightarrow> unit handler" where
  "handle_CmdClearColorImage srv = do {
     cb \<leftarrow> rd_command_buffer;
     image_id \<leftarrow> rd r_handle;
     image_h \<leftarrow> get_object Images image_id;
     layout \<leftarrow> rd r_i32;
     color_bytes \<leftarrow> rd (r_bytes (2 ^ 32 - 1));
     count \<leftarrow> rd r_u32;
     fits \<leftarrow> reader_count_fits count 4;
     if \<not> fits then mark_oneway_error else do {
     ranges \<leftarrow> rd (read_each (read_sized_bytes (2 ^ 32 - 1) 20) (unat count));
     ok \<leftarrow> reader_ok;
     if ranges = None \<or> \<not> ok \<or> cb = VK_NULL_HANDLE \<or> map_option length color_bytes \<noteq> Some 16 then mark_oneway_error
     else native_unit srv (NativeCall ''vkCmdClearColorImage'' [VNum cb, VNum image_h, VNum (ucast layout),
       VBytes (the color_bytes), VList (the ranges)]) }}"

text \<open>A structure of 32-bit fields, read one after another.\<close>

definition read_words :: "nat \<Rightarrow> Reader \<Rightarrow> vk \<times> Reader" where
  "read_words n r = (let (ws, r1) = r_list r_u32 n r in (VList (map (VNum \<circ> ucast) ws), r1))"

definition handle_CmdResolveImage :: "Server \<Rightarrow> unit handler" where
  "handle_CmdResolveImage srv = do {
     cb \<leftarrow> rd_command_buffer;
     (vs, live) \<leftarrow> rd_args [ALive Images, AI32, ALive Images, AI32];
     n \<leftarrow> rd r_u32;
     fits \<leftarrow> reader_count_fits n 64;
     if n > kMaxArrayElements \<or> \<not> fits then mark_oneway_error else do {
     regions \<leftarrow> rd (r_list (read_words 17) (unat n));
     ok \<leftarrow> reader_ok;
     if \<not> ok \<or> cb = VK_NULL_HANDLE \<or> \<not> live then mark_oneway_error
     else native_unit srv (NativeCall ''vkCmdResolveImage'' (VNum cb # vs @ [VList regions])) }}"

definition handle_CmdClearDepthStencilImage :: "Server \<Rightarrow> unit handler" where
  "handle_CmdClearDepthStencilImage srv = do {
     cb \<leftarrow> rd_command_buffer;
     (vs, live) \<leftarrow> rd_args [ALive Images, AI32, AF32, AU32];
     n \<leftarrow> rd r_u32;
     fits \<leftarrow> reader_count_fits n 20;
     if n > kMaxArrayElements \<or> \<not> fits then mark_oneway_error else do {
     ranges \<leftarrow> rd (r_list (read_words 5) (unat n));
     ok \<leftarrow> reader_ok;
     if \<not> ok \<or> cb = VK_NULL_HANDLE \<or> \<not> live then mark_oneway_error
     else native_unit srv (NativeCall ''vkCmdClearDepthStencilImage'' (VNum cb # vs @ [VList ranges])) }}"

definition read_clear_attachment :: "Reader \<Rightarrow> vk option \<times> Reader" where
  "read_clear_attachment r =
     (let (aspect, r1) = r_u32 r; (attachment, r2) = r_u32 r1; (v, r3) = read_sized_bytes 16 16 r2
      in (map_option (\<lambda>b. VList [VNum (ucast aspect), VNum (ucast attachment), b]) v, r3))"

definition handle_CmdClearAttachments :: "Server \<Rightarrow> unit handler" where
  "handle_CmdClearAttachments srv = do {
     cb \<leftarrow> rd_command_buffer;
     an \<leftarrow> rd r_u32;
     fits \<leftarrow> reader_count_fits an 12;
     if an > kMaxArrayElements \<or> \<not> fits then mark_oneway_error else do {
     a \<leftarrow> rd (read_each read_clear_attachment (unat an));
     rn \<leftarrow> (if a \<noteq> None then rd r_u32 else State_Monad.return 0);
     rect_fits \<leftarrow> reader_count_fits rn 24;
     if rn > kMaxArrayElements \<or> \<not> rect_fits then mark_oneway_error else do {
     rects \<leftarrow> rd (r_list (read_words 6) (unat rn));
     ok \<leftarrow> reader_ok;
     if a = None \<or> \<not> ok \<or> cb = VK_NULL_HANDLE then mark_oneway_error
     else native_unit srv (NativeCall ''vkCmdClearAttachments'' [VNum cb, VList (the a), VList rects]) }}}"

subsection \<open>Barriers and events\<close>

text \<open>A further counted array, read only while everything before it decoded.\<close>

definition rd_barriers :: "Server \<Rightarrow> string \<Rightarrow> vk list option handler" where
  "rd_barriers srv read_fn = do {
     count \<leftarrow> rd r_u32;
     fits \<leftarrow> reader_count_fits count 4;
     if \<not> fits then State_Monad.return None
     else rd_with (\<lambda>t. read_each (read_struct srv read_fn t) (unat count)) }"

definition rd_barriers_after :: "vk list option \<Rightarrow> Server \<Rightarrow> string \<Rightarrow> vk list option handler" where
  "rd_barriers_after before srv read_fn = (case before of None \<Rightarrow> State_Monad.return None | Some _ \<Rightarrow> rd_barriers srv read_fn)"

definition handle_CmdPipelineBarrier :: "Server \<Rightarrow> unit handler" where
  "handle_CmdPipelineBarrier srv = do {
     cb \<leftarrow> rd_command_buffer;
     src_stage \<leftarrow> rd r_u32;
     dst_stage \<leftarrow> rd r_u32;
     dep_flags \<leftarrow> rd r_u32;
     mem_count \<leftarrow> rd r_u32;
     fits \<leftarrow> reader_count_fits mem_count 4;
     if \<not> fits then mark_oneway_error else do {
     mem_barriers \<leftarrow> rd_regions srv ''read_MemoryBarrier'' mem_count;
     buf_barriers \<leftarrow> rd_barriers_after mem_barriers srv ''read_BufferMemoryBarrier'';
     img_barriers \<leftarrow> rd_barriers_after buf_barriers srv ''read_ImageMemoryBarrier'';
     if img_barriers = None \<or> cb = VK_NULL_HANDLE then mark_oneway_error
     else native_unit srv (NativeCall ''vkCmdPipelineBarrier'' [VNum cb, VNum (ucast src_stage), VNum (ucast dst_stage),
       VNum (ucast dep_flags), VList (the mem_barriers), VList (the buf_barriers), VList (the img_barriers)]) }}"

text \<open>
  In \<open>vkCmdWaitEvents\<close> a count that is too large is an error of its own; after a structure that
  did not decode the following counts are 0 and their arrays empty.
\<close>

definition rd_wait_barriers :: "Server \<Rightarrow> string \<Rightarrow> bool \<Rightarrow> (bool \<times> bool \<times> vk list) handler" where
  "rd_wait_barriers srv read_fn ok = do {
     count \<leftarrow> (if ok then rd r_u32 else State_Monad.return 0);
     fits \<leftarrow> reader_count_fits count 4;
     if count > kMaxArrayElements \<or> \<not> fits then State_Monad.return (False, False, []) else do {
     res \<leftarrow> (if ok then rd_with (\<lambda>t. read_each (read_struct srv read_fn t) (unat count)) else State_Monad.return None);
     State_Monad.return (True, res \<noteq> None, case res of None \<Rightarrow> [] | Some vs \<Rightarrow> vs) }}"

definition handle_CmdWaitEvents :: "Server \<Rightarrow> unit handler" where
  "handle_CmdWaitEvents srv = do {
     cb \<leftarrow> rd_command_buffer;
     en \<leftarrow> rd r_u32;
     fits \<leftarrow> reader_count_fits en 8;
     if en > kMaxArrayElements \<or> \<not> fits then mark_oneway_error else do {
     event_ids \<leftarrow> rd (r_list r_handle (unat en));
     events \<leftarrow> get_objects Events event_ids;
     src \<leftarrow> rd r_u32;
     dst \<leftarrow> rd r_u32;
     (fits_m, ok_m, m) \<leftarrow> rd_wait_barriers srv ''read_MemoryBarrier'' True;
     if \<not> fits_m then mark_oneway_error else do {
     (fits_b, ok_b, b) \<leftarrow> rd_wait_barriers srv ''read_BufferMemoryBarrier'' ok_m;
     if \<not> fits_b then mark_oneway_error else do {
     (fits_i, ok_i, i) \<leftarrow> rd_wait_barriers srv ''read_ImageMemoryBarrier'' ok_b;
     ok \<leftarrow> reader_ok;
     if \<not> fits_i \<or> \<not> ok_i \<or> \<not> ok \<or> cb = VK_NULL_HANDLE then mark_oneway_error
     else native_unit srv (NativeCall ''vkCmdWaitEvents'' [VNum cb, VList (map VNum events), VNum (ucast src), VNum (ucast dst),
       VList m, VList b, VList i]) }}}}"

definition handle_CmdPipelineBarrier2 :: "Server \<Rightarrow> unit handler" where
  "handle_CmdPipelineBarrier2 srv = do {
     cb \<leftarrow> rd_command_buffer;
     if cb = VK_NULL_HANDLE then mark_oneway_error else do {
     info \<leftarrow> rd_struct srv ''read_DependencyInfo'';
     ok \<leftarrow> reader_ok;
     left \<leftarrow> reader_remaining;
     if info = None \<or> \<not> ok \<or> left \<noteq> 0 then mark_oneway_error
     else cmd_looked_up srv ''vkCmdPipelineBarrier2KHR'' cb [the info] }}"

definition handle_CmdSetEvent2 :: "Server \<Rightarrow> unit handler" where
  "handle_CmdSetEvent2 srv = do {
     cb \<leftarrow> rd_command_buffer;
     event_id \<leftarrow> rd r_handle;
     event \<leftarrow> get_object Events event_id;
     if cb = VK_NULL_HANDLE \<or> event = VK_NULL_HANDLE then mark_oneway_error else do {
     info \<leftarrow> rd_struct srv ''read_DependencyInfo'';
     ok \<leftarrow> reader_ok;
     left \<leftarrow> reader_remaining;
     if info = None \<or> \<not> ok \<or> left \<noteq> 0 then mark_oneway_error
     else cmd_looked_up srv ''vkCmdSetEvent2KHR'' cb [VNum event, the info] }}"

definition handle_CmdResetEvent2 :: "Server \<Rightarrow> unit handler" where
  "handle_CmdResetEvent2 srv = do {
     cb \<leftarrow> rd_command_buffer;
     (vs, live) \<leftarrow> rd_args [ALive Events, AU64];
     ok \<leftarrow> reader_ok;
     left \<leftarrow> reader_remaining;
     if cb = VK_NULL_HANDLE \<or> \<not> live \<or> \<not> ok \<or> left \<noteq> 0 then mark_oneway_error
     else cmd_looked_up srv ''vkCmdResetEvent2KHR'' cb vs }"

definition read_event_dependency :: "Server \<Rightarrow> ObjectTables \<Rightarrow> Reader \<Rightarrow> vk option \<times> Reader" where
  "read_event_dependency srv t r =
     (case read_live t Events r of
        (None, r1) \<Rightarrow> (None, r1)
      | (Some e, r1) \<Rightarrow> (case read_struct srv ''read_DependencyInfo'' t r1 of (v, r2) \<Rightarrow> (map_option (\<lambda>i. VList [VNum e, i]) v, r2)))"

text \<open>Here the function is looked up before the decoding is judged.\<close>

definition handle_CmdWaitEvents2 :: "Server \<Rightarrow> unit handler" where
  "handle_CmdWaitEvents2 srv = do {
     cb \<leftarrow> rd_command_buffer;
     count \<leftarrow> rd r_u32;
     fits \<leftarrow> reader_count_fits count 12;
     if cb = VK_NULL_HANDLE \<or> count > kMaxArrayElements \<or> \<not> fits then mark_oneway_error else do {
     infos \<leftarrow> rd_with (\<lambda>t. read_each (read_event_dependency srv t) (unat count));
     d \<leftarrow> device_of_command_buffer cb;
     ok \<leftarrow> reader_ok;
     left \<leftarrow> reader_remaining;
     if infos = None \<or> \<not> proc_addr srv d ''vkCmdWaitEvents2KHR'' \<or> \<not> ok \<or> left \<noteq> 0 then mark_oneway_error
     else native_unit srv (NativeCall ''vkCmdWaitEvents2KHR'' [VNum cb, VList (the infos)]) }}"

definition handle_CmdWriteTimestamp2 :: "Server \<Rightarrow> unit handler" where
  "handle_CmdWriteTimestamp2 srv = do {
     cb \<leftarrow> rd_command_buffer;
     (vs, live) \<leftarrow> rd_args [AU64, ALive QueryPools, AU32];
     if cb = VK_NULL_HANDLE then mark_oneway_error else do {
     d \<leftarrow> device_of_command_buffer cb;
     ok \<leftarrow> reader_ok;
     left \<leftarrow> reader_remaining;
     if \<not> proc_addr srv d ''vkCmdWriteTimestamp2KHR'' \<or> \<not> live \<or> \<not> ok \<or> left \<noteq> 0 then mark_oneway_error
     else native_unit srv (NativeCall ''vkCmdWriteTimestamp2KHR'' (VNum cb # vs)) }}"

end
