(* ===== verification/RegistryCommand.thy ===== *)
theory RegistryCommand
  imports HandlersCommand
begin

section \<open>What the memory and command handlers guarantee\<close>

text \<open>
  The registration lists of handlers_memory.cpp and handlers_command.cpp, and the judgements of
  every handler on them: requests answer, one-way commands send nothing, all keep ownership.
\<close>

subsection \<open>The shared pieces\<close>

lemma rd_arg_unsent [handler_intros]: "unsent (rd_arg a)"
  by (cases a) (simp_all add: rd_arg_def handler_intros)

lemma rd_arg_keeps [handler_intros]: "keeps D (rd_arg a)"
  by (cases a) (auto simp: rd_arg_def intro!: handler_intros keeps_bind)

lemma shared_unsent [handler_intros]:
  "unsent rd_command_buffer" "unsent (native_unit srv c)" "unsent (native_checked srv c)"
  "unsent (device_of_command_buffer cb)" "unsent (cmd_looked_up srv name cb vs)" "unsent (rd_regions srv read_fn count)"
  "unsent (rd_barriers srv read_fn)" "unsent (rd_barriers_after before srv read_fn)" "unsent (rd_wait_barriers srv read_fn b)"
  "unsent (put_raw bs)" "unsent (write_memory_requirements r)" "unsent (put_sparse_requirements r n)"
  "unsent (map_transfer_upload srv m off sz up)" "unsent (map_transfer_download srv m off sz)"
  unfolding rd_command_buffer_def native_unit_def native_checked_def device_of_command_buffer_def
    cmd_looked_up_def rd_regions_def rd_barriers_def rd_barriers_after_def rd_wait_barriers_def put_raw_def
    write_memory_requirements_def put_sparse_requirements_def map_transfer_upload_def map_transfer_download_def
  by (rule handler_intros)+

lemma shared_keeps [handler_intros]:
  "keeps D rd_command_buffer" "keeps D (native_unit srv c)" "keeps D (native_checked srv c)"
  "keeps D (device_of_command_buffer cb)" "keeps D (rd_regions srv read_fn count)"
  "keeps D (rd_barriers srv read_fn)" "keeps D (rd_wait_barriers srv read_fn b)"
  "keeps D (put_raw bs)" "keeps D (write_memory_requirements r)" "keeps D (put_sparse_requirements r n)"
  "keeps D (map_transfer_upload srv m off sz up)" "keeps D (map_transfer_download srv m off sz)"
  unfolding rd_command_buffer_def native_unit_def native_checked_def device_of_command_buffer_def
    rd_regions_def rd_barriers_def rd_wait_barriers_def put_raw_def
    write_memory_requirements_def put_sparse_requirements_def map_transfer_upload_def map_transfer_download_def
  by (rule keeps_bind | rule handler_intros | simp)+

lemma shared_keeps2 [handler_intros]:
  "keeps D (cmd_looked_up srv name cb vs)" "keeps D (rd_barriers_after before srv read_fn)"
  unfolding cmd_looked_up_def rd_barriers_after_def by (rule keeps_bind | rule handler_intros)+

lemma rd_args_unsent [handler_intros]: "unsent (rd_args as)"
  by (induction "as") (simp_all add: handler_intros)

lemma rd_args_keeps [handler_intros]: "keeps D (rd_args as)"
  by (induction "as") (auto intro!: handler_intros keeps_bind)

lemma rd_structs_unsent [handler_intros]: "unsent (rd_structs srv names)"
  by (induction names) (simp_all add: handler_intros)

lemma rd_structs_keeps [handler_intros]: "keeps D (rd_structs srv names)"
  by (induction names) (auto intro!: handler_intros keeps_bind)

lemma put_all_unsent [handler_intros]: "(\<And>x. unsent (f x)) \<Longrightarrow> unsent (put_all f xs)"
  by (induction xs) (simp_all add: handler_intros)

lemma put_all_keeps [handler_intros]: "(\<And>x. keeps D (f x)) \<Longrightarrow> keeps D (put_all f xs)"
  by (induction xs) (auto intro!: handler_intros keeps_bind)

lemma take_command_buffers_unsent [handler_intros]: "unsent (take_command_buffers is)"
  by (induction "is") (simp_all add: handler_intros)

lemma take_command_buffers_keeps [handler_intros]: "keeps D (take_command_buffers is)"
  by (induction "is") (auto intro!: handler_intros keeps_bind)

lemma add_command_buffers_unsent [handler_intros]: "unsent (add_command_buffers success d cbs)"
  by (induction cbs) (simp_all add: handler_intros)

lemma add_command_buffers_keeps [handler_intros]: "d \<in> D \<Longrightarrow> d \<noteq> 0 \<Longrightarrow> keeps D (add_command_buffers success d cbs)"
  by (induction cbs) (auto intro!: handler_intros keeps_bind)

lemma sparse_tail [handler_intros]:
  "answers (sparse_requirements_tail srv d i name f)" "keeps D (sparse_requirements_tail srv d i name f)"
  unfolding sparse_requirements_tail_def by (rule keeps_bind | rule handler_intros)+

subsection \<open>Registration\<close>

definition memory_requests :: "Server \<Rightarrow> (string \<times> unit handler) list" where
  "memory_requests srv = [
     (''vkAllocateMemory'', handle_AllocateMemory srv),
     (''FlushMappedMemory'', handle_FlushMappedMemory srv),
     (''DownloadMappedMemory'', handle_DownloadMappedMemory srv),
     (''vkBindBufferMemory'', handle_BindBufferMemory srv),
     (''vkBindImageMemory'', handle_BindImageMemory srv),
     (''vkGetBufferMemoryRequirements'', handle_GetBufferMemoryRequirements srv),
     (''vkGetImageMemoryRequirements'', handle_GetImageMemoryRequirements srv),
     (''vkGetDeviceMemoryCommitment'', handle_GetDeviceMemoryCommitment srv),
     (''vkGetImageSparseMemoryRequirements'', handle_GetImageSparseMemoryRequirements srv),
     (''vkBindBufferMemory2'', handle_BindBufferMemory2 srv),
     (''vkBindImageMemory2'', handle_BindImageMemory2 srv),
     (''vkGetBufferMemoryRequirements2'', handle_GetBufferMemoryRequirements2 srv),
     (''vkGetImageMemoryRequirements2'', handle_GetImageMemoryRequirements2 srv),
     (''vkGetImageSparseMemoryRequirements2'', handle_GetImageSparseMemoryRequirements2 srv),
     (''vkGetBufferDeviceAddress'', handle_GetBufferDeviceAddress srv),
     (''vkGetBufferOpaqueCaptureAddress'', handle_GetBufferOpaqueCaptureAddress),
     (''vkGetDeviceMemoryOpaqueCaptureAddress'', handle_GetDeviceMemoryOpaqueCaptureAddress)]"

definition command_requests :: "Server \<Rightarrow> (string \<times> unit handler) list" where
  "command_requests srv = [
     (''vkCreateCommandPool'', handle_CreateCommandPool srv),
     (''vkResetCommandPool'', handle_ResetCommandPool srv)]"

definition command_oneways :: "Server \<Rightarrow> (string \<times> unit handler) list" where
  "command_oneways srv = [
     (''vkFreeMemory'', handle_FreeMemory srv),
     (''vkDestroyCommandPool'', handle_DestroyCommandPool srv),
     (''vkFreeCommandBuffers'', handle_FreeCommandBuffers srv),
     (''vkBeginCommandBuffer'', handle_BeginCommandBuffer srv),
     (''vkEndCommandBuffer'', handle_EndCommandBuffer srv),
     (''vkResetCommandBuffer'', handle_ResetCommandBuffer srv),
     (''vkTrimCommandPool'', handle_TrimCommandPool srv),
     (''vkCmdBeginRenderPass'', handle_CmdBeginRenderPass srv),
     (''vkCmdNextSubpass'', handle_CmdNextSubpass srv),
     (''vkCmdEndRenderPass'', handle_CmdEndRenderPass srv),
     (''vkCmdBeginRenderPass2'', handle_CmdBeginRenderPass2 srv),
     (''vkCmdNextSubpass2'', handle_CmdNextSubpass2 srv),
     (''vkCmdEndRenderPass2'', handle_CmdEndRenderPass2 srv),
     (''vkCmdSetFragmentShadingRateKHR'', handle_CmdSetFragmentShadingRateKHR srv),
     (''vkCmdSetDeviceMask'', handle_CmdSetDeviceMask srv),
     (''vkCmdDispatchBase'', handle_CmdDispatchBase srv),
     (''vkCmdBindPipeline'', handle_CmdBindPipeline srv),
     (''vkCmdBindDescriptorSets'', handle_CmdBindDescriptorSets srv),
     (''vkCmdBindVertexBuffers'', handle_CmdBindVertexBuffers srv),
     (''vkCmdBindIndexBuffer'', handle_CmdBindIndexBuffer srv),
     (''vkCmdSetViewport'', handle_CmdSetViewport srv),
     (''vkCmdSetScissor'', handle_CmdSetScissor srv),
     (''vkCmdDraw'', handle_CmdDraw srv),
     (''vkCmdDispatch'', handle_CmdDispatch srv),
     (''vkCmdDrawIndexed'', handle_CmdDrawIndexed srv),
     (''vkCmdDrawIndirect'', handle_CmdDrawIndirect srv),
     (''vkCmdDrawIndexedIndirect'', handle_CmdDrawIndexedIndirect srv),
     (''vkCmdDrawIndirectCount'', handle_CmdDrawIndirectCount srv),
     (''vkCmdDrawIndexedIndirectCount'', handle_CmdDrawIndexedIndirectCount srv),
     (''vkCmdDispatchIndirect'', handle_CmdDispatchIndirect srv),
     (''vkCmdExecuteCommands'', handle_CmdExecuteCommands srv),
     (''vkCmdBeginQuery'', handle_CmdBeginQuery srv),
     (''vkCmdEndQuery'', handle_CmdEndQuery srv),
     (''vkCmdResetQueryPool'', handle_CmdResetQueryPool srv),
     (''vkCmdWriteTimestamp'', handle_CmdWriteTimestamp srv),
     (''vkCmdCopyQueryPoolResults'', handle_CmdCopyQueryPoolResults srv),
     (''vkCmdSetEvent'', handle_CmdSetEvent srv),
     (''vkCmdResetEvent'', handle_CmdResetEvent srv),
     (''vkCmdSetLineWidth'', handle_CmdSetLineWidth srv),
     (''vkCmdSetDepthBias'', handle_CmdSetDepthBias srv),
     (''vkCmdSetBlendConstants'', handle_CmdSetBlendConstants srv),
     (''vkCmdSetDepthBounds'', handle_CmdSetDepthBounds srv),
     (''vkCmdSetStencilCompareMask'', handle_CmdSetStencilCompareMask srv),
     (''vkCmdSetStencilWriteMask'', handle_CmdSetStencilWriteMask srv),
     (''vkCmdSetStencilReference'', handle_CmdSetStencilReference srv),
     (''vkCmdPipelineBarrier'', handle_CmdPipelineBarrier srv),
     (''vkCmdPipelineBarrier2'', handle_CmdPipelineBarrier2 srv),
     (''vkCmdSetEvent2'', handle_CmdSetEvent2 srv),
     (''vkCmdResetEvent2'', handle_CmdResetEvent2 srv),
     (''vkCmdWaitEvents2'', handle_CmdWaitEvents2 srv),
     (''vkCmdWriteTimestamp2'', handle_CmdWriteTimestamp2 srv),
     (''vkCmdCopyBuffer'', handle_CmdCopyBuffer srv),
     (''vkCmdCopyBufferToImage'', handle_CmdCopyBufferToImage srv),
     (''vkCmdCopyImageToBuffer'', handle_CmdCopyImageToBuffer srv),
     (''vkCmdCopyImage'', handle_CmdCopyImage srv),
     (''vkCmdBlitImage'', handle_CmdBlitImage srv),
     (''vkCmdFillBuffer'', handle_CmdFillBuffer srv),
     (''vkCmdUpdateBuffer'', handle_CmdUpdateBuffer srv),
     (''vkCmdClearColorImage'', handle_CmdClearColorImage srv),
     (''vkCmdClearDepthStencilImage'', handle_CmdClearDepthStencilImage srv),
     (''vkCmdClearAttachments'', handle_CmdClearAttachments srv),
     (''vkCmdResolveImage'', handle_CmdResolveImage srv),
     (''vkCmdWaitEvents'', handle_CmdWaitEvents srv),
     (''vkCmdPushConstants'', handle_CmdPushConstants srv)]"

lemmas memory_defs = handle_AllocateMemory_def handle_FlushMappedMemory_def handle_DownloadMappedMemory_def handle_BindBufferMemory_def
  handle_BindImageMemory_def handle_GetBufferMemoryRequirements_def handle_GetImageMemoryRequirements_def
  handle_GetDeviceMemoryCommitment_def handle_GetImageSparseMemoryRequirements_def handle_BindBufferMemory2_def
  handle_BindImageMemory2_def handle_GetBufferMemoryRequirements2_def handle_GetImageMemoryRequirements2_def
  handle_GetImageSparseMemoryRequirements2_def handle_GetBufferDeviceAddress_def
  handle_GetBufferOpaqueCaptureAddress_def handle_GetDeviceMemoryOpaqueCaptureAddress_def
  bind_memory_def memory_requirements_def opaque_capture_address_def

lemmas command_defs = handle_DestroyCommandPool_def handle_FreeCommandBuffers_def handle_BeginCommandBuffer_def
  handle_EndCommandBuffer_def handle_ResetCommandBuffer_def handle_TrimCommandPool_def handle_CmdBeginRenderPass_def
  handle_CmdNextSubpass_def handle_CmdEndRenderPass_def handle_CmdBeginRenderPass2_def handle_CmdNextSubpass2_def
  handle_CmdEndRenderPass2_def handle_CmdSetFragmentShadingRateKHR_def handle_CmdSetDeviceMask_def
  handle_CmdDispatchBase_def handle_CmdBindPipeline_def handle_CmdBindDescriptorSets_def
  handle_CmdBindVertexBuffers_def handle_CmdBindIndexBuffer_def handle_CmdSetViewport_def handle_CmdSetScissor_def
  handle_CmdDraw_def handle_CmdDispatch_def handle_CmdDrawIndexed_def handle_CmdDrawIndirect_def
  handle_CmdDrawIndexedIndirect_def handle_CmdDrawIndirectCount_def handle_CmdDrawIndexedIndirectCount_def
  handle_CmdDispatchIndirect_def handle_CmdExecuteCommands_def handle_CmdBeginQuery_def handle_CmdEndQuery_def
  handle_CmdResetQueryPool_def handle_CmdWriteTimestamp_def handle_CmdCopyQueryPoolResults_def handle_CmdSetEvent_def
  handle_CmdResetEvent_def handle_CmdSetLineWidth_def handle_CmdSetDepthBias_def handle_CmdSetBlendConstants_def
  handle_CmdSetDepthBounds_def handle_CmdSetStencilCompareMask_def handle_CmdSetStencilWriteMask_def
  handle_CmdSetStencilReference_def handle_CmdPipelineBarrier_def handle_CmdPipelineBarrier2_def
  handle_CmdSetEvent2_def handle_CmdResetEvent2_def handle_CmdWaitEvents2_def handle_CmdWriteTimestamp2_def
  handle_CmdCopyBuffer_def handle_CmdCopyBufferToImage_def handle_CmdCopyImageToBuffer_def handle_CmdCopyImage_def
  handle_CmdBlitImage_def handle_CmdFillBuffer_def handle_CmdUpdateBuffer_def handle_CmdClearColorImage_def
  handle_CmdClearDepthStencilImage_def handle_CmdClearAttachments_def handle_CmdResolveImage_def
  handle_CmdWaitEvents_def handle_CmdPushConstants_def
  cmd_plain_def cmd_ext_def cmd_regions_def cmd_indirect_count_def cmd_subpass2_def handle_FreeMemory_def

subsection \<open>Judgements\<close>

lemma memory_requests_answer: "list_all (\<lambda>(name, m). answers m) (memory_requests srv)"
  unfolding memory_requests_def
  by (simp add: memory_defs split del: if_split) (intro conjI handler_intros)

lemma command_requests_answer: "list_all (\<lambda>(name, m). answers m) (command_requests srv)"
  unfolding command_requests_def
  by (simp add: handle_CreateCommandPool_def handle_ResetCommandPool_def server_create_def split del: if_split)
    (intro conjI handler_intros)

lemma command_oneways_unsent: "list_all (\<lambda>(name, m). unsent m) (command_oneways srv)"
  unfolding command_oneways_def
  by (simp add: command_defs split del: if_split) (intro conjI handler_intros)

lemma memory_requests_keep: "list_all (\<lambda>(name, m). keeps {} m) (memory_requests srv)"
  unfolding memory_requests_def
  apply (simp add: memory_defs split del: if_split)
  apply (intro conjI)
  apply ((rule keeps_bind_device | rule keeps_bind | rule handler_intros | simp)+)
  done

lemma command_requests_keep: "list_all (\<lambda>(name, m). keeps {} m) (command_requests srv)"
  unfolding command_requests_def
  apply (simp add: handle_CreateCommandPool_def handle_ResetCommandPool_def server_create_def split del: if_split)
  apply (intro conjI)
  apply ((rule keeps_bind_device | rule keeps_bind | rule handler_intros | simp)+)
  done

lemma command_oneways_keep: "list_all (\<lambda>(name, m). keeps {} m) (command_oneways srv)"
  unfolding command_oneways_def
  apply (simp add: command_defs split del: if_split)
  apply (intro conjI)
  apply ((rule keeps_bind_device | rule keeps_bind | rule handler_intros | simp)+)
  done

lemma allocate_command_buffers_keeps: "keeps {} (handle_AllocateCommandBuffers srv)"
  unfolding handle_AllocateCommandBuffers_def
  by (rule keeps_bind_device | rule keeps_bind | rule handler_intros | simp)+

lemma allocate_command_buffers_replies: "replies_once (handle_AllocateCommandBuffers srv)"
  unfolding handle_AllocateCommandBuffers_def
  by (intro replies_once_bind handler_intros) (auto split: option.split intro!: replies_once_bind handler_intros
    intro: answers_replies_once unsent_replies_once)

end
