(* ===== verification/FieldCodec.thy ===== *)
theory FieldCodec
  imports Session
begin

section \<open>Field-wise structure codecs (common/marshal.cpp)\<close>

text \<open>
  Where a structure is not copied byte by byte, marshal.cpp writes and reads its fields one after
  another, the writer and the reader listing the same fields in the same order. A list of
  \<open>wire_field\<close>s is such a listing; \<open>w_fields\<close> and \<open>r_fields\<close> are the two functions
  it stands for. The tables of structures built from them are in \<open>PNext\<close> and \<open>QueryCodec\<close>.
\<close>

subsection \<open>Fields\<close>

datatype wire_field =
    FU32 | FI32 | FU64
  | FFalse               \<comment> \<open>a feature the contract hides: written as false whatever its value\<close>
  | FBlob nat            \<comment> \<open>a fixed-size byte array behind a length\<close>
  | FZeros nat           \<comment> \<open>one that is cleared before it is written\<close>
  | FHandle table_kind   \<comment> \<open>an object id, resolved by the reader\<close>
  | FType u32            \<comment> \<open>an embedded sType, checked by the reader\<close>
  | FTag u64             \<comment> \<open>a fixed value checked by the writer and set by the reader, not on the wire\<close>
  | FMasked u32          \<comment> \<open>flags refused outside a mask, by both sides\<close>
  | FOpt "wire_field list"
  | FArray "wire_field list"

text \<open>
  A value is a number, bytes, or a list: a list of rows for an array, no or one row for an optional
  structure. \<open>None\<close> is the writer's refusal. A null array with a count, which the writers refuse,
  is a value of the wrong shape.
\<close>

fun bytes_of :: "vk \<Rightarrow> bytes option" where
  "bytes_of (VBytes b) = Some b"
| "bytes_of v = None"

fun opt_of :: "vk \<Rightarrow> vk list option option" where
  "opt_of (VList []) = Some None"
| "opt_of (VList [VList vs]) = Some (Some vs)"
| "opt_of v = None"

function w_field :: "wire_field \<Rightarrow> vk \<Rightarrow> bytes option"
  and w_fields :: "wire_field list \<Rightarrow> vk list \<Rightarrow> bytes option"
  and w_rows :: "wire_field list \<Rightarrow> vk list \<Rightarrow> bytes option" where
  "w_field FU32 v = map_option (\<lambda>x. le_bytes 4 (ucast x :: u32)) (num_of v)"
| "w_field FI32 v = map_option (\<lambda>x. le_bytes 4 (ucast x :: u32)) (num_of v)"
| "w_field FU64 v = map_option (le_bytes 8) (num_of v)"
| "w_field FFalse v = map_option (\<lambda>x. le_bytes 4 (0 :: u32)) (num_of v)"
| "w_field (FBlob n) v = map_option blob (bytes_of v)"
| "w_field (FZeros n) v = map_option (\<lambda>b. blob (replicate n 0)) (bytes_of v)"
| "w_field (FHandle k) v = map_option (le_bytes 8) (num_of v)"
| "w_field (FType t) v = map_option (\<lambda>x. le_bytes 4 (ucast x :: u32)) (num_of v)"
| "w_field (FTag t) v = (if num_of v = Some t then Some [] else None)"
| "w_field (FMasked m) v = (case num_of v of None \<Rightarrow> None
     | Some x \<Rightarrow> if (ucast x :: u32) AND NOT m \<noteq> 0 then None else Some (le_bytes 4 (ucast x :: u32)))"
| "w_field (FOpt fs) v = (case opt_of v of None \<Rightarrow> None
     | Some None \<Rightarrow> Some (le_bytes 4 (0 :: u32))
     | Some (Some vs) \<Rightarrow> map_option ((@) (le_bytes 4 (1 :: u32))) (w_fields fs vs))"
| "w_field (FArray fs) v = (case list_of v of None \<Rightarrow> None
     | Some rows \<Rightarrow> if length rows > unat kMaxArrayElements then None
         else map_option ((@) (le_bytes 4 (of_nat (length rows) :: u32))) (w_rows fs rows))"
| "w_fields [] vs = (if vs = [] then Some [] else None)"
| "w_fields (f # fs) vs = (case vs of [] \<Rightarrow> None
     | v # vs' \<Rightarrow> (case w_field f v of None \<Rightarrow> None | Some b \<Rightarrow> map_option ((@) b) (w_fields fs vs')))"
| "w_rows fs [] = Some []"
| "w_rows fs (v # rows) = (case list_of v of None \<Rightarrow> None
     | Some vs \<Rightarrow> (case w_fields fs vs of None \<Rightarrow> None | Some b \<Rightarrow> map_option ((@) b) (w_rows fs rows)))"
  by pat_completeness auto
termination
  by (relation "measures [\<lambda>x. case x of Inl (f, v) \<Rightarrow> 2 * size f | Inr (Inl (fs, vs)) \<Rightarrow> 2 * size_list size fs
      | Inr (Inr (fs, rows)) \<Rightarrow> 2 * size_list size fs + 1,
      \<lambda>x. case x of Inl (f, v) \<Rightarrow> 0 | Inr (Inl (fs, vs)) \<Rightarrow> 0 | Inr (Inr (fs, rows)) \<Rightarrow> length rows]") auto

text \<open>The reader; \<open>res\<close> is the \<open>HandleResolver\<close>. A refusal is \<open>None\<close>, a short message a failed reader.\<close>

type_synonym resolver = "table_kind \<Rightarrow> u64 \<Rightarrow> u64"

definition r_blob :: "nat \<Rightarrow> Reader \<Rightarrow> vk option \<times> Reader" where
  "r_blob n r = (case r_bytes n r of
       (Some b, r1) \<Rightarrow> (if length b \<noteq> n then None else Some (VBytes b), r1)
     | (None, r1) \<Rightarrow> (None, r1))"

function r_field :: "resolver \<Rightarrow> wire_field \<Rightarrow> Reader \<Rightarrow> vk option \<times> Reader"
  and r_fields :: "resolver \<Rightarrow> wire_field list \<Rightarrow> Reader \<Rightarrow> vk list option \<times> Reader"
  and r_rows :: "resolver \<Rightarrow> wire_field list \<Rightarrow> nat \<Rightarrow> Reader \<Rightarrow> vk list option \<times> Reader" where
  "r_field res FU32 r = (let (v, r1) = r_u32 r in (Some (VNum (ucast v)), r1))"
| "r_field res FI32 r = (let (v, r1) = r_i32 r in (Some (VNum (ucast v)), r1))"
| "r_field res FU64 r = (let (v, r1) = r_u64 r in (Some (VNum v), r1))"
| "r_field res FFalse r = (let (v, r1) = r_u32 r in (Some (VNum (ucast v)), r1))"
| "r_field res (FBlob n) r = r_blob n r"
| "r_field res (FZeros n) r = r_blob n r"
| "r_field res (FHandle k) r = (let (v, r1) = r_handle r in (Some (VNum (if v = 0 then 0 else res k v)), r1))"
| "r_field res (FType t) r = (let (v, r1) = r_i32 r in (if v = t then Some (VNum (ucast v)) else None, r1))"
| "r_field res (FTag t) r = (Some (VNum t), r)"
| "r_field res (FMasked m) r = (let (v, r1) = r_u32 r in (if v AND NOT m \<noteq> 0 then None else Some (VNum (ucast v)), r1))"
| "r_field res (FOpt fs) r =
     (let (present, r1) = r_u32 r in
      if \<not> r_ok r1 \<or> present > 1 then (None, r1)
      else if present = 0 then (Some (VList []), r1)
      else case r_fields res fs r1 of (None, r2) \<Rightarrow> (None, r2) | (Some vs, r2) \<Rightarrow> (Some (VList [VList vs]), r2))"
| "r_field res (FArray fs) r =
     (let (count, r1) = r_u32 r in
      if \<not> r_ok r1 \<or> count > kMaxArrayElements then (None, r1)
      else case r_rows res fs (unat count) r1 of (None, r2) \<Rightarrow> (None, r2) | (Some rows, r2) \<Rightarrow> (Some (VList rows), r2))"
| "r_fields res [] r = (Some [], r)"
| "r_fields res (f # fs) r =
     (case r_field res f r of (None, r1) \<Rightarrow> (None, r1)
      | (Some v, r1) \<Rightarrow> (case r_fields res fs r1 of (None, r2) \<Rightarrow> (None, r2) | (Some vs, r2) \<Rightarrow> (Some (v # vs), r2)))"
| "r_rows res fs 0 r = (Some [], r)"
| "r_rows res fs (Suc n) r =
     (case r_fields res fs r of (None, r1) \<Rightarrow> (None, r1)
      | (Some vs, r1) \<Rightarrow> (case r_rows res fs n r1 of (None, r2) \<Rightarrow> (None, r2) | (Some rows, r2) \<Rightarrow> (Some (VList vs # rows), r2)))"
  by pat_completeness auto
termination
  by (relation "measures [\<lambda>x. case x of Inl (res, f, r) \<Rightarrow> 2 * size f | Inr (Inl (res, fs, r)) \<Rightarrow> 2 * size_list size fs
      | Inr (Inr (res, fs, n, r)) \<Rightarrow> 2 * size_list size fs + 1,
      \<lambda>x. case x of Inl (res, f, r) \<Rightarrow> 0 | Inr (Inl (res, fs, r)) \<Rightarrow> 0 | Inr (Inr (res, fs, n, r)) \<Rightarrow> n]") auto

subsection \<open>What the receiver is meant to see\<close>

function view_field :: "resolver \<Rightarrow> wire_field \<Rightarrow> vk \<Rightarrow> vk"
  and view_fields :: "resolver \<Rightarrow> wire_field list \<Rightarrow> vk list \<Rightarrow> vk list"
  and view_rows :: "resolver \<Rightarrow> wire_field list \<Rightarrow> vk list \<Rightarrow> vk list" where
  "view_field res FU32 v = v" | "view_field res FI32 v = v" | "view_field res FU64 v = v"
| "view_field res (FBlob n) v = v" | "view_field res (FType t) v = v" | "view_field res (FMasked m) v = v" | "view_field res (FTag t) v = v"
| "view_field res FFalse v = VNum 0"
| "view_field res (FZeros n) v = VBytes (replicate n 0)"
| "view_field res (FHandle k) v = (case num_of v of Some x \<Rightarrow> VNum (if x = 0 then 0 else res k x) | None \<Rightarrow> v)"
| "view_field res (FOpt fs) v = (case opt_of v of Some (Some vs) \<Rightarrow> VList [VList (view_fields res fs vs)] | _ \<Rightarrow> v)"
| "view_field res (FArray fs) v = (case list_of v of Some rows \<Rightarrow> VList (view_rows res fs rows) | None \<Rightarrow> v)"
| "view_fields res [] vs = []"
| "view_fields res (f # fs) vs = (case vs of [] \<Rightarrow> [] | v # vs' \<Rightarrow> view_field res f v # view_fields res fs vs')"
| "view_rows res fs [] = []"
| "view_rows res fs (v # rows) = (case list_of v of Some vs \<Rightarrow> VList (view_fields res fs vs) | None \<Rightarrow> v) # view_rows res fs rows"
  by pat_completeness auto
termination
  by (relation "measures [\<lambda>x. case x of Inl (res, f, v) \<Rightarrow> 2 * size f | Inr (Inl (res, fs, vs)) \<Rightarrow> 2 * size_list size fs
      | Inr (Inr (res, fs, rows)) \<Rightarrow> 2 * size_list size fs + 1,
      \<lambda>x. case x of Inl (res, f, v) \<Rightarrow> 0 | Inr (Inl (res, fs, vs)) \<Rightarrow> 0 | Inr (Inr (res, fs, rows)) \<Rightarrow> length rows]") auto

text \<open>Values of the C types of the fields: 32-bit numbers fit, byte arrays have their size, an embedded sType is right.\<close>

function typed_field :: "wire_field \<Rightarrow> vk \<Rightarrow> bool"
  and typed_fields :: "wire_field list \<Rightarrow> vk list \<Rightarrow> bool"
  and typed_rows :: "wire_field list \<Rightarrow> vk list \<Rightarrow> bool" where
  "typed_field FU32 v \<longleftrightarrow> (case num_of v of Some x \<Rightarrow> unat x < 2 ^ 32 | None \<Rightarrow> False)"
| "typed_field FI32 v \<longleftrightarrow> (case num_of v of Some x \<Rightarrow> unat x < 2 ^ 32 | None \<Rightarrow> False)"
| "typed_field (FMasked m) v \<longleftrightarrow> (case num_of v of Some x \<Rightarrow> unat x < 2 ^ 32 | None \<Rightarrow> False)"
| "typed_field FU64 v \<longleftrightarrow> num_of v \<noteq> None"
| "typed_field FFalse v \<longleftrightarrow> num_of v \<noteq> None"
| "typed_field (FHandle k) v \<longleftrightarrow> num_of v \<noteq> None"
| "typed_field (FBlob n) v \<longleftrightarrow> (case bytes_of v of Some b \<Rightarrow> length b = n \<and> n < 2 ^ 32 | None \<Rightarrow> False)"
| "typed_field (FZeros n) v \<longleftrightarrow> bytes_of v \<noteq> None \<and> n < 2 ^ 32"
| "typed_field (FType t) v \<longleftrightarrow> num_of v = Some (ucast t)"
| "typed_field (FTag t) v \<longleftrightarrow> num_of v \<noteq> None"
| "typed_field (FOpt fs) v \<longleftrightarrow> (case opt_of v of None \<Rightarrow> False | Some None \<Rightarrow> True | Some (Some vs) \<Rightarrow> typed_fields fs vs)"
| "typed_field (FArray fs) v \<longleftrightarrow> (case list_of v of None \<Rightarrow> False | Some rows \<Rightarrow> typed_rows fs rows)"
| "typed_fields [] vs \<longleftrightarrow> vs = []"
| "typed_fields (f # fs) vs \<longleftrightarrow> (case vs of [] \<Rightarrow> False | v # vs' \<Rightarrow> typed_field f v \<and> typed_fields fs vs')"
| "typed_rows fs [] \<longleftrightarrow> True"
| "typed_rows fs (v # rows) \<longleftrightarrow> (case list_of v of None \<Rightarrow> False | Some vs \<Rightarrow> typed_fields fs vs) \<and> typed_rows fs rows"
  by pat_completeness auto
termination
  by (relation "measures [\<lambda>x. case x of Inl (f, v) \<Rightarrow> 2 * size f | Inr (Inl (fs, vs)) \<Rightarrow> 2 * size_list size fs
      | Inr (Inr (fs, rows)) \<Rightarrow> 2 * size_list size fs + 1,
      \<lambda>x. case x of Inl (f, v) \<Rightarrow> 0 | Inr (Inl (fs, vs)) \<Rightarrow> 0 | Inr (Inr (fs, rows)) \<Rightarrow> length rows]") auto

subsection \<open>Round trip\<close>

lemma ucast_down_up: "unat (v :: u64) < 2 ^ 32 \<Longrightarrow> ucast (ucast v :: u32) = v"
  by (simp add: word_unat_eq_iff unsigned_ucast_eq unsigned_take_bit_eq take_bit_nat_eq_self)

lemma ucast_up_down: "(ucast (ucast (t :: u32) :: u64) :: u32) = t"
  by (rule bit_word_eqI) (simp add: bit_simps)

lemma num_of_some: "num_of v = Some x \<longleftrightarrow> v = VNum x"
  by (cases v) auto

lemma bytes_of_some: "bytes_of v = Some b \<longleftrightarrow> v = VBytes b"
  by (cases v) auto

lemma list_of_some: "list_of v = Some vs \<longleftrightarrow> v = VList vs"
  by (cases v) auto

lemma opt_of_some: "opt_of v = Some None \<longleftrightarrow> v = VList []" "opt_of v = Some (Some vs) \<longleftrightarrow> v = VList [VList vs]"
  by (cases v rule: opt_of.cases; auto)+

lemmas value_some = num_of_some bytes_of_some list_of_some opt_of_some

lemma kMaxArrayElements_nat: "unat kMaxArrayElements = 2 ^ 20"
  by (simp add: kMaxArrayElements_def)

lemma count_word: "n \<le> unat kMaxArrayElements \<Longrightarrow> unat (of_nat n :: u32) = n \<and> \<not> (of_nat n :: u32) > kMaxArrayElements"
  by (simp add: unat_of_nat_small kMaxArrayElements_nat not_less word_le_nat_alt)

lemma field_roundtrip:
  "w_field f v = Some b \<Longrightarrow> typed_field f v \<Longrightarrow>
     r_field res f (Reader_at pre (b @ rest)) = (Some (view_field res f v), Reader_at (pre @ b) rest)"
  "w_fields fs vs = Some bs \<Longrightarrow> typed_fields fs vs \<Longrightarrow>
     r_fields res fs (Reader_at pre (bs @ rest)) = (Some (view_fields res fs vs), Reader_at (pre @ bs) rest)"
  "w_rows fs rows = Some bs \<Longrightarrow> typed_rows fs rows \<Longrightarrow>
     r_rows res fs (length rows) (Reader_at pre (bs @ rest)) = (Some (view_rows res fs rows), Reader_at (pre @ bs) rest)"
proof (induction f v and fs vs and fs rows arbitrary: b pre rest and bs pre rest and bs pre rest rule: w_field_w_fields_w_rows.induct)
  case (11 fs v)
  then show ?case by (auto simp: value_some reader_simps split: option.splits)
next
  case (12 fs v)
  then show ?case using count_word by (auto simp: value_some reader_simps split: option.splits if_splits)
next
  case (14 f fs vs)
  then show ?case by (fastforce split: list.splits option.splits)
next
  case (16 fs v rows)
  then show ?case by (fastforce simp: value_some split: option.splits)
qed (auto simp: value_some reader_simps r_blob_def ucast_down_up ucast_up_down split: option.splits if_splits)

subsection \<open>Bounds\<close>

lemma r_blob_advances: "reader_inv r \<Longrightarrow> r_advances r (snd (r_blob n r))"
  using r_bytes_advances [of r n] by (auto simp: r_blob_def split: prod.splits option.splits)

lemma word_advances: "reader_inv r \<Longrightarrow> r_advances r (snd (r_u32 r))" "reader_inv r \<Longrightarrow> r_advances r (snd (r_i32 r))"
  "reader_inv r \<Longrightarrow> r_advances r (snd (r_u64 r))" "reader_inv r \<Longrightarrow> r_advances r (snd (r_handle r))"
  by (simp_all add: r_u32_def r_i32_def r_u64_def r_handle_def r_read_advances)

lemma field_advances:
  "reader_inv r \<Longrightarrow> r_advances r (snd (r_field res f r))"
  "reader_inv r \<Longrightarrow> r_advances r (snd (r_fields res fs r))"
  "reader_inv r \<Longrightarrow> r_advances r (snd (r_rows res fs n r))"
proof (induction res f r and res fs r and res fs n r rule: r_field_r_fields_r_rows.induct)
  case (11 res fs r)
  obtain v r1 where v: "r_u32 r = (v, r1)" by fastforce
  have a: "r_advances r r1" using word_advances(1) [OF 11(2)] v by simp
  show ?case using 11(1) [OF v [symmetric] refl] v a r_advances_inv [OF a] r_advances_trans [OF a]
    by (auto split: prod.splits option.splits)
next
  case (12 res fs r)
  obtain v r1 where v: "r_u32 r = (v, r1)" by fastforce
  have a: "r_advances r r1" using word_advances(1) [OF 12(2)] v by simp
  show ?case using 12(1) [OF v [symmetric] refl] v a r_advances_inv [OF a] r_advances_trans [OF a]
    by (auto split: prod.splits option.splits)
next
  case (14 res f fs r)
  obtain v r1 where v: "r_field res f r = (v, r1)" by fastforce
  have a: "r_advances r r1" using 14(1,3) v by simp
  show ?case using 14(2) [OF v [symmetric]] v a r_advances_inv [OF a] r_advances_trans [OF a]
    by (auto split: prod.splits option.splits)
next
  case (16 res fs n r)
  obtain v r1 where v: "r_fields res fs r = (v, r1)" by fastforce
  have a: "r_advances r r1" using 16(1,3) v by simp
  show ?case using 16(2) [OF v [symmetric]] v a r_advances_inv [OF a] r_advances_trans [OF a]
    by (auto split: prod.splits option.splits)
qed (auto simp: r_advances_refl Let_def split: prod.splits intro: r_blob_advances dest: word_advances)

end
