(* ===== verification/PNext.thy ===== *)
theory PNext
  imports FieldCodec
begin

section \<open>Extension chains (common/marshal.cpp, the pNext codec)\<close>

text \<open>
  A pNext chain is a list of nodes, each a structure type and the values of its fields. The tables
  below are the three switches of marshal.cpp over the structure types: which types a context admits
  (\<open>pnext_types\<close>), how large the structure is (\<open>node_sizes\<close>, the \<open>sizeof\<close> of the Vulkan
  headers on a 64-bit target) and which fields are written and read (\<open>node_fields\<close>). Shown: the
  tables agree with each other, a chain that is written is read back, what is read is a chain the
  context admits, and a query chain comes back to the caller with the values the driver stored.
\<close>

subsection \<open>Structure types\<close>

abbreviation VK_STRUCTURE_TYPE_PHYSICAL_DEVICE_FEATURES_2 :: u32
  where "VK_STRUCTURE_TYPE_PHYSICAL_DEVICE_FEATURES_2 \<equiv> 1000059000"
abbreviation VK_STRUCTURE_TYPE_PHYSICAL_DEVICE_VULKAN_1_1_FEATURES :: u32
  where "VK_STRUCTURE_TYPE_PHYSICAL_DEVICE_VULKAN_1_1_FEATURES \<equiv> 49"
abbreviation VK_STRUCTURE_TYPE_PHYSICAL_DEVICE_VULKAN_1_1_PROPERTIES :: u32
  where "VK_STRUCTURE_TYPE_PHYSICAL_DEVICE_VULKAN_1_1_PROPERTIES \<equiv> 50"
abbreviation VK_STRUCTURE_TYPE_PHYSICAL_DEVICE_VULKAN_1_2_FEATURES :: u32
  where "VK_STRUCTURE_TYPE_PHYSICAL_DEVICE_VULKAN_1_2_FEATURES \<equiv> 51"
abbreviation VK_STRUCTURE_TYPE_PHYSICAL_DEVICE_VULKAN_1_2_PROPERTIES :: u32
  where "VK_STRUCTURE_TYPE_PHYSICAL_DEVICE_VULKAN_1_2_PROPERTIES \<equiv> 52"
abbreviation VK_STRUCTURE_TYPE_PHYSICAL_DEVICE_HOST_QUERY_RESET_FEATURES :: u32
  where "VK_STRUCTURE_TYPE_PHYSICAL_DEVICE_HOST_QUERY_RESET_FEATURES \<equiv> 1000261000"
abbreviation VK_STRUCTURE_TYPE_PHYSICAL_DEVICE_TIMELINE_SEMAPHORE_FEATURES :: u32
  where "VK_STRUCTURE_TYPE_PHYSICAL_DEVICE_TIMELINE_SEMAPHORE_FEATURES \<equiv> 1000207000"
abbreviation VK_STRUCTURE_TYPE_PHYSICAL_DEVICE_SYNCHRONIZATION_2_FEATURES :: u32
  where "VK_STRUCTURE_TYPE_PHYSICAL_DEVICE_SYNCHRONIZATION_2_FEATURES \<equiv> 1000314007"
abbreviation VK_STRUCTURE_TYPE_PHYSICAL_DEVICE_TIMELINE_SEMAPHORE_PROPERTIES :: u32
  where "VK_STRUCTURE_TYPE_PHYSICAL_DEVICE_TIMELINE_SEMAPHORE_PROPERTIES \<equiv> 1000207001"
abbreviation VK_STRUCTURE_TYPE_PHYSICAL_DEVICE_BUFFER_DEVICE_ADDRESS_FEATURES :: u32
  where "VK_STRUCTURE_TYPE_PHYSICAL_DEVICE_BUFFER_DEVICE_ADDRESS_FEATURES \<equiv> 1000257000"
abbreviation VK_STRUCTURE_TYPE_PHYSICAL_DEVICE_DESCRIPTOR_INDEXING_FEATURES :: u32
  where "VK_STRUCTURE_TYPE_PHYSICAL_DEVICE_DESCRIPTOR_INDEXING_FEATURES \<equiv> 1000161001"
abbreviation VK_STRUCTURE_TYPE_PHYSICAL_DEVICE_DESCRIPTOR_INDEXING_PROPERTIES :: u32
  where "VK_STRUCTURE_TYPE_PHYSICAL_DEVICE_DESCRIPTOR_INDEXING_PROPERTIES \<equiv> 1000161002"
abbreviation VK_STRUCTURE_TYPE_PHYSICAL_DEVICE_SEPARATE_DEPTH_STENCIL_LAYOUTS_FEATURES :: u32
  where "VK_STRUCTURE_TYPE_PHYSICAL_DEVICE_SEPARATE_DEPTH_STENCIL_LAYOUTS_FEATURES \<equiv> 1000241000"
abbreviation VK_STRUCTURE_TYPE_PHYSICAL_DEVICE_DEPTH_STENCIL_RESOLVE_PROPERTIES :: u32
  where "VK_STRUCTURE_TYPE_PHYSICAL_DEVICE_DEPTH_STENCIL_RESOLVE_PROPERTIES \<equiv> 1000199000"
abbreviation VK_STRUCTURE_TYPE_PHYSICAL_DEVICE_PROTECTED_MEMORY_FEATURES :: u32
  where "VK_STRUCTURE_TYPE_PHYSICAL_DEVICE_PROTECTED_MEMORY_FEATURES \<equiv> 1000145001"
abbreviation VK_STRUCTURE_TYPE_PHYSICAL_DEVICE_SAMPLER_YCBCR_CONVERSION_FEATURES :: u32
  where "VK_STRUCTURE_TYPE_PHYSICAL_DEVICE_SAMPLER_YCBCR_CONVERSION_FEATURES \<equiv> 1000156004"
abbreviation VK_STRUCTURE_TYPE_PHYSICAL_DEVICE_SUBGROUP_PROPERTIES :: u32
  where "VK_STRUCTURE_TYPE_PHYSICAL_DEVICE_SUBGROUP_PROPERTIES \<equiv> 1000094000"
abbreviation VK_STRUCTURE_TYPE_PHYSICAL_DEVICE_ID_PROPERTIES :: u32
  where "VK_STRUCTURE_TYPE_PHYSICAL_DEVICE_ID_PROPERTIES \<equiv> 1000071004"
abbreviation VK_STRUCTURE_TYPE_PHYSICAL_DEVICE_PROTECTED_MEMORY_PROPERTIES :: u32
  where "VK_STRUCTURE_TYPE_PHYSICAL_DEVICE_PROTECTED_MEMORY_PROPERTIES \<equiv> 1000145002"
abbreviation VK_STRUCTURE_TYPE_PHYSICAL_DEVICE_MAINTENANCE_3_PROPERTIES :: u32
  where "VK_STRUCTURE_TYPE_PHYSICAL_DEVICE_MAINTENANCE_3_PROPERTIES \<equiv> 1000168000"
abbreviation VK_STRUCTURE_TYPE_PHYSICAL_DEVICE_FRAGMENT_SHADING_RATE_FEATURES_KHR :: u32
  where "VK_STRUCTURE_TYPE_PHYSICAL_DEVICE_FRAGMENT_SHADING_RATE_FEATURES_KHR \<equiv> 1000226003"
abbreviation VK_STRUCTURE_TYPE_PHYSICAL_DEVICE_FRAGMENT_SHADING_RATE_PROPERTIES_KHR :: u32
  where "VK_STRUCTURE_TYPE_PHYSICAL_DEVICE_FRAGMENT_SHADING_RATE_PROPERTIES_KHR \<equiv> 1000226002"
abbreviation VK_STRUCTURE_TYPE_PHYSICAL_DEVICE_IMAGELESS_FRAMEBUFFER_FEATURES :: u32
  where "VK_STRUCTURE_TYPE_PHYSICAL_DEVICE_IMAGELESS_FRAMEBUFFER_FEATURES \<equiv> 1000108000"
abbreviation VK_STRUCTURE_TYPE_PHYSICAL_DEVICE_MULTIVIEW_FEATURES :: u32
  where "VK_STRUCTURE_TYPE_PHYSICAL_DEVICE_MULTIVIEW_FEATURES \<equiv> 1000053001"
abbreviation VK_STRUCTURE_TYPE_PHYSICAL_DEVICE_MULTIVIEW_PROPERTIES :: u32
  where "VK_STRUCTURE_TYPE_PHYSICAL_DEVICE_MULTIVIEW_PROPERTIES \<equiv> 1000053002"
abbreviation VK_STRUCTURE_TYPE_PHYSICAL_DEVICE_POINT_CLIPPING_PROPERTIES :: u32
  where "VK_STRUCTURE_TYPE_PHYSICAL_DEVICE_POINT_CLIPPING_PROPERTIES \<equiv> 1000117000"
abbreviation VK_STRUCTURE_TYPE_RENDER_PASS_INPUT_ATTACHMENT_ASPECT_CREATE_INFO :: u32
  where "VK_STRUCTURE_TYPE_RENDER_PASS_INPUT_ATTACHMENT_ASPECT_CREATE_INFO \<equiv> 1000117001"
abbreviation VK_STRUCTURE_TYPE_RENDER_PASS_MULTIVIEW_CREATE_INFO :: u32
  where "VK_STRUCTURE_TYPE_RENDER_PASS_MULTIVIEW_CREATE_INFO \<equiv> 1000053000"
abbreviation VK_STRUCTURE_TYPE_FRAGMENT_SHADING_RATE_ATTACHMENT_INFO_KHR :: u32
  where "VK_STRUCTURE_TYPE_FRAGMENT_SHADING_RATE_ATTACHMENT_INFO_KHR \<equiv> 1000226000"
abbreviation VK_STRUCTURE_TYPE_PIPELINE_FRAGMENT_SHADING_RATE_STATE_CREATE_INFO_KHR :: u32
  where "VK_STRUCTURE_TYPE_PIPELINE_FRAGMENT_SHADING_RATE_STATE_CREATE_INFO_KHR \<equiv> 1000226001"
abbreviation VK_STRUCTURE_TYPE_PIPELINE_TESSELLATION_DOMAIN_ORIGIN_STATE_CREATE_INFO :: u32
  where "VK_STRUCTURE_TYPE_PIPELINE_TESSELLATION_DOMAIN_ORIGIN_STATE_CREATE_INFO \<equiv> 1000117003"
abbreviation VK_STRUCTURE_TYPE_IMAGE_FORMAT_LIST_CREATE_INFO :: u32
  where "VK_STRUCTURE_TYPE_IMAGE_FORMAT_LIST_CREATE_INFO \<equiv> 1000147000"
abbreviation VK_STRUCTURE_TYPE_IMAGE_VIEW_USAGE_CREATE_INFO :: u32
  where "VK_STRUCTURE_TYPE_IMAGE_VIEW_USAGE_CREATE_INFO \<equiv> 1000117002"
abbreviation VK_STRUCTURE_TYPE_SAMPLER_YCBCR_CONVERSION_INFO :: u32
  where "VK_STRUCTURE_TYPE_SAMPLER_YCBCR_CONVERSION_INFO \<equiv> 1000156001"
abbreviation VK_STRUCTURE_TYPE_SAMPLER_YCBCR_CONVERSION_IMAGE_FORMAT_PROPERTIES :: u32
  where "VK_STRUCTURE_TYPE_SAMPLER_YCBCR_CONVERSION_IMAGE_FORMAT_PROPERTIES \<equiv> 1000156005"
abbreviation VK_STRUCTURE_TYPE_IMAGE_PLANE_MEMORY_REQUIREMENTS_INFO :: u32
  where "VK_STRUCTURE_TYPE_IMAGE_PLANE_MEMORY_REQUIREMENTS_INFO \<equiv> 1000156003"
abbreviation VK_STRUCTURE_TYPE_MEMORY_DEDICATED_REQUIREMENTS :: u32
  where "VK_STRUCTURE_TYPE_MEMORY_DEDICATED_REQUIREMENTS \<equiv> 1000127000"
abbreviation VK_STRUCTURE_TYPE_BIND_IMAGE_PLANE_MEMORY_INFO :: u32
  where "VK_STRUCTURE_TYPE_BIND_IMAGE_PLANE_MEMORY_INFO \<equiv> 1000156002"
abbreviation VK_STRUCTURE_TYPE_FRAMEBUFFER_ATTACHMENTS_CREATE_INFO :: u32
  where "VK_STRUCTURE_TYPE_FRAMEBUFFER_ATTACHMENTS_CREATE_INFO \<equiv> 1000108001"
abbreviation VK_STRUCTURE_TYPE_RENDER_PASS_ATTACHMENT_BEGIN_INFO :: u32
  where "VK_STRUCTURE_TYPE_RENDER_PASS_ATTACHMENT_BEGIN_INFO \<equiv> 1000108003"
abbreviation VK_STRUCTURE_TYPE_SEMAPHORE_TYPE_CREATE_INFO :: u32
  where "VK_STRUCTURE_TYPE_SEMAPHORE_TYPE_CREATE_INFO \<equiv> 1000207002"
abbreviation VK_STRUCTURE_TYPE_TIMELINE_SEMAPHORE_SUBMIT_INFO :: u32
  where "VK_STRUCTURE_TYPE_TIMELINE_SEMAPHORE_SUBMIT_INFO \<equiv> 1000207003"
abbreviation VK_STRUCTURE_TYPE_BUFFER_OPAQUE_CAPTURE_ADDRESS_CREATE_INFO :: u32
  where "VK_STRUCTURE_TYPE_BUFFER_OPAQUE_CAPTURE_ADDRESS_CREATE_INFO \<equiv> 1000257002"
abbreviation VK_STRUCTURE_TYPE_MEMORY_ALLOCATE_FLAGS_INFO :: u32
  where "VK_STRUCTURE_TYPE_MEMORY_ALLOCATE_FLAGS_INFO \<equiv> 1000060000"
abbreviation VK_STRUCTURE_TYPE_LOADER_DEVICE_CREATE_INFO :: u32
  where "VK_STRUCTURE_TYPE_LOADER_DEVICE_CREATE_INFO \<equiv> 48"
abbreviation VK_STRUCTURE_TYPE_ATTACHMENT_REFERENCE_2 :: u32
  where "VK_STRUCTURE_TYPE_ATTACHMENT_REFERENCE_2 \<equiv> 1000109001"
abbreviation VK_STRUCTURE_TYPE_FRAMEBUFFER_ATTACHMENT_IMAGE_INFO :: u32
  where "VK_STRUCTURE_TYPE_FRAMEBUFFER_ATTACHMENT_IMAGE_INFO \<equiv> 1000108002"

subsection \<open>The three switches\<close>

definition kMaxPNextNodes :: nat where "kMaxPNextNodes = 16"

definition kMaxPNextDepth :: nat where "kMaxPNextDepth = 4"

datatype PNextContext =
    QueryFeaturesOutput | QueryPropertiesOutput | ImageFormatPropertiesOutput | DeviceCreate | RenderPass | RenderPass2
  | GraphicsPipeline | TessellationState | ImageCreate | ImageViewCreate | SamplerCreate | MemoryRequirements2
  | BindBufferMemory2 | BindImageMemory2 | DescriptorSetLayoutSupport | FramebufferCreate | RenderPassBegin | SemaphoreCreate
  | Submit | BufferCreate | MemoryAllocate | ShaderModule

fun pnext_types :: "PNextContext \<Rightarrow> u32 list" where
  "pnext_types QueryFeaturesOutput = [VK_STRUCTURE_TYPE_PHYSICAL_DEVICE_FRAGMENT_SHADING_RATE_FEATURES_KHR,
       VK_STRUCTURE_TYPE_PHYSICAL_DEVICE_IMAGELESS_FRAMEBUFFER_FEATURES,
       VK_STRUCTURE_TYPE_PHYSICAL_DEVICE_MULTIVIEW_FEATURES,
       VK_STRUCTURE_TYPE_PHYSICAL_DEVICE_VULKAN_1_1_FEATURES,
       VK_STRUCTURE_TYPE_PHYSICAL_DEVICE_VULKAN_1_2_FEATURES,
       VK_STRUCTURE_TYPE_PHYSICAL_DEVICE_HOST_QUERY_RESET_FEATURES,
       VK_STRUCTURE_TYPE_PHYSICAL_DEVICE_TIMELINE_SEMAPHORE_FEATURES,
       VK_STRUCTURE_TYPE_PHYSICAL_DEVICE_SYNCHRONIZATION_2_FEATURES,
       VK_STRUCTURE_TYPE_PHYSICAL_DEVICE_BUFFER_DEVICE_ADDRESS_FEATURES,
       VK_STRUCTURE_TYPE_PHYSICAL_DEVICE_DESCRIPTOR_INDEXING_FEATURES,
       VK_STRUCTURE_TYPE_PHYSICAL_DEVICE_SEPARATE_DEPTH_STENCIL_LAYOUTS_FEATURES,
       VK_STRUCTURE_TYPE_PHYSICAL_DEVICE_PROTECTED_MEMORY_FEATURES,
       VK_STRUCTURE_TYPE_PHYSICAL_DEVICE_SAMPLER_YCBCR_CONVERSION_FEATURES]"
| "pnext_types ImageFormatPropertiesOutput = [VK_STRUCTURE_TYPE_SAMPLER_YCBCR_CONVERSION_IMAGE_FORMAT_PROPERTIES]"
| "pnext_types QueryPropertiesOutput = [VK_STRUCTURE_TYPE_PHYSICAL_DEVICE_FRAGMENT_SHADING_RATE_PROPERTIES_KHR,
       VK_STRUCTURE_TYPE_PHYSICAL_DEVICE_MULTIVIEW_PROPERTIES,
       VK_STRUCTURE_TYPE_PHYSICAL_DEVICE_POINT_CLIPPING_PROPERTIES,
       VK_STRUCTURE_TYPE_PHYSICAL_DEVICE_VULKAN_1_1_PROPERTIES,
       VK_STRUCTURE_TYPE_PHYSICAL_DEVICE_VULKAN_1_2_PROPERTIES,
       VK_STRUCTURE_TYPE_PHYSICAL_DEVICE_TIMELINE_SEMAPHORE_PROPERTIES,
       VK_STRUCTURE_TYPE_PHYSICAL_DEVICE_DEPTH_STENCIL_RESOLVE_PROPERTIES,
       VK_STRUCTURE_TYPE_PHYSICAL_DEVICE_DESCRIPTOR_INDEXING_PROPERTIES,
       VK_STRUCTURE_TYPE_PHYSICAL_DEVICE_SUBGROUP_PROPERTIES,
       VK_STRUCTURE_TYPE_PHYSICAL_DEVICE_ID_PROPERTIES,
       VK_STRUCTURE_TYPE_PHYSICAL_DEVICE_PROTECTED_MEMORY_PROPERTIES,
       VK_STRUCTURE_TYPE_PHYSICAL_DEVICE_MAINTENANCE_3_PROPERTIES]"
| "pnext_types DeviceCreate = [VK_STRUCTURE_TYPE_PHYSICAL_DEVICE_FEATURES_2,
       VK_STRUCTURE_TYPE_PHYSICAL_DEVICE_FRAGMENT_SHADING_RATE_FEATURES_KHR,
       VK_STRUCTURE_TYPE_PHYSICAL_DEVICE_IMAGELESS_FRAMEBUFFER_FEATURES,
       VK_STRUCTURE_TYPE_PHYSICAL_DEVICE_MULTIVIEW_FEATURES,
       VK_STRUCTURE_TYPE_PHYSICAL_DEVICE_VULKAN_1_1_FEATURES,
       VK_STRUCTURE_TYPE_PHYSICAL_DEVICE_VULKAN_1_2_FEATURES,
       VK_STRUCTURE_TYPE_PHYSICAL_DEVICE_HOST_QUERY_RESET_FEATURES,
       VK_STRUCTURE_TYPE_PHYSICAL_DEVICE_TIMELINE_SEMAPHORE_FEATURES,
       VK_STRUCTURE_TYPE_PHYSICAL_DEVICE_SYNCHRONIZATION_2_FEATURES,
       VK_STRUCTURE_TYPE_PHYSICAL_DEVICE_BUFFER_DEVICE_ADDRESS_FEATURES,
       VK_STRUCTURE_TYPE_PHYSICAL_DEVICE_DESCRIPTOR_INDEXING_FEATURES,
       VK_STRUCTURE_TYPE_PHYSICAL_DEVICE_SEPARATE_DEPTH_STENCIL_LAYOUTS_FEATURES,
       VK_STRUCTURE_TYPE_PHYSICAL_DEVICE_PROTECTED_MEMORY_FEATURES,
       VK_STRUCTURE_TYPE_PHYSICAL_DEVICE_SAMPLER_YCBCR_CONVERSION_FEATURES]"
| "pnext_types RenderPass = [VK_STRUCTURE_TYPE_RENDER_PASS_INPUT_ATTACHMENT_ASPECT_CREATE_INFO,
       VK_STRUCTURE_TYPE_RENDER_PASS_MULTIVIEW_CREATE_INFO]"
| "pnext_types RenderPass2 = [VK_STRUCTURE_TYPE_FRAGMENT_SHADING_RATE_ATTACHMENT_INFO_KHR]"
| "pnext_types GraphicsPipeline = [VK_STRUCTURE_TYPE_PIPELINE_FRAGMENT_SHADING_RATE_STATE_CREATE_INFO_KHR]"
| "pnext_types TessellationState = [VK_STRUCTURE_TYPE_PIPELINE_TESSELLATION_DOMAIN_ORIGIN_STATE_CREATE_INFO]"
| "pnext_types ImageCreate = [VK_STRUCTURE_TYPE_IMAGE_FORMAT_LIST_CREATE_INFO]"
| "pnext_types ImageViewCreate = [VK_STRUCTURE_TYPE_IMAGE_VIEW_USAGE_CREATE_INFO,
       VK_STRUCTURE_TYPE_SAMPLER_YCBCR_CONVERSION_INFO]"
| "pnext_types SamplerCreate = [VK_STRUCTURE_TYPE_SAMPLER_YCBCR_CONVERSION_INFO]"
| "pnext_types MemoryRequirements2 = [VK_STRUCTURE_TYPE_IMAGE_PLANE_MEMORY_REQUIREMENTS_INFO,
       VK_STRUCTURE_TYPE_MEMORY_DEDICATED_REQUIREMENTS]"
| "pnext_types BindBufferMemory2 = []"
| "pnext_types BindImageMemory2 = [VK_STRUCTURE_TYPE_BIND_IMAGE_PLANE_MEMORY_INFO]"
| "pnext_types DescriptorSetLayoutSupport = []"
| "pnext_types FramebufferCreate = [VK_STRUCTURE_TYPE_FRAMEBUFFER_ATTACHMENTS_CREATE_INFO]"
| "pnext_types RenderPassBegin = [VK_STRUCTURE_TYPE_RENDER_PASS_ATTACHMENT_BEGIN_INFO]"
| "pnext_types SemaphoreCreate = [VK_STRUCTURE_TYPE_SEMAPHORE_TYPE_CREATE_INFO]"
| "pnext_types Submit = [VK_STRUCTURE_TYPE_TIMELINE_SEMAPHORE_SUBMIT_INFO]"
| "pnext_types BufferCreate = [VK_STRUCTURE_TYPE_BUFFER_OPAQUE_CAPTURE_ADDRESS_CREATE_INFO]"
| "pnext_types MemoryAllocate = [VK_STRUCTURE_TYPE_MEMORY_ALLOCATE_FLAGS_INFO]"
| "pnext_types ShaderModule = []"

definition pnext_allowed :: "PNextContext \<Rightarrow> u32 \<Rightarrow> bool" where
  "pnext_allowed context type = List.member (pnext_types context) type"

definition attachment_reference2_fields :: "wire_field list" where
  "attachment_reference2_fields = [FType VK_STRUCTURE_TYPE_ATTACHMENT_REFERENCE_2, FTag 0, FU32, FI32, FU32]"

definition node_fields :: "(u32 \<times> wire_field list) list" where
  "node_fields = [
     (VK_STRUCTURE_TYPE_PHYSICAL_DEVICE_FEATURES_2, replicate 55 FU32),
     (VK_STRUCTURE_TYPE_PHYSICAL_DEVICE_VULKAN_1_1_FEATURES, [FFalse, FFalse, FFalse, FFalse, FU32, FU32, FU32, FFalse, FFalse, FFalse, FU32, FFalse]),
     (VK_STRUCTURE_TYPE_PHYSICAL_DEVICE_VULKAN_1_2_FEATURES, replicate 20 FU32 @ replicate 10 FFalse @ replicate 9 FU32 @ [FFalse, FFalse] @ replicate 7 FU32),
     (VK_STRUCTURE_TYPE_PHYSICAL_DEVICE_HOST_QUERY_RESET_FEATURES, [FU32]),
     (VK_STRUCTURE_TYPE_PHYSICAL_DEVICE_TIMELINE_SEMAPHORE_FEATURES, [FU32]),
     (VK_STRUCTURE_TYPE_PHYSICAL_DEVICE_SYNCHRONIZATION_2_FEATURES, [FU32]),
     (VK_STRUCTURE_TYPE_PHYSICAL_DEVICE_BUFFER_DEVICE_ADDRESS_FEATURES, [FU32, FFalse, FFalse]),
     (VK_STRUCTURE_TYPE_PHYSICAL_DEVICE_DESCRIPTOR_INDEXING_FEATURES, replicate 10 FU32 @ replicate 10 FFalse),
     (VK_STRUCTURE_TYPE_PHYSICAL_DEVICE_SEPARATE_DEPTH_STENCIL_LAYOUTS_FEATURES, [FU32]),
     (VK_STRUCTURE_TYPE_PHYSICAL_DEVICE_VULKAN_1_2_PROPERTIES, [FBlob 720]),
     (VK_STRUCTURE_TYPE_PHYSICAL_DEVICE_TIMELINE_SEMAPHORE_PROPERTIES, [FU64]),
     (VK_STRUCTURE_TYPE_PHYSICAL_DEVICE_DEPTH_STENCIL_RESOLVE_PROPERTIES, [FU32, FU32, FU32, FU32]),
     (VK_STRUCTURE_TYPE_PHYSICAL_DEVICE_DESCRIPTOR_INDEXING_PROPERTIES, [FZeros 96]),
     (VK_STRUCTURE_TYPE_PHYSICAL_DEVICE_PROTECTED_MEMORY_FEATURES, [FFalse]),
     (VK_STRUCTURE_TYPE_PHYSICAL_DEVICE_SAMPLER_YCBCR_CONVERSION_FEATURES, [FU32]),
     (VK_STRUCTURE_TYPE_PHYSICAL_DEVICE_VULKAN_1_1_PROPERTIES, [FBlob 16, FBlob 16, FBlob 8, FU32, FU32, FU32, FU32, FU32, FU32, FI32, FU32, FU32, FFalse, FU32, FU64]),
     (VK_STRUCTURE_TYPE_PHYSICAL_DEVICE_SUBGROUP_PROPERTIES, [FU32, FU32, FU32, FU32]),
     (VK_STRUCTURE_TYPE_PHYSICAL_DEVICE_ID_PROPERTIES, [FBlob 16, FBlob 16, FBlob 8, FU32, FU32]),
     (VK_STRUCTURE_TYPE_PHYSICAL_DEVICE_PROTECTED_MEMORY_PROPERTIES, [FFalse]),
     (VK_STRUCTURE_TYPE_PHYSICAL_DEVICE_MAINTENANCE_3_PROPERTIES, [FU32, FU64]),
     (VK_STRUCTURE_TYPE_PHYSICAL_DEVICE_FRAGMENT_SHADING_RATE_FEATURES_KHR, [FU32, FU32, FU32]),
     (VK_STRUCTURE_TYPE_PHYSICAL_DEVICE_FRAGMENT_SHADING_RATE_PROPERTIES_KHR, replicate 20 FU32),
     (VK_STRUCTURE_TYPE_PHYSICAL_DEVICE_IMAGELESS_FRAMEBUFFER_FEATURES, [FU32]),
     (VK_STRUCTURE_TYPE_PHYSICAL_DEVICE_MULTIVIEW_FEATURES, [FU32, FU32, FU32]),
     (VK_STRUCTURE_TYPE_PHYSICAL_DEVICE_MULTIVIEW_PROPERTIES, [FU32, FU32]),
     (VK_STRUCTURE_TYPE_PHYSICAL_DEVICE_POINT_CLIPPING_PROPERTIES, [FI32]),
     (VK_STRUCTURE_TYPE_RENDER_PASS_INPUT_ATTACHMENT_ASPECT_CREATE_INFO, [FArray [FU32, FU32, FU32]]),
     (VK_STRUCTURE_TYPE_RENDER_PASS_MULTIVIEW_CREATE_INFO, [FArray [FU32], FArray [FI32], FArray [FU32]]),
     (VK_STRUCTURE_TYPE_FRAGMENT_SHADING_RATE_ATTACHMENT_INFO_KHR, [FOpt attachment_reference2_fields, FU32, FU32]),
     (VK_STRUCTURE_TYPE_PIPELINE_FRAGMENT_SHADING_RATE_STATE_CREATE_INFO_KHR, [FU32, FU32, FI32, FI32]),
     (VK_STRUCTURE_TYPE_PIPELINE_TESSELLATION_DOMAIN_ORIGIN_STATE_CREATE_INFO, [FI32]),
     (VK_STRUCTURE_TYPE_IMAGE_FORMAT_LIST_CREATE_INFO, [FArray [FI32]]),
     (VK_STRUCTURE_TYPE_IMAGE_VIEW_USAGE_CREATE_INFO, [FU32]),
     (VK_STRUCTURE_TYPE_SAMPLER_YCBCR_CONVERSION_INFO, [FHandle SamplerYcbcrConversions]),
     (VK_STRUCTURE_TYPE_SAMPLER_YCBCR_CONVERSION_IMAGE_FORMAT_PROPERTIES, [FU32]),
     (VK_STRUCTURE_TYPE_IMAGE_PLANE_MEMORY_REQUIREMENTS_INFO, [FU32]),
     (VK_STRUCTURE_TYPE_MEMORY_DEDICATED_REQUIREMENTS, [FU32, FU32]),
     (VK_STRUCTURE_TYPE_BIND_IMAGE_PLANE_MEMORY_INFO, [FU32]),
     (VK_STRUCTURE_TYPE_FRAMEBUFFER_ATTACHMENTS_CREATE_INFO, [FArray [FTag (ucast VK_STRUCTURE_TYPE_FRAMEBUFFER_ATTACHMENT_IMAGE_INFO), FTag 0, FU32, FU32, FU32, FU32, FU32, FArray [FI32]]]),
     (VK_STRUCTURE_TYPE_SEMAPHORE_TYPE_CREATE_INFO, [FI32, FU64]),
     (VK_STRUCTURE_TYPE_TIMELINE_SEMAPHORE_SUBMIT_INFO, [FArray [FU64], FArray [FU64]]),
     (VK_STRUCTURE_TYPE_BUFFER_OPAQUE_CAPTURE_ADDRESS_CREATE_INFO, [FU64]),
     (VK_STRUCTURE_TYPE_MEMORY_ALLOCATE_FLAGS_INFO, [FMasked 2, FMasked 0]),
     (VK_STRUCTURE_TYPE_RENDER_PASS_ATTACHMENT_BEGIN_INFO, [FArray [FHandle ImageViews]])]"

definition node_sizes :: "(u32 \<times> nat) list" where
  "node_sizes = [
     (VK_STRUCTURE_TYPE_PHYSICAL_DEVICE_FEATURES_2, 240),
     (VK_STRUCTURE_TYPE_PHYSICAL_DEVICE_VULKAN_1_1_FEATURES, 64),
     (VK_STRUCTURE_TYPE_PHYSICAL_DEVICE_VULKAN_1_1_PROPERTIES, 112),
     (VK_STRUCTURE_TYPE_PHYSICAL_DEVICE_VULKAN_1_2_FEATURES, 208),
     (VK_STRUCTURE_TYPE_PHYSICAL_DEVICE_VULKAN_1_2_PROPERTIES, 736),
     (VK_STRUCTURE_TYPE_PHYSICAL_DEVICE_HOST_QUERY_RESET_FEATURES, 24),
     (VK_STRUCTURE_TYPE_PHYSICAL_DEVICE_TIMELINE_SEMAPHORE_FEATURES, 24),
     (VK_STRUCTURE_TYPE_PHYSICAL_DEVICE_SYNCHRONIZATION_2_FEATURES, 24),
     (VK_STRUCTURE_TYPE_PHYSICAL_DEVICE_TIMELINE_SEMAPHORE_PROPERTIES, 24),
     (VK_STRUCTURE_TYPE_PHYSICAL_DEVICE_BUFFER_DEVICE_ADDRESS_FEATURES, 32),
     (VK_STRUCTURE_TYPE_PHYSICAL_DEVICE_DESCRIPTOR_INDEXING_FEATURES, 96),
     (VK_STRUCTURE_TYPE_PHYSICAL_DEVICE_DESCRIPTOR_INDEXING_PROPERTIES, 112),
     (VK_STRUCTURE_TYPE_PHYSICAL_DEVICE_SEPARATE_DEPTH_STENCIL_LAYOUTS_FEATURES, 24),
     (VK_STRUCTURE_TYPE_PHYSICAL_DEVICE_DEPTH_STENCIL_RESOLVE_PROPERTIES, 32),
     (VK_STRUCTURE_TYPE_PHYSICAL_DEVICE_PROTECTED_MEMORY_FEATURES, 24),
     (VK_STRUCTURE_TYPE_PHYSICAL_DEVICE_SAMPLER_YCBCR_CONVERSION_FEATURES, 24),
     (VK_STRUCTURE_TYPE_PHYSICAL_DEVICE_SUBGROUP_PROPERTIES, 32),
     (VK_STRUCTURE_TYPE_PHYSICAL_DEVICE_ID_PROPERTIES, 64),
     (VK_STRUCTURE_TYPE_PHYSICAL_DEVICE_PROTECTED_MEMORY_PROPERTIES, 24),
     (VK_STRUCTURE_TYPE_PHYSICAL_DEVICE_MAINTENANCE_3_PROPERTIES, 32),
     (VK_STRUCTURE_TYPE_PHYSICAL_DEVICE_FRAGMENT_SHADING_RATE_FEATURES_KHR, 32),
     (VK_STRUCTURE_TYPE_PHYSICAL_DEVICE_FRAGMENT_SHADING_RATE_PROPERTIES_KHR, 96),
     (VK_STRUCTURE_TYPE_PHYSICAL_DEVICE_IMAGELESS_FRAMEBUFFER_FEATURES, 24),
     (VK_STRUCTURE_TYPE_PHYSICAL_DEVICE_MULTIVIEW_FEATURES, 32),
     (VK_STRUCTURE_TYPE_PHYSICAL_DEVICE_MULTIVIEW_PROPERTIES, 24),
     (VK_STRUCTURE_TYPE_PHYSICAL_DEVICE_POINT_CLIPPING_PROPERTIES, 24),
     (VK_STRUCTURE_TYPE_RENDER_PASS_INPUT_ATTACHMENT_ASPECT_CREATE_INFO, 32),
     (VK_STRUCTURE_TYPE_RENDER_PASS_MULTIVIEW_CREATE_INFO, 64),
     (VK_STRUCTURE_TYPE_FRAGMENT_SHADING_RATE_ATTACHMENT_INFO_KHR, 32),
     (VK_STRUCTURE_TYPE_PIPELINE_FRAGMENT_SHADING_RATE_STATE_CREATE_INFO_KHR, 32),
     (VK_STRUCTURE_TYPE_PIPELINE_TESSELLATION_DOMAIN_ORIGIN_STATE_CREATE_INFO, 24),
     (VK_STRUCTURE_TYPE_IMAGE_FORMAT_LIST_CREATE_INFO, 32),
     (VK_STRUCTURE_TYPE_IMAGE_VIEW_USAGE_CREATE_INFO, 24),
     (VK_STRUCTURE_TYPE_SAMPLER_YCBCR_CONVERSION_INFO, 24),
     (VK_STRUCTURE_TYPE_SAMPLER_YCBCR_CONVERSION_IMAGE_FORMAT_PROPERTIES, 24),
     (VK_STRUCTURE_TYPE_IMAGE_PLANE_MEMORY_REQUIREMENTS_INFO, 24),
     (VK_STRUCTURE_TYPE_MEMORY_DEDICATED_REQUIREMENTS, 24),
     (VK_STRUCTURE_TYPE_BIND_IMAGE_PLANE_MEMORY_INFO, 24),
     (VK_STRUCTURE_TYPE_FRAMEBUFFER_ATTACHMENTS_CREATE_INFO, 32),
     (VK_STRUCTURE_TYPE_RENDER_PASS_ATTACHMENT_BEGIN_INFO, 32),
     (VK_STRUCTURE_TYPE_SEMAPHORE_TYPE_CREATE_INFO, 32),
     (VK_STRUCTURE_TYPE_TIMELINE_SEMAPHORE_SUBMIT_INFO, 48),
     (VK_STRUCTURE_TYPE_BUFFER_OPAQUE_CAPTURE_ADDRESS_CREATE_INFO, 24),
     (VK_STRUCTURE_TYPE_MEMORY_ALLOCATE_FLAGS_INFO, 24)]"

definition output_types :: "u32 list" where
  "output_types = [
     VK_STRUCTURE_TYPE_PHYSICAL_DEVICE_FRAGMENT_SHADING_RATE_FEATURES_KHR,
     VK_STRUCTURE_TYPE_PHYSICAL_DEVICE_VULKAN_1_1_FEATURES,
     VK_STRUCTURE_TYPE_PHYSICAL_DEVICE_VULKAN_1_2_FEATURES,
     VK_STRUCTURE_TYPE_PHYSICAL_DEVICE_HOST_QUERY_RESET_FEATURES,
     VK_STRUCTURE_TYPE_PHYSICAL_DEVICE_TIMELINE_SEMAPHORE_FEATURES,
     VK_STRUCTURE_TYPE_PHYSICAL_DEVICE_SYNCHRONIZATION_2_FEATURES,
     VK_STRUCTURE_TYPE_PHYSICAL_DEVICE_BUFFER_DEVICE_ADDRESS_FEATURES,
     VK_STRUCTURE_TYPE_PHYSICAL_DEVICE_DESCRIPTOR_INDEXING_FEATURES,
     VK_STRUCTURE_TYPE_PHYSICAL_DEVICE_SEPARATE_DEPTH_STENCIL_LAYOUTS_FEATURES,
     VK_STRUCTURE_TYPE_PHYSICAL_DEVICE_VULKAN_1_1_PROPERTIES,
     VK_STRUCTURE_TYPE_PHYSICAL_DEVICE_VULKAN_1_2_PROPERTIES,
     VK_STRUCTURE_TYPE_PHYSICAL_DEVICE_TIMELINE_SEMAPHORE_PROPERTIES,
     VK_STRUCTURE_TYPE_PHYSICAL_DEVICE_DEPTH_STENCIL_RESOLVE_PROPERTIES,
     VK_STRUCTURE_TYPE_PHYSICAL_DEVICE_DESCRIPTOR_INDEXING_PROPERTIES,
     VK_STRUCTURE_TYPE_PHYSICAL_DEVICE_PROTECTED_MEMORY_FEATURES,
     VK_STRUCTURE_TYPE_PHYSICAL_DEVICE_SAMPLER_YCBCR_CONVERSION_FEATURES,
     VK_STRUCTURE_TYPE_PHYSICAL_DEVICE_SUBGROUP_PROPERTIES,
     VK_STRUCTURE_TYPE_PHYSICAL_DEVICE_ID_PROPERTIES,
     VK_STRUCTURE_TYPE_PHYSICAL_DEVICE_PROTECTED_MEMORY_PROPERTIES,
     VK_STRUCTURE_TYPE_PHYSICAL_DEVICE_MAINTENANCE_3_PROPERTIES,
     VK_STRUCTURE_TYPE_PHYSICAL_DEVICE_FRAGMENT_SHADING_RATE_PROPERTIES_KHR,
     VK_STRUCTURE_TYPE_PHYSICAL_DEVICE_IMAGELESS_FRAMEBUFFER_FEATURES,
     VK_STRUCTURE_TYPE_PHYSICAL_DEVICE_MULTIVIEW_FEATURES,
     VK_STRUCTURE_TYPE_PHYSICAL_DEVICE_MULTIVIEW_PROPERTIES,
     VK_STRUCTURE_TYPE_PHYSICAL_DEVICE_POINT_CLIPPING_PROPERTIES,
     VK_STRUCTURE_TYPE_MEMORY_DEDICATED_REQUIREMENTS,
     VK_STRUCTURE_TYPE_SAMPLER_YCBCR_CONVERSION_IMAGE_FORMAT_PROPERTIES]"

definition pnext_node_size :: "u32 \<Rightarrow> nat" where
  "pnext_node_size type = (case map_of node_sizes type of Some n \<Rightarrow> n | None \<Rightarrow> 0)"

subsection \<open>Writing\<close>

type_synonym pnode = "u32 \<times> vk list"

text \<open>A node as the value a native call sees.\<close>

definition node_vk :: "pnode \<Rightarrow> vk" where
  "node_vk node = VList [VNum (ucast (fst node)), VList (snd node)]"

fun collect_chain :: "PNextContext \<Rightarrow> pnode list \<Rightarrow> pnode list \<Rightarrow> pnode list option" where
  "collect_chain context [] nodes = Some nodes"
| "collect_chain context (node # chain) nodes =
     (if context = DeviceCreate \<and> fst node = VK_STRUCTURE_TYPE_LOADER_DEVICE_CREATE_INFO then collect_chain context chain nodes
      else if length nodes = kMaxPNextNodes \<or> \<not> pnext_allowed context (fst node) then None
      else if \<exists>previous \<in> set nodes. fst previous = fst node then None
      else collect_chain context chain (nodes @ [node]))"

text \<open>The two structures that hold further structures are refused at the depth limit.\<close>

definition nested_types :: "u32 list" where
  "nested_types = [VK_STRUCTURE_TYPE_FRAGMENT_SHADING_RATE_ATTACHMENT_INFO_KHR, VK_STRUCTURE_TYPE_FRAMEBUFFER_ATTACHMENTS_CREATE_INFO]"

definition write_node_fields :: "nat \<Rightarrow> pnode \<Rightarrow> bytes option" where
  "write_node_fields depth base =
     (if List.member nested_types (fst base) \<and> depth \<ge> kMaxPNextDepth then None
      else case map_of node_fields (fst base) of None \<Rightarrow> None | Some fs \<Rightarrow> w_fields fs (snd base))"

fun write_nodes :: "nat \<Rightarrow> pnode list \<Rightarrow> Writer \<Rightarrow> Writer option" where
  "write_nodes depth [] encoded = Some encoded"
| "write_nodes depth (node # nodes) encoded =
     (case write_node_fields depth node of None \<Rightarrow> None
      | Some b \<Rightarrow> write_nodes depth nodes (w_append (w_i32 encoded (fst node)) b))"

definition write_pnext_chain :: "Writer \<Rightarrow> PNextContext \<Rightarrow> pnode list \<Rightarrow> nat \<Rightarrow> bool \<times> Writer" where
  "write_pnext_chain w context head depth =
     (if depth > kMaxPNextDepth then (False, w) else
      case collect_chain context head [] of None \<Rightarrow> (False, w)
      | Some nodes \<Rightarrow> (case write_nodes depth nodes (w_u32 [] (of_nat (length nodes))) of None \<Rightarrow> (False, w)
          | Some encoded \<Rightarrow> (True, w_append w encoded)))"

subsection \<open>Reading\<close>

definition read_node_fields :: "resolver \<Rightarrow> u32 \<Rightarrow> nat \<Rightarrow> Reader \<Rightarrow> vk list option \<times> Reader" where
  "read_node_fields hr type depth r =
     (if List.member nested_types type \<and> depth \<ge> kMaxPNextDepth then (None, r)
      else case map_of node_fields type of None \<Rightarrow> (None, r)
        | Some fs \<Rightarrow> (case r_fields hr fs r of (None, r1) \<Rightarrow> (None, r1)
            | (Some vs, r1) \<Rightarrow> (if r_ok r1 then Some vs else None, r1)))"

fun read_nodes :: "resolver \<Rightarrow> PNextContext \<Rightarrow> nat \<Rightarrow> nat \<Rightarrow> u32 list \<Rightarrow> Reader \<Rightarrow> pnode list option \<times> Reader" where
  "read_nodes hr context depth 0 seen r = (Some [], r)"
| "read_nodes hr context depth (Suc n) seen r =
     (let (type, r1) = r_i32 r in
      if \<not> r_ok r1 \<or> \<not> pnext_allowed context type then (None, r1)
      else if List.member seen type then (None, r1)
      else if pnext_node_size type = 0 then (None, r1)
      else case read_node_fields hr type depth r1 of (None, r2) \<Rightarrow> (None, r2)
        | (Some vs, r2) \<Rightarrow> (case read_nodes hr context depth n (seen @ [type]) r2 of (None, r3) \<Rightarrow> (None, r3)
            | (Some nodes, r3) \<Rightarrow> (Some ((type, vs) # nodes), r3)))"

definition read_pnext_chain :: "resolver \<Rightarrow> PNextContext \<Rightarrow> nat \<Rightarrow> Reader \<Rightarrow> pnode list option \<times> Reader" where
  "read_pnext_chain hr context depth r =
     (if depth > kMaxPNextDepth then (None, r) else
      let (count, r1) = r_u32 r in
      if \<not> r_ok r1 \<or> unat count > kMaxPNextNodes then (None, r1)
      else case read_nodes hr context depth (unat count) [] r1 of (None, r2) \<Rightarrow> (None, r2)
        | (Some nodes, r2) \<Rightarrow> (if r_ok r2 then Some nodes else None, r2))"

subsection \<open>Query chains: the topology goes out, the values come back\<close>

text \<open>A node as \<open>memset\<close> leaves it.\<close>

fun zero_field :: "wire_field \<Rightarrow> vk" where
  "zero_field (FBlob n) = VBytes (replicate n 0)" | "zero_field (FZeros n) = VBytes (replicate n 0)"
| "zero_field (FOpt fs) = VList []" | "zero_field (FArray fs) = VList []"
| "zero_field f = VNum 0"

definition zero_node :: "u32 \<Rightarrow> pnode" where
  "zero_node type = (type, case map_of node_fields type of Some fs \<Rightarrow> map zero_field fs | None \<Rightarrow> [])"

definition write_pnext_output_topology :: "Writer \<Rightarrow> PNextContext \<Rightarrow> pnode list \<Rightarrow> bool \<times> Writer" where
  "write_pnext_output_topology w context head =
     (case collect_chain context head [] of None \<Rightarrow> (False, w)
      | Some nodes \<Rightarrow> (True, fold (\<lambda>node w. w_i32 w (fst node)) nodes (w_u32 w (of_nat (length nodes)))))"

fun read_topology :: "PNextContext \<Rightarrow> nat \<Rightarrow> u32 list \<Rightarrow> Reader \<Rightarrow> pnode list option \<times> Reader" where
  "read_topology context 0 seen r = (Some [], r)"
| "read_topology context (Suc n) seen r =
     (let (type, r1) = r_i32 r in
      if \<not> r_ok r1 \<or> \<not> pnext_allowed context type then (None, r1)
      else if List.member seen type then (None, r1)
      else if pnext_node_size type = 0 then (None, r1)
      else case read_topology context n (seen @ [type]) r1 of (None, r2) \<Rightarrow> (None, r2)
        | (Some nodes, r2) \<Rightarrow> (Some (zero_node type # nodes), r2))"

definition read_pnext_output_topology :: "PNextContext \<Rightarrow> Reader \<Rightarrow> pnode list option \<times> Reader" where
  "read_pnext_output_topology context r =
     (let (count, r1) = r_u32 r in
      if \<not> r_ok r1 \<or> unat count > kMaxPNextNodes then (None, r1)
      else case read_topology context (unat count) [] r1 of (None, r2) \<Rightarrow> (None, r2)
        | (Some nodes, r2) \<Rightarrow> (if r_ok r2 then Some nodes else None, r2))"

definition write_pnext_output_values :: "Writer \<Rightarrow> PNextContext \<Rightarrow> pnode list \<Rightarrow> bool \<times> Writer" where
  "write_pnext_output_values w context head = write_pnext_chain w context head 0"

definition NullResolver :: resolver where
  "NullResolver k i = 0"

text \<open>
  The loop over the caller's nodes. A node is overwritten as soon as it is decoded, so a failure
  leaves the nodes before it updated; the result is what the caller's nodes hold at the end.
\<close>

fun apply_nodes :: "pnode list \<Rightarrow> Reader \<Rightarrow> bool \<times> pnode list \<times> Reader" where
  "apply_nodes [] r = (True, [], r)"
| "apply_nodes (node # nodes) r =
     (let (type, r1) = r_i32 r in
      if \<not> r_ok r1 \<or> type \<noteq> fst node then (False, node # nodes, r1)
      else case read_node_fields NullResolver type 0 r1 of (None, r2) \<Rightarrow> (False, node # nodes, r2)
        | (Some vs, r2) \<Rightarrow>
            if \<not> List.member output_types type then (False, node # nodes, r2)
            else let (ok, nodes', r3) = apply_nodes nodes r2 in (ok, (type, vs) # nodes', r3))"

text \<open>The collected nodes are pointers into the caller's chain; the skipped loader node stays as it is.\<close>

fun caller_chain :: "PNextContext \<Rightarrow> pnode list \<Rightarrow> pnode list \<Rightarrow> pnode list" where
  "caller_chain context [] nodes = []"
| "caller_chain context (node # chain) nodes =
     (if context = DeviceCreate \<and> fst node = VK_STRUCTURE_TYPE_LOADER_DEVICE_CREATE_INFO then node # caller_chain context chain nodes
      else case nodes of [] \<Rightarrow> node # chain | n # nodes' \<Rightarrow> n # caller_chain context chain nodes')"

definition apply_pnext_output_values :: "Reader \<Rightarrow> PNextContext \<Rightarrow> pnode list \<Rightarrow> bool \<times> pnode list \<times> Reader" where
  "apply_pnext_output_values r context caller_head =
     (case collect_chain context caller_head [] of None \<Rightarrow> (False, caller_head, r)
      | Some caller_nodes \<Rightarrow>
          let (count, r1) = r_u32 r in
          if \<not> r_ok r1 \<or> unat count \<noteq> length caller_nodes \<or> unat count > kMaxPNextNodes then (False, caller_head, r1)
          else let (ok, nodes, r2) = apply_nodes caller_nodes r1
               in (ok \<and> r_ok r2, caller_chain context caller_head nodes, r2))"

subsection \<open>The tables agree\<close>

text \<open>The C layout of a structure with these fields after its \<open>sType\<close> and \<open>pNext\<close>, on a 64-bit target.\<close>

definition c_align :: "nat \<Rightarrow> nat \<Rightarrow> nat" where
  "c_align a n = (n + a - 1) div a * a"

fun c_after :: "wire_field \<Rightarrow> nat \<Rightarrow> nat" where
  "c_after FU64 n = c_align 8 n + 8" | "c_after (FHandle k) n = c_align 8 n + 8" | "c_after (FTag t) n = c_align 8 n + 8"
| "c_after (FBlob k) n = n + k" | "c_after (FZeros k) n = n + k"
| "c_after (FOpt fs) n = c_align 8 n + 8"
| "c_after (FArray fs) n = c_align 8 (c_align 4 n + 4) + 8"
| "c_after f n = c_align 4 n + 4"

definition c_size :: "wire_field list \<Rightarrow> nat" where
  "c_size fs = c_align 8 (fold c_after fs 16)"

lemma fields_sized: "list_all (\<lambda>(t, fs). pnext_node_size t = c_size fs \<and> pnext_node_size t > 0) node_fields"
  by code_simp

lemma contexts_covered: "list_all (\<lambda>t. map_of node_fields t \<noteq> None) (pnext_types c)"
  by (induct c) (simp_all add: node_fields_def)

lemma loader_not_allowed: "\<not> pnext_allowed c VK_STRUCTURE_TYPE_LOADER_DEVICE_CREATE_INFO"
  by (cases c) (simp_all add: pnext_allowed_def)

lemma allowed_fields:
  assumes "pnext_allowed c t"
  obtains fs where "map_of node_fields t = Some fs" and "pnext_node_size t = c_size fs" and "pnext_node_size t > 0"
proof -
  from assms contexts_covered [of c] obtain fs where fs: "map_of node_fields t = Some fs"
    by (auto simp: pnext_allowed_def list_all_iff)
  then have "(t, fs) \<in> set node_fields" by (rule map_of_SomeD)
  with fs fields_sized that show ?thesis by (auto simp: list_all_iff)
qed

subsection \<open>What a chain may be\<close>

definition chain_ok :: "PNextContext \<Rightarrow> u32 list \<Rightarrow> bool" where
  "chain_ok c ts \<longleftrightarrow> length ts \<le> kMaxPNextNodes \<and> distinct ts \<and> list_all (pnext_allowed c) ts"

definition skipped :: "PNextContext \<Rightarrow> pnode \<Rightarrow> bool" where
  "skipped c node \<longleftrightarrow> c = DeviceCreate \<and> fst node = VK_STRUCTURE_TYPE_LOADER_DEVICE_CREATE_INFO"

lemma collect_chain_sound:
  "collect_chain c chain acc = Some nodes \<Longrightarrow> chain_ok c (map fst acc) \<Longrightarrow>
     chain_ok c (map fst nodes) \<and> nodes = acc @ filter (\<lambda>n. \<not> skipped c n) chain"
proof (induction c chain acc rule: collect_chain.induct)
  case (2 c node chain acc)
  show ?case
  proof (cases "skipped c node")
    case True
    with 2 show ?thesis by (auto simp: skipped_def)
  next
    case False
    with 2(3) have "length acc \<noteq> kMaxPNextNodes" "pnext_allowed c (fst node)" "\<forall>previous \<in> set acc. fst previous \<noteq> fst node"
      and next': "collect_chain c chain (acc @ [node]) = Some nodes"
      by (auto simp: skipped_def split: if_splits)
    moreover with 2(4) have "chain_ok c (map fst (acc @ [node]))" by (auto simp: chain_ok_def)
    ultimately show ?thesis using 2(2) False by (auto simp: skipped_def)
  qed
qed simp

lemma collect_chain_complete:
  "chain_ok c (map fst (acc @ nodes)) \<Longrightarrow> collect_chain c nodes acc = Some (acc @ nodes)"
proof (induction nodes arbitrary: acc)
  case (Cons node nodes)
  then have "pnext_allowed c (fst node)" "fst node \<notin> fst ` set acc" "length acc < kMaxPNextNodes"
    by (auto simp: chain_ok_def)
  moreover have "\<not> skipped c node" using calculation(1) loader_not_allowed by (auto simp: skipped_def)
  ultimately show ?case using Cons by (auto simp: skipped_def rev_image_eqI)
qed simp

subsection \<open>Round trip\<close>

text \<open>What the receiver is meant to see of a node, and a node whose values have the C types of its fields.\<close>

definition view_node :: "resolver \<Rightarrow> pnode \<Rightarrow> pnode" where
  "view_node hr node = (fst node, case map_of node_fields (fst node) of Some fs \<Rightarrow> view_fields hr fs (snd node) | None \<Rightarrow> snd node)"

definition typed_node :: "pnode \<Rightarrow> bool" where
  "typed_node node \<longleftrightarrow> (case map_of node_fields (fst node) of Some fs \<Rightarrow> typed_fields fs (snd node) | None \<Rightarrow> False)"

lemma node_fields_roundtrip:
  assumes "write_node_fields depth node = Some b" and "typed_node node"
  shows "read_node_fields hr (fst node) depth (Reader_at pre (b @ rest)) = (Some (snd (view_node hr node)), Reader_at (pre @ b) rest)"
  using assms field_roundtrip(2) [of _ "snd node" b hr pre rest]
  by (auto simp: write_node_fields_def read_node_fields_def view_node_def typed_node_def reader_simps split: option.splits if_splits)

lemma nodes_roundtrip:
  assumes "write_nodes depth nodes enc = Some out" and "list_all typed_node nodes"
  obtains b where "out = enc @ b"
    and "\<And>pre rest seen. chain_ok c (seen @ map fst nodes) \<Longrightarrow>
      read_nodes hr c depth (length nodes) seen (Reader_at pre (b @ rest)) = (Some (map (view_node hr) nodes), Reader_at (pre @ b) rest)"
  using assms
proof (induction nodes arbitrary: enc thesis)
  case (Cons node nodes)
  obtain f where f: "write_node_fields depth node = Some f"
    and w: "write_nodes depth nodes (enc @ le_bytes 4 (fst node) @ f) = Some out"
    using Cons.prems(2) by (auto simp: w_append_def wire_simps split: option.splits)
  from Cons.IH [OF _ w] Cons.prems(3) obtain b where b: "out = (enc @ le_bytes 4 (fst node) @ f) @ b"
    and r: "\<And>pre rest seen. chain_ok c (seen @ map fst nodes) \<Longrightarrow>
      read_nodes hr c depth (length nodes) seen (Reader_at pre (b @ rest)) = (Some (map (view_node hr) nodes), Reader_at (pre @ b) rest)"
    by auto
  show ?case
  proof (rule Cons.prems(1))
    show "out = enc @ (le_bytes 4 (fst node) @ f @ b)" using b by simp
    fix pre rest seen
    assume ok: "chain_ok c (seen @ map fst (node # nodes))"
    then have a: "pnext_allowed c (fst node)" "fst node \<notin> set seen" by (auto simp: chain_ok_def)
    then have "pnext_node_size (fst node) \<noteq> 0" by (metis allowed_fields neq0_conv)
    with a ok show "read_nodes hr c depth (length (node # nodes)) seen (Reader_at pre ((le_bytes 4 (fst node) @ f @ b) @ rest)) =
        (Some (map (view_node hr) (node # nodes)), Reader_at (pre @ (le_bytes 4 (fst node) @ f @ b)) rest)"
      using node_fields_roundtrip [OF f, of hr "pre @ le_bytes 4 (fst node)" "b @ rest"] r [of "seen @ [fst node]" "pre @ le_bytes 4 (fst node) @ f" rest]
        Cons.prems(3)
      by (simp add: reader_simps view_node_def)
  qed
qed auto

lemma chain_ok_small: "chain_ok c ts \<Longrightarrow> unat (of_nat (length ts) :: u32) = length ts \<and> length ts \<le> kMaxPNextNodes"
  by (auto simp: chain_ok_def kMaxPNextNodes_def unat_of_nat_small)

lemma chain_roundtrip:
  assumes "write_pnext_chain w c chain depth = (True, w')" and "list_all typed_node (filter (\<lambda>n. \<not> skipped c n) chain)"
  shows "\<exists>b. w' = w @ b \<and> (\<forall>pre rest. read_pnext_chain hr c depth (Reader_at pre (b @ rest)) =
      (Some (map (view_node hr) (filter (\<lambda>n. \<not> skipped c n) chain)), Reader_at (pre @ b) rest))"
proof -
  let ?nodes = "filter (\<lambda>n. \<not> skipped c n) chain"
  from assms(1) obtain nodes where c: "collect_chain c chain [] = Some nodes"
    by (cases "collect_chain c chain []") (auto simp: write_pnext_chain_def split: if_splits)
  have ok: "chain_ok c (map fst ?nodes)" and n: "nodes = ?nodes"
    using collect_chain_sound [OF c] by (auto simp: chain_ok_def)
  obtain out where d: "depth \<le> kMaxPNextDepth" and w': "w' = w @ out"
    and w: "write_nodes depth ?nodes (le_bytes 4 (of_nat (length ?nodes) :: u32)) = Some out"
    using assms(1) c unfolding n
    by (cases "write_nodes depth ?nodes (le_bytes 4 (of_nat (length ?nodes) :: u32))")
      (auto simp: write_pnext_chain_def wire_simps w_append_def split: if_splits)
  from nodes_roundtrip [OF w assms(2), of c hr] obtain b where b: "out = le_bytes 4 (of_nat (length ?nodes) :: u32) @ b"
    and r: "\<And>pre rest. read_nodes hr c depth (length ?nodes) [] (Reader_at pre (b @ rest)) = (Some (map (view_node hr) ?nodes), Reader_at (pre @ b) rest)"
    using ok by (metis append_Nil)
  from chain_ok_small [OF ok] have n: "unat (of_nat (length ?nodes) :: u32) = length ?nodes" "length ?nodes \<le> kMaxPNextNodes" by simp_all
  have "read_pnext_chain hr c depth (Reader_at pre (out @ rest)) = (Some (map (view_node hr) ?nodes), Reader_at (pre @ out) rest)" for pre rest
    using d n r b by (simp add: read_pnext_chain_def reader_simps)
  with w' show ?thesis by blast
qed

text \<open>
  C28. A chain that the writer accepts is read back, node by node and in order, from anywhere in a
  message and without touching what follows it: the loader's own node is left out, handles are
  resolved, and the features the contract hides are false. Nothing of the request before it changes.
\<close>

theorem pnext_chain_roundtrip:
  assumes "write_pnext_chain w c chain depth = (True, w')" and "list_all typed_node (filter (\<lambda>n. \<not> skipped c n) chain)"
  shows "\<exists>b. w' = w @ b \<and> (\<forall>pre rest. read_pnext_chain hr c depth (Reader_at pre (b @ rest)) =
      (Some (map (view_node hr) (filter (\<lambda>n. \<not> skipped c n) chain)), Reader_at (pre @ b) rest))"
  using chain_roundtrip [OF assms] .

subsection \<open>Whatever arrives\<close>

lemma read_nodes_sound:
  "read_nodes hr c depth n seen r = (Some nodes, r') \<Longrightarrow> distinct seen \<Longrightarrow>
     length nodes = n \<and> distinct (seen @ map fst nodes) \<and> list_all (pnext_allowed c) (map fst nodes)"
proof (induction hr c depth n seen r arbitrary: nodes r' rule: read_nodes.induct)
  case (2 hr c depth n seen r)
  then show ?case by (fastforce split: prod.splits if_splits option.splits)
qed simp

lemma read_node_fields_advances: "reader_inv r \<Longrightarrow> r_advances r (snd (read_node_fields hr t depth r))"
proof (cases "map_of node_fields t")
  case (Some fs)
  assume inv: "reader_inv r"
  obtain vs r1 where "r_fields hr fs r = (vs, r1)" by fastforce
  then show ?thesis using Some inv field_advances(2) [OF inv, of hr fs]
    by (auto simp: read_node_fields_def r_advances_refl split: option.splits)
qed (simp add: read_node_fields_def r_advances_refl)

lemma read_nodes_advances: "reader_inv r \<Longrightarrow> r_advances r (snd (read_nodes hr c depth n seen r))"
proof (induction hr c depth n seen r rule: read_nodes.induct)
  case (2 hr c depth n seen r)
  obtain t r1 where t: "r_i32 r = (t, r1)" by fastforce
  obtain vs r2 where v: "read_node_fields hr t depth r1 = (vs, r2)" by fastforce
  have a1: "r_advances r r1" using word_advances(2) [OF 2(2)] t by simp
  have a2: "r_advances r r2" using read_node_fields_advances [OF r_advances_inv [OF a1], of hr t depth] v r_advances_trans [OF a1] by simp
  show ?case using 2(1) [OF t [symmetric] refl] t v a1 a2 r_advances_inv [OF a2] r_advances_trans [OF a2]
    by (auto split: prod.splits option.splits)
qed (simp add: r_advances_refl)

text \<open>
  C29. Whatever bytes arrive, a chain the reader accepts has at most sixteen nodes, each of a type
  that the context admits and no type twice, and the reader has stayed inside the message.
\<close>

theorem pnext_reader_sound:
  assumes "read_pnext_chain hr c depth (Reader_init payload) = (Some nodes, r)"
  shows "length nodes \<le> kMaxPNextNodes \<and> distinct (map fst nodes) \<and> list_all (pnext_allowed c) (map fst nodes)
    \<and> m_data r = payload \<and> m_pos r \<le> length payload \<and> r_ok r"
proof -
  obtain count r1 where count: "r_u32 (Reader_init payload) = (count, r1)" by fastforce
  have rd: "read_nodes hr c depth (unat count) [] r1 = (Some nodes, r)" and n: "unat count \<le> kMaxPNextNodes" and ok: "r_ok r"
    using assms count by (auto simp: read_pnext_chain_def split: if_splits prod.splits option.splits)
  have a: "r_advances (Reader_init payload) r1" using word_advances(1) [of "Reader_init payload"] count by (simp add: reader_inv_def Reader_init_def)
  have "r_advances (Reader_init payload) r"
    using read_nodes_advances [OF r_advances_inv [OF a], of hr c depth "unat count" "[]"] rd r_advances_trans [OF a] by simp
  then have "m_data r = payload" "m_pos r \<le> length payload" by (simp_all add: r_advances_def Reader_init_def)
  with read_nodes_sound [OF rd] n ok show ?thesis by simp
qed

subsection \<open>Query chains\<close>

text \<open>Fields that hold no pointer and that no writer refuses: all a query structure has.\<close>

fun plain :: "wire_field \<Rightarrow> bool" where
  "plain FU32 = True" | "plain FI32 = True" | "plain FU64 = True" | "plain FFalse = True"
| "plain (FBlob n) = True" | "plain (FZeros n) = True" | "plain f = False"

lemma plain_written: "list_all plain fs \<Longrightarrow> typed_fields fs vs \<Longrightarrow> \<exists>b. w_fields fs vs = Some b"
proof (induction fs arbitrary: vs)
  case (Cons f fs)
  from Cons.prems(2) obtain v vs' where v: "vs = v # vs'" "typed_field f v" "typed_fields fs vs'"
    by (cases vs) auto
  with Cons.prems(1) have "\<exists>b. w_field f v = Some b" by (cases f) (auto split: option.splits)
  with v Cons show ?case by auto
qed simp

lemma list_all_replicate: "list_all P (replicate n x) \<longleftrightarrow> n = 0 \<or> P x"
  by (induction n) auto

lemma outputs_plain:
  "list_all (\<lambda>t. \<not> List.member nested_types t \<and> (case map_of node_fields t of Some fs \<Rightarrow> list_all plain fs | None \<Rightarrow> False)) output_types"
  by (simp add: output_types_def node_fields_def nested_types_def list_all_append list_all_replicate)

lemma queries_are_outputs:
  "set (pnext_types QueryFeaturesOutput) \<union> set (pnext_types QueryPropertiesOutput) \<union> set (pnext_types ImageFormatPropertiesOutput)
     \<subseteq> set output_types"
  by (simp add: output_types_def)

lemma output_node_written:
  assumes "fst node \<in> set output_types" and "typed_node node"
  shows "\<exists>b. write_node_fields depth node = Some b"
proof -
  from assms(1) outputs_plain obtain fs where "map_of node_fields (fst node) = Some fs" "list_all plain fs"
      "\<not> List.member nested_types (fst node)"
    unfolding list_all_iff by (fastforce split: option.splits)
  then show ?thesis using assms(2) plain_written [of fs "snd node"] by (simp add: write_node_fields_def typed_node_def)
qed

lemma output_nodes_written:
  "fst ` set nodes \<subseteq> set output_types \<Longrightarrow> list_all typed_node nodes \<Longrightarrow> \<exists>out. write_nodes depth nodes enc = Some out"
proof (induction nodes arbitrary: enc)
  case (Cons node nodes)
  then obtain b where "write_node_fields depth node = Some b" using output_node_written [of node depth] by auto
  with Cons show ?case by simp
qed simp

lemma topology_bytes: "fold (\<lambda>node w. w_i32 w (fst node)) nodes w = w @ concat (map (\<lambda>n. le_bytes 4 (fst n)) nodes)"
  by (induction nodes arbitrary: w) (simp_all add: wire_simps)

lemma topology_roundtrip:
  "chain_ok c (seen @ map fst nodes) \<Longrightarrow>
   read_topology c (length nodes) seen (Reader_at pre (concat (map (\<lambda>n. le_bytes 4 (fst n)) nodes) @ rest)) =
     (Some (map (zero_node \<circ> fst) nodes), Reader_at (pre @ concat (map (\<lambda>n. le_bytes 4 (fst n)) nodes)) rest)"
proof (induction nodes arbitrary: seen pre)
  case (Cons node nodes)
  from Cons.prems have a: "pnext_allowed c (fst node)" "fst node \<notin> set seen" by (auto simp: chain_ok_def)
  then have "pnext_node_size (fst node) \<noteq> 0" by (metis allowed_fields neq0_conv)
  with a show ?case using Cons.IH [of "seen @ [fst node]" "pre @ le_bytes 4 (fst node)"] Cons.prems by (simp add: reader_simps)
qed simp

lemma apply_roundtrip:
  assumes "write_nodes depth filled enc = Some out" and "list_all typed_node filled" and "fst ` set filled \<subseteq> set output_types"
  obtains b where "out = enc @ b" and "\<And>pre rest nodes. map fst nodes = map fst filled \<Longrightarrow>
    apply_nodes nodes (Reader_at pre (b @ rest)) = (True, map (view_node NullResolver) filled, Reader_at (pre @ b) rest)"
  using assms
proof (induction filled arbitrary: enc thesis)
  case (Cons node filled)
  obtain f where f: "write_node_fields depth node = Some f"
    and w: "write_nodes depth filled (enc @ le_bytes 4 (fst node) @ f) = Some out"
    using Cons.prems(2) by (auto simp: w_append_def wire_simps split: option.splits)
  from Cons.IH [OF _ w] Cons.prems(3,4) obtain b where b: "out = (enc @ le_bytes 4 (fst node) @ f) @ b"
    and r: "\<And>pre rest nodes. map fst nodes = map fst filled \<Longrightarrow>
      apply_nodes nodes (Reader_at pre (b @ rest)) = (True, map (view_node NullResolver) filled, Reader_at (pre @ b) rest)"
    by auto
  from f have f0: "write_node_fields 0 node = Some f" by (auto simp: write_node_fields_def kMaxPNextDepth_def split: if_splits)
  show ?case
  proof (rule Cons.prems(1))
    show "out = enc @ (le_bytes 4 (fst node) @ f @ b)" using b by simp
    fix pre rest and nodes :: "pnode list"
    assume "map fst nodes = map fst (node # filled)"
    then obtain n ns where ns: "nodes = n # ns" "fst n = fst node" "map fst ns = map fst filled" by auto
    then show "apply_nodes nodes (Reader_at pre ((le_bytes 4 (fst node) @ f @ b) @ rest)) =
        (True, map (view_node NullResolver) (node # filled), Reader_at (pre @ (le_bytes 4 (fst node) @ f @ b)) rest)"
      using node_fields_roundtrip [OF f0, of NullResolver "pre @ le_bytes 4 (fst node)" "b @ rest"]
        r [OF ns(3), of "pre @ le_bytes 4 (fst node) @ f" rest] Cons.prems(3,4)
      by (simp add: reader_simps view_node_def)
  qed
qed auto

lemma caller_chain_all: "\<not> list_ex (skipped c) chain \<Longrightarrow> length nodes = length chain \<Longrightarrow> caller_chain c chain nodes = nodes"
  by (induction c chain nodes rule: caller_chain.induct) (auto simp: skipped_def split: list.splits)


definition query_contexts :: "PNextContext list" where
  "query_contexts = [QueryFeaturesOutput, QueryPropertiesOutput, ImageFormatPropertiesOutput]"

lemma query_chain_ok:
  assumes "List.member query_contexts c" and "collect_chain c chain [] = Some nodes"
  shows "nodes = chain" and "chain_ok c (map fst chain)" and "fst ` set chain \<subseteq> set output_types" and "\<not> list_ex (skipped c) chain"
proof -
  have ns: "\<not> skipped c n" for n using assms(1) by (auto simp: query_contexts_def skipped_def)
  then show nc: "nodes = chain" and ok: "chain_ok c (map fst chain)" and "\<not> list_ex (skipped c) chain"
    using collect_chain_sound [OF assms(2)] by (auto simp: chain_ok_def list_ex_iff)
  show "fst ` set chain \<subseteq> set output_types"
    using ok assms(1) queries_are_outputs by (auto simp: chain_ok_def list_all_iff pnext_allowed_def query_contexts_def)
qed

text \<open>
  C30. A query over a chain: the server rebuilds the caller's chain, zeroed, from its topology; and
  whatever values the driver stores in it, the reply is written, accepted by the caller and leaves
  the driver's values in the caller's chain, hidden features being false. No step can fail once the
  caller's chain is admitted.
\<close>

theorem pnext_output_end_to_end:
  assumes "List.member query_contexts c"
    and "write_pnext_output_topology [] c chain = (True, request)"
    and "map fst filled = map fst chain" and "list_all typed_node filled"
  shows "read_pnext_output_topology c (Reader_init request) = (Some (map (zero_node \<circ> fst) chain), Reader_at request [])
    \<and> (\<exists>reply. write_pnext_output_values [] c filled = (True, reply) \<and>
        apply_pnext_output_values (Reader_init reply) c chain = (True, map (view_node NullResolver) filled, Reader_at reply []))"
proof -
  from assms(2) obtain nodes where c: "collect_chain c chain [] = Some nodes"
    by (cases "collect_chain c chain []") (auto simp: write_pnext_output_topology_def)
  note q = query_chain_ok [OF assms(1) c]
  note c = c [unfolded q(1)]
  have len: "length filled = length chain" using assms(3) by (metis length_map)
  from chain_ok_small [OF q(2)] have n: "unat (of_nat (length chain) :: u32) = length chain" "length chain \<le> kMaxPNextNodes" by simp_all
  let ?ts = "concat (map (\<lambda>n. le_bytes 4 (fst n)) chain)"
  have "request = le_bytes 4 (of_nat (length chain) :: u32) @ ?ts"
    using assms(2) c by (simp add: write_pnext_output_topology_def topology_bytes [unfolded wire_simps] wire_simps)
  then have t: "read_pnext_output_topology c (Reader_init request) = (Some (map (zero_node \<circ> fst) chain), Reader_at request [])"
    using topology_roundtrip [of c "[]" chain "le_bytes 4 (of_nat (length chain) :: u32)" "[]"] q(2) n
    by (simp add: read_pnext_output_topology_def reader_simps)
  have "fst ` set filled = fst ` set chain" using assms(3) by (metis list.set_map)
  with q(3) have o: "fst ` set filled \<subseteq> set output_types" by simp
  from output_nodes_written [OF o assms(4)] obtain out
    where w: "write_nodes 0 filled (le_bytes 4 (of_nat (length chain) :: u32)) = Some out" by blast
  from apply_roundtrip [OF w assms(4) o] obtain b where b: "out = le_bytes 4 (of_nat (length chain) :: u32) @ b"
    and a: "\<And>pre rest nodes. map fst nodes = map fst filled \<Longrightarrow>
      apply_nodes nodes (Reader_at pre (b @ rest)) = (True, map (view_node NullResolver) filled, Reader_at (pre @ b) rest)" by metis
  have "collect_chain c filled [] = Some filled" using collect_chain_complete [of c "[]" filled] q(2) assms(3) by simp
  then have v: "write_pnext_output_values [] c filled = (True, out)"
    using w len by (simp add: write_pnext_output_values_def write_pnext_chain_def wire_simps w_append_def)
  have "apply_pnext_output_values (Reader_init out) c chain = (True, map (view_node NullResolver) filled, Reader_at out [])"
    using c n b a [of chain "le_bytes 4 (of_nat (length chain) :: u32)" "[]"] assms(3) len caller_chain_all [OF q(4)]
    by (simp add: apply_pnext_output_values_def reader_simps)
  with t v show ?thesis by blast
qed

text \<open>
  C31. The three switches agree: every type a context admits has a reader, and the storage allocated
  for it is exactly the C layout of the fields the reader fills, so no field is stored outside it.
\<close>

theorem pnext_tables_agree:
  "pnext_allowed c t \<Longrightarrow> \<exists>fs. map_of node_fields t = Some fs \<and> pnext_node_size t = c_size fs \<and> 0 < pnext_node_size t"
  by (metis allowed_fields)


subsection \<open>Concrete chains\<close>

definition device_chain :: "pnode list" where
  "device_chain = [(VK_STRUCTURE_TYPE_LOADER_DEVICE_CREATE_INFO, []),
     (VK_STRUCTURE_TYPE_PHYSICAL_DEVICE_MULTIVIEW_FEATURES, [VNum 1, VNum 0, VNum 1]),
     (VK_STRUCTURE_TYPE_PHYSICAL_DEVICE_BUFFER_DEVICE_ADDRESS_FEATURES, [VNum 1, VNum 1, VNum 0])]"

definition device_chain_bytes :: bytes where
  "device_chain_bytes = le_bytes 4 (2 :: u32) @ le_bytes 4 VK_STRUCTURE_TYPE_PHYSICAL_DEVICE_MULTIVIEW_FEATURES @
     le_bytes 4 (1 :: u32) @ le_bytes 4 (0 :: u32) @ le_bytes 4 (1 :: u32) @
     le_bytes 4 VK_STRUCTURE_TYPE_PHYSICAL_DEVICE_BUFFER_DEVICE_ADDRESS_FEATURES @
     le_bytes 4 (1 :: u32) @ le_bytes 4 (0 :: u32) @ le_bytes 4 (0 :: u32)"

lemma device_chain_written: "write_pnext_chain [] DeviceCreate device_chain 0 = (True, device_chain_bytes)"
  by (simp add: write_pnext_chain_def device_chain_def device_chain_bytes_def kMaxPNextNodes_def kMaxPNextDepth_def pnext_allowed_def
      write_node_fields_def node_fields_def nested_types_def wire_simps w_append_def)

lemma device_chain_typed: "list_all typed_node (filter (\<lambda>n. \<not> skipped DeviceCreate n) device_chain)"
  by (simp add: device_chain_def skipped_def typed_node_def node_fields_def)

lemma device_chain_viewed: "map (view_node hr) (filter (\<lambda>n. \<not> skipped DeviceCreate n) device_chain) =
   [(VK_STRUCTURE_TYPE_PHYSICAL_DEVICE_MULTIVIEW_FEATURES, [VNum 1, VNum 0, VNum 1]),
    (VK_STRUCTURE_TYPE_PHYSICAL_DEVICE_BUFFER_DEVICE_ADDRESS_FEATURES, [VNum 1, VNum 0, VNum 0])]"
  by (simp add: device_chain_def skipped_def view_node_def node_fields_def)

theorem pnext_chain_roundtrip_witness:
  "read_pnext_chain NullResolver DeviceCreate 0 (Reader_init device_chain_bytes) =
     (Some [(VK_STRUCTURE_TYPE_PHYSICAL_DEVICE_MULTIVIEW_FEATURES, [VNum 1, VNum 0, VNum 1]),
       (VK_STRUCTURE_TYPE_PHYSICAL_DEVICE_BUFFER_DEVICE_ADDRESS_FEATURES, [VNum 1, VNum 0, VNum 0])], Reader_at device_chain_bytes [])"
  using pnext_chain_roundtrip [OF device_chain_written device_chain_typed, of NullResolver]
  by (metis append_Nil append_Nil2 device_chain_viewed reader_at_basics(1))

theorem pnext_reader_sound_witness: "\<exists>nodes r. read_pnext_chain NullResolver DeviceCreate 0 (Reader_init device_chain_bytes) = (Some nodes, r)
    \<and> length nodes \<le> kMaxPNextNodes \<and> distinct (map fst nodes) \<and> m_pos r \<le> length device_chain_bytes"
proof -
  have "fst (read_pnext_chain NullResolver DeviceCreate 0 (Reader_init device_chain_bytes)) \<noteq> None" by code_simp
  then obtain nodes r where e: "read_pnext_chain NullResolver DeviceCreate 0 (Reader_init device_chain_bytes) = (Some nodes, r)"
    by (metis not_None_eq prod.collapse)
  from pnext_reader_sound [OF this] e show ?thesis by blast
qed

definition query_chain :: "pnode list" where
  "query_chain = [(VK_STRUCTURE_TYPE_PHYSICAL_DEVICE_MULTIVIEW_PROPERTIES, [VNum 0, VNum 0]),
     (VK_STRUCTURE_TYPE_PHYSICAL_DEVICE_MAINTENANCE_3_PROPERTIES, [VNum 0, VNum 0])]"

definition query_chain_filled :: "pnode list" where
  "query_chain_filled = [(VK_STRUCTURE_TYPE_PHYSICAL_DEVICE_MULTIVIEW_PROPERTIES, [VNum 6, VNum 134217727]),
     (VK_STRUCTURE_TYPE_PHYSICAL_DEVICE_MAINTENANCE_3_PROPERTIES, [VNum 1048576, VNum 4294967296])]"

theorem pnext_output_end_to_end_witness:
  "\<exists>reply. write_pnext_output_values [] QueryPropertiesOutput query_chain_filled = (True, reply) \<and>
     apply_pnext_output_values (Reader_init reply) QueryPropertiesOutput query_chain = (True, query_chain_filled, Reader_at reply [])"
proof -
  have t: "write_pnext_output_topology [] QueryPropertiesOutput query_chain =
      (True, snd (write_pnext_output_topology [] QueryPropertiesOutput query_chain))" by code_simp
  have "map (view_node NullResolver) query_chain_filled = query_chain_filled"
    by (simp add: query_chain_filled_def view_node_def node_fields_def)
  moreover have "map fst query_chain_filled = map fst query_chain" by code_simp
  moreover have "List.member query_contexts QueryPropertiesOutput" by code_simp
  moreover have "list_all typed_node query_chain_filled"
    by (simp add: query_chain_filled_def typed_node_def node_fields_def)
  ultimately show ?thesis using pnext_output_end_to_end [OF _ t, of query_chain_filled] by simp
qed

theorem pnext_tables_agree_witness:
  "\<exists>fs. map_of node_fields VK_STRUCTURE_TYPE_TIMELINE_SEMAPHORE_SUBMIT_INFO = Some fs
     \<and> pnext_node_size VK_STRUCTURE_TYPE_TIMELINE_SEMAPHORE_SUBMIT_INFO = c_size fs \<and> 0 < pnext_node_size VK_STRUCTURE_TYPE_TIMELINE_SEMAPHORE_SUBMIT_INFO"
  by (rule pnext_tables_agree [of Submit]) (simp add: pnext_allowed_def)
end
