(* ===== verification/QueryCodec.thy ===== *)
theory QueryCodec
  imports PNext
begin

section \<open>Query results (common/marshal.cpp, the physical-device structures)\<close>

text \<open>
  The structures a physical-device query returns, field by field in wire order. None holds a pointer,
  so their writers cannot refuse. The value of such a structure is what the driver stored over zeroed
  storage: \<open>fit_fields\<close> keeps the fields it stored and zeroes the others.
\<close>

subsection \<open>Output structures\<close>

definition fit_field :: "wire_field \<Rightarrow> vk \<Rightarrow> vk" where
  "fit_field f v = (if typed_field f v then v else zero_field f)"

fun fit_fields :: "wire_field list \<Rightarrow> vk list \<Rightarrow> vk list" where
  "fit_fields [] vs = []"
| "fit_fields (f # fs) [] = zero_field f # fit_fields fs []"
| "fit_fields (f # fs) (v # vs) = fit_field f v # fit_fields fs vs"

definition w_plain :: "wire_field list \<Rightarrow> vk list \<Rightarrow> bytes" where
  "w_plain fs vs = (case w_fields fs vs of Some b \<Rightarrow> b | None \<Rightarrow> [])"

definition r_plain :: "wire_field list \<Rightarrow> Reader \<Rightarrow> vk list option \<times> Reader" where
  "r_plain fs r = (case r_fields NullResolver fs r of
       (None, r1) \<Rightarrow> (None, r1) | (Some vs, r1) \<Rightarrow> (if r_ok r1 then Some vs else None, r1))"

subsection \<open>The structures\<close>

definition SurfaceFormatKHR_fields :: "wire_field list" where
  "SurfaceFormatKHR_fields = [FI32, FI32]"

text \<open>
  The limits in wire order: 82 words, eight 64-bit values, seven floats (as bits), then the arrays, the
  map alignment, the signed offsets, the ranges and the five sparse properties.
\<close>

definition PhysicalDeviceProperties_fields :: "wire_field list" where
  "PhysicalDeviceProperties_fields = [FU32, FU32, FU32, FU32, FI32, FBlob 256, FBlob 16]
     @ replicate 82 FU32 @ replicate 8 FU64 @ replicate 7 FU32 @ replicate 3 FU32 @ replicate 3 FU32
     @ replicate 2 FU32 @ replicate 2 FU32 @ [FU64, FI32, FI32] @ replicate 2 FU32 @ replicate 2 FU32 @ replicate 5 FU32"

definition deviceName_index :: nat where "deviceName_index = 5"
definition minMemoryMapAlignment_index :: nat where "minMemoryMapAlignment_index = 114"

definition PhysicalDeviceFeatures_fields :: "wire_field list" where
  "PhysicalDeviceFeatures_fields = replicate 55 FU32"

definition FormatProperties_fields :: "wire_field list" where
  "FormatProperties_fields = [FU32, FU32, FU32]"

definition ImageFormatProperties_fields :: "wire_field list" where
  "ImageFormatProperties_fields = replicate 6 FU32 @ [FU64]"

definition QueueFamilyProperties_fields :: "wire_field list" where
  "QueueFamilyProperties_fields = replicate 6 FU32"

definition SparseImageFormatProperties_fields :: "wire_field list" where
  "SparseImageFormatProperties_fields = replicate 5 FU32"

definition MemoryType_fields :: "wire_field list" where
  "MemoryType_fields = [FU32, FU32]"

definition MemoryHeap_fields :: "wire_field list" where
  "MemoryHeap_fields = [FU64, FU32]"

definition FragmentShadingRate_fields :: "wire_field list" where
  "FragmentShadingRate_fields = replicate 3 FU32"

text \<open>
  The device name is terminated by the reader whatever arrived. A 64-bit \<open>size_t\<close> holds every
  alignment, so that check never fails here.
\<close>

definition terminate_name :: "bytes \<Rightarrow> bytes" where
  "terminate_name b = b[length b - 1 := 0]"

definition terminate_device_name :: "vk list \<Rightarrow> vk list" where
  "terminate_device_name vs = vs[deviceName_index :=
     (case bytes_of (vs ! deviceName_index) of Some b \<Rightarrow> VBytes (terminate_name b) | None \<Rightarrow> VNum 0)]"

definition write_PhysicalDeviceProperties :: "Writer \<Rightarrow> vk list \<Rightarrow> Writer" where
  "write_PhysicalDeviceProperties w s = w_append w (w_plain PhysicalDeviceProperties_fields s)"

definition read_PhysicalDeviceProperties :: "Reader \<Rightarrow> vk list option \<times> Reader" where
  "read_PhysicalDeviceProperties r =
     (case r_plain PhysicalDeviceProperties_fields r of (vs, r1) \<Rightarrow> (map_option terminate_device_name vs, r1))"

definition write_PhysicalDeviceFeatures :: "Writer \<Rightarrow> vk list \<Rightarrow> Writer" where
  "write_PhysicalDeviceFeatures w s = w_append w (w_plain PhysicalDeviceFeatures_fields s)"

definition read_PhysicalDeviceFeatures :: "Reader \<Rightarrow> vk list option \<times> Reader" where
  "read_PhysicalDeviceFeatures = r_plain PhysicalDeviceFeatures_fields"

definition write_FormatProperties :: "Writer \<Rightarrow> vk list \<Rightarrow> Writer" where
  "write_FormatProperties w s = w_append w (w_plain FormatProperties_fields s)"

definition read_FormatProperties :: "Reader \<Rightarrow> vk list option \<times> Reader" where
  "read_FormatProperties = r_plain FormatProperties_fields"

definition write_ImageFormatProperties :: "Writer \<Rightarrow> vk list \<Rightarrow> Writer" where
  "write_ImageFormatProperties w s = w_append w (w_plain ImageFormatProperties_fields s)"

definition read_ImageFormatProperties :: "Reader \<Rightarrow> vk list option \<times> Reader" where
  "read_ImageFormatProperties = r_plain ImageFormatProperties_fields"

definition write_QueueFamilyProperties :: "Writer \<Rightarrow> vk list \<Rightarrow> Writer" where
  "write_QueueFamilyProperties w s = w_append w (w_plain QueueFamilyProperties_fields s)"

definition read_QueueFamilyProperties :: "Reader \<Rightarrow> vk list option \<times> Reader" where
  "read_QueueFamilyProperties = r_plain QueueFamilyProperties_fields"

definition write_SparseImageFormatProperties :: "Writer \<Rightarrow> vk list \<Rightarrow> Writer" where
  "write_SparseImageFormatProperties w s = w_append w (w_plain SparseImageFormatProperties_fields s)"

definition read_SparseImageFormatProperties :: "Reader \<Rightarrow> vk list option \<times> Reader" where
  "read_SparseImageFormatProperties = r_plain SparseImageFormatProperties_fields"

definition write_SurfaceFormatKHR :: "Writer \<Rightarrow> vk list \<Rightarrow> Writer" where
  "write_SurfaceFormatKHR w s = w_append w (w_plain SurfaceFormatKHR_fields s)"

definition read_SurfaceFormatKHR :: "Reader \<Rightarrow> vk list option \<times> Reader" where
  "read_SurfaceFormatKHR = r_plain SurfaceFormatKHR_fields"

subsection \<open>Memory types and heaps\<close>

definition VK_MAX_MEMORY_TYPES :: nat where "VK_MAX_MEMORY_TYPES = 32"
definition VK_MAX_MEMORY_HEAPS :: nat where "VK_MAX_MEMORY_HEAPS = 16"

record MemoryProperties =
  memoryTypes :: "(u32 \<times> u32) list"   \<comment> \<open>property flags, heap index\<close>
  memoryHeaps :: "(u64 \<times> u32) list"   \<comment> \<open>size, flags\<close>

definition write_PhysicalDeviceMemoryProperties :: "Writer \<Rightarrow> MemoryProperties \<Rightarrow> Writer" where
  "write_PhysicalDeviceMemoryProperties w s =
     (let w1 = fold (\<lambda>(flags, heap) w. w_u32 (w_u32 w flags) heap) (memoryTypes s) (w_u32 w (of_nat (length (memoryTypes s))))
      in fold (\<lambda>(size, flags) w. w_u32 (w_u64 w size) flags) (memoryHeaps s) (w_u32 w1 (of_nat (length (memoryHeaps s)))))"

definition r_type :: "Reader \<Rightarrow> (u32 \<times> u32) \<times> Reader" where
  "r_type r = (let (flags, r1) = r_u32 r; (heap, r2) = r_u32 r1 in ((flags, heap), r2))"

definition r_heap :: "Reader \<Rightarrow> (u64 \<times> u32) \<times> Reader" where
  "r_heap r = (let (size, r1) = r_u64 r; (flags, r2) = r_u32 r1 in ((size, flags), r2))"

definition read_PhysicalDeviceMemoryProperties :: "Reader \<Rightarrow> MemoryProperties option \<times> Reader" where
  "read_PhysicalDeviceMemoryProperties r =
     (let (type_count, r1) = r_u32 r in
      if \<not> r_ok r1 \<or> unat type_count > VK_MAX_MEMORY_TYPES \<or> unat type_count > r_remaining r1 div 8 then (None, r1)
      else let (types, r2) = r_list r_type (unat type_count) r1;
               (heap_count, r3) = r_u32 r2 in
        if \<not> r_ok r3 \<or> unat heap_count > VK_MAX_MEMORY_HEAPS \<or> unat heap_count > r_remaining r3 div 12 then (None, r3)
        else let (heaps, r4) = r_list r_heap (unat heap_count) r3
             in (if r_ok r4 then Some \<lparr>memoryTypes = types, memoryHeaps = heaps\<rparr> else None, r4))"

subsection \<open>Extensions\<close>

type_synonym ExtensionProperties = "bytes \<times> u32"

definition VK_MAX_EXTENSION_NAME_SIZE :: nat where "VK_MAX_EXTENSION_NAME_SIZE = 256"

definition write_ExtensionProperties :: "Writer \<Rightarrow> ExtensionProperties \<Rightarrow> Writer" where
  "write_ExtensionProperties w s = w_u32 (w_string w (Some (fst s))) (snd s)"

definition read_ExtensionProperties :: "Reader \<Rightarrow> ExtensionProperties option \<times> Reader" where
  "read_ExtensionProperties r =
     (case r_string r of
        (None, r1) \<Rightarrow> (None, r1)
      | (Some name, r1) \<Rightarrow>
          if length name \<ge> VK_MAX_EXTENSION_NAME_SIZE then (None, r1)
          else let (version, r2) = r_u32 r1 in (if r_ok r2 then Some (name, version) else None, r2))"

subsection \<open>Round trips\<close>

lemma fit_fields_typed: "list_all plain fs \<Longrightarrow> list_all (\<lambda>f. typed_field f (zero_field f)) fs \<Longrightarrow> typed_fields fs (fit_fields fs vs)"
  by (induction fs vs rule: fit_fields.induct) (auto simp: fit_field_def)

definition query_structs :: "wire_field list list" where
  "query_structs = [SurfaceFormatKHR_fields, PhysicalDeviceProperties_fields, PhysicalDeviceFeatures_fields,
     FormatProperties_fields, ImageFormatProperties_fields, QueueFamilyProperties_fields,
     SparseImageFormatProperties_fields, MemoryType_fields, MemoryHeap_fields, FragmentShadingRate_fields]"

lemmas struct_defs = SurfaceFormatKHR_fields_def PhysicalDeviceProperties_fields_def PhysicalDeviceFeatures_fields_def
  FormatProperties_fields_def ImageFormatProperties_fields_def QueueFamilyProperties_fields_def
  SparseImageFormatProperties_fields_def MemoryType_fields_def MemoryHeap_fields_def FragmentShadingRate_fields_def

lemma query_structs_plain: "fs \<in> set query_structs \<Longrightarrow> list_all plain fs \<and> list_all (\<lambda>f. typed_field f (zero_field f)) fs"
  unfolding query_structs_def struct_defs by (auto simp: list_all_append list_all_replicate)

lemma plain_view_exact:
  "list_all (\<lambda>f. f \<in> {FU32, FI32, FU64} \<union> range FBlob) fs \<Longrightarrow> length vs = length fs \<Longrightarrow> view_fields hr fs vs = vs"
  by (induction fs vs rule: list_induct2') auto

lemma query_structs_exact: "fs \<in> set query_structs \<Longrightarrow> list_all (\<lambda>f. f \<in> {FU32, FI32, FU64} \<union> range FBlob) fs"
  unfolding query_structs_def struct_defs by (auto simp: list_all_append list_all_replicate)

lemma typed_fields_length: "typed_fields fs vs \<Longrightarrow> length vs = length fs"
  by (induction fs arbitrary: vs) (auto split: list.splits)

lemma plain_roundtrip:
  assumes "fs \<in> set query_structs" and "typed_fields fs vs"
  shows "r_plain fs (Reader_at pre (w_plain fs vs @ rest)) = (Some vs, Reader_at (pre @ w_plain fs vs) rest)"
proof -
  from plain_written [of fs vs] assms query_structs_plain [of fs] obtain b where b: "w_fields fs vs = Some b" by blast
  have "view_fields NullResolver fs vs = vs"
    by (rule plain_view_exact [OF query_structs_exact [OF assms(1)] typed_fields_length [OF assms(2)]])
  with field_roundtrip(2) [OF b assms(2), of NullResolver pre rest] show ?thesis
    by (simp add: r_plain_def w_plain_def b reader_simps)
qed

lemma query_struct_members [simp]:
  "SurfaceFormatKHR_fields \<in> set query_structs" "PhysicalDeviceProperties_fields \<in> set query_structs"
  "PhysicalDeviceFeatures_fields \<in> set query_structs" "FormatProperties_fields \<in> set query_structs"
  "ImageFormatProperties_fields \<in> set query_structs" "QueueFamilyProperties_fields \<in> set query_structs"
  "SparseImageFormatProperties_fields \<in> set query_structs" "MemoryType_fields \<in> set query_structs"
  "MemoryHeap_fields \<in> set query_structs" "FragmentShadingRate_fields \<in> set query_structs"
  by (simp_all add: query_structs_def)

text \<open>Two codecs in sequence are a codec of pairs.\<close>

locale wire_codec_pair = c1: wire_codec enc1 dec1 view1 wf1 + c2: wire_codec enc2 dec2 view2 wf2
  for enc1 :: "'a \<Rightarrow> bytes" and dec1 :: "Reader \<Rightarrow> 'b \<times> Reader" and view1 :: "'a \<Rightarrow> 'b" and wf1 :: "'a \<Rightarrow> bool"
    and enc2 :: "'c \<Rightarrow> bytes" and dec2 :: "Reader \<Rightarrow> 'd \<times> Reader" and view2 :: "'c \<Rightarrow> 'd" and wf2 :: "'c \<Rightarrow> bool"

sublocale wire_codec_pair \<subseteq> pair: wire_codec "\<lambda>(a, b). enc1 a @ enc2 b"
  "\<lambda>r. let (x, r1) = dec1 r; (y, r2) = dec2 r1 in ((x, y), r2)" "map_prod view1 view2" "\<lambda>(a, b). wf1 a \<and> wf2 b"
proof
  fix p r tail
  assume wf: "case p of (a, b) \<Rightarrow> wf1 a \<and> wf2 b" and ok: "r_ok r" and rest: "r_rest r = (case p of (a, b) \<Rightarrow> enc1 a @ enc2 b) @ tail"
  obtain a b where p: "p = (a, b)" by fastforce
  have d1: "dec1 r = (view1 a, r_skip (length (enc1 a)) r)"
    by (rule c1.dec_enc) (use wf ok rest p in auto)
  have "dec2 (r_skip (length (enc1 a)) r) = (view2 b, r_skip (length (enc2 b)) (r_skip (length (enc1 a)) r))"
    by (rule c2.dec_enc) (use wf ok rest p r_rest_skip [of r "enc1 a" "enc2 b @ tail"] in \<open>auto simp: r_ok_def reader_simps\<close>)
  with d1 p show "(let (x, r1) = dec1 r; (y, r2) = dec2 r1 in ((x, y), r2)) =
      (map_prod view1 view2 p, r_skip (length (case p of (a, b) \<Rightarrow> enc1 a @ enc2 b)) r)"
    by (simp add: reader_simps)
next
  fix r assume inv: "reader_inv r"
  obtain x r1 where x: "dec1 r = (x, r1)" by fastforce
  have a: "r_advances r r1" using c1.dec_advances [OF inv] x by simp
  then show "r_advances r (snd (let (x, r1) = dec1 r; (y, r2) = dec2 r1 in ((x, y), r2)))"
    using c2.dec_advances [OF r_advances_inv [OF a]] x r_advances_trans [OF a] by (auto split: prod.splits)
qed

interpretation typec: wire_codec_pair "le_bytes 4" r_u32 "\<lambda>v. v" "\<lambda>_. True" "le_bytes 4" r_u32 "\<lambda>v. v" "\<lambda>_. True"
  by unfold_locales

interpretation heapc: wire_codec_pair "le_bytes 8" r_u64 "\<lambda>v. v" "\<lambda>_. True" "le_bytes 4" r_u32 "\<lambda>v. v" "\<lambda>_. True"
  by unfold_locales

definition type_bytes :: "u32 \<times> u32 \<Rightarrow> bytes" where
  "type_bytes = (\<lambda>(flags, heap). le_bytes 4 flags @ le_bytes 4 heap)"

definition heap_bytes :: "u64 \<times> u32 \<Rightarrow> bytes" where
  "heap_bytes = (\<lambda>(size, flags). le_bytes 8 size @ le_bytes 4 flags)"

lemma r_type_codec: "r_list r_type (length xs) (Reader_at pre (concat (map type_bytes xs) @ rest)) = (xs, Reader_at (pre @ concat (map type_bytes xs)) rest)"
  using typec.pair.list_roundtrip [of xs "Reader_at pre (concat (map type_bytes xs) @ rest)" rest]
  by (simp add: r_type_def [abs_def] type_bytes_def reader_at_rest reader_at_basics list_all_iff map_prod.id [unfolded id_def] split_beta)

lemma r_heap_codec: "r_list r_heap (length xs) (Reader_at pre (concat (map heap_bytes xs) @ rest)) = (xs, Reader_at (pre @ concat (map heap_bytes xs)) rest)"
  using heapc.pair.list_roundtrip [of xs "Reader_at pre (concat (map heap_bytes xs) @ rest)" rest]
  by (simp add: r_heap_def [abs_def] heap_bytes_def reader_at_rest reader_at_basics list_all_iff map_prod.id [unfolded id_def] split_beta)

lemma memory_writer_bytes:
  "write_PhysicalDeviceMemoryProperties w s = w @ le_bytes 4 (of_nat (length (memoryTypes s)) :: u32) @ concat (map type_bytes (memoryTypes s))
     @ le_bytes 4 (of_nat (length (memoryHeaps s)) :: u32) @ concat (map heap_bytes (memoryHeaps s))"
proof -
  have "fold (\<lambda>(flags, heap) w. w_u32 (w_u32 w flags) heap) ts w = w @ concat (map type_bytes ts)" for ts w
    by (induction ts arbitrary: w) (auto simp: type_bytes_def wire_simps)
  moreover have "fold (\<lambda>(size, flags) w. w_u32 (w_u64 w size) flags) hs w = w @ concat (map heap_bytes hs)" for hs w
    by (induction hs arbitrary: w) (auto simp: heap_bytes_def wire_simps)
  ultimately show ?thesis by (simp add: write_PhysicalDeviceMemoryProperties_def wire_simps Let_def)
qed

lemma memory_properties_roundtrip:
  assumes "length (memoryTypes s) \<le> VK_MAX_MEMORY_TYPES" and "length (memoryHeaps s) \<le> VK_MAX_MEMORY_HEAPS"
    and "b = write_PhysicalDeviceMemoryProperties [] s"
  shows "read_PhysicalDeviceMemoryProperties (Reader_at pre (b @ rest)) = (Some s, Reader_at (pre @ b) rest)"
proof -
  have n: "unat (of_nat (length (memoryTypes s)) :: u32) = length (memoryTypes s)" "unat (of_nat (length (memoryHeaps s)) :: u32) = length (memoryHeaps s)"
    using assms(1,2) by (simp_all add: VK_MAX_MEMORY_TYPES_def VK_MAX_MEMORY_HEAPS_def unat_of_nat_small)
  have l: "length (concat (map type_bytes ts)) = 8 * length ts" "length (concat (map heap_bytes hs)) = 12 * length hs" for ts hs
    by (induction ts, auto simp: type_bytes_def) (induction hs, auto simp: heap_bytes_def)
  show ?thesis unfolding assms(3) memory_writer_bytes read_PhysicalDeviceMemoryProperties_def
    using assms(1,2) n by (simp add: reader_simps r_type_codec r_heap_codec l)
qed

definition extension_bytes :: "ExtensionProperties \<Rightarrow> bytes" where
  "extension_bytes s = blob (fst s) @ le_bytes 4 (snd s)"

definition extension_wf :: "ExtensionProperties \<Rightarrow> bool" where
  "extension_wf s \<longleftrightarrow> length (fst s) < VK_MAX_EXTENSION_NAME_SIZE"

lemma extension_roundtrip:
  "extension_wf s \<Longrightarrow> read_ExtensionProperties (Reader_at pre (extension_bytes s @ rest)) = (Some s, Reader_at (pre @ extension_bytes s) rest)"
  by (simp add: read_ExtensionProperties_def extension_bytes_def extension_wf_def VK_MAX_EXTENSION_NAME_SIZE_def reader_simps)

lemma extensions_roundtrip:
  "list_all extension_wf xs \<Longrightarrow>
     read_each read_ExtensionProperties (length xs) (Reader_at pre (concat (map extension_bytes xs) @ rest)) =
     (Some xs, Reader_at (pre @ concat (map extension_bytes xs)) rest)"
  by (induction xs arbitrary: pre) (simp_all add: extension_roundtrip)

end
