(* ===== verification/ExtensionContract.thy ===== *)
theory ExtensionContract
  imports QueryCodec
begin

section \<open>The extension contract (common/extension_contract.hpp)\<close>

text \<open>
  Which extensions the remoting layer offers and at which revision, what each needs, which commands
  belong to them, and which features it hides. A C string that may be null is a \<open>string option\<close>;
  on the wire a name is its bytes. Shown: the features the pNext codec hides are those of the policy,
  and what the server advertises is an intersection of the contract and the device that an
  application can enable.
\<close>

type_synonym ExtensionContractEntry = "string \<times> u32"

abbreviation VK_KHR_SWAPCHAIN_EXTENSION_NAME :: string where "VK_KHR_SWAPCHAIN_EXTENSION_NAME \<equiv> ''VK_KHR_swapchain''"
abbreviation VK_KHR_MULTIVIEW_EXTENSION_NAME :: string where "VK_KHR_MULTIVIEW_EXTENSION_NAME \<equiv> ''VK_KHR_multiview''"
abbreviation VK_KHR_MAINTENANCE_2_EXTENSION_NAME :: string
  where "VK_KHR_MAINTENANCE_2_EXTENSION_NAME \<equiv> ''VK_KHR_maintenance2''"
abbreviation VK_KHR_IMAGE_FORMAT_LIST_EXTENSION_NAME :: string
  where "VK_KHR_IMAGE_FORMAT_LIST_EXTENSION_NAME \<equiv> ''VK_KHR_image_format_list''"
abbreviation VK_KHR_CREATE_RENDERPASS_2_EXTENSION_NAME :: string
  where "VK_KHR_CREATE_RENDERPASS_2_EXTENSION_NAME \<equiv> ''VK_KHR_create_renderpass2''"
abbreviation VK_KHR_FRAGMENT_SHADING_RATE_EXTENSION_NAME :: string
  where "VK_KHR_FRAGMENT_SHADING_RATE_EXTENSION_NAME \<equiv> ''VK_KHR_fragment_shading_rate''"
abbreviation VK_KHR_IMAGELESS_FRAMEBUFFER_EXTENSION_NAME :: string
  where "VK_KHR_IMAGELESS_FRAMEBUFFER_EXTENSION_NAME \<equiv> ''VK_KHR_imageless_framebuffer''"
abbreviation VK_EXT_DESCRIPTOR_INDEXING_EXTENSION_NAME :: string
  where "VK_EXT_DESCRIPTOR_INDEXING_EXTENSION_NAME \<equiv> ''VK_EXT_descriptor_indexing''"
abbreviation VK_KHR_BUFFER_DEVICE_ADDRESS_EXTENSION_NAME :: string
  where "VK_KHR_BUFFER_DEVICE_ADDRESS_EXTENSION_NAME \<equiv> ''VK_KHR_buffer_device_address''"
abbreviation VK_KHR_SYNCHRONIZATION_2_EXTENSION_NAME :: string
  where "VK_KHR_SYNCHRONIZATION_2_EXTENSION_NAME \<equiv> ''VK_KHR_synchronization2''"
abbreviation VK_KHR_GET_PHYSICAL_DEVICE_PROPERTIES_2_EXTENSION_NAME :: string
  where "VK_KHR_GET_PHYSICAL_DEVICE_PROPERTIES_2_EXTENSION_NAME \<equiv> ''VK_KHR_get_physical_device_properties2''"

definition kProperties2InstanceExtension :: ExtensionContractEntry where
  "kProperties2InstanceExtension = (VK_KHR_GET_PHYSICAL_DEVICE_PROPERTIES_2_EXTENSION_NAME, 2)"

definition kDescriptorIndexingDeviceExtension :: ExtensionContractEntry where
  "kDescriptorIndexingDeviceExtension = (VK_EXT_DESCRIPTOR_INDEXING_EXTENSION_NAME, 2)"

definition kBufferDeviceAddressDeviceExtension :: ExtensionContractEntry where
  "kBufferDeviceAddressDeviceExtension = (VK_KHR_BUFFER_DEVICE_ADDRESS_EXTENSION_NAME, 1)"

definition kSynchronization2DeviceExtension :: ExtensionContractEntry where
  "kSynchronization2DeviceExtension = (VK_KHR_SYNCHRONIZATION_2_EXTENSION_NAME, 1)"

definition kRequiredDeviceExtensions :: "ExtensionContractEntry list" where
  "kRequiredDeviceExtensions = [
     (VK_KHR_MULTIVIEW_EXTENSION_NAME, 1),
     (VK_KHR_MAINTENANCE_2_EXTENSION_NAME, 1),
     (VK_KHR_IMAGE_FORMAT_LIST_EXTENSION_NAME, 1),
     (VK_KHR_CREATE_RENDERPASS_2_EXTENSION_NAME, 1),
     (VK_KHR_FRAGMENT_SHADING_RATE_EXTENSION_NAME, 2),
     (VK_KHR_IMAGELESS_FRAMEBUFFER_EXTENSION_NAME, 1)]"

definition is_required_device_extension :: "string option \<Rightarrow> bool" where
  "is_required_device_extension name =
     (case name of None \<Rightarrow> False | Some n \<Rightarrow> list_ex (\<lambda>extension. n = fst extension) kRequiredDeviceExtensions)"

definition device_extension_dependencies_satisfied :: "string option \<Rightarrow> (string \<Rightarrow> bool) \<Rightarrow> bool \<Rightarrow> bool" where
  "device_extension_dependencies_satisfied name enabled properties2_enabled =
     (case name of None \<Rightarrow> False | Some n \<Rightarrow>
      if n = VK_KHR_MULTIVIEW_EXTENSION_NAME \<or> n = VK_KHR_SYNCHRONIZATION_2_EXTENSION_NAME then properties2_enabled
      else if n = VK_KHR_CREATE_RENDERPASS_2_EXTENSION_NAME
      then enabled VK_KHR_MULTIVIEW_EXTENSION_NAME \<and> enabled VK_KHR_MAINTENANCE_2_EXTENSION_NAME
      else if n = VK_KHR_FRAGMENT_SHADING_RATE_EXTENSION_NAME
      then properties2_enabled \<and> enabled VK_KHR_CREATE_RENDERPASS_2_EXTENSION_NAME
      else if n = VK_KHR_IMAGELESS_FRAMEBUFFER_EXTENSION_NAME
      then properties2_enabled \<and> enabled VK_KHR_MAINTENANCE_2_EXTENSION_NAME \<and> enabled VK_KHR_IMAGE_FORMAT_LIST_EXTENSION_NAME
      else True)"

definition device_extension_for_command :: "string option \<Rightarrow> string option" where
  "device_extension_for_command name =
     (case name of None \<Rightarrow> None | Some n \<Rightarrow>
      if n = ''vkCreateRenderPass2KHR'' \<or> n = ''vkCmdBeginRenderPass2KHR'' \<or> n = ''vkCmdNextSubpass2KHR''
         \<or> n = ''vkCmdEndRenderPass2KHR'' then Some VK_KHR_CREATE_RENDERPASS_2_EXTENSION_NAME
      else if n = ''vkCmdSetFragmentShadingRateKHR'' then Some VK_KHR_FRAGMENT_SHADING_RATE_EXTENSION_NAME
      else if n = ''vkGetBufferDeviceAddressKHR'' \<or> n = ''vkGetBufferOpaqueCaptureAddressKHR''
         \<or> n = ''vkGetDeviceMemoryOpaqueCaptureAddressKHR'' then Some VK_KHR_BUFFER_DEVICE_ADDRESS_EXTENSION_NAME
      else if n = ''vkQueueSubmit2KHR'' \<or> n = ''vkCmdPipelineBarrier2KHR'' \<or> n = ''vkCmdSetEvent2KHR''
         \<or> n = ''vkCmdResetEvent2KHR'' \<or> n = ''vkCmdWaitEvents2KHR'' \<or> n = ''vkCmdWriteTimestamp2KHR''
      then Some VK_KHR_SYNCHRONIZATION_2_EXTENSION_NAME
      else None)"

definition is_properties2_command :: "string option \<Rightarrow> bool" where
  "is_properties2_command name =
     (case name of None \<Rightarrow> False | Some n \<Rightarrow> List.member [
        ''vkGetPhysicalDeviceFeatures2'', ''vkGetPhysicalDeviceFeatures2KHR'',
        ''vkGetPhysicalDeviceProperties2'', ''vkGetPhysicalDeviceProperties2KHR'',
        ''vkGetPhysicalDeviceFormatProperties2'', ''vkGetPhysicalDeviceFormatProperties2KHR'',
        ''vkGetPhysicalDeviceImageFormatProperties2'', ''vkGetPhysicalDeviceImageFormatProperties2KHR'',
        ''vkGetPhysicalDeviceQueueFamilyProperties2'', ''vkGetPhysicalDeviceQueueFamilyProperties2KHR'',
        ''vkGetPhysicalDeviceMemoryProperties2'', ''vkGetPhysicalDeviceMemoryProperties2KHR'',
        ''vkGetPhysicalDeviceSparseImageFormatProperties2'', ''vkGetPhysicalDeviceSparseImageFormatProperties2KHR''] n)"

text \<open>
  The two-call idiom every enumeration of the client ends with; \<open>destination\<close> is the caller's array,
  \<open>None\<close> for null, and the result carries the count and the array as the caller finds them.
\<close>

definition VK_INCOMPLETE :: u32 where "VK_INCOMPLETE = 5"
definition VK_ERROR_INITIALIZATION_FAILED :: u32 where "VK_ERROR_INITIALIZATION_FAILED = - 3"

definition copy_fragment_shading_rates ::
  "'a list \<Rightarrow> u32 option \<Rightarrow> 'a list option \<Rightarrow> u32 \<times> u32 option \<times> 'a list option" where
  "copy_fragment_shading_rates source count destination =
     (case count of None \<Rightarrow> (VK_ERROR_INITIALIZATION_FAILED, None, destination)
      | Some c \<Rightarrow> (case destination of
            None \<Rightarrow> (VK_SUCCESS, Some (of_nat (length source)), None)
          | Some dst \<Rightarrow>
              let available = of_nat (length source) :: u32; to_write = (if c < available then c else available) in
              (if to_write < available then VK_INCOMPLETE else VK_SUCCESS, Some to_write,
               Some (take (unat to_write) source @ drop (unat to_write) dst))))"

subsection \<open>Hidden features\<close>

text \<open>
  A feature structure as the words after its \<open>pNext\<close>. The policies clear words by position:
  twenty to twenty-nine of the Vulkan 1.2 features are the update-after-bind and sizing features of
  descriptor indexing, thirty-nine and forty capture replay and multi-device addresses.
\<close>

definition clear_words :: "nat list \<Rightarrow> vk list \<Rightarrow> vk list" where
  "clear_words is f = fold (\<lambda>i f. f[i := VNum 0]) is f"

definition hidden_vulkan12 :: "nat list" where
  "hidden_vulkan12 = [39, 40] @ [20..<30]"

definition apply_vulkan12_feature_policy :: "vk list \<Rightarrow> vk list" where
  "apply_vulkan12_feature_policy f = clear_words hidden_vulkan12 f"

definition hidden_descriptor_indexing :: "nat list" where
  "hidden_descriptor_indexing = [10..<20]"

definition apply_descriptor_indexing_feature_policy :: "vk list \<Rightarrow> vk list" where
  "apply_descriptor_indexing_feature_policy f = clear_words hidden_descriptor_indexing f"

definition hidden_buffer_address :: "nat list" where
  "hidden_buffer_address = [1, 2]"

definition apply_buffer_address_feature_policy :: "vk list \<Rightarrow> vk list" where
  "apply_buffer_address_feature_policy f = clear_words hidden_buffer_address f"

definition vulkan12_requested_features_supported :: "vk list \<Rightarrow> bool" where
  "vulkan12_requested_features_supported f =
     list_all (\<lambda>(requested, filtered). \<not> (requested \<noteq> VNum 0 \<and> filtered = VNum 0)) (zip f (apply_vulkan12_feature_policy f))"

lemma length_clear_words [simp]: "length (clear_words is f) = length f"
  by (induction "is" arbitrary: f) (simp_all add: clear_words_def)

lemma nth_clear_words: "i < length f \<Longrightarrow> clear_words is f ! i = (if i \<in> set is then VNum 0 else f ! i)"
  by (induction "is" arbitrary: f) (auto simp: clear_words_def nth_list_update)

lemma vulkan12_supported_iff:
  "vulkan12_requested_features_supported f \<longleftrightarrow> (\<forall>i < length f. i \<in> set hidden_vulkan12 \<longrightarrow> f ! i = VNum 0)"
  by (auto simp: vulkan12_requested_features_supported_def list_all_length apply_vulkan12_feature_policy_def nth_clear_words)

subsection \<open>The pNext codec hides what the policy hides\<close>

lemma w_fields_nth:
  "length vs = length fs \<Longrightarrow> (\<And>i. i < length fs \<Longrightarrow> w_field (fs ! i) (vs ! i) = w_field (fs' ! i) (vs' ! i)) \<Longrightarrow>
     length fs' = length fs \<Longrightarrow> length vs' = length fs \<Longrightarrow> w_fields fs vs = w_fields fs' vs'"
proof (induction fs arbitrary: vs fs' vs')
  case (Cons f fs)
  then obtain v ws f' gs v' ws' where [simp]: "vs = v # ws" "fs' = f' # gs" "vs' = v' # ws'"
    by (metis length_Suc_conv)
  have "w_field f v = w_field f' v'" using Cons.prems(2) [of 0] by simp
  moreover have "w_fields fs ws = w_fields gs ws'"
    using Cons.prems(1,3,4) Cons.prems(2) [of "Suc i" for i] by (intro Cons.IH) auto
  ultimately show ?case by (simp split: option.splits)
qed simp

definition feature_words :: "nat \<Rightarrow> nat list \<Rightarrow> wire_field list" where
  "feature_words n is = map (\<lambda>i. if List.member is i then FFalse else FU32) [0..<n]"

lemma hidden_words:
  assumes "list_all (\<lambda>v. num_of v \<noteq> None) f" and "length f = n"
  shows "w_fields (feature_words n is) f = w_fields (replicate n FU32) (clear_words is f)"
  using assms by (intro w_fields_nth) (auto simp: nth_clear_words list_all_length feature_words_def)

lemma feature_tables:
  "map_of node_fields VK_STRUCTURE_TYPE_PHYSICAL_DEVICE_VULKAN_1_2_FEATURES = Some (feature_words 48 hidden_vulkan12)"
  "map_of node_fields VK_STRUCTURE_TYPE_PHYSICAL_DEVICE_DESCRIPTOR_INDEXING_FEATURES = Some (feature_words 20 hidden_descriptor_indexing)"
  "map_of node_fields VK_STRUCTURE_TYPE_PHYSICAL_DEVICE_BUFFER_DEVICE_ADDRESS_FEATURES = Some (feature_words 3 hidden_buffer_address)"
  by code_simp+

lemma feature_not_nested:
  "\<not> List.member nested_types VK_STRUCTURE_TYPE_PHYSICAL_DEVICE_VULKAN_1_2_FEATURES"
  "\<not> List.member nested_types VK_STRUCTURE_TYPE_PHYSICAL_DEVICE_DESCRIPTOR_INDEXING_FEATURES"
  "\<not> List.member nested_types VK_STRUCTURE_TYPE_PHYSICAL_DEVICE_BUFFER_DEVICE_ADDRESS_FEATURES"
  by code_simp+



subsection \<open>What the server advertises (server/handlers_instance.cpp)\<close>

definition c_str :: "string \<Rightarrow> bytes" where
  "c_str s = map (\<lambda>c. of_nat (of_char c)) s"

definition find_extension :: "ExtensionProperties list \<Rightarrow> string \<Rightarrow> ExtensionProperties option" where
  "find_extension exts name = List.find (\<lambda>extension. fst extension = c_str name) exts"

definition offer_extension :: "ExtensionProperties list \<Rightarrow> ExtensionContractEntry \<Rightarrow> ExtensionProperties list" where
  "offer_extension exts entry =
     (case find_extension exts (fst entry) of None \<Rightarrow> []
      | Some found \<Rightarrow> [(take (VK_MAX_EXTENSION_NAME_SIZE - 1) (c_str (fst entry)), min (snd found) (snd entry))])"

definition supported_extensions :: "ExtensionProperties list \<Rightarrow> ExtensionProperties list" where
  "supported_extensions exts =
     (case find_extension exts VK_KHR_SWAPCHAIN_EXTENSION_NAME of None \<Rightarrow> [] | Some swapchain \<Rightarrow> [swapchain])
     @ offer_extension exts kDescriptorIndexingDeviceExtension
     @ offer_extension exts kBufferDeviceAddressDeviceExtension
     @ offer_extension exts kSynchronization2DeviceExtension
     @ (if list_all (\<lambda>required. find_extension exts (fst required) \<noteq> None) kRequiredDeviceExtensions
        then concat (map (offer_extension exts) kRequiredDeviceExtensions) else [])"

definition contract_entries :: "ExtensionContractEntry list" where
  "contract_entries = [kDescriptorIndexingDeviceExtension, kBufferDeviceAddressDeviceExtension, kSynchronization2DeviceExtension]
     @ kRequiredDeviceExtensions"

definition advertised :: "ExtensionProperties list \<Rightarrow> string \<Rightarrow> bool" where
  "advertised exts name \<longleftrightarrow> c_str name \<in> fst ` set (supported_extensions exts)"


lemma c_str_inj [simp]: "c_str s = c_str t \<longleftrightarrow> s = t"
proof -
  have "c = d" if "(of_nat (of_char c) :: byte) = of_nat (of_char d)" for c d
  proof -
    have "unat (of_nat (of_char c) :: byte) = of_char c" "unat (of_nat (of_char d) :: byte) = of_char d"
      using nat_of_char_less_256 [of c] nat_of_char_less_256 [of d] by (simp_all add: unat_of_nat_small)
    with that show ?thesis by (metis of_char_eq_iff)
  qed
  then have "inj (\<lambda>c. of_nat (of_char c) :: byte)" by (auto intro: injI)
  then show ?thesis by (simp add: c_str_def inj_map_eq_map)
qed

lemma length_c_str [simp]: "length (c_str s) = length s"
  by (simp add: c_str_def)

lemma contract_names_short: "e \<in> set contract_entries \<Longrightarrow> length (fst e) \<le> 255"
  by (auto simp: contract_entries_def kRequiredDeviceExtensions_def kDescriptorIndexingDeviceExtension_def
      kBufferDeviceAddressDeviceExtension_def kSynchronization2DeviceExtension_def)

lemma find_extension_some: "find_extension exts n = Some e \<Longrightarrow> e \<in> set exts \<and> fst e = c_str n"
  by (auto simp: find_extension_def find_Some_iff)

lemma contract_members:
  "kDescriptorIndexingDeviceExtension \<in> set contract_entries" "kBufferDeviceAddressDeviceExtension \<in> set contract_entries"
  "kSynchronization2DeviceExtension \<in> set contract_entries" "e \<in> set kRequiredDeviceExtensions \<Longrightarrow> e \<in> set contract_entries"
  by (simp_all add: contract_entries_def)

definition contract_complete :: "ExtensionProperties list \<Rightarrow> bool" where
  "contract_complete exts = list_all (\<lambda>required. find_extension exts (fst required) \<noteq> None) kRequiredDeviceExtensions"

definition offered :: "ExtensionProperties list \<Rightarrow> ExtensionContractEntry \<Rightarrow> ExtensionProperties list" where
  "offered exts e = (case find_extension exts (fst e) of None \<Rightarrow> [] | Some found \<Rightarrow> [(c_str (fst e), min (snd found) (snd e))])"

lemma offer_extension_eq:
  "e \<in> set contract_entries \<Longrightarrow> offer_extension exts e = offered exts e"
  using contract_names_short [of e] by (simp add: offer_extension_def offered_def VK_MAX_EXTENSION_NAME_SIZE_def split: option.splits)

lemma set_offered: "x \<in> set (offered exts e) \<longleftrightarrow> (\<exists>found. find_extension exts (fst e) = Some found \<and> x = (c_str (fst e), min (snd found) (snd e)))"
  by (cases "find_extension exts (fst e)") (auto simp: offered_def)

text \<open>The advertised list, member by member.\<close>

lemma supported_extensions_eq:
  "supported_extensions exts =
     concat (map (\<lambda>n. case find_extension exts n of None \<Rightarrow> [] | Some found \<Rightarrow> [found]) [VK_KHR_SWAPCHAIN_EXTENSION_NAME])
     @ concat (map (offered exts)
         (filter (\<lambda>e. e \<notin> set kRequiredDeviceExtensions \<or> contract_complete exts) contract_entries))"
proof -
  have c: "concat (map (offer_extension exts) kRequiredDeviceExtensions) = concat (map (offered exts) kRequiredDeviceExtensions)"
    using offer_extension_eq contract_members(4) by (intro arg_cong [where f = concat] map_cong) auto
  have fl: "filter (\<lambda>e. e \<notin> set kRequiredDeviceExtensions \<or> contract_complete exts) contract_entries =
      [kDescriptorIndexingDeviceExtension, kBufferDeviceAddressDeviceExtension, kSynchronization2DeviceExtension]
      @ (if contract_complete exts then kRequiredDeviceExtensions else [])"
  proof -
    have "filter (\<lambda>e. e \<notin> set kRequiredDeviceExtensions \<or> b) contract_entries =
      [kDescriptorIndexingDeviceExtension, kBufferDeviceAddressDeviceExtension, kSynchronization2DeviceExtension]
      @ (if b then kRequiredDeviceExtensions else [])" for b
      by (cases b) (simp_all add: contract_entries_def kRequiredDeviceExtensions_def kDescriptorIndexingDeviceExtension_def
          kBufferDeviceAddressDeviceExtension_def kSynchronization2DeviceExtension_def)
    then show ?thesis .
  qed
  show ?thesis unfolding fl supported_extensions_def
    by (simp add: c offer_extension_eq contract_members(1-3) contract_complete_def)
qed

lemma contract_distinct: "distinct (VK_KHR_SWAPCHAIN_EXTENSION_NAME # map fst contract_entries)"
  by (simp add: contract_entries_def kRequiredDeviceExtensions_def kDescriptorIndexingDeviceExtension_def
      kBufferDeviceAddressDeviceExtension_def kSynchronization2DeviceExtension_def)

lemma supported_member:
  "(n, v) \<in> set (supported_extensions exts) \<longleftrightarrow>
     find_extension exts VK_KHR_SWAPCHAIN_EXTENSION_NAME = Some (n, v)
     \<or> (\<exists>e \<in> set contract_entries. \<exists>found. (e \<in> set kRequiredDeviceExtensions \<longrightarrow> contract_complete exts) \<and>
          find_extension exts (fst e) = Some found \<and> n = c_str (fst e) \<and> v = min (snd found) (snd e))"
proof -
  let ?P = "\<lambda>e. e \<notin> set kRequiredDeviceExtensions \<or> contract_complete exts"
  have "(n, v) \<in> set (concat (map (offered exts) (filter ?P contract_entries))) \<longleftrightarrow>
      (\<exists>e \<in> set contract_entries. ?P e \<and> (n, v) \<in> set (offered exts e))" by auto
  then show ?thesis unfolding supported_extensions_eq set_offered
    by (cases "find_extension exts VK_KHR_SWAPCHAIN_EXTENSION_NAME") auto
qed

lemma advertised_iff:
  "advertised exts name \<longleftrightarrow> find_extension exts name \<noteq> None \<and>
     (name = VK_KHR_SWAPCHAIN_EXTENSION_NAME
      \<or> (\<exists>e \<in> set contract_entries. fst e = name \<and> (e \<in> set kRequiredDeviceExtensions \<longrightarrow> contract_complete exts)))"
proof -
  have "advertised exts name \<longleftrightarrow> (\<exists>v. (c_str name, v) \<in> set (supported_extensions exts))"
    by (force simp: advertised_def)
  then show ?thesis using find_extension_some [of exts VK_KHR_SWAPCHAIN_EXTENSION_NAME]
    by (auto simp: supported_member)
qed

lemma offered_names: "n \<notin> set (map fst es) \<Longrightarrow> c_str n \<notin> set (map fst (concat (map (offered exts) es)))"
  by (force simp: set_offered)

lemma offered_distinct: "distinct (map fst es) \<Longrightarrow> distinct (map fst (concat (map (offered exts) es)))"
proof (induction es)
  case (Cons e es)
  have "c_str (fst e) \<notin> set (map fst (concat (map (offered exts) es)))"
    by (rule offered_names) (use Cons.prems in simp)
  with Cons show ?case by (cases "find_extension exts (fst e)") (simp_all add: offered_def)
qed simp

lemma supported_distinct: "distinct (map fst (supported_extensions exts))"
proof -
  let ?es = "filter (\<lambda>e. e \<notin> set kRequiredDeviceExtensions \<or> contract_complete exts) contract_entries"
  have "distinct (map fst ?es)" "VK_KHR_SWAPCHAIN_EXTENSION_NAME \<notin> set (map fst ?es)"
    using contract_distinct by (auto intro: distinct_map_filter)
  from offered_distinct [OF this(1), of exts] offered_names [OF this(2), of exts] show ?thesis
    unfolding supported_extensions_eq using find_extension_some [of exts VK_KHR_SWAPCHAIN_EXTENSION_NAME]
    by (cases "find_extension exts VK_KHR_SWAPCHAIN_EXTENSION_NAME") simp_all
qed

lemma required_closed:
  assumes "e \<in> set kRequiredDeviceExtensions" and "\<And>d. d \<in> set kRequiredDeviceExtensions \<Longrightarrow> enabled (fst d)"
  shows "device_extension_dependencies_satisfied (Some (fst e)) enabled True"
proof -
  have "enabled VK_KHR_MULTIVIEW_EXTENSION_NAME" "enabled VK_KHR_MAINTENANCE_2_EXTENSION_NAME"
    "enabled VK_KHR_CREATE_RENDERPASS_2_EXTENSION_NAME" "enabled VK_KHR_IMAGE_FORMAT_LIST_EXTENSION_NAME"
    using assms(2) [of "(VK_KHR_MULTIVIEW_EXTENSION_NAME, 1)"] assms(2) [of "(VK_KHR_MAINTENANCE_2_EXTENSION_NAME, 1)"]
      assms(2) [of "(VK_KHR_CREATE_RENDERPASS_2_EXTENSION_NAME, 1)"] assms(2) [of "(VK_KHR_IMAGE_FORMAT_LIST_EXTENSION_NAME, 1)"]
    by (simp_all add: kRequiredDeviceExtensions_def)
  then show ?thesis by (simp add: device_extension_dependencies_satisfied_def)
qed

text \<open>
  C33. Whatever the device reports, every advertised extension is one the device has, at a revision no
  higher than the device's and than the contract's (the swapchain extension is passed through); no
  name is advertised twice; the six extensions of the reviewed unit are advertised together, exactly
  when the device has all of them; and an application that enables any advertised set it likes can
  satisfy the dependencies of each member from what is advertised.
\<close>

theorem extensions_negotiated:
  "(\<forall>(n, v) \<in> set (supported_extensions exts). \<exists>w. (n, w) \<in> set exts \<and> v \<le> w
       \<and> (n = c_str VK_KHR_SWAPCHAIN_EXTENSION_NAME \<or> (\<exists>e \<in> set contract_entries. n = c_str (fst e) \<and> v \<le> snd e)))
   \<and> distinct (map fst (supported_extensions exts))
   \<and> (\<forall>name. advertised exts name \<longrightarrow> device_extension_dependencies_satisfied (Some name) (advertised exts) True)
   \<and> (\<forall>e \<in> set kRequiredDeviceExtensions. advertised exts (fst e) \<longleftrightarrow> contract_complete exts)"
proof (intro conjI)
  show "\<forall>(n, v) \<in> set (supported_extensions exts). \<exists>w. (n, w) \<in> set exts \<and> v \<le> w
       \<and> (n = c_str VK_KHR_SWAPCHAIN_EXTENSION_NAME \<or> (\<exists>e \<in> set contract_entries. n = c_str (fst e) \<and> v \<le> snd e))"
    using find_extension_some by (fastforce simp: supported_member)
  show "distinct (map fst (supported_extensions exts))" by (rule supported_distinct)
  have six: "advertised exts (fst e) \<longleftrightarrow> contract_complete exts" if "e \<in> set kRequiredDeviceExtensions" for e
  proof -
    have "e \<in> set contract_entries" using that by (rule contract_members)
    moreover have "fst e \<noteq> VK_KHR_SWAPCHAIN_EXTENSION_NAME" using contract_distinct calculation by (metis distinct.simps(2) image_eqI list.set_map)
    moreover have "d = e" if "d \<in> set contract_entries" "fst d = fst e" for d
      using contract_distinct that calculation(1) by (auto simp: distinct_map inj_on_def)
    ultimately show ?thesis using that by (auto simp: advertised_iff contract_complete_def list_all_iff)
  qed
  then show "\<forall>e \<in> set kRequiredDeviceExtensions. advertised exts (fst e) \<longleftrightarrow> contract_complete exts" by blast
  show "\<forall>name. advertised exts name \<longrightarrow> device_extension_dependencies_satisfied (Some name) (advertised exts) True"
  proof (intro allI impI)
    fix name assume a: "advertised exts name"
    show "device_extension_dependencies_satisfied (Some name) (advertised exts) True"
    proof (cases "\<exists>e \<in> set kRequiredDeviceExtensions. fst e = name")
      case True
      with a six required_closed [of _ "advertised exts"] show ?thesis by blast
    next
      case False
      then show ?thesis by (auto simp: device_extension_dependencies_satisfied_def kRequiredDeviceExtensions_def)
    qed
  qed
qed


definition example_extensions :: "ExtensionProperties list" where
  "example_extensions = (c_str VK_KHR_SWAPCHAIN_EXTENSION_NAME, 70) # (c_str VK_KHR_SYNCHRONIZATION_2_EXTENSION_NAME, 1)
     # map (\<lambda>e. (c_str (fst e), 3)) kRequiredDeviceExtensions"

theorem extensions_negotiated_witness:
  "advertised example_extensions VK_KHR_FRAGMENT_SHADING_RATE_EXTENSION_NAME
   \<and> device_extension_dependencies_satisfied (Some VK_KHR_FRAGMENT_SHADING_RATE_EXTENSION_NAME) (advertised example_extensions) True
   \<and> (\<exists>w. (c_str VK_KHR_FRAGMENT_SHADING_RATE_EXTENSION_NAME, w) \<in> set example_extensions \<and> (2 :: u32) \<le> w)"
proof -
  have e: "(VK_KHR_FRAGMENT_SHADING_RATE_EXTENSION_NAME, 2) \<in> set kRequiredDeviceExtensions" by (simp add: kRequiredDeviceExtensions_def)
  have "contract_complete example_extensions" by code_simp
  with e have a: "advertised example_extensions VK_KHR_FRAGMENT_SHADING_RATE_EXTENSION_NAME"
    using extensions_negotiated [of example_extensions] by fastforce
  have "(c_str VK_KHR_FRAGMENT_SHADING_RATE_EXTENSION_NAME, 2) \<in> set (supported_extensions example_extensions)" by code_simp
  with a extensions_negotiated [of example_extensions] show ?thesis by blast
qed

end
