(* ===== verification/HandlersInstance.thy ===== *)
theory HandlersInstance
  imports HandlersMemory ExtensionContract
begin

section \<open>Physical-device queries (server/handlers_instance.cpp)\<close>

text \<open>
  Every handler of the file after the handshake, which is in \<open>Session\<close>. The driver's answer
  to a query is the list \<open>nr_out\<close> of the structures it filled; a structure starts out zeroed and
  a field the driver left alone, or one that is not of its type, stays zero (\<open>fit_fields\<close>). For a
  chain the first structure is the base and the others are the chain's nodes in order.
\<close>

subsection \<open>What the driver stored\<close>

definition out_row :: "NativeResult \<Rightarrow> nat \<Rightarrow> vk list" where
  "out_row r i = (if i < length (nr_out r) then case list_of (nr_out r ! i) of Some vs \<Rightarrow> vs | None \<Rightarrow> [] else [])"

definition out_struct :: "wire_field list \<Rightarrow> NativeResult \<Rightarrow> nat \<Rightarrow> vk list" where
  "out_struct fs r i = fit_fields fs (out_row r i)"

definition put_struct :: "wire_field list \<Rightarrow> NativeResult \<Rightarrow> nat \<Rightarrow> unit handler" where
  "put_struct fs r i = wr (\<lambda>w. w_append w (w_plain fs (out_struct fs r i)))"

definition put_structs :: "wire_field list \<Rightarrow> NativeResult \<Rightarrow> nat \<Rightarrow> unit handler" where
  "put_structs fs r n = wr (\<lambda>w. fold (\<lambda>i w. w_append w (w_plain fs (out_struct fs r i))) [0..<n] w)"

text \<open>A raw structure: exactly its size, zero where the driver stored nothing.\<close>

definition out_raw :: "nat \<Rightarrow> NativeResult \<Rightarrow> bytes" where
  "out_raw n r = take n (nr_data r @ replicate n 0)"

definition out_count :: "NativeResult \<Rightarrow> u32" where
  "out_count r = ucast (nr_value r 0)"

text \<open>The two-call idiom: the count, then, when it is not zero, the elements.\<close>

definition enumerate_native :: "Server \<Rightarrow> string \<Rightarrow> vk list \<Rightarrow> (u32 \<times> NativeResult) handler" where
  "enumerate_native srv fn args = do {
     r \<leftarrow> call_native srv (NativeCall fn (args @ [VList []]));
     if out_count r \<noteq> 0 then do {
       r' \<leftarrow> call_native srv (NativeCall fn (args @ [VList [VNum (ucast (out_count r))]]));
       State_Monad.return (out_count r', r') }
     else State_Monad.return (0, r) }"

definition out_memory_properties :: "NativeResult \<Rightarrow> MemoryProperties" where
  "out_memory_properties r =
     (let types = take VK_MAX_MEMORY_TYPES (out_row r 0); heaps = take VK_MAX_MEMORY_HEAPS (out_row r 1);
          word = (\<lambda>row i. case list_of row of Some vs \<Rightarrow>
             (if i < length vs then case num_of (vs ! i) of Some x \<Rightarrow> x | None \<Rightarrow> 0 else 0) | None \<Rightarrow> 0)
      in \<lparr>memoryTypes = map (\<lambda>row. (ucast (word row 0), ucast (word row 1))) types,
          memoryHeaps = map (\<lambda>row. (word row 0, ucast (word row 1))) heaps\<rparr>)"

text \<open>A name as a C string: up to its terminator, which is within the array.\<close>

definition out_extension :: "NativeResult \<Rightarrow> nat \<Rightarrow> ExtensionProperties" where
  "out_extension r i =
     (case out_struct [FBlob VK_MAX_EXTENSION_NAME_SIZE, FU32] r i of
        [VBytes name, VNum v] \<Rightarrow> (takeWhile (\<lambda>b. b \<noteq> 0) (take (VK_MAX_EXTENSION_NAME_SIZE - 1) name), ucast v)
      | _ \<Rightarrow> ([], 0))"

definition filled_chain :: "pnode list \<Rightarrow> NativeResult \<Rightarrow> pnode list" where
  "filled_chain nodes r = map (\<lambda>(i, node). (fst node,
     case map_of node_fields (fst node) of Some fs \<Rightarrow> out_struct fs r (Suc i) | None \<Rightarrow> [])) (enumerate 0 nodes)"

definition rd_topology :: "PNextContext \<Rightarrow> pnode list option handler" where
  "rd_topology c = rd (read_pnext_output_topology c)"

definition put_chain :: "PNextContext \<Rightarrow> pnode list \<Rightarrow> unit handler" where
  "put_chain c chain = wr (\<lambda>w. snd (write_pnext_output_values w c chain))"

subsection \<open>Handlers\<close>

definition handle_vkEnumeratePhysicalDevices :: "Server \<Rightarrow> unit handler" where
  "handle_vkEnumeratePhysicalDevices srv = do {
     put_u32 (status_code Ok);
     put_i32 VK_SUCCESS;
     put_u32 (of_nat (length (physical_devices srv)));
     wr (\<lambda>w. fold (\<lambda>i w. w_handle w (of_nat (i + 1))) [0..<length (physical_devices srv)] w);
     reply }"

definition handle_vkGetPhysicalDeviceProperties :: "Server \<Rightarrow> unit handler" where
  "handle_vkGetPhysicalDeviceProperties srv = do {
     i \<leftarrow> rd r_handle;
     let device = physical_device_from_id srv i;
     ok \<leftarrow> reader_ok;
     if \<not> ok \<or> device = VK_NULL_HANDLE then reply_status DecodeError else do {
     r \<leftarrow> call_native srv (NativeCall ''vkGetPhysicalDeviceProperties'' [VNum device]);
     put_u32 (status_code Ok);
     put_struct PhysicalDeviceProperties_fields r 0;
     reply }}"

definition public_memory :: "u32 \<Rightarrow> MemoryProperties \<Rightarrow> MemoryProperties" where
  "public_memory caps s = s\<lparr>memoryTypes := map (\<lambda>(flags, heap). (public_memory_property_flags flags caps, heap)) (memoryTypes s)\<rparr>"

definition memory_query :: "Server \<Rightarrow> string \<Rightarrow> unit handler" where
  "memory_query srv fn = do {
     i \<leftarrow> rd r_handle;
     let device = physical_device_from_id srv i;
     ok \<leftarrow> reader_ok;
     if \<not> ok \<or> device = VK_NULL_HANDLE then reply_status DecodeError else do {
     r \<leftarrow> call_native srv (NativeCall fn [VNum device]);
     caps \<leftarrow> query_tables capabilities;
     put_u32 (status_code Ok);
     wr (\<lambda>w. write_PhysicalDeviceMemoryProperties w (public_memory caps (out_memory_properties r)));
     reply }}"

definition handle_vkGetPhysicalDeviceMemoryProperties :: "Server \<Rightarrow> unit handler" where
  "handle_vkGetPhysicalDeviceMemoryProperties srv = memory_query srv ''vkGetPhysicalDeviceMemoryProperties''"

definition handle_vkGetPhysicalDeviceMemoryProperties2 :: "Server \<Rightarrow> unit handler" where
  "handle_vkGetPhysicalDeviceMemoryProperties2 srv = memory_query srv ''vkGetPhysicalDeviceMemoryProperties2''"

definition family_query :: "Server \<Rightarrow> string \<Rightarrow> unit handler" where
  "family_query srv fn = do {
     i \<leftarrow> rd r_handle;
     let device = physical_device_from_id srv i;
     ok \<leftarrow> reader_ok;
     if \<not> ok \<or> device = VK_NULL_HANDLE then reply_status DecodeError else do {
     (count, r) \<leftarrow> enumerate_native srv fn [VNum device];
     put_u32 (status_code Ok);
     put_u32 count;
     put_structs QueueFamilyProperties_fields r (unat count);
     reply }}"

definition handle_vkGetPhysicalDeviceQueueFamilyProperties :: "Server \<Rightarrow> unit handler" where
  "handle_vkGetPhysicalDeviceQueueFamilyProperties srv = family_query srv ''vkGetPhysicalDeviceQueueFamilyProperties''"

definition handle_vkGetPhysicalDeviceQueueFamilyProperties2 :: "Server \<Rightarrow> unit handler" where
  "handle_vkGetPhysicalDeviceQueueFamilyProperties2 srv = family_query srv ''vkGetPhysicalDeviceQueueFamilyProperties2''"

definition handle_vkGetPhysicalDeviceFeatures :: "Server \<Rightarrow> unit handler" where
  "handle_vkGetPhysicalDeviceFeatures srv = do {
     i \<leftarrow> rd r_handle;
     let device = physical_device_from_id srv i;
     ok \<leftarrow> reader_ok;
     if \<not> ok \<or> device = VK_NULL_HANDLE then reply_status DecodeError else do {
     r \<leftarrow> call_native srv (NativeCall ''vkGetPhysicalDeviceFeatures'' [VNum device]);
     put_u32 (status_code Ok);
     put_bytes (out_raw 220 r);
     reply }}"

definition handle_vkGetPhysicalDeviceFormatProperties :: "Server \<Rightarrow> unit handler" where
  "handle_vkGetPhysicalDeviceFormatProperties srv = do {
     i \<leftarrow> rd r_handle;
     let device = physical_device_from_id srv i;
     format \<leftarrow> rd r_i32;
     ok \<leftarrow> reader_ok;
     if \<not> ok \<or> device = VK_NULL_HANDLE then reply_status DecodeError else do {
     r \<leftarrow> call_native srv (NativeCall ''vkGetPhysicalDeviceFormatProperties'' [VNum device, VNum (ucast format)]);
     put_u32 (status_code Ok);
     put_bytes (out_raw 12 r);
     reply }}"

definition handle_vkGetPhysicalDeviceImageFormatProperties :: "Server \<Rightarrow> unit handler" where
  "handle_vkGetPhysicalDeviceImageFormatProperties srv = do {
     i \<leftarrow> rd r_handle;
     let device = physical_device_from_id srv i;
     format \<leftarrow> rd r_i32;
     type \<leftarrow> rd r_i32;
     tiling \<leftarrow> rd r_i32;
     usage \<leftarrow> rd r_u32;
     flags \<leftarrow> rd r_u32;
     ok \<leftarrow> reader_ok;
     if \<not> ok \<or> device = VK_NULL_HANDLE then reply_status DecodeError else do {
     r \<leftarrow> call_native srv (NativeCall ''vkGetPhysicalDeviceImageFormatProperties''
       [VNum device, VNum (ucast format), VNum (ucast type), VNum (ucast tiling), VNum (ucast usage), VNum (ucast flags)]);
     put_u32 (status_code Ok);
     put_i32 (nr_result r);
     put_bytes (out_raw 32 r);
     reply }}"

definition handle_vkGetPhysicalDeviceSparseImageFormatProperties :: "Server \<Rightarrow> unit handler" where
  "handle_vkGetPhysicalDeviceSparseImageFormatProperties srv = do {
     i \<leftarrow> rd r_handle;
     let device = physical_device_from_id srv i;
     format \<leftarrow> rd r_i32;
     type \<leftarrow> rd r_i32;
     samples \<leftarrow> rd r_i32;
     usage \<leftarrow> rd r_u32;
     tiling \<leftarrow> rd r_i32;
     ok \<leftarrow> reader_ok;
     if \<not> ok \<or> device = VK_NULL_HANDLE then reply_status DecodeError else do {
     let args = [VNum device, VNum (ucast format), VNum (ucast type), VNum (ucast samples), VNum (ucast usage), VNum (ucast tiling)];
     r \<leftarrow> call_native srv (NativeCall ''vkGetPhysicalDeviceSparseImageFormatProperties'' (args @ [VList []]));
     if out_count r > kMaxArrayElements then reply_status DecodeError else do {
     (count, r') \<leftarrow> (if out_count r \<noteq> 0 then do {
         r' \<leftarrow> call_native srv (NativeCall ''vkGetPhysicalDeviceSparseImageFormatProperties'' (args @ [VList [VNum (ucast (out_count r))]]));
         State_Monad.return (out_count r', r') }
       else State_Monad.return (0, r));
     put_u32 (status_code Ok);
     put_u32 count;
     put_structs SparseImageFormatProperties_fields r' (unat count);
     reply }}}"

definition handle_vkGetPhysicalDeviceSparseImageFormatProperties2 :: "Server \<Rightarrow> unit handler" where
  "handle_vkGetPhysicalDeviceSparseImageFormatProperties2 srv = do {
     i \<leftarrow> rd r_handle;
     let device = physical_device_from_id srv i;
     format \<leftarrow> rd r_i32;
     type \<leftarrow> rd r_i32;
     samples \<leftarrow> rd r_i32;
     usage \<leftarrow> rd r_u32;
     tiling \<leftarrow> rd r_i32;
     ok \<leftarrow> reader_ok;
     if \<not> ok \<or> device = VK_NULL_HANDLE then reply_status DecodeError else do {
     (count, r) \<leftarrow> enumerate_native srv ''vkGetPhysicalDeviceSparseImageFormatProperties2''
       [VNum device, VNum (ucast format), VNum (ucast type), VNum (ucast samples), VNum (ucast usage), VNum (ucast tiling)];
     put_u32 (status_code Ok);
     put_u32 count;
     put_structs SparseImageFormatProperties_fields r (unat count);
     reply }}"

text \<open>The two chained queries, which differ in their context and base structure.\<close>

definition chained_query :: "Server \<Rightarrow> PNextContext \<Rightarrow> string \<Rightarrow> wire_field list \<Rightarrow> unit handler" where
  "chained_query srv c fn fs = do {
     i \<leftarrow> rd r_handle;
     let device = physical_device_from_id srv i;
     ok \<leftarrow> reader_ok;
     if \<not> ok \<or> device = VK_NULL_HANDLE then reply_status DecodeError else do {
     chain \<leftarrow> rd_topology c;
     case chain of None \<Rightarrow> reply_status DecodeError | Some nodes \<Rightarrow> do {
     r \<leftarrow> call_native srv (NativeCall fn [VNum device, VList (map node_vk nodes)]);
     put_u32 (status_code Ok);
     put_struct fs r 0;
     put_chain c (filled_chain nodes r);
     reply }}}"

definition handle_vkGetPhysicalDeviceFeatures2 :: "Server \<Rightarrow> unit handler" where
  "handle_vkGetPhysicalDeviceFeatures2 srv =
     chained_query srv QueryFeaturesOutput ''vkGetPhysicalDeviceFeatures2'' PhysicalDeviceFeatures_fields"

definition handle_vkGetPhysicalDeviceProperties2 :: "Server \<Rightarrow> unit handler" where
  "handle_vkGetPhysicalDeviceProperties2 srv =
     chained_query srv QueryPropertiesOutput ''vkGetPhysicalDeviceProperties2'' PhysicalDeviceProperties_fields"

definition handle_vkGetPhysicalDeviceFormatProperties2 :: "Server \<Rightarrow> unit handler" where
  "handle_vkGetPhysicalDeviceFormatProperties2 srv = do {
     i \<leftarrow> rd r_handle;
     let device = physical_device_from_id srv i;
     format \<leftarrow> rd r_i32;
     ok \<leftarrow> reader_ok;
     if \<not> ok \<or> device = VK_NULL_HANDLE then reply_status DecodeError else do {
     r \<leftarrow> call_native srv (NativeCall ''vkGetPhysicalDeviceFormatProperties2'' [VNum device, VNum (ucast format)]);
     put_u32 (status_code Ok);
     put_struct FormatProperties_fields r 0;
     reply }}"

definition handle_vkGetPhysicalDeviceImageFormatProperties2 :: "Server \<Rightarrow> unit handler" where
  "handle_vkGetPhysicalDeviceImageFormatProperties2 srv = do {
     i \<leftarrow> rd r_handle;
     let device = physical_device_from_id srv i;
     format \<leftarrow> rd r_i32;
     type \<leftarrow> rd r_i32;
     tiling \<leftarrow> rd r_i32;
     usage \<leftarrow> rd r_u32;
     flags \<leftarrow> rd r_u32;
     ok \<leftarrow> reader_ok;
     if \<not> ok \<or> device = VK_NULL_HANDLE then reply_status DecodeError else do {
     input \<leftarrow> rd_with (\<lambda>t. read_pnext_chain (resolve t) ImageCreate 0);
     case input of None \<Rightarrow> reply_status DecodeError | Some input_chain \<Rightarrow> do {
     output \<leftarrow> rd_topology ImageFormatPropertiesOutput;
     case output of None \<Rightarrow> reply_status DecodeError | Some nodes \<Rightarrow> do {
     r \<leftarrow> call_native srv (NativeCall ''vkGetPhysicalDeviceImageFormatProperties2''
       [VNum device, VNum (ucast format), VNum (ucast type), VNum (ucast tiling), VNum (ucast usage), VNum (ucast flags),
        VList (map node_vk input_chain), VList (map node_vk nodes)]);
     put_u32 (status_code Ok);
     put_i32 (nr_result r);
     put_struct ImageFormatProperties_fields r 0;
     put_chain ImageFormatPropertiesOutput (filled_chain nodes r);
     reply }}}}"

definition handle_vkGetPhysicalDeviceFragmentShadingRatesKHR :: "Server \<Rightarrow> unit handler" where
  "handle_vkGetPhysicalDeviceFragmentShadingRatesKHR srv = do {
     i \<leftarrow> rd r_handle;
     let device = physical_device_from_id srv i;
     ok \<leftarrow> reader_ok;
     if \<not> ok \<or> device = VK_NULL_HANDLE then reply_status DecodeError
     else if \<not> proc_addr srv VK_NULL_HANDLE ''vkGetPhysicalDeviceFragmentShadingRatesKHR'' then reply_status UnsupportedCommand else do {
     r \<leftarrow> call_native srv (NativeCall ''vkGetPhysicalDeviceFragmentShadingRatesKHR'' [VNum device, VList []]);
     if out_count r > kMaxArrayElements then reply_status DecodeError else do {
     r' \<leftarrow> (if nr_result r = VK_SUCCESS \<and> out_count r \<noteq> 0
       then call_native srv (NativeCall ''vkGetPhysicalDeviceFragmentShadingRatesKHR'' [VNum device, VList [VNum (ucast (out_count r))]])
       else State_Monad.return r);
     put_u32 (status_code Ok);
     put_i32 (nr_result r');
     put_u32 (out_count r');
     put_structs FragmentShadingRate_fields r' (unat (out_count r'));
     reply }}}"

definition handle_vkEnumerateDeviceExtensionProperties :: "Server \<Rightarrow> unit handler" where
  "handle_vkEnumerateDeviceExtensionProperties srv = do {
     i \<leftarrow> rd r_handle;
     let physdev = physical_device_from_id srv i;
     ok \<leftarrow> reader_ok;
     if \<not> ok \<or> physdev = VK_NULL_HANDLE then reply_status DecodeError else do {
     (count, r) \<leftarrow> enumerate_native srv ''vkEnumerateDeviceExtensionProperties'' [VNum physdev];
     let supported = supported_extensions (map (out_extension r) [0..<unat count]);
     put_u32 (status_code Ok);
     put_i32 VK_SUCCESS;
     put_u32 (of_nat (length supported));
     wr (\<lambda>w. fold (\<lambda>extension w. write_ExtensionProperties w extension) supported w);
     reply }}"

subsection \<open>Registration\<close>

definition instance_requests :: "Server \<Rightarrow> (string \<times> unit handler) list" where
  "instance_requests srv = [
     (''vkEnumeratePhysicalDevices'', handle_vkEnumeratePhysicalDevices srv),
     (''vkGetPhysicalDeviceProperties'', handle_vkGetPhysicalDeviceProperties srv),
     (''vkGetPhysicalDeviceMemoryProperties'', handle_vkGetPhysicalDeviceMemoryProperties srv),
     (''vkGetPhysicalDeviceQueueFamilyProperties'', handle_vkGetPhysicalDeviceQueueFamilyProperties srv),
     (''vkGetPhysicalDeviceFeatures'', handle_vkGetPhysicalDeviceFeatures srv),
     (''vkGetPhysicalDeviceFormatProperties'', handle_vkGetPhysicalDeviceFormatProperties srv),
     (''vkGetPhysicalDeviceImageFormatProperties'', handle_vkGetPhysicalDeviceImageFormatProperties srv),
     (''vkGetPhysicalDeviceSparseImageFormatProperties'', handle_vkGetPhysicalDeviceSparseImageFormatProperties srv),
     (''vkGetPhysicalDeviceFeatures2'', handle_vkGetPhysicalDeviceFeatures2 srv),
     (''vkGetPhysicalDeviceProperties2'', handle_vkGetPhysicalDeviceProperties2 srv),
     (''vkGetPhysicalDeviceFormatProperties2'', handle_vkGetPhysicalDeviceFormatProperties2 srv),
     (''vkGetPhysicalDeviceImageFormatProperties2'', handle_vkGetPhysicalDeviceImageFormatProperties2 srv),
     (''vkGetPhysicalDeviceQueueFamilyProperties2'', handle_vkGetPhysicalDeviceQueueFamilyProperties2 srv),
     (''vkGetPhysicalDeviceMemoryProperties2'', handle_vkGetPhysicalDeviceMemoryProperties2 srv),
     (''vkGetPhysicalDeviceSparseImageFormatProperties2'', handle_vkGetPhysicalDeviceSparseImageFormatProperties2 srv),
     (''vkGetPhysicalDeviceFragmentShadingRatesKHR'', handle_vkGetPhysicalDeviceFragmentShadingRatesKHR srv),
     (''vkEnumerateDeviceExtensionProperties'', handle_vkEnumerateDeviceExtensionProperties srv)]"

lemmas instance_defs = handle_vkEnumeratePhysicalDevices_def handle_vkGetPhysicalDeviceProperties_def
  handle_vkGetPhysicalDeviceMemoryProperties_def memory_query_def handle_vkGetPhysicalDeviceQueueFamilyProperties_def
  family_query_def handle_vkGetPhysicalDeviceFeatures_def handle_vkGetPhysicalDeviceFormatProperties_def
  handle_vkGetPhysicalDeviceImageFormatProperties_def handle_vkGetPhysicalDeviceSparseImageFormatProperties_def
  handle_vkGetPhysicalDeviceFeatures2_def chained_query_def handle_vkGetPhysicalDeviceProperties2_def
  handle_vkGetPhysicalDeviceFormatProperties2_def handle_vkGetPhysicalDeviceImageFormatProperties2_def
  handle_vkGetPhysicalDeviceQueueFamilyProperties2_def handle_vkGetPhysicalDeviceMemoryProperties2_def
  handle_vkGetPhysicalDeviceSparseImageFormatProperties2_def handle_vkGetPhysicalDeviceFragmentShadingRatesKHR_def
  handle_vkEnumerateDeviceExtensionProperties_def

lemma query_prims [handler_intros]:
  "unsent (put_struct fs r i)" "unsent (put_structs fs r n)" "unsent (rd_topology c)" "unsent (put_chain c chain)"
  "unsent (enumerate_native srv fn args)"
  "keeps D (put_struct fs r i)" "keeps D (put_structs fs r n)" "keeps D (rd_topology c)" "keeps D (put_chain c chain)"
  "keeps D (enumerate_native srv fn args)"
  unfolding put_struct_def put_structs_def rd_topology_def put_chain_def enumerate_native_def
  by (intro handler_intros keeps_bind)+

lemma instance_requests_answer: "list_all (\<lambda>(name, m). answers m) (instance_requests srv)"
  unfolding instance_requests_def
  by (simp add: instance_defs split del: if_split) (intro conjI handler_intros)

lemma instance_requests_keep: "list_all (\<lambda>(name, m). keeps {} m) (instance_requests srv)"
  unfolding instance_requests_def
  by (simp add: instance_defs split del: if_split) (intro conjI keeps_bind handler_intros)

end
