(* ===== verification/HandlersWsi.thy ===== *)
theory HandlersWsi
  imports HandlersInstance
begin

section \<open>Surfaces and swapchains (server/handlers_wsi.cpp, the windows of server/session.cpp)\<close>

text \<open>
  Every handler of the file, in its Linux branches. The server's own windows are state of the server
  object: which windows it owns and which surface each backs. Here that state is read off the log of
  the calls made, \<open>server_windows\<close>, since every operation on it is logged. A window itself, its
  size, its close button and its input queue, is answered by the environment.
\<close>

subsection \<open>The server's windows\<close>

record ServerWindows =
  m_own_windows :: "u64 list"
  m_surface_windows :: "(u64 \<times> u64) list"

definition ServerWindows_init :: ServerWindows where
  "ServerWindows_init = \<lparr>m_own_windows = [], m_surface_windows = []\<rparr>"

definition push_own_window :: "u64 \<Rightarrow> ServerWindows \<Rightarrow> ServerWindows" where
  "push_own_window window s = s\<lparr>m_own_windows := m_own_windows s @ [window]\<rparr>"

definition associate_surface :: "u64 \<Rightarrow> u64 \<Rightarrow> ServerWindows \<Rightarrow> ServerWindows" where
  "associate_surface surface window s =
     (if surface = VK_NULL_HANDLE \<or> window = 0 then s
      else s\<lparr>m_surface_windows := AList.update surface window (m_surface_windows s)\<rparr>)"

definition discard_own_window :: "u64 \<Rightarrow> ServerWindows \<Rightarrow> ServerWindows" where
  "discard_own_window window s = (if window = 0 then s else s\<lparr>m_own_windows := remove1 window (m_own_windows s)\<rparr>)"

definition release_surface_window :: "u64 \<Rightarrow> ServerWindows \<Rightarrow> ServerWindows" where
  "release_surface_window surface s =
     (if surface = VK_NULL_HANDLE then s
      else case map_of (m_surface_windows s) surface of
        None \<Rightarrow> s
      | Some window \<Rightarrow> s\<lparr>m_surface_windows := AList.delete surface (m_surface_windows s),
                         m_own_windows := remove1 window (m_own_windows s)\<rparr>)"

definition window_for_surface :: "ServerWindows \<Rightarrow> u64 \<Rightarrow> u64" where
  "window_for_surface s surface =
     (if surface = VK_NULL_HANDLE then 0
      else case map_of (m_surface_windows s) surface of None \<Rightarrow> 0 | Some window \<Rightarrow> window)"

definition window_step :: "native_call \<Rightarrow> ServerWindows \<Rightarrow> ServerWindows" where
  "window_step c = (case c of
      ReleaseSurfaceWindow surface \<Rightarrow> release_surface_window surface
    | NativeCall fn args \<Rightarrow>
       (if fn = ''m_own_windows.push_back'' then (case args of [VNum window] \<Rightarrow> push_own_window window | _ \<Rightarrow> id)
        else if fn = ''associate_surface'' then (case args of [VNum surface, VNum window] \<Rightarrow> associate_surface surface window | _ \<Rightarrow> id)
        else if fn = ''discard_own_window'' then (case args of [VNum window] \<Rightarrow> discard_own_window window | _ \<Rightarrow> id)
        else id)
    | _ \<Rightarrow> id)"

definition server_windows :: "native_call list \<Rightarrow> ServerWindows" where
  "server_windows log = fold window_step log ServerWindows_init"

definition query_windows :: "(ServerWindows \<Rightarrow> 'a) \<Rightarrow> 'a handler" where
  "query_windows f = State (\<lambda>s. (f (server_windows (native_log s)), s))"

definition log_window :: "Server \<Rightarrow> native_call \<Rightarrow> unit handler" where
  "log_window srv c = do { call_native srv c; State_Monad.return () }"

definition create_own_window :: "Server \<Rightarrow> u64 handler" where
  "create_own_window srv = do {
     r \<leftarrow> call_native srv (NativeCall ''OwnWindow::create'' []);
     if nr_handle r 0 = 0 then State_Monad.return 0 else do {
     log_window srv (NativeCall ''m_own_windows.push_back'' [VNum (nr_handle r 0)]);
     State_Monad.return (nr_handle r 0) }}"

definition poll_window_closed :: "Server \<Rightarrow> u64 \<Rightarrow> bool handler" where
  "poll_window_closed srv surface = do {
     window \<leftarrow> query_windows (\<lambda>s. window_for_surface s surface);
     if window = 0 then State_Monad.return False else do {
     r \<leftarrow> call_native srv (NativeCall ''OwnWindow::closed'' [VNum window]);
     State_Monad.return (nr_value r 0 \<noteq> 0) }}"

definition poll_window_resized :: "Server \<Rightarrow> u64 \<Rightarrow> bool handler" where
  "poll_window_resized srv surface = do {
     window \<leftarrow> query_windows (\<lambda>s. window_for_surface s surface);
     if window = 0 then State_Monad.return False else do {
     r \<leftarrow> call_native srv (NativeCall ''OwnWindow::take_resized'' [VNum window]);
     State_Monad.return (nr_value r 0 \<noteq> 0) }}"

definition InputEvent_fields :: "wire_field list" where
  "InputEvent_fields = [FU64, FU32, FI32, FI32, FI32, FI32]"

definition no_events :: NativeResult where
  "no_events = \<lparr>nr_result = 0, nr_handles = [], nr_values = [], nr_data = [], nr_out = []\<rparr>"

definition poll_window_events :: "Server \<Rightarrow> u64 \<Rightarrow> u32 \<Rightarrow> NativeResult handler" where
  "poll_window_events srv surface max_events = do {
     window \<leftarrow> query_windows (\<lambda>s. window_for_surface s surface);
     if window = 0 then State_Monad.return no_events
     else call_native srv (NativeCall ''OwnWindow::take_input_events'' [VNum window, VNum (ucast max_events)]) }"

subsection \<open>Surfaces\<close>

definition own_window_surface :: "Server \<Rightarrow> u64 \<Rightarrow> (u32 \<times> u64) handler" where
  "own_window_surface srv window = do {
     r \<leftarrow> call_native srv (NativeCall ''vkCreateWaylandSurfaceKHR/own'' [VNum window]);
     log_window srv (if nr_result r = VK_SUCCESS then NativeCall ''associate_surface'' [VNum (nr_handle r 0), VNum window]
       else NativeCall ''discard_own_window'' [VNum window]);
     State_Monad.return (nr_result r, nr_handle r 0) }"

definition surface_reply :: "u32 \<Rightarrow> u64 \<Rightarrow> unit handler" where
  "surface_reply result surface = do {
     put_u32 (status_code Ok);
     put_i32 result;
     i \<leftarrow> (if result = VK_SUCCESS then add_object Surfaces surface 0 else State_Monad.return 0);
     put_handle i;
     reply }"

definition handle_CreateWaylandSurfaceKHR :: "Server \<Rightarrow> unit handler" where
  "handle_CreateWaylandSurfaceKHR srv = do {
     app_object_id \<leftarrow> rd r_u32;
     ok \<leftarrow> reader_ok;
     if \<not> ok then reply_status DecodeError
     else if own_window_forced srv then do {
       window \<leftarrow> create_own_window srv;
       (own_result, own_surface) \<leftarrow> (if window \<noteq> 0 then own_window_surface srv window
         else State_Monad.return (VK_ERROR_INITIALIZATION_FAILED, VK_NULL_HANDLE));
       surface_reply own_result own_surface }
     else if \<not> has_wayland srv then surface_reply VK_ERROR_INITIALIZATION_FAILED VK_NULL_HANDLE
     else do {
     r \<leftarrow> call_native srv (NativeCall ''WaylandProxy::surface_for_client_id'' [VNum (ucast app_object_id)]);
     if nr_handle r 0 = 0 then surface_reply VK_ERROR_INITIALIZATION_FAILED VK_NULL_HANDLE else do {
     r' \<leftarrow> call_native srv (NativeCall ''vkCreateWaylandSurfaceKHR'' [VNum (nr_handle r 0)]);
     surface_reply (nr_result r') (nr_handle r' 0) }}}"

definition handle_CreateWin32SurfaceKHR :: "Server \<Rightarrow> unit handler" where
  "handle_CreateWin32SurfaceKHR srv = do {
     hinstance \<leftarrow> rd r_u64;
     hwnd \<leftarrow> rd r_u64;
     ok \<leftarrow> reader_ok;
     if \<not> ok then reply_status DecodeError else do {
     window \<leftarrow> create_own_window srv;
     if window = 0 then surface_reply VK_ERROR_INITIALIZATION_FAILED VK_NULL_HANDLE else do {
     (result, surface) \<leftarrow> own_window_surface srv window;
     surface_reply result surface }}}"

definition handle_PollWindowEvents :: "Server \<Rightarrow> unit handler" where
  "handle_PollWindowEvents srv = do {
     surface_id \<leftarrow> rd r_handle;
     requested \<leftarrow> rd r_u32;
     surface \<leftarrow> get_object Surfaces surface_id;
     ok \<leftarrow> reader_ok;
     if \<not> ok \<or> surface = VK_NULL_HANDLE then reply_status DecodeError else do {
     r \<leftarrow> poll_window_events srv surface (if requested < 256 then requested else 256);
     put_u32 (status_code Ok);
     put_u32 (if nr_value r 0 \<noteq> 0 then 1 else 0);
     put_u32 (of_nat (length (nr_out r)));
     put_structs InputEvent_fields r (length (nr_out r));
     reply }}"

definition handle_DestroySurfaceKHR :: "Server \<Rightarrow> unit handler" where
  "handle_DestroySurfaceKHR srv = do {
     i \<leftarrow> rd r_handle;
     surface \<leftarrow> take_object Surfaces i;
     ok \<leftarrow> reader_ok;
     if \<not> ok then mark_oneway_error
     else if surface \<noteq> VK_NULL_HANDLE then do {
       log_window srv (NativeDestroySurface surface);
       log_window srv (ReleaseSurfaceWindow surface) }
     else State_Monad.return () }"

subsection \<open>Queries on a surface\<close>

definition handle_GetPhysicalDeviceWaylandPresentationSupportKHR :: "Server \<Rightarrow> unit handler" where
  "handle_GetPhysicalDeviceWaylandPresentationSupportKHR srv = do {
     pd_id \<leftarrow> rd r_handle;
     let physdev = physical_device_from_id srv pd_id;
     family \<leftarrow> rd r_u32;
     ok \<leftarrow> reader_ok;
     if \<not> ok \<or> physdev = VK_NULL_HANDLE then reply_status DecodeError else do {
     supported \<leftarrow> (if has_wayland srv then do {
         r \<leftarrow> call_native srv (NativeCall ''vkGetPhysicalDeviceWaylandPresentationSupportKHR'' [VNum physdev, VNum (ucast family)]);
         State_Monad.return (nr_value r 0 \<noteq> 0) }
       else State_Monad.return False);
     put_u32 (status_code Ok);
     put_u32 (if supported then 1 else 0);
     reply }}"

definition handle_GetPhysicalDeviceWin32PresentationSupportKHR :: "Server \<Rightarrow> unit handler" where
  "handle_GetPhysicalDeviceWin32PresentationSupportKHR srv = do {
     pd_id \<leftarrow> rd r_handle;
     let physdev = physical_device_from_id srv pd_id;
     family \<leftarrow> rd r_u32;
     ok \<leftarrow> reader_ok;
     if \<not> ok \<or> physdev = VK_NULL_HANDLE then reply_status DecodeError else do {
     display \<leftarrow> call_native srv (NativeCall ''wl_display_connect'' []);
     supported \<leftarrow> (if nr_handle display 0 \<noteq> 0 then do {
         r \<leftarrow> call_native srv (NativeCall ''vkGetPhysicalDeviceWaylandPresentationSupportKHR''
           [VNum physdev, VNum (ucast family), VNum (nr_handle display 0)]);
         log_window srv (NativeCall ''wl_display_disconnect'' [VNum (nr_handle display 0)]);
         State_Monad.return (nr_value r 0 \<noteq> 0) }
       else State_Monad.return False);
     put_u32 (status_code Ok);
     put_u32 (if supported then 1 else 0);
     reply }}"

definition handle_GetPhysicalDeviceSurfaceSupportKHR :: "Server \<Rightarrow> unit handler" where
  "handle_GetPhysicalDeviceSurfaceSupportKHR srv = do {
     pd_id \<leftarrow> rd r_handle;
     let physdev = physical_device_from_id srv pd_id;
     family \<leftarrow> rd r_u32;
     surf_id \<leftarrow> rd r_handle;
     surface \<leftarrow> get_object Surfaces surf_id;
     ok \<leftarrow> reader_ok;
     if \<not> ok \<or> physdev = VK_NULL_HANDLE \<or> surface = VK_NULL_HANDLE then reply_status DecodeError else do {
     r \<leftarrow> call_native srv (NativeCall ''vkGetPhysicalDeviceSurfaceSupportKHR'' [VNum physdev, VNum (ucast family), VNum surface]);
     put_u32 (status_code Ok);
     put_i32 (nr_result r);
     put_u32 (if nr_value r 0 \<noteq> 0 then 1 else 0);
     reply }}"

text \<open>
  \<open>VkSurfaceCapabilitiesKHR\<close> is 52 bytes; \<open>currentExtent\<close> is the eight bytes at 8. The
  size of the server's own window replaces it unless a side is 0.
\<close>

definition SurfaceCapabilities_size :: nat where "SurfaceCapabilities_size = 52"

definition set_currentExtent :: "u32 \<Rightarrow> u32 \<Rightarrow> bytes \<Rightarrow> bytes" where
  "set_currentExtent w h caps = take 8 caps @ le_bytes 4 w @ le_bytes 4 h @ drop 16 caps"

definition handle_GetPhysicalDeviceSurfaceCapabilitiesKHR :: "Server \<Rightarrow> unit handler" where
  "handle_GetPhysicalDeviceSurfaceCapabilitiesKHR srv = do {
     pd_id \<leftarrow> rd r_handle;
     let physdev = physical_device_from_id srv pd_id;
     surf_id \<leftarrow> rd r_handle;
     surface \<leftarrow> get_object Surfaces surf_id;
     ok \<leftarrow> reader_ok;
     if \<not> ok \<or> physdev = VK_NULL_HANDLE \<or> surface = VK_NULL_HANDLE then reply_status DecodeError else do {
     r \<leftarrow> call_native srv (NativeCall ''vkGetPhysicalDeviceSurfaceCapabilitiesKHR'' [VNum physdev, VNum surface]);
     window \<leftarrow> query_windows (\<lambda>s. window_for_surface s surface);
     caps \<leftarrow> (if window \<noteq> 0 then do {
         extent \<leftarrow> call_native srv (NativeCall ''OwnWindow::extent'' [VNum window]);
         let w = (ucast (nr_value extent 0) :: u32);
         let h = (ucast (nr_value extent 1) :: u32);
         State_Monad.return (if w \<noteq> 0 \<and> h \<noteq> 0 then set_currentExtent w h (out_raw SurfaceCapabilities_size r)
           else out_raw SurfaceCapabilities_size r) }
       else State_Monad.return (out_raw SurfaceCapabilities_size r));
     put_u32 (status_code Ok);
     put_i32 (nr_result r);
     put_bytes caps;
     reply }}"

text \<open>The two-call idiom of the surface queries: the second call is made only after a first success.\<close>

definition enumerate_checked :: "Server \<Rightarrow> string \<Rightarrow> vk list \<Rightarrow> (u32 \<times> NativeResult) handler" where
  "enumerate_checked srv fn args = do {
     r \<leftarrow> call_native srv (NativeCall fn (args @ [VList []]));
     if nr_result r = VK_SUCCESS \<and> out_count r > 0 then do {
       r' \<leftarrow> call_native srv (NativeCall fn (args @ [VList [VNum (ucast (out_count r))]]));
       State_Monad.return (out_count r, r') }
     else State_Monad.return (out_count r, r\<lparr>nr_handles := [], nr_out := []\<rparr>) }"

definition handle_GetPhysicalDeviceSurfaceFormatsKHR :: "Server \<Rightarrow> unit handler" where
  "handle_GetPhysicalDeviceSurfaceFormatsKHR srv = do {
     pd_id \<leftarrow> rd r_handle;
     let physdev = physical_device_from_id srv pd_id;
     surf_id \<leftarrow> rd r_handle;
     surface \<leftarrow> get_object Surfaces surf_id;
     ok \<leftarrow> reader_ok;
     if \<not> ok \<or> physdev = VK_NULL_HANDLE \<or> surface = VK_NULL_HANDLE then reply_status DecodeError else do {
     (first_count, r) \<leftarrow> enumerate_checked srv ''vkGetPhysicalDeviceSurfaceFormatsKHR'' [VNum physdev, VNum surface];
     put_u32 (status_code Ok);
     put_i32 (nr_result r);
     put_u32 (out_count r);
     put_structs SurfaceFormatKHR_fields r (unat (out_count r));
     reply }}"

definition handle_GetPhysicalDeviceSurfacePresentModesKHR :: "Server \<Rightarrow> unit handler" where
  "handle_GetPhysicalDeviceSurfacePresentModesKHR srv = do {
     pd_id \<leftarrow> rd r_handle;
     let physdev = physical_device_from_id srv pd_id;
     surf_id \<leftarrow> rd r_handle;
     surface \<leftarrow> get_object Surfaces surf_id;
     ok \<leftarrow> reader_ok;
     if \<not> ok \<or> physdev = VK_NULL_HANDLE \<or> surface = VK_NULL_HANDLE then reply_status DecodeError else do {
     (first_count, r) \<leftarrow> enumerate_checked srv ''vkGetPhysicalDeviceSurfacePresentModesKHR'' [VNum physdev, VNum surface];
     put_u32 (status_code Ok);
     put_i32 (nr_result r);
     put_u32 (out_count r);
     put_structs [FI32] r (unat (out_count r));
     reply }}"

subsection \<open>Swapchains\<close>

definition VK_PRESENT_MODE_MAILBOX_KHR :: u64 where "VK_PRESENT_MODE_MAILBOX_KHR = 1"
definition VK_PRESENT_MODE_FIFO_KHR :: u64 where "VK_PRESENT_MODE_FIFO_KHR = 2"
definition VK_ERROR_SURFACE_LOST_KHR :: u32 where "VK_ERROR_SURFACE_LOST_KHR = - 1000000000"

text \<open>The decoded create info, with the two members the handler looks at by their position.\<close>

definition sc_surface :: nat where "sc_surface = 3"
definition sc_presentMode :: nat where "sc_presentMode = 16"

definition set_vk_member :: "nat \<Rightarrow> u64 \<Rightarrow> vk \<Rightarrow> vk" where
  "set_vk_member i x v = (case list_of v of Some vs \<Rightarrow> VList (vs[i := VNum x]) | None \<Rightarrow> v)"

definition create_swapchain :: "Server \<Rightarrow> u64 \<Rightarrow> vk \<Rightarrow> (u32 \<times> u64) handler" where
  "create_swapchain srv device info = do {
     window \<leftarrow> query_windows (\<lambda>s. window_for_surface s (vk_member sc_surface info));
     (result, swapchain) \<leftarrow> (if window \<noteq> 0 \<and> vk_member sc_presentMode info = VK_PRESENT_MODE_FIFO_KHR then do {
         r \<leftarrow> call_native srv (NativeCall ''vkCreateSwapchainKHR''
           [VNum device, set_vk_member sc_presentMode VK_PRESENT_MODE_MAILBOX_KHR info]);
         State_Monad.return (nr_result r, nr_handle r 0) }
       else State_Monad.return (VK_ERROR_INITIALIZATION_FAILED, VK_NULL_HANDLE));
     if result \<noteq> VK_SUCCESS then do {
       r \<leftarrow> call_native srv (NativeCall ''vkCreateSwapchainKHR'' [VNum device, info]);
       State_Monad.return (nr_result r, nr_handle r 0) }
     else State_Monad.return (result, swapchain) }"

definition handle_CreateSwapchainKHR :: "Server \<Rightarrow> unit handler" where
  "handle_CreateSwapchainKHR srv = do {
     device_id \<leftarrow> rd r_handle;
     device \<leftarrow> get_object Devices device_id;
     ok \<leftarrow> reader_ok;
     if \<not> ok \<or> device = VK_NULL_HANDLE then reply_status DecodeError else do {
     decoded \<leftarrow> rd_struct srv ''read_SwapchainCreateInfoKHR'';
     case decoded of None \<Rightarrow> reply_status DecodeError | Some info \<Rightarrow> do {
     (result, swapchain) \<leftarrow> create_swapchain srv device info;
     (if result = VK_SUCCESS then do {
        update_tables (\<lambda>t. t\<lparr>swapchain_devices := AList.update swapchain device (swapchain_devices t),
          swapchain_surfaces := AList.update swapchain (vk_member sc_surface info) (swapchain_surfaces t)\<rparr>);
        resized \<leftarrow> poll_window_resized srv (vk_member sc_surface info);
        State_Monad.return () }
      else State_Monad.return ());
     put_u32 (status_code Ok);
     put_i32 result;
     i \<leftarrow> (if result = VK_SUCCESS then add_object Swapchains swapchain device else State_Monad.return 0);
     put_handle i;
     reply }}}"

definition take_swapchain_images :: "u64 \<Rightarrow> ObjectTables \<Rightarrow> ObjectTables" where
  "take_swapchain_images swp_id t =
     (case map_of (swapchain_image_ids t) swp_id of
        None \<Rightarrow> t
      | Some image_ids \<Rightarrow> (set_table Images (fold (\<lambda>i tab. snd (tbl_take tab i)) image_ids (tables t Images)) t)
          \<lparr>swapchain_image_ids := AList.delete swp_id (swapchain_image_ids t)\<rparr>)"

text \<open>The id is taken out of the table before the request is checked.\<close>

definition handle_DestroySwapchainKHR :: "Server \<Rightarrow> unit handler" where
  "handle_DestroySwapchainKHR srv = do {
     device_id \<leftarrow> rd r_handle;
     device \<leftarrow> get_object Devices device_id;
     swp_id \<leftarrow> rd r_handle;
     swapchain \<leftarrow> take_object Swapchains swp_id;
     owner \<leftarrow> query_tables (\<lambda>t. map_of (swapchain_devices t) swapchain);
     ok \<leftarrow> reader_ok;
     if \<not> ok \<or> device = VK_NULL_HANDLE \<or> swapchain = VK_NULL_HANDLE \<or> owner \<noteq> Some device then mark_oneway_error else do {
     log_window srv (NativeDestroy Swapchains device swapchain);
     update_tables (\<lambda>t. t\<lparr>swapchain_devices := AList.delete swapchain (swapchain_devices t),
       swapchain_surfaces := AList.delete swapchain (swapchain_surfaces t)\<rparr>);
     update_tables (take_swapchain_images swp_id) }}"

fun add_images :: "u64 \<Rightarrow> u64 list \<Rightarrow> u64 list handler" where
  "add_images device [] = State_Monad.return []"
| "add_images device (img # imgs) = do {
     i \<leftarrow> add_object Images img device;
     is \<leftarrow> add_images device imgs;
     State_Monad.return (i # is) }"

definition image_ids_of :: "u64 \<Rightarrow> ObjectTables \<Rightarrow> u64 list" where
  "image_ids_of swp_id t = (case map_of (swapchain_image_ids t) swp_id of None \<Rightarrow> [] | Some image_ids \<Rightarrow> image_ids)"

definition handle_GetSwapchainImagesKHR :: "Server \<Rightarrow> unit handler" where
  "handle_GetSwapchainImagesKHR srv = do {
     device_id \<leftarrow> rd r_handle;
     device \<leftarrow> get_object Devices device_id;
     swp_id \<leftarrow> rd r_handle;
     swapchain \<leftarrow> get_object Swapchains swp_id;
     ok \<leftarrow> reader_ok;
     if \<not> ok \<or> device = VK_NULL_HANDLE \<or> swapchain = VK_NULL_HANDLE then reply_status DecodeError else do {
     (first_count, r) \<leftarrow> enumerate_checked srv ''vkGetSwapchainImagesKHR'' [VNum device, VNum swapchain];
     known \<leftarrow> query_tables (image_ids_of swp_id);
     cached \<leftarrow> (if known = [] then add_images device (map (nr_handle r) [0..<unat first_count]) else State_Monad.return known);
     update_tables (\<lambda>t. t\<lparr>swapchain_image_ids := AList.update swp_id cached (swapchain_image_ids t)\<rparr>);
     put_u32 (status_code Ok);
     put_i32 (nr_result r);
     put_u32 (out_count r);
     wr (\<lambda>w. fold (\<lambda>i w. w_handle w (if i < length cached then cached ! i else 0)) [0..<unat (out_count r)] w);
     reply }}"

definition handle_AcquireNextImageKHR :: "Server \<Rightarrow> unit handler" where
  "handle_AcquireNextImageKHR srv = do {
     device_id \<leftarrow> rd r_handle;
     device \<leftarrow> get_object Devices device_id;
     swp_id \<leftarrow> rd r_handle;
     swapchain \<leftarrow> get_object Swapchains swp_id;
     timeout \<leftarrow> rd r_u64;
     sem_id \<leftarrow> rd r_handle;
     semaphore \<leftarrow> get_object Semaphores sem_id;
     fence_id \<leftarrow> rd r_handle;
     fence \<leftarrow> get_object Fences fence_id;
     ok \<leftarrow> reader_ok;
     if \<not> ok \<or> device = VK_NULL_HANDLE \<or> swapchain = VK_NULL_HANDLE \<or> (sem_id \<noteq> 0 \<and> semaphore = VK_NULL_HANDLE)
        \<or> (fence_id \<noteq> 0 \<and> fence = VK_NULL_HANDLE) then reply_status DecodeError else do {
     surface \<leftarrow> query_tables (\<lambda>t. case map_of (swapchain_surfaces t) swapchain of None \<Rightarrow> VK_NULL_HANDLE | Some s \<Rightarrow> s);
     closed \<leftarrow> poll_window_closed srv surface;
     (result, image_index) \<leftarrow> (if closed then State_Monad.return (VK_ERROR_SURFACE_LOST_KHR, 0) else do {
         resized \<leftarrow> poll_window_resized srv surface;
         r \<leftarrow> call_native srv (NativeCall ''vkAcquireNextImageKHR''
           [VNum device, VNum swapchain, VNum timeout, VNum semaphore, VNum fence]);
         State_Monad.return (nr_result r, out_count r) });
     put_u32 (status_code Ok);
     put_i32 result;
     put_u32 image_index;
     reply }}"

definition r_present :: "Reader \<Rightarrow> (u64 \<times> u32) \<times> Reader" where
  "r_present r = (let (i, r1) = r_handle r; (index, r2) = r_u32 r1 in ((i, index), r2))"

definition handle_QueuePresentKHR :: "Server \<Rightarrow> unit handler" where
  "handle_QueuePresentKHR srv = do {
     queue_id \<leftarrow> rd r_handle;
     queue \<leftarrow> get_object Queues queue_id;
     wait_count \<leftarrow> rd r_u32;
     fits \<leftarrow> reader_count_fits wait_count 8;
     if \<not> fits then reply_status DecodeError else do {
     wait_ids \<leftarrow> rd (r_list r_handle (unat wait_count));
     waits \<leftarrow> get_objects Semaphores wait_ids;
     swp_count \<leftarrow> rd r_u32;
     fits' \<leftarrow> reader_count_fits swp_count 12;
     if \<not> fits' then reply_status DecodeError else do {
     presents \<leftarrow> rd (r_list r_present (unat swp_count));
     swapchains \<leftarrow> get_objects Swapchains (map fst presents);
     let handles_valid = (list_all (\<lambda>i. i \<noteq> 0) wait_ids \<and> list_all (\<lambda>v. v \<noteq> VK_NULL_HANDLE) waits
       \<and> list_all (\<lambda>p. fst p \<noteq> 0) presents \<and> list_all (\<lambda>v. v \<noteq> VK_NULL_HANDLE) swapchains);
     ok \<leftarrow> reader_ok;
     if \<not> ok \<or> queue = VK_NULL_HANDLE \<or> \<not> handles_valid then reply_status DecodeError else do {
     r \<leftarrow> call_native srv (NativeCall ''vkQueuePresentKHR''
       [VNum queue, VList (map VNum waits), VList (map VNum swapchains), VList (map (VNum \<circ> ucast \<circ> snd) presents)]);
     put_u32 (status_code Ok);
     put_i32 (nr_result r);
     put_u32 swp_count;
     wr (\<lambda>w. fold (\<lambda>i w. w_i32 w (ucast (nr_value r i))) [0..<unat swp_count] w);
     reply }}}}"

subsection \<open>Registration\<close>

definition wsi_requests :: "Server \<Rightarrow> (string \<times> unit handler) list" where
  "wsi_requests srv = [
     (''PollWindowEvents'', handle_PollWindowEvents srv),
     (''vkCreateWaylandSurfaceKHR'', handle_CreateWaylandSurfaceKHR srv),
     (''vkCreateWin32SurfaceKHR'', handle_CreateWin32SurfaceKHR srv),
     (''vkGetPhysicalDeviceWaylandPresentationSupportKHR'', handle_GetPhysicalDeviceWaylandPresentationSupportKHR srv),
     (''vkGetPhysicalDeviceWin32PresentationSupportKHR'', handle_GetPhysicalDeviceWin32PresentationSupportKHR srv),
     (''vkGetPhysicalDeviceSurfaceSupportKHR'', handle_GetPhysicalDeviceSurfaceSupportKHR srv),
     (''vkGetPhysicalDeviceSurfaceCapabilitiesKHR'', handle_GetPhysicalDeviceSurfaceCapabilitiesKHR srv),
     (''vkGetPhysicalDeviceSurfaceFormatsKHR'', handle_GetPhysicalDeviceSurfaceFormatsKHR srv),
     (''vkGetPhysicalDeviceSurfacePresentModesKHR'', handle_GetPhysicalDeviceSurfacePresentModesKHR srv),
     (''vkCreateSwapchainKHR'', handle_CreateSwapchainKHR srv),
     (''vkGetSwapchainImagesKHR'', handle_GetSwapchainImagesKHR srv),
     (''vkAcquireNextImageKHR'', handle_AcquireNextImageKHR srv),
     (''vkQueuePresentKHR'', handle_QueuePresentKHR srv)]"

definition wsi_oneways :: "Server \<Rightarrow> (string \<times> unit handler) list" where
  "wsi_oneways srv = [
     (''vkDestroySurfaceKHR'', handle_DestroySurfaceKHR srv),
     (''vkDestroySwapchainKHR'', handle_DestroySwapchainKHR srv)]"


lemmas wsi_defs = handle_PollWindowEvents_def handle_CreateWaylandSurfaceKHR_def handle_CreateWin32SurfaceKHR_def
  handle_GetPhysicalDeviceWaylandPresentationSupportKHR_def handle_GetPhysicalDeviceWin32PresentationSupportKHR_def
  handle_GetPhysicalDeviceSurfaceSupportKHR_def handle_GetPhysicalDeviceSurfaceCapabilitiesKHR_def
  handle_GetPhysicalDeviceSurfaceFormatsKHR_def handle_GetPhysicalDeviceSurfacePresentModesKHR_def
  handle_CreateSwapchainKHR_def handle_GetSwapchainImagesKHR_def handle_AcquireNextImageKHR_def handle_QueuePresentKHR_def

lemma keeps_add_surface [handler_intros]: "keeps D (add_object Surfaces v w)"
  by (simp add: keeps_def run_simps tables_step_add)

lemma query_windows_prims [handler_intros]: "unsent (query_windows q)" "keeps D (query_windows q)"
  by (simp_all add: query_windows_def unsent_def keeps_def)

lemma window_prims [handler_intros]:
  "unsent (log_window srv c)" "unsent (create_own_window srv)" "unsent (poll_window_closed srv v)"
  "unsent (poll_window_resized srv v)" "unsent (poll_window_events srv v n)" "unsent (own_window_surface srv v)"
  "unsent (enumerate_checked srv fn args)" "unsent (create_swapchain srv d info)"
  "keeps D (log_window srv c)" "keeps D (create_own_window srv)" "keeps D (poll_window_closed srv v)"
  "keeps D (poll_window_resized srv v)" "keeps D (poll_window_events srv v n)" "keeps D (own_window_surface srv v)"
  "keeps D (enumerate_checked srv fn args)" "keeps D (create_swapchain srv d info)"
  unfolding log_window_def create_own_window_def poll_window_closed_def poll_window_resized_def poll_window_events_def
    own_window_surface_def enumerate_checked_def create_swapchain_def
  by (intro handler_intros keeps_bind)+

lemma surface_reply_judged [handler_intros]: "answers (surface_reply result surface)" "keeps D (surface_reply result surface)"
  unfolding surface_reply_def by (intro handler_intros keeps_bind)+

lemma add_images_judged [handler_intros]:
  "unsent (add_images d imgs)" "d \<in> D \<Longrightarrow> d \<noteq> 0 \<Longrightarrow> keeps D (add_images d imgs)"
  by (induction imgs) (auto intro!: handler_intros keeps_bind)

lemma wsi_requests_answer: "list_all (\<lambda>(name, m). answers m) (wsi_requests srv)"
  unfolding wsi_requests_def
  by (simp add: wsi_defs split del: if_split) (intro conjI handler_intros)

lemma wsi_requests_keep: "list_all (\<lambda>(name, m). keeps {} m) (wsi_requests srv)"
  unfolding wsi_requests_def
  apply (simp add: wsi_defs split del: if_split)
  apply (intro conjI)
  apply ((rule keeps_bind_device | rule keeps_bind | rule handler_intros | simp)+)
  done

lemma wsi_oneways_unsent: "list_all (\<lambda>(name, m). unsent m) (wsi_oneways srv)"
  unfolding wsi_oneways_def
  by (simp add: handle_DestroySurfaceKHR_def handle_DestroySwapchainKHR_def split del: if_split) (intro conjI handler_intros)

lemma take_swapchain_images_keeps: "keeps D (update_tables (take_swapchain_images swp_id))"
proof -
  have "tables_step t (take_swapchain_images swp_id t)" for t
    by (cases "map_of (swapchain_image_ids t) swp_id")
      (auto simp: take_swapchain_images_def tables_step_meta intro!: tables_step_via [OF tables_step_takes [of Images]])
  moreover have "tables (take_swapchain_images swp_id t) Devices = tables t Devices" for t
    by (simp add: take_swapchain_images_def split: option.splits)
  ultimately show ?thesis by (auto simp: keeps_def run_simps live_devices_def)
qed

lemma wsi_oneways_keep: "list_all (\<lambda>(name, m). keeps {} m) (wsi_oneways srv)"
  unfolding wsi_oneways_def
  apply (simp add: handle_DestroySurfaceKHR_def handle_DestroySwapchainKHR_def split del: if_split)
  apply (intro conjI)
  apply ((rule keeps_bind_device | rule keeps_bind | rule take_swapchain_images_keeps | rule handler_intros | simp)+)
  done

end
