(* ===== verification/Serve.thy ===== *)
theory Serve
  imports HandlerLogic
begin

section \<open>The serve loop (server/session.cpp, \<open>Server::serve\<close>)\<close>

text \<open>
  One turn of the loop per received message, on the connection's control lane: the handshake gate,
  pings, unknown commands, the waits that are resolved here and then handed to the worker pool,
  and the dispatch to a registered handler. The loop ends when a message ends it or the peer goes
  away; the teardown follows. Handlers are the argument \<open>handlers\<close>, the registration table.
\<close>

record Conn =
  c_tables :: ObjectTables
  c_oneway_errors :: u32
  c_handshake_complete :: bool
  c_ended :: bool
  c_workers :: "wait_job RequestWorkers"
  c_sent :: "(u32 \<times> bytes \<times> u64) list"
  c_log :: "native_call list"

definition Conn_init :: Conn where
  "Conn_init = \<lparr>c_tables = ObjectTables_init, c_oneway_errors = 0, c_handshake_complete = False,
     c_ended = False, c_workers = RequestWorkers_init, c_sent = [], c_log = []\<rparr>"

definition open_session :: "MessageHeader \<Rightarrow> bytes \<Rightarrow> Conn \<Rightarrow> Session" where
  "open_session h payload c =
     \<lparr>reader = Reader_init payload, writer = [], s_tables = c_tables c, oneway_errors = c_oneway_errors c,
      s_opcode = opcode h, s_request_id = request_id h, replied = False, close_connection = False,
      sent = c_sent c, native_log = c_log c\<rparr>"

definition close_session :: "Session \<Rightarrow> Conn \<Rightarrow> Conn" where
  "close_session s c = c\<lparr>c_tables := s_tables s, c_oneway_errors := oneway_errors s, c_sent := sent s,
     c_log := native_log s\<rparr>"

definition run_handler :: "unit handler \<Rightarrow> MessageHeader \<Rightarrow> bytes \<Rightarrow> Conn \<Rightarrow> bool \<times> Conn" where
  "run_handler m h payload c =
     (let s = snd (run_state m (open_session h payload c)) in (close_connection s, close_session s c))"

definition serve_reply_status :: "Status \<Rightarrow> MessageHeader \<Rightarrow> bytes \<Rightarrow> Conn \<Rightarrow> Conn" where
  "serve_reply_status st h payload c = snd (run_handler (reply_status st) h payload c)"

definition send_reply :: "MessageHeader \<Rightarrow> bytes \<Rightarrow> Conn \<Rightarrow> Conn" where
  "send_reply h body c = c\<lparr>c_sent := c_sent c @ [(opcode h, body, request_id h)]\<rparr>"

definition serve_ping :: "MessageHeader \<Rightarrow> bytes \<Rightarrow> Conn \<Rightarrow> Conn" where
  "serve_ping h payload c =
     (let body = w_u32 [] (status_code (if request_id h \<noteq> 0 \<and> payload = [] then Ok else DecodeError))
      in if request_id h \<noteq> 0 then send_reply h body c else c)"

text \<open>Handing a job to the pool, with the refusal as a reply.\<close>

definition submit_wait :: "MessageHeader \<Rightarrow> wait_job \<Rightarrow> u64 \<Rightarrow> Conn \<Rightarrow> Conn" where
  "submit_wait h job lane c =
     (let (submitted, w) = workers_submit (c_workers c) (request_id h) job lane;
          c1 = c\<lparr>c_workers := w\<rparr>
      in if submitted then c1 else send_reply h (w_u32 [] (status_code DecodeError)) c1)"

definition serve_idle :: "Server \<Rightarrow> MessageHeader \<Rightarrow> bytes \<Rightarrow> Conn \<Rightarrow> Conn" where
  "serve_idle srv h payload c =
     (let (object_id, r) = r_handle (Reader_init payload);
          queue = (if opcode h = op_vkQueueWaitIdle srv then resolve (c_tables c) Queues object_id else VK_NULL_HANDLE);
          device = (if opcode h = op_vkDeviceWaitIdle srv then resolve (c_tables c) Devices object_id else VK_NULL_HANDLE);
          valid = (request_id h \<noteq> 0 \<and> r_ok r \<and> r_remaining r = 0 \<and> (queue \<noteq> VK_NULL_HANDLE \<or> device \<noteq> VK_NULL_HANDLE))
      in if \<not> valid then serve_reply_status DecodeError h payload c
         else let errors = (if opcode h = op_vkDeviceWaitIdle srv then c_oneway_errors c else 0);
                  c1 = (if opcode h = op_vkDeviceWaitIdle srv then c\<lparr>c_oneway_errors := 0\<rparr> else c);
                  lane = (if queue \<noteq> VK_NULL_HANDLE then queue else 0)
              in submit_wait h (IdleJob (opcode h) queue device errors) lane c1)"

definition serve_wait_fences :: "Server \<Rightarrow> MessageHeader \<Rightarrow> bytes \<Rightarrow> Conn \<Rightarrow> Conn" where
  "serve_wait_fences srv h payload c =
     (let (device_id, r1) = r_handle (Reader_init payload);
          device = resolve (c_tables c) Devices device_id;
          (wait_all, r2) = r_u32 r1;
          (count, r3) = r_u32 r2
      in if \<not> (request_id h \<noteq> 0 \<and> device \<noteq> VK_NULL_HANDLE \<and> count \<noteq> 0 \<and> count \<le> kMaxArrayElements \<and> count_fits r3 count 8)
         then serve_reply_status DecodeError h payload c
         else case read_each (read_live (c_tables c) Fences) (unat count) r3 of
           (None, r4) \<Rightarrow> serve_reply_status DecodeError h payload c
         | (Some fences, r4) \<Rightarrow>
             (let (timeout, r5) = r_u64 r4 in
              if \<not> (r_ok r5 \<and> r_remaining r5 = 0) then serve_reply_status DecodeError h payload c
              else submit_wait h (FenceWaitJob device (wait_all \<noteq> 0) timeout fences) 0 c))"

definition read_semaphore_value :: "ObjectTables \<Rightarrow> Reader \<Rightarrow> (u64 \<times> u64) option \<times> Reader" where
  "read_semaphore_value t r =
     (let (i, r1) = r_handle r; semaphore = resolve t Semaphores i; (x, r2) = r_u64 r1
      in (if semaphore = VK_NULL_HANDLE then None else Some (semaphore, x), r2))"

definition serve_wait_semaphores :: "Server \<Rightarrow> MessageHeader \<Rightarrow> bytes \<Rightarrow> Conn \<Rightarrow> Conn" where
  "serve_wait_semaphores srv h payload c =
     (if request_id h = 0 then serve_reply_status DecodeError h payload c
      else let (device_id, r1) = r_handle (Reader_init payload);
          device = resolve (c_tables c) Devices device_id;
          (flags, r2) = r_u32 r1;
          (count, r3) = r_u32 r2
      in if \<not> (device \<noteq> VK_NULL_HANDLE \<and> count \<le> kMaxArrayElements \<and> count_fits r3 count 16)
         then serve_reply_status DecodeError h payload c
         else case read_each (read_semaphore_value (c_tables c)) (unat count) r3 of
           (None, r4) \<Rightarrow> serve_reply_status DecodeError h payload c
         | (Some svs, r4) \<Rightarrow>
             (let (timeout, r5) = r_u64 r4 in
              if \<not> (r_ok r5 \<and> r_remaining r5 = 0) then serve_reply_status DecodeError h payload c
              else if \<not> proc_addr srv device ''vkWaitSemaphores''
              then serve_reply_status UnsupportedCommand h payload c
              else submit_wait h (SemaphoreWaitJob device flags timeout (map fst svs) (map snd svs)) 0 c))"

definition serve_dispatch :: "unit handler \<Rightarrow> MessageHeader \<Rightarrow> bytes \<Rightarrow> Conn \<Rightarrow> Conn" where
  "serve_dispatch m h payload c =
     (let (closing, c1) = run_handler m h payload c;
          c2 = (if opcode h = kOpHandshake \<and> \<not> closing then c1\<lparr>c_handshake_complete := True\<rparr> else c1)
      in if closing then c2\<lparr>c_ended := True\<rparr> else c2)"

definition serve_message ::
  "Server \<Rightarrow> (u32 \<Rightarrow> unit handler option) \<Rightarrow> MessageHeader \<times> bytes \<Rightarrow> Conn \<Rightarrow> Conn" where
  "serve_message srv handlers msg c =
     (let (h, payload) = msg in
      if \<not> c_handshake_complete c \<and> opcode h \<noteq> kOpHandshake then c\<lparr>c_ended := True\<rparr>
      else if c_handshake_complete c \<and> opcode h = kOpHandshake then c\<lparr>c_ended := True\<rparr>
      else if opcode h = kOpHandshake \<and> request_id h = 0 then c\<lparr>c_ended := True\<rparr>
      else if opcode h = kOpPing then serve_ping h payload c
      else case handlers (opcode h) of
        None \<Rightarrow> serve_reply_status UnsupportedCommand h payload c
      | Some m \<Rightarrow>
          if opcode h = op_vkQueueWaitIdle srv \<or> opcode h = op_vkDeviceWaitIdle srv then serve_idle srv h payload c
          else if opcode h = op_vkWaitForFences srv then serve_wait_fences srv h payload c
          else if opcode h = op_vkWaitSemaphores srv then serve_wait_semaphores srv h payload c
          else serve_dispatch m h payload c)"

text \<open>The loop: messages until one ends it or none is left (the peer went away).\<close>

fun serve_loop ::
  "Server \<Rightarrow> (u32 \<Rightarrow> unit handler option) \<Rightarrow> (MessageHeader \<times> bytes) list \<Rightarrow> Conn \<Rightarrow> Conn" where
  "serve_loop srv handlers [] c = c"
| "serve_loop srv handlers (m # ms) c =
     (let c1 = serve_message srv handlers m c in if c_ended c1 then c1 else serve_loop srv handlers ms c1)"

definition serve_teardown :: "Conn \<Rightarrow> Conn" where
  "serve_teardown c =
     (let (t, calls) = destroy_session_objects (c_tables c)
      in c\<lparr>c_ended := True, c_workers := workers_stop (c_workers c), c_tables := t, c_log := c_log c @ calls\<rparr>)"

definition serve :: "Server \<Rightarrow> (u32 \<Rightarrow> unit handler option) \<Rightarrow> (MessageHeader \<times> bytes) list \<Rightarrow> Conn" where
  "serve srv handlers ms = serve_teardown (serve_loop srv handlers ms Conn_init)"

subsection \<open>What the loop relies on and what it keeps\<close>

text \<open>
  The interface between the loop and the registered handlers: a handler keeps ownership of the
  tables, and it sends at most one reply, to its own request.
\<close>

locale handler_suite =
  fixes srv :: Server and handlers :: "u32 \<Rightarrow> unit handler option"
  assumes suite_keeps: "handlers op = Some m \<Longrightarrow> keeps {} m"
    and suite_sends: "handlers op = Some m \<Longrightarrow> replies_once m"

definition reply_of :: "MessageHeader \<Rightarrow> (u32 \<times> bytes \<times> u64) list \<Rightarrow> bool" where
  "reply_of h xs \<longleftrightarrow> xs = [] \<or> (request_id h \<noteq> 0 \<and> (\<exists>body. xs = [(opcode h, body, request_id h)]))"

lemma run_handler_conn [simp]:
  "c_workers (snd (run_handler m h payload c)) = c_workers c"
  "c_ended (snd (run_handler m h payload c)) = c_ended c"
  "c_handshake_complete (snd (run_handler m h payload c)) = c_handshake_complete c"
  by (simp_all add: run_handler_def close_session_def Let_def)

lemma run_handler_keeps: "keeps {} m \<Longrightarrow> tables_step (c_tables c) (c_tables (snd (run_handler m h payload c)))"
proof -
  assume "keeps {} m"
  then have "tables_step (s_tables (open_session h payload c)) (s_tables (exec m (open_session h payload c)))"
    by (simp add: keeps_def)
  moreover have "s_tables (open_session h payload c) = c_tables c" by (simp add: open_session_def)
  ultimately show ?thesis by (simp add: run_handler_def close_session_def Let_def)
qed

lemma run_handler_sends:
  assumes "replies_once m"
  shows "\<exists>xs. c_sent (snd (run_handler m h payload c)) = c_sent c @ xs \<and> reply_of h xs"
proof -
  let ?s = "open_session h payload c"
  have s: "\<not> replied ?s" "sent ?s = c_sent c" "s_request_id ?s = request_id h" "s_opcode ?s = opcode h"
    by (simp_all add: open_session_def)
  have c: "c_sent (snd (run_handler m h payload c)) = sent (exec m ?s)"
    by (simp add: run_handler_def close_session_def Let_def)
  from assms s have "sent (exec m ?s) = c_sent c \<or>
     (request_id h \<noteq> 0 \<and> (\<exists>body. sent (exec m ?s) = c_sent c @ [(opcode h, body, request_id h)]))"
    unfolding replies_once_def by metis
  then show ?thesis by (auto simp: c reply_of_def)
qed

lemma serve_reply_status_sends:
  "c_sent (serve_reply_status st h payload c) =
     c_sent c @ (if request_id h = 0 then [] else [(opcode h, le_bytes 4 (status_code st), request_id h)])"
  by (simp add: serve_reply_status_def run_handler_def close_session_def open_session_def reply_status_def run_simps
      wire_simps Let_def)

lemma serve_reply_status_simps [simp]:
  "c_tables (serve_reply_status st h payload c) = c_tables c" "c_workers (serve_reply_status st h payload c) = c_workers c"
  "c_ended (serve_reply_status st h payload c) = c_ended c"
  "c_handshake_complete (serve_reply_status st h payload c) = c_handshake_complete c"
  "c_log (serve_reply_status st h payload c) = c_log c"
  "c_oneway_errors (serve_reply_status st h payload c) = c_oneway_errors c"
  by (simp_all add: serve_reply_status_def run_handler_def close_session_def open_session_def reply_status_def reply_def
      run_simps Let_def)

text \<open>
  A wait is either refused with one reply or becomes one job of the pool, and nothing else of the
  connection changes but the one-way error count it reports.
\<close>

definition wait_outcome :: "MessageHeader \<Rightarrow> Conn \<Rightarrow> Conn \<Rightarrow> bool" where
  "wait_outcome h c c' \<longleftrightarrow> c_tables c' = c_tables c \<and> c_log c' = c_log c \<and> c_ended c' = c_ended c
     \<and> c_handshake_complete c' = c_handshake_complete c
     \<and> ((\<exists>xs. c_sent c' = c_sent c @ xs \<and> reply_of h xs \<and> (request_id h \<noteq> 0 \<longrightarrow> xs \<noteq> [])) \<and> c_workers c' = c_workers c
        \<or> c_sent c' = c_sent c \<and> request_id h \<noteq> 0 \<and>
          (\<exists>job lane. workers_submit (c_workers c) (request_id h) job lane = (True, c_workers c')))"

lemma refused_outcome: "wait_outcome h c (serve_reply_status st h payload c)"
  by (auto simp: wait_outcome_def serve_reply_status_sends reply_of_def)

lemma submit_outcome:
  assumes "request_id h \<noteq> 0"
  shows "wait_outcome h c (submit_wait h job lane c)"
proof -
  obtain ok w where sub: "workers_submit (c_workers c) (request_id h) job lane = (ok, w)" by force
  have "\<not> ok \<Longrightarrow> w = c_workers c" using sub by (auto elim: workers_submit_cases)
  then show ?thesis using sub assms
    by (cases ok) (auto simp: wait_outcome_def submit_wait_def Let_def send_reply_def reply_of_def)
qed

lemma idle_outcome: "wait_outcome h c (serve_idle srv h payload c)"
proof -
  have "wait_outcome h c (submit_wait h job lane (c\<lparr>c_oneway_errors := 0\<rparr>))"
    if "request_id h \<noteq> 0" for job lane
    using submit_outcome [OF that, of "c\<lparr>c_oneway_errors := 0\<rparr>" job lane] by (simp add: wait_outcome_def)
  then show ?thesis by (auto simp: serve_idle_def Let_def refused_outcome submit_outcome split: prod.splits)
qed

lemma fences_outcome: "wait_outcome h c (serve_wait_fences srv h payload c)"
  by (auto simp: serve_wait_fences_def Let_def refused_outcome submit_outcome split: prod.splits option.splits)

lemma semaphores_outcome: "wait_outcome h c (serve_wait_semaphores srv h payload c)"
  by (auto simp: serve_wait_semaphores_def Let_def refused_outcome submit_outcome split: prod.splits option.splits)

text \<open>What a message can lead to.\<close>

lemma serve_message_cases:
  obtains (ended) "serve_message srv handlers (h, payload) c = c\<lparr>c_ended := True\<rparr>"
  | (ping) "serve_message srv handlers (h, payload) c = serve_ping h payload c"
  | (unknown) "handlers (opcode h) = None"
      "serve_message srv handlers (h, payload) c = serve_reply_status UnsupportedCommand h payload c"
  | (waits) "wait_outcome h c (serve_message srv handlers (h, payload) c)"
  | (dispatch) m where "handlers (opcode h) = Some m"
      "serve_message srv handlers (h, payload) c = serve_dispatch m h payload c"
      "opcode h = kOpHandshake \<longleftrightarrow> \<not> c_handshake_complete c"
proof -
  consider "\<not> c_handshake_complete c \<and> opcode h \<noteq> kOpHandshake \<or> c_handshake_complete c \<and> opcode h = kOpHandshake
      \<or> opcode h = kOpHandshake \<and> request_id h = 0"
    | "c_handshake_complete c \<longleftrightarrow> opcode h \<noteq> kOpHandshake" "opcode h = kOpHandshake \<longrightarrow> request_id h \<noteq> 0" by blast
  then show thesis
  proof cases
    case 1
    then show thesis by (intro ended) (auto simp: serve_message_def)
  next
    case 2
    note go = 2
    show thesis
    proof (cases "opcode h = kOpPing")
      case True
      then show thesis using go by (intro ping) (auto simp: serve_message_def)
    next
      case False
      show thesis
      proof (cases "handlers (opcode h)")
        case None
        then show thesis using go False by (intro unknown) (auto simp: serve_message_def)
      next
        case (Some m)
        consider "opcode h \<in> {op_vkQueueWaitIdle srv, op_vkDeviceWaitIdle srv, op_vkWaitForFences srv, op_vkWaitSemaphores srv}"
          | "opcode h \<notin> {op_vkQueueWaitIdle srv, op_vkDeviceWaitIdle srv, op_vkWaitForFences srv, op_vkWaitSemaphores srv}"
          by blast
        then show thesis
        proof cases
          case 1
          then show thesis using go False Some idle_outcome [of h c srv payload] fences_outcome [of h c srv payload]
              semaphores_outcome [of h c srv payload]
            by (intro waits) (auto simp: serve_message_def)
        next
          case 2
          then show thesis using go False Some by (intro dispatch) (auto simp: serve_message_def)
        qed
      qed
    qed
  qed
qed

context handler_suite
begin

lemma serve_dispatch_tables:
  "handlers op = Some m \<Longrightarrow> tables_step (c_tables c) (c_tables (serve_dispatch m h payload c))"
  using run_handler_keeps [OF suite_keeps, of op m c h payload]
  by (auto simp: serve_dispatch_def Let_def split: prod.splits)

lemma serve_message_tables: "tables_step (c_tables c) (c_tables (serve_message srv handlers (h, payload) c))"
proof (cases rule: serve_message_cases [of srv handlers h payload c])
  case waits then show ?thesis by (simp add: wait_outcome_def)
next
  case (dispatch m) then show ?thesis by (simp add: serve_dispatch_tables)
qed (simp_all add: serve_ping_def send_reply_def Let_def)

lemma serve_loop_tables: "tables_step (c_tables c) (c_tables (serve_loop srv handlers ms c))"
proof (induction ms arbitrary: c)
  case (Cons m ms)
  then show ?case using serve_message_tables [of c "fst m" "snd m"]
    by (auto simp: Let_def intro: tables_step_trans)
qed simp

lemma serve_loop_owned:
  assumes "bounded (c_tables (serve_loop srv handlers ms Conn_init))"
  shows "tables_inv (c_tables (serve_loop srv handlers ms Conn_init)) \<and> owners_live (c_tables (serve_loop srv handlers ms Conn_init))"
proof -
  let ?t = "c_tables (serve_loop srv handlers ms Conn_init)"
  have "lengths_ok (c_tables Conn_init)" "slots_owned (c_tables Conn_init)"
    by (simp_all add: Conn_init_def ObjectTables_init_def lengths_ok_def slots_owned_def Table_empty_def)
  with serve_loop_tables [of Conn_init ms] assms have l: "lengths_ok ?t" "slots_owned ?t" by (auto simp: tables_step_def)
  with assms have inv: "tables_inv ?t" by (simp add: tables_inv_iff)
  with l(2) show ?thesis by (simp add: owners_live_iff)
qed

lemma serve_message_one_reply:
  "\<exists>xs. c_sent (serve_message srv handlers (h, payload) c) = c_sent c @ xs \<and> reply_of h xs"
proof (cases rule: serve_message_cases [of srv handlers h payload c])
  case waits then show ?thesis by (auto simp: wait_outcome_def reply_of_def)
next
  case (dispatch m)
  then show ?thesis using run_handler_sends [OF suite_sends [OF dispatch(1)], of h payload c]
    by (auto simp: serve_dispatch_def Let_def split: prod.splits)
qed (auto simp: serve_ping_def send_reply_def reply_of_def serve_reply_status_sends Let_def)

end

subsection \<open>The polling loop of a wait\<close>

definition wait_decided :: "u64 \<Rightarrow> bool \<Rightarrow> bool \<times> u64 \<times> u32 \<Rightarrow> bool" where
  "wait_decided timeout first obs = (case obs of (closing, spent, r) \<Rightarrow>
     closing \<or> r \<noteq> VK_TIMEOUT \<or> (timeout \<noteq> UINT64_MAX \<and> \<not> first \<and> spent \<ge> timeout))"

lemma wait_slice_bound: "wait_slice timeout spent \<le> kSliceNs"
  by (simp add: wait_slice_def)

lemma wait_loop_returns:
  "n < length script \<Longrightarrow> wait_decided timeout (first \<and> n = 0) (script ! n) \<Longrightarrow>
     \<exists>r slices. wait_loop timeout first res script = Some (r, slices) \<and> length slices \<le> Suc n"
proof (induction timeout first res script arbitrary: n rule: wait_loop.induct)
  case (2 timeout first res closing spent nres script)
  show ?case
  proof (cases "closing \<or> timeout \<noteq> UINT64_MAX \<and> \<not> first \<and> spent \<ge> timeout \<or> nres \<noteq> VK_TIMEOUT")
    case True
    then show ?thesis by auto
  next
    case False
    with "2.prems" obtain m where n: "n = Suc m" by (cases n) (auto simp: wait_decided_def)
    with False "2.prems" have "m < length script" "wait_decided timeout (False \<and> m = 0) (script ! m)"
      by (auto simp: wait_decided_def)
    with "2.IH" False obtain r slices where
      "wait_loop timeout False nres script = Some (r, slices)" "length slices \<le> Suc m" by blast
    then show ?thesis using False n by auto
  qed
qed simp

lemma wait_loop_result:
  "wait_loop timeout first res script = Some (r, slices) \<Longrightarrow> (first \<or> res = VK_TIMEOUT) \<Longrightarrow>
     (r = VK_TIMEOUT \<longrightarrow> timeout \<noteq> UINT64_MAX \<and> (\<exists>(c, spent, nr) \<in> set script. timeout \<le> spent))
     \<and> (r \<noteq> VK_TIMEOUT \<longrightarrow> (\<exists>(c, spent, nr) \<in> set script. c \<and> r = VK_ERROR_DEVICE_LOST \<or> nr = r))
     \<and> (\<forall>slice \<in> set slices. slice \<le> kSliceNs)"
proof (induction timeout first res script arbitrary: slices rule: wait_loop.induct)
  case (2 timeout first res closing spent nres script)
  consider "closing" | "\<not> closing" "timeout \<noteq> UINT64_MAX \<and> \<not> first \<and> spent \<ge> timeout"
    | "\<not> closing" "\<not> (timeout \<noteq> UINT64_MAX \<and> \<not> first \<and> spent \<ge> timeout)" "nres \<noteq> VK_TIMEOUT"
    | "\<not> closing" "\<not> (timeout \<noteq> UINT64_MAX \<and> \<not> first \<and> spent \<ge> timeout)" "nres = VK_TIMEOUT" by blast
  then show ?case
  proof cases
    case 1 then show ?thesis using "2.prems" by (auto simp: VK_ERROR_DEVICE_LOST_def)
  next
    case 2 then show ?thesis using "2.prems" by auto
  next
    case 3
    with "2.prems"(1) have "r = nres" "slices = [wait_slice timeout spent]" by (simp_all split: if_splits)
    with 3 show ?thesis by (simp add: wait_slice_bound)
  next
    case 4
    with "2.prems" obtain rest where rest: "wait_loop timeout False nres script = Some (r, rest)"
      "slices = wait_slice timeout spent # rest" by auto
    from 4(3) have "\<not> nres \<noteq> VK_TIMEOUT" "False \<or> nres = VK_TIMEOUT" by simp_all
    from "2.IH" [OF 4(1,2) this(1) rest(1) this(2)] have
      ih: "r = VK_TIMEOUT \<Longrightarrow> timeout \<noteq> UINT64_MAX \<and> (\<exists>(c, spent, nr) \<in> set script. timeout \<le> spent)"
        "r \<noteq> VK_TIMEOUT \<Longrightarrow> \<exists>(c, spent, nr) \<in> set script. c \<and> r = VK_ERROR_DEVICE_LOST \<or> nr = r"
        "\<forall>slice \<in> set rest. slice \<le> kSliceNs" by blast+
    show ?thesis
    proof (intro conjI impI)
      assume "r = VK_TIMEOUT"
      from ih(1) [OF this] show "timeout \<noteq> UINT64_MAX"
        "\<exists>(c, spent, nr) \<in> set ((closing, spent, nres) # script). timeout \<le> spent" by auto
    next
      assume "r \<noteq> VK_TIMEOUT"
      from ih(2) [OF this] show "\<exists>(c, spent, nr) \<in> set ((closing, spent, nres) # script). c \<and> r = VK_ERROR_DEVICE_LOST \<or> nr = r"
        unfolding list.set by blast
    qed (use ih(3) rest(2) wait_slice_bound in auto)
  qed
qed simp

subsection \<open>Properties\<close>

text \<open>
  C9. Waits end, and end for a reason: as soon as one turn of the polling loop sees the
  connection closing, the driver report anything but a timeout, or (from the second turn on) the
  deadline passed, the wait has returned after at most that many driver calls, each of at most
  100 ms, so a disconnect is noticed within one slice; a timeout is reported only for a finite
  deadline that has passed, and any other result is the driver's or, on a closing connection,
  device lost.
\<close>

theorem wait_loop_spec:
  assumes "n < length script" and "wait_decided timeout (n = 0) (script ! n)"
  shows "\<exists>r slices. wait_loop timeout True VK_TIMEOUT script = Some (r, slices) \<and> length slices \<le> Suc n
    \<and> (\<forall>slice \<in> set slices. slice \<le> kSliceNs)
    \<and> (r = VK_TIMEOUT \<longrightarrow> timeout \<noteq> UINT64_MAX \<and> (\<exists>(c, spent, nr) \<in> set script. timeout \<le> spent))
    \<and> (r \<noteq> VK_TIMEOUT \<longrightarrow> (\<exists>(c, spent, nr) \<in> set script. c \<and> r = VK_ERROR_DEVICE_LOST \<or> nr = r))"
proof -
  from wait_loop_returns [of n script timeout True VK_TIMEOUT] assms obtain r slices where
    "wait_loop timeout True VK_TIMEOUT script = Some (r, slices)" "length slices \<le> Suc n" by auto
  with wait_loop_result [OF this(1)] show ?thesis by blast
qed

theorem wait_loop_spec_witness:
  "\<exists>r slices. wait_loop 150000000 True VK_TIMEOUT [(False, 0, 2), (False, 100000000, 2), (False, 150000001, 2)] = Some (r, slices)
    \<and> length slices \<le> Suc 2 \<and> (\<forall>slice \<in> set slices. slice \<le> kSliceNs)
    \<and> (r = VK_TIMEOUT \<longrightarrow> (150000000 :: u64) \<noteq> UINT64_MAX
        \<and> (\<exists>(c, spent, nr) \<in> set [(False, 0, 2), (False, 100000000, 2), (False, 150000001, 2 :: u32)]. (150000000 :: u64) \<le> spent))
    \<and> (r \<noteq> VK_TIMEOUT \<longrightarrow> (\<exists>(c, spent, nr) \<in> set [(False, 0 :: u64, 2), (False, 100000000, 2), (False, 150000001, 2 :: u32)].
        c \<and> r = VK_ERROR_DEVICE_LOST \<or> nr = r))"
  by (rule wait_loop_spec) (simp_all add: wait_decided_def UINT64_MAX_def)

end
