(* ===== verification/Registry.thy ===== *)
theory Registry
  imports HandlersTemplate RegistryCommand HandlersWsi Serve
begin

section \<open>The registration table and what it guarantees to the serve loop\<close>

text \<open>
  \<open>REGISTER_HANDLER\<close> puts every handler into one table keyed by opcode; the opcodes are
  generated, so the table here is keyed by the command's name and \<open>opc\<close> gives the number. The
  serve loop relies on what \<open>handler_suite\<close> states; the registered handlers provide it.
\<close>

subsection \<open>Loops inside handlers\<close>

lemma keeps_update_sets:
  "keeps D (update_tables (retire_pool_sets pool))" "keeps D (update_tables (free_sets is))"
proof -
  have dev: "tables (retire_pool_sets pool t) Devices = tables t Devices" "tables (free_sets is t) Devices = tables t Devices" for t
    by (simp_all add: retire_pool_sets_def free_sets_def Let_def)
  have "tables_step t (retire_pool_sets pool t)" "tables_step t (free_sets is t)" for t
    by (rule tables_step_via [OF tables_step_takes [of DescriptorSets]];
        simp add: retire_pool_sets_def free_sets_def Let_def)+
  then show "keeps D (update_tables (retire_pool_sets pool))" "keeps D (update_tables (free_sets is))"
    using dev by (auto simp: keeps_def run_simps live_devices_def)
qed

lemma loops_unsent [handler_intros]:
  "unsent (add_pipelines device hs)" "unsent (add_descriptor_sets success device pool hs)"
  by (induction hs) (simp_all add: handler_intros)

lemma add_pipelines_keeps [handler_intros]: "d \<in> D \<Longrightarrow> d \<noteq> 0 \<Longrightarrow> keeps D (add_pipelines d hs)"
  by (induction hs) (auto intro!: handler_intros keeps_bind)

lemma add_descriptor_sets_keeps [handler_intros]:
  "d \<in> D \<Longrightarrow> d \<noteq> 0 \<Longrightarrow> keeps D (add_descriptor_sets success d pool hs)"
  by (induction hs) (auto intro!: handler_intros keeps_bind)

subsection \<open>Request handlers answer, one-way handlers stay silent\<close>

definition device_requests :: "Server \<Rightarrow> (string \<times> unit handler) list" where
  "device_requests srv = [
     (''vkCreateDevice'', handle_CreateDevice srv),
     (''vkGetDeviceQueue'', handle_GetDeviceQueue srv),
     (''vkGetDeviceQueue2'', handle_GetDeviceQueue2 srv),
     (''vkGetDeviceGroupPeerMemoryFeatures'', handle_GetDeviceGroupPeerMemoryFeatures srv),
     (''vkQueueSubmit'', handle_QueueSubmit srv),
     (''vkQueueSubmit2'', handle_QueueSubmit2 srv),
     (''vkQueueBindSparse'', handle_QueueBindSparse srv),
     (''vkQueueWaitIdle'', handle_QueueWaitIdle srv),
     (''vkDeviceWaitIdle'', handle_DeviceWaitIdle srv),
     (''vkCreateFence'', handle_CreateFence srv),
     (''vkResetFences'', handle_ResetFences srv),
     (''vkGetFenceStatus'', handle_GetFenceStatus srv),
     (''vkWaitForFences'', handle_WaitForFences srv),
     (''vkCreateSemaphore'', handle_CreateSemaphore srv),
     (''vkGetSemaphoreCounterValue'', handle_GetSemaphoreCounterValue srv),
     (''vkWaitSemaphores'', handle_WaitSemaphores srv),
     (''vkSignalSemaphore'', handle_SignalSemaphore srv),
     (''vkGetEventStatus'', handle_EventOperation srv 0),
     (''vkSetEvent'', handle_EventOperation srv 1),
     (''vkResetEvent'', handle_EventOperation srv 2),
     (''vkGetQueryPoolResults'', handle_GetQueryPoolResults srv),
     (''vkCreateShaderModule'', handle_CreateShaderModule srv),
     (''vkGetPipelineCacheData'', handle_GetPipelineCacheData srv),
     (''vkMergePipelineCaches'', handle_MergePipelineCaches srv),
     (''vkGetRenderAreaGranularity'', handle_GetRenderAreaGranularity srv),
     (''vkCreateRenderPass2'', handle_CreateRenderPass2 srv),
     (''vkCreateDescriptorSetLayout'', handle_CreateDescriptorSetLayout srv),
     (''vkGetImageSubresourceLayout'', handle_GetImageSubresourceLayout srv),
     (''vkCreateGraphicsPipelines'', handle_CreateGraphicsPipelines srv),
     (''vkCreateComputePipelines'', handle_CreateComputePipelines srv),
     (''vkAllocateDescriptorSets'', handle_AllocateDescriptorSets srv),
     (''vkFreeDescriptorSets'', handle_FreeDescriptorSets srv),
     (''vkResetDescriptorPool'', handle_ResetDescriptorPool srv),
     (''vkCreateDescriptorUpdateTemplate'', handle_CreateDescriptorUpdateTemplate srv),
     (''vkGetDescriptorSetLayoutSupport'', handle_GetDescriptorSetLayoutSupport srv),
     (''vkCreateSamplerYcbcrConversion'', handle_CreateSamplerYcbcrConversion srv)]
   @ map (\<lambda>(name, read_fn, create_fn, k). (name, server_create srv read_fn create_fn k)) create_instances"

definition device_oneways :: "Server \<Rightarrow> (string \<times> unit handler) list" where
  "device_oneways srv = [
     (''vkDestroyDevice'', handle_DestroyDevice),
     (''vkDestroyFence'', handle_DestroyFence srv),
     (''vkDestroySemaphore'', handle_DestroySemaphore srv),
     (''vkResetQueryPool'', handle_ResetQueryPool srv),
     (''vkDestroyDescriptorPool'', handle_DestroyDescriptorPool srv),
     (''vkUpdateDescriptorSets'', handle_UpdateDescriptorSets srv),
     (''vkDestroyDescriptorUpdateTemplate'', handle_DestroyDescriptorUpdateTemplate srv),
     (''vkUpdateDescriptorSetWithTemplate'', handle_UpdateDescriptorSetWithTemplate srv),
     (''vkDestroySamplerYcbcrConversion'', handle_DestroySamplerYcbcrConversion srv)]
   @ map (\<lambda>(name, k). (name, server_destroy srv k)) destroy_instances"

lemmas device_defs = handle_CreateDevice_def handle_GetDeviceQueue_def handle_GetDeviceQueue2_def
  handle_GetDeviceGroupPeerMemoryFeatures_def handle_QueueSubmit_def handle_QueueSubmit2_def handle_QueueBindSparse_def
  handle_QueueWaitIdle_def handle_DeviceWaitIdle_def handle_CreateFence_def handle_ResetFences_def
  handle_GetFenceStatus_def handle_WaitForFences_def handle_CreateSemaphore_def
  handle_GetSemaphoreCounterValue_def handle_WaitSemaphores_def handle_SignalSemaphore_def
  handle_EventOperation_def handle_GetQueryPoolResults_def handle_CreateShaderModule_def
  handle_GetPipelineCacheData_def handle_MergePipelineCaches_def handle_GetRenderAreaGranularity_def
  handle_CreateRenderPass2_def handle_CreateDescriptorSetLayout_def handle_GetImageSubresourceLayout_def
  handle_CreateGraphicsPipelines_def handle_CreateComputePipelines_def handle_AllocateDescriptorSets_def
  handle_FreeDescriptorSets_def handle_ResetDescriptorPool_def handle_CreateDescriptorUpdateTemplate_def
  handle_GetDescriptorSetLayoutSupport_def handle_CreateSamplerYcbcrConversion_def server_create_def

lemma device_requests_answer: "list_all (\<lambda>(name, m). answers m) (device_requests srv)"
  unfolding device_requests_def create_instances_def
  by (simp add: device_defs split del: if_split) (intro conjI handler_intros)

lemma destroy_device_unsent: "unsent handle_DestroyDevice"
  unfolding handle_DestroyDevice_def
  by (intro handler_intros) (simp add: unsent_def case_prod_unfold Let_def)

lemmas oneway_defs = handle_DestroyFence_def handle_DestroySemaphore_def destroy_unchecked_def
  handle_ResetQueryPool_def handle_DestroyDescriptorPool_def handle_UpdateDescriptorSets_def
  handle_DestroyDescriptorUpdateTemplate_def handle_UpdateDescriptorSetWithTemplate_def
  handle_DestroySamplerYcbcrConversion_def server_destroy_def

lemma device_oneways_unsent: "list_all (\<lambda>(name, m). unsent m) (device_oneways srv)"
  unfolding device_oneways_def destroy_instances_def
  by (simp add: oneway_defs split del: if_split) (intro conjI destroy_device_unsent handler_intros)

subsection \<open>Ownership\<close>

lemma destroy_device_exec:
  assumes "r_ok (snd (r_handle (reader s)))"
  shows "s_tables (exec handle_DestroyDevice s) = fst (close_device (fst (r_handle (reader s))) (s_tables s, native_log s))"
  using assms
  by (auto simp: handle_DestroyDevice_def run_simps close_device_def Let_def case_prod_unfold destroy_device_objects_def)

lemma r_read_failed: "\<not> r_ok (snd (r_read n r)) \<Longrightarrow> fst (r_read n r) = 0"
  by (auto simp: r_read_def r_ok_def split: if_splits)

lemma tbl_take_0 [simp]: "tbl_take tab 0 = (0, tab)"
  by (simp add: tbl_take_def)

lemma keeps_destroy_device: "keeps {} handle_DestroyDevice"
  unfolding keeps_def
proof (intro allI impI conjI)
  fix s
  show "tables_step (s_tables s) (s_tables (exec handle_DestroyDevice s))"
  proof (cases "r_ok (snd (r_handle (reader s)))")
    case True
    then show ?thesis using tables_step_close_device by (simp add: destroy_device_exec)
  next
    case False
    then have "fst (r_handle (reader s)) = 0" using r_read_failed by (simp add: r_handle_def r_u64_def)
    then show ?thesis using False
      by (simp add: handle_DestroyDevice_def run_simps tables_step_meta)
  qed
qed simp

lemma device_requests_keep: "list_all (\<lambda>(name, m). keeps {} m) (device_requests srv)"
  unfolding device_requests_def create_instances_def
  apply (simp add: device_defs split del: if_split)
  apply (intro conjI)
  apply ((rule keeps_bind_device | rule keeps_bind | rule keeps_update_sets | rule keeps_add_device | rule handler_intros | simp)+)
  done

lemma device_oneways_keep: "list_all (\<lambda>(name, m). keeps {} m) (device_oneways srv)"
  unfolding device_oneways_def destroy_instances_def
  apply (simp add: oneway_defs split del: if_split)
  apply (intro conjI keeps_destroy_device)
  apply ((rule keeps_bind_device | rule keeps_bind | rule keeps_update_sets | rule keeps_add_device | rule handler_intros | simp)+)
  done

subsection \<open>The table\<close>

lemma handshake_answers: "answers (handle_Handshake srv)"
  unfolding handle_Handshake_def
  by (intro handler_intros answers_reply_then) (simp add: unsent_def)

lemma handshake_keeps: "keeps {} (handle_Handshake srv)"
proof -
  have c: "keeps {} (State (\<lambda>s. ((), s\<lparr>close_connection := True\<rparr>)))" by (simp add: keeps_def)
  show ?thesis unfolding handle_Handshake_def Let_def
    by (rule keeps_bind | rule handler_intros | rule c | simp)+
qed

definition request_table :: "Server \<Rightarrow> (string \<times> unit handler) list" where
  "request_table srv = device_requests srv @ memory_requests srv @ command_requests srv @ instance_requests srv @ wsi_requests srv"

definition oneway_table :: "Server \<Rightarrow> (string \<times> unit handler) list" where
  "oneway_table srv = device_oneways srv @ command_oneways srv @ wsi_oneways srv"

definition server_handlers :: "Server \<Rightarrow> (string \<Rightarrow> u32) \<Rightarrow> u32 \<Rightarrow> unit handler option" where
  "server_handlers srv opc =
     map_of ((kOpHandshake, handle_Handshake srv) # map (\<lambda>(name, m). (opc name, m)) (request_table srv @ oneway_table srv
       @ [(''vkAllocateCommandBuffers'', handle_AllocateCommandBuffers srv)]))"

lemma request_table_good: "(name, m) \<in> set (request_table srv) \<Longrightarrow> answers m \<and> keeps {} m"
  using instance_requests_answer [of srv] device_requests_answer [of srv] memory_requests_answer [of srv]
    command_requests_answer [of srv] wsi_requests_answer [of srv]
    instance_requests_keep [of srv] device_requests_keep [of srv] memory_requests_keep [of srv]
    command_requests_keep [of srv] wsi_requests_keep [of srv]
  by (auto simp: request_table_def list_all_iff)

lemma oneway_table_good: "(name, m) \<in> set (oneway_table srv) \<Longrightarrow> unsent m \<and> keeps {} m"
  using device_oneways_unsent [of srv] command_oneways_unsent [of srv] wsi_oneways_unsent [of srv]
    device_oneways_keep [of srv] command_oneways_keep [of srv] wsi_oneways_keep [of srv]
  by (auto simp: oneway_table_def list_all_iff)

lemma server_handlers_member:
  "server_handlers srv opc op = Some m \<Longrightarrow>
     m = handle_Handshake srv \<or> m = handle_AllocateCommandBuffers srv
     \<or> (\<exists>name. (name, m) \<in> set (request_table srv) \<or> (name, m) \<in> set (oneway_table srv))"
  by (auto simp: server_handlers_def dest!: map_of_SomeD split: if_splits)

interpretation suite: handler_suite srv "server_handlers srv opc"
proof
  fix op m assume "server_handlers srv opc op = Some m"
  then have m: "m = handle_Handshake srv \<or> m = handle_AllocateCommandBuffers srv
     \<or> (\<exists>name. (name, m) \<in> set (request_table srv) \<or> (name, m) \<in> set (oneway_table srv))"
    by (rule server_handlers_member)
  show "keeps {} m"
    using m handshake_keeps allocate_command_buffers_keeps request_table_good oneway_table_good by blast
  show "replies_once m"
    using m handshake_answers allocate_command_buffers_replies request_table_good oneway_table_good
      answers_replies_once unsent_replies_once by blast
qed

subsection \<open>A concrete server\<close>

text \<open>
  One physical device, a driver on which every call succeeds and returns a fresh handle, create
  infos that decode from nothing, and an arbitrary numbering of the commands.
\<close>

definition example_server :: Server where
  "example_server = \<lparr>physical_devices = [77], loader_api_version = 0, coherent_enabled = False,
     kWireSchemaRevision = [1], kRegistrySha256 = [2], kWireAbi = [3], kCommandSetDigest = [4],
     op_vkQueueWaitIdle = 40, op_vkDeviceWaitIdle = 41, op_vkWaitForFences = 42, op_vkWaitSemaphores = 43,
     has_wayland = False, own_window_forced = False,
     native = (\<lambda>log c. \<lparr>nr_result = VK_SUCCESS, nr_handles = [of_nat (100 + length log)], nr_values = [], nr_data = [], nr_out = []\<rparr>),
     proc_addr = (\<lambda>_ _. True), read_struct = (\<lambda>_ _ r. (Some (VList []), r)), write_struct = (\<lambda>_ _ _. [])\<rparr>"

definition example_opc :: "string \<Rightarrow> u32" where
  "example_opc name = (if name = ''vkCreateDevice'' then 10 else if name = ''vkCreateFence'' then 11 else 50)"

definition example_handshake :: "MessageHeader \<times> bytes" where
  "example_handshake = (\<lparr>opcode = kOpHandshake, payload_size = 28, request_id = 1\<rparr>,
     blob [1] @ blob [2] @ blob [3] @ blob [4] @ le_bytes 4 (0 :: u32) @ le_bytes 4 (0 :: u32))"

definition example_messages :: "(MessageHeader \<times> bytes) list" where
  "example_messages = [example_handshake,
     (\<lparr>opcode = 10, payload_size = 8, request_id = 2\<rparr>, le_bytes 8 (1 :: u64)),
     (\<lparr>opcode = 11, payload_size = 8, request_id = 3\<rparr>, le_bytes 8 (1 :: u64))]"

subsection \<open>The handshake message\<close>

definition handshake_payload :: "bytes \<Rightarrow> bytes \<Rightarrow> bytes \<Rightarrow> bytes \<Rightarrow> u32 \<Rightarrow> u32 \<Rightarrow> bytes" where
  "handshake_payload schema registry abi digest supported required =
     blob schema @ blob registry @ blob abi @ blob digest @ le_bytes 4 supported @ le_bytes 4 required"

lemma handshake_exec:
  assumes "length schema < 2 ^ 32" "length registry < 2 ^ 32" "length abi < 2 ^ 32" "length digest < 2 ^ 32"
    and "reader s = Reader_init (handshake_payload schema registry abi digest supported required)" and "\<not> replied s"
  shows "exec (handle_Handshake srv) s =
    (let ok = handshake_matches srv (Some schema) (Some registry) (Some abi) (Some digest) supported required;
         body = writer s @ le_bytes 4 (status_code (if ok then Ok else DecodeError)) @ blob (kCommandSetDigest srv)
           @ le_bytes 4 (of_nat (length (physical_devices srv)) :: u32) @ le_bytes 4 (loader_api_version srv)
           @ le_bytes 4 (if ok then supported AND server_capabilities srv else 0)
     in s\<lparr>reader := Reader_at (handshake_payload schema registry abi digest supported required) [], writer := body,
          replied := True, sent := sent s @ (if s_request_id s = 0 then [] else [(s_opcode s, body, s_request_id s)]),
          s_tables := (if ok then (s_tables s)\<lparr>capabilities := supported AND server_capabilities srv\<rparr> else s_tables s),
          close_connection := (if ok then close_connection s else True)\<rparr>)"
proof -
  have r: "reader s = Reader_at [] (handshake_payload schema registry abi digest supported required)"
    using assms(5) by (simp add: reader_simps)
  show ?thesis using assms(1-4,6) r
    by (cases "handshake_matches srv (Some schema) (Some registry) (Some abi) (Some digest) supported required")
      (simp_all add: handle_Handshake_def handshake_payload_def run_simps reader_simps wire_simps Let_def)
qed

subsection \<open>Properties\<close>


lemma example_loop:
  "serve_loop example_server (server_handlers example_server example_opc)
     [(\<lparr>opcode = 1, payload_size = 0, request_id = 0\<rparr>, [])] Conn_init = Conn_init\<lparr>c_ended := True\<rparr>"
  by (simp add: serve_message_def Conn_init_def kOpHandshake_def)


text \<open>
  C12. At most one reply per message, and it is addressed to the request: whatever the message and
  the state of the connection, one turn of the loop sends nothing or one message that carries the
  request's id and opcode, and never one with id 0.
\<close>

theorem serve_replies_match:
  "\<exists>xs. c_sent (serve_message srv (server_handlers srv opc) (h, payload) c) = c_sent c @ xs
     \<and> (xs = [] \<or> (request_id h \<noteq> 0 \<and> (\<exists>body. xs = [(opcode h, body, request_id h)])))"
  using suite.serve_message_one_reply [of srv opc h payload c] by (simp add: reply_of_def)



text \<open>
  C14. Nothing happens before the handshake: if the first message is not a handshake with a
  nonzero id, the connection ends with no reply, no object, no driver call and no job, however
  many messages follow it.
\<close>

theorem serve_gate:
  assumes "opcode h \<noteq> kOpHandshake \<or> request_id h = 0"
  shows "serve_loop srv (server_handlers srv opc) ((h, payload) # ms) Conn_init = Conn_init\<lparr>c_ended := True\<rparr>"
  using assms by (auto simp: serve_message_def Conn_init_def)

theorem serve_gate_witness:
  "serve_loop example_server (server_handlers example_server example_opc) ((\<lparr>opcode = 9, payload_size = 0, request_id = 4\<rparr>, []) # []) Conn_init =
     Conn_init\<lparr>c_ended := True\<rparr>"
  by (rule serve_gate) (simp add: kOpHandshake_def)



text \<open>
  A successful create hands out an id that works: for every object that is created through
  \<open>SERVER_CREATE\<close>, if the request names a live device, its create info decodes and the driver
  returns success, the client is sent \<open>Ok\<close>, the driver's result and an id that resolves to
  the handle the driver returned, is owned by that device and was not in use before; the driver was
  called once, with that device.
\<close>

theorem server_create_spec:
  assumes "resolve (s_tables s) Devices dev_id = d" and "reader s = Reader_at pre (le_bytes 8 dev_id @ body)" and "\<not> replied s" and "s_request_id s \<noteq> 0"
    and "d \<noteq> VK_NULL_HANDLE"
    and "read_struct srv read_fn (s_tables s) (Reader_at (pre @ le_bytes 8 dev_id) body) = (Some info, r')"
    and "native srv (native_log s) (NativeCall create_fn [VNum d, info]) = res" and "nr_result res = VK_SUCCESS"
    and "table_inv (tables (s_tables s) k)" and "Suc (tbl_size (tables (s_tables s) k)) < 2 ^ 64" and "k \<noteq> Devices"
  shows "let s' = exec (server_create srv read_fn create_fn k) s; i = of_nat (Suc (tbl_size (tables (s_tables s) k))) in
    sent s' = sent s @ [(s_opcode s, writer s @ le_bytes 4 (status_code Ok) @ le_bytes 4 (nr_result res) @ le_bytes 8 i, s_request_id s)]
    \<and> resolve (s_tables s') k i = nr_handle res 0 \<and> tbl_owner (tables (s_tables s') k) i = d
    \<and> resolve (s_tables s) k i = VK_NULL_HANDLE
    \<and> native_log s' = native_log s @ [NativeCall create_fn [VNum d, info]]"
proof -
  let ?i = "of_nat (Suc (tbl_size (tables (s_tables s) k))) :: u64" let ?tab = "tables (s_tables s) k"
  have u: "unat ?i = Suc (tbl_size ?tab)" using assms(10) by (intro unat_of_nat_small) simp
  then have i0: "?i \<noteq> 0" by (metis nat.distinct(1) unat_0)
  have add: "fst (tbl_add ?tab v w) = ?i" "tbl_get (snd (tbl_add ?tab v w)) ?i = v" "tbl_owner (snd (tbl_add ?tab v w)) ?i = w" for v w
    using u i0 assms(9) by (simp_all add: tbl_add_def tbl_get_def tbl_owner_def tbl_size_def table_inv_def nth_append)
  have fresh: "tbl_get ?tab ?i = 0" using u by (simp add: tbl_get_def tbl_size_def)
  have e: "exec (server_create srv read_fn create_fn k) s = s\<lparr>reader := r', native_log := native_log s @ [NativeCall create_fn [VNum d, info]],
      s_tables := set_table k (snd (tbl_add ?tab (nr_handle res 0) d)) (s_tables s),
      writer := writer s @ le_bytes 4 (status_code Ok) @ le_bytes 4 (nr_result res) @ le_bytes 8 ?i, replied := True,
      sent := sent s @ [(s_opcode s, writer s @ le_bytes 4 (status_code Ok) @ le_bytes 4 (nr_result res) @ le_bytes 8 ?i, s_request_id s)]\<rparr>"
    using assms add(1) by (simp add: server_create_def run_simps reader_simps wire_simps)
  show ?thesis unfolding e Let_def using add fresh by (simp add: resolve_def)
qed

definition example_session :: "bytes \<Rightarrow> Session" where
  "example_session payload =
     \<lparr>reader = Reader_at [] payload, writer = [],
      s_tables = ObjectTables_init\<lparr>tables := (\<lambda>_. Table_empty)(Devices := \<lparr>m_slots = [9], m_owners = [0]\<rparr>,
        Fences := \<lparr>m_slots = [55], m_owners = [9]\<rparr>, Buffers := \<lparr>m_slots = [66, 67], m_owners = [9, 8]\<rparr>)\<rparr>,
      oneway_errors = 0, s_opcode = 11, s_request_id = 3, replied = False, close_connection = False, sent = [], native_log = []\<rparr>"

theorem server_create_spec_witness:
  "let s' = exec (server_create example_server ''read_FenceCreateInfo'' ''vkCreateFence'' Fences) (example_session (le_bytes 8 (1 :: u64) @ []));
       i = of_nat (Suc (tbl_size (tables (s_tables (example_session (le_bytes 8 (1 :: u64) @ []))) Fences))) in
    sent s' = sent (example_session (le_bytes 8 (1 :: u64) @ [])) @ [(s_opcode (example_session (le_bytes 8 (1 :: u64) @ [])),
      writer (example_session (le_bytes 8 (1 :: u64) @ [])) @ le_bytes 4 (status_code Ok) @ le_bytes 4 (nr_result \<lparr>nr_result = VK_SUCCESS, nr_handles = [100], nr_values = [], nr_data = [], nr_out = []\<rparr>) @ le_bytes 8 i,
      s_request_id (example_session (le_bytes 8 (1 :: u64) @ [])))]
    \<and> resolve (s_tables s') Fences i = nr_handle \<lparr>nr_result = VK_SUCCESS, nr_handles = [100], nr_values = [], nr_data = [], nr_out = []\<rparr> 0
    \<and> tbl_owner (tables (s_tables s') Fences) i = 9
    \<and> resolve (s_tables (example_session (le_bytes 8 (1 :: u64) @ []))) Fences i = VK_NULL_HANDLE
    \<and> native_log s' = native_log (example_session (le_bytes 8 (1 :: u64) @ [])) @ [NativeCall ''vkCreateFence'' [VNum 9, VList []]]"
  by (rule server_create_spec [where dev_id = 1 and pre = "[]" and body = "[]" and r' = "Reader_at ([] @ le_bytes 8 (1 :: u64)) []"])
    (simp_all add: example_session_def example_server_def resolve_def tbl_get_def table_inv_def tbl_size_def
      ObjectTables_init_def Table_empty_def)

text \<open>
  C16. Destruction is checked: a \<open>SERVER_DESTROY\<close> request that names a live device and an id
  of an object that device owns empties exactly that slot and calls the driver's destroy function
  once with that device and that object; any other id (dead, never issued, or another device's)
  leaves the tables and the driver alone and counts one error for the client.
\<close>

theorem server_destroy_spec:
  assumes "reader s = Reader_at pre (le_bytes 8 dev_id @ le_bytes 8 i)"
    and "resolve (s_tables s) Devices dev_id = d" and "d \<noteq> VK_NULL_HANDLE" and "k \<noteq> Devices"
  shows "let s' = exec (server_destroy srv k) s in
    if tbl_owned_by (tables (s_tables s) k) i d
    then native_log s' = native_log s @ [NativeDestroy k d (resolve (s_tables s) k i)]
         \<and> oneway_errors s' = oneway_errors s
         \<and> (\<forall>k' j. resolve (s_tables s') k' j = (if k' = k \<and> j = i then VK_NULL_HANDLE else resolve (s_tables s) k' j))
    else s_tables s' = s_tables s \<and> native_log s' = native_log s \<and> oneway_errors s' = oneway_errors s + 1"
proof (cases "tbl_owned_by (tables (s_tables s) k) i d")
  case True
  then have nz: "fst (tbl_take (tables (s_tables s) k) i) \<noteq> 0" by (simp add: tbl.take_value tbl_owned_by_def)
  have e: "exec (server_destroy srv k) s = s\<lparr>reader := Reader_at ((pre @ le_bytes 8 dev_id) @ le_bytes 8 i) [],
      s_tables := set_table k (snd (tbl_take (tables (s_tables s) k) i)) (s_tables s),
      native_log := native_log s @ [NativeDestroy k d (fst (tbl_take (tables (s_tables s) k) i))]\<rparr>"
    using assms True nz by (simp add: server_destroy_def run_simps reader_simps)
  show ?thesis unfolding e Let_def using True by (auto simp: resolve_def tbl.take_value tbl_get_take)
next
  case False
  have e: "exec (server_destroy srv k) s = s\<lparr>reader := Reader_at ((pre @ le_bytes 8 dev_id) @ le_bytes 8 i) [],
      oneway_errors := oneway_errors s + 1\<rparr>"
    using assms False by (simp add: server_destroy_def run_simps reader_simps)
  show ?thesis unfolding e Let_def using False by simp
qed

theorem server_destroy_spec_witness:
  "let s' = exec (server_destroy example_server Buffers) (example_session (le_bytes 8 (1 :: u64) @ le_bytes 8 (2 :: u64))) in
    if tbl_owned_by (tables (s_tables (example_session (le_bytes 8 (1 :: u64) @ le_bytes 8 (2 :: u64)))) Buffers) 2 9
    then native_log s' = native_log (example_session (le_bytes 8 (1 :: u64) @ le_bytes 8 (2 :: u64))) @ [NativeDestroy Buffers 9 (resolve (s_tables (example_session (le_bytes 8 (1 :: u64) @ le_bytes 8 (2 :: u64)))) Buffers 2)]
         \<and> oneway_errors s' = oneway_errors (example_session (le_bytes 8 (1 :: u64) @ le_bytes 8 (2 :: u64)))
         \<and> (\<forall>k' j. resolve (s_tables s') k' j = (if k' = Buffers \<and> j = 2 then VK_NULL_HANDLE else resolve (s_tables (example_session (le_bytes 8 (1 :: u64) @ le_bytes 8 (2 :: u64)))) k' j))
    else s_tables s' = s_tables (example_session (le_bytes 8 (1 :: u64) @ le_bytes 8 (2 :: u64))) \<and> native_log s' = native_log (example_session (le_bytes 8 (1 :: u64) @ le_bytes 8 (2 :: u64)))
         \<and> oneway_errors s' = oneway_errors (example_session (le_bytes 8 (1 :: u64) @ le_bytes 8 (2 :: u64))) + 1"
  by (rule server_destroy_spec [where pre = "[]" and dev_id = 1])
    (simp_all add: example_session_def resolve_def tbl_get_def ObjectTables_init_def)

text \<open>
  Fences and semaphores are the exception: \<open>handle_DestroyFence\<close> empties the slot before
  it looks at the device, so a request that names a live fence and no live device kills the id
  without destroying the fence, which no later request and no teardown can reach; and a request
  that names another live device passes the fence to the driver with a device that did not create
  it.
\<close>

theorem destroy_fence_unchecked:
  assumes "reader s = Reader_at pre (le_bytes 8 dev_id @ le_bytes 8 i)"
  shows "let s' = exec (handle_DestroyFence srv) s; d = resolve (s_tables s) Devices dev_id in
    resolve (s_tables s') Fences i = VK_NULL_HANDLE
    \<and> native_log s' = native_log s @ (if d = VK_NULL_HANDLE then [] else [NativeDestroy Fences d (resolve (s_tables s) Fences i)])"
  using assms by (simp add: handle_DestroyFence_def destroy_unchecked_def run_simps reader_simps resolve_def
      tbl.take_value tbl_get_take)

theorem destroy_fence_unchecked_witness:
  "let s' = exec (handle_DestroyFence example_server) (example_session (le_bytes 8 (5 :: u64) @ le_bytes 8 (1 :: u64)));
       d = resolve (s_tables (example_session (le_bytes 8 (5 :: u64) @ le_bytes 8 (1 :: u64)))) Devices 5 in
    resolve (s_tables s') Fences 1 = VK_NULL_HANDLE
    \<and> native_log s' = native_log (example_session (le_bytes 8 (5 :: u64) @ le_bytes 8 (1 :: u64))) @ (if d = VK_NULL_HANDLE then []
        else [NativeDestroy Fences d (resolve (s_tables (example_session (le_bytes 8 (5 :: u64) @ le_bytes 8 (1 :: u64)))) Fences 1)])"
  by (rule destroy_fence_unchecked [where pre = "[]"]) (simp add: example_session_def)

text \<open>
  A request to allocate command buffers that names no live device gets no answer: the handler
  writes a status into the reply buffer but returns without sending it, and the serve loop neither
  answers in its place nor queues a job, so the client's round trip waits until its watchdog gives
  the connection up.
\<close>

theorem allocate_command_buffers_silent:
  assumes "c_handshake_complete c" "handlers (opcode h) = Some (handle_AllocateCommandBuffers srv)"
    and "opcode h \<notin> {kOpHandshake, kOpPing, op_vkQueueWaitIdle srv, op_vkDeviceWaitIdle srv, op_vkWaitForFences srv, op_vkWaitSemaphores srv}"
    and "resolve (c_tables c) Devices dev_id = VK_NULL_HANDLE"
  shows "serve_message srv handlers (h, le_bytes 8 dev_id @ rest) c = c"
  using assms by (simp add: serve_message_def serve_dispatch_def run_handler_def handle_AllocateCommandBuffers_def open_session_def
      close_session_def run_simps reader_simps Let_def)

theorem allocate_command_buffers_silent_witness:
  "serve_message example_server [12 \<mapsto> handle_AllocateCommandBuffers example_server]
     (\<lparr>opcode = 12, payload_size = 8, request_id = 5\<rparr>, le_bytes 8 (3 :: u64) @ []) (Conn_init\<lparr>c_handshake_complete := True\<rparr>) =
   Conn_init\<lparr>c_handshake_complete := True\<rparr>"
  by (rule allocate_command_buffers_silent)
    (simp_all add: kOpHandshake_def kOpPing_def example_server_def Conn_init_def resolve_def tbl_get_def ObjectTables_init_def Table_empty_def)

end
