(* ===== verification/MemoryEndToEnd.thy ===== *)
theory MemoryEndToEnd
  imports MemoryLink Registry
begin

section \<open>Mapped memory from the application to the driver\<close>

text \<open>
  The client's memory operations, the client's connection, the serve loop and the memory handlers
  put together. The contents of a device allocation are what the driver calls and copies in the
  server's log have made of it; a round trip registers a request with the connection, lets the serve
  loop handle it, and matches and completes the reply.
\<close>

subsection \<open>The contents of device memory\<close>

text \<open>
  The state of the mapped allocations: where each is mapped from, and its bytes. Mapping an
  allocation sets its start; a copy into the mapping stores.
\<close>

type_synonym memory_state = "(u64 \<Rightarrow> u64) \<times> (u64 \<Rightarrow> nat \<Rightarrow> byte)"

fun apply_args :: "string \<Rightarrow> vk list \<Rightarrow> memory_state \<Rightarrow> memory_state" where
  "apply_args name [VNum dv, VNum h, VNum start, VNum sz] (at, mem) =
     (if name = ''vkMapMemory'' then (at(h := start), mem) else (at, mem))"
| "apply_args name [VNum h, VNum rel, VBytes bs] (at, mem) =
     (if name = ''memcpy_to'' then (at, mem(h := write_at (mem h) (unat (at h) + unat rel) bs)) else (at, mem))"
| "apply_args name args st = st"

definition apply_call :: "native_call \<Rightarrow> memory_state \<Rightarrow> memory_state" where
  "apply_call c st = (case c of NativeCall name args \<Rightarrow> apply_args name args st | _ \<Rightarrow> st)"

definition memory_state_of :: "native_call list \<Rightarrow> memory_state" where
  "memory_state_of log = fold apply_call log (\<lambda>_. 0, \<lambda>_ _. 0)"

definition device_memory :: "native_call list \<Rightarrow> u64 \<Rightarrow> nat \<Rightarrow> byte" where
  "device_memory log = snd (memory_state_of log)"

lemma memory_state_of_append: "memory_state_of (log @ calls) = fold apply_call calls (memory_state_of log)"
  by (simp add: memory_state_of_def)

text \<open>
  What the handlers rely on in a driver for the allocation \<open>m\<close>: mapping, flushing and
  invalidating succeed, and a copy out of the mapping gives the bytes that are there.
\<close>

definition memory_driver :: "Server \<Rightarrow> ServerMemory \<Rightarrow> bool" where
  "memory_driver srv m \<longleftrightarrow>
     (\<forall>log off. nr_result (native srv log (map_call m off)) = VK_SUCCESS)
   \<and> (\<forall>log off sz. nr_result (native srv log (range_call ''vkFlushMappedMemoryRanges'' m off sz)) = VK_SUCCESS)
   \<and> (\<forall>log off sz. nr_result (native srv log (range_call ''vkInvalidateMappedMemoryRanges'' m off sz)) = VK_SUCCESS)
   \<and> (\<forall>log rel sz. nr_data (native srv log (NativeCall ''memcpy_from'' [VNum (mem_handle m), VNum rel, VNum sz])) =
        bytes_at (device_memory log (mem_handle m)) (unat (fst (memory_state_of log) (mem_handle m)) + unat rel) (unat sz))"

lemma align_down_le: "align_down v a \<le> v"
  unfolding align_down_def by (rule word_and_le2)

text \<open>The mapping's start and the offset in it add up to the requested offset, without overflow.\<close>

lemma map_offset_exact: "unat (map_offset_of m offset) + unat (offset - map_offset_of m offset) = unat offset"
proof -
  have "map_offset_of m offset \<le> offset" by (simp add: map_offset_of_def align_down_le)
  then show ?thesis by (simp add: unat_sub word_le_nat_alt)
qed

lemma mapped_state:
  "memory_state_of (log @ [map_call m offset]) =
     ((fst (memory_state_of log))(mem_handle m := map_offset_of m offset), snd (memory_state_of log))"
  by (cases "memory_state_of log") (simp add: memory_state_of_append apply_call_def map_call_def)

lemma quiet_calls:
  "apply_call (range_call name m off sz) st = (if name = ''vkMapMemory'' then apply_call (range_call name m off sz) st else st)"
  "apply_call (unmap_call m) st = st"
  "apply_call (NativeCall ''memcpy_from'' args) st = st"
proof -
  have q: "apply_args ''memcpy_from'' args st = st" by (induction "''memcpy_from''" args st rule: apply_args.induct) simp_all
  then show "apply_call (NativeCall ''memcpy_from'' args) st = st" by (simp add: apply_call_def)
qed (cases st; simp add: apply_call_def range_call_def unmap_call_def)+

lemma quiet_range:
  "apply_call (range_call ''vkFlushMappedMemoryRanges'' m off sz) st = st"
  "apply_call (range_call ''vkInvalidateMappedMemoryRanges'' m off sz) st = st"
  by (subst quiet_calls(1), simp)+

text \<open>The calls of one upload store the bytes at the requested offset and touch nothing else.\<close>

lemma upload_calls:
  assumes "set rest \<subseteq> {range_call ''vkFlushMappedMemoryRanges'' m offset sz, unmap_call m}"
  shows "device_memory (log @ [map_call m offset,
      NativeCall ''memcpy_to'' [VNum (mem_handle m), VNum (offset - map_offset_of m offset), VBytes bs]] @ rest) =
    (device_memory log)(mem_handle m := write_at (device_memory log (mem_handle m)) (unat offset) bs)"
proof -
  have "fold apply_call rest st = st" for st
    using assms by (induction rest arbitrary: st) (auto simp: quiet_range quiet_calls)
  moreover have "device_memory ((log @ [map_call m offset]) @
      NativeCall ''memcpy_to'' [VNum (mem_handle m), VNum (offset - map_offset_of m offset), VBytes bs] # rest) =
    (device_memory log)(mem_handle m := write_at (device_memory log (mem_handle m)) (unat offset) bs)"
    using calculation map_offset_exact [of m offset]
    by (simp only: device_memory_def memory_state_of_append [of "log @ [map_call m offset]"] mapped_state fold_simps)
      (simp add: apply_call_def)
  ultimately show ?thesis by simp
qed

subsection \<open>The handlers on a well-formed request\<close>

text \<open>The conditions under which a transfer of \<open>n\<close> bytes is valid, on natural numbers.\<close>

lemma validate_transfer_nat:
  assumes "map_of (memory_metadata t) mid = Some m" "resolve t Devices dev = mem_owner m" "mem_owner m \<noteq> VK_NULL_HANDLE"
    "mem_property_flags m AND VK_MEMORY_PROPERTY_HOST_VISIBLE_BIT \<noteq> 0" "0 < n" "n \<le> unat kMaxMappedChunk"
    "unat offset + n \<le> unat (mem_size m)"
  shows "validate_transfer t dev mid offset (of_nat n) = Some m"
proof -
  have n: "unat (of_nat n :: u64) = n" using assms(6) by (simp add: unat_of_nat_small kMaxMappedChunk_def)
  have "offset \<le> mem_size m" using assms(7) by (simp add: word_le_nat_alt)
  then have "unat (mem_size m - offset) = unat (mem_size m) - unat offset" by (simp add: unat_sub)
  with n assms have "of_nat n \<le> mem_size m - offset" "(of_nat n :: u64) \<le> kMaxMappedChunk" "(of_nat n :: u64) \<noteq> 0"
    by (simp_all add: word_le_nat_alt) (metis n unat_0 less_numeral_extra(3))
  with assms \<open>offset \<le> mem_size m\<close> show ?thesis by (simp add: validate_transfer_def not_less)
qed

lemmas request_simps = flush_request_def transfer_request_def wire_simps

lemma chunk_small: "n \<le> unat client_kMaxMappedChunk \<Longrightarrow> n \<le> unat kMaxMappedChunk \<and> n < 2 ^ 32"
  by (simp add: client_kMaxMappedChunk_def kMaxMappedChunk_def)

definition ok_body :: bytes where
  "ok_body = le_bytes 4 (status_code Ok) @ le_bytes 4 VK_SUCCESS"

lemma flush_exec:
  assumes "reader s = Reader_init (flush_request dev mid offset data)" "\<not> replied s" "writer s = []"
    and v: "validate_transfer (s_tables s) dev mid offset (of_nat (length data)) = Some m"
    and small: "length data \<le> unat client_kMaxMappedChunk" and drv: "memory_driver srv m"
  shows "s_tables (exec (handle_FlushMappedMemory srv) s) = s_tables s"
    "close_connection (exec (handle_FlushMappedMemory srv) s) = close_connection s"
    "sent (exec (handle_FlushMappedMemory srv) s) = sent s @ (if s_request_id s = 0 then [] else [(s_opcode s, ok_body, s_request_id s)])"
    "device_memory (native_log (exec (handle_FlushMappedMemory srv) s)) =
       (device_memory (native_log s))(mem_handle m := write_at (device_memory (native_log s) (mem_handle m)) (unat offset) data)"
proof -
  have len: "length data \<le> unat kMaxMappedChunk" "length data < 2 ^ 32" using chunk_small [OF small] by simp_all
  have n: "unat (of_nat (length data) :: u64) = length data" using len(2) by (simp add: unat_of_nat_small)
  have r: "reader s = Reader_at [] (flush_request dev mid offset data)" using assms(1) by (simp add: reader_simps)
  let ?rest = "(if is_coherent m then [] else [range_call ''vkFlushMappedMemoryRanges'' m offset (of_nat (length data))]) @ [unmap_call m]"
  have e: "exec (handle_FlushMappedMemory srv) s = s\<lparr>reader := Reader_at (flush_request dev mid offset data) [],
      writer := ok_body, replied := True,
      sent := sent s @ (if s_request_id s = 0 then [] else [(s_opcode s, ok_body, s_request_id s)]),
      native_log := native_log s @ [map_call m offset,
        NativeCall ''memcpy_to'' [VNum (mem_handle m), VNum (offset - map_offset_of m offset), VBytes data]] @ ?rest\<rparr>"
    using r assms(2,3) v len drv n
    by (cases "is_coherent m")
      (simp_all add: handle_FlushMappedMemory_def map_transfer_upload_def request_simps reader_simps run_simps memory_driver_def ok_body_def)
  show "s_tables (exec (handle_FlushMappedMemory srv) s) = s_tables s"
    "close_connection (exec (handle_FlushMappedMemory srv) s) = close_connection s"
    "sent (exec (handle_FlushMappedMemory srv) s) = sent s @ (if s_request_id s = 0 then [] else [(s_opcode s, ok_body, s_request_id s)])"
    by (simp_all add: e)
  have "set ?rest \<subseteq> {range_call ''vkFlushMappedMemoryRanges'' m offset (of_nat (length data)), unmap_call m}" by simp
  from upload_calls [OF this, of "native_log s" data]
  show "device_memory (native_log (exec (handle_FlushMappedMemory srv) s)) =
       (device_memory (native_log s))(mem_handle m := write_at (device_memory (native_log s) (mem_handle m)) (unat offset) data)"
    by (simp add: e)
qed

lemma download_exec:
  assumes "reader s = Reader_init (transfer_request dev mid offset chunk)" "\<not> replied s" "writer s = []"
    and v: "validate_transfer (s_tables s) dev mid offset chunk = Some m"
    and drv: "memory_driver srv m"
  shows "s_tables (exec (handle_DownloadMappedMemory srv) s) = s_tables s"
    "close_connection (exec (handle_DownloadMappedMemory srv) s) = close_connection s"
    "sent (exec (handle_DownloadMappedMemory srv) s) = sent s @ (if s_request_id s = 0 then []
       else [(s_opcode s, ok_body @ blob (bytes_at (device_memory (native_log s) (mem_handle m)) (unat offset) (unat chunk)), s_request_id s)])"
    "device_memory (native_log (exec (handle_DownloadMappedMemory srv) s)) = device_memory (native_log s)"
proof -
  have r: "reader s = Reader_at [] (transfer_request dev mid offset chunk)" using assms(1) by (simp add: reader_simps)
  let ?inv = "if is_coherent m then [] else [range_call ''vkInvalidateMappedMemoryRanges'' m offset chunk]"
  let ?cp = "NativeCall ''memcpy_from'' [VNum (mem_handle m), VNum (offset - map_offset_of m offset), VNum chunk]"
  let ?data = "bytes_at (device_memory (native_log s) (mem_handle m)) (unat offset) (unat chunk)"
  have inv: "fold apply_call ?inv st = st" for st by (simp add: quiet_range)
  have data: "nr_data (native srv (native_log s @ map_call m offset # ?inv) ?cp) = ?data"
  proof -
    have "memory_state_of (native_log s @ map_call m offset # ?inv) = memory_state_of (native_log s @ [map_call m offset])"
      using inv memory_state_of_append [of "native_log s @ [map_call m offset]" ?inv] by simp
    then show ?thesis using drv map_offset_exact [of m offset]
      by (simp add: memory_driver_def mapped_state device_memory_def)
  qed
  have fill: "fill_buffer (unat chunk) ?data = ?data" by (simp add: fill_buffer_def)
  have e: "exec (handle_DownloadMappedMemory srv) s = s\<lparr>reader := Reader_at (transfer_request dev mid offset chunk) [],
      writer := ok_body @ blob ?data, replied := True,
      sent := sent s @ (if s_request_id s = 0 then [] else [(s_opcode s, ok_body @ blob ?data, s_request_id s)]),
      native_log := native_log s @ map_call m offset # ?inv @ [?cp, unmap_call m]\<rparr>"
    using r assms(2,3) v drv data fill
    by (cases "is_coherent m")
      (simp_all add: handle_DownloadMappedMemory_def map_transfer_download_def request_simps reader_simps run_simps memory_driver_def ok_body_def)
  show "s_tables (exec (handle_DownloadMappedMemory srv) s) = s_tables s"
    "close_connection (exec (handle_DownloadMappedMemory srv) s) = close_connection s"
    "sent (exec (handle_DownloadMappedMemory srv) s) = sent s @ (if s_request_id s = 0 then []
       else [(s_opcode s, ok_body @ blob ?data, s_request_id s)])"
    by (simp_all add: e)
  have "memory_state_of (native_log s @ map_call m offset # ?inv @ [?cp, unmap_call m]) = memory_state_of (native_log s @ [map_call m offset])"
    using inv memory_state_of_append [of "native_log s @ [map_call m offset]" "?inv @ [?cp, unmap_call m]"] by (simp add: quiet_calls)
  then show "device_memory (native_log (exec (handle_DownloadMappedMemory srv) s)) = device_memory (native_log s)"
    by (simp add: e device_memory_def mapped_state)
qed

subsection \<open>A round trip\<close>

text \<open>
  One thread's \<open>round_trip\<close> with nothing else going on: register, send, serve, receive, match,
  complete, return. A request that gets no reply does not return; \<open>None\<close> stands for that too.
\<close>

definition link_rt :: "Server \<Rightarrow> (u32 \<Rightarrow> unit handler option) \<Rightarrow> (Connection \<times> Conn) round_trip" where
  "link_rt srv handlers op payload st = (case st of (cn, c) \<Rightarrow>
     case register_request op cn of
       None \<Rightarrow> (None, (cn, c))
     | Some (rid, cn1) \<Rightarrow>
         let c1 = serve_message srv handlers (\<lparr>opcode = op, payload_size = of_nat (length payload), request_id = rid\<rparr>, payload) c in
         case drop (length (c_sent c)) (c_sent c1) of
           [] \<Rightarrow> (None, (cn1, c1))
         | (op', body, rid') # _ \<Rightarrow>
             (case match_reply \<lparr>opcode = op', payload_size = of_nat (length body), request_id = rid'\<rparr> body cn1 of
                None \<Rightarrow> (None, (fail_all (filter (\<lambda>w. w \<in> ran (pending cn1)) [0..<length (waiters cn1)]) cn1, c1))
              | Some cn2 \<Rightarrow>
                  let cn3 = complete_waiter cn2; waiter = waiters cn3 ! length (waiters cn) in
                  (if p_ok waiter then Some (p_reply waiter) else None, (cn3, c1))))"

definition conn_idle :: "Connection \<Rightarrow> bool" where
  "conn_idle cn \<longleftrightarrow> conn_step\<^sup>*\<^sup>* Connection_init cn \<and> \<not> failed cn \<and> delivering cn = None \<and> pending cn = Map.empty"

text \<open>An idle connection takes a request, its reply, and is idle again.\<close>

lemma conn_round_trip:
  assumes "conn_idle cn"
  obtains rid cn1 where "register_request op cn = Some (rid, cn1)" "rid \<noteq> 0"
    "\<And>n body. \<exists>cn2. match_reply \<lparr>opcode = op, payload_size = n, request_id = rid\<rparr> body cn1 = Some cn2
        \<and> conn_idle (complete_waiter cn2)
        \<and> waiters (complete_waiter cn2) ! length (waiters cn) =
            \<lparr>p_opcode = op, p_reply = body, p_done = True, p_ok = reply_status_ok body\<rparr>"
proof -
  from assms have cn: "conn_step\<^sup>*\<^sup>* Connection_init cn" "\<not> failed cn" "delivering cn = None" "pending cn = Map.empty"
    by (simp_all add: conn_idle_def)
  have inv: "conn_inv cn" using conn.reachable_inv [OF refl cn(1)] .
  then have wf: "ids_wf cn" by (simp add: conn_inv_def)
  obtain rid where al: "alloc_request_id (\<lambda>i. pending cn i \<noteq> None) (next_request_id cn) = Some (rid, rid + 1)" "rid \<noteq> 0"
    using alloc_in_use [OF wf] by blast
  let ?cn1 = "cn\<lparr>next_request_id := rid + 1, waiters := waiters cn @ [Pending_new op],
            pending := (pending cn)(rid \<mapsto> length (waiters cn)), application_pending := application_pending cn + 1\<rparr>"
  have reg: "register_request op cn = Some (rid, ?cn1)"
    using cn al by (simp add: register_request_def pending_size_def kMaxPending_def)
  have reach1: "conn_step\<^sup>*\<^sup>* Connection_init ?cn1" using cn(1) conn_step.register [OF reg] by (rule rtranclp.rtrancl_into_rtrancl)
  have hb: "heartbeat_id cn = 0" using wf cn(4) by (auto simp: ids_wf_def)
  have unsent: "unsent_ids cn = []"
  proof (rule ccontr)
    assume "unsent_ids cn \<noteq> []"
    then obtain i w us where "unsent_ids cn = (i, w) # us" by (cases "unsent_ids cn") auto
    then show False using inv cn(2,4) by (auto simp: conn_inv_def unsent_wf_def)
  qed
  have "\<exists>cn2. match_reply \<lparr>opcode = op, payload_size = n, request_id = rid\<rparr> body ?cn1 = Some cn2
        \<and> conn_idle (complete_waiter cn2)
        \<and> waiters (complete_waiter cn2) ! length (waiters cn) =
            \<lparr>p_opcode = op, p_reply = body, p_done = True, p_ok = reply_status_ok body\<rparr>" for n body
  proof -
    let ?cn2 = "(dec_application_pending ?cn1)\<lparr>pending := Map.empty, delivering := Some (length (waiters cn), body)\<rparr>"
    have m: "match_reply \<lparr>opcode = op, payload_size = n, request_id = rid\<rparr> body ?cn1 = Some ?cn2"
      using al(2) hb cn(4) by (simp add: match_reply_def Pending_new_def)
    have "conn_step ?cn1 ?cn2" by (rule conn_step.matching [OF _ m]) (simp_all add: cn(3) unsent)
    then have "conn_step\<^sup>*\<^sup>* Connection_init ?cn2" using reach1 by (rule rtranclp.rtrancl_into_rtrancl [rotated])
    then have "conn_step\<^sup>*\<^sup>* Connection_init (complete_waiter ?cn2)"
      by (rule rtranclp.rtrancl_into_rtrancl) (simp add: conn_step.complete)
    then have "conn_idle (complete_waiter ?cn2)" using cn by (simp add: conn_idle_def complete_waiter_def)
    moreover have "waiters (complete_waiter ?cn2) ! length (waiters cn) =
            \<lparr>p_opcode = op, p_reply = body, p_done = True, p_ok = reply_status_ok body\<rparr>"
      by (simp add: complete_waiter_def Pending_new_def)
    ultimately show ?thesis using m by blast
  qed
  with reg al(2) that show thesis by blast
qed

lemma reply_ok_body: "reply_status_ok (ok_body @ rest)"
  by (simp add: reply_status_ok_def ok_body_def of_le_bytes_le_bytes)

text \<open>If the serve loop answers a request with one reply whose status is Ok, the round trip returns it.\<close>

lemma link_rt_reply:
  assumes "conn_idle cn"
    and served: "\<And>rid. rid \<noteq> 0 \<Longrightarrow> \<exists>c1. serve_message srv handlers
        (\<lparr>opcode = op, payload_size = of_nat (length payload), request_id = rid\<rparr>, payload) c = c1
      \<and> c_sent c1 = c_sent c @ [(op, ok_body @ rest, rid)] \<and> P c1"
  shows "\<exists>cn' c1. link_rt srv handlers op payload (cn, c) = (Some (ok_body @ rest), (cn', c1)) \<and> conn_idle cn' \<and> P c1"
proof -
  obtain rid cn1 where r: "register_request op cn = Some (rid, cn1)" "rid \<noteq> 0"
    and reply: "\<And>n body. \<exists>cn2. match_reply \<lparr>opcode = op, payload_size = n, request_id = rid\<rparr> body cn1 = Some cn2
        \<and> conn_idle (complete_waiter cn2)
        \<and> waiters (complete_waiter cn2) ! length (waiters cn) =
            \<lparr>p_opcode = op, p_reply = body, p_done = True, p_ok = reply_status_ok body\<rparr>"
    using conn_round_trip [OF assms(1)] by blast
  from served [OF r(2)] obtain c1 where c1: "serve_message srv handlers
        (\<lparr>opcode = op, payload_size = of_nat (length payload), request_id = rid\<rparr>, payload) c = c1"
      "c_sent c1 = c_sent c @ [(op, ok_body @ rest, rid)]" "P c1" by blast
  obtain cn2 where cn2: "match_reply \<lparr>opcode = op, payload_size = of_nat (length (ok_body @ rest)), request_id = rid\<rparr> (ok_body @ rest) cn1 = Some cn2"
      "conn_idle (complete_waiter cn2)"
      "waiters (complete_waiter cn2) ! length (waiters cn) =
         \<lparr>p_opcode = op, p_reply = ok_body @ rest, p_done = True, p_ok = reply_status_ok (ok_body @ rest)\<rparr>"
    using reply by blast
  show ?thesis using r(1) c1 cn2 reply_ok_body [of rest] by (simp add: link_rt_def Let_def del: length_append)
qed

subsection \<open>The server provides the link\<close>

definition wait_opcodes :: "Server \<Rightarrow> u32 set" where
  "wait_opcodes srv = {op_vkQueueWaitIdle srv, op_vkDeviceWaitIdle srv, op_vkWaitForFences srv, op_vkWaitSemaphores srv}"

text \<open>
  The allocation \<open>m\<close> is registered as \<open>mid\<close> on a connected session, is host visible and
  owned by the live device \<open>dev\<close>, and the two transfer opcodes reach their handlers.
\<close>

definition memory_ready :: "Server \<Rightarrow> (u32 \<Rightarrow> unit handler option) \<Rightarrow> u64 \<Rightarrow> u64 \<Rightarrow> ServerMemory \<Rightarrow> Conn \<Rightarrow> bool" where
  "memory_ready srv handlers dev mid m c \<longleftrightarrow>
     c_handshake_complete c \<and> handlers kOpFlushMappedMemory = Some (handle_FlushMappedMemory srv)
   \<and> handlers kOpDownloadMappedMemory = Some (handle_DownloadMappedMemory srv)
   \<and> kOpFlushMappedMemory \<notin> wait_opcodes srv \<and> kOpDownloadMappedMemory \<notin> wait_opcodes srv
   \<and> map_of (memory_metadata (c_tables c)) mid = Some m \<and> resolve (c_tables c) Devices dev = mem_owner m
   \<and> mem_owner m \<noteq> VK_NULL_HANDLE \<and> mem_property_flags m AND VK_MEMORY_PROPERTY_HOST_VISIBLE_BIT \<noteq> 0
   \<and> memory_driver srv m"

lemma serve_dispatched:
  assumes "c_handshake_complete c" "handlers op = Some h" "op \<notin> wait_opcodes srv" "op \<noteq> kOpHandshake" "op \<noteq> kOpPing"
    and "\<not> close_connection (exec h (open_session \<lparr>opcode = op, payload_size = n, request_id = rid\<rparr> payload c))"
  shows "serve_message srv handlers (\<lparr>opcode = op, payload_size = n, request_id = rid\<rparr>, payload) c =
    close_session (exec h (open_session \<lparr>opcode = op, payload_size = n, request_id = rid\<rparr> payload c)) c"
  using assms by (simp add: serve_message_def serve_dispatch_def run_handler_def wait_opcodes_def Let_def)

lemma served_flush:
  assumes ready: "memory_ready srv handlers dev mid m c" and "data \<noteq> []" "length data \<le> unat client_kMaxMappedChunk"
    and "unat offset + length data \<le> unat (mem_size m)" and "rid \<noteq> 0"
  shows "\<exists>c1. serve_message srv handlers (\<lparr>opcode = kOpFlushMappedMemory,
        payload_size = of_nat (length (flush_request dev mid offset data)), request_id = rid\<rparr>, flush_request dev mid offset data) c = c1
      \<and> c_sent c1 = c_sent c @ [(kOpFlushMappedMemory, ok_body @ [], rid)]
      \<and> (memory_ready srv handlers dev mid m c1 \<and> device_memory (c_log c1) (mem_handle m) =
           write_at (device_memory (c_log c) (mem_handle m)) (unat offset) data)"
proof -
  let ?h = "\<lparr>opcode = kOpFlushMappedMemory, payload_size = of_nat (length (flush_request dev mid offset data)), request_id = rid\<rparr>"
  let ?s = "open_session ?h (flush_request dev mid offset data) c"
  have v: "validate_transfer (s_tables ?s) dev mid offset (of_nat (length data)) = Some m"
    using ready assms(2-4) chunk_small [OF assms(3)]
    by (intro validate_transfer_nat) (simp_all add: memory_ready_def open_session_def)
  have s: "reader ?s = Reader_init (flush_request dev mid offset data)" "\<not> replied ?s" "writer ?s = []" "\<not> close_connection ?s"
    by (simp_all add: open_session_def)
  have drv: "memory_driver srv m" using ready by (simp add: memory_ready_def)
  note e = flush_exec [OF s(1-3) v assms(3) drv]
  have "serve_message srv handlers (?h, flush_request dev mid offset data) c = close_session (exec (handle_FlushMappedMemory srv) ?s) c"
    using ready e(2) s(4)
    by (intro serve_dispatched) (simp_all add: memory_ready_def kOpFlushMappedMemory_def kOpHandshake_def kOpPing_def)
  then show ?thesis using e ready assms(5)
    by (simp add: close_session_def open_session_def memory_ready_def)
qed

lemma served_download:
  assumes ready: "memory_ready srv handlers dev mid m c" and "0 < chunk" "chunk \<le> client_kMaxMappedChunk"
    and "unat offset + unat chunk \<le> unat (mem_size m)" and "rid \<noteq> 0"
  shows "\<exists>c1. serve_message srv handlers (\<lparr>opcode = kOpDownloadMappedMemory,
        payload_size = of_nat (length (transfer_request dev mid offset chunk)), request_id = rid\<rparr>, transfer_request dev mid offset chunk) c = c1
      \<and> c_sent c1 = c_sent c @ [(kOpDownloadMappedMemory,
           ok_body @ blob (bytes_at (device_memory (c_log c) (mem_handle m)) (unat offset) (unat chunk)), rid)]
      \<and> (memory_ready srv handlers dev mid m c1 \<and> device_memory (c_log c1) (mem_handle m) = device_memory (c_log c) (mem_handle m))"
proof -
  let ?h = "\<lparr>opcode = kOpDownloadMappedMemory, payload_size = of_nat (length (transfer_request dev mid offset chunk)), request_id = rid\<rparr>"
  let ?s = "open_session ?h (transfer_request dev mid offset chunk) c"
  have "unat chunk \<le> unat kMaxMappedChunk" "0 < unat chunk"
    using assms(2,3) by (simp_all add: word_le_nat_alt word_less_nat_alt kMaxMappedChunk_def client_kMaxMappedChunk_def)
  then have v: "validate_transfer (s_tables ?s) dev mid offset chunk = Some m"
    using ready assms(4) validate_transfer_nat [of "s_tables ?s" mid m dev "unat chunk" offset]
    by (simp add: memory_ready_def open_session_def)
  have s: "reader ?s = Reader_init (transfer_request dev mid offset chunk)" "\<not> replied ?s" "writer ?s = []" "\<not> close_connection ?s"
    by (simp_all add: open_session_def)
  have drv: "memory_driver srv m" using ready by (simp add: memory_ready_def)
  note e = download_exec [OF s(1-3) v drv]
  have "serve_message srv handlers (?h, transfer_request dev mid offset chunk) c = close_session (exec (handle_DownloadMappedMemory srv) ?s) c"
    using ready e(2) s(4)
    by (intro serve_dispatched) (simp_all add: memory_ready_def kOpDownloadMappedMemory_def kOpHandshake_def kOpPing_def)
  then show ?thesis using e ready assms(5)
    by (simp add: close_session_def open_session_def memory_ready_def)
qed

definition link_good :: "Server \<Rightarrow> (u32 \<Rightarrow> unit handler option) \<Rightarrow> u64 \<Rightarrow> u64 \<Rightarrow> ServerMemory \<Rightarrow> Connection \<times> Conn \<Rightarrow> bool" where
  "link_good srv handlers dev mid m st \<longleftrightarrow> conn_idle (fst st) \<and> memory_ready srv handlers dev mid m (snd st)"

interpretation server_link: memory_link "link_rt srv handlers" "link_good srv handlers dev mid m"
    "\<lambda>st. device_memory (c_log (snd st)) (mem_handle m)" dev mid "unat (mem_size m)"
proof
  fix w :: "Connection \<times> Conn" and data :: bytes and offset :: u64
  assume good: "link_good srv handlers dev mid m w"
  obtain cn c where w: "w = (cn, c)" by fastforce
  from good w have idle: "conn_idle cn" and ready: "memory_ready srv handlers dev mid m c" by (simp_all add: link_good_def)
  assume "data \<noteq> []" "length data \<le> unat client_kMaxMappedChunk" "unat offset + length data \<le> unat (mem_size m)"
  from link_rt_reply [OF idle served_flush [OF ready this]] w
  show "\<exists>w'. link_rt srv handlers kOpFlushMappedMemory (flush_request dev mid offset data) w =
             (Some (le_bytes 4 (status_code Ok) @ le_bytes 4 VK_SUCCESS), w')
        \<and> link_good srv handlers dev mid m w' \<and> device_memory (c_log (snd w')) (mem_handle m) =
            write_at (device_memory (c_log (snd w)) (mem_handle m)) (unat offset) data"
    by (fastforce simp: link_good_def ok_body_def)
next
  fix w :: "Connection \<times> Conn" and chunk offset :: u64
  assume good: "link_good srv handlers dev mid m w"
  obtain cn c where w: "w = (cn, c)" by fastforce
  from good w have idle: "conn_idle cn" and ready: "memory_ready srv handlers dev mid m c" by (simp_all add: link_good_def)
  assume "0 < chunk" "chunk \<le> client_kMaxMappedChunk" "unat offset + unat chunk \<le> unat (mem_size m)"
  from link_rt_reply [OF idle served_download [OF ready this]] w
  show "\<exists>w'. link_rt srv handlers kOpDownloadMappedMemory (transfer_request dev mid offset chunk) w =
             (Some (le_bytes 4 (status_code Ok) @ le_bytes 4 VK_SUCCESS
                @ blob (bytes_at (device_memory (c_log (snd w)) (mem_handle m)) (unat offset) (unat chunk))), w')
        \<and> link_good srv handlers dev mid m w' \<and> device_memory (c_log (snd w')) (mem_handle m) = device_memory (c_log (snd w)) (mem_handle m)"
    by (fastforce simp: link_good_def ok_body_def)
next
  show "unat (mem_size m) < 2 ^ 64" by (rule unat_less_64)
qed

end
