(* ===== verification/ClientEntry.thy ===== *)
theory ClientEntry
  imports ClientCoherent
begin

section \<open>The memory entry points (client/memory.cpp)\<close>

text \<open>
  The Vulkan entry points that allocate, map, flush, invalidate, unmap, bind and free memory on the
  client. Opcodes are generated, so \<open>opc\<close> gives the number of a command; a one-way send is the
  argument \<open>ow\<close>. The heap is an argument too: the address \<open>malloc\<close> returned or its
  failure, the garbage the new shadow holds, and whether the baseline's allocation succeeded.
  Required pointers are taken as valid: the entry points refuse a null one before anything else.
\<close>

type_synonym 'w oneway = "u32 \<Rightarrow> bytes \<Rightarrow> 'w \<Rightarrow> 'w"

definition VK_ERROR_OUT_OF_HOST_MEMORY :: u32 where "VK_ERROR_OUT_OF_HOST_MEMORY = - 1"
definition VK_ERROR_OUT_OF_DEVICE_MEMORY :: u32 where "VK_ERROR_OUT_OF_DEVICE_MEMORY = - 2"
definition VK_ERROR_INITIALIZATION_FAILED :: u32 where "VK_ERROR_INITIALIZATION_FAILED = - 3"
definition VK_ERROR_MEMORY_MAP_FAILED :: u32 where "VK_ERROR_MEMORY_MAP_FAILED = - 5"

definition payload_reader :: "bytes \<Rightarrow> Reader" where
  "payload_reader rep = snd (r_u32 (Reader_init rep))"

definition resolve_allocation_range :: "u64 \<Rightarrow> u64 \<Rightarrow> u64 \<Rightarrow> u64 option" where
  "resolve_allocation_range allocation_size offset requested =
     (if offset \<ge> allocation_size then None
      else let available = allocation_size - offset in
        if requested = VK_WHOLE_SIZE then Some available
        else if requested = 0 \<or> requested > available then None else Some requested)"

definition explicit_range_ok :: "RemoteDevice \<Rightarrow> memory_range \<Rightarrow> bool" where
  "explicit_range_ok d req = (case req of (memory, offset, req_size) \<Rightarrow>
     case map_of (memories d) memory of None \<Rightarrow> False
     | Some allocation \<Rightarrow>
         case resolve_allocation_range (ma_size allocation) offset req_size of None \<Rightarrow> False
         | Some sz \<Rightarrow>
             ma_emulated_coherent allocation \<or>
             (let atom = ma_non_coherent_atom_size allocation in
              \<not> (atom = 0 \<or> offset mod atom \<noteq> 0) \<and> \<not> (offset + sz \<noteq> ma_size allocation \<and> sz mod atom \<noteq> 0)))"

definition validate_explicit_ranges :: "RemoteDevice \<Rightarrow> memory_range list \<Rightarrow> bool" where
  "validate_explicit_ranges d ranges = list_all (explicit_range_ok d) ranges"

subsection \<open>Allocation\<close>

text \<open>\<open>encoded\<close> is what \<open>write_MemoryAllocateInfo\<close> appends.\<close>

definition AllocateMemory :: "'w round_trip \<Rightarrow> (string \<Rightarrow> u32) \<Rightarrow> RemoteDevice \<Rightarrow> bytes \<Rightarrow> u64 \<Rightarrow> u32 \<Rightarrow> 'w
    \<Rightarrow> (u32 \<times> u64 option \<times> RemoteDevice) \<times> 'w" where
  "AllocateMemory rt opc d encoded allocationSize memoryTypeIndex w =
     (case rt (opc ''vkAllocateMemory'') (w_handle [] (remote_id d) @ encoded) w of
        (None, w1) \<Rightarrow> ((VK_ERROR_OUT_OF_DEVICE_MEMORY, None, d), w1)
      | (Some rep, w1) \<Rightarrow>
          (let (result, r1) = r_i32 (payload_reader rep); (mem_id, r2) = r_handle r1; (raw_flags, r3) = r_u32 r2;
               server_flags = public_memory_property_flags raw_flags (instance_capabilities d);
               (server_alignment, r4) = r_u64 r3; (atom_size, r5) = r_u64 r4
           in if \<not> r_ok r5 \<or> atom_size = 0 then ((VK_ERROR_OUT_OF_DEVICE_MEMORY, None, d), w1)
              else if result = VK_SUCCESS then
                ((result, Some mem_id, d\<lparr>memories := AList.update mem_id
                     \<lparr>ma_size = allocationSize, ma_memory_type_index = memoryTypeIndex, ma_property_flags = server_flags,
                      ma_non_coherent_atom_size = atom_size,
                      ma_emulated_coherent = (server_flags AND VK_MEMORY_PROPERTY_HOST_COHERENT_BIT \<noteq> 0)\<rparr> (memories d),
                   map_alignment := (if server_alignment \<noteq> 0 then server_alignment else map_alignment d)\<rparr>), w1)
              else ((result, None, d), w1)))"

text \<open>The loop that frees and erases the first mapping of an allocation.\<close>

fun erase_mapping :: "u64 \<Rightarrow> MappedRange list \<Rightarrow> MappedRange list" where
  "erase_mapping i [] = []"
| "erase_mapping i (m # ms) = (if mr_memory_id m = i then ms else m # erase_mapping i ms)"

definition FreeMemory :: "'w oneway \<Rightarrow> (string \<Rightarrow> u32) \<Rightarrow> RemoteDevice \<Rightarrow> u64 \<Rightarrow> 'w \<Rightarrow> RemoteDevice \<times> 'w" where
  "FreeMemory ow opc d memory w =
     (if memory = VK_NULL_HANDLE then (d, w)
      else (d\<lparr>mapped := erase_mapping memory (mapped d), memories := AList.delete memory (memories d)\<rparr>,
            ow (opc ''vkFreeMemory'') (w_handle (w_handle [] (remote_id d)) memory) w))"

subsection \<open>Mapping\<close>

definition map_alignment_of :: "RemoteDevice \<Rightarrow> u64" where
  "map_alignment_of d = (if map_alignment d > 8 then map_alignment d else 8)"

text \<open>Where in the allocation the shadow starts: congruent to the mapped offset.\<close>

definition shadow_adjustment :: "u64 \<Rightarrow> u64 \<Rightarrow> u64 \<Rightarrow> u64" where
  "shadow_adjustment alignment offset address = ((offset AND (alignment - 1)) - address) AND (alignment - 1)"

fun update_mapping :: "u64 \<Rightarrow> (MappedRange \<Rightarrow> MappedRange) \<Rightarrow> MappedRange list \<Rightarrow> MappedRange list" where
  "update_mapping i f [] = []"
| "update_mapping i f (m # ms) = (if mr_memory_id m = i then f m # ms else m # update_mapping i f ms)"

definition map_admitted :: "RemoteDevice \<Rightarrow> u64 \<Rightarrow> u64 \<Rightarrow> u64 \<Rightarrow> (u64 \<times> bool) option" where
  "map_admitted d memory offset req_size =
     (case map_of (memories d) memory of None \<Rightarrow> None
      | Some allocation \<Rightarrow>
          if ma_property_flags allocation AND VK_MEMORY_PROPERTY_HOST_VISIBLE_BIT = 0 then None
          else case resolve_allocation_range (ma_size allocation) offset req_size of None \<Rightarrow> None
            | Some real_size \<Rightarrow>
                if list_ex (\<lambda>m. mr_memory_id m = memory) (mapped d) then None
                else Some (real_size, ma_emulated_coherent allocation))"

definition MapMemory :: "'w round_trip \<Rightarrow> u64 option \<Rightarrow> bytes \<Rightarrow> bool \<Rightarrow> RemoteDevice \<Rightarrow> u64 \<Rightarrow> u64 \<Rightarrow> u64 \<Rightarrow> 'w
    \<Rightarrow> (u32 \<times> u64 option \<times> RemoteDevice) \<times> 'w" where
  "MapMemory rt malloc garbage baseline_allocated d memory offset req_size w =
     (if memory = VK_NULL_HANDLE then ((VK_ERROR_MEMORY_MAP_FAILED, None, d), w)
      else case map_admitted d memory offset req_size of
        None \<Rightarrow> ((VK_ERROR_MEMORY_MAP_FAILED, None, d), w)
      | Some (real_size, emulated_coherent) \<Rightarrow>
          let alignment = map_alignment_of d in
          if real_size > - 1 - (alignment - 1) then ((VK_ERROR_OUT_OF_HOST_MEMORY, None, d), w)
          else case malloc of
            None \<Rightarrow> ((VK_ERROR_OUT_OF_HOST_MEMORY, None, d), w)
          | Some address \<Rightarrow>
              let shadow = address + shadow_adjustment alignment offset address;
                  mapping = \<lparr>mr_memory_id = memory, mr_offset = offset, mr_size = real_size,
                    mr_shadow = fill_buffer (unat real_size) garbage, mr_emulated_coherent = emulated_coherent,
                    mr_transfer_ready = (\<not> emulated_coherent),
                    mr_baseline = (if emulated_coherent then replicate (unat real_size) 0 else [])\<rparr>
              in if emulated_coherent \<and> \<not> baseline_allocated then ((VK_ERROR_OUT_OF_HOST_MEMORY, None, d), w)
                 else let d1 = d\<lparr>mapped := mapped d @ [mapping]\<rparr> in
                 if \<not> emulated_coherent then ((VK_SUCCESS, Some shadow, d1), w)
                 else case download_mapped rt d1 [(memory, offset, real_size)] w of
                   ((result, d2), w1) \<Rightarrow>
                     if result \<noteq> VK_SUCCESS
                     then ((VK_ERROR_MEMORY_MAP_FAILED, None, d2\<lparr>mapped := erase_mapping memory (mapped d2)\<rparr>), w1)
                     else ((VK_SUCCESS, Some shadow,
                       d2\<lparr>mapped := update_mapping memory (\<lambda>m. m\<lparr>mr_baseline := mr_shadow m, mr_transfer_ready := True\<rparr>) (mapped d2)\<rparr>), w1))"

definition UnmapMemory :: "'w round_trip \<Rightarrow> RemoteDevice \<Rightarrow> u64 \<Rightarrow> 'w \<Rightarrow> RemoteDevice \<times> 'w" where
  "UnmapMemory rt d memory w =
     (let w1 = (case find (\<lambda>m. mr_memory_id m = memory \<and> mr_emulated_coherent m) (mapped d) of
                  None \<Rightarrow> w
                | Some m \<Rightarrow> if memory = VK_NULL_HANDLE then w
                           else snd (flush_mapped rt d [(memory, mr_offset m, mr_size m)] w))
      in (d\<lparr>mapped := erase_mapping memory (mapped d)\<rparr>, w1))"

definition FlushMappedMemoryRanges :: "'w round_trip \<Rightarrow> RemoteDevice \<Rightarrow> memory_range list \<Rightarrow> 'w \<Rightarrow> u32 \<times> 'w" where
  "FlushMappedMemoryRanges rt d ranges w =
     (if \<not> validate_explicit_ranges d ranges then (VK_ERROR_MEMORY_MAP_FAILED, w) else flush_mapped rt d ranges w)"

definition InvalidateMappedMemoryRanges :: "'w round_trip \<Rightarrow> RemoteDevice \<Rightarrow> memory_range list \<Rightarrow> 'w \<Rightarrow> (u32 \<times> RemoteDevice) \<times> 'w" where
  "InvalidateMappedMemoryRanges rt d ranges w =
     (if \<not> validate_explicit_ranges d ranges then ((VK_ERROR_MEMORY_MAP_FAILED, d), w) else download_mapped rt d ranges w)"

subsection \<open>Binding\<close>

definition read_bind_reply :: "bytes \<Rightarrow> u32" where
  "read_bind_reply rep = (let (result, r) = r_i32 (payload_reader rep) in if r_ok r then result else VK_ERROR_DEVICE_LOST)"

definition bind_succeeded :: "bytes \<Rightarrow> bool" where
  "bind_succeeded rep = (let (result, r) = r_i32 (payload_reader rep) in r_ok r \<and> result = VK_SUCCESS)"

definition bind_request :: "RemoteDevice \<Rightarrow> u64 \<Rightarrow> u64 \<Rightarrow> u64 \<Rightarrow> bytes" where
  "bind_request d obj memory offset = w_u64 (w_handle (w_handle (w_handle [] (remote_id d)) obj) memory) offset"

definition BindBufferMemory :: "'w round_trip \<Rightarrow> (string \<Rightarrow> u32) \<Rightarrow> RemoteDevice \<Rightarrow> u64 \<Rightarrow> u64 \<Rightarrow> u64 \<Rightarrow> 'w \<Rightarrow> (u32 \<times> RemoteDevice) \<times> 'w" where
  "BindBufferMemory rt opc d buffer memory offset w =
     (case rt (opc ''vkBindBufferMemory'') (bind_request d buffer memory offset) w of
        (None, w1) \<Rightarrow> ((VK_ERROR_DEVICE_LOST, d), w1)
      | (Some rep, w1) \<Rightarrow>
          ((read_bind_reply rep, if bind_succeeded rep
              then d\<lparr>buffer_bindings := AList.update buffer (memory, offset) (buffer_bindings d)\<rparr> else d), w1))"

definition BindImageMemory :: "'w round_trip \<Rightarrow> (string \<Rightarrow> u32) \<Rightarrow> RemoteDevice \<Rightarrow> u64 \<Rightarrow> u64 \<Rightarrow> u64 \<Rightarrow> 'w \<Rightarrow> (u32 \<times> RemoteDevice) \<times> 'w" where
  "BindImageMemory rt opc d img memory offset w =
     (case rt (opc ''vkBindImageMemory'') (bind_request d img memory offset) w of
        (None, w1) \<Rightarrow> ((VK_ERROR_DEVICE_LOST, d), w1)
      | (Some rep, w1) \<Rightarrow>
          ((read_bind_reply rep, if bind_succeeded rep
              then d\<lparr>image_bindings := AList.update img (memory, offset) (image_bindings d)\<rparr> else d), w1))"

definition read_memory_requirements :: "Reader \<Rightarrow> (u64 \<times> u64 \<times> u32) \<times> Reader" where
  "read_memory_requirements r =
     (let (sz, r1) = r_u64 r; (alignment, r2) = r_u64 r1; (memoryTypeBits, r3) = r_u32 r2 in ((sz, alignment, memoryTypeBits), r3))"

text \<open>\<open>GetBufferMemoryRequirements\<close> and its image twin; all zero where the round trip fails.\<close>

definition GetMemoryRequirements :: "'w round_trip \<Rightarrow> u32 \<Rightarrow> RemoteDevice \<Rightarrow> u64 \<Rightarrow> 'w \<Rightarrow> (u64 \<times> u64 \<times> u32) \<times> 'w" where
  "GetMemoryRequirements rt op d obj w =
     (case rt op (w_handle (w_handle [] (remote_id d)) obj) w of
        (None, w1) \<Rightarrow> ((0, 0, 0), w1)
      | (Some rep, w1) \<Rightarrow> (fst (read_memory_requirements (payload_reader rep)), w1))"

definition GetBufferMemoryRequirements :: "'w round_trip \<Rightarrow> (string \<Rightarrow> u32) \<Rightarrow> RemoteDevice \<Rightarrow> u64 \<Rightarrow> 'w \<Rightarrow> (u64 \<times> u64 \<times> u32) \<times> 'w" where
  "GetBufferMemoryRequirements rt opc = GetMemoryRequirements rt (opc ''vkGetBufferMemoryRequirements'')"

definition GetImageMemoryRequirements :: "'w round_trip \<Rightarrow> (string \<Rightarrow> u32) \<Rightarrow> RemoteDevice \<Rightarrow> u64 \<Rightarrow> 'w \<Rightarrow> (u64 \<times> u64 \<times> u32) \<times> 'w" where
  "GetImageMemoryRequirements rt opc = GetMemoryRequirements rt (opc ''vkGetImageMemoryRequirements'')"

definition GetDeviceMemoryCommitment :: "'w round_trip \<Rightarrow> (string \<Rightarrow> u32) \<Rightarrow> RemoteDevice \<Rightarrow> u64 \<Rightarrow> 'w \<Rightarrow> u64 \<times> 'w" where
  "GetDeviceMemoryCommitment rt opc d memory w =
     (case rt (opc ''vkGetDeviceMemoryCommitment'') (w_handle (w_handle [] (remote_id d)) memory) w of
        (None, w1) \<Rightarrow> (0, w1)
      | (Some rep, w1) \<Rightarrow> (let (v, r) = r_u64 (payload_reader rep) in (if r_ok r then v else 0, w1)))"

subsection \<open>Binding in batches\<close>

definition VK_ERROR_FEATURE_NOT_PRESENT :: u32 where "VK_ERROR_FEATURE_NOT_PRESENT = - 8"
definition VK_STRUCTURE_TYPE_BIND_BUFFER_MEMORY_INFO :: u32 where "VK_STRUCTURE_TYPE_BIND_BUFFER_MEMORY_INFO = 1000157000"
definition VK_STRUCTURE_TYPE_BIND_IMAGE_MEMORY_INFO :: u32 where "VK_STRUCTURE_TYPE_BIND_IMAGE_MEMORY_INFO = 1000157001"

text \<open>\<open>VkBindBufferMemoryInfo\<close> and its image twin; the chain behind \<open>pNext\<close> is opaque here.\<close>

record BindMemoryInfo =
  bi_sType :: u32
  bi_pNext :: "vk option"
  bi_object :: u64
  bi_memory :: u64
  bi_offset :: u64

definition w_bind :: "Writer \<Rightarrow> BindMemoryInfo \<Rightarrow> Writer" where
  "w_bind w i = w_u64 (w_handle (w_handle w (bi_object i)) (bi_memory i)) (bi_offset i)"

fun w_buffer_binds :: "Writer \<Rightarrow> BindMemoryInfo list \<Rightarrow> u32 + Writer" where
  "w_buffer_binds w [] = Inr w"
| "w_buffer_binds w (i # is) =
     (if bi_sType i \<noteq> VK_STRUCTURE_TYPE_BIND_BUFFER_MEMORY_INFO \<or> bi_pNext i \<noteq> None then Inl VK_ERROR_FEATURE_NOT_PRESENT
      else w_buffer_binds (w_bind w i) is)"

text \<open>\<open>write_pnext\<close> is \<open>write_pnext_chain\<close> in the context of an image bind: what it appends, if it succeeds.\<close>

fun w_image_binds :: "(vk option \<Rightarrow> bytes option) \<Rightarrow> Writer \<Rightarrow> BindMemoryInfo list \<Rightarrow> u32 + Writer" where
  "w_image_binds write_pnext w [] = Inr w"
| "w_image_binds write_pnext w (i # is) =
     (if bi_sType i \<noteq> VK_STRUCTURE_TYPE_BIND_IMAGE_MEMORY_INFO then Inl VK_ERROR_INITIALIZATION_FAILED
      else case write_pnext (bi_pNext i) of
        None \<Rightarrow> Inl VK_ERROR_FEATURE_NOT_PRESENT
      | Some chain \<Rightarrow> w_image_binds write_pnext (w_raw (w_bind w i) chain) is)"

fun record_bindings :: "(u64 \<times> u64 \<times> u64) list \<Rightarrow> BindMemoryInfo list \<Rightarrow> (u64 \<times> u64 \<times> u64) list" where
  "record_bindings bs [] = bs"
| "record_bindings bs (i # is) = record_bindings (AList.update (bi_object i) (bi_memory i, bi_offset i) bs) is"

definition bind_header :: "RemoteDevice \<Rightarrow> BindMemoryInfo list \<Rightarrow> Writer" where
  "bind_header d infos = w_u32 (w_handle [] (remote_id d)) (of_nat (length infos))"

definition BindBufferMemory2 :: "'w round_trip \<Rightarrow> (string \<Rightarrow> u32) \<Rightarrow> RemoteDevice \<Rightarrow> BindMemoryInfo list \<Rightarrow> 'w \<Rightarrow> (u32 \<times> RemoteDevice) \<times> 'w" where
  "BindBufferMemory2 rt opc d infos w =
     (if length infos > unat kMaxArrayElements then ((VK_ERROR_INITIALIZATION_FAILED, d), w)
      else case w_buffer_binds (bind_header d infos) infos of
        Inl e \<Rightarrow> ((e, d), w)
      | Inr req \<Rightarrow>
          (case rt (opc ''vkBindBufferMemory2'') req w of
             (None, w1) \<Rightarrow> ((VK_ERROR_DEVICE_LOST, d), w1)
           | (Some rep, w1) \<Rightarrow>
               ((read_bind_reply rep, if bind_succeeded rep
                   then d\<lparr>buffer_bindings := record_bindings (buffer_bindings d) infos\<rparr> else d), w1)))"

definition BindImageMemory2 :: "'w round_trip \<Rightarrow> (string \<Rightarrow> u32) \<Rightarrow> (vk option \<Rightarrow> bytes option) \<Rightarrow> RemoteDevice \<Rightarrow> BindMemoryInfo list \<Rightarrow> 'w
    \<Rightarrow> (u32 \<times> RemoteDevice) \<times> 'w" where
  "BindImageMemory2 rt opc write_pnext d infos w =
     (if length infos > unat kMaxArrayElements then ((VK_ERROR_INITIALIZATION_FAILED, d), w)
      else case w_image_binds write_pnext (bind_header d infos) infos of
        Inl e \<Rightarrow> ((e, d), w)
      | Inr req \<Rightarrow>
          (case rt (opc ''vkBindImageMemory2'') req w of
             (None, w1) \<Rightarrow> ((VK_ERROR_DEVICE_LOST, d), w1)
           | (Some rep, w1) \<Rightarrow>
               ((read_bind_reply rep, if bind_succeeded rep
                   then d\<lparr>image_bindings := record_bindings (image_bindings d) infos\<rparr> else d), w1)))"

subsection \<open>Sparse requirements\<close>

record SparseRequirements =
  sp_words :: "u32 list"
  sp_sizes :: "u64 list"

text \<open>Aspect mask, granularity, flags and first tail level; then tail size, offset and stride.\<close>

definition read_sparse :: "Reader \<Rightarrow> SparseRequirements \<times> Reader" where
  "read_sparse r = (let (ws, r1) = r_list r_u32 6 r; (ss, r2) = r_list r_u64 3 r1 in (\<lparr>sp_words = ws, sp_sizes = ss\<rparr>, r2))"

text \<open>
  \<open>capacity\<close> is \<open>*count\<close> where an output array is given. \<open>allocates n\<close> says whether a
  vector of \<open>n\<close> values can be allocated; where not, \<open>std::bad_alloc\<close> leaves the entry point,
  which is the outcome \<open>None\<close>. The older entry point sizes its vector before it checks the count.
\<close>

definition sparse_values :: "(nat \<Rightarrow> bool) \<Rightarrow> u32 option \<Rightarrow> u32 \<Rightarrow> Reader \<Rightarrow> (u32 \<times> SparseRequirements list) option" where
  "sparse_values allocates capacity count r =
     (if \<not> allocates (unat count) then None
      else if count > kMaxArrayElements then Some (0, [])
      else let (values, r1) = r_list read_sparse (unat count) r in
        if \<not> r_ok r1 then Some (0, [])
        else case capacity of None \<Rightarrow> Some (count, [])
          | Some c \<Rightarrow> let n = (if c < count then c else count) in Some (n, take (unat n) values))"

definition sparse_request :: "RemoteDevice \<Rightarrow> u64 \<Rightarrow> bytes" where
  "sparse_request d img = w_handle (w_handle [] (remote_id d)) img"

definition GetImageSparseMemoryRequirements :: "'w round_trip \<Rightarrow> (string \<Rightarrow> u32) \<Rightarrow> (nat \<Rightarrow> bool) \<Rightarrow> RemoteDevice \<Rightarrow> u64 \<Rightarrow> u32 option \<Rightarrow> 'w
    \<Rightarrow> (u32 \<times> SparseRequirements list) option \<times> 'w" where
  "GetImageSparseMemoryRequirements rt opc allocates d img capacity w =
     (case rt (opc ''vkGetImageSparseMemoryRequirements'') (sparse_request d img) w of
        (None, w1) \<Rightarrow> (Some (0, []), w1)
      | (Some rep, w1) \<Rightarrow> (let (count, r) = r_u32 (payload_reader rep) in (sparse_values allocates capacity count r, w1)))"

definition GetImageSparseMemoryRequirements2 :: "'w round_trip \<Rightarrow> (string \<Rightarrow> u32) \<Rightarrow> (nat \<Rightarrow> bool) \<Rightarrow> RemoteDevice \<Rightarrow> u64 \<Rightarrow> u32 option \<Rightarrow> 'w
    \<Rightarrow> (u32 \<times> SparseRequirements list) option \<times> 'w" where
  "GetImageSparseMemoryRequirements2 rt opc allocates d img capacity w =
     (case rt (opc ''vkGetImageSparseMemoryRequirements2'') (sparse_request d img) w of
        (None, w1) \<Rightarrow> (Some (0, []), w1)
      | (Some rep, w1) \<Rightarrow>
          (let (n, r) = r_u32 (payload_reader rep) in
           (if n > kMaxArrayElements then Some (0, []) else sparse_values allocates capacity n r, w1)))"

end
