(* ===== verification/ClientInvariant.thy ===== *)
theory ClientInvariant
  imports MemoryLink ClientEntry
begin

section \<open>What the client's mapping table keeps, whatever the server answers\<close>

text \<open>
  Every mapping lies inside its allocation, its buffers have its size, an allocation is mapped
  at most once, and no allocation has the atom size zero, by which the chunk loops divide. Nothing here assumes anything about the round trips: a reply of the wrong shape is
  refused before it is copied.
\<close>

subsection \<open>The invariant\<close>

definition mapping_wf :: "RemoteDevice \<Rightarrow> MappedRange \<Rightarrow> bool" where
  "mapping_wf d m \<longleftrightarrow> (\<exists>a. map_of (memories d) (mr_memory_id m) = Some a \<and> unat (mr_offset m) + unat (mr_size m) \<le> unat (ma_size a))
     \<and> length (mr_shadow m) = unat (mr_size m) \<and> (mr_emulated_coherent m \<longrightarrow> length (mr_baseline m) = unat (mr_size m))"

definition device_wf :: "RemoteDevice \<Rightarrow> bool" where
  "device_wf d \<longleftrightarrow> distinct (map mr_memory_id (mapped d)) \<and> list_all (mapping_wf d) (mapped d)
     \<and> list_all (\<lambda>(i, a). ma_non_coherent_atom_size a \<noteq> 0) (memories d)"

text \<open>Two mappings that differ only in their bytes.\<close>

definition same_shape :: "MappedRange \<Rightarrow> MappedRange \<Rightarrow> bool" where
  "same_shape m m' \<longleftrightarrow> mr_memory_id m' = mr_memory_id m \<and> mr_offset m' = mr_offset m \<and> mr_size m' = mr_size m
     \<and> mr_emulated_coherent m' = mr_emulated_coherent m \<and> length (mr_shadow m') = length (mr_shadow m)
     \<and> length (mr_baseline m') = length (mr_baseline m)"

lemma same_shape_refl [simp]: "same_shape m m"
  by (simp add: same_shape_def)

lemma same_shape_trans: "same_shape a b \<Longrightarrow> same_shape b c \<Longrightarrow> same_shape a c"
  by (simp add: same_shape_def)

lemma mapping_wf_shape: "mapping_wf d m \<Longrightarrow> same_shape m m' \<Longrightarrow> mapping_wf d m'"
  by (simp add: mapping_wf_def same_shape_def)

lemma mapping_wf_memories: "memories d' = memories d \<Longrightarrow> mapping_wf d' m = mapping_wf d m"
  by (simp add: mapping_wf_def)

lemma device_wf_shapes:
  assumes "device_wf d" "memories d' = memories d" "list_all2 same_shape (mapped d) (mapped d')"
  shows "device_wf d'"
proof -
  from assms(3) have "map mr_memory_id (mapped d') = map mr_memory_id (mapped d)"
    by (intro nth_equalityI) (auto simp: list_all2_conv_all_nth same_shape_def)
  moreover have "list_all (mapping_wf d') (mapped d')"
    using assms by (auto simp: device_wf_def list_all_length list_all2_conv_all_nth mapping_wf_memories [OF assms(2)] intro: mapping_wf_shape)
  ultimately show ?thesis using assms(1,2) by (simp add: device_wf_def)
qed

lemma shapes_update:
  "i < length ms \<Longrightarrow> same_shape (ms ! i) m' \<Longrightarrow> list_all2 same_shape ms (ms[i := m'])"
  by (auto simp: list_all2_conv_all_nth nth_list_update)

lemma shapes_refl [simp]: "list_all2 same_shape ms ms"
  by (simp add: list_all2_same)

lemma shapes_trans: "list_all2 same_shape a b \<Longrightarrow> list_all2 same_shape b c \<Longrightarrow> list_all2 same_shape a c"
  by (rule list_all2_trans [OF same_shape_trans])

subsection \<open>Resolved ranges\<close>

lemma resolve_range_some:
  assumes "resolve_range ms (memory, req_offset, req_size) = Some (i, offset, sz)"
  shows "i < length ms" "mr_memory_id (ms ! i) = memory" "offset = req_offset"
    "unat (offset - mr_offset (ms ! i)) = unat offset - unat (mr_offset (ms ! i))" "mr_offset (ms ! i) \<le> offset"
    "unat (offset - mr_offset (ms ! i)) + unat sz \<le> unat (mr_size (ms ! i))"
proof -
  from assms obtain j where j: "find (\<lambda>i. mr_memory_id (ms ! i) = memory) [0..<length ms] = Some j"
    by (auto simp: resolve_range_def split: option.splits)
  let ?c = "ms ! j"
  have facts: "j = i" "offset = req_offset" "mr_offset ?c \<le> offset" "offset - mr_offset ?c \<le> mr_size ?c"
    "sz \<le> mr_size ?c - (offset - mr_offset ?c)"
    using assms j by (auto simp: resolve_range_def Let_def not_less split: if_splits)
  have "j < length ms \<and> mr_memory_id ?c = memory" using j by (auto simp: find_Some_iff)
  then show "i < length ms" "mr_memory_id (ms ! i) = memory" "offset = req_offset" "mr_offset (ms ! i) \<le> offset"
    "unat (offset - mr_offset (ms ! i)) = unat offset - unat (mr_offset (ms ! i))"
    using facts by (simp_all add: unat_sub)
  have "unat sz \<le> unat (mr_size ?c) - unat (offset - mr_offset ?c)"
    using facts(4,5) by (simp add: word_le_nat_alt unat_sub)
  then show "unat (offset - mr_offset (ms ! i)) + unat sz \<le> unat (mr_size (ms ! i))"
    using facts(1,4) by (simp add: word_le_nat_alt)
qed

subsection \<open>Loops\<close>

lemma download_once_length: "download_once rt dev mid offset chunk w = ((VK_SUCCESS, bs), w') \<Longrightarrow> length bs = unat chunk"
  by (auto simp: download_once_def VK_ERROR_DEVICE_LOST_def split: prod.splits option.splits if_splits)

lemma download_range_shape:
  assumes "download_range rt dev atom m offset loc sz moved w = ((result, m'), w')" "moved \<le> sz"
    "unat loc + unat sz \<le> unat (mr_size m)" "length (mr_shadow m) = unat (mr_size m)"
  shows "same_shape m m' \<and> mr_transfer_ready m' = mr_transfer_ready m"
  using assms
proof (induction "unat (sz - moved)" arbitrary: moved w m rule: less_induct)
  case less
  show ?case
  proof (cases "moved < sz")
    case False
    with less.prems(1) show ?thesis by (subst (asm) download_range.simps) auto
  next
    case True
    show ?thesis
    proof (cases "next_chunk atom (sz - moved)")
      case None
      with less.prems(1) True show ?thesis by (subst (asm) download_range.simps) auto
    next
      case (Some c)
      note prog = chunk_progress [OF True Some]
      have le: "unat moved + unat c \<le> unat sz" using prog(1,2) by (simp add: word_le_nat_alt)
      have lt: "unat moved < unat sz" using True by (simp add: word_less_nat_alt)
      have addr: "unat (loc + moved) = unat loc + unat moved"
        using less.prems(3) lt unat_less_64 [of "mr_size m"] by (simp add: unat_word_ariths)
      obtain res bs w1 where o: "download_once rt dev (mr_memory_id m) (offset + moved) c w = ((res, bs), w1)" by (metis surj_pair)
      show ?thesis
      proof (cases "res = VK_SUCCESS")
        case False
        with less.prems(1) True Some o show ?thesis by (subst (asm) download_range.simps) auto
      next
        case success: True
        have len: "length bs = unat c" using o success by (auto intro: download_once_length)
        define m1 where "m1 = m\<lparr>mr_shadow := blit (mr_shadow m) (unat (loc + moved)) bs,
          mr_baseline := (if mr_emulated_coherent m \<and> length (mr_baseline m) = unat (mr_size m)
             then blit (mr_baseline m) (unat (loc + moved)) bs else mr_baseline m)\<rparr>"
        have step: "download_range rt dev atom m1 offset loc sz (moved + c) w1 = ((result, m'), w')"
          using less.prems(1) True Some o success unfolding m1_def
          by (subst (asm) download_range.simps) (auto simp: Let_def split: if_splits)
        have shape: "same_shape m m1 \<and> mr_transfer_ready m1 = mr_transfer_ready m"
          using less.prems(3,4) len le addr by (simp add: m1_def same_shape_def length_blit)
        have "length (mr_shadow m1) = unat (mr_size m1)" "unat loc + unat sz \<le> unat (mr_size m1)"
          using shape less.prems(3,4) by (simp_all add: same_shape_def)
        with less.hyps [OF prog(3) step prog(2)] shape show ?thesis by (auto intro: same_shape_trans)
      qed
    qed
  qed
qed

lemma download_mapped_shapes:
  assumes "download_mapped rt d reqs w = ((result, d'), w')" "device_wf d"
  shows "list_all2 same_shape (mapped d) (mapped d') \<and> d' = d\<lparr>mapped := mapped d'\<rparr>"
  using assms
proof (induction rt d reqs w rule: download_mapped.induct)
  case (2 rt d req reqs w)
  obtain memory req_offset req_size where req: "req = (memory, req_offset, req_size)" by (cases req)
  show ?case
  proof (cases "resolve_range (mapped d) req")
    case None
    with 2(2) show ?thesis by simp
  next
    case (Some p)
    then obtain i offset sz where r: "resolve_range (mapped d) req = Some (i, offset, sz)" by (cases p) auto
    let ?m = "mapped d ! i"
    note b = resolve_range_some [OF r [unfolded req]]
    have wf: "length (mr_shadow ?m) = unat (mr_size ?m)"
      using 2(3) b(1) by (auto simp: device_wf_def mapping_wf_def list_all_length)
    obtain res m1 w1 where dr: "download_range rt (remote_id d) (atom_of d (mr_memory_id ?m)) ?m offset (offset - mr_offset ?m) sz 0 w = ((res, m1), w1)"
      by (metis surj_pair)
    have shape: "same_shape ?m m1" using download_range_shape [OF dr _ b(6) wf] by simp
    let ?d = "d\<lparr>mapped := (mapped d)[i := m1]\<rparr>"
    have all: "list_all2 same_shape (mapped d) (mapped ?d)" using shapes_update [OF b(1) shape] by simp
    have wf': "device_wf ?d" using device_wf_shapes [OF 2(3) _ all] by simp
    show ?thesis
    proof (cases "res = VK_SUCCESS")
      case True
      then have "download_mapped rt ?d reqs w1 = ((result, d'), w')" using 2(2) r dr by (simp add: Let_def)
      from 2(1) [OF r refl refl refl dr [symmetric] refl refl _ this wf'] True all
      show ?thesis by (auto intro: shapes_trans)
    next
      case False
      with 2(2) r dr all show ?thesis by (auto simp: Let_def)
    qed
  qed
qed simp

lemma download_mapped_keeps:
  assumes "download_mapped rt d reqs w = ((result, d'), w')" "device_wf d"
  shows "device_wf d'"
proof -
  note s = download_mapped_shapes [OF assms]
  have "memories (d\<lparr>mapped := mapped d'\<rparr>) = memories d" by simp
  with s have "memories d' = memories d" by metis
  with s show ?thesis using device_wf_shapes [OF assms(2)] by blast
qed

lemma send_run_shape:
  assumes "send_run rt dev m fin moved w = ((ok, m'), w')" "fin \<le> length (mr_shadow m)" "length (mr_baseline m) = length (mr_shadow m)"
  shows "same_shape m m'"
  using assms
proof (induction "fin - moved" arbitrary: moved w m rule: less_induct)
  case less
  show ?case
  proof (cases "moved < fin")
    case False
    with less.prems(1) show ?thesis by (subst (asm) send_run.simps) auto
  next
    case True
    let ?c = "coherent_chunk (fin - moved)"
    let ?m = "m\<lparr>mr_baseline := blit (mr_baseline m) moved (sub_bytes moved ?c (mr_shadow m))\<rparr>"
    have c: "fin - (moved + ?c) < fin - moved" "moved + ?c \<le> fin" using coherent_chunk_bounds [of "fin - moved"] True by linarith+
    have shape: "same_shape m ?m" using c(2) less.prems(2,3) by (simp add: same_shape_def length_blit length_sub_bytes)
    obtain res w1 where f: "flush_once rt dev (mr_memory_id m) (mr_offset m + of_nat moved) (sub_bytes moved ?c (mr_shadow m)) w = (res, w1)"
      by fastforce
    show ?thesis
    proof (cases "res = VK_SUCCESS")
      case False
      with less.prems(1) True f show ?thesis by (subst (asm) send_run.simps) (auto simp: Let_def)
    next
      case success: True
      then have "send_run rt dev ?m fin (moved + ?c) w1 = ((ok, m'), w')"
        using less.prems(1) True f by (subst (asm) send_run.simps) (auto simp: Let_def)
      from less.hyps [OF c(1) this] shape less.prems(2,3) show ?thesis
        by (auto simp: same_shape_def intro: same_shape_trans)
    qed
  qed
qed

lemma publish_mapping_shape:
  assumes "publish_mapping rt dev m start w = ((ok, m'), w')" "length (mr_shadow m) = unat (mr_size m)"
    "length (mr_baseline m) = unat (mr_size m)"
  shows "same_shape m m'"
  using assms
proof (induction "unat (mr_size m) - start" arbitrary: start w m rule: less_induct)
  case less
  let ?n = "unat (mr_size m)"
  define first where "first = scan (same_at (mr_shadow m) (mr_baseline m)) ?n start"
  define fin where "fin = run_end (mr_shadow m) (mr_baseline m) ?n (Suc first)"
  show ?case
  proof (cases "start < ?n \<and> first \<noteq> ?n")
    case False
    with less.prems(1) show ?thesis unfolding first_def by (subst (asm) publish_mapping.simps) (auto simp: Let_def split: if_splits)
  next
    case True
    have p: "start \<le> first" "first < fin" "fin \<le> ?n"
      using publish_progress(1) [of start ?n] publish_progress(2,3) [of start ?n _ "mr_shadow m" "mr_baseline m"] True
      unfolding fin_def first_def by blast+
    obtain ok1 m1 w1 where sr: "send_run rt dev m fin first w = ((ok1, m1), w1)" by (metis surj_pair)
    have shape: "same_shape m m1" using send_run_shape [OF sr] less.prems(2,3) p(3) by simp
    show ?thesis
    proof (cases ok1)
      case False
      then have "m' = m1" using less.prems(1) True sr unfolding first_def fin_def
        by (subst (asm) publish_mapping.simps) (simp add: Let_def)
      with shape show ?thesis by simp
    next
      case ok: True
      have "publish_mapping rt dev m1 fin w1 = ((ok, m'), w')" using less.prems(1) True sr ok unfolding first_def fin_def
        by (subst (asm) publish_mapping.simps) (simp add: Let_def)
      moreover have "unat (mr_size m1) - fin < ?n - start" using shape p by (simp add: same_shape_def)
      moreover have "length (mr_shadow m1) = unat (mr_size m1)" "length (mr_baseline m1) = unat (mr_size m1)"
        using shape less.prems(2,3) by (simp_all add: same_shape_def)
      ultimately have "same_shape m1 m'" using less.hyps by blast
      with shape show ?thesis by (rule same_shape_trans)
    qed
  qed
qed

lemma acquire_mapping_shape:
  assumes "acquire_mapping rt dev m moved w = ((ok, m'), w')" "length (mr_shadow m) = unat (mr_size m)"
    "length (mr_baseline m) = unat (mr_size m)"
  shows "same_shape m m'"
  using assms
proof (induction "unat (mr_size m) - moved" arbitrary: moved w m rule: less_induct)
  case less
  let ?n = "unat (mr_size m)" and ?c = "coherent_chunk (unat (mr_size m) - moved)"
  show ?case
  proof (cases "moved < ?n")
    case False
    with less.prems(1) show ?thesis by (subst (asm) acquire_mapping.simps) auto
  next
    case True
    have c: "0 < ?c" "moved + ?c \<le> ?n" "?c \<le> 67108800" using coherent_chunk_bounds [of "?n - moved"] True by linarith+
    obtain res bs w1 where o: "download_once rt dev (mr_memory_id m) (mr_offset m + of_nat moved) (of_nat ?c) w = ((res, bs), w1)"
      by (metis surj_pair)
    show ?thesis
    proof (cases "res = VK_SUCCESS")
      case False
      with less.prems(1) True o show ?thesis by (subst (asm) acquire_mapping.simps) (auto simp: Let_def)
    next
      case success: True
      have "length bs = ?c" using o success c(3) download_once_length by (fastforce simp: unat_of_nat_small)
      then have shape: "same_shape m (merge_chunk m moved bs)"
        using c(2) less.prems(2,3) by (simp add: same_shape_def merge_chunk_def length_blit)
      have "acquire_mapping rt dev (merge_chunk m moved bs) (moved + ?c) w1 = ((ok, m'), w')"
        using less.prems(1) True o success by (subst (asm) acquire_mapping.simps) (auto simp: Let_def)
      moreover have "unat (mr_size (merge_chunk m moved bs)) - (moved + ?c) < ?n - moved"
        using c True by (simp add: merge_chunk_def)
      moreover have "length (mr_shadow (merge_chunk m moved bs)) = unat (mr_size (merge_chunk m moved bs))"
        "length (mr_baseline (merge_chunk m moved bs)) = unat (mr_size (merge_chunk m moved bs))"
        using shape less.prems(2,3) by (simp_all add: same_shape_def)
      ultimately have "same_shape (merge_chunk m moved bs) m'" using less.hyps by blast
      with shape show ?thesis by (rule same_shape_trans)
    qed
  qed
qed

lemma publish_shapes:
  "publish_coherent_mapped rt dev ms w = ((ok, ms'), w') \<Longrightarrow> list_all (mapping_wf d) ms \<Longrightarrow> list_all2 same_shape ms ms'"
proof (induction ms arbitrary: w ok ms' w')
  case (Cons m ms)
  show ?case
  proof (cases "\<not> mr_emulated_coherent m \<or> \<not> mr_transfer_ready m")
    case True
    with Cons show ?thesis by (auto split: prod.splits)
  next
    case False
    obtain ok1 m1 w1 where pm: "publish_mapping rt dev m 0 w = ((ok1, m1), w1)" by (metis surj_pair)
    have "same_shape m m1" by (rule publish_mapping_shape [OF pm]) (use Cons.prems(2) False in \<open>auto simp: mapping_wf_def\<close>)
    then show ?thesis using Cons False pm by (cases ok1) (auto split: prod.splits)
  qed
qed simp

lemma acquire_shapes:
  "acquire_coherent_mapped rt dev memory_ids ms w = ((ok, ms'), w') \<Longrightarrow> list_all (mapping_wf d) ms \<Longrightarrow> list_all2 same_shape ms ms'"
proof (induction ms arbitrary: w ok ms' w')
  case (Cons m ms)
  show ?case
  proof (cases "\<not> mr_emulated_coherent m \<or> \<not> mr_transfer_ready m \<or> (case memory_ids of None \<Rightarrow> False | Some is \<Rightarrow> mr_memory_id m \<notin> set is)")
    case True
    with Cons show ?thesis by (auto split: prod.splits)
  next
    case False
    obtain ok1 m1 w1 where pm: "acquire_mapping rt dev m 0 w = ((ok1, m1), w1)" by (metis surj_pair)
    have "same_shape m m1" by (rule acquire_mapping_shape [OF pm]) (use Cons.prems(2) False in \<open>auto simp: mapping_wf_def\<close>)
    then show ?thesis using Cons False pm by (cases ok1) (auto split: prod.splits)
  qed
qed simp

subsection \<open>Entry points\<close>

lemma resolve_allocation_range_some:
  "resolve_allocation_range a offset req = Some sz \<Longrightarrow> unat offset + unat sz \<le> unat a \<and> 0 < unat sz"
proof -
  assume r: "resolve_allocation_range a offset req = Some sz"
  then have lt: "offset < a" and le: "sz \<le> a - offset" and nz: "sz \<noteq> 0"
    by (auto simp: resolve_allocation_range_def Let_def not_le not_less split: if_splits)
  from lt have "unat (a - offset) = unat a - unat offset" "unat offset < unat a"
    by (simp_all add: unat_sub order_less_imp_le word_less_nat_alt)
  with le nz show ?thesis by (simp add: word_le_nat_alt unat_gt_0)
qed

lemma erase_mapping_subset: "set (erase_mapping i ms) \<subseteq> set ms"
  by (induction ms) auto

lemma erase_mapping_distinct: "distinct (map mr_memory_id ms) \<Longrightarrow>
   distinct (map mr_memory_id (erase_mapping i ms)) \<and> i \<notin> mr_memory_id ` set (erase_mapping i ms)"
  by (induction ms) (auto dest: subsetD [OF erase_mapping_subset])

lemma update_mapping_shapes: "(\<And>m. m \<in> set ms \<Longrightarrow> mr_memory_id m = i \<Longrightarrow> same_shape m (f m)) \<Longrightarrow> list_all2 same_shape ms (update_mapping i f ms)"
  by (induction ms) auto

lemma device_wf_erase: "device_wf d \<Longrightarrow> device_wf (d\<lparr>mapped := erase_mapping i (mapped d)\<rparr>)"
  using erase_mapping_distinct [of "mapped d" i] erase_mapping_subset [of i "mapped d"]
  by (auto simp: device_wf_def list_all_iff mapping_wf_def)

lemma update_all: "list_all P xs \<Longrightarrow> P (k, v) \<Longrightarrow> list_all P (AList.update k v xs)"
  by (induction xs) auto

lemma delete_all: "list_all P xs \<Longrightarrow> list_all P (AList.delete k xs)"
  by (simp add: AList.delete_eq list_all_iff)

lemma device_wf_free: "device_wf d \<Longrightarrow> device_wf (fst (FreeMemory ow opc d memory w))"
  using delete_all [of "\<lambda>(i, a). ma_non_coherent_atom_size a \<noteq> 0" "memories d" memory] erase_mapping_distinct [of "mapped d" memory] erase_mapping_subset [of memory "mapped d"]
  by (auto simp: device_wf_def list_all_iff mapping_wf_def FreeMemory_def delete_conv)

lemma map_admitted_some:
  assumes "map_admitted d memory offset req = Some (sz, coherent)"
  obtains a where "map_of (memories d) memory = Some a" "unat offset + unat sz \<le> unat (ma_size a)" "0 < unat sz"
    "memory \<notin> mr_memory_id ` set (mapped d)" "coherent = ma_emulated_coherent a"
  using assms by (auto simp: map_admitted_def list_ex_iff split: option.splits if_splits dest!: resolve_allocation_range_some)

lemma device_wf_map:
  assumes "device_wf d" "MapMemory rt malloc garbage alloc d memory offset req w = ((result, shadow, d'), w')"
  shows "device_wf d'"
proof (cases "memory = VK_NULL_HANDLE \<or> map_admitted d memory offset req = None")
  case True
  with assms show ?thesis by (auto simp: MapMemory_def split: if_splits)
next
  case False
  then obtain sz coherent where ad: "map_admitted d memory offset req = Some (sz, coherent)" by fastforce
  from ad obtain a where a: "map_of (memories d) memory = Some a" "unat offset + unat sz \<le> unat (ma_size a)"
    "memory \<notin> mr_memory_id ` set (mapped d)" by (rule map_admitted_some)
  define m where "m = \<lparr>mr_memory_id = memory, mr_offset = offset, mr_size = sz,
     mr_shadow = fill_buffer (unat sz) garbage, mr_emulated_coherent = coherent, mr_transfer_ready = (\<not> coherent),
     mr_baseline = (if coherent then replicate (unat sz) 0 else [])\<rparr>"
  let ?d1 = "d\<lparr>mapped := mapped d @ [m]\<rparr>"
  have wf1: "device_wf ?d1"
    using assms(1) a by (auto simp: device_wf_def list_all_iff mapping_wf_def m_def fill_buffer_def)
  obtain res d2 w2 where dl: "download_mapped rt ?d1 [(memory, offset, sz)] w = ((res, d2), w2)" by (metis surj_pair)
  have d2: "list_all2 same_shape (mapped ?d1) (mapped d2)" using download_mapped_shapes [OF dl wf1] by blast
  have wf2: "device_wf d2" by (rule download_mapped_keeps [OF dl wf1])
  let ?f = "\<lambda>m. m\<lparr>mr_baseline := mr_shadow m, mr_transfer_ready := True\<rparr>"
  have "mr_memory_id x = memory \<Longrightarrow> x \<in> set (mapped d2) \<Longrightarrow> coherent \<Longrightarrow> same_shape x (?f x)" for x
  proof -
    assume x: "mr_memory_id x = memory" "x \<in> set (mapped d2)" "coherent"
    obtain k where k: "k < length (mapped d2)" "x = mapped d2 ! k" using x(2) by (metis in_set_conv_nth)
    then have sh: "same_shape ((mapped d @ [m]) ! k) x" using d2 by (simp add: list_all2_conv_all_nth)
    then have "mr_memory_id ((mapped d @ [m]) ! k) = memory" using x(1) by (simp add: same_shape_def)
    then have "(mapped d @ [m]) ! k = m" using k d2 a(3) by (auto simp: nth_append list_all2_conv_all_nth less_Suc_eq)
    with sh x(3) show "same_shape x (?f x)" by (auto simp: same_shape_def m_def fill_buffer_def)
  qed
  then have upd: "coherent \<Longrightarrow> list_all2 same_shape (mapped d2) (update_mapping memory ?f (mapped d2))"
    using update_mapping_shapes [of "mapped d2" memory ?f] by blast
  have wf3: "coherent \<Longrightarrow> device_wf (d2\<lparr>mapped := update_mapping memory ?f (mapped d2)\<rparr>)"
    using device_wf_shapes [OF wf2] upd by simp
  show ?thesis
    using assms(2) ad False dl wf1 wf3 device_wf_erase [OF wf2, of memory] assms(1) unfolding MapMemory_def m_def
    by (auto simp: Let_def split: if_splits option.splits)
qed

lemma device_wf_allocate:
  assumes "device_wf d" "AllocateMemory rt opc d encoded sz index w = ((result, mem_id, d'), w')"
    and "\<And>i. mem_id = Some i \<Longrightarrow> i \<notin> mr_memory_id ` set (mapped d)"
  shows "device_wf d'"
proof -
  have "d' = d \<or> (\<exists>i a. mem_id = Some i \<and> mapped d' = mapped d \<and> memories d' = AList.update i a (memories d)
      \<and> ma_non_coherent_atom_size a \<noteq> 0)"
    using assms(2) unfolding AllocateMemory_def Let_def
    by (auto split: prod.splits option.splits if_splits) ((drule spec, drule mp, rule refl, simp)+)
  then show ?thesis
  proof
    assume "\<exists>i a. mem_id = Some i \<and> mapped d' = mapped d \<and> memories d' = AList.update i a (memories d)
      \<and> ma_non_coherent_atom_size a \<noteq> 0"
    then obtain i a where i: "mem_id = Some i" "mapped d' = mapped d" "memories d' = AList.update i a (memories d)"
      "ma_non_coherent_atom_size a \<noteq> 0" by blast
    have atoms: "list_all (\<lambda>(i, a). ma_non_coherent_atom_size a \<noteq> 0) (memories d')"
      unfolding i(3) using assms(1) i(4) by (intro update_all) (simp_all add: device_wf_def)
    have "mapping_wf d' m" if "m \<in> set (mapped d)" for m
    proof -
      have "mr_memory_id m \<noteq> i" using assms(3) [OF i(1)] that by auto
      moreover have "mapping_wf d m" using assms(1) that by (simp add: device_wf_def list_all_iff)
      ultimately show ?thesis by (simp add: mapping_wf_def i(3) update_conv')
    qed
    with assms(1) i(2) atoms show ?thesis by (simp add: device_wf_def list_all_iff)
  qed (use assms(1) in simp)
qed

subsection \<open>Properties\<close>


text \<open>A device with one coherent mapping, over a link whose replies are always lost.\<close>

definition device_example :: RemoteDevice where
  "device_example = \<lparr>remote_id = 7, mapped = [\<lparr>mr_memory_id = 5, mr_offset = 2, mr_size = 3, mr_shadow = [1, 2, 3],
       mr_emulated_coherent = True, mr_transfer_ready = True, mr_baseline = [1, 0, 3]\<rparr>],
     memories = [(5, \<lparr>ma_size = 8, ma_memory_type_index = 0, ma_property_flags = 6, ma_non_coherent_atom_size = 4,
       ma_emulated_coherent = True\<rparr>)],
     map_alignment = 64, instance_capabilities = 0, buffer_bindings = [], image_bindings = []\<rparr>"


text \<open>The shadow's place in the heap block.\<close>

lemma shadow_adjustment_le: "unat (shadow_adjustment al offset address) \<le> unat (al - 1)"
  unfolding shadow_adjustment_def by (simp add: word_le_nat_alt [symmetric] word_and_le1)

lemma unat_add_mod_exp:
  assumes "n < 64"
  shows "unat (x + y :: u64) mod 2 ^ n = (unat x + unat y) mod 2 ^ n"
proof -
  have "(2 :: nat) ^ n dvd 2 ^ 64" using assms by (intro le_imp_power_dvd) simp
  then show ?thesis using mod_mod_cancel [of "2 ^ n" "2 ^ 64" "unat x + unat y"] by (simp add: unat_word_ariths)
qed

lemma unat_add_no_wrap: "unat (x :: u64) + unat y < 2 ^ 64 \<Longrightarrow> unat (x + y) = unat x + unat y"
  by (simp add: unat_word_ariths)

lemma unat_take_bit: "unat (take_bit n (w :: u64)) = unat w mod 2 ^ n"
  by (simp add: unsigned_take_bit_eq flip: take_bit_eq_mod)

lemma shadow_adjustment_congruent:
  assumes "n < 64"
  shows "unat (address + shadow_adjustment (2 ^ n) offset address) mod 2 ^ n = unat offset mod 2 ^ n"
proof -
  let ?r = "take_bit n offset"
  have "shadow_adjustment (2 ^ n) offset address = take_bit n (?r - address)"
    by (simp add: shadow_adjustment_def mask_eq_exp_minus_1 take_bit_eq_mask)
  then have "unat (address + shadow_adjustment (2 ^ n) offset address) mod 2 ^ n = (unat address + unat (?r - address)) mod 2 ^ n"
    using unat_add_mod_exp [OF assms, of address "take_bit n (?r - address)"] by (simp add: unat_take_bit mod_simps)
  also have "\<dots> = unat ?r mod 2 ^ n" using unat_add_mod_exp [OF assms, of address "?r - address"] by simp
  finally show ?thesis by (simp add: unat_take_bit)
qed

lemma unat_pred: "0 < (al :: u64) \<Longrightarrow> unat (al - 1) = unat al - 1 \<and> 0 < unat al"
  using unat_sub [of 1 al] by (simp add: word_le_nat_alt word_less_nat_alt Suc_le_eq)

lemma block_size_exact:
  assumes "\<not> sz > - 1 - (al - 1)" "0 < (al :: u64)"
  shows "unat (sz + al - 1) = unat sz + unat al - 1 \<and> unat sz + unat al - 1 < 2 ^ 64"
proof -
  have al: "unat (al - 1) = unat al - 1" "0 < unat al" using unat_pred [OF assms(2)] by simp_all
  have "unat (- 1 - (al - 1)) = 2 ^ 64 - 1 - unat (al - 1)" using unat_sub [of "al - 1" "- 1 :: u64"] by (simp add: unsigned_minus_1_eq_mask mask_eq_exp_minus_1)
  with assms(1) have le: "unat sz \<le> 2 ^ 64 - 1 - (unat al - 1)" using al by (simp add: not_less word_le_nat_alt)
  have lt: "unat sz + unat (al - 1) < 2 ^ 64" using le al unat_less_64 [of al] by linarith
  have "unat (sz + (al - 1)) = unat sz + unat (al - 1)" by (rule unat_add_no_wrap [OF lt])
  with lt al show ?thesis by (simp add: add_diff_eq)
qed

text \<open>
  C27. Where \<open>MapMemory\<close> puts the shadow: for a power-of-two alignment the pointer it returns is
  congruent to the mapped offset; for every alignment the server may have sent it lies in the heap
  block, with room for the whole range after it, and the size computed for \<open>malloc\<close> does not wrap.
  The block is one that fits in the address space.
\<close>

theorem map_memory_placement:
  assumes "MapMemory rt (Some address) garbage alloc d memory offset req w = ((VK_SUCCESS, Some shadow, d'), w')"
    and "map_admitted d memory offset req = Some (sz, coherent)"
    and "unat address + unat (sz + map_alignment_of d - 1) \<le> 2 ^ 64"
  shows "unat (sz + map_alignment_of d - 1) = unat sz + unat (map_alignment_of d) - 1
    \<and> unat address \<le> unat shadow \<and> unat shadow + unat sz \<le> unat address + unat (sz + map_alignment_of d - 1)
    \<and> (\<forall>n. map_alignment_of d = 2 ^ n \<longrightarrow> n < 64 \<longrightarrow> unat shadow mod 2 ^ n = unat offset mod 2 ^ n)"
proof -
  let ?al = "map_alignment_of d"
  have al: "0 < ?al" by (auto simp: map_alignment_of_def word_gt_0)
  then have al1: "unat (?al - 1) = unat ?al - 1" "0 < unat ?al" using unat_pred by blast+
  have pos: "0 < unat sz" using assms(2) by (rule map_admitted_some)
  have sh: "shadow = address + shadow_adjustment ?al offset address" and fit: "\<not> sz > - 1 - (?al - 1)"
    using assms(1,2) by (auto simp: MapMemory_def Let_def VK_ERROR_OUT_OF_HOST_MEMORY_def split: if_splits prod.splits)
  have b: "unat (sz + ?al - 1) = unat sz + unat ?al - 1" using block_size_exact [OF fit al] by blast
  have adj: "unat (shadow_adjustment ?al offset address) \<le> unat ?al - 1" using shadow_adjustment_le [of ?al] al1 by simp
  then have "unat address + unat (shadow_adjustment ?al offset address) < 2 ^ 64" using b assms(3) pos al1(2) by linarith
  then have "unat shadow = unat address + unat (shadow_adjustment ?al offset address)"
    unfolding sh by (rule unat_add_no_wrap)
  with b adj pos al1(2) have "unat address \<le> unat shadow" "unat shadow + unat sz \<le> unat address + unat (sz + ?al - 1)" by linarith+
  moreover have "unat shadow mod 2 ^ n = unat offset mod 2 ^ n" if "?al = 2 ^ n" "n < 64" for n
    using shadow_adjustment_congruent [OF that(2), of address offset] that(1) unfolding sh by simp
  ultimately show ?thesis using b by blast
qed

definition plain_device :: RemoteDevice where
  "plain_device = device_example\<lparr>mapped := [], memories := [(5, \<lparr>ma_size = 8, ma_memory_type_index = 0,
     ma_property_flags = 2, ma_non_coherent_atom_size = 4, ma_emulated_coherent = False\<rparr>)]\<rparr>"

theorem map_memory_placement_witness:
  "fst (snd (fst (MapMemory (\<lambda>op req w. (None, w)) (Some 1003) [] True plain_device 5 2 3 ()))) = Some 1026
    \<and> unat (1003 :: u64) \<le> unat (1026 :: u64) \<and> unat (1026 :: u64) mod 2 ^ 6 = unat (2 :: u64) mod 2 ^ 6"
proof -
  have al: "map_alignment_of plain_device = 64" by (simp add: map_alignment_of_def plain_device_def device_example_def)
  have ad: "map_admitted plain_device 5 2 3 = Some (3, False)"
    by (simp add: map_admitted_def plain_device_def resolve_allocation_range_def VK_MEMORY_PROPERTY_HOST_VISIBLE_BIT_def VK_WHOLE_SIZE_def)
  have adj: "shadow_adjustment 64 2 1003 = 23" by (simp add: shadow_adjustment_def)
  obtain d' where m: "MapMemory (\<lambda>op req w. (None, w)) (Some 1003) [] True plain_device 5 2 3 () = ((VK_SUCCESS, Some 1026, d'), ())"
    by (simp add: MapMemory_def ad al adj Let_def)
  show ?thesis using map_memory_placement [OF m ad] m al by (simp add: power2_eq_square)
qed

end
