(* ===== verification/MemoryProperties.thy ===== *)
theory MemoryProperties
  imports MemoryEndToEnd ClientInvariant
begin

section \<open>What mapped memory promises the application\<close>

text \<open>
  The properties of the memory path as a whole: the client's operations, the connection, the serve
  loop and the server's handlers, through the interpretation \<open>server_link\<close>.
\<close>

subsection \<open>The client's and the server's view of one allocation\<close>

text \<open>
  The client's table entry for \<open>mid\<close> has the server's size, and at least one of its atoms fits
  in a message.
\<close>

definition mirrored :: "Server \<Rightarrow> (u32 \<Rightarrow> unit handler option) \<Rightarrow> RemoteDevice \<Rightarrow> u64 \<Rightarrow> ServerMemory \<Rightarrow> Connection \<times> Conn \<Rightarrow> bool" where
  "mirrored srv handlers d mid m st \<longleftrightarrow> link_good srv handlers (remote_id d) mid m st \<and> device_wf d
     \<and> (case map_of (memories d) mid of None \<Rightarrow> False
        | Some a \<Rightarrow> ma_size a = mem_size m \<and> ma_non_coherent_atom_size a \<le> client_kMaxMappedChunk)"

definition memory_of :: "ServerMemory \<Rightarrow> Connection \<times> Conn \<Rightarrow> nat \<Rightarrow> byte" where
  "memory_of m st = device_memory (c_log (snd st)) (mem_handle m)"

lemma mirrored_atom: "mirrored srv handlers d mid m st \<Longrightarrow> atom_ok (atom_of d mid) sz"
  by (auto simp: mirrored_def atom_ok_def atom_of_def device_wf_def list_all_iff word_gt_0 split: option.splits dest!: map_of_SomeD)

lemma mirrored_mapping:
  assumes "mirrored srv handlers d mid m st" "mp \<in> set (mapped d)" "mr_memory_id mp = mid"
  shows "unat (mr_offset mp) + unat (mr_size mp) \<le> unat (mem_size m)" "length (mr_shadow mp) = unat (mr_size mp)"
    "mr_emulated_coherent mp \<Longrightarrow> length (mr_baseline mp) = unat (mr_size mp)"
  using assms by (auto simp: mirrored_def device_wf_def list_all_iff mapping_wf_def split: option.splits)

lemma mirrored_resolved:
  assumes "mirrored srv handlers d mid m st" "resolve_range (mapped d) (mid, req_offset, req_size) = Some (i, offset, sz)"
  shows "mapped d ! i \<in> set (mapped d)" "mr_memory_id (mapped d ! i) = mid" "unat offset + unat sz \<le> unat (mem_size m)"
    "unat (offset - mr_offset (mapped d ! i)) + unat sz \<le> unat (mr_size (mapped d ! i))"
proof -
  note r = resolve_range_some [OF assms(2)]
  show m: "mapped d ! i \<in> set (mapped d)" "mr_memory_id (mapped d ! i) = mid"
    "unat (offset - mr_offset (mapped d ! i)) + unat sz \<le> unat (mr_size (mapped d ! i))"
    using r by simp_all
  show "unat offset + unat sz \<le> unat (mem_size m)"
    using mirrored_mapping(1) [OF assms(1) m(1,2)] r(4,5,6) by (simp add: word_le_nat_alt)
qed

lemma mirrored_flush:
  assumes "mirrored srv handlers d mid m st" "resolve_range (mapped d) (mid, req_offset, req_size) = Some (i, offset, sz)"
  shows "\<exists>st'. flush_mapped (link_rt srv handlers) d [(mid, req_offset, req_size)] st = (VK_SUCCESS, st') \<and> mirrored srv handlers d mid m st'
    \<and> memory_of m st' = write_at (memory_of m st) (unat offset)
        (sub_bytes (unat (offset - mr_offset (mapped d ! i))) (unat sz) (mr_shadow (mapped d ! i)))"
proof -
  let ?mp = "mapped d ! i"
  note r = mirrored_resolved [OF assms]
  have "link_good srv handlers (remote_id d) mid m st" using assms(1) by (simp add: mirrored_def)
  moreover have "unat (offset - mr_offset ?mp) + unat sz \<le> length (mr_shadow ?mp)" "length (mr_shadow ?mp) < 2 ^ 64"
    using r(4) mirrored_mapping(2) [OF assms(1) r(1,2)] unat_less_64 [of "mr_size ?mp"] by simp_all
  ultimately obtain st' where
    "flush_range (link_rt srv handlers) (remote_id d) mid (atom_of d mid) (mr_shadow ?mp) offset (offset - mr_offset ?mp) sz 0 st = (VK_SUCCESS, st')"
    "link_good srv handlers (remote_id d) mid m st'"
    "memory_of m st' = write_at (memory_of m st) (unat offset) (sub_bytes (unat (offset - mr_offset ?mp)) (unat sz) (mr_shadow ?mp))"
    using server_link.flush_range_ok [of srv handlers "remote_id d" mid m st 0 sz "atom_of d mid" offset "offset - mr_offset ?mp" "mr_shadow ?mp"]
      mirrored_atom [OF assms(1), of sz] r(3) unfolding memory_of_def by auto
  then show ?thesis using assms r(2) by (auto simp: mirrored_def)
qed

lemma mirrored_download:
  assumes "mirrored srv handlers d mid m st" "resolve_range (mapped d) (mid, req_offset, req_size) = Some (i, offset, sz)"
  shows "\<exists>st'. download_mapped (link_rt srv handlers) d [(mid, req_offset, req_size)] st =
      ((VK_SUCCESS, d\<lparr>mapped := (mapped d)[i := received (mapped d ! i) (unat (offset - mr_offset (mapped d ! i)))
         (bytes_at (memory_of m st) (unat offset) (unat sz))]\<rparr>), st')
    \<and> mirrored srv handlers (d\<lparr>mapped := (mapped d)[i := received (mapped d ! i) (unat (offset - mr_offset (mapped d ! i)))
         (bytes_at (memory_of m st) (unat offset) (unat sz))]\<rparr>) mid m st'
    \<and> memory_of m st' = memory_of m st"
proof -
  let ?mp = "mapped d ! i"
  let ?d = "d\<lparr>mapped := (mapped d)[i := received ?mp (unat (offset - mr_offset ?mp)) (bytes_at (memory_of m st) (unat offset) (unat sz))]\<rparr>"
  note r = mirrored_resolved [OF assms]
  have good: "link_good srv handlers (remote_id d) mid m st" and wf: "device_wf d" using assms(1) by (simp_all add: mirrored_def)
  obtain st' where st': "download_range (link_rt srv handlers) (remote_id d) (atom_of d mid) ?mp offset (offset - mr_offset ?mp) sz 0 st =
      ((VK_SUCCESS, received ?mp (unat (offset - mr_offset ?mp)) (bytes_at (memory_of m st) (unat offset) (unat sz))), st')"
    "link_good srv handlers (remote_id d) mid m st'" "memory_of m st' = memory_of m st"
    using server_link.download_range_ok [of srv handlers "remote_id d" mid m st 0 sz "atom_of d mid" offset "offset - mr_offset ?mp" ?mp]
      good mirrored_atom [OF assms(1), of sz] r mirrored_mapping(2) [OF assms(1) r(1,2)] unfolding memory_of_def by auto
  then have dl: "download_mapped (link_rt srv handlers) d [(mid, req_offset, req_size)] st = ((VK_SUCCESS, ?d), st')"
    using assms(2) r(2) by (simp add: Let_def)
  have "device_wf ?d" by (rule download_mapped_keeps [OF dl wf])
  then have "mirrored srv handlers ?d mid m st'" using assms(1) st'(2) by (simp add: mirrored_def)
  with dl st'(3) show ?thesis by blast
qed

lemma resolve_whole_mapping:
  assumes "device_wf d" "i < length (mapped d)"
  shows "resolve_range (mapped d) (mr_memory_id (mapped d ! i), mr_offset (mapped d ! i), mr_size (mapped d ! i)) =
    Some (i, mr_offset (mapped d ! i), mr_size (mapped d ! i))"
proof -
  have "find (\<lambda>k. mr_memory_id (mapped d ! k) = mr_memory_id (mapped d ! i)) [0..<length (mapped d)] = Some i"
    using assms by (auto simp: find_Some_iff device_wf_def distinct_conv_nth intro!: exI [of _ i])
  then show ?thesis by (simp add: resolve_range_def Let_def)
qed

subsection \<open>The coherent view\<close>

text \<open>
  What a host-coherent mapping stands for, whoever reads it: the host's store where the shadow
  differs from the baseline, the device's byte elsewhere.
\<close>

definition coherent_view :: "MappedRange \<Rightarrow> (nat \<Rightarrow> byte) \<Rightarrow> bytes" where
  "coherent_view mp f = map (\<lambda>i. if mr_shadow mp ! i \<noteq> mr_baseline mp ! i then mr_shadow mp ! i else f (unat (mr_offset mp) + i))
     [0..<unat (mr_size mp)]"

definition device_range :: "MappedRange \<Rightarrow> (nat \<Rightarrow> byte) \<Rightarrow> bytes" where
  "device_range mp f = bytes_at f (unat (mr_offset mp)) (unat (mr_size mp))"

lemma device_range_nth: "i < unat (mr_size mp) \<Longrightarrow> device_range mp f ! i = f (unat (mr_offset mp) + i)"
  by (simp add: device_range_def bytes_at_def)

lemma length_device_range [simp]: "length (device_range mp f) = unat (mr_size mp)"
  by (simp add: device_range_def)

lemma coherent_view_synced: "coherent_view (mp\<lparr>mr_baseline := mr_shadow mp\<rparr>) f = device_range mp f"
  by (auto simp: coherent_view_def device_range_def bytes_at_def intro!: nth_equalityI)

lemma merged_view:
  assumes "length (mr_shadow mp) = unat (mr_size mp)"
  shows "mr_shadow (merged mp 0 f) = coherent_view mp f" "mr_baseline (merged mp 0 f) = device_range mp f"
    "coherent_view (merged mp 0 f) f = coherent_view mp f"
  by (auto simp: merged_def coherent_view_def merge_byte_def device_range_def bytes_at_def intro!: nth_equalityI)

lemma bytes_at_write_at: "bytes_at (write_at f a bs) a (length bs) = bs"
  by (rule nth_equalityI) (auto simp: bytes_at_def write_at_def)

lemma sub_bytes_blit: "at \<le> length dst \<Longrightarrow> sub_bytes at (length bs) (blit dst at bs) = bs"
  by (simp add: sub_bytes_def blit_def)

subsection \<open>The range of a native flush\<close>

lemma align_down_exp: "n < 64 \<Longrightarrow> unat (align_down v (2 ^ n)) = unat v - unat v mod 2 ^ n"
proof -
  assume "n < 64"
  have "v - take_bit n v = v AND NOT (take_bit n v)" by (rule disjunctive_diff) (simp add: bit_take_bit_iff)
  also have "\<dots> = v AND NOT (mask n)" by (rule bit_word_eqI) (auto simp: bit_simps)
  finally have "align_down v (2 ^ n) = v - take_bit n v" by (simp add: align_down_def mask_eq_exp_minus_1)
  moreover have "take_bit n v \<le> v" by (simp add: word_le_nat_alt unat_take_bit)
  ultimately show ?thesis by (simp add: unat_sub unat_take_bit)
qed

lemma validated_transfer:
  assumes "validate_transfer t dev mid offset sz = Some m"
  shows "map_of (memory_metadata t) mid = Some m" "mem_owner m = resolve t Devices dev" "mem_owner m \<noteq> VK_NULL_HANDLE"
    "0 < unat sz" "unat sz \<le> unat kMaxMappedChunk" "unat offset + unat sz \<le> unat (mem_size m)"
proof -
  show "map_of (memory_metadata t) mid = Some m" "mem_owner m = resolve t Devices dev" "mem_owner m \<noteq> VK_NULL_HANDLE"
    "0 < unat sz" "unat sz \<le> unat kMaxMappedChunk"
    using assms by (auto simp: validate_transfer_def Let_def not_less word_le_nat_alt unat_gt_0 split: option.splits if_splits)
  have "offset \<le> mem_size m" "sz \<le> mem_size m - offset"
    using assms by (auto simp: validate_transfer_def Let_def not_less split: option.splits if_splits)
  then show "unat offset + unat sz \<le> unat (mem_size m)" by (simp add: word_le_nat_alt unat_sub)
qed

lemma round_up_le:
  fixes e a k :: nat
  assumes "0 < a" "e \<le> k" "a dvd k"
  shows "(e + a - 1) - (e + a - 1) mod a \<le> k \<and> e \<le> (e + a - 1) - (e + a - 1) mod a \<and> (e + a - 1) - (e + a - 1) mod a < e + a"
proof -
  have eq: "(e + a - 1) - (e + a - 1) mod a = (e + a - 1) div a * a" by (rule minus_mod_eq_div_mult)
  obtain q where k: "k = q * a" using assms(3) by (auto simp: dvd_def mult.commute)
  have "(e + a - 1) div a \<le> q"
  proof -
    have "e + a - 1 < (q + 1) * a" using assms(1,2) k by simp
    then have "(e + a - 1) div a < q + 1" by (rule less_mult_imp_div_less)
    then show ?thesis by simp
  qed
  then have "(e + a - 1) div a * a \<le> k" unfolding k by (rule mult_le_mono1)
  moreover have "(e + a - 1) mod a < a" using assms(1) by simp
  ultimately show ?thesis using eq assms(1) by linarith
qed

subsection \<open>Properties\<close>

text \<open>
  C20. A flush and a download of the same range, over the real connection and server: the flush
  stores exactly the shadow's bytes at the range's offset in device memory and nowhere else, in
  however many messages it takes; a later download of that range, into any mapping of the
  allocation, puts exactly those bytes into its shadow and leaves device memory alone.
\<close>

theorem flush_download_roundtrip:
  assumes "mirrored srv handlers d mid m st" "resolve_range (mapped d) (mid, req_offset, req_size) = Some (i, offset, sz)"
    and "mirrored srv handlers d2 mid m st" "resolve_range (mapped d2) (mid, req_offset2, req_size2) = Some (j, offset, sz)"
    and "remote_id d2 = remote_id d"
  shows "\<exists>st1 st2 d3. flush_mapped (link_rt srv handlers) d [(mid, req_offset, req_size)] st = (VK_SUCCESS, st1)
    \<and> memory_of m st1 = write_at (memory_of m st) (unat offset)
        (sub_bytes (unat (offset - mr_offset (mapped d ! i))) (unat sz) (mr_shadow (mapped d ! i)))
    \<and> download_mapped (link_rt srv handlers) d2 [(mid, req_offset2, req_size2)] st1 = ((VK_SUCCESS, d3), st2)
    \<and> sub_bytes (unat (offset - mr_offset (mapped d2 ! j))) (unat sz) (mr_shadow (mapped d3 ! j)) =
        sub_bytes (unat (offset - mr_offset (mapped d ! i))) (unat sz) (mr_shadow (mapped d ! i))
    \<and> memory_of m st2 = memory_of m st1"
proof -
  let ?data = "sub_bytes (unat (offset - mr_offset (mapped d ! i))) (unat sz) (mr_shadow (mapped d ! i))"
  let ?at = "unat (offset - mr_offset (mapped d2 ! j))"
  note r = mirrored_resolved [OF assms(1,2)] and r2 = mirrored_resolved [OF assms(3,4)]
  have len: "length ?data = unat sz" using r(4) mirrored_mapping(2) [OF assms(1) r(1,2)] by (simp add: length_sub_bytes)
  obtain st1 where st1: "flush_mapped (link_rt srv handlers) d [(mid, req_offset, req_size)] st = (VK_SUCCESS, st1)"
    "mirrored srv handlers d mid m st1" "memory_of m st1 = write_at (memory_of m st) (unat offset) ?data"
    using mirrored_flush [OF assms(1,2)] by blast
  have "mirrored srv handlers d2 mid m st1" using assms(3,5) st1(2) by (simp add: mirrored_def)
  note dl = mirrored_download [OF this assms(4)]
  have bs: "bytes_at (memory_of m st1) (unat offset) (unat sz) = ?data" unfolding st1(3) using bytes_at_write_at len by metis
  have j: "j < length (mapped d2)" using resolve_range_some(1) [OF assms(4)] .
  have "sub_bytes ?at (unat sz) (mr_shadow (received (mapped d2 ! j) ?at ?data)) = ?data"
    using sub_bytes_blit [of ?at "mr_shadow (mapped d2 ! j)" ?data] len r2(4) mirrored_mapping(2) [OF assms(3) r2(1,2)]
    by (simp add: received_def)
  with dl st1 bs j show ?thesis by fastforce
qed

text \<open>
  C22. Acquiring a coherent mapping refines reading the coherent view: afterwards the shadow, which
  is what the application reads, is exactly that view -- the host's own newer stores where there
  are any, the device's bytes elsewhere -- the view itself is unchanged, the baseline is what the
  device holds, and device memory is not written.
\<close>

theorem acquire_reads_the_view:
  assumes "mirrored srv handlers d mid m st" "mp \<in> set (mapped d)" "mr_memory_id mp = mid" "mr_emulated_coherent mp"
  shows "\<exists>mp' st'. acquire_mapping (link_rt srv handlers) (remote_id d) mp 0 st = ((True, mp'), st')
    \<and> mr_shadow mp' = coherent_view mp (memory_of m st)
    \<and> coherent_view mp' (memory_of m st') = coherent_view mp (memory_of m st)
    \<and> mr_baseline mp' = device_range mp (memory_of m st) \<and> memory_of m st' = memory_of m st"
proof -
  note l = mirrored_mapping [OF assms(1-3)]
  have "link_good srv handlers (remote_id d) mid m st" using assms(1) by (simp add: mirrored_def)
  then obtain st' where "acquire_mapping (link_rt srv handlers) (remote_id d) mp 0 st = ((True, merged mp 0 (memory_of m st)), st')"
    "memory_of m st' = memory_of m st"
    using server_link.acquire_mapping_ok [of srv handlers "remote_id d" mid m st 0 mp] assms(3,4) l unfolding memory_of_def by auto
  with merged_view [OF l(2)] show ?thesis by auto
qed


text \<open>
  Unmapping a coherent mapping stores the whole shadow, not the view: every byte of the range,
  including one the host never wrote, takes the shadow's value, so a device store that has not been
  acquired before the unmap is lost.
\<close>

theorem unmap_stores_whole_shadow:
  assumes "mirrored srv handlers d mid m st" "mid \<noteq> VK_NULL_HANDLE" "i < length (mapped d)" "mr_memory_id (mapped d ! i) = mid"
    "mr_emulated_coherent (mapped d ! i)"
  shows "device_range (mapped d ! i) (memory_of m (snd (UnmapMemory (link_rt srv handlers) d mid st))) = mr_shadow (mapped d ! i)
    \<and> mid \<notin> mr_memory_id ` set (mapped (fst (UnmapMemory (link_rt srv handlers) d mid st)))"
proof -
  let ?mp = "mapped d ! i"
  have wf: "device_wf d" using assms(1) by (simp add: mirrored_def)
  have res: "resolve_range (mapped d) (mid, mr_offset ?mp, mr_size ?mp) = Some (i, mr_offset ?mp, mr_size ?mp)"
    using resolve_whole_mapping [OF wf assms(3)] assms(4) by simp
  have fnd: "find (\<lambda>m. mr_memory_id m = mid \<and> mr_emulated_coherent m) (mapped d) = Some ?mp"
    using wf assms(3-5) by (auto simp: find_Some_iff device_wf_def distinct_conv_nth intro!: exI [of _ i])
  obtain st' where st': "flush_mapped (link_rt srv handlers) d [(mid, mr_offset ?mp, mr_size ?mp)] st = (VK_SUCCESS, st')"
    "memory_of m st' = write_at (memory_of m st) (unat (mr_offset ?mp)) (sub_bytes 0 (unat (mr_size ?mp)) (mr_shadow ?mp))"
    using mirrored_flush [OF assms(1) res] by auto
  have len: "length (mr_shadow ?mp) = unat (mr_size ?mp)" using mirrored_mapping(2) [OF assms(1) _ assms(4)] assms(3) by simp
  have "device_range ?mp (memory_of m st') = mr_shadow ?mp"
    unfolding st'(2) device_range_def using bytes_at_write_at [of _ _ "mr_shadow ?mp"] len by (simp add: sub_bytes_def)
  moreover have "snd (UnmapMemory (link_rt srv handlers) d mid st) = st'"
    using fnd st'(1) assms(2) by (simp add: UnmapMemory_def)
  moreover have "mid \<notin> mr_memory_id ` set (mapped (fst (UnmapMemory (link_rt srv handlers) d mid st)))"
    using erase_mapping_distinct [of "mapped d" mid] wf by (simp add: UnmapMemory_def Let_def device_wf_def)
  ultimately show ?thesis by simp
qed

text \<open>
  A transfer the server accepts stays inside the allocation, and the range it flushes or
  invalidates natively starts and ends on atoms, covers the transfer, exceeds it by less than an
  atom at either end and stays inside the allocation too, none of its additions wrapping, provided
  the allocation's size is a multiple of the atom.
\<close>

theorem transfer_in_bounds:
  assumes "validate_transfer t dev mid offset sz = Some m" "mem_non_coherent_atom_size m = 2 ^ n" "n < 64"
    and "2 ^ n dvd unat (mem_size m)"
  shows "let (start, len) = native_range m offset sz in
      unat offset + unat sz \<le> unat (mem_size m) \<and> 2 ^ n dvd unat start \<and> unat start \<le> unat offset
    \<and> (unat offset + unat sz = unat (mem_size m) \<and> len = VK_WHOLE_SIZE
       \<or> unat offset + unat sz \<le> unat start + unat len \<and> unat start + unat len \<le> unat (mem_size m)
         \<and> unat start + unat len < unat offset + unat sz + 2 ^ n \<and> 2 ^ n dvd unat len)"
proof -
  let ?a = "2 ^ n :: nat" and ?k = "unat (mem_size m)" and ?e = "unat offset + unat sz"
  note v = validated_transfer [OF assms(1)]
  have a64: "?a dvd 2 ^ 64" using assms(3) by (intro le_imp_power_dvd) simp
  have e: "unat (offset + sz) = ?e" using v(6) unat_less_64 [of "mem_size m"] by (intro unat_add_no_wrap) simp
  have start: "unat (fst (native_range m offset sz)) = unat offset - unat offset mod ?a"
    using align_down_exp [OF assms(3)] assms(2) by (simp add: native_range_def Let_def)
  then have sd: "?a dvd unat (fst (native_range m offset sz))" "unat (fst (native_range m offset sz)) \<le> unat offset"
    by (simp_all add: dvd_minus_mod)
  show ?thesis
  proof (cases "?e = ?k")
    case True
    then have "offset + sz = mem_size m" using e by (simp add: word_unat_eq_iff)
    then have "snd (native_range m offset sz) = VK_WHOLE_SIZE" by (simp add: native_range_def Let_def)
    with True sd v(6) show ?thesis by (simp add: split_beta Let_def)
  next
    case False
    then have ne: "offset + sz \<noteq> mem_size m" using e by auto
    have pos: "unat (2 ^ n :: u64) = ?a" using unat_of_nat_small [of "2 ^ n", where 'a = 64] power_strict_increasing [OF assms(3), of "2 :: nat"] by simp
    then have pred: "unat (2 ^ n - 1 :: u64) = ?a - 1" using unat_pred [of "2 ^ n :: u64"] assms(3) by (simp add: word_gt_0)
    obtain q where k: "?k = q * ?a" using assms(4) by (auto simp: dvd_def mult.commute)
    have "?k + ?a \<le> 2 ^ 64"
    proof -
      obtain p where p: "2 ^ 64 = p * ?a" using a64 by (auto simp: dvd_def mult.commute)
      have "q * ?a < p * ?a" using unat_less_64 [of "mem_size m"] k p by simp
      then have "Suc q * ?a \<le> p * ?a" by (intro mult_le_mono1) simp
      then show ?thesis using k p by simp
    qed
    then have small: "unat (offset + sz) + unat (2 ^ n - 1 :: u64) < 2 ^ 64"
      using e v(6) False pred by simp
    have "unat ((offset + sz) + (2 ^ n - 1)) = ?e + ?a - 1"
      using unat_add_no_wrap [OF small] e pred by simp
    then have up: "unat (align_down (offset + sz + 2 ^ n - 1) (2 ^ n)) = (?e + ?a - 1) - (?e + ?a - 1) mod ?a"
      using align_down_exp [OF assms(3), of "offset + sz + 2 ^ n - 1"] by (simp add: add_diff_eq)
    let ?s = "fst (native_range m offset sz)" and ?u = "align_down (offset + sz + 2 ^ n - 1) (2 ^ n)"
    have r: "unat ?u \<le> ?k" "?e \<le> unat ?u" "unat ?u < ?e + ?a"
      unfolding up using round_up_le [OF _ v(6) assms(4)] by (simp_all del: One_nat_def)
    have ud: "?a dvd unat ?u" unfolding up by (rule dvd_minus_mod)
    have len: "snd (native_range m offset sz) = ?u - ?s" using ne assms(2) by (simp add: native_range_def align_down_def Let_def)
    have "?s \<le> ?u" using sd(2) r(2) by (simp add: word_le_nat_alt)
    then have u: "unat (?u - ?s) = unat ?u - unat ?s" "unat ?s + unat (?u - ?s) = unat ?u" by (simp_all add: unat_sub word_le_nat_alt)
    have "?a dvd unat (?u - ?s)" unfolding u(1) using ud sd(1) by (intro dvd_diff_nat)
    then show ?thesis using sd r v(6) u(2) len unfolding split_beta Let_def by metis
  qed
qed
subsection \<open>An example\<close>

text \<open>
  A driver that keeps its memory: a copy out of a mapping reads what the log's copies into it have
  stored. One allocation of eight bytes, host visible, with an atom of four.
\<close>

fun copy_out :: "native_call list \<Rightarrow> native_call \<Rightarrow> bytes" where
  "copy_out log (NativeCall name [VNum h, VNum rel, VNum sz]) =
     (if name = ''memcpy_from'' then bytes_at (device_memory log h) (unat (fst (memory_state_of log) h) + unat rel) (unat sz) else [])"
| "copy_out log call = []"

definition memory_server :: Server where
  "memory_server = example_server\<lparr>native := \<lambda>log call. \<lparr>nr_result = VK_SUCCESS, nr_handles = [], nr_values = [], nr_data = copy_out log call, nr_out = []\<rparr>\<rparr>"

definition memory_opc :: "string \<Rightarrow> u32" where
  "memory_opc name = (if name = ''FlushMappedMemory'' then 2 else if name = ''DownloadMappedMemory'' then 3 else 50)"

definition memory_example :: ServerMemory where
  "memory_example = \<lparr>mem_handle = 100, mem_owner = 9, mem_size = 8, mem_property_flags = 2, mem_map_alignment = 64,
     mem_non_coherent_atom_size = 4\<rparr>"

definition memory_conn :: Conn where
  "memory_conn = Conn_init\<lparr>c_handshake_complete := True, c_tables := (set_table Devices \<lparr>m_slots = [9], m_owners = [0]\<rparr> ObjectTables_init)
     \<lparr>memory_metadata := [(5, memory_example)]\<rparr>,
     c_log := [NativeCall ''memcpy_to'' [VNum 100, VNum 4, VBytes [77]]]\<rparr>"

abbreviation memory_handlers :: "u32 \<Rightarrow> unit handler option" where
  "memory_handlers \<equiv> server_handlers memory_server memory_opc"

lemma memory_example_good: "link_good memory_server memory_handlers 1 5 memory_example (Connection_init, memory_conn)"
proof -
  have "memory_driver memory_server memory_example"
    by (simp add: memory_driver_def memory_server_def map_call_def range_call_def)
  moreover have "memory_handlers 2 = Some (handle_FlushMappedMemory memory_server)"
    "memory_handlers 3 = Some (handle_DownloadMappedMemory memory_server)"
    by (simp_all add: server_handlers_def request_table_def device_requests_def create_instances_def
        memory_requests_def memory_opc_def kOpHandshake_def)
  ultimately show ?thesis
    by (simp add: link_good_def conn_idle_def memory_ready_def Connection_init_def memory_conn_def wait_opcodes_def memory_server_def
        example_server_def memory_example_def kOpFlushMappedMemory_def kOpDownloadMappedMemory_def resolve_def set_table_def
        tbl_get_def VK_MEMORY_PROPERTY_HOST_VISIBLE_BIT_def)
qed

definition client_example :: RemoteDevice where
  "client_example = device_example\<lparr>remote_id := 1\<rparr>"

lemma client_example_mirrored:
  "mirrored memory_server memory_handlers client_example 5 memory_example (Connection_init, memory_conn)"
  using memory_example_good
  by (simp add: mirrored_def client_example_def device_example_def device_wf_def mapping_wf_def memory_example_def client_kMaxMappedChunk_def)

lemma client_example_memory: "memory_of memory_example (Connection_init, memory_conn) = (\<lambda>i. if i = 4 then 77 else 0)"
  by (auto simp: memory_of_def memory_conn_def memory_example_def device_memory_def memory_state_of_def apply_call_def write_at_def fun_eq_iff)

definition client_mapping :: MappedRange where
  "client_mapping = mapped client_example ! 0"

lemma client_mapping_simps [simp]:
  "client_mapping \<in> set (mapped client_example)" "mr_memory_id client_mapping = 5" "mr_emulated_coherent client_mapping"
  "mr_shadow client_mapping = [1, 2, 3]" "mr_baseline client_mapping = [1, 0, 3]" "mr_offset client_mapping = 2" "mr_size client_mapping = 3"
  "mapped client_example = [client_mapping]" "remote_id client_example = 1"
  by (simp_all add: client_mapping_def client_example_def device_example_def)

lemma client_example_view: "coherent_view client_mapping (memory_of memory_example (Connection_init, memory_conn)) = [0, 2, 77]"
  by (simp add: coherent_view_def client_example_memory upt_rec)

definition client_blank :: RemoteDevice where
  "client_blank = client_example\<lparr>mapped := [client_mapping\<lparr>mr_shadow := [0, 0, 0]\<rparr>]\<rparr>"

theorem flush_download_roundtrip_witness:
  "\<exists>st1 st2 d3. flush_mapped (link_rt memory_server memory_handlers) client_example [(5, 3, 2)] (Connection_init, memory_conn) = (VK_SUCCESS, st1)
    \<and> memory_of memory_example st1 4 = 3
    \<and> download_mapped (link_rt memory_server memory_handlers) client_blank [(5, 3, 2)] st1 = ((VK_SUCCESS, d3), st2)
    \<and> sub_bytes 1 2 (mr_shadow (mapped d3 ! 0)) = [2, 3]"
proof -
  have m2: "mirrored memory_server memory_handlers client_blank 5 memory_example (Connection_init, memory_conn)"
    using memory_example_good by (simp add: mirrored_def client_blank_def client_example_def device_example_def client_mapping_def device_wf_def
        mapping_wf_def memory_example_def client_kMaxMappedChunk_def)
  have r: "resolve_range (mapped client_example) (5, 3, 2) = Some (0, 3, 2)"
    "resolve_range (mapped client_blank) (5, 3, 2) = Some (0, 3, 2)"
    by (simp_all add: resolve_range_def client_blank_def VK_WHOLE_SIZE_def)
  have "remote_id client_blank = remote_id client_example" by (simp add: client_blank_def)
  from flush_download_roundtrip [OF client_example_mirrored r(1) m2 r(2) this]
  show ?thesis by (auto simp: client_blank_def sub_bytes_def write_at_def)
qed

theorem acquire_reads_the_view_witness:
  "\<exists>mp' st'. acquire_mapping (link_rt memory_server memory_handlers) 1 client_mapping 0 (Connection_init, memory_conn) = ((True, mp'), st')
    \<and> mr_shadow mp' = [0, 2, 77]"
  using acquire_reads_the_view [OF client_example_mirrored, of client_mapping] client_example_view by auto


theorem unmap_stores_whole_shadow_witness:
  "memory_of memory_example (Connection_init, memory_conn) 4 = 77
    \<and> device_range client_mapping (memory_of memory_example (snd (UnmapMemory (link_rt memory_server memory_handlers) client_example 5
         (Connection_init, memory_conn)))) = [1, 2, 3]"
  using unmap_stores_whole_shadow [OF client_example_mirrored, of 0] by (simp add: client_example_memory)

theorem transfer_in_bounds_witness:
  "native_range memory_example 5 2 = (4, 4) \<and> unat (4 :: u64) + unat (4 :: u64) \<le> unat (mem_size memory_example)"
proof -
  have v: "validate_transfer (c_tables memory_conn) 1 5 5 2 = Some memory_example"
    by (simp add: validate_transfer_def memory_conn_def memory_example_def resolve_def set_table_def tbl_get_def
        VK_MEMORY_PROPERTY_HOST_VISIBLE_BIT_def kMaxMappedChunk_def)
  have n: "native_range memory_example 5 2 = (4, 4)" by (simp add: native_range_def memory_example_def align_down_def)
  show ?thesis using transfer_in_bounds [OF v, of 2] n by (simp add: memory_example_def VK_WHOLE_SIZE_def)
qed

text \<open>Without the last proviso the native range may leave the allocation, which the driver forbids.\<close>

lemma native_range_past_the_end:
  "native_range (memory_example\<lparr>mem_size := 10\<rparr>) 8 1 = (8, 4) \<and> unat (8 :: u64) + unat (4 :: u64) > unat (10 :: u64)"
  by (simp add: native_range_def memory_example_def align_down_def)

end
