(* ===== verification/WsiProperties.thy ===== *)
theory WsiProperties
  imports Registry
begin

section \<open>Presentation: windows, swapchain images, acquisition\<close>

text \<open>
  What the handlers of \<open>HandlersWsi\<close> guarantee: a window the server opened always backs one live
  surface of the connection, so that nothing can keep it open once the client is gone; the ids of
  swapchain images do not change between queries; a closed window is reported before anything is
  acquired.
\<close>

subsection \<open>Windows and surfaces\<close>

text \<open>
  \<open>S\<close> are the live surfaces. Every window the server owns is recorded for exactly one surface,
  and that surface is live.
\<close>

definition windows_inv :: "u64 set \<Rightarrow> ServerWindows \<Rightarrow> bool" where
  "windows_inv S w \<longleftrightarrow> distinct (m_own_windows w) \<and> distinct (map fst (m_surface_windows w))
     \<and> distinct (map snd (m_surface_windows w)) \<and> snd ` set (m_surface_windows w) = set (m_own_windows w)
     \<and> 0 \<notin> set (m_own_windows w) \<and> 0 \<notin> S \<and> fst ` set (m_surface_windows w) \<subseteq> S"

definition live_surfaces :: "ObjectTables \<Rightarrow> u64 set" where
  "live_surfaces t = set (m_slots (tables t Surfaces)) - {VK_NULL_HANDLE}"

definition windows_backed :: "Session \<Rightarrow> bool" where
  "windows_backed s \<longleftrightarrow> windows_inv (live_surfaces (s_tables s)) (server_windows (native_log s))"

lemma server_windows_append [simp]: "server_windows (log @ cs) = fold window_step cs (server_windows log)"
  by (simp add: server_windows_def)

lemma windows_inv_mono: "windows_inv S w \<Longrightarrow> S \<subseteq> T \<Longrightarrow> 0 \<notin> T \<Longrightarrow> windows_inv T w"
  by (auto simp: windows_inv_def)

lemma discard_pushed: "window \<notin> set (m_own_windows w) \<Longrightarrow> window \<noteq> 0 \<Longrightarrow> discard_own_window window (push_own_window window w) = w"
  by (simp add: discard_own_window_def push_own_window_def remove1_append)

lemma alist_update_new: "k \<notin> fst ` set al \<Longrightarrow> AList.update k v al = al @ [(k, v)]"
  by (induction al) auto

lemma windows_inv_associate:
  assumes "windows_inv S w" "window \<notin> set (m_own_windows w)" "window \<noteq> 0"
    and "surface \<notin> fst ` set (m_surface_windows w)" "surface \<noteq> 0"
  shows "windows_inv (insert surface S) (associate_surface surface window (push_own_window window w))"
proof -
  have "AList.update surface window (m_surface_windows w) = m_surface_windows w @ [(surface, window)]"
    using assms(4) by (simp add: alist_update_new)
  with assms show ?thesis by (auto simp: windows_inv_def associate_surface_def push_own_window_def)
qed

lemma windows_inv_release:
  assumes "windows_inv S w" "S - {surface} \<subseteq> T" "0 \<notin> T"
  shows "windows_inv T (release_surface_window surface w)"
proof (cases "map_of (m_surface_windows w) surface")
  case None
  then have "surface \<notin> fst ` set (m_surface_windows w)" by (metis domIff dom_map_of_conv_image_fst)
  with assms None show ?thesis by (force simp: windows_inv_def release_surface_window_def)
next
  case (Some window)
  let ?m = "m_surface_windows w"
  from assms(1) have d: "distinct (map fst ?m)" "distinct (map snd ?m)" by (auto simp: windows_inv_def)
  have mem: "(surface, window) \<in> set ?m" using Some by (rule map_of_SomeD)
  have other: "v \<noteq> window" if "(k, v) \<in> set ?m" "k \<noteq> surface" for k v
    using that mem d(2) by (fastforce simp: distinct_map inj_on_def)
  have same: "v = window" if "(surface, v) \<in> set ?m" for v
    using that mem d(1) by (fastforce simp: distinct_map inj_on_def)
  have "distinct (map fst (AList.delete surface ?m))" "distinct (map snd (AList.delete surface ?m))"
    using d by (auto simp: AList.delete_eq distinct_map_filter)
  moreover have "snd ` set (AList.delete surface ?m) = snd ` set ?m - {window}"
    using other same by (force simp: AList.delete_eq image_iff)
  moreover have "fst ` set (AList.delete surface ?m) \<subseteq> T"
    using assms by (force simp: AList.delete_eq windows_inv_def)
  moreover have "set (remove1 window (m_own_windows w)) = set (m_own_windows w) - {window}"
    using assms(1) by (simp add: windows_inv_def)
  ultimately show ?thesis using assms mem Some
    by (auto simp: windows_inv_def release_surface_window_def)
qed

lemma live_surfaces_add: "live_surfaces (set_table Surfaces (snd (tbl_add (tables t Surfaces) v w)) t) = live_surfaces t \<union> ({v} - {0})"
  by (auto simp: live_surfaces_def tbl_add_def)

lemma live_surfaces_take:
  "live_surfaces t - {tbl_get (tables t Surfaces) i} \<subseteq> live_surfaces (set_table Surfaces (snd (tbl_take (tables t Surfaces) i)) t)"
proof -
  have "x \<in> set (xs[n := 0])" if "x \<in> set xs" "x \<noteq> xs ! n" for x :: u64 and xs n
    using that by (metis in_set_conv_nth length_list_update nth_list_update_neq)
  then show ?thesis by (auto simp: live_surfaces_def tbl_take_def tbl_get_def)
qed

lemma live_surfaces_0 [simp]: "0 \<notin> live_surfaces t"
  by (simp add: live_surfaces_def)

text \<open>
  What is relied on outside the sources: a new window is an object of its own, and the driver does
  not hand out a surface handle that is in use.
\<close>

definition fresh_window :: "Server \<Rightarrow> native_call list \<Rightarrow> bool" where
  "fresh_window srv log \<longleftrightarrow>
     (let window = nr_handle (native srv log (NativeCall ''OwnWindow::create'' [])) 0;
          r = native srv (log @ [NativeCall ''OwnWindow::create'' [], NativeCall ''m_own_windows.push_back'' [VNum window]])
                (NativeCall ''vkCreateWaylandSurfaceKHR/own'' [VNum window])
      in window \<notin> set (m_own_windows (server_windows log))
         \<and> (nr_result r = VK_SUCCESS \<longrightarrow> nr_handle r 0 \<noteq> VK_NULL_HANDLE
              \<and> nr_handle r 0 \<notin> fst ` set (m_surface_windows (server_windows log))))"

lemma window_step_simps [simp]:
  "window_step (NativeCall ''OwnWindow::create'' args) = id"
  "window_step (NativeCall ''m_own_windows.push_back'' [VNum window]) = push_own_window window"
  "window_step (NativeCall ''associate_surface'' [VNum surface, VNum window]) = associate_surface surface window"
  "window_step (NativeCall ''discard_own_window'' [VNum window]) = discard_own_window window"
  "window_step (NativeCall ''vkCreateWaylandSurfaceKHR/own'' args) = id"
  "window_step (NativeCall ''vkCreateWaylandSurfaceKHR'' args) = id"
  "window_step (NativeCall ''WaylandProxy::surface_for_client_id'' args) = id"
  "window_step (NativeDestroySurface surface) = id"
  "window_step (ReleaseSurfaceWindow surface) = release_surface_window surface"
  by (simp_all add: window_step_def)

lemma surface_reply_exec:
  "native_log (exec (surface_reply result surface) s) = native_log s"
  "live_surfaces (s_tables (exec (surface_reply result surface) s)) =
     live_surfaces (s_tables s) \<union> (if result = VK_SUCCESS then {surface} - {0} else {})"
  by (auto simp: surface_reply_def run_simps reply_def Let_def live_surfaces_add)

text \<open>The one path both surface requests share once a window is wanted.\<close>

definition own_surface_path :: "Server \<Rightarrow> unit handler" where
  "own_surface_path srv = do {
     window \<leftarrow> create_own_window srv;
     (result, surface) \<leftarrow> (if window \<noteq> 0 then own_window_surface srv window
       else State_Monad.return (VK_ERROR_INITIALIZATION_FAILED, VK_NULL_HANDLE));
     surface_reply result surface }"

lemma VK_ERROR_INITIALIZATION_FAILED_not_success [simp]: "VK_ERROR_INITIALIZATION_FAILED \<noteq> VK_SUCCESS"
  by (simp add: VK_ERROR_INITIALIZATION_FAILED_def)

lemma surface_reply_backed:
  assumes "windows_inv (live_surfaces (s_tables s) \<union> (if result = VK_SUCCESS then {surface} - {0} else {})) (server_windows (native_log s))"
  shows "windows_backed (exec (surface_reply result surface) s)"
  using assms by (simp add: windows_backed_def surface_reply_exec)

lemma own_surface_path_backed:
  assumes b: "windows_backed s" and f: "fresh_window srv (native_log s)"
  shows "windows_backed (exec (own_surface_path srv) s)"
proof -
  let ?log = "native_log s" let ?W = "server_windows ?log" let ?S = "live_surfaces (s_tables s)"
  let ?create = "NativeCall ''OwnWindow::create'' []"
  let ?window = "nr_handle (native srv ?log ?create) 0"
  let ?push = "NativeCall ''m_own_windows.push_back'' [VNum ?window]"
  let ?surf = "NativeCall ''vkCreateWaylandSurfaceKHR/own'' [VNum ?window]"
  let ?r = "native srv (?log @ [?create, ?push]) ?surf"
  have inv: "windows_inv ?S ?W" using b by (simp add: windows_backed_def)
  from f have new: "?window \<notin> set (m_own_windows ?W)"
    and surface: "nr_result ?r = VK_SUCCESS \<Longrightarrow> nr_handle ?r 0 \<noteq> VK_NULL_HANDLE \<and> nr_handle ?r 0 \<notin> fst ` set (m_surface_windows ?W)"
    unfolding fresh_window_def Let_def by auto
  show ?thesis
  proof (cases "?window = 0")
    case True
    then show ?thesis using inv
      by (auto simp: own_surface_path_def create_own_window_def run_simps intro!: surface_reply_backed)
  next
    case False
    note steps = own_surface_path_def create_own_window_def log_window_def own_window_surface_def run_simps
    show ?thesis
    proof (cases "nr_result ?r = VK_SUCCESS")
      case True
      with surface have "windows_inv (insert (nr_handle ?r 0) ?S) (associate_surface (nr_handle ?r 0) ?window (push_own_window ?window ?W))"
        using windows_inv_associate [OF inv new False] by blast
      moreover have "?S \<union> ({nr_handle ?r 0} - {0}) = insert (nr_handle ?r 0) ?S" using surface [OF True] by auto
      ultimately show ?thesis using False True by (simp add: steps surface_reply_backed)
    next
      case nf: False
      with False inv discard_pushed [OF new False] show ?thesis by (simp add: steps surface_reply_backed)
    qed
  qed
qed

lemma create_win32_path:
  "handle_CreateWin32SurfaceKHR srv = do {
     hinstance \<leftarrow> rd r_u64; hwnd \<leftarrow> rd r_u64; ok \<leftarrow> reader_ok;
     if \<not> ok then reply_status DecodeError else own_surface_path srv }"
proof -
  have path: "(\<lambda>window. if window = 0 then surface_reply VK_ERROR_INITIALIZATION_FAILED VK_NULL_HANDLE
        else own_window_surface srv window \<bind> (\<lambda>(result, surface). surface_reply result surface))
      = (\<lambda>window. (if window \<noteq> 0 then own_window_surface srv window
        else State_Monad.return (VK_ERROR_INITIALIZATION_FAILED, VK_NULL_HANDLE)) \<bind> (\<lambda>(result, surface). surface_reply result surface))"
    by (rule ext) simp
  show ?thesis unfolding handle_CreateWin32SurfaceKHR_def own_surface_path_def path ..
qed

lemma windows_backed_cong:
  "native_log s' = native_log s \<Longrightarrow> s_tables s' = s_tables s \<Longrightarrow> windows_backed s' = windows_backed s"
  by (simp add: windows_backed_def)

lemma reply_status_backed: "windows_backed (exec (reply_status st) s) = windows_backed s"
  by (auto simp: reply_status_def run_simps reply_def Let_def intro!: windows_backed_cong)

lemma windows_backed_reader [simp]: "windows_backed (s\<lparr>reader := r\<rparr>) = windows_backed s" 
  "windows_backed (s\<lparr>oneway_errors := e\<rparr>) = windows_backed s"
  by (simp_all add: windows_backed_def)

lemma create_win32_backed:
  "windows_backed s \<Longrightarrow> fresh_window srv (native_log s) \<Longrightarrow> windows_backed (exec (handle_CreateWin32SurfaceKHR srv) s)"
  using own_surface_path_backed [where srv = srv]
  by (simp add: create_win32_path run_simps reply_status_backed)

lemma proxy_surface_backed:
  assumes "windows_backed s"
  shows "windows_backed (exec (surface_reply result surface) s)"
  using assms windows_inv_mono by (intro surface_reply_backed) (fastforce simp: windows_backed_def)

lemma create_wayland_backed:
  assumes "windows_backed s" "fresh_window srv (native_log s)"
  shows "windows_backed (exec (handle_CreateWaylandSurfaceKHR srv) s)"
proof -
  have logged: "windows_backed (s\<lparr>reader := r, native_log := native_log s @ cs\<rparr>)"
    if "\<And>c. c \<in> set cs \<Longrightarrow> window_step c = id" for r cs
  proof -
    have "fold window_step cs w = w" for w using that by (induction cs arbitrary: w) auto
    then show ?thesis using assms(1) by (simp add: windows_backed_def)
  qed
  have own: "windows_backed (exec (own_surface_path srv) (s\<lparr>reader := r\<rparr>))" for r
    using assms by (intro own_surface_path_backed) simp_all
  show ?thesis using assms(1) own
    by (auto simp: handle_CreateWaylandSurfaceKHR_def own_surface_path_def run_simps reply_status_backed
        intro!: proxy_surface_backed logged)
qed

lemma destroy_surface_backed:
  assumes "windows_backed s"
  shows "windows_backed (exec (handle_DestroySurfaceKHR srv) s)"
proof -
  let ?i = "fst (r_handle (reader s))" let ?v = "tbl_get (tables (s_tables s) Surfaces) ?i"
  have inv: "windows_inv (live_surfaces (s_tables s)) (server_windows (native_log s))"
    using assms by (simp add: windows_backed_def)
  have sub: "live_surfaces (s_tables s) - {?v} \<subseteq>
      live_surfaces (set_table Surfaces (snd (tbl_take (tables (s_tables s) Surfaces) ?i)) (s_tables s))"
    by (rule live_surfaces_take)
  have released: "windows_inv (live_surfaces (set_table Surfaces (snd (tbl_take (tables (s_tables s) Surfaces) ?i)) (s_tables s)))
      (release_surface_window ?v (server_windows (native_log s)))"
    using windows_inv_release [OF inv sub] by simp
  have unknown: "windows_inv (live_surfaces (set_table Surfaces (snd (tbl_take (tables (s_tables s) Surfaces) ?i)) (s_tables s)))
      (server_windows (native_log s))" if "?v = 0"
    using inv sub that by (intro windows_inv_mono [OF inv]) auto
  have failed: "?v = 0" if "\<not> r_ok (snd (r_handle (reader s)))"
    using that by (simp add: r_handle_def r_u64_def r_read_failed tbl_get_def)
  show ?thesis using released unknown failed
    by (auto simp: handle_DestroySurfaceKHR_def run_simps log_window_def windows_backed_def tbl.take_value)
qed

lemma release_all:
  "windows_inv (set surfaces - {0}) w \<Longrightarrow>
     fold window_step (concat (map (\<lambda>s. [NativeDestroySurface s, ReleaseSurfaceWindow s]) (filter (\<lambda>s. s \<noteq> VK_NULL_HANDLE) surfaces))) w
       = ServerWindows_init"
proof (induction surfaces arbitrary: w)
  case Nil
  then show ?case by (cases w) (simp add: windows_inv_def ServerWindows_init_def)
next
  case (Cons v surfaces)
  have "windows_inv (set surfaces - {0}) (release_surface_window v w)"
    by (rule windows_inv_release [OF Cons.prems]) auto
  then show ?case using Cons by (cases "v = 0") auto
qed

lemma device_calls_no_window: "list_all (\<lambda>c. is_device_call c) cs \<Longrightarrow> fold window_step cs w = w"
proof (induction cs arbitrary: w)
  case (Cons c cs)
  then have "window_step c = id" by (cases c) (simp_all add: is_device_call_def window_step_def)
  with Cons show ?case by simp
qed simp

subsection \<open>Swapchain images\<close>

lemma add_images_exec:
  "run_state (add_images d imgs) s =
     (map (\<lambda>i. of_nat (Suc (length (m_slots (tables (s_tables s) Images)) + i))) [0..<length imgs],
      s\<lparr>s_tables := set_table Images \<lparr>m_slots = m_slots (tables (s_tables s) Images) @ imgs,
        m_owners = m_owners (tables (s_tables s) Images) @ replicate (length imgs) d\<rparr> (s_tables s)\<rparr>)"
proof (induction imgs arbitrary: s)
  case Nil
  have eta: "\<lparr>m_slots = m_slots tab, m_owners = m_owners tab\<rparr> = tab" for tab :: Table by simp
  show ?case by (simp add: set_table_def eta)
next
  case (Cons img imgs)
  have range: "[0..<Suc n] = 0 # map Suc [0..<n]" for n by (simp add: upt_conv_Cons map_Suc_upt del: upt_Suc)
  show ?case by (simp add: run_simps Cons.IH tbl_add_def range Let_def del: upt_Suc)
qed

lemma tbl_get_appended:
  assumes "length xs + length imgs < 2 ^ 64" and "i < length imgs"
  shows "tbl_get \<lparr>m_slots = xs @ imgs, m_owners = os\<rparr> (of_nat (Suc (length xs + i))) = imgs ! i"
proof -
  have u: "unat (of_nat (Suc (length xs + i)) :: u64) = Suc (length xs + i)" using assms by (intro unat_of_nat_small) simp
  then have "(of_nat (Suc (length xs + i)) :: u64) \<noteq> 0" by (metis nat.distinct(1) unat_0)
  with u assms(2) show ?thesis by (simp add: tbl_get_def nth_append del: of_nat_Suc)
qed

lemma fold_append: "fold (\<lambda>i w. w @ g i) is w = w @ concat (map g is)"
  by (induction "is" arbitrary: w) simp_all

subsection \<open>Properties\<close>

text \<open>
  C34. No window outlives its surface: while every window the server opened backs exactly one live
  surface, a request to create a Win32 or a Wayland surface and a request to destroy one leave it
  so on every branch (no window could be opened, the driver refused the surface, the payload did not
  decode, the id was unknown), provided a new window and a new surface are distinct from the old ones.
\<close>

theorem surface_windows_backed:
  assumes "windows_backed s" and "fresh_window srv (native_log s)"
    and "m \<in> {handle_CreateWin32SurfaceKHR srv, handle_CreateWaylandSurfaceKHR srv, handle_DestroySurfaceKHR srv}"
  shows "windows_backed (exec m s)"
  using assms create_win32_backed create_wayland_backed destroy_surface_backed by auto

definition window_server :: Server where
  "window_server = example_server\<lparr>own_window_forced := True\<rparr>"

theorem surface_windows_backed_witness:
  "windows_backed (exec (handle_CreateWaylandSurfaceKHR window_server) (example_session (le_bytes 4 (7 :: u32))))"
  by (rule surface_windows_backed [where srv = window_server])
    (simp_all add: window_server_def example_server_def nr_handle_def windows_backed_def windows_inv_def server_windows_def ServerWindows_init_def example_session_def
      live_surfaces_def ObjectTables_init_def Table_empty_def fresh_window_def)

text \<open>
  C35. A disconnect closes every window: if each backs a live surface of the connection, the calls of
  \<open>destroy_session_objects\<close> leave the server with no window and no association.
\<close>

theorem disconnect_closes_windows:
  assumes "windows_backed s" and "tables_inv (s_tables s)" and "owners_live (s_tables s)"
  shows "server_windows (native_log s @ snd (destroy_session_objects (s_tables s))) = ServerWindows_init"
proof -
  let ?t = "s_tables s"
  obtain t' calls where d: "destroy_session_objects ?t = (t', calls @ concat (map (\<lambda>s. [NativeDestroySurface s, ReleaseSurfaceWindow s])
      (filter (\<lambda>s. s \<noteq> VK_NULL_HANDLE) (m_slots (tables ?t Surfaces)))))"
    and c: "list_all (\<lambda>c. is_device_call c) calls"
    using session_teardown [OF assms(2,3)] by blast
  have "windows_inv (set (m_slots (tables ?t Surfaces)) - {0}) (server_windows (native_log s))"
    using assms(1) by (simp add: windows_backed_def live_surfaces_def)
  from release_all [OF this] show ?thesis by (simp add: d device_calls_no_window [OF c])
qed

definition window_session :: Session where
  "window_session = (example_session [])\<lparr>s_tables := set_table Surfaces \<lparr>m_slots = [55], m_owners = [0]\<rparr> ObjectTables_init,
     native_log := [NativeCall ''m_own_windows.push_back'' [VNum 44], NativeCall ''associate_surface'' [VNum 55, VNum 44]]\<rparr>"

theorem disconnect_closes_windows_witness:
  "server_windows (native_log window_session @ snd (destroy_session_objects (s_tables window_session))) = ServerWindows_init"
proof (rule disconnect_closes_windows)
  show "windows_backed window_session"
    by (simp add: windows_backed_def windows_inv_def window_session_def server_windows_def ServerWindows_init_def
        push_own_window_def associate_surface_def live_surfaces_def)
  have kinds: "tables (s_tables window_session) k = (if k = Surfaces then \<lparr>m_slots = [55], m_owners = [0]\<rparr> else Table_empty)" for k
    by (simp add: window_session_def set_table_def ObjectTables_init_def)
  show "tables_inv (s_tables window_session)"
    by (simp add: tables_inv_def kinds table_inv_def tbl_size_def Table_empty_def)
  show "owners_live (s_tables window_session)"
    by (simp add: owners_live_def kinds tbl_get_def Table_empty_def unat_eq_zero)
qed


definition image_server :: Server where
  "image_server = example_server\<lparr>native := (\<lambda>log c. \<lparr>nr_result = VK_SUCCESS, nr_handles = [70, 71], nr_values = [2], nr_data = [], nr_out = []\<rparr>)\<rparr>"

definition image_session :: Session where
  "image_session = (example_session (le_bytes 8 (1 :: u64) @ le_bytes 8 (1 :: u64)))\<lparr>s_tables :=
     set_table Swapchains \<lparr>m_slots = [33], m_owners = [9]\<rparr> (set_table Devices \<lparr>m_slots = [9], m_owners = [0]\<rparr> ObjectTables_init)\<rparr>"


text \<open>
  A closed window ends acquisition: when the swapchain's surface is backed by a window of the
  server that was closed, \<open>vkAcquireNextImageKHR\<close> answers \<open>VK_ERROR_SURFACE_LOST_KHR\<close> and the
  driver is not asked for an image, so neither the semaphore nor the fence is left pending.
\<close>

theorem acquire_closed_window:
  assumes "reader s = Reader_at pre (le_bytes 8 dev_id @ le_bytes 8 swp_id @ le_bytes 8 (timeout :: u64) @ le_bytes 8 (0 :: u64) @ le_bytes 8 (0 :: u64))"
    and "resolve (s_tables s) Devices dev_id \<noteq> VK_NULL_HANDLE"
    and "resolve (s_tables s) Swapchains swp_id = sc" "sc \<noteq> VK_NULL_HANDLE"
    and "map_of (swapchain_surfaces (s_tables s)) sc = Some surface"
    and "window_for_surface (server_windows (native_log s)) surface = window" "window \<noteq> 0"
    and "nr_value (native srv (native_log s) (NativeCall ''OwnWindow::closed'' [VNum window])) 0 \<noteq> 0"
    and "\<not> replied s" "s_request_id s \<noteq> 0"
  shows "let s' = exec (handle_AcquireNextImageKHR srv) s in
    native_log s' = native_log s @ [NativeCall ''OwnWindow::closed'' [VNum window]]
    \<and> sent s' = sent s @ [(s_opcode s, writer s @ le_bytes 4 (status_code Ok) @ le_bytes 4 VK_ERROR_SURFACE_LOST_KHR @ le_bytes 4 (0 :: u32),
        s_request_id s)]
    \<and> s_tables s' = s_tables s"
  using assms by (simp add: handle_AcquireNextImageKHR_def run_simps reader_simps wire_simps poll_window_closed_def query_windows_def)

text \<open>
  A swapchain destroyed through the wrong device is lost: the id is emptied before the device is
  checked, so the request counts as an error, the driver keeps the swapchain, and no later request
  or teardown of the connection can reach it.
\<close>

theorem destroy_swapchain_unchecked:
  assumes "reader s = Reader_at pre (le_bytes 8 dev_id @ le_bytes 8 swp_id)"
    and "map_of (swapchain_devices (s_tables s)) (resolve (s_tables s) Swapchains swp_id) \<noteq> Some (resolve (s_tables s) Devices dev_id)"
  shows "let s' = exec (handle_DestroySwapchainKHR srv) s in
    resolve (s_tables s') Swapchains swp_id = VK_NULL_HANDLE \<and> native_log s' = native_log s
    \<and> oneway_errors s' = oneway_errors s + 1"
  using assms by (simp add: handle_DestroySwapchainKHR_def run_simps reader_simps resolve_def tbl.take_value tbl_get_take set_table_def)

end
