(* ===== verification/RawCodec.thy ===== *)
theory RawCodec
  imports QueryCodec
begin

section \<open>Create infos (common/marshal.cpp, groups A and B)\<close>

text \<open>
  Most structures cross the wire as their memory image, a blob of \<open>sizeof\<close> bytes with the pointers
  cleared by the writer, followed by what the pointers pointed to; the reader copies the image,
  replaces the pointers and resolves the handles. Other structures are written field by field. Both
  are described here by a list of parts over the slots of the structure: a slot is one member, in the
  order of the C declaration, padding left out; a pointer's slot holds its pointee, a null pointer
  is the number 0. \<open>w_parts\<close> is the writer, \<open>r_parts\<close> the reader and \<open>view_parts\<close> what the
  receiver is meant to see; padding bytes, whose contents C++ leaves open, are written as zero.
\<close>

subsection \<open>Pieces\<close>

text \<open>A codec of one value that a reader may refuse.\<close>

locale piece_codec =
  fixes w :: "vk \<Rightarrow> bytes option" and r :: "Reader \<Rightarrow> vk option \<times> Reader" and view :: "vk \<Rightarrow> vk option"
  assumes roundtrip: "w v = Some b \<Longrightarrow> view v = Some v' \<Longrightarrow> r (Reader_at pre (b @ rest)) = (Some v', Reader_at (pre @ b) rest)"

definition read_raw :: "nat \<Rightarrow> Reader \<Rightarrow> bytes option \<times> Reader" where
  "read_raw n r = (case r_bytes UINT32_MAX r of
       (None, r1) \<Rightarrow> (None, r1) | (Some buf, r1) \<Rightarrow> (if length buf \<noteq> n then None else Some buf, r1))"

definition write_pod_array :: "u32 \<Rightarrow> nat \<Rightarrow> vk \<Rightarrow> bytes option" where
  "write_pod_array count n v = (if count = 0 then Some (blob []) else case bytes_of v of
       None \<Rightarrow> None | Some arr \<Rightarrow> if length arr = unat count * n then Some (blob arr) else None)"

definition read_pod_array :: "u32 \<Rightarrow> nat \<Rightarrow> Reader \<Rightarrow> vk option \<times> Reader" where
  "read_pod_array count n r = (if count > kMaxArrayElements then (None, r) else
     case read_raw (unat count * n) r of (None, r1) \<Rightarrow> (None, r1)
     | (Some buf, r1) \<Rightarrow> (Some (if count = 0 then VNum 0 else VBytes buf), r1))"

definition view_pod_array :: "u32 \<Rightarrow> nat \<Rightarrow> vk \<Rightarrow> vk option" where
  "view_pod_array count n v = (if count > kMaxArrayElements then None else if count = 0 then Some (VNum 0)
     else case bytes_of v of Some arr \<Rightarrow> if length arr < 2 ^ 32 then Some v else None | None \<Rightarrow> None)"

lemma read_raw_at: "length b < 2 ^ 32 \<Longrightarrow> length b = n \<Longrightarrow> read_raw n (Reader_at pre (blob b @ rest)) = (Some b, Reader_at (pre @ blob b) rest)"
  by (simp add: read_raw_def reader_simps UINT32_MAX_def)

interpretation pods: piece_codec "write_pod_array count n" "read_pod_array count n" "view_pod_array count n"
  by unfold_locales (auto simp: write_pod_array_def read_pod_array_def view_pod_array_def value_some read_raw_at
      split: if_splits option.splits)

text \<open>A presence word in front of a value, as \<open>write_opt_pod\<close> and \<open>write_opt_pod_array\<close> have it.\<close>

definition w_opt :: "(vk \<Rightarrow> bytes option) \<Rightarrow> vk \<Rightarrow> bytes option" where
  "w_opt w v = (if v = VNum 0 then Some (le_bytes 4 (0 :: u32)) else map_option ((@) (le_bytes 4 (1 :: u32))) (w v))"

definition r_opt :: "(Reader \<Rightarrow> vk option \<times> Reader) \<Rightarrow> Reader \<Rightarrow> vk option \<times> Reader" where
  "r_opt dec r = (let (present, r1) = r_u32 r in
     if \<not> r_ok r1 then (None, r1) else if present = 0 then (Some (VNum 0), r1) else dec r1)"

definition view_opt :: "(vk \<Rightarrow> vk option) \<Rightarrow> vk \<Rightarrow> vk option" where
  "view_opt view v = (if v = VNum 0 then Some (VNum 0) else view v)"

definition w_each :: "(vk \<Rightarrow> bytes option) \<Rightarrow> nat \<Rightarrow> vk \<Rightarrow> bytes option" where
  "w_each w n v = (case list_of v of None \<Rightarrow> None | Some vs \<Rightarrow>
     if length vs \<noteq> n then None else map_option concat (those (map w vs)))"

definition view_each :: "(vk \<Rightarrow> vk option) \<Rightarrow> vk \<Rightarrow> vk option" where
  "view_each view v = (case list_of v of None \<Rightarrow> None | Some vs \<Rightarrow> map_option VList (those (map view vs)))"

definition r_each :: "(Reader \<Rightarrow> vk option \<times> Reader) \<Rightarrow> nat \<Rightarrow> Reader \<Rightarrow> vk option \<times> Reader" where
  "r_each dec n r = (case read_each dec n r of (vs, r1) \<Rightarrow> (map_option VList vs, r1))"

context piece_codec
begin

lemma opt: "piece_codec (w_opt w) (r_opt r) (view_opt view)"
  by unfold_locales (auto simp: w_opt_def r_opt_def view_opt_def reader_simps roundtrip split: if_splits)

lemma read_each_at:
  "those (map w vs) = Some bs \<Longrightarrow> those (map view vs) = Some vs' \<Longrightarrow>
     read_each r (length vs) (Reader_at pre (concat bs @ rest)) = (Some vs', Reader_at (pre @ concat bs) rest)"
proof (induction vs arbitrary: bs vs' pre)
  case (Cons v vs)
  then show ?case by (auto simp: roundtrip split: option.splits)
qed simp

lemma each: "piece_codec (w_each w n) (r_each r n) (view_each view)"
  by unfold_locales (auto simp: w_each_def r_each_def view_each_def read_each_at split: option.splits if_splits)

end

text \<open>Handles, strings and bytes of a 64-bit length.\<close>

text \<open>
  What a reader does with an id: 0 is the null handle (\<open>Direct\<close>: the resolver is asked for 0 too), and an id that does
  not resolve becomes the null handle (\<open>Lax\<close>) or is refused; \<open>Required\<close> refuses the null handle as well.
\<close>

datatype hpolicy = Lax | Strict | Direct | Required

definition resolve_id :: "resolver \<Rightarrow> table_kind \<Rightarrow> hpolicy \<Rightarrow> u64 \<Rightarrow> u64 option" where
  "resolve_id hr k policy i = (let v = (if i = 0 \<and> policy \<noteq> Direct then 0 else hr k i) in
     if v = 0 \<and> (policy = Required \<or> policy \<noteq> Lax \<and> i \<noteq> 0) then None else Some v)"

definition w_id :: "vk \<Rightarrow> bytes option" where
  "w_id v = map_option (le_bytes 8) (num_of v)"

definition r_id :: "resolver \<Rightarrow> table_kind \<Rightarrow> hpolicy \<Rightarrow> Reader \<Rightarrow> vk option \<times> Reader" where
  "r_id hr k policy r = (let (i, r1) = r_handle r in
     if \<not> r_ok r1 then (None, r1) else (map_option VNum (resolve_id hr k policy i), r1))"

definition view_id :: "resolver \<Rightarrow> table_kind \<Rightarrow> hpolicy \<Rightarrow> vk \<Rightarrow> vk option" where
  "view_id hr k policy v = Option.bind (num_of v) (\<lambda>i. map_option VNum (resolve_id hr k policy i))"

interpretation ids: piece_codec w_id "r_id hr k policy" "view_id hr k policy"
  by unfold_locales (auto simp: w_id_def r_id_def view_id_def value_some reader_simps)

definition w_cstring :: "vk \<Rightarrow> bytes option" where
  "w_cstring v = (case v of VBytes s \<Rightarrow> Some (w_string [] (Some s)) | VNum x \<Rightarrow> if x = 0 then Some (w_string [] None) else None | _ \<Rightarrow> None)"

definition r_cstring :: "Reader \<Rightarrow> vk option \<times> Reader" where
  "r_cstring r = (case r_string r of (s, r1) \<Rightarrow> (map_option VBytes s, r1))"

definition view_cstring :: "vk \<Rightarrow> vk option" where
  "view_cstring v = (case v of
       VBytes s \<Rightarrow> if length (takeWhile (\<lambda>c. c \<noteq> 0) s) < 2 ^ 32 then Some (VBytes (takeWhile (\<lambda>c. c \<noteq> 0) s)) else None
     | VNum x \<Rightarrow> if x = 0 then Some (VBytes []) else None | _ \<Rightarrow> None)"

interpretation cstrings: piece_codec w_cstring r_cstring view_cstring
  by unfold_locales (auto simp: w_cstring_def r_cstring_def view_cstring_def w_string_def wire_simps reader_simps
      split: vk.splits if_splits)

definition read_bytes_to_arena :: "u64 \<Rightarrow> Reader \<Rightarrow> vk option \<times> Reader" where
  "read_bytes_to_arena expected r = (case read_raw (unat expected) r of (None, r1) \<Rightarrow> (None, r1)
     | (Some buf, r1) \<Rightarrow> (Some (if expected = 0 then VNum 0 else VBytes buf), r1))"

definition w_data :: "u64 \<Rightarrow> vk \<Rightarrow> bytes option" where
  "w_data n v = (if n = 0 then Some (blob []) else case bytes_of v of None \<Rightarrow> None
     | Some b \<Rightarrow> if length b = unat n then Some (blob b) else None)"

definition view_data :: "u64 \<Rightarrow> vk \<Rightarrow> vk option" where
  "view_data n v = (if n = 0 then Some (VNum 0) else if unat n < 2 ^ 32 then Some v else None)"

interpretation data: piece_codec "w_data n" "read_bytes_to_arena n" "view_data n"
  by unfold_locales (auto simp: w_data_def read_bytes_to_arena_def view_data_def value_some read_raw_at
      split: if_splits option.splits)

definition read_counted_array :: "u32 \<Rightarrow> (Reader \<Rightarrow> vk option \<times> Reader) \<Rightarrow> Reader \<Rightarrow> vk option \<times> Reader" where
  "read_counted_array count dec r = (if count = 0 then (Some (VNum 0), r)
     else if count > kMaxArrayElements then (None, r) else r_each dec (unat count) r)"

definition write_counted_array :: "u32 \<Rightarrow> (vk \<Rightarrow> bytes option) \<Rightarrow> vk \<Rightarrow> bytes option" where
  "write_counted_array count w v = (if count = 0 then Some [] else w_each w (unat count) v)"

definition view_counted_array :: "u32 \<Rightarrow> (vk \<Rightarrow> vk option) \<Rightarrow> vk \<Rightarrow> vk option" where
  "view_counted_array count view v = (if count = 0 then Some (VNum 0)
     else if count > kMaxArrayElements then None else view_each view v)"

context piece_codec
begin

lemma counted: "piece_codec (write_counted_array count w) (read_counted_array count r) (view_counted_array count view)"
  using piece_codec.roundtrip [OF each]
  by unfold_locales (auto simp: write_counted_array_def read_counted_array_def view_counted_array_def split: if_splits)

end

subsection \<open>Memory images\<close>

datatype "member" = M32 | M64 | MPad nat | MPtr | MRaw | MHandle table_kind hpolicy

fun member_size :: "member \<Rightarrow> nat" where
  "member_size M32 = 4" | "member_size M64 = 8" | "member_size (MPad n) = n" | "member_size MPtr = 8" | "member_size MRaw = 8"
| "member_size (MHandle k policy) = 8"

definition image_size :: "member list \<Rightarrow> nat" where
  "image_size ms = sum_list (map member_size ms)"

fun w_member :: "member \<Rightarrow> vk \<Rightarrow> bytes option" where
  "w_member M32 v = map_option (\<lambda>x. le_bytes 4 (ucast x :: u32)) (num_of v)"
| "w_member MPtr v = Some (le_bytes 8 (0 :: u64))"
| "w_member m v = map_option (le_bytes 8) (num_of v)"

fun w_members :: "member list \<Rightarrow> vk list \<Rightarrow> bytes option" where
  "w_members [] vs = Some []"
| "w_members (MPad n # ms) vs = map_option ((@) (replicate n 0)) (w_members ms vs)"
| "w_members (m # ms) (v # vs) = Option.bind (w_member m v) (\<lambda>b. map_option ((@) b) (w_members ms vs))"
| "w_members (m # ms) [] = None"

fun r_member :: "resolver \<Rightarrow> member \<Rightarrow> bytes \<Rightarrow> vk option" where
  "r_member hr M32 b = Some (VNum (ucast (of_le_bytes b :: u32)))"
| "r_member hr (MHandle k policy) b = map_option VNum (resolve_id hr k policy (of_le_bytes b))"
| "r_member hr m b = Some (VNum (of_le_bytes b))"

fun r_members :: "resolver \<Rightarrow> member list \<Rightarrow> bytes \<Rightarrow> vk list option" where
  "r_members hr [] b = Some []"
| "r_members hr (MPad n # ms) b = r_members hr ms (drop n b)"
| "r_members hr (m # ms) b = Option.bind (r_member hr m (take (member_size m) b))
     (\<lambda>v. map_option ((#) v) (r_members hr ms (drop (member_size m) b)))"

fun view_member :: "resolver \<Rightarrow> member \<Rightarrow> vk \<Rightarrow> vk option" where
  "view_member hr M32 v = map_option (\<lambda>x. VNum (ucast (ucast x :: u32))) (num_of v)"
| "view_member hr MPtr v = Some (VNum 0)"
| "view_member hr (MHandle k policy) v = view_id hr k policy v"
| "view_member hr m v = map_option VNum (num_of v)"

fun view_members :: "resolver \<Rightarrow> member list \<Rightarrow> vk list \<Rightarrow> vk list option" where
  "view_members hr [] vs = Some []"
| "view_members hr (MPad n # ms) vs = view_members hr ms vs"
| "view_members hr (m # ms) (v # vs) = Option.bind (view_member hr m v) (\<lambda>v'. map_option ((#) v') (view_members hr ms vs))"
| "view_members hr (m # ms) [] = None"

lemma le_words [simp]: "of_le_bytes (le_bytes 4 (v :: u32)) = v" "of_le_bytes (le_bytes 8 (x :: u64)) = x"
  by (simp_all add: of_le_bytes_le_bytes)

lemma members_roundtrip:
  "w_members ms vs = Some b \<Longrightarrow> length b = image_size ms \<and> r_members hr ms b = view_members hr ms vs"
proof (induction ms vs arbitrary: b rule: w_members.induct)
  case (1 vs)
  then show ?case by (simp add: image_size_def)
next
  case (2 n ms vs)
  then show ?case by (auto simp: image_size_def)
qed (auto simp: image_size_def bind_eq_Some_conv value_some view_id_def)

subsection \<open>Structures\<close>

text \<open>
  The parts of a structure. Naturals are slots: first the pointer's, then the count's; then element
  sizes and least wire sizes.
\<close>

datatype part =
    PImage "member list"
  | PWord nat | PLong nat
  | PType nat u32 bool                    \<comment> \<open>an sType the reader checks, and the writer if so flagged\<close>
  | PTag nat u32                          \<comment> \<open>an sType the writer checks and the reader sets, not on the wire\<close>
  | PId nat table_kind hpolicy
  | PPods nat nat nat | POptPods nat nat nat | POptPod nat nat
  | PMask nat nat                         \<comment> \<open>a sample mask of \<open>(samples + 31) / 32\<close> words\<close>
  | PHandles nat nat table_kind hpolicy | POptHandles nat nat table_kind
  | PHandlesUnless nat u32 nat nat table_kind   \<comment> \<open>left out when a flag is set\<close>
  | PStrings nat nat | PData nat nat | PName nat
  | PChain nat PNextContext
  | PNull nat                             \<comment> \<open>a word that says whether the pointer is null; the reader refuses if not\<close>
  | PPlain nat nat u32                    \<comment> \<open>the writer refuses a pointer, or a flag of the mask\<close>
  | PClear nat                            \<comment> \<open>the reader clears the pointer\<close>
  | PLimit nat | PBound nat               \<comment> \<open>at most \<open>kMaxArrayElements\<close>: for both sides, for the reader\<close>
  | PNonzero nat
  | PStructs nat nat nat nat "part list"  \<comment> \<open>pointer, count, least wire size (0: not checked), slots of an element\<close>
  | POptStructs nat nat nat "part list"   \<comment> \<open>a presence word, then as many elements as another array has\<close>
  | POpt nat nat bool "part list"         \<comment> \<open>pointer, slots, whether presence must be 0 or 1\<close>
  | PWhen nat "part list"                 \<comment> \<open>only where the pointer is not null\<close>

type_synonym raw_struct = "nat \<times> part list"

definition slot :: "vk list \<Rightarrow> nat \<Rightarrow> vk" where
  "slot vs i = (if i < length vs then vs ! i else VNum 0)"

definition slot64 :: "vk list \<Rightarrow> nat \<Rightarrow> u64" where
  "slot64 vs i = (case num_of (slot vs i) of Some x \<Rightarrow> x | None \<Rightarrow> 0)"

definition slot32 :: "vk list \<Rightarrow> nat \<Rightarrow> u32" where
  "slot32 vs i = ucast (slot64 vs i)"

definition no_slots :: "nat \<Rightarrow> vk list" where
  "no_slots n = replicate n (VNum 0)"

fun node_of :: "vk \<Rightarrow> pnode option" where
  "node_of (VList [VNum t, VList vs]) = Some (ucast t, vs)"
| "node_of v = None"

definition chain_of :: "vk \<Rightarrow> pnode list option" where
  "chain_of v = (if v = VNum 0 then Some [] else Option.bind (list_of v) (\<lambda>vs. those (map node_of vs)))"

definition chain_vk :: "pnode list \<Rightarrow> vk" where
  "chain_vk nodes = (if nodes = [] then VNum 0 else VList (map node_vk nodes))"

definition w_chain :: "PNextContext \<Rightarrow> vk \<Rightarrow> bytes option" where
  "w_chain c v = Option.bind (chain_of v) (\<lambda>chain. case write_pnext_chain [] c chain 0 of (ok, b) \<Rightarrow> if ok then Some b else None)"

definition r_chain :: "resolver \<Rightarrow> PNextContext \<Rightarrow> Reader \<Rightarrow> vk option \<times> Reader" where
  "r_chain hr c r = (case read_pnext_chain hr c 0 r of (nodes, r1) \<Rightarrow> (map_option chain_vk nodes, r1))"

definition view_chain :: "resolver \<Rightarrow> PNextContext \<Rightarrow> vk \<Rightarrow> vk option" where
  "view_chain hr c v = Option.bind (chain_of v) (\<lambda>chain. let nodes = filter (\<lambda>n. \<not> skipped c n) chain in
     if list_all typed_node nodes then Some (chain_vk (map (view_node hr) nodes)) else None)"

interpretation chains: piece_codec "w_chain c" "r_chain hr c" "view_chain hr c"
proof
  fix v b v' pre rest
  assume w: "w_chain c v = Some b" and v: "view_chain hr c v = Some v'"
  from w obtain chain where c: "chain_of v = Some chain" and w': "write_pnext_chain [] c chain 0 = (True, b)"
    unfolding w_chain_def bind_eq_Some_conv by (metis (mono_tags, lifting) case_prod_unfold option.distinct(1) option.inject prod.collapse)
  from v c have t: "list_all typed_node (filter (\<lambda>n. \<not> skipped c n) chain)"
    and v': "v' = chain_vk (map (view_node hr) (filter (\<lambda>n. \<not> skipped c n) chain))"
    by (auto simp: view_chain_def Let_def split: if_splits)
  from chain_roundtrip [OF w' t, of hr] have "read_pnext_chain hr c 0 (Reader_at pre (b @ rest)) =
      (Some (map (view_node hr) (filter (\<lambda>n. \<not> skipped c n) chain)), Reader_at (pre @ b) rest)" by auto
  then show "r_chain hr c (Reader_at pre (b @ rest)) = (Some v', Reader_at (pre @ b) rest)"
    by (simp add: r_chain_def v')
qed

text \<open>The sample count decides how many words the mask has; it is a power of two up to 64.\<close>

definition samples_valid :: "u32 \<Rightarrow> bool" where
  "samples_valid samples \<longleftrightarrow> 1 \<le> samples \<and> samples \<le> 64 \<and> samples AND (samples - 1) = 0"

definition mask_words :: "u32 \<Rightarrow> u32" where
  "mask_words samples = (samples + 31) div 32"

subsection \<open>Writing\<close>

function w_part :: "part \<Rightarrow> vk list \<Rightarrow> bytes option"
  and w_parts :: "part list \<Rightarrow> vk list \<Rightarrow> bytes option"
  and w_elems :: "part list \<Rightarrow> vk list \<Rightarrow> bytes option" where
  "w_part (PImage ms) vs = map_option blob (w_members ms vs)"
| "w_part (PWord i) vs = map_option (\<lambda>x. le_bytes 4 (ucast x :: u32)) (num_of (slot vs i))"
| "w_part (PLong i) vs = w_id (slot vs i)"
| "w_part (PType i t checked) vs = (if checked \<and> slot32 vs i \<noteq> t then None else Some (le_bytes 4 (slot32 vs i)))"
| "w_part (PId i k policy) vs = w_id (slot vs i)"
| "w_part (PPods p c n) vs = write_pod_array (slot32 vs c) n (slot vs p)"
| "w_part (POptPods p c n) vs = w_opt (write_pod_array (slot32 vs c) n) (slot vs p)"
| "w_part (POptPod p n) vs = w_opt (write_pod_array 1 n) (slot vs p)"
| "w_part (PMask p i) vs = (if samples_valid (slot32 vs i)
     then w_opt (write_pod_array (mask_words (slot32 vs i)) 4) (slot vs p) else None)"
| "w_part (PHandles p c k policy) vs = write_counted_array (slot32 vs c) w_id (slot vs p)"
| "w_part (POptHandles p c k) vs = w_opt (write_counted_array (slot32 vs c) w_id) (slot vs p)"
| "w_part (PHandlesUnless f m p c k) vs = (if slot32 vs f AND m \<noteq> 0 then Some []
     else write_counted_array (slot32 vs c) w_id (slot vs p))"
| "w_part (PStrings p c) vs = write_counted_array (slot32 vs c) w_cstring (slot vs p)"
| "w_part (PData p c) vs = w_data (slot64 vs c) (slot vs p)"
| "w_part (PName p) vs = w_cstring (slot vs p)"
| "w_part (PChain p context) vs = w_chain context (slot vs p)"
| "w_part (PNull p) vs = Some (le_bytes 4 (if slot vs p = VNum 0 then 0 else 1 :: u32))"
| "w_part (PPlain p f m) vs = (if slot vs p \<noteq> VNum 0 \<or> slot32 vs f AND m \<noteq> 0 then None else Some [])"
| "w_part (PClear p) vs = Some []"
| "w_part (PLimit c) vs = (if slot32 vs c > kMaxArrayElements then None else Some [])"
| "w_part (PBound c) vs = Some []"
| "w_part (PNonzero c) vs = Some []"
| "w_part (PStructs p c least n ps) vs = (if slot32 vs c = 0 then Some [] else case list_of (slot vs p) of None \<Rightarrow> None
     | Some rows \<Rightarrow> if length rows \<noteq> unat (slot32 vs c) then None else w_elems ps rows)"
| "w_part (POptStructs p c n ps) vs = (if slot vs p = VNum 0 then Some (le_bytes 4 (0 :: u32)) else case list_of (slot vs p) of None \<Rightarrow> None
     | Some rows \<Rightarrow> if length rows \<noteq> unat (slot32 vs c) then None else map_option ((@) (le_bytes 4 (1 :: u32))) (w_elems ps rows))"
| "w_part (PTag i t) vs = (if slot32 vs i = t then Some [] else None)"
| "w_part (POpt p n strict ps) vs = (if slot vs p = VNum 0 then Some (le_bytes 4 (0 :: u32)) else case list_of (slot vs p) of None \<Rightarrow> None
     | Some inner \<Rightarrow> map_option ((@) (le_bytes 4 (1 :: u32))) (w_parts ps inner))"
| "w_part (PWhen q ps) vs = (if slot vs q = VNum 0 then Some [] else w_parts ps vs)"
| "w_parts [] vs = Some []"
| "w_parts (p # ps) vs = (case w_part p vs of None \<Rightarrow> None | Some b \<Rightarrow> map_option ((@) b) (w_parts ps vs))"
| "w_elems ps [] = Some []"
| "w_elems ps (v # rows) = (case list_of v of None \<Rightarrow> None
     | Some vs \<Rightarrow> (case w_parts ps vs of None \<Rightarrow> None | Some b \<Rightarrow> map_option ((@) b) (w_elems ps rows)))"
  by pat_completeness auto
termination
  by (relation "measures [\<lambda>x. case x of Inl (p, vs) \<Rightarrow> 2 * size p | Inr (Inl (ps, vs)) \<Rightarrow> 2 * size_list size ps
      | Inr (Inr (ps, rows)) \<Rightarrow> 2 * size_list size ps + 1,
      \<lambda>x. case x of Inl (p, vs) \<Rightarrow> 0 | Inr (Inl (ps, vs)) \<Rightarrow> 0 | Inr (Inr (ps, rows)) \<Rightarrow> length rows]") auto

subsection \<open>Reading\<close>

definition put_slot :: "nat \<Rightarrow> vk list \<Rightarrow> vk option \<times> Reader \<Rightarrow> vk list option \<times> Reader" where
  "put_slot i acc res = (case res of (v, r1) \<Rightarrow> (map_option (\<lambda>v. acc[i := v]) v, r1))"

definition r_word :: "Reader \<Rightarrow> vk option \<times> Reader" where
  "r_word r = (let (v, r1) = r_u32 r in (if r_ok r1 then Some (VNum (ucast v)) else None, r1))"

definition r_long :: "Reader \<Rightarrow> vk option \<times> Reader" where
  "r_long r = (let (v, r1) = r_u64 r in (if r_ok r1 then Some (VNum v) else None, r1))"

function r_part :: "resolver \<Rightarrow> part \<Rightarrow> vk list \<Rightarrow> Reader \<Rightarrow> vk list option \<times> Reader"
  and r_parts :: "resolver \<Rightarrow> part list \<Rightarrow> vk list \<Rightarrow> Reader \<Rightarrow> vk list option \<times> Reader"
  and r_elems :: "resolver \<Rightarrow> part list \<Rightarrow> nat \<Rightarrow> nat \<Rightarrow> Reader \<Rightarrow> vk list option \<times> Reader" where
  "r_part hr (PImage ms) acc r = (case read_raw (image_size ms) r of (None, r1) \<Rightarrow> (None, r1)
     | (Some buf, r1) \<Rightarrow> (map_option (\<lambda>vs. vs @ drop (length vs) acc) (r_members hr ms buf), r1))"
| "r_part hr (PWord i) acc r = put_slot i acc (r_word r)"
| "r_part hr (PLong i) acc r = put_slot i acc (r_long r)"
| "r_part hr (PType i t checked) acc r = (case r_word r of (v, r1) \<Rightarrow>
     put_slot i acc (if v = Some (VNum (ucast t)) then v else None, r1))"
| "r_part hr (PId i k policy) acc r = put_slot i acc (r_id hr k policy r)"
| "r_part hr (PPods p c n) acc r = put_slot p acc (read_pod_array (slot32 acc c) n r)"
| "r_part hr (POptPods p c n) acc r = (if slot32 acc c > kMaxArrayElements then (None, r)
     else put_slot p acc (r_opt (read_pod_array (slot32 acc c) n) r))"
| "r_part hr (POptPod p n) acc r = put_slot p acc (r_opt (read_pod_array 1 n) r)"
| "r_part hr (PMask p i) acc r = (if samples_valid (slot32 acc i)
     then put_slot p acc (r_opt (read_pod_array (mask_words (slot32 acc i)) 4) r) else (None, r))"
| "r_part hr (PHandles p c k policy) acc r = put_slot p acc (read_counted_array (slot32 acc c) (r_id hr k policy) r)"
| "r_part hr (POptHandles p c k) acc r = put_slot p acc (r_opt (read_counted_array (slot32 acc c) (r_id hr k Lax)) r)"
| "r_part hr (PHandlesUnless f m p c k) acc r = put_slot p acc (if slot32 acc f AND m \<noteq> 0 then (Some (VNum 0), r)
     else read_counted_array (slot32 acc c) (r_id hr k Lax) r)"
| "r_part hr (PStrings p c) acc r = put_slot p acc (read_counted_array (slot32 acc c) r_cstring r)"
| "r_part hr (PData p c) acc r = put_slot p acc (read_bytes_to_arena (slot64 acc c) r)"
| "r_part hr (PName p) acc r = put_slot p acc (r_cstring r)"
| "r_part hr (PChain p context) acc r = put_slot p acc (r_chain hr context r)"
| "r_part hr (PNull p) acc r = (case r_word r of (v, r1) \<Rightarrow> (if v = Some (VNum 0) then Some acc else None, r1))"
| "r_part hr (PPlain p f m) acc r = (Some acc, r)"
| "r_part hr (PClear p) acc r = (Some (acc[p := VNum 0]), r)"
| "r_part hr (PLimit c) acc r = (if slot32 acc c > kMaxArrayElements then None else Some acc, r)"
| "r_part hr (PBound c) acc r = (if slot32 acc c > kMaxArrayElements then None else Some acc, r)"
| "r_part hr (PNonzero c) acc r = (if slot32 acc c = 0 then None else Some acc, r)"
| "r_part hr (PStructs p c least n ps) acc r =
     (if slot32 acc c > kMaxArrayElements \<or> (least \<noteq> 0 \<and> unat (slot32 acc c) > r_remaining r div least) then (None, r)
      else if slot32 acc c = 0 then (Some (acc[p := VNum 0]), r)
      else case r_elems hr ps n (unat (slot32 acc c)) r of (rows, r1) \<Rightarrow> (map_option (\<lambda>rows. acc[p := VList rows]) rows, r1))"
| "r_part hr (POptStructs p c n ps) acc r =
     (let (present, r1) = r_u32 r in
      if \<not> r_ok r1 \<or> present > 1 then (None, r1)
      else if present = 0 then (Some (acc[p := VNum 0]), r1)
      else case r_elems hr ps n (unat (slot32 acc c)) r1 of (rows, r2) \<Rightarrow>
        (map_option (\<lambda>rows. acc[p := if rows = [] then VNum 0 else VList rows]) rows, r2))"
| "r_part hr (PTag i t) acc r = (Some (acc[i := VNum (ucast t)]), r)"
| "r_part hr (POpt p n strict ps) acc r =
     (let (present, r1) = r_u32 r in
      if \<not> r_ok r1 \<or> (strict \<and> present > 1) then (None, r1)
      else if present = 0 then (Some (acc[p := VNum 0]), r1)
      else case r_parts hr ps (no_slots n) r1 of (inner, r2) \<Rightarrow> (map_option (\<lambda>inner. acc[p := VList inner]) inner, r2))"
| "r_part hr (PWhen q ps) acc r = (if slot acc q = VNum 0 then (Some acc, r) else r_parts hr ps acc r)"
| "r_parts hr [] acc r = (Some acc, r)"
| "r_parts hr (p # ps) acc r = (case r_part hr p acc r of (None, r1) \<Rightarrow> (None, r1) | (Some acc1, r1) \<Rightarrow> r_parts hr ps acc1 r1)"
| "r_elems hr ps n 0 r = (Some [], r)"
| "r_elems hr ps n (Suc k) r = (case r_parts hr ps (no_slots n) r of (None, r1) \<Rightarrow> (None, r1)
     | (Some vs, r1) \<Rightarrow> (case r_elems hr ps n k r1 of (rows, r2) \<Rightarrow> (map_option ((#) (VList vs)) rows, r2)))"
  by pat_completeness auto
termination
  by (relation "measures [\<lambda>x. case x of Inl (hr, p, acc, r) \<Rightarrow> 2 * size p | Inr (Inl (hr, ps, acc, r)) \<Rightarrow> 2 * size_list size ps
      | Inr (Inr (hr, ps, n, k, r)) \<Rightarrow> 2 * size_list size ps + 1,
      \<lambda>x. case x of Inl (hr, p, acc, r) \<Rightarrow> 0 | Inr (Inl (hr, ps, acc, r)) \<Rightarrow> 0 | Inr (Inr (hr, ps, n, k, r)) \<Rightarrow> k]") auto

definition write_struct_raw :: "raw_struct \<Rightarrow> vk \<Rightarrow> bytes option" where
  "write_struct_raw S v = Option.bind (list_of v) (w_parts (snd S))"

definition read_struct_raw :: "raw_struct \<Rightarrow> resolver \<Rightarrow> Reader \<Rightarrow> vk option \<times> Reader" where
  "read_struct_raw S hr r = (case r_parts hr (snd S) (no_slots (fst S)) r of (vs, r1) \<Rightarrow> (map_option VList vs, r1))"

subsection \<open>What the receiver is meant to see\<close>

text \<open>
  \<open>src\<close> is the sender's structure, \<open>acc\<close> what the receiver has of it so far. \<open>None\<close> is a
  refusal: a count over the bound, a handle that has to resolve and does not, a value that does not
  fit its blob. The counts the reader uses have to be the sender's, and the least size of an element
  has to be one.
\<close>

fun least_part :: "part \<Rightarrow> nat" where
  "least_part (PImage ms) = 4 + image_size ms"
| "least_part (PWord i) = 4" | "least_part (PType i t checked) = 4" | "least_part (PNull p) = 4"
| "least_part (PLong i) = 8" | "least_part (PId i k policy) = 8"
| "least_part (PPods p c n) = 4" | "least_part (POptPods p c n) = 4" | "least_part (POptPod p n) = 4" | "least_part (PMask p i) = 4"
| "least_part (POptHandles p c k) = 4" | "least_part (PName p) = 4" | "least_part (PData p c) = 4" | "least_part (POpt p n strict ps) = 4" | "least_part (POptStructs p c n ps) = 4"
| "least_part p = 0"

definition least_parts :: "part list \<Rightarrow> nat" where
  "least_parts ps = sum_list (map least_part ps)"

definition agree :: "vk list \<Rightarrow> vk list \<Rightarrow> nat \<Rightarrow> bool" where
  "agree src acc i \<longleftrightarrow> slot64 src i = slot64 acc i"

definition at_slot :: "nat \<Rightarrow> vk list \<Rightarrow> bool \<Rightarrow> vk option \<Rightarrow> vk list option" where
  "at_slot i acc ok v = (if ok then map_option (\<lambda>v. acc[i := v]) v else None)"

function view_part :: "resolver \<Rightarrow> part \<Rightarrow> vk list \<Rightarrow> vk list \<Rightarrow> vk list option"
  and view_parts :: "resolver \<Rightarrow> part list \<Rightarrow> vk list \<Rightarrow> vk list \<Rightarrow> vk list option"
  and view_elems :: "resolver \<Rightarrow> part list \<Rightarrow> nat \<Rightarrow> vk list \<Rightarrow> vk list option" where
  "view_part hr (PImage ms) src acc = (if image_size ms < 2 ^ 32
     then map_option (\<lambda>vs. vs @ drop (length vs) acc) (view_members hr ms src) else None)"
| "view_part hr (PWord i) src acc = at_slot i acc True (map_option (\<lambda>x. VNum (ucast (ucast x :: u32))) (num_of (slot src i)))"
| "view_part hr (PLong i) src acc = at_slot i acc True (map_option VNum (num_of (slot src i)))"
| "view_part hr (PType i t checked) src acc = at_slot i acc (slot32 src i = t) (Some (VNum (ucast t)))"
| "view_part hr (PId i k policy) src acc = at_slot i acc True (view_id hr k policy (slot src i))"
| "view_part hr (PPods p c n) src acc = at_slot p acc (agree src acc c) (view_pod_array (slot32 src c) n (slot src p))"
| "view_part hr (POptPods p c n) src acc = at_slot p acc (agree src acc c \<and> slot32 src c \<le> kMaxArrayElements) (view_opt (view_pod_array (slot32 src c) n) (slot src p))"
| "view_part hr (POptPod p n) src acc = at_slot p acc True (view_opt (view_pod_array 1 n) (slot src p))"
| "view_part hr (PMask p i) src acc = at_slot p acc (agree src acc i) (view_opt (view_pod_array (mask_words (slot32 src i)) 4) (slot src p))"
| "view_part hr (PHandles p c k policy) src acc =
     at_slot p acc (agree src acc c) (view_counted_array (slot32 src c) (view_id hr k policy) (slot src p))"
| "view_part hr (POptHandles p c k) src acc =
     at_slot p acc (agree src acc c) (view_opt (view_counted_array (slot32 src c) (view_id hr k Lax)) (slot src p))"
| "view_part hr (PHandlesUnless f m p c k) src acc = at_slot p acc (agree src acc f \<and> agree src acc c)
     (if slot32 src f AND m \<noteq> 0 then Some (VNum 0) else view_counted_array (slot32 src c) (view_id hr k Lax) (slot src p))"
| "view_part hr (PStrings p c) src acc = at_slot p acc (agree src acc c) (view_counted_array (slot32 src c) view_cstring (slot src p))"
| "view_part hr (PData p c) src acc = at_slot p acc (agree src acc c) (view_data (slot64 src c) (slot src p))"
| "view_part hr (PName p) src acc = at_slot p acc True (view_cstring (slot src p))"
| "view_part hr (PChain p context) src acc = at_slot p acc True (view_chain hr context (slot src p))"
| "view_part hr (PNull p) src acc = (if slot src p = VNum 0 then Some acc else None)"
| "view_part hr (PPlain p f m) src acc = Some acc"
| "view_part hr (PClear p) src acc = Some (acc[p := VNum 0])"
| "view_part hr (PLimit c) src acc = (if agree src acc c then Some acc else None)"
| "view_part hr (PBound c) src acc = (if slot32 acc c > kMaxArrayElements then None else Some acc)"
| "view_part hr (PNonzero c) src acc = (if slot32 acc c = 0 then None else Some acc)"
| "view_part hr (PStructs p c least n ps) src acc = at_slot p acc (agree src acc c \<and> slot32 src c \<le> kMaxArrayElements \<and> least \<le> least_parts ps)
     (if slot32 src c = 0 then Some (VNum 0) else case list_of (slot src p) of None \<Rightarrow> None
      | Some rows \<Rightarrow> map_option VList (view_elems hr ps n rows))"
| "view_part hr (POptStructs p c n ps) src acc = at_slot p acc (agree src acc c) (if slot src p = VNum 0 then Some (VNum 0)
     else case list_of (slot src p) of None \<Rightarrow> None
      | Some rows \<Rightarrow> map_option (\<lambda>rows. if rows = [] then VNum 0 else VList rows) (view_elems hr ps n rows))"
| "view_part hr (PTag i t) src acc = Some (acc[i := VNum (ucast t)])"
| "view_part hr (POpt p n strict ps) src acc = at_slot p acc True (if slot src p = VNum 0 then Some (VNum 0)
     else case list_of (slot src p) of None \<Rightarrow> None
      | Some inner \<Rightarrow> map_option VList (view_parts hr ps inner (no_slots n)))"
| "view_part hr (PWhen q ps) src acc = (if (slot src q = VNum 0) \<noteq> (slot acc q = VNum 0) then None
     else if slot src q = VNum 0 then Some acc else view_parts hr ps src acc)"
| "view_parts hr [] src acc = Some acc"
| "view_parts hr (p # ps) src acc = (case view_part hr p src acc of None \<Rightarrow> None | Some acc1 \<Rightarrow> view_parts hr ps src acc1)"
| "view_elems hr ps n [] = Some []"
| "view_elems hr ps n (v # rows) = (case list_of v of None \<Rightarrow> None
     | Some vs \<Rightarrow> (case view_parts hr ps vs (no_slots n) of None \<Rightarrow> None | Some vs' \<Rightarrow> map_option ((#) (VList vs')) (view_elems hr ps n rows)))"
  by pat_completeness auto
termination
  by (relation "measures [\<lambda>x. case x of Inl (hr, p, src, acc) \<Rightarrow> 2 * size p | Inr (Inl (hr, ps, src, acc)) \<Rightarrow> 2 * size_list size ps
      | Inr (Inr (hr, ps, n, rows)) \<Rightarrow> 2 * size_list size ps + 1,
      \<lambda>x. case x of Inl (hr, p, src, acc) \<Rightarrow> 0 | Inr (Inl (hr, ps, src, acc)) \<Rightarrow> 0 | Inr (Inr (hr, ps, n, rows)) \<Rightarrow> length rows]") auto

definition view_struct_raw :: "raw_struct \<Rightarrow> resolver \<Rightarrow> vk \<Rightarrow> vk option" where
  "view_struct_raw S hr v = Option.bind (list_of v) (\<lambda>vs. map_option VList (view_parts hr (snd S) vs (no_slots (fst S))))"

subsection \<open>Round trip\<close>

lemma length_blob [simp]: "length (blob b) = 4 + length b"
  by (simp add: blob_def)

lemma w_opt_least: "w_opt w v = Some b \<Longrightarrow> 4 \<le> length b"
  by (auto simp: w_opt_def split: if_splits)

lemma written_least: "w_part p vs = Some b \<Longrightarrow> least_part p \<le> length b"
proof (cases p)
  case (PImage ms)
  assume "w_part p vs = Some b"
  with PImage members_roundtrip show ?thesis by auto
qed (auto simp: w_id_def write_pod_array_def w_data_def w_cstring_def w_string_def wire_simps
    split: if_splits option.splits vk.splits dest: w_opt_least)

lemma parts_least: "w_parts ps vs = Some b \<Longrightarrow> least_parts ps \<le> length b"
proof (induction ps arbitrary: b)
  case (Cons p ps)
  then show ?case using written_least [of p vs] by (fastforce simp: least_parts_def split: option.splits)
qed (simp add: least_parts_def)

lemma elems_least: "w_elems ps rows = Some b \<Longrightarrow> least_parts ps * length rows \<le> length b"
proof (induction rows arbitrary: b)
  case (Cons v rows)
  then show ?case using parts_least [of ps] by (fastforce split: option.splits)
qed simp

lemma agree32: "agree src acc i \<Longrightarrow> slot32 acc i = slot32 src i"
  by (simp add: agree_def slot32_def)

lemma slot_case:
  assumes "piece_codec w r view" "w (slot vs p) = Some b" "at_slot p acc ok (view (slot vs p)) = Some acc'" "ok \<Longrightarrow> r' = r"
  shows "put_slot p acc (r' (Reader_at pre (b @ rest))) = (Some acc', Reader_at (pre @ b) rest)"
  using assms piece_codec.roundtrip [OF assms(1,2)]
  by (auto simp: at_slot_def put_slot_def split: if_splits)

lemma word_at [simp]:
  "r_word (Reader_at pre (le_bytes 4 (v :: u32) @ rest)) = (Some (VNum (ucast v)), Reader_at (pre @ le_bytes 4 v) rest)"
  "r_long (Reader_at pre (le_bytes 8 x @ rest)) = (Some (VNum x), Reader_at (pre @ le_bytes 8 x) rest)"
  by (simp_all add: r_word_def r_long_def reader_simps)

text \<open>The pieces of the flat parts, as the codecs of one slot they are.\<close>

lemmas flat_pieces = pods.piece_codec_axioms pods.opt ids.piece_codec_axioms ids.counted piece_codec.opt [OF ids.counted]
  cstrings.piece_codec_axioms cstrings.counted data.piece_codec_axioms chains.piece_codec_axioms

lemma parts_roundtrip:
  "w_part p vs = Some b \<Longrightarrow> view_part hr p vs acc = Some acc' \<Longrightarrow>
     r_part hr p acc (Reader_at pre (b @ rest)) = (Some acc', Reader_at (pre @ b) rest)"
  "w_parts ps vs = Some b \<Longrightarrow> view_parts hr ps vs acc = Some acc' \<Longrightarrow>
     r_parts hr ps acc (Reader_at pre (b @ rest)) = (Some acc', Reader_at (pre @ b) rest)"
  "w_elems ps rows = Some b \<Longrightarrow> view_elems hr ps n rows = Some rows' \<Longrightarrow>
     r_elems hr ps n (length rows) (Reader_at pre (b @ rest)) = (Some rows', Reader_at (pre @ b) rest)"
proof (induction p vs and ps vs and ps rows arbitrary: b acc acc' pre rest and b acc acc' pre rest and b n rows' pre rest
    rule: w_part_w_parts_w_elems.induct)
  case (1 ms vs)
  then obtain img where "w_members ms vs = Some img" "b = blob img" by auto
  with 1 members_roundtrip [of ms vs img hr] read_raw_at [of img] show ?case by (auto split: if_splits)
next
  case (6 p c n vs)
  then show ?case by (auto intro!: slot_case [OF flat_pieces(1)] simp: agree32)
next
  case (7 p c n vs)
  from 7(2) have ok: "agree vs acc c" "slot32 vs c \<le> kMaxArrayElements" by (auto simp: at_slot_def split: if_splits)
  with 7 show ?case by (auto intro!: slot_case [OF flat_pieces(2), where ok = True] simp: agree32 at_slot_def not_less)
next
  case (8 p n vs)
  then show ?case by (auto intro!: slot_case [OF flat_pieces(2)] simp: agree32)
next
  case (9 p i vs)
  then show ?case by (auto intro!: slot_case [OF flat_pieces(2)] simp: agree32 at_slot_def split: if_splits)
next
  case (5 i k policy vs)
  then show ?case by (auto intro!: slot_case [OF flat_pieces(3)])
next
  case (10 p c k policy vs)
  then show ?case by (auto intro!: slot_case [OF flat_pieces(4)] simp: agree32)
next
  case (11 p c k vs)
  then show ?case by (auto intro!: slot_case [OF flat_pieces(5)] simp: agree32)
next
  case (13 p c vs)
  then show ?case by (auto intro!: slot_case [OF flat_pieces(7)] simp: agree32)
next
  case (14 p c vs)
  then show ?case by (auto intro!: slot_case [OF flat_pieces(8)] simp: agree_def)
next
  case (15 p vs)
  then show ?case by (auto intro!: slot_case [OF flat_pieces(6)])
next
  case (16 p ctx vs)
  then show ?case by (auto intro!: slot_case [OF flat_pieces(9)])
next
  case (12 f m p c k vs)
  show ?case
  proof (cases "slot32 vs f AND m = 0")
    case True
    with 12 show ?thesis by (auto intro!: slot_case [OF flat_pieces(4)] simp: agree32 at_slot_def split: if_splits)
  next
    case False
    with 12 show ?thesis by (auto simp: agree32 at_slot_def put_slot_def split: if_splits)
  qed
next
  case (23 p c least n ps vs)
  have fit: "k \<le> length (b @ rest) div least" if "least \<noteq> 0" "least \<le> l" "l * k \<le> length b" for l k
  proof -
    have "k * least \<le> length b" using that by (metis le_trans mult.commute mult_le_mono1)
    then show ?thesis using that(1) by (simp add: less_eq_div_iff_mult_less_eq)
  qed
  show ?case
  proof (cases "slot32 vs c = 0")
    case True
    with 23 show ?thesis by (auto simp: agree32 at_slot_def split: if_splits)
  next
    case False
    with 23(2,3) obtain rows rows' where f: "list_of (slot vs p) = Some rows" "length rows = unat (slot32 vs c)" "w_elems ps rows = Some b"
      "agree vs acc c" "slot32 vs c \<le> kMaxArrayElements" "least \<le> least_parts ps" "view_elems hr ps n rows = Some rows'" "acc' = acc[p := VList rows']"
      by (auto simp: at_slot_def split: if_splits option.splits)
    have "r_elems hr ps n (length rows) (Reader_at pre (b @ rest)) = (Some rows', Reader_at (pre @ b) rest)"
      using 23(1) [OF False f(1)] f by simp
    with False f fit [of "least_parts ps" "length rows"] elems_least [of ps rows b] show ?thesis
      by (auto simp: agree32 reader_simps not_less)
  qed
next
  case (24 p c n ps vs)
  show ?case
  proof (cases "slot vs p = VNum 0")
    case True
    with 24 show ?thesis by (auto simp: at_slot_def reader_simps split: if_splits)
  next
    case False
    with 24(2,3) obtain rows rows' b' where f: "list_of (slot vs p) = Some rows" "length rows = unat (slot32 vs c)" "w_elems ps rows = Some b'"
      "b = le_bytes 4 (1 :: u32) @ b'" "agree vs acc c" "view_elems hr ps n rows = Some rows'" "acc' = acc[p := if rows' = [] then VNum 0 else VList rows']"
      by (auto simp: at_slot_def split: if_splits option.splits)
    have "r_elems hr ps n (length rows) (Reader_at (pre @ le_bytes 4 (1 :: u32)) (b' @ rest)) =
        (Some rows', Reader_at ((pre @ le_bytes 4 (1 :: u32)) @ b') rest)"
      using 24(1) [OF False f(1)] f by simp
    with False f show ?thesis by (simp add: agree32 reader_simps)
  qed
next
  case (26 p n strict ps vs)
  then show ?case by (auto simp: at_slot_def reader_simps split: if_splits option.splits)
next
  case (27 q ps vs)
  then show ?case by (auto split: if_splits)
next
  case (29 p ps vs)
  then show ?case by (fastforce split: option.splits)
next
  case (31 ps v rows)
  then show ?case by (fastforce split: option.splits)
qed (auto simp: at_slot_def put_slot_def w_id_def agree32 value_some split: if_splits)

subsection \<open>Whatever arrives\<close>

text \<open>
  What a decoded structure may hold, whatever the bytes: in the slot of a handle nothing, or what the
  resolver gave for an id; in the slot of a pointer the reader replaces nothing, or memory the reader
  built. \<open>target\<close> are the slots a part writes, \<open>deps\<close> those its guarantee is about.
\<close>

definition resolved :: "resolver \<Rightarrow> table_kind \<Rightarrow> vk \<Rightarrow> bool" where
  "resolved hr k v \<longleftrightarrow> v = VNum 0 \<or> (\<exists>i. v = VNum (hr k i))"

definition built :: "(vk \<Rightarrow> bool) \<Rightarrow> vk \<Rightarrow> bool" where
  "built ok v \<longleftrightarrow> (case v of VNum x \<Rightarrow> x = 0 | VBytes b \<Rightarrow> True | VList vs \<Rightarrow> list_all ok vs)"

fun handle_slots :: "nat \<Rightarrow> member list \<Rightarrow> (nat \<times> table_kind) list" where
  "handle_slots i [] = []"
| "handle_slots i (MPad n # ms) = handle_slots i ms"
| "handle_slots i (MHandle k policy # ms) = (i, k) # handle_slots (Suc i) ms"
| "handle_slots i (m # ms) = handle_slots (Suc i) ms"

fun pointer_slots :: "nat \<Rightarrow> member list \<Rightarrow> nat list" where
  "pointer_slots i [] = []"
| "pointer_slots i (MPad n # ms) = pointer_slots i ms"
| "pointer_slots i (MPtr # ms) = i # pointer_slots (Suc i) ms"
| "pointer_slots i (MRaw # ms) = i # pointer_slots (Suc i) ms"
| "pointer_slots i (m # ms) = pointer_slots (Suc i) ms"

fun image_slots :: "member list \<Rightarrow> nat" where
  "image_slots [] = 0"
| "image_slots (MPad n # ms) = image_slots ms"
| "image_slots (m # ms) = Suc (image_slots ms)"

fun target :: "part \<Rightarrow> nat list" where
  "target (PImage ms) = [0..<image_slots ms]"
| "target (PWord i) = [i]" | "target (PLong i) = [i]" | "target (PType i t checked) = [i]" | "target (PTag i t) = [i]"
| "target (PId i k policy) = [i]"
| "target (PPods p c n) = [p]" | "target (POptPods p c n) = [p]" | "target (POptPod p n) = [p]" | "target (PMask p i) = [p]"
| "target (PHandles p c k policy) = [p]" | "target (POptHandles p c k) = [p]" | "target (PHandlesUnless f m p c k) = [p]"
| "target (PStrings p c) = [p]" | "target (PData p c) = [p]" | "target (PName p) = [p]" | "target (PChain p context) = [p]"
| "target (PClear p) = [p]" | "target (PStructs p c least n ps) = [p]" | "target (POptStructs p c n ps) = [p]" | "target (POpt p n strict ps) = [p]"
| "target (PWhen q ps) = concat (map target ps)"
| "target p = []"

fun deps :: "part \<Rightarrow> nat list" where
  "deps (PImage ms) = map fst (handle_slots 0 ms)"
| "deps (PWhen q ps) = q # concat (map deps ps)"
| "deps p = target p"

fun part_ok :: "resolver \<Rightarrow> part \<Rightarrow> vk list \<Rightarrow> bool" where
  "part_ok hr (PImage ms) vs \<longleftrightarrow> list_all (\<lambda>(i, k). resolved hr k (slot vs i)) (handle_slots 0 ms)"
| "part_ok hr (PId i k policy) vs \<longleftrightarrow> resolved hr k (slot vs i)"
| "part_ok hr (PHandles p c k policy) vs \<longleftrightarrow> built (resolved hr k) (slot vs p)"
| "part_ok hr (POptHandles p c k) vs \<longleftrightarrow> built (resolved hr k) (slot vs p)"
| "part_ok hr (PHandlesUnless f m p c k) vs \<longleftrightarrow> built (resolved hr k) (slot vs p)"
| "part_ok hr (PPods p c n) vs \<longleftrightarrow> built (\<lambda>_. True) (slot vs p)"
| "part_ok hr (POptPods p c n) vs \<longleftrightarrow> built (\<lambda>_. True) (slot vs p)"
| "part_ok hr (POptPod p n) vs \<longleftrightarrow> built (\<lambda>_. True) (slot vs p)"
| "part_ok hr (PMask p i) vs \<longleftrightarrow> built (\<lambda>_. True) (slot vs p)"
| "part_ok hr (PStrings p c) vs \<longleftrightarrow> built (\<lambda>_. True) (slot vs p)"
| "part_ok hr (PData p c) vs \<longleftrightarrow> built (\<lambda>_. True) (slot vs p)"
| "part_ok hr (PName p) vs \<longleftrightarrow> built (\<lambda>_. True) (slot vs p)"
| "part_ok hr (PChain p context) vs \<longleftrightarrow> built (\<lambda>_. True) (slot vs p)"
| "part_ok hr (PClear p) vs \<longleftrightarrow> slot vs p = VNum 0"
| "part_ok hr (PStructs p c least n ps) vs \<longleftrightarrow>
     built (\<lambda>v. case list_of v of None \<Rightarrow> False | Some row \<Rightarrow> list_all (\<lambda>q. part_ok hr q row) ps) (slot vs p)"
| "part_ok hr (POptStructs p c n ps) vs \<longleftrightarrow>
     built (\<lambda>v. case list_of v of None \<Rightarrow> False | Some row \<Rightarrow> list_all (\<lambda>q. part_ok hr q row) ps) (slot vs p)"
| "part_ok hr (POpt p n strict ps) vs \<longleftrightarrow> (slot vs p = VNum 0 \<or>
     (case list_of (slot vs p) of None \<Rightarrow> False | Some inner \<Rightarrow> list_all (\<lambda>q. part_ok hr q inner) ps))"
| "part_ok hr (PWhen q ps) vs \<longleftrightarrow> slot vs q = VNum 0 \<or> list_all (\<lambda>p. part_ok hr p vs) ps"
| "part_ok hr p vs \<longleftrightarrow> True"

text \<open>No later part writes what an earlier one guarantees.\<close>

fun undisturbed :: "part list \<Rightarrow> bool" where
  "undisturbed [] \<longleftrightarrow> True"
| "undisturbed (p # ps) \<longleftrightarrow> list_all (\<lambda>i. \<not> List.member (deps p) i) (concat (map target ps)) \<and> undisturbed ps"

fun wf_part :: "part \<Rightarrow> bool" where
  "wf_part (PStructs p c least n ps) \<longleftrightarrow> undisturbed ps \<and> list_all wf_part ps"
| "wf_part (POptStructs p c n ps) \<longleftrightarrow> undisturbed ps \<and> list_all wf_part ps"
| "wf_part (POpt p n strict ps) \<longleftrightarrow> undisturbed ps \<and> list_all wf_part ps"
| "wf_part (PWhen q ps) \<longleftrightarrow> undisturbed ps \<and> list_all wf_part ps"
| "wf_part p \<longleftrightarrow> True"

definition wf_parts :: "part list \<Rightarrow> bool" where
  "wf_parts ps \<longleftrightarrow> undisturbed ps \<and> list_all wf_part ps"

text \<open>The pointers of the image no part replaces, and those of the structures below.\<close>

fun raw_pointers :: "part list \<Rightarrow> nat list list" and raw_below :: "part \<Rightarrow> nat list list" where
  "raw_pointers [] = []"
| "raw_pointers (p # ps) =
     (case p of PImage ms \<Rightarrow> map (\<lambda>i. [i]) (filter (\<lambda>i. \<not> List.member (concat (map target ps)) i) (pointer_slots 0 ms)) | _ \<Rightarrow> raw_below p)
     @ raw_pointers ps"
| "raw_below (PStructs p c least n ps) = map ((#) p) (raw_pointers ps)"
| "raw_below (POptStructs p c n ps) = map ((#) p) (raw_pointers ps)"
| "raw_below (POpt p n strict ps) = map ((#) p) (raw_pointers ps)"
| "raw_below p = []"

lemma slot_update: "i \<noteq> p \<Longrightarrow> slot (acc[p := v]) i = slot acc i" "slot (acc[p := v]) p = v \<or> slot (acc[p := v]) p = VNum 0"
  by (auto simp: slot_def)

lemma put_slot_some: "put_slot p acc res = (Some acc', r') \<Longrightarrow> \<exists>v. res = (Some v, r') \<and> acc' = acc[p := v]"
  by (cases res) (auto simp: put_slot_def)

lemma r_members_length: "r_members hr ms b = Some vs \<Longrightarrow> length vs = image_slots ms"
  by (induction ms arbitrary: b vs rule: image_slots.induct) (auto simp: bind_eq_Some_conv)

lemma image_beyond: "image_slots ms \<le> i \<Longrightarrow> length vs = image_slots ms \<Longrightarrow> slot (vs @ drop (length vs) acc) i = slot acc i"
  by (auto simp: slot_def nth_append)

lemma put_slot_frame: "put_slot p acc res = (Some acc', r') \<Longrightarrow> i \<noteq> p \<Longrightarrow> slot acc' i = slot acc i"
  by (auto simp: slot_update dest!: put_slot_some)

lemma parts_frame:
  "r_part hr p acc r = (Some acc', r') \<Longrightarrow> i \<notin> set (target p) \<Longrightarrow> slot acc' i = slot acc i"
  "r_parts hr ps acc r = (Some acc', r') \<Longrightarrow> i \<notin> set (concat (map target ps)) \<Longrightarrow> slot acc' i = slot acc i"
  "r_elems hr ps n k r = (Some rows, r') \<Longrightarrow> True"
proof (induction hr p acc r and hr ps acc r and hr ps n k r arbitrary: acc' r' and acc' r' and rows r' rule: r_part_r_parts_r_elems.induct)
  case (1 hr ms acc r)
  then show ?case using image_beyond r_members_length by (fastforce split: prod.splits option.splits)
next
  case (4 hr i t checked acc r)
  then show ?case by (auto dest: put_slot_frame split: prod.splits)
next
  case (17 hr p acc r)
  then show ?case by (auto split: prod.splits if_splits)
next
  case (23 hr p c least n ps acc r)
  from 23(2,3) show ?case by (auto simp: slot_update split: prod.splits if_splits)
next
  case (24 hr p c n ps acc r)
  from 24(2,3) show ?case by (auto simp: slot_update Let_def split: prod.splits if_splits)
next
  case (26 hr p n strict ps acc r)
  from 26(2,3) show ?case by (auto simp: slot_update Let_def split: prod.splits if_splits)
next
  case (27 hr q ps acc r)
  then show ?case by (auto split: if_splits)
next
  case (29 hr p ps acc r)
  from 29(3) obtain acc1 r1 where f: "r_part hr p acc r = (Some acc1, r1)" "r_parts hr ps acc1 r1 = (Some acc', r')"
    by (auto split: prod.splits option.splits)
  with 29(1) [OF f(1)] 29(2) [OF f(1) [symmetric] refl f(2)] 29(4) show ?case by simp
qed (auto simp: slot_update dest: put_slot_frame split: if_splits)

lemma part_ok_frame: "(\<And>i. i \<in> set (deps p) \<Longrightarrow> slot a i = slot b i) \<Longrightarrow> part_ok hr p a = part_ok hr p b"
proof (induction p)
  case (PImage ms)
  have "resolved hr (snd x) (slot a (fst x)) = resolved hr (snd x) (slot b (fst x))" if "x \<in> set (handle_slots 0 ms)" for x
    using PImage [of "fst x"] that by simp
  then show ?case by (simp add: list_all_iff case_prod_beta)
next
  case (PWhen q ps)
  have "part_ok hr p a = part_ok hr p b" if "p \<in> set ps" for p
    using PWhen(1) [OF that] PWhen(2) that by fastforce
  then have "list_all (\<lambda>p. part_ok hr p a) ps = list_all (\<lambda>p. part_ok hr p b) ps" by (simp add: list_all_iff)
  with PWhen(2) [of q] show ?case by simp
qed simp_all

lemma r_member_handle: "r_member hr (MHandle k policy) b = Some v \<Longrightarrow> resolved hr k v"
  by (auto simp: resolve_id_def resolved_def Let_def split: if_splits)

lemma nth_shift:
  assumes "Suc j \<le> i \<and> i - Suc j < length vs \<and> ok (vs ! (i - Suc j))"
  shows "j \<le> i \<and> i - j < length (v # vs) \<and> ok ((v # vs) ! (i - j))"
proof -
  have "i - j = Suc (i - Suc j)" using assms by arith
  with assms show ?thesis by simp
qed

lemma r_members_resolved:
  "r_members hr ms b = Some vs \<Longrightarrow> (i, k) \<in> set (handle_slots j ms) \<Longrightarrow> j \<le> i \<and> i - j < length vs \<and> resolved hr k (vs ! (i - j))"
proof (induction j ms arbitrary: b vs rule: handle_slots.induct)
  case (3 j k' policy ms)
  then obtain v vs' where v: "vs = v # vs'" "resolved hr k' v" "r_members hr ms (drop 8 b) = Some vs'"
    using r_member_handle by (fastforce simp: bind_eq_Some_conv simp del: r_member.simps)
  show ?case
  proof (cases "(i, k) = (j, k')")
    case False
    then have "(i, k) \<in> set (handle_slots (Suc j) ms)" using 3(3) by auto
    from nth_shift [where ok = "resolved hr k", OF 3(1) [OF v(3) this], of v] v(1) show ?thesis by simp
  qed (use v in simp)
next
  case "4_1"
  then show ?case by (fastforce intro: nth_shift)
next
  case "4_2"
  then show ?case by (fastforce intro: nth_shift)
next
  case "4_3"
  then show ?case by (fastforce intro: nth_shift)
next
  case "4_4"
  then show ?case by (fastforce intro: nth_shift)
qed simp_all

definition yields :: "(vk \<Rightarrow> bool) \<Rightarrow> vk option \<times> Reader \<Rightarrow> bool" where
  "yields ok res \<longleftrightarrow> (\<forall>v. fst res = Some v \<longrightarrow> ok v)"

lemma slot_put: "ok v \<Longrightarrow> ok (VNum 0) \<Longrightarrow> ok (slot (acc[p := v]) p)"
  by (cases "p < length acc") (auto simp: slot_def)

lemma put_slot_yields: "put_slot p acc res = (Some acc', r') \<Longrightarrow> yields ok res \<Longrightarrow> ok (VNum 0) \<Longrightarrow> ok (slot acc' p)"
  by (auto simp: yields_def intro: slot_put dest!: put_slot_some)

lemma read_pod_array_yields: "yields (built ok) (read_pod_array n k r)"
  by (auto simp: yields_def built_def read_pod_array_def split: prod.splits option.splits if_splits)

lemma r_opt_yields: "(\<And>r. yields (built ok) (dec r)) \<Longrightarrow> yields (built ok) (r_opt dec r)"
  by (auto simp: yields_def built_def r_opt_def Let_def split: prod.splits)

lemma r_id_yields: "yields (resolved hr k) (r_id hr k policy r)"
  by (auto simp: yields_def r_id_def resolve_id_def resolved_def Let_def split: prod.splits if_splits)

lemma read_each_yields: "read_each dec n r = (Some vs, r') \<Longrightarrow> (\<And>r. yields ok (dec r)) \<Longrightarrow> list_all ok vs"
proof (induction n arbitrary: r vs r')
  case (Suc n)
  from Suc(2) obtain v r1 vs' where f: "dec r = (Some v, r1)" "read_each dec n r1 = (Some vs', r')" "vs = v # vs'"
    by (auto split: prod.splits option.splits)
  have "ok v" using Suc(3) [of r] f(1) by (simp add: yields_def)
  with Suc(1) [OF f(2) Suc(3)] f(3) show ?case by simp
qed simp

lemma read_counted_yields:
  assumes "\<And>r. yields ok (dec r)"
  shows "yields (built ok) (read_counted_array n dec r)"
  using read_each_yields [OF _ assms] by (auto simp: yields_def built_def read_counted_array_def r_each_def split: prod.splits)

lemma r_cstring_yields: "yields (\<lambda>_. True) (r_cstring r)" "yields (built ok) (r_cstring r)"
  by (auto simp: yields_def r_cstring_def built_def split: prod.splits)

lemma read_bytes_yields: "yields (built ok) (read_bytes_to_arena n r)"
  by (auto simp: yields_def built_def read_bytes_to_arena_def split: prod.splits option.splits)

lemma r_chain_yields: "yields (built (\<lambda>_. True)) (r_chain hr ctx r)"
  by (auto simp: yields_def built_def r_chain_def chain_vk_def list_all_iff split: prod.splits)

lemma none_yields: "yields (built ok) (Some (VNum 0), r)"
  by (simp add: yields_def built_def)

lemmas yields = read_pod_array_yields r_opt_yields r_id_yields read_counted_yields r_cstring_yields read_bytes_yields r_chain_yields none_yields

lemma zero_ok [simp]: "built ok (VNum 0)" "resolved hr k (VNum 0)"
  by (simp_all add: built_def resolved_def)

lemma undisturbed_frame:
  "undisturbed (p # ps) \<Longrightarrow> part_ok hr p acc \<Longrightarrow> r_parts hr ps acc r = (Some acc', r') \<Longrightarrow> part_ok hr p acc'"
  using part_ok_frame [of p acc' acc hr] parts_frame(2) [of hr ps acc r acc' r'] by (auto simp: list_all_iff)

abbreviation element_ok :: "resolver \<Rightarrow> part list \<Rightarrow> vk \<Rightarrow> bool" where
  "element_ok hr ps v \<equiv> (case list_of v of None \<Rightarrow> False | Some row \<Rightarrow> list_all (\<lambda>q. part_ok hr q row) ps)"

lemma parts_safe:
  "r_part hr p acc r = (Some acc', r') \<Longrightarrow> wf_part p \<Longrightarrow> part_ok hr p acc'"
  "r_parts hr ps acc r = (Some acc', r') \<Longrightarrow> wf_parts ps \<Longrightarrow> list_all (\<lambda>p. part_ok hr p acc') ps"
  "r_elems hr ps n k r = (Some rows, r') \<Longrightarrow> wf_parts ps \<Longrightarrow> list_all (element_ok hr ps) rows"
proof (induction hr p acc r and hr ps acc r and hr ps n k r arbitrary: acc' r' and acc' r' and rows r' rule: r_part_r_parts_r_elems.induct)
  case (1 hr ms acc r)
  then obtain vs buf where vs: "r_members hr ms buf = Some vs" "acc' = vs @ drop (length vs) acc"
    by (auto split: prod.splits option.splits)
  then show ?case using r_members_resolved [OF vs(1), of _ _ 0] by (fastforce simp: list_all_iff slot_def nth_append)
next
  case (12 hr f m p c k acc r)
  then show ?case by (auto intro!: yields elim!: put_slot_yields split: if_splits)
next
  case (23 hr p c least n ps acc r)
  from 23(2) consider "acc' = acc[p := VNum 0]"
    | rows where "r_elems hr ps n (unat (slot32 acc c)) r = (Some rows, r')" "acc' = acc[p := VList rows]"
      "\<not> (slot32 acc c > kMaxArrayElements \<or> (least \<noteq> 0 \<and> unat (slot32 acc c) > r_remaining r div least))" "slot32 acc c \<noteq> 0"
    by (auto split: prod.splits if_splits)
  then show ?case
  proof cases
    case (2 rows)
    have "list_all (element_ok hr ps) rows" using 23(1) [OF 2(3,4,1)] 23(3) by (simp add: wf_parts_def)
    then show ?thesis using 2(2) by (auto intro: slot_put simp: built_def)
  qed (auto intro: slot_put)
next
  case (24 hr p c n ps acc r)
  from 24(2) consider "acc' = acc[p := VNum 0]"
    | rows present r1 where "(present, r1) = r_u32 r" "r_elems hr ps n (unat (slot32 acc c)) r1 = (Some rows, r')" "acc' = acc[p := VList rows]"
      "\<not> (\<not> r_ok r1 \<or> present > 1)" "present \<noteq> 0"
    by (auto simp: Let_def split: prod.splits if_splits)
  then show ?case
  proof cases
    case (2 rows present r1)
    have "list_all (element_ok hr ps) rows" using 24(1) [OF 2(1) refl 2(4,5,2)] 24(3) by (simp add: wf_parts_def)
    then show ?thesis using 2(3) by (auto intro: slot_put simp: built_def)
  qed (auto intro: slot_put)
next
  case (26 hr p n strict ps acc r)
  from 26(2) consider "acc' = acc[p := VNum 0]"
    | inner present r1 where "(present, r1) = r_u32 r" "r_parts hr ps (no_slots n) r1 = (Some inner, r')" "acc' = acc[p := VList inner]"
      "\<not> (\<not> r_ok r1 \<or> (strict \<and> present > 1))" "present \<noteq> 0"
    by (auto simp: Let_def split: prod.splits if_splits)
  then show ?case
  proof cases
    case (2 inner present r1)
    have "list_all (\<lambda>p. part_ok hr p inner) ps" using 26(1) [OF 2(1) refl 2(4,5,2)] 26(3) by (simp add: wf_parts_def)
    then show ?thesis using 2(3) by (auto simp: slot_def)
  qed (auto intro: slot_put)
next
  case (27 hr q ps acc r)
  then show ?case by (auto simp: wf_parts_def split: if_splits)
next
  case (29 hr p ps acc r)
  from 29(3) obtain acc1 r1 where f: "r_part hr p acc r = (Some acc1, r1)" "r_parts hr ps acc1 r1 = (Some acc', r')"
    by (auto split: prod.splits option.splits)
  from 29(4) have w: "wf_part p" "wf_parts ps" "undisturbed (p # ps)" by (auto simp: wf_parts_def)
  from undisturbed_frame [OF w(3) 29(1) [OF f(1) w(1)] f(2)] 29(2) [OF f(1) [symmetric] refl f(2) w(2)] show ?case by simp
next
  case (31 hr ps n k r)
  from 31(3) obtain vs r1 rows' where f: "r_parts hr ps (no_slots n) r = (Some vs, r1)" "r_elems hr ps n k r1 = (Some rows', r')" "rows = VList vs # rows'"
    by (auto split: prod.splits option.splits)
  from 31(1) [OF f(1) 31(4)] 31(2) [OF f(1) [symmetric] refl f(2) 31(4)] f(3) show ?case by simp
qed (auto intro!: yields intro: slot_put elim!: put_slot_yields split: if_splits)

end
