(* ===== verification/CreateInfo.thy ===== *)
theory CreateInfo
  imports RawCodec
begin

section \<open>The create infos and commands of common/marshal.cpp\<close>

text \<open>
  One description per pair of \<open>write_X\<close> and \<open>read_X\<close>: the number of slots of the structure and
  its parts in the order of the wire. A writer that returns \<open>false\<close>, or returns early without
  appending anything, is \<open>None\<close>. Slots are numbered by the declaration of the structure in
  vulkan_core.h on a 64-bit target: \<open>sType\<close> is 0 and \<open>pNext\<close> is 1.
\<close>

definition hdr :: "member list" where
  "hdr = [M32, MPad 4, MPtr]"

definition words :: "nat \<Rightarrow> member list" where
  "words n = replicate n M32"

subsection \<open>Devices and presentation\<close>

definition DeviceQueueCreateInfo :: raw_struct where
  "DeviceQueueCreateInfo = (6, [PImage (hdr @ [M32, M32, M32, MPad 4, MPtr]), PPods 5 4 4])"

definition DeviceCreateInfo :: raw_struct where
  "DeviceCreateInfo = (10, [PImage (hdr @ [M32, M32, MPtr, M32, MPad 4, MPtr, M32, MPad 4, MPtr, MPtr]),
     PChain 1 DeviceCreate, PStructs 4 3 0 (fst DeviceQueueCreateInfo) (snd DeviceQueueCreateInfo),
     PStrings 6 5, PStrings 8 7, POptPod 9 220])"

definition SwapchainCreateInfoKHR :: raw_struct where
  "SwapchainCreateInfoKHR = (19, [PImage (hdr @ [M32, MPad 4, MHandle Surfaces Lax] @ words 9 @ [MPad 4, MPtr] @ words 4
     @ [MHandle Swapchains Lax]), PPods 13 12 4])"

definition ImageViewCreateInfo :: raw_struct where
  "ImageViewCreateInfo = (15, [PImage (hdr @ [M32, MPad 4, MHandle Images Lax] @ words 11 @ [MPad 4]), PChain 1 ImageViewCreate])"

subsection \<open>Render passes\<close>

definition SubpassDescription :: raw_struct where
  "SubpassDescription = (10, [PImage [M32, M32, M32, MPad 4, MPtr, M32, MPad 4, MPtr, MPtr, MPtr, M32, MPad 4, MPtr],
     PPods 3 2 8, PPods 5 4 8, POptPods 6 4 8, POptPod 7 8, PPods 9 8 4])"

definition RenderPassCreateInfo :: raw_struct where
  "RenderPassCreateInfo = (9, [PImage (hdr @ [M32, M32, MPtr, M32, MPad 4, MPtr, M32, MPad 4, MPtr]), PChain 1 RenderPass,
     PPods 4 3 36, PStructs 6 5 0 (fst SubpassDescription) (snd SubpassDescription), PPods 8 7 28])"

definition AttachmentReference2 :: raw_struct where
  "AttachmentReference2 = (5, [PType 0 1000109001 True, PPlain 1 2 0, PWord 2, PWord 3, PWord 4])"

definition SubpassDescription2 :: raw_struct where
  "SubpassDescription2 = (13, [PType 0 1000109002 True, PWord 2, PWord 3, PWord 4, PChain 1 RenderPass2,
     PWord 5, PLimit 5, PStructs 6 5 16 (fst AttachmentReference2) (snd AttachmentReference2),
     PWord 7, PLimit 7, PStructs 8 7 16 (fst AttachmentReference2) (snd AttachmentReference2),
     POptStructs 9 7 (fst AttachmentReference2) (snd AttachmentReference2),
     POpt 10 (fst AttachmentReference2) True (snd AttachmentReference2),
     PWord 11, PLimit 11, PStructs 12 11 4 1 [PWord 0]])"

definition AttachmentDescription2 :: raw_struct where
  "AttachmentDescription2 = (11, [PType 0 1000109000 True, PPlain 1 2 0] @ map PWord [2..<11])"

definition SubpassDependency2 :: raw_struct where
  "SubpassDependency2 = (10, [PType 0 1000109003 True, PPlain 1 2 0] @ map PWord [2..<10])"

definition RenderPassCreateInfo2 :: raw_struct where
  "RenderPassCreateInfo2 = (11, [PType 0 1000109004 True, PWord 2, PChain 1 RenderPass,
     PWord 3, PLimit 3, PStructs 4 3 40 (fst AttachmentDescription2) (snd AttachmentDescription2),
     PWord 5, PLimit 5, PStructs 6 5 0 (fst SubpassDescription2) (snd SubpassDescription2),
     PWord 7, PLimit 7, PStructs 8 7 36 (fst SubpassDependency2) (snd SubpassDependency2),
     PWord 9, PLimit 9, PStructs 10 9 4 1 [PWord 0]])"

definition FramebufferCreateInfo :: raw_struct where
  "FramebufferCreateInfo = (9, [PImage (hdr @ [M32, MPad 4, MHandle RenderPasses Lax, M32, MPad 4, MPtr] @ words 3 @ [MPad 4]),
     PChain 1 FramebufferCreate, PHandlesUnless 2 1 5 4 ImageViews])"

definition RenderPassBeginInfo :: raw_struct where
  "RenderPassBeginInfo = (10, [PImage (hdr @ [MHandle RenderPasses Lax, MHandle Framebuffers Lax] @ words 5 @ [MPad 4, MPtr]),
     PChain 1 RenderPassBegin, PPods 9 8 16])"

definition SubpassBeginInfo :: raw_struct where
  "SubpassBeginInfo = (3, [PType 0 1000109005 True, PWord 2, PChain 1 RenderPass2])"

definition SubpassEndInfo :: raw_struct where
  "SubpassEndInfo = (2, [PType 0 1000109006 True, PChain 1 RenderPass2])"

subsection \<open>Pipelines\<close>

definition PipelineLayoutCreateInfo :: raw_struct where
  "PipelineLayoutCreateInfo = (7, [PImage (hdr @ [M32, M32, MPtr, M32, MPad 4, MPtr]),
     PHandles 4 3 DescriptorSetLayouts Lax, PPods 6 5 12])"

definition SpecializationInfo :: raw_struct where
  "SpecializationInfo = (4, [PImage [M32, MPad 4, MPtr, M64, MPtr], PPods 1 0 16, PData 3 2])"

definition PipelineShaderStageCreateInfo :: raw_struct where
  "PipelineShaderStageCreateInfo = (7, [PImage (hdr @ [M32, M32, MHandle ShaderModules Strict, MPtr, MPtr]),
     PName 5, POpt 6 (fst SpecializationInfo) False (snd SpecializationInfo)])"

text \<open>
  The states of a graphics pipeline. Those without arrays are sent as they are, their \<open>pNext\<close>
  included (\<open>MRaw\<close>). The reader replaces only the tessellation state's, by the chain that follows;
  that chain has a slot of its own, 19.
\<close>

definition VertexInputState :: raw_struct where
  "VertexInputState = (7, [PImage (hdr @ [M32, M32, MPtr, M32, MPad 4, MPtr]), PLimit 3, PLimit 5, PPods 4 3 12, PPods 6 5 16])"

definition InputAssemblyState :: raw_struct where
  "InputAssemblyState = (5, [PImage ([M32, MPad 4, MRaw] @ words 3 @ [MPad 4])])"

definition TessellationState_image :: raw_struct where
  "TessellationState_image = (4, [PImage [M32, MPad 4, M64, M32, M32]])"

definition ViewportState :: raw_struct where
  "ViewportState = (7, [PImage (hdr @ [M32, M32, MPtr, M32, MPad 4, MPtr]), PLimit 3, PLimit 5, POptPods 4 3 24, POptPods 6 5 16])"

definition RasterizationState :: raw_struct where
  "RasterizationState = (13, [PImage ([M32, MPad 4, MRaw] @ words 11 @ [MPad 4])])"

definition MultisampleState :: raw_struct where
  "MultisampleState = (9, [PImage (hdr @ [M32, M32, M32, M32, MPtr, M32, M32]), PMask 6 3])"

definition DepthStencilState :: raw_struct where
  "DepthStencilState = (24, [PImage ([M32, MPad 4, MRaw] @ words 22)])"

definition ColorBlendState :: raw_struct where
  "ColorBlendState = (11, [PImage (hdr @ [M32, M32, M32, M32, MPtr] @ words 4), PLimit 5, PPods 6 5 32])"

definition DynamicState :: raw_struct where
  "DynamicState = (5, [PImage (hdr @ [M32, M32, MPtr]), PLimit 3, PPods 4 3 4])"

definition POptStruct :: "nat \<Rightarrow> raw_struct \<Rightarrow> part" where
  "POptStruct p S = POpt p (fst S) False (snd S)"

definition GraphicsPipelineCreateInfo :: raw_struct where
  "GraphicsPipelineCreateInfo = (20, [PImage (hdr @ [M32, M32] @ replicate 10 MPtr @ [MHandle PipelineLayouts Strict,
       MHandle RenderPasses Strict, M32, MPad 4, MHandle Pipelines Strict, M32, MPad 4]),
     PLimit 3, PStructs 4 3 12 (fst PipelineShaderStageCreateInfo) (snd PipelineShaderStageCreateInfo),
     POptStruct 5 VertexInputState, POptStruct 6 InputAssemblyState, POptStruct 7 TessellationState_image,
     POptStruct 8 ViewportState, POptStruct 9 RasterizationState, POptStruct 10 MultisampleState,
     POptStruct 11 DepthStencilState, POptStruct 12 ColorBlendState, POptStruct 13 DynamicState,
     PChain 1 GraphicsPipeline, PWhen 7 [PChain 19 TessellationState]])"

subsection \<open>Commands, queries and events\<close>

definition BufferViewCreateInfo :: raw_struct where
  "BufferViewCreateInfo = (7, [PType 0 13 True, PPlain 1 2 0, PWord 2, PId 3 Buffers Required, PWord 4, PLong 5, PLong 6])"

definition QueryPoolCreateInfo :: raw_struct where
  "QueryPoolCreateInfo = (6, [PType 0 11 False, PWord 2, PWord 3, PWord 4, PWord 5, PNull 1, PNonzero 4, PBound 4])"

definition EventCreateInfo :: raw_struct where
  "EventCreateInfo = (3, [PType 0 10 False, PWord 2, PNull 1])"

definition CommandBufferAllocateInfo :: raw_struct where
  "CommandBufferAllocateInfo = (5, [PImage (hdr @ [MHandle CommandPools Lax, M32, M32]), PBound 4])"

definition CommandBufferInheritanceInfo :: raw_struct where
  "CommandBufferInheritanceInfo = (8, [PType 0 41 False, PNull 1, PId 2 RenderPasses Strict, PWord 3, PId 4 Framebuffers Strict,
     PWord 5, PWord 6, PWord 7])"

definition CommandBufferBeginInfo :: raw_struct where
  "CommandBufferBeginInfo = (4, [PType 0 42 False, PWord 2, PNull 1,
     POpt 3 (fst CommandBufferInheritanceInfo) True (snd CommandBufferInheritanceInfo)])"

subsection \<open>Descriptors\<close>

definition DescriptorSetLayoutBinding :: raw_struct where
  "DescriptorSetLayoutBinding = (5, [PImage [M32, M32, M32, M32, MPtr], POptHandles 4 2 Samplers])"

definition DescriptorSetLayoutCreateInfo :: raw_struct where
  "DescriptorSetLayoutCreateInfo = (5, [PImage (hdr @ [M32, M32, MPtr]), PPlain 1 2 2,
     PStructs 4 3 4 (fst DescriptorSetLayoutBinding) (snd DescriptorSetLayoutBinding)])"

definition DescriptorUpdateTemplateCreateInfo :: raw_struct where
  "DescriptorUpdateTemplateCreateInfo = (10, [PType 0 1000085000 True, PPlain 1 2 0, PWord 2, PWord 3, PLimit 3,
     PStructs 4 3 32 6 [PWord 0, PWord 1, PWord 2, PWord 3, PLong 4, PLong 5],
     PWord 5, PId 6 DescriptorSetLayouts Lax, PWord 7, PId 8 PipelineLayouts Lax, PWord 9])"

definition SamplerYcbcrConversionCreateInfo :: raw_struct where
  "SamplerYcbcrConversionCreateInfo = (13, PType 0 1000156000 False # map PWord [2..<13])"

definition DescriptorPoolCreateInfo :: raw_struct where
  "DescriptorPoolCreateInfo = (6, [PImage (hdr @ [M32, M32, M32, MPad 4, MPtr]), PPlain 1 2 2, PPods 5 4 8])"

definition DescriptorSetAllocateInfo :: raw_struct where
  "DescriptorSetAllocateInfo = (5, [PImage (hdr @ [MHandle DescriptorPools Required, M32, MPad 4, MPtr]), PPlain 1 2 0, PBound 3,
     PHandles 4 3 DescriptorSetLayouts Required])"

definition CopyDescriptorSet :: raw_struct where
  "CopyDescriptorSet = (9, [PImage (hdr @ [MHandle DescriptorSets Required, M32, M32, MHandle DescriptorSets Required] @ words 3 @ [MPad 4])])"

subsection \<open>Barriers and submissions\<close>

definition ImageMemoryBarrier :: raw_struct where
  "ImageMemoryBarrier = (14, [PImage (hdr @ words 6 @ [MHandle Images Lax] @ words 5 @ [MPad 4])])"

definition BufferMemoryBarrier :: raw_struct where
  "BufferMemoryBarrier = (9, [PImage (hdr @ words 4 @ [MHandle Buffers Lax, M64, M64])])"

definition MemoryBarrier :: raw_struct where
  "MemoryBarrier = (4, [PImage (hdr @ words 2)])"

definition MemoryBarrier2 :: raw_struct where
  "MemoryBarrier2 = (6, [PTag 0 1000314000, PPlain 1 2 0] @ map PLong [2..<6])"

definition BufferMemoryBarrier2 :: raw_struct where
  "BufferMemoryBarrier2 = (11, [PTag 0 1000314001, PPlain 1 2 0] @ map PLong [2..<6] @ [PWord 6, PWord 7, PId 8 Buffers Direct, PLong 9, PLong 10])"

definition ImageMemoryBarrier2 :: raw_struct where
  "ImageMemoryBarrier2 = (16, [PTag 0 1000314002, PPlain 1 2 0] @ map PLong [2..<6] @ map PWord [6..<10] @ [PId 10 Images Direct]
     @ map PWord [11..<16])"

definition DependencyInfo :: raw_struct where
  "DependencyInfo = (9, [PTag 0 1000314003, PPlain 1 2 0, PWord 2,
     PWord 3, PLimit 3, PStructs 4 3 32 (fst MemoryBarrier2) (snd MemoryBarrier2),
     PWord 5, PLimit 5, PStructs 6 5 64 (fst BufferMemoryBarrier2) (snd BufferMemoryBarrier2),
     PWord 7, PLimit 7, PStructs 8 7 76 (fst ImageMemoryBarrier2) (snd ImageMemoryBarrier2)])"

definition SemaphoreSubmitInfo :: raw_struct where
  "SemaphoreSubmitInfo = (6, [PTag 0 1000314005, PPlain 1 2 0, PId 2 Semaphores Direct, PLong 3, PLong 4, PWord 5])"

definition CommandBufferSubmitInfo :: raw_struct where
  "CommandBufferSubmitInfo = (4, [PTag 0 1000314006, PPlain 1 2 0, PId 2 CommandBuffers Direct, PWord 3])"

definition SubmitInfo2 :: raw_struct where
  "SubmitInfo2 = (9, [PTag 0 1000314004, PPlain 1 2 0, PWord 2,
     PWord 3, PLimit 3, PStructs 4 3 28 (fst SemaphoreSubmitInfo) (snd SemaphoreSubmitInfo),
     PWord 5, PLimit 5, PStructs 6 5 12 (fst CommandBufferSubmitInfo) (snd CommandBufferSubmitInfo),
     PWord 7, PLimit 7, PStructs 8 7 28 (fst SemaphoreSubmitInfo) (snd SemaphoreSubmitInfo)])"

subsection \<open>Resources\<close>

definition BufferCreateInfo :: raw_struct where
  "BufferCreateInfo = (8, [PImage (hdr @ [M32, MPad 4, M64, M32, M32, M32, MPad 4, MPtr]), PChain 1 BufferCreate, PPods 7 6 4])"

definition ImageCreateInfo :: raw_struct where
  "ImageCreateInfo = (17, [PImage (hdr @ words 13 @ [MPad 4, MPtr, M32, MPad 4]), PChain 1 ImageCreate, PPods 15 14 4])"

definition MemoryAllocateInfo :: raw_struct where
  "MemoryAllocateInfo = (4, [PImage (hdr @ [M64, M32, MPad 4]), PChain 1 MemoryAllocate])"

definition SamplerCreateInfo :: raw_struct where
  "SamplerCreateInfo = (18, [PImage (hdr @ words 16), PChain 1 SamplerCreate])"

definition FenceCreateInfo :: raw_struct where
  "FenceCreateInfo = (3, [PImage (hdr @ [M32, MPad 4])])"

definition SemaphoreCreateInfo :: raw_struct where
  "SemaphoreCreateInfo = (3, [PImage (hdr @ [M32, MPad 4]), PChain 1 SemaphoreCreate])"

definition CommandPoolCreateInfo :: raw_struct where
  "CommandPoolCreateInfo = (4, [PImage (hdr @ words 2)])"

definition PipelineCacheCreateInfo :: raw_struct where
  "PipelineCacheCreateInfo = (5, [PImage (hdr @ [M32, MPad 4, M64, MPtr]), PData 4 3])"

text \<open>Structures without pointers: the image and nothing else.\<close>

definition BufferImageCopy :: raw_struct where "BufferImageCopy = (13, [PImage (M64 # words 12)])"
definition ImageCopy :: raw_struct where "ImageCopy = (17, [PImage (words 17)])"
definition ImageBlit :: raw_struct where "ImageBlit = (20, [PImage (words 20)])"
definition BufferCopy :: raw_struct where "BufferCopy = (3, [PImage [M64, M64, M64]])"
definition Viewport :: raw_struct where "Viewport = (6, [PImage (words 6)])"
definition Rect2D :: raw_struct where "Rect2D = (4, [PImage (words 4)])"
definition MemoryRequirements :: raw_struct where "MemoryRequirements = (3, [PImage [M64, M64, M32, MPad 4]])"
definition SubresourceLayout :: raw_struct where "SubresourceLayout = (5, [PImage (replicate 5 M64)])"
definition SurfaceCapabilitiesKHR :: raw_struct where "SurfaceCapabilitiesKHR = (13, [PImage (words 13)])"

definition create_infos :: "(string \<times> raw_struct) list" where
  "create_infos = [(''DeviceQueueCreateInfo'', DeviceQueueCreateInfo), (''DeviceCreateInfo'', DeviceCreateInfo),
     (''SwapchainCreateInfoKHR'', SwapchainCreateInfoKHR), (''ImageViewCreateInfo'', ImageViewCreateInfo),
     (''RenderPassCreateInfo'', RenderPassCreateInfo), (''RenderPassCreateInfo2'', RenderPassCreateInfo2),
     (''FramebufferCreateInfo'', FramebufferCreateInfo), (''RenderPassBeginInfo'', RenderPassBeginInfo),
     (''SubpassBeginInfo'', SubpassBeginInfo), (''SubpassEndInfo'', SubpassEndInfo),
     (''PipelineLayoutCreateInfo'', PipelineLayoutCreateInfo), (''PipelineShaderStageCreateInfo'', PipelineShaderStageCreateInfo),
     (''GraphicsPipelineCreateInfo'', GraphicsPipelineCreateInfo), (''BufferViewCreateInfo'', BufferViewCreateInfo),
     (''QueryPoolCreateInfo'', QueryPoolCreateInfo), (''EventCreateInfo'', EventCreateInfo),
     (''CommandBufferAllocateInfo'', CommandBufferAllocateInfo), (''CommandBufferBeginInfo'', CommandBufferBeginInfo),
     (''DescriptorSetLayoutCreateInfo'', DescriptorSetLayoutCreateInfo),
     (''DescriptorUpdateTemplateCreateInfo'', DescriptorUpdateTemplateCreateInfo),
     (''SamplerYcbcrConversionCreateInfo'', SamplerYcbcrConversionCreateInfo), (''DescriptorPoolCreateInfo'', DescriptorPoolCreateInfo),
     (''DescriptorSetAllocateInfo'', DescriptorSetAllocateInfo), (''CopyDescriptorSet'', CopyDescriptorSet),
     (''ImageMemoryBarrier'', ImageMemoryBarrier), (''BufferMemoryBarrier'', BufferMemoryBarrier), (''MemoryBarrier'', MemoryBarrier),
     (''DependencyInfo'', DependencyInfo), (''SubmitInfo2'', SubmitInfo2), (''BufferCreateInfo'', BufferCreateInfo),
     (''ImageCreateInfo'', ImageCreateInfo), (''MemoryAllocateInfo'', MemoryAllocateInfo), (''SamplerCreateInfo'', SamplerCreateInfo),
     (''FenceCreateInfo'', FenceCreateInfo), (''SemaphoreCreateInfo'', SemaphoreCreateInfo), (''CommandPoolCreateInfo'', CommandPoolCreateInfo),
     (''PipelineCacheCreateInfo'', PipelineCacheCreateInfo), (''BufferImageCopy'', BufferImageCopy), (''ImageCopy'', ImageCopy),
     (''ImageBlit'', ImageBlit), (''BufferCopy'', BufferCopy), (''Viewport'', Viewport), (''Rect2D'', Rect2D),
     (''MemoryRequirements'', MemoryRequirements), (''SubresourceLayout'', SubresourceLayout),
     (''SurfaceCapabilitiesKHR'', SurfaceCapabilitiesKHR)]"

lemma create_infos_wf: "list_all (\<lambda>x. wf_parts (snd (snd x))) create_infos"
  by code_simp

text \<open>The size of every image is that of the structure in C.\<close>

definition structure_sizes :: "nat list" where
  "structure_sizes = [40, 72, 104, 80, 64, 64, 64, 48, 48, 144, 32, 32, 40, 40, 56, 72, 56, 24, 56, 88, 32, 80, 24, 24, 24, 40,
     56, 68, 80, 24, 24, 16, 24, 40, 52]"

fun images :: "part list \<Rightarrow> member list list" where
  "images [] = []"
| "images (PImage ms # ps) = ms # images ps"
| "images (p # ps) = images ps"

lemma structure_sizes_match: "map image_size (concat (map (\<lambda>x. images (snd (snd x))) create_infos)) = structure_sizes"
  by code_simp

subsection \<open>Three structures with a codec of their own\<close>

definition kMaxShaderCodeBytes :: u64 where
  "kMaxShaderCodeBytes = 16 * 1024 * 1024"

definition w_word :: "vk \<Rightarrow> bytes option" where
  "w_word v = map_option (\<lambda>x. le_bytes 4 (ucast x :: u32)) (num_of v)"

definition view_word :: "vk \<Rightarrow> vk option" where
  "view_word v = map_option (\<lambda>x. VNum (ucast (ucast x :: u32))) (num_of v)"

interpretation code_words: piece_codec w_word r_word view_word
  by unfold_locales (auto simp: w_word_def view_word_def)

text \<open>The code is the list of its words. That the application's pointer is aligned is not modelled.\<close>

definition shader_size_ok :: "u64 \<Rightarrow> bool" where
  "shader_size_ok n \<longleftrightarrow> n \<noteq> 0 \<and> n mod 4 = 0 \<and> n \<le> kMaxShaderCodeBytes"

definition shader_head :: "part list" where
  "shader_head = [PType 0 16 True, PWord 2, PChain 1 ShaderModule]"

definition write_ShaderModuleCreateInfo :: "vk \<Rightarrow> bytes option" where
  "write_ShaderModuleCreateInfo v = Option.bind (list_of v) (\<lambda>vs. let n = slot64 vs 3 in
     if \<not> shader_size_ok n \<or> slot vs 4 = VNum 0 then None
     else Option.bind (w_parts shader_head vs) (\<lambda>head.
       map_option (\<lambda>code. head @ le_bytes 8 n @ code) (w_each w_word (unat (n div 4)) (slot vs 4))))"

definition read_ShaderModuleCreateInfo :: "resolver \<Rightarrow> Reader \<Rightarrow> vk option \<times> Reader" where
  "read_ShaderModuleCreateInfo hr r = (case r_parts hr shader_head (no_slots 5) r of (None, r1) \<Rightarrow> (None, r1)
     | (Some acc, r1) \<Rightarrow> (let (n, r2) = r_u64 r1 in
         if \<not> r_ok r2 \<or> \<not> shader_size_ok n \<or> unat n \<noteq> r_remaining r2 then (None, r2)
         else case r_each r_word (unat (n div 4)) r2 of (None, r3) \<Rightarrow> (None, r3)
           | (Some code, r3) \<Rightarrow> if \<not> r_ok r3 \<or> r_remaining r3 \<noteq> 0 then (None, r3)
               else (Some (VList (acc[3 := VNum n, 4 := code])), r3)))"

definition view_ShaderModuleCreateInfo :: "resolver \<Rightarrow> vk \<Rightarrow> vk option" where
  "view_ShaderModuleCreateInfo hr v = Option.bind (list_of v) (\<lambda>vs.
     Option.bind (view_parts hr shader_head vs (no_slots 5)) (\<lambda>acc.
       map_option (\<lambda>code. VList (acc[3 := VNum (slot64 vs 3), 4 := code])) (view_each view_word (slot vs 4))))"

text \<open>
  A descriptor write sends one of three arrays, told apart by a kind that follows from the descriptor type. An image
  descriptor sends only the handles its type uses, and both sides refuse a null one of those.
\<close>

definition descriptor_kind :: "u32 \<Rightarrow> u32 option" where
  "descriptor_kind t = (if List.member [0, 1, 2, 3, 10] t then Some 1 else if List.member [6, 7, 8, 9] t then Some 2
     else if List.member [4, 5] t then Some 3 else None)"

definition sampler_used :: "u32 \<Rightarrow> bool" where "sampler_used t \<longleftrightarrow> t = 0 \<or> t = 1"

definition view_used :: "u32 \<Rightarrow> bool" where "view_used t \<longleftrightarrow> t \<noteq> 0"

definition WriteDescriptorSet_image :: "member list" where
  "WriteDescriptorSet_image = hdr @ [MHandle DescriptorSets Required] @ words 4 @ [MPtr, MPtr, MPtr]"

definition w_image_info :: "u32 \<Rightarrow> vk \<Rightarrow> bytes option" where
  "w_image_info t v = Option.bind (list_of v) (\<lambda>vs.
     if (sampler_used t \<and> slot64 vs 0 = 0) \<or> (view_used t \<and> slot64 vs 1 = 0) then None
     else Some (le_bytes 8 (if sampler_used t then slot64 vs 0 else 0) @ le_bytes 8 (if view_used t then slot64 vs 1 else 0)
       @ le_bytes 4 (slot32 vs 2)))"

definition image_info_of :: "resolver \<Rightarrow> u32 \<Rightarrow> u64 \<Rightarrow> u64 \<Rightarrow> u32 \<Rightarrow> vk option" where
  "image_info_of hr t sampler_id iview layout =
     Option.bind (if sampler_used t then resolve_id hr Samplers Required sampler_id else Some 0) (\<lambda>sampler.
     Option.bind (if view_used t then resolve_id hr ImageViews Required iview else Some 0) (\<lambda>view.
       Some (VList [VNum sampler, VNum view, VNum (ucast layout)])))"

definition r_image_info :: "resolver \<Rightarrow> u32 \<Rightarrow> Reader \<Rightarrow> vk option \<times> Reader" where
  "r_image_info hr t r = (let (sampler_id, r1) = r_handle r; (iview, r2) = r_handle r1; (layout, r3) = r_u32 r2 in
     if \<not> r_ok r3 then (None, r3) else (image_info_of hr t sampler_id iview layout, r3))"

definition view_image_info :: "resolver \<Rightarrow> u32 \<Rightarrow> vk \<Rightarrow> vk option" where
  "view_image_info hr t v = Option.bind (list_of v) (\<lambda>vs. image_info_of hr t (slot64 vs 0) (slot64 vs 1) (slot32 vs 2))"

definition w_buffer_info :: "vk \<Rightarrow> bytes option" where
  "w_buffer_info v = Option.bind (list_of v) (\<lambda>vs. if slot64 vs 0 = 0 then None
     else Some (le_bytes 8 (slot64 vs 0) @ le_bytes 8 (slot64 vs 1) @ le_bytes 8 (slot64 vs 2)))"

definition buffer_info_of :: "resolver \<Rightarrow> u64 \<Rightarrow> u64 \<Rightarrow> u64 \<Rightarrow> vk option" where
  "buffer_info_of hr buffer_id off extent =
     map_option (\<lambda>buffer. VList [VNum buffer, VNum off, VNum extent]) (resolve_id hr Buffers Required buffer_id)"

definition r_buffer_info :: "resolver \<Rightarrow> Reader \<Rightarrow> vk option \<times> Reader" where
  "r_buffer_info hr r = (let (buffer_id, r1) = r_handle r; (off, r2) = r_u64 r1; (extent, r3) = r_u64 r2 in
     if \<not> r_ok r3 then (None, r3) else (buffer_info_of hr buffer_id off extent, r3))"

definition view_buffer_info :: "resolver \<Rightarrow> vk \<Rightarrow> vk option" where
  "view_buffer_info hr v = Option.bind (list_of v) (\<lambda>vs. buffer_info_of hr (slot64 vs 0) (slot64 vs 1) (slot64 vs 2))"

definition w_texel_view :: "vk \<Rightarrow> bytes option" where
  "w_texel_view v = (if v = VNum 0 then None else w_id v)"

interpretation image_infos: piece_codec "w_image_info t" "r_image_info hr t" "view_image_info hr t"
  by unfold_locales (auto simp: w_image_info_def r_image_info_def view_image_info_def image_info_of_def bind_eq_Some_conv reader_simps
      split: if_splits)

interpretation buffer_infos: piece_codec w_buffer_info "r_buffer_info hr" "view_buffer_info hr"
  by unfold_locales (auto simp: w_buffer_info_def r_buffer_info_def view_buffer_info_def bind_eq_Some_conv reader_simps split: if_splits)

interpretation texel_views: piece_codec w_texel_view "r_id hr BufferViews Required" "view_id hr BufferViews Required"
  using ids.roundtrip by unfold_locales (auto simp: w_texel_view_def split: if_splits)

definition write_WriteDescriptorSet :: "vk \<Rightarrow> bytes option" where
  "write_WriteDescriptorSet v = Option.bind (list_of v) (\<lambda>vs. let n = slot32 vs 5; t = slot32 vs 6 in
     if n > kMaxArrayElements \<or> slot vs 2 = VNum 0 then None
     else Option.bind (w_members WriteDescriptorSet_image vs) (\<lambda>img. Option.bind (descriptor_kind t) (\<lambda>kind.
       map_option (\<lambda>infos. blob img @ le_bytes 4 kind @ infos)
         (if kind = 1 then write_counted_array n (w_image_info t) (slot vs 7)
          else if kind = 2 then write_counted_array n w_buffer_info (slot vs 8)
          else write_counted_array n w_texel_view (slot vs 9)))))"

definition read_descriptors :: "resolver \<Rightarrow> u32 \<Rightarrow> u32 \<Rightarrow> u32 \<Rightarrow> vk list \<Rightarrow> Reader \<Rightarrow> vk list option \<times> Reader" where
  "read_descriptors hr kind t n acc r =
     (if kind = 1 then put_slot 7 acc (read_counted_array n (r_image_info hr t) r)
      else if kind = 2 then put_slot 8 acc (read_counted_array n (r_buffer_info hr) r)
      else put_slot 9 acc (read_counted_array n (r_id hr BufferViews Required) r))"

definition read_WriteDescriptorSet :: "resolver \<Rightarrow> Reader \<Rightarrow> vk option \<times> Reader" where
  "read_WriteDescriptorSet hr r = (case read_raw (image_size WriteDescriptorSet_image) r of (None, r1) \<Rightarrow> (None, r1)
     | (Some buf, r1) \<Rightarrow> (case r_members hr WriteDescriptorSet_image buf of None \<Rightarrow> (None, r1)
         | Some vs \<Rightarrow> (let n = slot32 vs 5; t = slot32 vs 6; (kind, r2) = r_u32 r1 in
             if n > kMaxArrayElements \<or> \<not> r_ok r2 \<or> descriptor_kind t \<noteq> Some kind then (None, r2)
             else case read_descriptors hr kind t n (vs[7 := VNum 0, 8 := VNum 0, 9 := VNum 0]) r2 of
               (out, r3) \<Rightarrow> (map_option VList out, r3))))"

definition view_WriteDescriptorSet :: "resolver \<Rightarrow> vk \<Rightarrow> vk option" where
  "view_WriteDescriptorSet hr v = Option.bind (list_of v) (\<lambda>vs.
     Option.bind (view_members hr WriteDescriptorSet_image vs) (\<lambda>acc. let n = slot32 vs 5; t = slot32 vs 6 in
       if slot32 acc 5 \<noteq> n \<or> slot32 acc 6 \<noteq> t then None else
       Option.bind (descriptor_kind t) (\<lambda>kind.
         map_option (\<lambda>infos. VList (acc[7 := VNum 0, 8 := VNum 0, 9 := VNum 0, 6 + unat kind := infos]))
           (if kind = 1 then view_counted_array n (view_image_info hr t) (slot vs 7)
            else if kind = 2 then view_counted_array n (view_buffer_info hr) (slot vs 8)
            else view_counted_array n (view_id hr BufferViews Required) (slot vs 9)))))"

text \<open>
  A compute pipeline holds its stage inside its own image. Its writer clears only its own \<open>pNext\<close>: the image carries the
  three pointers of the stage as the numbers they are (\<open>addrs\<close>: \<open>pNext\<close>, \<open>pName\<close>, \<open>pSpecializationInfo\<close>); the stage then
  follows once more by itself. Slots 3 to 9 are the stage's.
\<close>

definition ComputePipeline_image :: "member list" where
  "ComputePipeline_image = hdr @ [M32, MPad 4] @ [M32, MPad 4, MRaw, M32, M32, M64, MRaw, MRaw]
     @ [MHandle PipelineLayouts Strict, MHandle Pipelines Strict, M32, MPad 4]"

definition stage_slots :: "vk list \<Rightarrow> vk list" where
  "stage_slots vs = take 7 (drop 3 vs)"

definition write_ComputePipelineCreateInfo :: "u64 \<times> u64 \<times> u64 \<Rightarrow> vk \<Rightarrow> bytes option" where
  "write_ComputePipelineCreateInfo addrs v = (case addrs of (pNext, pName, pSpec) \<Rightarrow> Option.bind (list_of v) (\<lambda>vs.
     Option.bind (w_members ComputePipeline_image (vs[4 := VNum pNext, 8 := VNum pName, 9 := VNum pSpec])) (\<lambda>img.
       map_option (\<lambda>stage. blob img @ stage) (w_parts (snd PipelineShaderStageCreateInfo) (stage_slots vs)))))"

definition with_stage :: "vk list \<Rightarrow> vk list \<Rightarrow> vk list" where
  "with_stage vs stage = take 3 vs @ stage[1 := VNum 0] @ drop 10 vs"

definition read_ComputePipelineCreateInfo :: "resolver \<Rightarrow> Reader \<Rightarrow> vk option \<times> Reader" where
  "read_ComputePipelineCreateInfo hr r = (case read_raw (image_size ComputePipeline_image) r of (None, r1) \<Rightarrow> (None, r1)
     | (Some buf, r1) \<Rightarrow> (case r_members hr ComputePipeline_image buf of None \<Rightarrow> (None, r1)
         | Some vs \<Rightarrow> (case r_parts hr (snd PipelineShaderStageCreateInfo) (no_slots 7) r1 of (None, r2) \<Rightarrow> (None, r2)
             | (Some stage, r2) \<Rightarrow> if slot64 vs 7 \<noteq> 0 \<and> slot64 stage 4 = 0 then (None, r2)
                 else (Some (VList (with_stage (vs[1 := VNum 0]) stage)), r2))))"

definition view_ComputePipelineCreateInfo :: "resolver \<Rightarrow> vk \<Rightarrow> vk option" where
  "view_ComputePipelineCreateInfo hr v = Option.bind (list_of v) (\<lambda>vs.
     Option.bind (view_members hr ComputePipeline_image (vs[4 := VNum 0, 8 := VNum 0, 9 := VNum 0])) (\<lambda>acc.
       map_option (\<lambda>stage. VList (with_stage acc stage)) (view_parts hr (snd PipelineShaderStageCreateInfo) (stage_slots vs) (no_slots 7))))"

subsection \<open>Round trips\<close>

lemma struct_raw_roundtrip:
  assumes "write_struct_raw S v = Some b" "view_struct_raw S hr v = Some v'"
  shows "read_struct_raw S hr (Reader_at pre (b @ rest)) = (Some v', Reader_at (pre @ b) rest)"
  using assms parts_roundtrip(2) [of "snd S"]
  by (fastforce simp: write_struct_raw_def view_struct_raw_def read_struct_raw_def bind_eq_Some_conv)

lemma shader_quarter: "shader_size_ok n \<Longrightarrow> 4 * unat (n div 4) = unat n"
proof -
  assume "shader_size_ok n"
  then have "unat n mod 4 = 0" by (simp add: shader_size_ok_def unat_arith_simps)
  then have "4 dvd unat n" by (rule mod_0_imp_dvd)
  then show ?thesis by (simp add: unat_div)
qed

lemma shader_words: "shader_size_ok n \<Longrightarrow> w_each w_word (unat (n div 4)) v = Some code \<Longrightarrow> length code = unat n"
proof -
  have len: "length (concat bs) = 4 * length vs" if "those (map w_word vs) = Some bs" for vs bs
    using that by (induction vs arbitrary: bs) (auto simp: w_word_def split: option.splits)
  assume "shader_size_ok n" "w_each w_word (unat (n div 4)) v = Some code"
  then show ?thesis using shader_quarter by (auto simp: w_each_def len split: option.splits if_splits)
qed

text \<open>A shader module is the last thing of its message: the reader takes the code as everything that is left.\<close>

lemma shader_module_roundtrip:
  assumes "write_ShaderModuleCreateInfo v = Some b" "view_ShaderModuleCreateInfo hr v = Some v'"
  shows "read_ShaderModuleCreateInfo hr (Reader_at pre b) = (Some v', Reader_at (pre @ b) [])"
    and "rest \<noteq> [] \<Longrightarrow> fst (read_ShaderModuleCreateInfo hr (Reader_at pre (b @ rest))) = None"
proof -
  from assms(1) obtain vs head code where w: "list_of v = Some vs" "shader_size_ok (slot64 vs 3)" "w_parts shader_head vs = Some head"
      "w_each w_word (unat (slot64 vs 3 div 4)) (slot vs 4) = Some code" "b = head @ le_bytes 8 (slot64 vs 3) @ code"
    by (auto simp: write_ShaderModuleCreateInfo_def Let_def bind_eq_Some_conv split: if_splits)
  from assms(2) w(1) obtain acc words where a: "view_parts hr shader_head vs (no_slots 5) = Some acc" "view_each view_word (slot vs 4) = Some words"
      "v' = VList (acc[3 := VNum (slot64 vs 3), 4 := words])"
    by (auto simp: view_ShaderModuleCreateInfo_def bind_eq_Some_conv)
  have len: "length code = unat (slot64 vs 3)" using shader_words [OF w(2,4)] .
  note head = parts_roundtrip(2) [OF w(3) a(1)] and code = piece_codec.roundtrip [OF code_words.each w(4) a(2)]
  show "read_ShaderModuleCreateInfo hr (Reader_at pre b) = (Some v', Reader_at (pre @ b) [])"
    using head [of pre "le_bytes 8 (slot64 vs 3) @ code"] code [of "(pre @ head) @ le_bytes 8 (slot64 vs 3)" "[]"] w(2,5) a(3) len
    by (simp add: read_ShaderModuleCreateInfo_def reader_simps)
  show "fst (read_ShaderModuleCreateInfo hr (Reader_at pre (b @ rest))) = None" if "rest \<noteq> []"
    using head [of pre "le_bytes 8 (slot64 vs 3) @ code @ rest"] w(5) that len
    by (simp add: read_ShaderModuleCreateInfo_def reader_simps)
qed

lemma descriptor_kind_cases: "descriptor_kind t = Some kind \<Longrightarrow> kind = 1 \<or> kind = 2 \<or> kind = 3"
  by (auto simp: descriptor_kind_def split: if_splits)

lemma image_at:
  assumes "w_members ms vs = Some img" "image_size ms < 2 ^ 32"
  shows "read_raw (image_size ms) (Reader_at pre (blob img @ rest)) = (Some img, Reader_at (pre @ blob img) rest)"
    and "r_members hr ms img = view_members hr ms vs"
  using members_roundtrip [OF assms(1), of hr] assms(2) read_raw_at [of img "image_size ms"] by simp_all

lemma write_descriptor_roundtrip:
  assumes "write_WriteDescriptorSet v = Some b" "view_WriteDescriptorSet hr v = Some v'"
  shows "read_WriteDescriptorSet hr (Reader_at pre (b @ rest)) = (Some v', Reader_at (pre @ b) rest)"
proof -
  from assms(1) obtain vs img kind infos where w: "list_of v = Some vs" "slot32 vs 5 \<le> kMaxArrayElements"
      "w_members WriteDescriptorSet_image vs = Some img" "descriptor_kind (slot32 vs 6) = Some kind"
      "(if kind = 1 then write_counted_array (slot32 vs 5) (w_image_info (slot32 vs 6)) (slot vs 7)
        else if kind = 2 then write_counted_array (slot32 vs 5) w_buffer_info (slot vs 8)
        else write_counted_array (slot32 vs 5) w_texel_view (slot vs 9)) = Some infos" "b = blob img @ le_bytes 4 kind @ infos"
    unfolding write_WriteDescriptorSet_def Let_def bind_eq_Some_conv by (auto simp: not_less bind_eq_Some_conv split del: if_split split: if_split_asm)
  from assms(2) w(1,4) obtain acc infos' where a: "view_members hr WriteDescriptorSet_image vs = Some acc" "slot32 acc 5 = slot32 vs 5"
      "slot32 acc 6 = slot32 vs 6" "(if kind = 1 then view_counted_array (slot32 vs 5) (view_image_info hr (slot32 vs 6)) (slot vs 7)
        else if kind = 2 then view_counted_array (slot32 vs 5) (view_buffer_info hr) (slot vs 8)
        else view_counted_array (slot32 vs 5) (view_id hr BufferViews Required) (slot vs 9)) = Some infos'"
      "v' = VList (acc[7 := VNum 0, 8 := VNum 0, 9 := VNum 0, 6 + unat kind := infos'])"
    unfolding view_WriteDescriptorSet_def Let_def by (auto simp: bind_eq_Some_conv split del: if_split split: if_split_asm)
  have d: "read_descriptors hr kind (slot32 vs 6) (slot32 vs 5) acc' (Reader_at pre' (infos @ rest)) =
      (Some (acc'[6 + unat kind := infos']), Reader_at (pre' @ infos) rest)" for acc' pre'
    using descriptor_kind_cases [OF w(4)]
  proof (elim disjE)
    assume k: "kind = 1"
    show ?thesis using piece_codec.roundtrip [OF image_infos.counted [of "slot32 vs 5" "slot32 vs 6"]] w(5) a(4)
      by (simp add: k read_descriptors_def put_slot_def)
  next
    assume k: "kind = 2"
    show ?thesis using piece_codec.roundtrip [OF buffer_infos.counted [of "slot32 vs 5"]] w(5) a(4)
      by (simp add: k read_descriptors_def put_slot_def)
  next
    assume k: "kind = 3"
    show ?thesis using piece_codec.roundtrip [OF texel_views.counted [of "slot32 vs 5"]] w(5) a(4)
      by (simp add: k read_descriptors_def put_slot_def)
  qed
  have "image_size WriteDescriptorSet_image = 64" by code_simp
  then have "image_size WriteDescriptorSet_image < 2 ^ 32" by simp
  note img = image_at [OF w(3) this]
  show ?thesis using img(1) [of pre "le_bytes 4 kind @ infos @ rest"] img(2) [of hr] w(2,4,6) a(1-3,5) d
    by (simp add: read_WriteDescriptorSet_def reader_simps not_less Let_def)
qed

lemma w_members_length: "w_members ms vs = Some b \<Longrightarrow> image_slots ms \<le> length vs"
  by (induction ms vs arbitrary: b rule: w_members.induct) (auto simp: bind_eq_Some_conv)

text \<open>The receiver's view of the image outside the stage does not depend on the stage's pointers.\<close>

lemma compute_image_views:
  assumes "13 \<le> length vs" "view_members hr ComputePipeline_image (vs[4 := VNum 0, 8 := VNum 0, 9 := VNum 0]) = Some acc"
  shows "\<exists>acc'. view_members hr ComputePipeline_image (vs[4 := VNum x, 8 := VNum y, 9 := VNum z]) = Some acc' \<and>
     (\<forall>stage. with_stage (acc'[1 := VNum 0]) stage = with_stage acc stage) \<and> slot acc' 7 = slot vs 7"
proof -
  from assms(1) obtain v0 v1 v2 v3 v4 v5 v6 v7 v8 v9 v10 v11 v12 tl
    where vs: "vs = [v0, v1, v2, v3, v4, v5, v6, v7, v8, v9, v10, v11, v12] @ tl"
    by (auto simp: numeral_eq_Suc Suc_le_length_iff)
  from assms(2) show ?thesis
    by (auto simp: vs ComputePipeline_image_def hdr_def bind_eq_Some_conv slot_def value_some with_stage_def)
qed

lemma stage_module:
  assumes "view_parts hr (snd PipelineShaderStageCreateInfo) vs (no_slots 7) = Some stage" "length vs = 7"
  shows "\<exists>i. slot vs 4 = VNum i \<and> (i \<noteq> 0 \<longrightarrow> slot64 stage 4 \<noteq> 0)"
proof -
  from assms(2) obtain v0 v1 v2 v3 v4 v5 v6 where "vs = [v0, v1, v2, v3, v4, v5, v6]"
    by (auto simp: numeral_eq_Suc length_Suc_conv)
  with assms(1) show ?thesis
    by (auto simp: PipelineShaderStageCreateInfo_def hdr_def bind_eq_Some_conv at_slot_def view_id_def value_some resolve_id_def Let_def
        slot_def slot64_def no_slots_def split: if_splits option.splits)
qed

text \<open>Whatever numbers the stage's pointers are, the receiver sees none of them.\<close>

lemma compute_pipeline_roundtrip:
  assumes "write_ComputePipelineCreateInfo addrs v = Some b" "view_ComputePipelineCreateInfo hr v = Some v'"
  shows "read_ComputePipelineCreateInfo hr (Reader_at pre (b @ rest)) = (Some v', Reader_at (pre @ b) rest)"
proof -
  obtain x y z where addrs: "addrs = (x, y, z)" by (cases addrs)
  from assms(1) addrs obtain vs img stage where w: "list_of v = Some vs"
      "w_members ComputePipeline_image (vs[4 := VNum x, 8 := VNum y, 9 := VNum z]) = Some img"
      "w_parts (snd PipelineShaderStageCreateInfo) (stage_slots vs) = Some stage" "b = blob img @ stage"
    by (auto simp: write_ComputePipelineCreateInfo_def bind_eq_Some_conv)
  from assms(2) w(1) obtain acc stage' where a:
      "view_members hr ComputePipeline_image (vs[4 := VNum 0, 8 := VNum 0, 9 := VNum 0]) = Some acc"
      "view_parts hr (snd PipelineShaderStageCreateInfo) (stage_slots vs) (no_slots 7) = Some stage'" "v' = VList (with_stage acc stage')"
    by (auto simp: view_ComputePipelineCreateInfo_def bind_eq_Some_conv)
  from w_members_length [OF w(2)] have long: "13 \<le> length vs" by (simp add: ComputePipeline_image_def hdr_def)
  then have len: "length (stage_slots vs) = 7" by (simp add: stage_slots_def)
  note two = compute_image_views [OF long a(1), of x y z]
  have "image_size ComputePipeline_image = 96" by code_simp
  then have "image_size ComputePipeline_image < 2 ^ 32" by simp
  note img = image_at [OF w(2) this]
  have "slot (stage_slots vs) 4 = slot vs 7" using long by (simp add: slot_def stage_slots_def)
  with stage_module [OF a(2) len] obtain i where i: "slot vs 7 = VNum i" "i \<noteq> 0 \<longrightarrow> slot64 stage' 4 \<noteq> 0" by auto
  then have id: "slot64 acc' 7 = i" if "slot acc' 7 = slot vs 7" for acc' using that by (simp add: slot64_def)
  show ?thesis
    using img(1) [of pre "stage @ rest"] img(2) [of hr] two i(2) id parts_roundtrip(2) [OF w(3) a(2)] w(4) a(3)
    by (auto simp: read_ComputePipelineCreateInfo_def)
qed

subsection \<open>Pointers of the peer\<close>

text \<open>Where slot \<open>i\<close> of an image begins, and what the reader makes of a pointer there: the eight bytes of the wire.\<close>

fun slot_offset :: "nat \<Rightarrow> member list \<Rightarrow> nat" where
  "slot_offset i [] = 0"
| "slot_offset i (MPad n # ms) = n + slot_offset i ms"
| "slot_offset 0 (m # ms) = 0"
| "slot_offset (Suc i) (m # ms) = member_size m + slot_offset i ms"

lemma pointer_slots_shift: "Suc i \<in> set (pointer_slots (Suc j) ms) \<longleftrightarrow> i \<in> set (pointer_slots j ms)" "0 \<notin> set (pointer_slots (Suc j) ms)"
  by (induction j ms rule: pointer_slots.induct) auto

lemma r_members_pointer:
  "r_members hr ms b = Some vs \<Longrightarrow> i \<in> set (pointer_slots 0 ms) \<Longrightarrow>
     i < length vs \<and> vs ! i = VNum (of_le_bytes (take 8 (drop (slot_offset i ms) b)))"
proof (induction i ms arbitrary: b vs rule: slot_offset.induct)
  case (2 i n ms)
  then show ?case by (fastforce simp: add.commute)
qed (auto simp: bind_eq_Some_conv pointer_slots_shift add.commute)

definition image_of :: "raw_struct \<Rightarrow> member list" where
  "image_of S = (case snd S of PImage ms # ps \<Rightarrow> ms | _ \<Rightarrow> [])"

definition kept_pointers :: "raw_struct \<Rightarrow> nat list" where
  "kept_pointers S = (case snd S of PImage ms # ps \<Rightarrow> filter (\<lambda>i. \<not> List.member (concat (map target ps)) i) (pointer_slots 0 ms) | _ \<Rightarrow> [])"

text \<open>The structures whose \<open>pNext\<close> the reader leaves as the image has it.\<close>

definition pnext_kept :: "string list" where
  "pnext_kept = [''DeviceQueueCreateInfo'', ''SwapchainCreateInfoKHR'', ''PipelineLayoutCreateInfo'', ''PipelineShaderStageCreateInfo'',
     ''CommandBufferAllocateInfo'', ''DescriptorSetLayoutCreateInfo'', ''DescriptorPoolCreateInfo'', ''DescriptorSetAllocateInfo'',
     ''CopyDescriptorSet'', ''ImageMemoryBarrier'', ''BufferMemoryBarrier'', ''MemoryBarrier'', ''FenceCreateInfo'',
     ''CommandPoolCreateInfo'', ''PipelineCacheCreateInfo'']"

lemma kept_pointers_table: "map (\<lambda>x. (fst x, kept_pointers (snd x))) (filter (\<lambda>x. kept_pointers (snd x) \<noteq> []) create_infos) = map (\<lambda>n. (n, [1])) pnext_kept"
  by code_simp

lemma kept_pnext: "map_of create_infos name = Some S \<Longrightarrow> kept_pointers S = (if List.member pnext_kept name then [1] else [])"
proof -
  have "list_all (\<lambda>(n, S). kept_pointers S = (if List.member pnext_kept n then [1] else [])) create_infos" by code_simp
  moreover assume "map_of create_infos name = Some S"
  then have "(name, S) \<in> set create_infos" by (rule map_of_SomeD)
  ultimately show ?thesis by (auto simp: list_all_iff)
qed

lemma kept_pointer_at:
  assumes "read_struct_raw S hr r = (Some (VList vs), r')" "i \<in> set (kept_pointers S)"
  shows "\<exists>img r1. read_raw (image_size (image_of S)) r = (Some img, r1) \<and>
     slot vs i = VNum (of_le_bytes (take 8 (drop (slot_offset i (image_of S)) img)))"
proof -
  from assms(2) obtain ms ps where S: "snd S = PImage ms # ps" "i \<in> set (pointer_slots 0 ms)" "i \<notin> set (concat (map target ps))"
    by (cases "snd S" rule: images.cases) (auto simp: kept_pointers_def)
  from assms(1) S(1) obtain img r1 vs0 where r: "read_raw (image_size ms) r = (Some img, r1)" "r_members hr ms img = Some vs0"
      "r_parts hr ps (vs0 @ drop (length vs0) (no_slots (fst S))) r1 = (Some vs, r')"
    by (auto simp: read_struct_raw_def split: prod.splits option.splits)
  from r_members_pointer [OF r(2) S(2)] parts_frame(2) [OF r(3) S(3)]
  have "slot vs i = VNum (of_le_bytes (take 8 (drop (slot_offset i ms) img)))" by (simp add: slot_def nth_append)
  with r(1) S(1) show ?thesis by (simp add: image_of_def)
qed

text \<open>The slots a part fills with memory of its own, or clears.\<close>

fun builds :: "part \<Rightarrow> nat list" where
  "builds (PPods p c n) = [p]" | "builds (POptPods p c n) = [p]" | "builds (POptPod p n) = [p]" | "builds (PMask p i) = [p]"
| "builds (PHandles p c k policy) = [p]" | "builds (POptHandles p c k) = [p]" | "builds (PHandlesUnless f m p c k) = [p]"
| "builds (PStrings p c) = [p]" | "builds (PData p c) = [p]" | "builds (PName p) = [p]" | "builds (PChain p context) = [p]"
| "builds (PClear p) = [p]" | "builds (PStructs p c least n ps) = [p]" | "builds (POptStructs p c n ps) = [p]" | "builds (POpt p n strict ps) = [p]"
| "builds p = []"

definition no_address :: "vk \<Rightarrow> bool" where
  "no_address v \<longleftrightarrow> (case v of VNum x \<Rightarrow> x = 0 | _ \<Rightarrow> True)"

lemma builds_ok: "part_ok hr p vs \<Longrightarrow> i \<in> set (builds p) \<Longrightarrow> no_address (slot vs i)"
  by (cases p) (auto simp: no_address_def built_def split: vk.splits option.splits)

definition pointers_built :: "raw_struct \<Rightarrow> bool" where
  "pointers_built S \<longleftrightarrow> list_all (\<lambda>i. List.member (kept_pointers S) i \<or> List.member (concat (map builds (snd S))) i) (pointer_slots 0 (image_of S))"

definition handles_listed :: "raw_struct \<Rightarrow> bool" where
  "handles_listed S \<longleftrightarrow> image_of S = [] \<or> (\<exists>p\<in>set (snd S). p = PImage (image_of S))"

lemma create_infos_checked: "list_all (\<lambda>x. pointers_built (snd x) \<and> handles_listed (snd x)) create_infos"
  by code_simp

lemma table_entry:
  assumes "map_of create_infos name = Some S"
  shows "wf_parts (snd S)" "pointers_built S" "handles_listed S"
  using map_of_SomeD [OF assms] create_infos_wf create_infos_checked by (auto simp: list_all_iff)

lemma decoded_parts: "map_of create_infos name = Some S \<Longrightarrow> read_struct_raw S hr r = (Some (VList vs), r') \<Longrightarrow> list_all (\<lambda>p. part_ok hr p vs) (snd S)"
  using table_entry(1) parts_safe(2) by (fastforce simp: read_struct_raw_def split: prod.splits)

lemma decoded_handles:
  assumes "map_of create_infos name = Some S" "read_struct_raw S hr r = (Some (VList vs), r')"
  shows "\<forall>(i, k) \<in> set (handle_slots 0 (image_of S)). resolved hr k (slot vs i)"
  using decoded_parts [OF assms] table_entry(3) [OF assms(1)] by (fastforce simp: handles_listed_def list_all_iff)

lemma decoded_pointers:
  assumes "map_of create_infos name = Some S" "read_struct_raw S hr r = (Some (VList vs), r')"
  shows "\<forall>i \<in> set (pointer_slots 0 (image_of S)). List.member (kept_pointers S) i \<or> no_address (slot vs i)"
  using decoded_parts [OF assms] table_entry(2) [OF assms(1)] builds_ok by (fastforce simp: pointers_built_def list_all_iff)

subsection \<open>Properties\<close>



text \<open>
  In fifteen structures the reader leaves pNext alone: an accepted structure has in it the eight bytes the peer sent, which the driver will follow as an address.
\<close>

theorem peer_pnext_kept:
  assumes "map_of create_infos name = Some S" "List.member pnext_kept name" "read_struct_raw S hr r = (Some (VList vs), r')"
  shows "\<exists>img r1. read_raw (image_size (image_of S)) r = (Some img, r1) \<and> slot vs 1 = VNum (of_le_bytes (take 8 (drop 8 img)))"
proof -
  have "list_all (\<lambda>(n, S). List.member pnext_kept n \<longrightarrow> slot_offset 1 (image_of S) = 8) create_infos" by code_simp
  with map_of_SomeD [OF assms(1)] assms(2) have "slot_offset 1 (image_of S) = 8" by (auto simp: list_all_iff)
  moreover have "1 \<in> set (kept_pointers S)" using kept_pnext [OF assms(1)] assms(2) by simp
  ultimately show ?thesis using kept_pointer_at [OF assms(3), of 1] by simp
qed

text \<open>
  A shader module survives the wire when it ends its message, and is refused when anything follows its code.
\<close>

theorem shader_module_takes_the_rest:
  assumes "write_ShaderModuleCreateInfo v = Some b" "view_ShaderModuleCreateInfo hr v = Some v'"
  shows "read_ShaderModuleCreateInfo hr (Reader_at pre b) = (Some v', Reader_at (pre @ b) []) \<and>
     (rest \<noteq> [] \<longrightarrow> fst (read_ShaderModuleCreateInfo hr (Reader_at pre (b @ rest))) = None)"
  using shader_module_roundtrip [OF assms] by blast

text \<open>
  A descriptor write survives the wire: the kind tells the reader which array follows, and it resolves the handles the descriptor type uses.
\<close>

theorem descriptor_write_roundtrip:
  assumes "write_WriteDescriptorSet v = Some b" "view_WriteDescriptorSet hr v = Some v'"
  shows "read_WriteDescriptorSet hr (Reader_at pre (b @ rest)) = (Some v', Reader_at (pre @ b) rest)"
  using write_descriptor_roundtrip [OF assms] .

text \<open>
  The writer of a compute pipeline puts the addresses of the stage's pNext, name and specialization info on the wire, at fixed places.
\<close>

theorem compute_pipeline_sends_addresses:
  assumes "write_ComputePipelineCreateInfo (pNext, pName, pSpec) v = Some b"
  shows "take 8 (drop 36 b) = le_bytes 8 pNext \<and> take 16 (drop 60 b) = le_bytes 8 pName @ le_bytes 8 pSpec"
proof -
  from assms obtain vs img stage where w: "w_members ComputePipeline_image (vs[4 := VNum pNext, 8 := VNum pName, 9 := VNum pSpec]) = Some img"
      "b = blob img @ stage"
    by (auto simp: write_ComputePipelineCreateInfo_def bind_eq_Some_conv)
  from w_members_length [OF w(1)] have "13 \<le> length vs" by (simp add: ComputePipeline_image_def hdr_def)
  then obtain v0 v1 v2 v3 v4 v5 v6 v7 v8 v9 v10 v11 v12 tl
    where vs: "vs = [v0, v1, v2, v3, v4, v5, v6, v7, v8, v9, v10, v11, v12] @ tl"
    by (auto simp: numeral_eq_Suc Suc_le_length_iff)
  from w show ?thesis
    by (auto simp: vs ComputePipeline_image_def hdr_def bind_eq_Some_conv blob_def)
qed

subsection \<open>Examples\<close>

text \<open>Numerals as indices.\<close>

lemma list_update_numeral: "(x # xs)[numeral k := v] = x # xs[pred_numeral k := v]"
  by (simp add: numeral_eq_Suc)

lemma replicate_num: "replicate (numeral k) x = x # replicate (pred_numeral k) x"
  by (simp add: numeral_eq_Suc)

lemmas index_simps = list_update_numeral replicate_num nth_Cons_numeral

definition shifted :: resolver where
  "shifted k i = i + 1000"

definition layout_example :: vk where
  "layout_example = VList [VNum 32, VNum 0, VNum 0, VNum 2, VList [VList [VNum 0, VNum 1, VNum 2, VNum 16, VList [VNum 5, VNum 6]],
     VList [VNum 1, VNum 6, VNum 1, VNum 1, VNum 0]]]"


definition fence_message :: "u64 \<Rightarrow> bytes" where
  "fence_message x = blob (le_bytes 4 (8 :: u32) @ replicate 4 0 @ le_bytes 8 x @ le_bytes 4 (1 :: u32) @ replicate 4 0)"

lemma fence_read:
  "read_struct_raw FenceCreateInfo hr (Reader_at pre (fence_message x @ rest)) =
     (Some (VList [VNum 8, VNum x, VNum 1]), Reader_at (pre @ fence_message x) rest)"
  using read_raw_at [of "le_bytes 4 (8 :: u32) @ replicate 4 0 @ le_bytes 8 x @ le_bytes 4 (1 :: u32) @ replicate 4 0" 24 pre rest]
  by (simp add: read_struct_raw_def FenceCreateInfo_def hdr_def image_size_def fence_message_def reader_simps no_slots_def)

theorem peer_pnext_kept_witness:
  "\<exists>vs r'. read_struct_raw FenceCreateInfo shifted (Reader_init (fence_message 3735928559)) = (Some (VList vs), r') \<and>
     slot vs 1 = VNum 3735928559"
proof -
  have "map_of create_infos ''FenceCreateInfo'' = Some FenceCreateInfo" by (simp add: create_infos_def)
  moreover have "List.member pnext_kept ''FenceCreateInfo''" by (simp add: pnext_kept_def)
  moreover have r: "read_struct_raw FenceCreateInfo shifted (Reader_init (fence_message 3735928559)) =
      (Some (VList [VNum 8, VNum 3735928559, VNum 1]), Reader_at (fence_message 3735928559) [])"
    using fence_read [of shifted "[]" 3735928559 "[]"] by (simp add: reader_simps)
  ultimately have "\<exists>img r1. read_raw (image_size (image_of FenceCreateInfo)) (Reader_init (fence_message 3735928559)) = (Some img, r1) \<and>
      slot [VNum 8, VNum 3735928559, VNum 1] 1 = VNum (of_le_bytes (take 8 (drop 8 img)))"
    by (rule peer_pnext_kept)
  with r show ?thesis by (auto simp: slot_def)
qed

definition copy_image :: bytes where
  "copy_image = le_bytes 4 (36 :: u32) @ [0, 0, 0, 0] @ le_bytes 8 (0 :: u64) @ le_bytes 8 (5 :: u64) @ le_bytes 4 (0 :: u32) @ le_bytes 4 (0 :: u32)
     @ le_bytes 8 (6 :: u64) @ le_bytes 4 (1 :: u32) @ le_bytes 4 (0 :: u32) @ le_bytes 4 (1 :: u32) @ [0, 0, 0, 0]"


definition shader_example :: vk where
  "shader_example = VList [VNum 16, VNum 0, VNum 0, VNum 8, VList [VNum 119734787, VNum 65536]]"

theorem shader_module_takes_the_rest_witness:
  "\<exists>b. write_ShaderModuleCreateInfo shader_example = Some b \<and>
     read_ShaderModuleCreateInfo shifted (Reader_at [] b) = (Some shader_example, Reader_at b []) \<and>
     fst (read_ShaderModuleCreateInfo shifted (Reader_at [] (b @ [0]))) = None"
proof -
  have "write_ShaderModuleCreateInfo shader_example \<noteq> None" by code_simp
  then obtain b where b: "write_ShaderModuleCreateInfo shader_example = Some b" by blast
  have "view_ShaderModuleCreateInfo shifted shader_example = Some shader_example" by code_simp
  from shader_module_takes_the_rest [OF b this, of "[]" "[0]"] b show ?thesis by simp
qed

definition descriptor_example :: vk where
  "descriptor_example = VList [VNum 35, VNum 0, VNum 9, VNum 0, VNum 0, VNum 1, VNum 1, VList [VList [VNum 3, VNum 4, VNum 5]], VNum 0, VNum 0]"

theorem descriptor_write_roundtrip_witness:
  "\<exists>b. write_WriteDescriptorSet descriptor_example = Some b \<and> read_WriteDescriptorSet shifted (Reader_at [] b) =
     (Some (VList [VNum 35, VNum 0, VNum 1009, VNum 0, VNum 0, VNum 1, VNum 1, VList [VList [VNum 1003, VNum 1004, VNum 5]], VNum 0, VNum 0]),
      Reader_at b [])"
proof -
  have "write_WriteDescriptorSet descriptor_example \<noteq> None" by code_simp
  then obtain b where b: "write_WriteDescriptorSet descriptor_example = Some b" by blast
  have "view_WriteDescriptorSet shifted descriptor_example =
      Some (VList [VNum 35, VNum 0, VNum 1009, VNum 0, VNum 0, VNum 1, VNum 1, VList [VList [VNum 1003, VNum 1004, VNum 5]], VNum 0, VNum 0])"
    by code_simp
  from descriptor_write_roundtrip [OF b this, of "[]" "[]"] b show ?thesis by simp
qed

definition compute_example :: vk where
  "compute_example = VList [VNum 29, VNum 0, VNum 0, VNum 18, VNum 0, VNum 0, VNum 32, VNum 7, VBytes [109], VNum 0, VNum 2, VNum 0, VNum 0]"

theorem compute_pipeline_sends_addresses_witness:
  "\<exists>b. write_ComputePipelineCreateInfo (0, 140737488355328, 0) compute_example = Some b \<and>
     take 8 (drop 60 b) = le_bytes 8 (140737488355328 :: u64)"
proof -
  have "write_ComputePipelineCreateInfo (0, 140737488355328, 0) compute_example \<noteq> None" by code_simp
  then obtain b where b: "write_ComputePipelineCreateInfo (0, 140737488355328, 0) compute_example = Some b" by blast
  from compute_pipeline_sends_addresses [OF b] have "take 8 (take 16 (drop 60 b)) = le_bytes 8 (140737488355328 :: u64)" by simp
  with b show ?thesis by simp
qed

end
