(* ===== verification/ClientRecord.thy ===== *)
theory ClientRecord
  imports ClientEntry HandlersCommand CreateInfo
begin

section \<open>Recording commands on the client (client/commands.cpp)\<close>

text \<open>
  Every entry point appends one message to the connection and keeps track of which device memory the recorded commands
  write: \<open>pending_writes\<close> are the allocations written so far, \<open>host_visible_writes\<close> those a barrier has made available to
  the host. Submission and the waits (\<open>ClientSubmit\<close>) decide from these what to download. An entry point is here a
  function of the command buffer (and of the device's bookkeeping where it looks at it) that returns the changed command
  buffer and the messages sent, one or none. Arrays are lists, so their counts are lengths; a null array with a nonzero
  count, which the entry points refuse, does not arise. Structures are lists of slots, as in \<open>CreateInfo\<close>, and handles
  are the ids behind them. Sets and maps are lists.
\<close>

subsection \<open>State\<close>

record DescriptorResource =
  dr_type :: u32
  dr_resource_id :: u64

record FramebufferMetadata =
  fb_imageless :: bool
  fb_image_views :: "u64 list"

record RemoteCommandBuffer =
  cb_remote_id :: u64
  cb_command_pool_id :: u64
  bound_graphics_sets :: "(u32 \<times> u64) list"
  bound_compute_sets :: "(u32 \<times> u64) list"
  writable_descriptor_sets :: "u64 list"
  descriptor_writes_host_visible :: bool
  host_visible_writes :: "u64 list"
  pending_writes :: "u64 list"

text \<open>A command buffer handle of the application is the address of its entry.\<close>

record TrackedDevice =
  base :: RemoteDevice
  descriptor_resources :: "(u64 \<times> (u64 \<times> DescriptorResource) list) list"
  image_view_images :: "(u64 \<times> u64) list"
  buffer_view_buffers :: "(u64 \<times> u64) list"
  framebuffers :: "(u64 \<times> FramebufferMetadata) list"
  command_buffers :: "(u64 \<times> RemoteCommandBuffer) list"

type_synonym message = "string \<times> bytes"
type_synonym recorder = "RemoteCommandBuffer \<Rightarrow> RemoteCommandBuffer \<times> message list"

text \<open>The calls on the request's \<open>Writer\<close>: a handle, integers, a float's bits, bytes behind a length, an encoded structure.\<close>

datatype carg = CH u64 | CW u32 | CI u32 | CL u64 | CF u32 | CB bytes | CS bytes

fun w_arg :: "carg \<Rightarrow> Writer \<Rightarrow> Writer" where
  "w_arg (CH i) w = w_handle w i" | "w_arg (CW v) w = w_u32 w v" | "w_arg (CI v) w = w_i32 w v" | "w_arg (CL v) w = w_u64 w v"
| "w_arg (CF v) w = w_f32 w v" | "w_arg (CB b) w = w_bytes w b" | "w_arg (CS b) w = w @ b"

definition w_args :: "carg list \<Rightarrow> bytes" where
  "w_args as = fold w_arg as []"

definition send_oneway :: "string \<Rightarrow> carg list \<Rightarrow> recorder" where
  "send_oneway name as cb = (cb, [(name, w_args (CH (cb_remote_id cb) # as))])"

text \<open>A structure the writer refuses sends nothing.\<close>

definition with_struct :: "raw_struct \<Rightarrow> vk \<Rightarrow> (bytes \<Rightarrow> recorder) \<Rightarrow> recorder" where
  "with_struct S v f cb = (case write_struct_raw S v of None \<Rightarrow> (cb, []) | Some b \<Rightarrow> f b cb)"

definition with_structs :: "raw_struct \<Rightarrow> vk list \<Rightarrow> (carg list \<Rightarrow> recorder) \<Rightarrow> recorder" where
  "with_structs S vs f cb = (case those (map (write_struct_raw S) vs) of None \<Rightarrow> (cb, [])
     | Some bs \<Rightarrow> f (CW (of_nat (length vs)) # map CS bs) cb)"

subsection \<open>Tracking writes\<close>

definition insert_all :: "u64 list \<Rightarrow> u64 list \<Rightarrow> u64 list" where
  "insert_all xs ys = fold List.insert xs ys"

definition mark_write :: "(u64 \<times> u64 \<times> u64) list \<Rightarrow> u64 \<Rightarrow> RemoteCommandBuffer \<Rightarrow> RemoteCommandBuffer" where
  "mark_write bindings i cb = (case map_of bindings i of None \<Rightarrow> cb
     | Some (memory_id, offset) \<Rightarrow> cb\<lparr>pending_writes := List.insert memory_id (pending_writes cb)\<rparr>)"

definition attachment_views :: "vk \<Rightarrow> u64 list option" where
  "attachment_views info = Option.bind (list_of info) (\<lambda>vs. Option.bind (chain_of (slot vs 1)) (\<lambda>chain.
     Option.bind (find (\<lambda>n. fst n = VK_STRUCTURE_TYPE_RENDER_PASS_ATTACHMENT_BEGIN_INFO) chain) (\<lambda>n.
       case snd n of [VList rows] \<Rightarrow> Some (map (vk_member 0) rows) | _ \<Rightarrow> Some [])))"

definition mark_view_write :: "TrackedDevice \<Rightarrow> u64 \<Rightarrow> RemoteCommandBuffer \<Rightarrow> RemoteCommandBuffer" where
  "mark_view_write d iview cb = (case map_of (image_view_images d) iview of None \<Rightarrow> cb
     | Some img \<Rightarrow> mark_write (image_bindings (base d)) img cb)"

definition mark_framebuffer_writes :: "TrackedDevice \<Rightarrow> vk \<Rightarrow> RemoteCommandBuffer \<Rightarrow> RemoteCommandBuffer" where
  "mark_framebuffer_writes d info cb = (case map_of (framebuffers d) (vk_member 3 info) of None \<Rightarrow> cb
     | Some fb \<Rightarrow> fold (mark_view_write d)
         (case (fb_imageless fb, attachment_views info) of (True, Some views) \<Rightarrow> views | _ \<Rightarrow> fb_image_views fb) cb)"

definition mark_descriptor_writes :: "(u32 \<times> u64) list \<Rightarrow> RemoteCommandBuffer \<Rightarrow> RemoteCommandBuffer" where
  "mark_descriptor_writes sets cb =
     cb\<lparr>writable_descriptor_sets := insert_all (map snd sets) (writable_descriptor_sets cb)\<rparr>"

definition clear_tracking :: "RemoteCommandBuffer \<Rightarrow> RemoteCommandBuffer" where
  "clear_tracking cb = cb\<lparr>pending_writes := [], host_visible_writes := [], bound_graphics_sets := [], bound_compute_sets := [],
     writable_descriptor_sets := [], descriptor_writes_host_visible := False\<rparr>"

text \<open>\<open>VK_PIPELINE_STAGE_HOST_BIT\<close>, and the two host accesses; the same bits in the 64-bit masks.\<close>

definition HOST_STAGE :: u64 where "HOST_STAGE = 16384"
definition HOST_ACCESS :: u64 where "HOST_ACCESS = 24576"

definition all_visible :: "RemoteCommandBuffer \<Rightarrow> RemoteCommandBuffer" where
  "all_visible cb = cb\<lparr>host_visible_writes := insert_all (pending_writes cb) (host_visible_writes cb), descriptor_writes_host_visible := True\<rparr>"

definition insert_visible :: "u64 \<Rightarrow> RemoteCommandBuffer \<Rightarrow> RemoteCommandBuffer" where
  "insert_visible m cb = cb\<lparr>host_visible_writes := List.insert m (host_visible_writes cb)\<rparr>"

definition VK_DESCRIPTOR_TYPE_STORAGE_IMAGE :: u32 where "VK_DESCRIPTOR_TYPE_STORAGE_IMAGE = 3"
definition VK_DESCRIPTOR_TYPE_STORAGE_TEXEL_BUFFER :: u32 where "VK_DESCRIPTOR_TYPE_STORAGE_TEXEL_BUFFER = 5"
definition VK_DESCRIPTOR_TYPE_STORAGE_BUFFER :: u32 where "VK_DESCRIPTOR_TYPE_STORAGE_BUFFER = 7"
definition VK_DESCRIPTOR_TYPE_STORAGE_BUFFER_DYNAMIC :: u32 where "VK_DESCRIPTOR_TYPE_STORAGE_BUFFER_DYNAMIC = 9"

definition resource_is_buffer :: "TrackedDevice \<Rightarrow> u64 \<Rightarrow> DescriptorResource \<Rightarrow> bool" where
  "resource_is_buffer d buf res \<longleftrightarrow>
     (if dr_type res = VK_DESCRIPTOR_TYPE_STORAGE_TEXEL_BUFFER then map_of (buffer_view_buffers d) (dr_resource_id res) = Some buf
      else (dr_type res = VK_DESCRIPTOR_TYPE_STORAGE_BUFFER \<or> dr_type res = VK_DESCRIPTOR_TYPE_STORAGE_BUFFER_DYNAMIC)
        \<and> dr_resource_id res = buf)"

definition resource_is_image :: "TrackedDevice \<Rightarrow> u64 \<Rightarrow> DescriptorResource \<Rightarrow> bool" where
  "resource_is_image d img res \<longleftrightarrow> dr_type res = VK_DESCRIPTOR_TYPE_STORAGE_IMAGE
     \<and> map_of (image_view_images d) (dr_resource_id res) = Some img"

definition some_resource :: "TrackedDevice \<Rightarrow> (DescriptorResource \<Rightarrow> bool) \<Rightarrow> RemoteCommandBuffer \<Rightarrow> bool" where
  "some_resource d P cb \<longleftrightarrow> list_ex (\<lambda>set_id. case map_of (descriptor_resources d) set_id of None \<Rightarrow> False
     | Some resources \<Rightarrow> list_ex (P \<circ> snd) resources) (writable_descriptor_sets cb)"

text \<open>One buffer or image barrier towards the host: the allocation becomes visible if something recorded may have written it.\<close>

definition resource_barrier ::
  "TrackedDevice \<Rightarrow> (u64 \<times> u64 \<times> u64) list \<Rightarrow> (TrackedDevice \<Rightarrow> u64 \<Rightarrow> DescriptorResource \<Rightarrow> bool) \<Rightarrow> nat
    \<Rightarrow> vk \<Rightarrow> RemoteCommandBuffer \<Rightarrow> RemoteCommandBuffer" where
  "resource_barrier d bindings is_res pos barrier cb =
     (if vk_member 3 barrier AND HOST_ACCESS = 0 then cb
      else case map_of bindings (vk_member pos barrier) of None \<Rightarrow> cb
      | Some (m, offset) \<Rightarrow> if List.member (pending_writes cb) m \<or> some_resource d (is_res d (vk_member pos barrier)) cb
          then insert_visible m cb else cb)"

definition global_barrier :: "vk \<Rightarrow> RemoteCommandBuffer \<Rightarrow> RemoteCommandBuffer" where
  "global_barrier barrier cb = (if vk_member 3 barrier AND HOST_ACCESS = 0 then cb else all_visible cb)"

definition host_barriers :: "TrackedDevice \<Rightarrow> u32 \<Rightarrow> vk list \<Rightarrow> vk list \<Rightarrow> vk list \<Rightarrow> RemoteCommandBuffer \<Rightarrow> RemoteCommandBuffer" where
  "host_barriers d dst_stage mems bufs imgs cb =
     (if ucast dst_stage AND HOST_STAGE = 0 then cb
      else fold (resource_barrier d (image_bindings (base d)) resource_is_image 8) imgs
        (fold (resource_barrier d (buffer_bindings (base d)) resource_is_buffer 6) bufs (fold global_barrier mems cb)))"

text \<open>The synchronization2 form: a resource's allocation becomes visible whether or not something recorded wrote it.\<close>

definition to_host2 :: "vk \<Rightarrow> bool" where
  "to_host2 barrier \<longleftrightarrow> vk_member 4 barrier AND HOST_STAGE \<noteq> 0 \<and> vk_member 5 barrier AND HOST_ACCESS \<noteq> 0"

definition resource_barrier2 :: "(u64 \<times> u64 \<times> u64) list \<Rightarrow> nat \<Rightarrow> vk \<Rightarrow> RemoteCommandBuffer \<Rightarrow> RemoteCommandBuffer" where
  "resource_barrier2 bindings pos barrier cb = (if \<not> to_host2 barrier then cb
     else case map_of bindings (vk_member pos barrier) of None \<Rightarrow> cb | Some (m, offset) \<Rightarrow> insert_visible m cb)"

definition rows_at :: "nat \<Rightarrow> vk \<Rightarrow> vk list" where
  "rows_at i info = (case list_of info of None \<Rightarrow> [] | Some vs \<Rightarrow> (case list_of (slot vs i) of None \<Rightarrow> [] | Some rows \<Rightarrow> rows))"

definition host_dependency :: "TrackedDevice \<Rightarrow> vk \<Rightarrow> RemoteCommandBuffer \<Rightarrow> RemoteCommandBuffer" where
  "host_dependency d info cb =
     fold (resource_barrier2 (image_bindings (base d)) 10) (rows_at 8 info)
       (fold (resource_barrier2 (buffer_bindings (base d)) 8) (rows_at 6 info)
         (if list_ex to_host2 (rows_at 4 info) then all_visible cb else cb))"


subsection \<open>Command buffers and pools\<close>

text \<open>\<open>heap\<close> are the addresses \<open>new\<close> returns. The reply's count and ids are taken without a look at \<open>ok\<close>.\<close>

definition new_command_buffer :: "u64 \<Rightarrow> u64 \<Rightarrow> RemoteCommandBuffer" where
  "new_command_buffer pool i = \<lparr>cb_remote_id = i, cb_command_pool_id = pool, bound_graphics_sets = [], bound_compute_sets = [],
     writable_descriptor_sets = [], descriptor_writes_host_visible = False, host_visible_writes = [], pending_writes = []\<rparr>"

definition AllocateCommandBuffers :: "'w round_trip \<Rightarrow> (string \<Rightarrow> u32) \<Rightarrow> TrackedDevice \<Rightarrow> u64 list \<Rightarrow> vk \<Rightarrow> 'w
    \<Rightarrow> (u32 \<times> u64 list \<times> TrackedDevice) \<times> 'w" where
  "AllocateCommandBuffers rt opc d heap info w =
     (case rt (opc ''vkAllocateCommandBuffers'')
        (w_handle [] (remote_id (base d)) @ (case write_struct_raw CommandBufferAllocateInfo info of None \<Rightarrow> [] | Some b \<Rightarrow> b)) w of
        (None, w1) \<Rightarrow> ((VK_ERROR_OUT_OF_HOST_MEMORY, [], d), w1)
      | (Some rep, w1) \<Rightarrow>
          (let (result, r1) = r_i32 (payload_reader rep); (count, r2) = r_u32 r1;
               n = min (unat count) (unat (ucast (vk_member 4 info) :: u32));
               (ids, r3) = r_list r_handle n r2;
               handles = take n heap
           in ((result, handles, d\<lparr>command_buffers := command_buffers d @ zip handles (map (new_command_buffer (vk_member 2 info)) ids)\<rparr>), w1)))"

text \<open>Handles of command buffers are taken as valid.\<close>

definition buffer_id :: "TrackedDevice \<Rightarrow> u64 \<Rightarrow> u64" where
  "buffer_id d h = (case map_of (command_buffers d) h of None \<Rightarrow> 0 | Some cb \<Rightarrow> cb_remote_id cb)"

definition FreeCommandBuffers :: "'w oneway \<Rightarrow> (string \<Rightarrow> u32) \<Rightarrow> TrackedDevice \<Rightarrow> u64 \<Rightarrow> u64 list \<Rightarrow> 'w \<Rightarrow> TrackedDevice \<times> 'w" where
  "FreeCommandBuffers ow opc d pool cbs w =
     (d\<lparr>command_buffers := fold AList.delete cbs (command_buffers d)\<rparr>,
      ow (opc ''vkFreeCommandBuffers'') (w_args (CH (remote_id (base d)) # CH pool # CW (of_nat (length cbs))
        # map (CH \<circ> buffer_id d) cbs)) w)"

definition TrimCommandPool :: "'w oneway \<Rightarrow> (string \<Rightarrow> u32) \<Rightarrow> TrackedDevice \<Rightarrow> u64 \<Rightarrow> u32 \<Rightarrow> 'w \<Rightarrow> 'w" where
  "TrimCommandPool ow opc d pool flags w = ow (opc ''vkTrimCommandPool'') (w_args [CH (remote_id (base d)), CH pool, CW flags]) w"


definition ResetCommandPool :: "'w round_trip \<Rightarrow> (string \<Rightarrow> u32) \<Rightarrow> TrackedDevice \<Rightarrow> u64 \<Rightarrow> u32 \<Rightarrow> 'w
    \<Rightarrow> (u32 \<times> TrackedDevice) \<times> 'w" where
  "ResetCommandPool rt opc d pool flags w =
     (case rt (opc ''vkResetCommandPool'') (w_args [CH (remote_id (base d)), CH pool, CW flags]) w of
        (None, w1) \<Rightarrow> ((VK_ERROR_DEVICE_LOST, d), w1)
      | (Some rep, w1) \<Rightarrow>
          (let (result, r1) = r_i32 (payload_reader rep);
               d1 = (if r_ok r1 \<and> result = VK_SUCCESS
                     then d\<lparr>command_buffers := map (\<lambda>(h, cb). (h, if cb_command_pool_id cb = pool then clear_tracking cb else cb)) (command_buffers d)\<rparr>
                     else d)
           in ((if r_ok r1 then result else VK_ERROR_DEVICE_LOST, d1), w1)))"

definition BeginCommandBuffer :: "vk \<Rightarrow> recorder" where
  "BeginCommandBuffer info cb = with_struct CommandBufferBeginInfo info (\<lambda>b. send_oneway ''vkBeginCommandBuffer'' [CS b]) (clear_tracking cb)"

definition EndCommandBuffer :: recorder where
  "EndCommandBuffer cb = send_oneway ''vkEndCommandBuffer'' [] cb"

definition ResetCommandBuffer :: "u32 \<Rightarrow> recorder" where
  "ResetCommandBuffer flags cb = send_oneway ''vkResetCommandBuffer'' [CW flags] (clear_tracking cb)"

subsection \<open>Render passes\<close>

definition CmdBeginRenderPass :: "TrackedDevice \<Rightarrow> vk \<Rightarrow> u32 \<Rightarrow> recorder" where
  "CmdBeginRenderPass d info contents = with_struct RenderPassBeginInfo info (\<lambda>b cb.
     send_oneway ''vkCmdBeginRenderPass'' [CS b, CI contents] (mark_framebuffer_writes d info cb))"

definition CmdNextSubpass :: "u32 \<Rightarrow> recorder" where
  "CmdNextSubpass contents = send_oneway ''vkCmdNextSubpass'' [CI contents]"

definition CmdEndRenderPass :: recorder where
  "CmdEndRenderPass = send_oneway ''vkCmdEndRenderPass'' []"

definition CmdBeginRenderPass2 :: "TrackedDevice \<Rightarrow> vk \<Rightarrow> vk \<Rightarrow> recorder" where
  "CmdBeginRenderPass2 d info subpass_begin = with_struct RenderPassBeginInfo info (\<lambda>b.
     with_struct SubpassBeginInfo subpass_begin (\<lambda>b2 cb.
       send_oneway ''vkCmdBeginRenderPass2'' [CS b, CS b2] (mark_framebuffer_writes d info cb)))"

definition CmdNextSubpass2 :: "vk \<Rightarrow> vk \<Rightarrow> recorder" where
  "CmdNextSubpass2 subpass_begin subpass_end = with_struct SubpassBeginInfo subpass_begin (\<lambda>b.
     with_struct SubpassEndInfo subpass_end (\<lambda>b2. send_oneway ''vkCmdNextSubpass2'' [CS b, CS b2]))"

definition CmdEndRenderPass2 :: "vk \<Rightarrow> recorder" where
  "CmdEndRenderPass2 subpass_end = with_struct SubpassEndInfo subpass_end (\<lambda>b. send_oneway ''vkCmdEndRenderPass2'' [CS b])"

subsection \<open>State\<close>

definition CmdSetFragmentShadingRateKHR :: "u32 \<times> u32 \<Rightarrow> u32 \<times> u32 \<Rightarrow> recorder" where
  "CmdSetFragmentShadingRateKHR fragment combiner = send_oneway ''vkCmdSetFragmentShadingRateKHR''
     [CW (fst fragment), CW (snd fragment), CI (fst combiner), CI (snd combiner)]"

definition CmdSetDeviceMask :: "u32 \<Rightarrow> recorder" where
  "CmdSetDeviceMask mask_bits = send_oneway ''vkCmdSetDeviceMask'' [CW mask_bits]"

definition CmdBindPipeline :: "u32 \<Rightarrow> u64 \<Rightarrow> recorder" where
  "CmdBindPipeline bind_point pipeline = send_oneway ''vkCmdBindPipeline'' [CI bind_point, CH pipeline]"

definition VK_PIPELINE_BIND_POINT_COMPUTE :: u32 where "VK_PIPELINE_BIND_POINT_COMPUTE = 1"

definition bind_sets :: "u32 \<Rightarrow> u64 list \<Rightarrow> (u32 \<times> u64) list \<Rightarrow> (u32 \<times> u64) list" where
  "bind_sets first sets bound = fold (\<lambda>(i, s). AList.update (first + i) s) (zip (map of_nat [0..<length sets]) sets) bound"

definition CmdBindDescriptorSets :: "u32 \<Rightarrow> u64 \<Rightarrow> u32 \<Rightarrow> u64 list \<Rightarrow> u32 list \<Rightarrow> recorder" where
  "CmdBindDescriptorSets bind_point layout first sets dynamic_offsets cb =
     (if layout = VK_NULL_HANDLE \<or> length sets > unat kMaxArrayElements \<or> length dynamic_offsets > unat kMaxArrayElements
         \<or> List.member sets VK_NULL_HANDLE then (cb, [])
      else send_oneway ''vkCmdBindDescriptorSets'' ([CI bind_point, CH layout, CW first, CW (of_nat (length sets))] @ map CH sets
          @ [CW (of_nat (length dynamic_offsets))] @ map CW dynamic_offsets)
        (if bind_point = VK_PIPELINE_BIND_POINT_COMPUTE
         then cb\<lparr>bound_compute_sets := bind_sets first sets (bound_compute_sets cb)\<rparr>
         else cb\<lparr>bound_graphics_sets := bind_sets first sets (bound_graphics_sets cb)\<rparr>))"

definition CmdBindVertexBuffers :: "u32 \<Rightarrow> (u64 \<times> u64) list \<Rightarrow> recorder" where
  "CmdBindVertexBuffers first buffers cb = (if length buffers > unat kMaxArrayElements then (cb, [])
     else send_oneway ''vkCmdBindVertexBuffers'' ([CW first, CW (of_nat (length buffers))]
       @ concat (map (\<lambda>(buffer, offset). [CH buffer, CL offset]) buffers)) cb)"

definition CmdBindIndexBuffer :: "u64 \<Rightarrow> u64 \<Rightarrow> u32 \<Rightarrow> recorder" where
  "CmdBindIndexBuffer buffer offset index_type cb = (if buffer = VK_NULL_HANDLE then (cb, [])
     else send_oneway ''vkCmdBindIndexBuffer'' [CH buffer, CL offset, CI index_type] cb)"

definition CmdSetViewport :: "u32 \<Rightarrow> vk list \<Rightarrow> recorder" where
  "CmdSetViewport first viewports = with_structs Viewport viewports (\<lambda>as. send_oneway ''vkCmdSetViewport'' (CW first # as))"

definition CmdSetScissor :: "u32 \<Rightarrow> vk list \<Rightarrow> recorder" where
  "CmdSetScissor first scissors = with_structs Rect2D scissors (\<lambda>as. send_oneway ''vkCmdSetScissor'' (CW first # as))"

definition CmdSetLineWidth :: "u32 \<Rightarrow> recorder" where
  "CmdSetLineWidth v = send_oneway ''vkCmdSetLineWidth'' [CF v]"

definition CmdSetDepthBias :: "u32 \<Rightarrow> u32 \<Rightarrow> u32 \<Rightarrow> recorder" where
  "CmdSetDepthBias a b c = send_oneway ''vkCmdSetDepthBias'' [CF a, CF b, CF c]"

definition CmdSetBlendConstants :: "u32 \<times> u32 \<times> u32 \<times> u32 \<Rightarrow> recorder" where
  "CmdSetBlendConstants v = (case v of (a, b, c, e) \<Rightarrow> send_oneway ''vkCmdSetBlendConstants'' [CF a, CF b, CF c, CF e])"

definition CmdSetDepthBounds :: "u32 \<Rightarrow> u32 \<Rightarrow> recorder" where
  "CmdSetDepthBounds a b = send_oneway ''vkCmdSetDepthBounds'' [CF a, CF b]"

definition CmdSetStencilCompareMask :: "u32 \<Rightarrow> u32 \<Rightarrow> recorder" where
  "CmdSetStencilCompareMask face mask_bits = send_oneway ''vkCmdSetStencilCompareMask'' [CW face, CW mask_bits]"

definition CmdSetStencilWriteMask :: "u32 \<Rightarrow> u32 \<Rightarrow> recorder" where
  "CmdSetStencilWriteMask face mask_bits = send_oneway ''vkCmdSetStencilWriteMask'' [CW face, CW mask_bits]"

definition CmdSetStencilReference :: "u32 \<Rightarrow> u32 \<Rightarrow> recorder" where
  "CmdSetStencilReference face ref = send_oneway ''vkCmdSetStencilReference'' [CW face, CW ref]"

definition CmdPushConstants :: "u64 \<Rightarrow> u32 \<Rightarrow> u32 \<Rightarrow> u32 \<Rightarrow> bytes option \<Rightarrow> recorder" where
  "CmdPushConstants layout stages offset sz values cb = (case values of None \<Rightarrow> (cb, []) | Some v \<Rightarrow>
     if layout = VK_NULL_HANDLE \<or> sz = 0 \<or> unat sz > kMaxPushConstantBytes \<or> offset AND 3 \<noteq> 0 \<or> sz AND 3 \<noteq> 0 then (cb, [])
     else send_oneway ''vkCmdPushConstants'' [CH layout, CW stages, CW offset, CB (take (unat sz) v)] cb)"

subsection \<open>Draws and dispatches\<close>

definition CmdDispatchBase :: "u32 \<Rightarrow> u32 \<Rightarrow> u32 \<Rightarrow> u32 \<Rightarrow> u32 \<Rightarrow> u32 \<Rightarrow> recorder" where
  "CmdDispatchBase bx by' bz x y z cb = send_oneway ''vkCmdDispatchBase'' [CW bx, CW by', CW bz, CW x, CW y, CW z]
     (mark_descriptor_writes (bound_compute_sets cb) cb)"

definition CmdDraw :: "u32 \<Rightarrow> u32 \<Rightarrow> u32 \<Rightarrow> u32 \<Rightarrow> recorder" where
  "CmdDraw vertices instances first_vertex first_instance cb =
     send_oneway ''vkCmdDraw'' [CW vertices, CW instances, CW first_vertex, CW first_instance]
       (mark_descriptor_writes (bound_graphics_sets cb) cb)"

definition CmdDispatch :: "u32 \<Rightarrow> u32 \<Rightarrow> u32 \<Rightarrow> recorder" where
  "CmdDispatch x y z cb = send_oneway ''vkCmdDispatch'' [CW x, CW y, CW z] (mark_descriptor_writes (bound_compute_sets cb) cb)"

definition CmdDrawIndexed :: "u32 \<Rightarrow> u32 \<Rightarrow> u32 \<Rightarrow> u32 \<Rightarrow> u32 \<Rightarrow> recorder" where
  "CmdDrawIndexed indices instances first_index vertex_offset first_instance cb =
     send_oneway ''vkCmdDrawIndexed'' [CW indices, CW instances, CW first_index, CI vertex_offset, CW first_instance]
       (mark_descriptor_writes (bound_graphics_sets cb) cb)"

definition CmdDrawIndirect :: "u64 \<Rightarrow> u64 \<Rightarrow> u32 \<Rightarrow> u32 \<Rightarrow> recorder" where
  "CmdDrawIndirect buffer offset count stride cb = send_oneway ''vkCmdDrawIndirect'' [CH buffer, CL offset, CW count, CW stride]
     (mark_descriptor_writes (bound_graphics_sets cb) cb)"

definition CmdDrawIndexedIndirect :: "u64 \<Rightarrow> u64 \<Rightarrow> u32 \<Rightarrow> u32 \<Rightarrow> recorder" where
  "CmdDrawIndexedIndirect buffer offset count stride cb =
     send_oneway ''vkCmdDrawIndexedIndirect'' [CH buffer, CL offset, CW count, CW stride] (mark_descriptor_writes (bound_graphics_sets cb) cb)"

definition CmdDrawIndirectCount :: "u64 \<Rightarrow> u64 \<Rightarrow> u64 \<Rightarrow> u64 \<Rightarrow> u32 \<Rightarrow> u32 \<Rightarrow> recorder" where
  "CmdDrawIndirectCount buffer offset count_buffer count_offset max_draws stride cb = send_oneway ''vkCmdDrawIndirectCount''
     [CH buffer, CL offset, CH count_buffer, CL count_offset, CW max_draws, CW stride] (mark_descriptor_writes (bound_graphics_sets cb) cb)"

definition CmdDrawIndexedIndirectCount :: "u64 \<Rightarrow> u64 \<Rightarrow> u64 \<Rightarrow> u64 \<Rightarrow> u32 \<Rightarrow> u32 \<Rightarrow> recorder" where
  "CmdDrawIndexedIndirectCount buffer offset count_buffer count_offset max_draws stride cb = send_oneway ''vkCmdDrawIndexedIndirectCount''
     [CH buffer, CL offset, CH count_buffer, CL count_offset, CW max_draws, CW stride] (mark_descriptor_writes (bound_graphics_sets cb) cb)"

definition CmdDispatchIndirect :: "u64 \<Rightarrow> u64 \<Rightarrow> recorder" where
  "CmdDispatchIndirect buffer offset cb = send_oneway ''vkCmdDispatchIndirect'' [CH buffer, CL offset]
     (mark_descriptor_writes (bound_compute_sets cb) cb)"

definition absorb :: "RemoteCommandBuffer \<Rightarrow> RemoteCommandBuffer \<Rightarrow> RemoteCommandBuffer" where
  "absorb secondary cb = cb\<lparr>pending_writes := insert_all (pending_writes secondary) (pending_writes cb),
     host_visible_writes := insert_all (host_visible_writes secondary) (host_visible_writes cb),
     writable_descriptor_sets := insert_all (writable_descriptor_sets secondary) (writable_descriptor_sets cb),
     descriptor_writes_host_visible := descriptor_writes_host_visible cb \<or> descriptor_writes_host_visible secondary\<rparr>"

definition CmdExecuteCommands :: "RemoteCommandBuffer list \<Rightarrow> recorder" where
  "CmdExecuteCommands secondaries cb =
     send_oneway ''vkCmdExecuteCommands'' (CW (of_nat (length secondaries)) # map (CH \<circ> cb_remote_id) secondaries) (fold absorb secondaries cb)"

subsection \<open>Queries and events\<close>

definition CmdBeginQuery :: "u64 \<Rightarrow> u32 \<Rightarrow> u32 \<Rightarrow> recorder" where
  "CmdBeginQuery pool query flags = send_oneway ''vkCmdBeginQuery'' [CH pool, CW query, CW flags]"

definition CmdEndQuery :: "u64 \<Rightarrow> u32 \<Rightarrow> recorder" where
  "CmdEndQuery pool query = send_oneway ''vkCmdEndQuery'' [CH pool, CW query]"

definition CmdResetQueryPool :: "u64 \<Rightarrow> u32 \<Rightarrow> u32 \<Rightarrow> recorder" where
  "CmdResetQueryPool pool first count = send_oneway ''vkCmdResetQueryPool'' [CH pool, CW first, CW count]"

definition CmdWriteTimestamp :: "u32 \<Rightarrow> u64 \<Rightarrow> u32 \<Rightarrow> recorder" where
  "CmdWriteTimestamp stage pool query = send_oneway ''vkCmdWriteTimestamp'' [CW stage, CH pool, CW query]"

definition CmdWriteTimestamp2 :: "u64 \<Rightarrow> u64 \<Rightarrow> u32 \<Rightarrow> recorder" where
  "CmdWriteTimestamp2 stage pool query = send_oneway ''vkCmdWriteTimestamp2'' [CL stage, CH pool, CW query]"

definition CmdCopyQueryPoolResults :: "TrackedDevice \<Rightarrow> u64 \<Rightarrow> u32 \<Rightarrow> u32 \<Rightarrow> u64 \<Rightarrow> u64 \<Rightarrow> u64 \<Rightarrow> u32 \<Rightarrow> recorder" where
  "CmdCopyQueryPoolResults d pool first count buffer offset stride flags cb = send_oneway ''vkCmdCopyQueryPoolResults''
     [CH pool, CW first, CW count, CH buffer, CL offset, CL stride, CW flags] (mark_write (buffer_bindings (base d)) buffer cb)"

definition CmdSetEvent :: "u64 \<Rightarrow> u32 \<Rightarrow> recorder" where
  "CmdSetEvent event stage = send_oneway ''vkCmdSetEvent'' [CH event, CW stage]"

definition CmdResetEvent :: "u64 \<Rightarrow> u32 \<Rightarrow> recorder" where
  "CmdResetEvent event stage = send_oneway ''vkCmdResetEvent'' [CH event, CW stage]"

definition CmdSetEvent2 :: "u64 \<Rightarrow> vk \<Rightarrow> recorder" where
  "CmdSetEvent2 event info = with_struct DependencyInfo info (\<lambda>b. send_oneway ''vkCmdSetEvent2'' [CH event, CS b])"

definition CmdResetEvent2 :: "u64 \<Rightarrow> u64 \<Rightarrow> recorder" where
  "CmdResetEvent2 event stage = send_oneway ''vkCmdResetEvent2'' [CH event, CL stage]"

subsection \<open>Barriers\<close>

definition with_barriers :: "vk list \<Rightarrow> vk list \<Rightarrow> vk list \<Rightarrow> (carg list \<Rightarrow> recorder) \<Rightarrow> recorder" where
  "with_barriers mems bufs imgs f = with_structs MemoryBarrier mems (\<lambda>a. with_structs BufferMemoryBarrier bufs (\<lambda>b.
     with_structs ImageMemoryBarrier imgs (\<lambda>c. f (a @ b @ c))))"

definition CmdPipelineBarrier :: "TrackedDevice \<Rightarrow> u32 \<Rightarrow> u32 \<Rightarrow> u32 \<Rightarrow> vk list \<Rightarrow> vk list \<Rightarrow> vk list \<Rightarrow> recorder" where
  "CmdPipelineBarrier d src dst flags mems bufs imgs = with_barriers mems bufs imgs (\<lambda>as cb.
     send_oneway ''vkCmdPipelineBarrier'' ([CW src, CW dst, CW flags] @ as) (host_barriers d dst mems bufs imgs cb))"

definition CmdWaitEvents :: "TrackedDevice \<Rightarrow> u64 list \<Rightarrow> u32 \<Rightarrow> u32 \<Rightarrow> vk list \<Rightarrow> vk list \<Rightarrow> vk list \<Rightarrow> recorder" where
  "CmdWaitEvents d events src dst mems bufs imgs = with_barriers mems bufs imgs (\<lambda>as cb.
     send_oneway ''vkCmdWaitEvents'' ([CW (of_nat (length events))] @ map CH events @ [CW src, CW dst] @ as)
       (host_barriers d dst mems bufs imgs cb))"

definition CmdPipelineBarrier2 :: "TrackedDevice \<Rightarrow> vk \<Rightarrow> recorder" where
  "CmdPipelineBarrier2 d info = with_struct DependencyInfo info (\<lambda>b cb.
     send_oneway ''vkCmdPipelineBarrier2'' [CS b] (host_dependency d info cb))"

text \<open>A dependency the writer refuses ends the call: nothing is sent, and the dependencies before it have been applied.\<close>

fun wait_dependencies :: "TrackedDevice \<Rightarrow> (u64 \<times> vk) list \<Rightarrow> carg list \<Rightarrow> RemoteCommandBuffer \<Rightarrow> carg list option \<times> RemoteCommandBuffer" where
  "wait_dependencies d [] as cb = (Some as, cb)"
| "wait_dependencies d ((event, info) # rest) as cb = (case write_struct_raw DependencyInfo info of None \<Rightarrow> (None, cb)
     | Some b \<Rightarrow> wait_dependencies d rest (as @ [CH event, CS b]) (host_dependency d info cb))"

definition CmdWaitEvents2 :: "TrackedDevice \<Rightarrow> (u64 \<times> vk) list \<Rightarrow> recorder" where
  "CmdWaitEvents2 d waits cb = (if length waits > unat kMaxArrayElements then (cb, [])
     else case wait_dependencies d waits [CW (of_nat (length waits))] cb of (None, cb1) \<Rightarrow> (cb1, [])
       | (Some as, cb1) \<Rightarrow> send_oneway ''vkCmdWaitEvents2'' as cb1)"

subsection \<open>Transfers\<close>

definition CmdCopyBuffer :: "TrackedDevice \<Rightarrow> u64 \<Rightarrow> u64 \<Rightarrow> vk list \<Rightarrow> recorder" where
  "CmdCopyBuffer d src dst regions = with_structs BufferCopy regions (\<lambda>as cb.
     send_oneway ''vkCmdCopyBuffer'' ([CH src, CH dst] @ as) (mark_write (buffer_bindings (base d)) dst cb))"

definition CmdCopyBufferToImage :: "TrackedDevice \<Rightarrow> u64 \<Rightarrow> u64 \<Rightarrow> u32 \<Rightarrow> vk list \<Rightarrow> recorder" where
  "CmdCopyBufferToImage d src dst layout regions = with_structs BufferImageCopy regions (\<lambda>as cb.
     send_oneway ''vkCmdCopyBufferToImage'' ([CH src, CH dst, CI layout] @ as) (mark_write (image_bindings (base d)) dst cb))"

definition CmdCopyImageToBuffer :: "TrackedDevice \<Rightarrow> u64 \<Rightarrow> u32 \<Rightarrow> u64 \<Rightarrow> vk list \<Rightarrow> recorder" where
  "CmdCopyImageToBuffer d src layout dst regions = with_structs BufferImageCopy regions (\<lambda>as cb.
     send_oneway ''vkCmdCopyImageToBuffer'' ([CH src, CI layout, CH dst] @ as) (mark_write (buffer_bindings (base d)) dst cb))"

definition CmdCopyImage :: "TrackedDevice \<Rightarrow> u64 \<Rightarrow> u32 \<Rightarrow> u64 \<Rightarrow> u32 \<Rightarrow> vk list \<Rightarrow> recorder" where
  "CmdCopyImage d src src_layout dst dst_layout regions = with_structs ImageCopy regions (\<lambda>as cb.
     send_oneway ''vkCmdCopyImage'' ([CH src, CI src_layout, CH dst, CI dst_layout] @ as) (mark_write (image_bindings (base d)) dst cb))"

definition CmdBlitImage :: "TrackedDevice \<Rightarrow> u64 \<Rightarrow> u32 \<Rightarrow> u64 \<Rightarrow> u32 \<Rightarrow> vk list \<Rightarrow> u32 \<Rightarrow> recorder" where
  "CmdBlitImage d src src_layout dst dst_layout regions filt = with_structs ImageBlit regions (\<lambda>as cb.
     send_oneway ''vkCmdBlitImage'' ([CH src, CI src_layout, CH dst, CI dst_layout] @ as @ [CI filt]) (mark_write (image_bindings (base d)) dst cb))"

definition CmdFillBuffer :: "TrackedDevice \<Rightarrow> u64 \<Rightarrow> u64 \<Rightarrow> u64 \<Rightarrow> u32 \<Rightarrow> recorder" where
  "CmdFillBuffer d dst offset sz data cb =
     send_oneway ''vkCmdFillBuffer'' [CH dst, CL offset, CL sz, CW data] (mark_write (buffer_bindings (base d)) dst cb)"

definition CmdUpdateBuffer :: "TrackedDevice \<Rightarrow> u64 \<Rightarrow> u64 \<Rightarrow> u64 \<Rightarrow> bytes option \<Rightarrow> recorder" where
  "CmdUpdateBuffer d dst offset sz data cb = send_oneway ''vkCmdUpdateBuffer'' [CH dst, CL offset, CL sz,
       CB (case data of None \<Rightarrow> [] | Some b \<Rightarrow> if sz \<noteq> 0 \<and> sz \<le> 65536 \<and> sz AND 3 = 0 then take (unat sz) b else [])]
     (mark_write (buffer_bindings (base d)) dst cb)"

text \<open>A subresource range is its five words, a colour its sixteen bytes, a resolve region its seventeen words.\<close>

definition CmdClearColorImage :: "TrackedDevice \<Rightarrow> u64 \<Rightarrow> u32 \<Rightarrow> bytes \<Rightarrow> u32 list list \<Rightarrow> recorder" where
  "CmdClearColorImage d img layout color ranges cb = send_oneway ''vkCmdClearColorImage''
     ([CH img, CI layout, CB color, CW (of_nat (length ranges))] @ map (\<lambda>r. CB (concat (map (le_bytes 4) r))) ranges)
     (mark_write (image_bindings (base d)) img cb)"

definition CmdResolveImage :: "TrackedDevice \<Rightarrow> u64 \<Rightarrow> u32 \<Rightarrow> u64 \<Rightarrow> u32 \<Rightarrow> u32 list list \<Rightarrow> recorder" where
  "CmdResolveImage d src src_layout dst dst_layout regions cb = send_oneway ''vkCmdResolveImage''
     ([CH src, CI src_layout, CH dst, CI dst_layout, CW (of_nat (length regions))] @ map CW (concat regions))
     (mark_write (image_bindings (base d)) dst cb)"

definition CmdClearDepthStencilImage :: "TrackedDevice \<Rightarrow> u64 \<Rightarrow> u32 \<Rightarrow> u32 \<times> u32 \<Rightarrow> u32 list list \<Rightarrow> recorder" where
  "CmdClearDepthStencilImage d img layout depth_stencil ranges cb = send_oneway ''vkCmdClearDepthStencilImage''
     ([CH img, CI layout, CF (fst depth_stencil), CW (snd depth_stencil), CW (of_nat (length ranges))] @ map CW (concat ranges))
     (mark_write (image_bindings (base d)) img cb)"

definition CmdClearAttachments :: "(u32 \<times> u32 \<times> bytes) list \<Rightarrow> u32 list list \<Rightarrow> recorder" where
  "CmdClearAttachments attachments rects = send_oneway ''vkCmdClearAttachments''
     ([CW (of_nat (length attachments))] @ concat (map (\<lambda>(aspect, color, b). [CW aspect, CW color, CB b]) attachments)
      @ [CW (of_nat (length rects))] @ map CW (concat rects))"


subsection \<open>What recording keeps\<close>

text \<open>The entry points between the begin of a command buffer and its next begin or reset.\<close>

inductive entry_point :: "recorder \<Rightarrow> bool" where
  "entry_point (CmdBeginRenderPass d info contents)"
| "entry_point (CmdNextSubpass contents)"
| "entry_point (CmdEndRenderPass)"
| "entry_point (CmdBeginRenderPass2 d info info2)"
| "entry_point (CmdNextSubpass2 info info2)"
| "entry_point (CmdEndRenderPass2 info)"
| "entry_point (CmdSetFragmentShadingRateKHR wh ops)"
| "entry_point (CmdSetDeviceMask n)"
| "entry_point (CmdBindPipeline point obj)"
| "entry_point (CmdBindDescriptorSets point obj first sets offsets)"
| "entry_point (CmdBindVertexBuffers first buffers)"
| "entry_point (CmdBindIndexBuffer obj off n)"
| "entry_point (CmdSetViewport first rows)"
| "entry_point (CmdSetScissor first rows)"
| "entry_point (CmdSetLineWidth n)"
| "entry_point (CmdSetDepthBias n1 n2 n3)"
| "entry_point (CmdSetBlendConstants rgba)"
| "entry_point (CmdSetDepthBounds n1 n2)"
| "entry_point (CmdSetStencilCompareMask n1 n2)"
| "entry_point (CmdSetStencilWriteMask n1 n2)"
| "entry_point (CmdSetStencilReference n1 n2)"
| "entry_point (CmdPushConstants obj n1 n2 n3 data)"
| "entry_point (CmdDispatchBase n1 n2 n3 n4 n5 n6)"
| "entry_point (CmdDraw n1 n2 n3 n4)"
| "entry_point (CmdDispatch n1 n2 n3)"
| "entry_point (CmdDrawIndexed n1 n2 n3 n4 n5)"
| "entry_point (CmdDrawIndirect obj off n1 n2)"
| "entry_point (CmdDrawIndexedIndirect obj off n1 n2)"
| "entry_point (CmdDrawIndirectCount obj off obj2 off2 n1 n2)"
| "entry_point (CmdDrawIndexedIndirectCount obj off obj2 off2 n1 n2)"
| "entry_point (CmdDispatchIndirect obj off)"
| "entry_point (CmdExecuteCommands secondaries)"
| "entry_point (CmdBeginQuery obj n1 n2)"
| "entry_point (CmdEndQuery obj n)"
| "entry_point (CmdResetQueryPool obj n1 n2)"
| "entry_point (CmdWriteTimestamp n1 obj n2)"
| "entry_point (CmdWriteTimestamp2 off obj n)"
| "entry_point (CmdCopyQueryPoolResults d obj n1 n2 obj2 off off2 n3)"
| "entry_point (CmdSetEvent obj n)"
| "entry_point (CmdResetEvent obj n)"
| "entry_point (CmdSetEvent2 obj info)"
| "entry_point (CmdResetEvent2 obj off)"
| "entry_point (CmdPipelineBarrier d n1 n2 n3 mems bufs imgs)"
| "entry_point (CmdWaitEvents d events n1 n2 mems bufs imgs)"
| "entry_point (CmdPipelineBarrier2 d info)"
| "entry_point (CmdWaitEvents2 d waits)"
| "entry_point (CmdCopyBuffer d obj obj2 rows)"
| "entry_point (CmdCopyBufferToImage d obj obj2 n rows)"
| "entry_point (CmdCopyImageToBuffer d obj n obj2 rows)"
| "entry_point (CmdCopyImage d obj n1 obj2 n2 rows)"
| "entry_point (CmdBlitImage d obj n1 obj2 n2 rows n3)"
| "entry_point (CmdFillBuffer d obj off off2 n)"
| "entry_point (CmdUpdateBuffer d obj off off2 data)"
| "entry_point (CmdClearColorImage d obj n color ranges)"
| "entry_point (CmdResolveImage d obj n1 obj2 n2 ranges)"
| "entry_point (CmdClearDepthStencilImage d obj n pair ranges)"
| "entry_point (CmdClearAttachments attachments rects)"
| "entry_point (EndCommandBuffer)"

definition grows :: "RemoteCommandBuffer \<Rightarrow> RemoteCommandBuffer \<Rightarrow> bool" where
  "grows cb cb' \<longleftrightarrow> cb_remote_id cb' = cb_remote_id cb \<and> set (pending_writes cb) \<subseteq> set (pending_writes cb')
     \<and> set (host_visible_writes cb) \<subseteq> set (host_visible_writes cb') \<and> set (writable_descriptor_sets cb) \<subseteq> set (writable_descriptor_sets cb')
     \<and> (descriptor_writes_host_visible cb \<longrightarrow> descriptor_writes_host_visible cb')"

lemma grows_refl [simp]: "grows cb cb"
  by (simp add: grows_def)

lemma grows_trans: "grows a b \<Longrightarrow> grows b c \<Longrightarrow> grows a c"
  by (auto simp: grows_def)

lemma set_insert_all [simp]: "set (insert_all xs ys) = set xs \<union> set ys"
  by (induction xs arbitrary: ys) (auto simp: insert_all_def)

lemma grows_marks:
  "grows cb (mark_write bindings i cb)" "grows cb (mark_view_write d v cb)" "grows cb (mark_descriptor_writes sets cb)"
  "grows cb (all_visible cb)" "grows cb (insert_visible m cb)" "grows cb (absorb secondary cb)"
  "grows cb (global_barrier barrier cb)" "grows cb (resource_barrier d bindings is_res pos barrier cb)" "grows cb (resource_barrier2 bindings pos barrier cb)"
  by (auto simp: grows_def mark_write_def mark_view_write_def mark_descriptor_writes_def all_visible_def insert_visible_def absorb_def
      global_barrier_def resource_barrier_def resource_barrier2_def split: option.splits)

lemma grows_fold: "(\<And>x cb. grows cb (f x cb)) \<Longrightarrow> grows cb (fold f xs cb)"
  by (induction xs arbitrary: cb) (auto intro: grows_trans)

lemma grows_barriers:
  "grows cb (mark_framebuffer_writes d info cb)" "grows cb (host_barriers d dst mems bufs imgs cb)" "grows cb (host_dependency d info cb)"
  by (auto simp: mark_framebuffer_writes_def host_barriers_def host_dependency_def Let_def split: option.splits
      intro!: grows_fold grows_marks intro: grows_trans [OF grows_fold grows_fold] grows_trans)


lemma grows_wrappers:
  "(\<And>b cb. grows cb (fst (f b cb))) \<Longrightarrow> grows cb (fst (with_struct S v f cb))"
  "(\<And>as cb. grows cb (fst (g as cb))) \<Longrightarrow> grows cb (fst (with_structs S vs g cb))"
  by (simp_all add: with_struct_def with_structs_def split: option.splits)

lemma fst_send_oneway [simp]: "fst (send_oneway name as cb) = cb"
  by (simp add: send_oneway_def)

lemma grows_wait: "wait_dependencies d waits as cb = (out, cb') \<Longrightarrow> grows cb cb'"
  by (induction d waits as cb arbitrary: out cb' rule: wait_dependencies.induct)
    (auto split: option.splits intro: grows_trans [OF grows_barriers(3)])

lemma grows_bound [simp]: "grows cb (cb\<lparr>bound_compute_sets := x\<rparr>)" "grows cb (cb\<lparr>bound_graphics_sets := x\<rparr>)"
  by (simp_all add: grows_def)

lemmas command_defs =
  CmdBeginRenderPass_def CmdNextSubpass_def CmdEndRenderPass_def CmdBeginRenderPass2_def CmdNextSubpass2_def CmdEndRenderPass2_def
  CmdSetFragmentShadingRateKHR_def CmdSetDeviceMask_def CmdBindPipeline_def CmdBindDescriptorSets_def CmdBindVertexBuffers_def CmdBindIndexBuffer_def
  CmdSetViewport_def CmdSetScissor_def CmdSetLineWidth_def CmdSetDepthBias_def CmdSetBlendConstants_def CmdSetDepthBounds_def
  CmdSetStencilCompareMask_def CmdSetStencilWriteMask_def CmdSetStencilReference_def CmdPushConstants_def CmdDispatchBase_def CmdDraw_def
  CmdDispatch_def CmdDrawIndexed_def CmdDrawIndirect_def CmdDrawIndexedIndirect_def CmdDrawIndirectCount_def CmdDrawIndexedIndirectCount_def
  CmdDispatchIndirect_def CmdExecuteCommands_def CmdBeginQuery_def CmdEndQuery_def CmdResetQueryPool_def CmdWriteTimestamp_def CmdWriteTimestamp2_def
  CmdCopyQueryPoolResults_def CmdSetEvent_def CmdResetEvent_def CmdSetEvent2_def CmdResetEvent2_def CmdPipelineBarrier_def CmdWaitEvents_def
  CmdPipelineBarrier2_def CmdWaitEvents2_def CmdCopyBuffer_def CmdCopyBufferToImage_def CmdCopyImageToBuffer_def CmdCopyImage_def CmdBlitImage_def
  CmdFillBuffer_def CmdUpdateBuffer_def CmdClearColorImage_def CmdResolveImage_def CmdClearDepthStencilImage_def CmdClearAttachments_def
  EndCommandBuffer_def

lemma entry_point_grows: "entry_point f \<Longrightarrow> grows cb (fst (f cb))"
  by (induction rule: entry_point.induct)
    (auto simp: command_defs with_barriers_def split: prod.splits option.splits
      intro!: grows_wrappers grows_marks grows_barriers grows_fold intro: grows_wait)

inductive records :: "RemoteCommandBuffer \<Rightarrow> RemoteCommandBuffer \<Rightarrow> bool" where
  records_refl: "records cb cb"
| records_step: "records cb cb' \<Longrightarrow> entry_point f \<Longrightarrow> records cb (fst (f cb'))"

lemma records_grows: "records cb cb' \<Longrightarrow> grows cb cb'"
  by (induction rule: records.induct) (auto intro: grows_trans entry_point_grows)


subsection \<open>From a write to a barrier\<close>

text \<open>
  What a command writes by the meaning of Vulkan: the memory its destination is bound to, or for a render pass that of an
  image behind one of the views attached.
\<close>

definition attachment_memory :: "TrackedDevice \<Rightarrow> vk \<Rightarrow> u64 \<Rightarrow> bool" where
  "attachment_memory d info m \<longleftrightarrow> (\<exists>fb v img off. map_of (framebuffers d) (vk_member 3 info) = Some fb \<and>
     v \<in> set (case (fb_imageless fb, attachment_views info) of (True, Some views) \<Rightarrow> views | _ \<Rightarrow> fb_image_views fb) \<and>
     map_of (image_view_images d) v = Some img \<and> map_of (image_bindings (base d)) img = Some (m, off))"

inductive writes_memory :: "u64 \<Rightarrow> recorder \<Rightarrow> bool" where
  "map_of (buffer_bindings (base d)) i = Some (m, b_off) \<Longrightarrow> writes_memory m (CmdCopyBuffer d src i rows)"
| "map_of (buffer_bindings (base d)) i = Some (m, b_off) \<Longrightarrow> writes_memory m (CmdCopyImageToBuffer d src n i rows)"
| "map_of (buffer_bindings (base d)) i = Some (m, b_off) \<Longrightarrow> writes_memory m (CmdFillBuffer d i off sz n)"
| "map_of (buffer_bindings (base d)) i = Some (m, b_off) \<Longrightarrow> writes_memory m (CmdUpdateBuffer d i off sz data)"
| "map_of (buffer_bindings (base d)) i = Some (m, b_off) \<Longrightarrow> writes_memory m (CmdCopyQueryPoolResults d pool n1 n2 i off stride n3)"
| "map_of (image_bindings (base d)) i = Some (m, b_off) \<Longrightarrow> writes_memory m (CmdCopyBufferToImage d src i n rows)"
| "map_of (image_bindings (base d)) i = Some (m, b_off) \<Longrightarrow> writes_memory m (CmdCopyImage d src n1 i n2 rows)"
| "map_of (image_bindings (base d)) i = Some (m, b_off) \<Longrightarrow> writes_memory m (CmdBlitImage d src n1 i n2 rows n3)"
| "map_of (image_bindings (base d)) i = Some (m, b_off) \<Longrightarrow> writes_memory m (CmdClearColorImage d i n color ranges)"
| "map_of (image_bindings (base d)) i = Some (m, b_off) \<Longrightarrow> writes_memory m (CmdResolveImage d src n1 i n2 ranges)"
| "map_of (image_bindings (base d)) i = Some (m, b_off) \<Longrightarrow> writes_memory m (CmdClearDepthStencilImage d i n pair ranges)"
| "attachment_memory d info m \<Longrightarrow> writes_memory m (CmdBeginRenderPass d info contents)"
| "attachment_memory d info m \<Longrightarrow> writes_memory m (CmdBeginRenderPass2 d info info2)"

text \<open>A barrier towards the host that covers a memory: one on all memory, or one on a resource bound to it.\<close>

definition covers :: "TrackedDevice \<Rightarrow> u64 \<Rightarrow> u32 \<Rightarrow> vk list \<Rightarrow> vk list \<Rightarrow> vk list \<Rightarrow> bool" where
  "covers d m dst mems bufs imgs \<longleftrightarrow> ucast dst AND HOST_STAGE \<noteq> 0 \<and>
     ((\<exists>b \<in> set mems. vk_member 3 b AND HOST_ACCESS \<noteq> 0) \<or>
      (\<exists>b \<in> set bufs. vk_member 3 b AND HOST_ACCESS \<noteq> 0 \<and> map_option fst (map_of (buffer_bindings (base d)) (vk_member 6 b)) = Some m) \<or>
      (\<exists>b \<in> set imgs. vk_member 3 b AND HOST_ACCESS \<noteq> 0 \<and> map_option fst (map_of (image_bindings (base d)) (vk_member 8 b)) = Some m))"

definition covers2 :: "TrackedDevice \<Rightarrow> u64 \<Rightarrow> vk \<Rightarrow> bool" where
  "covers2 d m info \<longleftrightarrow> list_ex to_host2 (rows_at 4 info) \<or>
     (\<exists>b \<in> set (rows_at 6 info). to_host2 b \<and> map_option fst (map_of (buffer_bindings (base d)) (vk_member 8 b)) = Some m) \<or>
     (\<exists>b \<in> set (rows_at 8 info). to_host2 b \<and> map_option fst (map_of (image_bindings (base d)) (vk_member 10 b)) = Some m)"

inductive makes_visible :: "u64 \<Rightarrow> recorder \<Rightarrow> bool" where
  "covers d m dst mems bufs imgs \<Longrightarrow> makes_visible m (CmdPipelineBarrier d src dst flags mems bufs imgs)"
| "covers d m dst mems bufs imgs \<Longrightarrow> makes_visible m (CmdWaitEvents d events src dst mems bufs imgs)"
| "covers2 d m info \<Longrightarrow> makes_visible m (CmdPipelineBarrier2 d info)"
| "(event, info) \<in> set waits \<Longrightarrow> covers2 d m info \<Longrightarrow> makes_visible m (CmdWaitEvents2 d waits)"

lemma fold_mark_view:
  assumes "v \<in> set views" "map_of (image_view_images d) v = Some img" "map_of (image_bindings (base d)) img = Some (m, off)"
  shows "m \<in> set (pending_writes (fold (mark_view_write d) views cb))"
  using assms(1)
proof (induction views arbitrary: cb)
  case (Cons a views)
  have "grows (mark_view_write d a cb) (fold (mark_view_write d) views (mark_view_write d a cb))" by (intro grows_fold grows_marks)
  moreover have "m \<in> set (pending_writes (mark_view_write d v cb))" using assms(2,3) by (simp add: mark_view_write_def mark_write_def)
  ultimately show ?case using Cons by (auto simp: grows_def)
qed simp

lemma mark_write_pending: "map_of bindings i = Some (m, off) \<Longrightarrow> m \<in> set (pending_writes (mark_write bindings i cb))"
  by (simp add: mark_write_def)

lemma attachment_marked:
  assumes "attachment_memory d info m"
  shows "m \<in> set (pending_writes (mark_framebuffer_writes d info cb))"
proof -
  from assms obtain fb v img off where "map_of (framebuffers d) (vk_member 3 info) = Some fb"
    "v \<in> set (case (fb_imageless fb, attachment_views info) of (True, Some views) \<Rightarrow> views | _ \<Rightarrow> fb_image_views fb)"
    "map_of (image_view_images d) v = Some img" "map_of (image_bindings (base d)) img = Some (m, off)"
    unfolding attachment_memory_def by blast
  then show ?thesis by (simp add: mark_framebuffer_writes_def fold_mark_view)
qed

lemma write_pending: "writes_memory m f \<Longrightarrow> snd (f cb) \<noteq> [] \<Longrightarrow> m \<in> set (pending_writes (fst (f cb)))"
  by (induction rule: writes_memory.induct)
    (auto simp: command_defs with_struct_def with_structs_def send_oneway_def attachment_marked mark_write_pending split: option.splits)


lemma all_visible_pending: "m \<in> set (pending_writes cb) \<Longrightarrow> m \<in> set (host_visible_writes (all_visible cb))"
  by (simp add: all_visible_def)

lemma fold_reaches:
  assumes "b \<in> set bs" "m \<in> set (pending_writes cb)"
    "\<And>x cb. grows cb (f x cb)" "\<And>cb. m \<in> set (pending_writes cb) \<Longrightarrow> m \<in> set (host_visible_writes (f b cb))"
  shows "m \<in> set (host_visible_writes (fold f bs cb))"
  using assms(1,2)
proof (induction bs arbitrary: cb)
  case (Cons a bs)
  have g: "grows cb (f a cb)" "grows (f a cb) (fold f bs (f a cb))" by (intro assms(3) grows_fold)+
  show ?case
  proof (cases "a = b")
    case True
    with assms(4) [OF Cons.prems(2)] g(2) show ?thesis by (auto simp: grows_def)
  next
    case False
    with Cons.prems Cons.IH [of "f a cb"] g(1) show ?thesis by (auto simp: grows_def)
  qed
qed simp


lemma resource_barrier_visible:
  "vk_member 3 b AND HOST_ACCESS \<noteq> 0 \<Longrightarrow> map_option fst (map_of bindings (vk_member pos b)) = Some m \<Longrightarrow> m \<in> set (pending_writes cb)
   \<Longrightarrow> m \<in> set (host_visible_writes (resource_barrier d bindings is_res pos b cb))"
  by (auto simp: resource_barrier_def insert_visible_def split: option.splits)

lemma resource_barrier2_visible:
  "to_host2 b \<Longrightarrow> map_option fst (map_of bindings (vk_member pos b)) = Some m \<Longrightarrow> m \<in> set (host_visible_writes (resource_barrier2 bindings pos b cb))"
  by (auto simp: resource_barrier2_def insert_visible_def split: option.splits)

lemma covers_visible:
  assumes "covers d m dst mems bufs imgs" "m \<in> set (pending_writes cb)"
  shows "m \<in> set (host_visible_writes (host_barriers d dst mems bufs imgs cb))"
proof -
  define a where "a = fold global_barrier mems cb"
  define c where "c = fold (resource_barrier d (buffer_bindings (base d)) resource_is_buffer 6) bufs a"
  have g: "grows cb a" "grows a c" "grows c (fold (resource_barrier d (image_bindings (base d)) resource_is_image 8) imgs c)"
    unfolding a_def c_def by (intro grows_fold grows_marks)+
  have "m \<in> set (host_visible_writes a) \<or> m \<in> set (host_visible_writes c)
      \<or> m \<in> set (host_visible_writes (fold (resource_barrier d (image_bindings (base d)) resource_is_image 8) imgs c))"
    using assms(1) unfolding covers_def
  proof (elim conjE disjE bexE)
    fix b assume "b \<in> set mems" "vk_member 3 b AND HOST_ACCESS \<noteq> 0"
    then show ?thesis unfolding a_def
      by (intro disjI1 fold_reaches [of b] assms(2) grows_marks) (auto simp: global_barrier_def all_visible_pending)
  next
    fix b assume "b \<in> set bufs" "vk_member 3 b AND HOST_ACCESS \<noteq> 0" "map_option fst (map_of (buffer_bindings (base d)) (vk_member 6 b)) = Some m"
    moreover have "m \<in> set (pending_writes a)" using assms(2) g(1) by (auto simp: grows_def)
    ultimately show ?thesis unfolding c_def
      by (intro disjI2 disjI1 fold_reaches [of b] grows_marks) (auto intro: resource_barrier_visible)
  next
    fix b assume "b \<in> set imgs" "vk_member 3 b AND HOST_ACCESS \<noteq> 0" "map_option fst (map_of (image_bindings (base d)) (vk_member 8 b)) = Some m"
    moreover have "m \<in> set (pending_writes c)" using assms(2) g(1,2) by (auto simp: grows_def)
    ultimately show ?thesis
      by (intro disjI2 fold_reaches [of b] grows_marks) (auto intro: resource_barrier_visible)
  qed
  with g(2,3) assms(1) show ?thesis by (auto simp: host_barriers_def a_def c_def grows_def covers_def)
qed

lemma covers2_visible:
  assumes "covers2 d m info" "m \<in> set (pending_writes cb)"
  shows "m \<in> set (host_visible_writes (host_dependency d info cb))"
proof -
  define a where "a = (if list_ex to_host2 (rows_at 4 info) then all_visible cb else cb)"
  define c where "c = fold (resource_barrier2 (buffer_bindings (base d)) 8) (rows_at 6 info) a"
  have g: "grows cb a" "grows a c" "grows c (fold (resource_barrier2 (image_bindings (base d)) 10) (rows_at 8 info) c)"
    unfolding a_def c_def by (auto intro: grows_fold grows_marks)
  have p: "m \<in> set (pending_writes a)" "m \<in> set (pending_writes c)" using assms(2) g(1,2) by (auto simp: grows_def)
  have "m \<in> set (host_visible_writes a) \<or> m \<in> set (host_visible_writes c)
      \<or> m \<in> set (host_visible_writes (fold (resource_barrier2 (image_bindings (base d)) 10) (rows_at 8 info) c))"
    using assms(1) unfolding covers2_def
  proof (elim conjE disjE bexE)
    assume "list_ex to_host2 (rows_at 4 info)"
    then show ?thesis by (simp add: a_def all_visible_pending assms(2))
  next
    fix b assume "b \<in> set (rows_at 6 info)" "to_host2 b" "map_option fst (map_of (buffer_bindings (base d)) (vk_member 8 b)) = Some m"
    then show ?thesis unfolding c_def
      by (intro disjI2 disjI1 fold_reaches [of b] grows_marks p(1)) (auto intro: resource_barrier2_visible)
  next
    fix b assume "b \<in> set (rows_at 8 info)" "to_host2 b" "map_option fst (map_of (image_bindings (base d)) (vk_member 10 b)) = Some m"
    then show ?thesis
      by (intro disjI2 fold_reaches [of b] grows_marks p(2)) (auto intro: resource_barrier2_visible)
  qed
  with g(2,3) show ?thesis by (auto simp: host_dependency_def a_def c_def grows_def)
qed

lemma waits_visible:
  "wait_dependencies d waits as cb = (Some out, cb') \<Longrightarrow> (event, info) \<in> set waits \<Longrightarrow> covers2 d m info \<Longrightarrow> m \<in> set (pending_writes cb)
   \<Longrightarrow> m \<in> set (host_visible_writes cb')"
proof (induction d waits as cb arbitrary: out cb' rule: wait_dependencies.induct)
  case (2 d event' info' rest as cb)
  from "2.prems"(1) obtain b where b: "write_struct_raw DependencyInfo info' = Some b"
      "wait_dependencies d rest (as @ [CH event', CS b]) (host_dependency d info' cb) = (Some out, cb')"
    by (auto split: option.splits)
  from grows_barriers(3) [of cb d info'] "2.prems"(4) have p: "m \<in> set (pending_writes (host_dependency d info' cb))"
    by (auto simp: grows_def)
  show ?case
  proof (cases "(event, info) = (event', info')")
    case True
    with covers2_visible [OF "2.prems"(3,4)] grows_wait [OF b(2)] show ?thesis by (auto simp: grows_def)
  next
    case False
    with "2.IH" [OF b _ "2.prems"(3) p] "2.prems"(2) show ?thesis by auto
  qed
qed simp

lemma barrier_visible: "makes_visible m f \<Longrightarrow> m \<in> set (pending_writes cb) \<Longrightarrow> snd (f cb) \<noteq> [] \<Longrightarrow> m \<in> set (host_visible_writes (fst (f cb)))"
  by (induction rule: makes_visible.induct)
    (auto simp: command_defs with_barriers_def with_struct_def with_structs_def send_oneway_def covers_visible covers2_visible
      split: option.splits prod.splits if_splits dest: waits_visible)



definition record_device :: TrackedDevice where
  "record_device = \<lparr>base = \<lparr>remote_id = 1, mapped = [], memories = [], map_alignment = 64, instance_capabilities = 0,
       buffer_bindings = [(5, 7, 0)], image_bindings = []\<rparr>,
     descriptor_resources = [], image_view_images = [], buffer_view_buffers = [], framebuffers = [], command_buffers = []\<rparr>"

definition host_read_barrier :: vk where
  "host_read_barrier = VList [VNum 46, VNum 0, VNum 4096, VNum 8192]"


end
