(* ===== verification/ClientSubmit.thy ===== *)
theory ClientSubmit
  imports ClientRecord ClientInvariant
begin

section \<open>Submission, fences and semaphores on the client (client/device.cpp)\<close>

text \<open>
  A submission carries the host-visible writes of its command buffers to whatever the application can wait for: the
  queue, the fence, the semaphores it signals, and, through semaphores, the submissions that wait for those. A successful
  wait fetches the memories recorded at what it waited for (\<open>acquire_coherent_mapped\<close>). Sets of memories are lists; maps
  are association lists, and the entry that \<open>operator[]\<close> creates is the default value. A call is one step here; where the
  code gives up the metadata lock for the round trip, the two halves are definitions of their own, \<open>submit_plan\<close> and
  \<open>submit_commit\<close>.
\<close>

subsection \<open>State\<close>

record TimelineSignalWrites =
  tw_value :: u64
  tw_queue_id :: u64
  tw_submission_serial :: u64
  tw_memory_ids :: "u64 list"

record PendingSemaphoreWait =
  pw_value :: u64
  pw_queue_id :: u64
  pw_submission_serial :: u64
  pw_downstream :: "u64 list"

record SemaphoreProvenance =
  sp_timeline :: bool
  binary_signaled :: bool
  binary_queue_id :: u64
  binary_submission_serial :: u64
  binary_writes :: "u64 list"
  timeline_writes :: "TimelineSignalWrites list"
  acquired_timeline_value :: u64
  acquired_timeline_writes :: "u64 list"
  pending_waits :: "PendingSemaphoreWait list"

record PendingCoherentWrites =
  pc_queue_id :: u64
  pc_submission_serial :: u64
  pc_memory_ids :: "u64 list"

record SyncDevice =
  tracked :: TrackedDevice
  semaphores :: "(u64 \<times> SemaphoreProvenance) list"
  next_submission_serial :: u64
  queue_writes :: "(u64 \<times> u64 list) list"
  fence_writes :: "(u64 \<times> PendingCoherentWrites) list"

definition new_semaphore :: SemaphoreProvenance where
  "new_semaphore = \<lparr>sp_timeline = False, binary_signaled = False, binary_queue_id = 0, binary_submission_serial = 0, binary_writes = [],
     timeline_writes = [], acquired_timeline_value = 0, acquired_timeline_writes = [], pending_waits = []\<rparr>"

definition semaphore_of :: "SyncDevice \<Rightarrow> u64 \<Rightarrow> SemaphoreProvenance" where
  "semaphore_of d i = (case map_of (semaphores d) i of None \<Rightarrow> new_semaphore | Some s \<Rightarrow> s)"

definition set_semaphore :: "u64 \<Rightarrow> SemaphoreProvenance \<Rightarrow> SyncDevice \<Rightarrow> SyncDevice" where
  "set_semaphore i s d = d\<lparr>semaphores := AList.update i s (semaphores d)\<rparr>"

definition writes_of_queue :: "SyncDevice \<Rightarrow> u64 \<Rightarrow> u64 list" where
  "writes_of_queue d q = (case map_of (queue_writes d) q of None \<Rightarrow> [] | Some ws \<Rightarrow> ws)"

abbreviation device_id :: "SyncDevice \<Rightarrow> u64" where
  "device_id d \<equiv> remote_id (base (tracked d))"

definition set_mapped :: "MappedRange list \<Rightarrow> SyncDevice \<Rightarrow> SyncDevice" where
  "set_mapped ms d = d\<lparr>tracked := (tracked d)\<lparr>base := (base (tracked d))\<lparr>mapped := ms\<rparr>\<rparr>\<rparr>"

definition publish :: "'w round_trip \<Rightarrow> SyncDevice \<Rightarrow> 'w \<Rightarrow> (bool \<times> SyncDevice) \<times> 'w" where
  "publish rt d w = (case publish_coherent_mapped rt (device_id d) (mapped (base (tracked d))) w of
     ((ok, ms), w1) \<Rightarrow> ((ok, set_mapped ms d), w1))"

definition acquire :: "'w round_trip \<Rightarrow> u64 list option \<Rightarrow> SyncDevice \<Rightarrow> 'w \<Rightarrow> (bool \<times> SyncDevice) \<times> 'w" where
  "acquire rt memory_ids d w = (case acquire_coherent_mapped rt (device_id d) memory_ids (mapped (base (tracked d))) w of
     ((ok, ms), w1) \<Rightarrow> ((ok, set_mapped ms d), w1))"

definition map_values :: "('b \<Rightarrow> 'b) \<Rightarrow> ('a \<times> 'b) list \<Rightarrow> ('a \<times> 'b) list" where
  "map_values f = map (\<lambda>(k, v). (k, f v))"

subsection \<open>Propagation\<close>

definition add_to_record :: "u64 \<Rightarrow> u64 \<Rightarrow> u64 list \<Rightarrow> TimelineSignalWrites \<Rightarrow> TimelineSignalWrites" where
  "add_to_record q after ws r = (if tw_queue_id r = q \<and> tw_submission_serial r \<ge> after
     then r\<lparr>tw_memory_ids := insert_all ws (tw_memory_ids r)\<rparr> else r)"

definition add_to_binary :: "u64 \<Rightarrow> u64 \<Rightarrow> u64 list \<Rightarrow> SemaphoreProvenance \<Rightarrow> SemaphoreProvenance" where
  "add_to_binary q after ws s = (if binary_signaled s \<and> binary_queue_id s = q \<and> binary_submission_serial s \<ge> after
     then s\<lparr>binary_writes := insert_all ws (binary_writes s)\<rparr> else s)"

definition add_to_fence :: "u64 \<Rightarrow> u64 \<Rightarrow> u64 list \<Rightarrow> PendingCoherentWrites \<Rightarrow> PendingCoherentWrites" where
  "add_to_fence q after ws f = (if pc_queue_id f = q \<and> pc_submission_serial f \<ge> after
     then f\<lparr>pc_memory_ids := insert_all ws (pc_memory_ids f)\<rparr> else f)"

definition add_to_semaphore :: "u64 \<Rightarrow> u64 \<Rightarrow> u64 list \<Rightarrow> SemaphoreProvenance \<Rightarrow> SemaphoreProvenance" where
  "add_to_semaphore q after ws s = (let s1 = add_to_binary q after ws s in
     s1\<lparr>timeline_writes := map (add_to_record q after ws) (timeline_writes s1)\<rparr>)"

definition propagate_queue_writes_locked :: "u64 \<Rightarrow> u64 \<Rightarrow> u64 list \<Rightarrow> SyncDevice \<Rightarrow> SyncDevice" where
  "propagate_queue_writes_locked q after ws d =
     d\<lparr>queue_writes := AList.update q (insert_all ws (writes_of_queue d q)) (queue_writes d),
       fence_writes := map_values (add_to_fence q after ws) (fence_writes d),
       semaphores := map_values (add_to_semaphore q after ws) (semaphores d)\<rparr>"

definition add_downstream :: "PendingSemaphoreWait \<Rightarrow> u64 list \<Rightarrow> u64 \<Rightarrow> SyncDevice \<Rightarrow> SyncDevice" where
  "add_downstream wait ws i d = (let s = semaphore_of d i in
     set_semaphore i (if sp_timeline s
       then s\<lparr>timeline_writes := map (add_to_record (pw_queue_id wait) (pw_submission_serial wait) ws) (timeline_writes s)\<rparr>
       else add_to_binary (pw_queue_id wait) (pw_submission_serial wait) ws s) d)"

text \<open>A signal of a semaphore reaches the waits that were submitted before it.\<close>

definition reached :: "bool \<Rightarrow> u64 \<Rightarrow> PendingSemaphoreWait \<Rightarrow> bool" where
  "reached timeline v wait \<longleftrightarrow> \<not> timeline \<or> v \<ge> pw_value wait"

definition release_wait :: "bool \<Rightarrow> u64 \<Rightarrow> u64 list \<Rightarrow> PendingSemaphoreWait \<Rightarrow> SyncDevice \<Rightarrow> SyncDevice" where
  "release_wait timeline v ws wait d = (if \<not> reached timeline v wait then d
     else fold (add_downstream wait ws) (pw_downstream wait)
       (propagate_queue_writes_locked (pw_queue_id wait) (pw_submission_serial wait) ws d))"

definition release_waits :: "u64 \<Rightarrow> bool \<Rightarrow> u64 \<Rightarrow> u64 list \<Rightarrow> SyncDevice \<Rightarrow> SyncDevice" where
  "release_waits i timeline v ws d =
     (let d1 = fold (release_wait timeline v ws) (pending_waits (semaphore_of d i)) d; s = semaphore_of d1 i in
      set_semaphore i (s\<lparr>pending_waits := filter (\<lambda>wait. \<not> reached timeline v wait) (pending_waits s)\<rparr>) d1)"

subsection \<open>What a submission makes visible\<close>

definition resource_memory :: "TrackedDevice \<Rightarrow> DescriptorResource \<Rightarrow> u64" where
  "resource_memory d res =
     (let buffer_memory = (\<lambda>i. case map_of (buffer_bindings (base d)) i of None \<Rightarrow> 0 | Some (m, off) \<Rightarrow> m);
          image_memory = (\<lambda>i. case map_of (image_bindings (base d)) i of None \<Rightarrow> 0 | Some (m, off) \<Rightarrow> m) in
      if dr_type res = VK_DESCRIPTOR_TYPE_STORAGE_BUFFER \<or> dr_type res = VK_DESCRIPTOR_TYPE_STORAGE_BUFFER_DYNAMIC
      then buffer_memory (dr_resource_id res)
      else if dr_type res = VK_DESCRIPTOR_TYPE_STORAGE_IMAGE
      then (case map_of (image_view_images d) (dr_resource_id res) of None \<Rightarrow> 0 | Some i \<Rightarrow> image_memory i)
      else if dr_type res = VK_DESCRIPTOR_TYPE_STORAGE_TEXEL_BUFFER
      then (case map_of (buffer_view_buffers d) (dr_resource_id res) of None \<Rightarrow> 0 | Some i \<Rightarrow> buffer_memory i)
      else 0)"

definition descriptor_writes :: "TrackedDevice \<Rightarrow> RemoteCommandBuffer \<Rightarrow> u64 list" where
  "descriptor_writes d cb = filter (\<lambda>m. m \<noteq> 0) (concat (map (\<lambda>set_id. case map_of (descriptor_resources d) set_id of None \<Rightarrow> []
     | Some resources \<Rightarrow> map (resource_memory d \<circ> snd) resources) (writable_descriptor_sets cb)))"

definition buffer_writes :: "TrackedDevice \<Rightarrow> u64 \<Rightarrow> u64 list" where
  "buffer_writes d h = (case map_of (command_buffers d) h of None \<Rightarrow> [] | Some cb \<Rightarrow>
     insert_all (if descriptor_writes_host_visible cb then descriptor_writes d cb else []) (host_visible_writes cb))"

text \<open>
  What a submission says about synchronisation, in the one form both calls are brought to: a semaphore waited for, its
  timeline value if there is one, and the value noted for a wait on a binary semaphore; and a semaphore signalled with its value.
\<close>

record Submission =
  sb_waits :: "(u64 \<times> u64 option \<times> u64) list"
  sb_buffers :: "u64 list"
  sb_signals :: "(u64 \<times> u64 option) list"

record PlannedSignal =
  ps_semaphore_id :: u64
  ps_timeline :: bool
  ps_value :: u64
  ps_serial :: u64
  ps_memory_ids :: "u64 list"

record Plan =
  pl_writes :: "u64 list"
  pl_consumed :: "u64 list"
  pl_waits :: "(u64 \<times> PendingSemaphoreWait) list"
  pl_signals :: "PlannedSignal list"

text \<open>What a wait brings to the submission, and whether the signal it waits for is known.\<close>

definition wait_sources :: "SemaphoreProvenance \<Rightarrow> u64 option \<Rightarrow> u64 list \<times> bool" where
  "wait_sources s v =
     (if sp_timeline s then
        (case v of None \<Rightarrow> ([], False)
         | Some value \<Rightarrow> if acquired_timeline_value s \<ge> value then (acquired_timeline_writes s, True)
             else (case find (\<lambda>r. tw_value r \<ge> value) (timeline_writes s) of None \<Rightarrow> (acquired_timeline_writes s, False)
               | Some r \<Rightarrow> (insert_all (tw_memory_ids r) (acquired_timeline_writes s), True)))
      else (binary_writes s, binary_signaled s))"

definition plan_wait :: "SyncDevice \<Rightarrow> u64 \<Rightarrow> u64 \<Rightarrow> u64 list \<Rightarrow> u64 \<times> u64 option \<times> u64 \<Rightarrow> u64 list \<times> Plan \<Rightarrow> u64 list \<times> Plan" where
  "plan_wait d q serial downstream wait acc = (case (wait, acc) of ((i, v, binary_value), (ws, p)) \<Rightarrow>
     case map_of (semaphores d) i of None \<Rightarrow> (ws, p)
     | Some s \<Rightarrow> (case wait_sources s v of (sources, known) \<Rightarrow>
         (insert_all sources ws,
          p\<lparr>pl_consumed := (if sp_timeline s then pl_consumed p else List.insert i (pl_consumed p)),
            pl_waits := (if known then pl_waits p else pl_waits p @ [(i,
              \<lparr>pw_value = (if sp_timeline s then (case v of None \<Rightarrow> 0 | Some value \<Rightarrow> value) else binary_value),
               pw_queue_id = q, pw_submission_serial = serial, pw_downstream = downstream\<rparr>)])\<rparr>)))"

definition plan_signal :: "SyncDevice \<Rightarrow> u64 \<Rightarrow> u64 list \<Rightarrow> u64 \<times> u64 option \<Rightarrow> PlannedSignal" where
  "plan_signal d serial ws signal = (case signal of (i, v) \<Rightarrow>
     let timeline = (case map_of (semaphores d) i of None \<Rightarrow> False | Some s \<Rightarrow> sp_timeline s) in
     \<lparr>ps_semaphore_id = i, ps_timeline = timeline, ps_value = (if timeline then (case v of None \<Rightarrow> 0 | Some value \<Rightarrow> value) else 0),
      ps_serial = serial, ps_memory_ids = ws\<rparr>)"

definition plan_submission :: "SyncDevice \<Rightarrow> u64 \<Rightarrow> u64 \<Rightarrow> Submission \<Rightarrow> Plan \<Rightarrow> Plan" where
  "plan_submission d q serial s p =
     (case fold (plan_wait d q serial (map fst (sb_signals s))) (sb_waits s)
        (fold insert_all (map (buffer_writes (tracked d)) (sb_buffers s)) [], p) of (ws, p1) \<Rightarrow>
      let total = insert_all ws (pl_writes p1) in
      p1\<lparr>pl_writes := total, pl_signals := pl_signals p1 @ map (plan_signal d serial total) (sb_signals s)\<rparr>)"

fun plan_submissions :: "SyncDevice \<Rightarrow> u64 \<Rightarrow> u64 \<Rightarrow> Submission list \<Rightarrow> Plan \<Rightarrow> Plan" where
  "plan_submissions d q serial [] p = p"
| "plan_submissions d q serial (s # ss) p = plan_submissions d q (serial + 1) ss (plan_submission d q serial s p)"

definition submit_plan :: "SyncDevice \<Rightarrow> u64 \<Rightarrow> Submission list \<Rightarrow> Plan \<times> SyncDevice" where
  "submit_plan d q ss =
     (plan_submissions d q (next_submission_serial d) ss \<lparr>pl_writes = writes_of_queue d q, pl_consumed = [], pl_waits = [], pl_signals = []\<rparr>,
      d\<lparr>next_submission_serial := next_submission_serial d + (if ss = [] then 1 else of_nat (length ss))\<rparr>)"

text \<open>What the call does once the server has accepted it.\<close>

definition add_pending_wait :: "u64 \<times> PendingSemaphoreWait \<Rightarrow> SyncDevice \<Rightarrow> SyncDevice" where
  "add_pending_wait iw d = (case iw of (i, wait) \<Rightarrow> let s = semaphore_of d i in
     set_semaphore i (s\<lparr>pending_waits := pending_waits s @ [wait]\<rparr>) d)"

definition consume_binary :: "u64 \<Rightarrow> SyncDevice \<Rightarrow> SyncDevice" where
  "consume_binary i d = set_semaphore i ((semaphore_of d i)\<lparr>binary_writes := [], binary_signaled := False,
     binary_queue_id := 0, binary_submission_serial := 0\<rparr>) d"

definition apply_signal :: "u64 \<Rightarrow> PlannedSignal \<Rightarrow> SyncDevice \<Rightarrow> SyncDevice" where
  "apply_signal q sg d = (let s = semaphore_of d (ps_semaphore_id sg) in
     release_waits (ps_semaphore_id sg) (ps_timeline sg) (ps_value sg) (ps_memory_ids sg)
       (set_semaphore (ps_semaphore_id sg)
         (if ps_timeline sg
          then s\<lparr>timeline_writes := timeline_writes s @ [\<lparr>tw_value = ps_value sg, tw_queue_id = q,
                   tw_submission_serial = ps_serial sg, tw_memory_ids = ps_memory_ids sg\<rparr>]\<rparr>
          else s\<lparr>binary_writes := ps_memory_ids sg, binary_signaled := True, binary_queue_id := q,
                   binary_submission_serial := ps_serial sg\<rparr>) d))"

definition submit_commit :: "u64 \<Rightarrow> Plan \<Rightarrow> u64 \<Rightarrow> u64 \<Rightarrow> SyncDevice \<Rightarrow> SyncDevice" where
  "submit_commit q p fence serial d =
     (let d1 = d\<lparr>queue_writes := AList.update q (pl_writes p) (queue_writes d)\<rparr>;
          d2 = fold add_pending_wait (pl_waits p) d1;
          d3 = fold consume_binary (pl_consumed p) d2;
          d4 = fold (apply_signal q) (pl_signals p) d3 in
      if fence = VK_NULL_HANDLE then d4
      else d4\<lparr>fence_writes := AList.update fence \<lparr>pc_queue_id = q, pc_submission_serial = serial, pc_memory_ids = pl_writes p\<rparr> (fence_writes d4)\<rparr>)"

definition last_serial :: "SyncDevice \<Rightarrow> Submission list \<Rightarrow> u64" where
  "last_serial d ss = (if ss = [] then next_submission_serial d else next_submission_serial d + of_nat (length ss) - 1)"


subsection \<open>QueueSubmit\<close>

record VkSubmitInfo =
  si_type :: u32
  si_next :: vk
  si_waits :: "(u64 \<times> u32) list"
  si_buffers :: "u64 list"
  si_signals :: "u64 list"

definition submit_valid :: "VkSubmitInfo \<Rightarrow> bool" where
  "submit_valid s \<longleftrightarrow> si_type s = 4 \<and> length (si_waits s) \<le> unat kMaxArrayElements \<and> length (si_buffers s) \<le> unat kMaxArrayElements
     \<and> length (si_signals s) \<le> unat kMaxArrayElements \<and> list_all (\<lambda>(i, stage). i \<noteq> VK_NULL_HANDLE) (si_waits s)
     \<and> list_all (\<lambda>h. h \<noteq> VK_NULL_HANDLE) (si_buffers s) \<and> list_all (\<lambda>i. i \<noteq> VK_NULL_HANDLE) (si_signals s)"

definition submit_args :: "SyncDevice \<Rightarrow> VkSubmitInfo \<Rightarrow> carg list option" where
  "submit_args d s = map_option (\<lambda>b. [CS b, CW (of_nat (length (si_waits s)))]
       @ concat (map (\<lambda>(i, stage). [CH i, CW stage]) (si_waits s))
       @ [CW (of_nat (length (si_buffers s)))] @ map (CH \<circ> buffer_id (tracked d)) (si_buffers s)
       @ [CW (of_nat (length (si_signals s)))] @ map CH (si_signals s)) (w_chain Submit (si_next s))"

text \<open>The values of the last \<open>VkTimelineSemaphoreSubmitInfo\<close> of the chain.\<close>

definition timeline_values :: "vk \<Rightarrow> u64 list \<times> u64 list" where
  "timeline_values chained = (case chain_of chained of None \<Rightarrow> ([], []) | Some chain \<Rightarrow>
     (case find (\<lambda>n. fst n = VK_STRUCTURE_TYPE_TIMELINE_SEMAPHORE_SUBMIT_INFO) (rev chain) of
        Some (ty, [VList ws, VList ss]) \<Rightarrow> (map (vk_member 0) ws, map (vk_member 0) ss) | _ \<Rightarrow> ([], [])))"

definition with_values :: "u64 list \<Rightarrow> u64 list \<Rightarrow> (u64 \<times> u64 option) list" where
  "with_values sems values = map (\<lambda>(j, i). (i, if j < length values then Some (values ! j) else None)) (enumerate 0 sems)"

definition submission :: "VkSubmitInfo \<Rightarrow> Submission" where
  "submission s = (case timeline_values (si_next s) of (wait_values, signal_values) \<Rightarrow>
     \<lparr>sb_waits = map (\<lambda>(i, v). (i, v, 0)) (with_values (map fst (si_waits s)) wait_values), sb_buffers = si_buffers s,
      sb_signals = with_values (si_signals s) signal_values\<rparr>)"

text \<open>The part both calls share: publish, plan, send, and commit when the server has accepted. The error count in the reply is printed.\<close>

definition submit_call :: "'w round_trip \<Rightarrow> u32 \<Rightarrow> SyncDevice \<Rightarrow> u64 \<Rightarrow> bytes \<Rightarrow> Submission list \<Rightarrow> u64 \<Rightarrow> 'w \<Rightarrow> (u32 \<times> SyncDevice) \<times> 'w" where
  "submit_call rt code d q request ss fence w =
     (case publish rt d w of ((False, d1), w1) \<Rightarrow> ((VK_ERROR_DEVICE_LOST, d1), w1)
      | ((True, d1), w1) \<Rightarrow> (case submit_plan d1 q ss of (plan, d2) \<Rightarrow>
          (case rt code request w1 of (None, w2) \<Rightarrow> ((VK_ERROR_DEVICE_LOST, d2), w2)
           | (Some rep, w2) \<Rightarrow> (let (result, r1) = r_i32 (payload_reader rep); (errors, r2) = r_u32 r1 in
               if \<not> r_ok r2 \<or> r_remaining r2 \<noteq> 0 then ((VK_ERROR_DEVICE_LOST, d2), w2)
               else if result \<noteq> VK_SUCCESS then ((result, d2), w2)
               else ((result, submit_commit q plan fence (last_serial d1 ss) d2), w2)))))"

definition QueueSubmit :: "'w round_trip \<Rightarrow> (string \<Rightarrow> u32) \<Rightarrow> SyncDevice \<Rightarrow> u64 \<Rightarrow> VkSubmitInfo list \<Rightarrow> u64 \<Rightarrow> 'w
    \<Rightarrow> (u32 \<times> SyncDevice) \<times> 'w" where
  "QueueSubmit rt opc d q submits fence w =
     (if length submits > unat kMaxArrayElements \<or> \<not> list_all submit_valid submits then ((VK_ERROR_INITIALIZATION_FAILED, d), w)
      else case those (map (submit_args d) submits) of None \<Rightarrow> ((VK_ERROR_FEATURE_NOT_PRESENT, d), w)
      | Some as \<Rightarrow> submit_call rt (opc ''vkQueueSubmit'') d q
          (w_args ([CH q, CH fence, CW (of_nat (length submits))] @ concat as)) (map submission submits) fence w)"

text \<open>\<open>VkSubmitInfo2\<close> as the list of its slots; the handles of command buffers are replaced by their ids as it is written.\<close>

definition with_buffer_ids :: "SyncDevice \<Rightarrow> vk \<Rightarrow> vk" where
  "with_buffer_ids d info = (case list_of info of None \<Rightarrow> info | Some vs \<Rightarrow>
     (case list_of (slot vs 6) of None \<Rightarrow> info
      | Some rows \<Rightarrow> VList (vs[6 := VList (map (\<lambda>row. case list_of row of None \<Rightarrow> row
          | Some rs \<Rightarrow> VList (rs[2 := VNum (buffer_id (tracked d) (slot64 rs 2))])) rows)])))"

definition submission2 :: "vk \<Rightarrow> Submission" where
  "submission2 info = \<lparr>sb_waits = map (\<lambda>row. (vk_member 2 row, Some (vk_member 3 row), vk_member 3 row)) (rows_at 4 info),
     sb_buffers = map (vk_member 2) (rows_at 6 info),
     sb_signals = map (\<lambda>row. (vk_member 2 row, Some (vk_member 3 row))) (rows_at 8 info)\<rparr>"

definition QueueSubmit2 :: "'w round_trip \<Rightarrow> (string \<Rightarrow> u32) \<Rightarrow> SyncDevice \<Rightarrow> u64 \<Rightarrow> vk list \<Rightarrow> u64 \<Rightarrow> 'w \<Rightarrow> (u32 \<times> SyncDevice) \<times> 'w" where
  "QueueSubmit2 rt opc d q submits fence w =
     (if length submits > unat kMaxArrayElements \<or>
         list_ex (\<lambda>info. list_ex (\<lambda>row. vk_member 2 row = VK_NULL_HANDLE) (rows_at 4 info @ rows_at 6 info @ rows_at 8 info)) submits
      then ((VK_ERROR_INITIALIZATION_FAILED, d), w)
      else case those (map (write_struct_raw SubmitInfo2 \<circ> with_buffer_ids d) submits) of None \<Rightarrow> ((VK_ERROR_FEATURE_NOT_PRESENT, d), w)
      | Some bs \<Rightarrow> submit_call rt (opc ''vkQueueSubmit2'') d q
          (w_args ([CH q, CH fence, CW (of_nat (length submits))] @ map CS bs)) (map submission2 submits) fence w)"

subsection \<open>QueueBindSparse\<close>

type_synonym memory_bind = "u64 \<times> u64 \<times> u64 \<times> u64 \<times> u32"

record VkBindSparseInfo =
  bi_next :: vk
  bi_waits :: "u64 list"
  bi_buffers :: "(u64 \<times> memory_bind list) list"
  bi_opaque :: "(u64 \<times> memory_bind list) list"
  bi_images :: "(u64 \<times> (u32 list \<times> u64 \<times> u64 \<times> u32) list) list"
  bi_signals :: "u64 list"

definition counted :: "('a \<Rightarrow> carg list) \<Rightarrow> 'a list \<Rightarrow> carg list" where
  "counted f xs = CW (of_nat (length xs)) # concat (map f xs)"

definition memory_bind_args :: "memory_bind \<Rightarrow> carg list" where
  "memory_bind_args b = (case b of (offset, sz, memory, memory_offset, flags) \<Rightarrow> [CL offset, CL sz, CH memory, CL memory_offset, CW flags])"

text \<open>A sparse image bind has nine words in front: subresource, offset and extent.\<close>

definition bind_args :: "VkBindSparseInfo \<Rightarrow> carg list option" where
  "bind_args x = map_option (\<lambda>b. CS b # counted (\<lambda>i. [CH i]) (bi_waits x)
     @ counted (\<lambda>(i, binds). CH i # counted memory_bind_args binds) (bi_buffers x)
     @ counted (\<lambda>(i, binds). CH i # counted memory_bind_args binds) (bi_opaque x)
     @ counted (\<lambda>(i, binds). CH i # counted (\<lambda>(ws, memory, memory_offset, flags). map CW ws @ [CH memory, CL memory_offset, CW flags]) binds) (bi_images x)
     @ counted (\<lambda>i. [CH i]) (bi_signals x)) (w_chain Submit (bi_next x))"

text \<open>The bookkeeping works on the device's state directly; \<open>writes\<close> is the entry of the queue.\<close>

definition bind_wait :: "u64 \<Rightarrow> u64 \<Rightarrow> u64 list \<Rightarrow> u64 \<times> u64 option \<Rightarrow> SyncDevice \<Rightarrow> SyncDevice" where
  "bind_wait q serial downstream wait d = (case wait of (i, v) \<Rightarrow>
     case map_of (semaphores d) i of None \<Rightarrow> d
     | Some s \<Rightarrow>
         (let (sources, known) = (if sp_timeline s \<or> binary_signaled s then wait_sources s v else ([], False));
              d1 = d\<lparr>queue_writes := AList.update q (insert_all sources (writes_of_queue d q)) (queue_writes d)\<rparr>;
              s1 = (if \<not> sp_timeline s \<and> binary_signaled s then s\<lparr>binary_signaled := False, binary_writes := []\<rparr> else s);
              s2 = (if known then s1 else s1\<lparr>pending_waits := pending_waits s1 @
                [\<lparr>pw_value = (if sp_timeline s then (case v of None \<Rightarrow> 0 | Some value \<Rightarrow> value) else 0),
                  pw_queue_id = q, pw_submission_serial = serial, pw_downstream = downstream\<rparr>]\<rparr>) in
          set_semaphore i s2 d1))"

definition bind_signal :: "u64 \<Rightarrow> u64 \<Rightarrow> u64 \<times> u64 option \<Rightarrow> SyncDevice \<Rightarrow> SyncDevice" where
  "bind_signal q serial signal d = (case signal of (i, v) \<Rightarrow>
     let s = semaphore_of d i; ws = writes_of_queue d q;
         value = (if sp_timeline s then (case v of None \<Rightarrow> 0 | Some value \<Rightarrow> value) else 0);
         s1 = (if sp_timeline s then (case v of None \<Rightarrow> s
               | Some value \<Rightarrow> s\<lparr>timeline_writes := timeline_writes s @ [\<lparr>tw_value = value, tw_queue_id = q,
                   tw_submission_serial = serial, tw_memory_ids = ws\<rparr>]\<rparr>)
               else s\<lparr>binary_signaled := True, binary_queue_id := q, binary_submission_serial := serial, binary_writes := ws\<rparr>) in
     release_waits i (sp_timeline s) value ws (set_semaphore i s1 d))"

definition bind_one :: "u64 \<Rightarrow> u64 \<Rightarrow> VkBindSparseInfo \<Rightarrow> SyncDevice \<Rightarrow> SyncDevice" where
  "bind_one q serial x d = (case timeline_values (bi_next x) of (wait_values, signal_values) \<Rightarrow>
     fold (bind_signal q serial) (with_values (bi_signals x) signal_values)
       (fold (bind_wait q serial (bi_signals x)) (with_values (bi_waits x) wait_values) d))"

definition bind_commit :: "u64 \<Rightarrow> VkBindSparseInfo list \<Rightarrow> u64 \<Rightarrow> SyncDevice \<Rightarrow> SyncDevice" where
  "bind_commit q binds fence d =
     (let serial = next_submission_serial d;
          d1 = fold (bind_one q serial) binds (d\<lparr>next_submission_serial := serial + 1\<rparr>) in
      if fence = VK_NULL_HANDLE then d1
      else d1\<lparr>fence_writes := AList.update fence \<lparr>pc_queue_id = q, pc_submission_serial = serial, pc_memory_ids = writes_of_queue d1 q\<rparr>
        (fence_writes d1)\<rparr>)"

definition QueueBindSparse :: "'w round_trip \<Rightarrow> (string \<Rightarrow> u32) \<Rightarrow> SyncDevice \<Rightarrow> u64 \<Rightarrow> VkBindSparseInfo list \<Rightarrow> u64 \<Rightarrow> 'w
    \<Rightarrow> (u32 \<times> SyncDevice) \<times> 'w" where
  "QueueBindSparse rt opc d q binds fence w =
     (if length binds > unat kMaxArrayElements then ((VK_ERROR_INITIALIZATION_FAILED, d), w)
      else case those (map bind_args binds) of None \<Rightarrow> ((VK_ERROR_FEATURE_NOT_PRESENT, d), w)
      | Some as \<Rightarrow> (case publish rt d w of ((False, d1), w1) \<Rightarrow> ((VK_ERROR_DEVICE_LOST, d1), w1)
        | ((True, d1), w1) \<Rightarrow> (case rt (opc ''vkQueueBindSparse'') (w_args ([CH q, CH fence, CW (of_nat (length binds))] @ concat as)) w1 of
            (None, w2) \<Rightarrow> ((VK_ERROR_DEVICE_LOST, d1), w2)
          | (Some rep, w2) \<Rightarrow> (let (result, r1) = r_i32 (payload_reader rep); (errors, r2) = r_u32 r1 in
              if \<not> r_ok r2 then ((VK_ERROR_DEVICE_LOST, d1), w2)
              else if result \<noteq> VK_SUCCESS then ((result, d1), w2)
              else ((result, bind_commit q binds fence d1), w2)))))"


subsection \<open>Waiting for queues and the device\<close>

definition QueueWaitIdle :: "'w round_trip \<Rightarrow> (string \<Rightarrow> u32) \<Rightarrow> SyncDevice \<Rightarrow> u64 \<Rightarrow> 'w \<Rightarrow> (u32 \<times> SyncDevice) \<times> 'w" where
  "QueueWaitIdle rt opc d q w = (case rt (opc ''vkQueueWaitIdle'') (w_args [CH q]) w of (None, w1) \<Rightarrow> ((VK_ERROR_DEVICE_LOST, d), w1)
     | (Some rep, w1) \<Rightarrow> (let (result, r1) = r_i32 (payload_reader rep) in
         if \<not> r_ok r1 then ((VK_ERROR_DEVICE_LOST, d), w1)
         else if result \<noteq> VK_SUCCESS then ((result, d), w1)
         else case acquire rt (Some (writes_of_queue d q)) d w1 of ((False, d1), w2) \<Rightarrow> ((VK_ERROR_DEVICE_LOST, d1), w2)
           | ((True, d1), w2) \<Rightarrow> ((result, d1\<lparr>queue_writes := AList.update q [] (queue_writes d1)\<rparr>), w2)))"

definition DeviceWaitIdle :: "'w round_trip \<Rightarrow> (string \<Rightarrow> u32) \<Rightarrow> SyncDevice \<Rightarrow> 'w \<Rightarrow> (u32 \<times> SyncDevice) \<times> 'w" where
  "DeviceWaitIdle rt opc d w = (case rt (opc ''vkDeviceWaitIdle'') (w_args [CH (device_id d)]) w of (None, w1) \<Rightarrow> ((VK_ERROR_DEVICE_LOST, d), w1)
     | (Some rep, w1) \<Rightarrow> (let (result, r1) = r_i32 (payload_reader rep); (errors, r2) = r_u32 r1 in
         if \<not> r_ok r2 then ((VK_ERROR_DEVICE_LOST, d), w1)
         else if result \<noteq> VK_SUCCESS then ((result, d), w1)
         else case acquire rt None d w1 of ((False, d1), w2) \<Rightarrow> ((VK_ERROR_DEVICE_LOST, d1), w2)
           | ((True, d1), w2) \<Rightarrow> ((result, d1\<lparr>queue_writes := [], fence_writes := []\<rparr>), w2)))"

subsection \<open>Fences\<close>

text \<open>Neither create call looks at \<open>ok\<close> of its reply.\<close>

definition create_request :: "raw_struct \<Rightarrow> SyncDevice \<Rightarrow> vk \<Rightarrow> bytes" where
  "create_request S d info = w_args [CH (device_id d), CS (case write_struct_raw S info of None \<Rightarrow> [] | Some b \<Rightarrow> b)]"

definition CreateFence :: "'w round_trip \<Rightarrow> (string \<Rightarrow> u32) \<Rightarrow> SyncDevice \<Rightarrow> vk \<Rightarrow> 'w \<Rightarrow> (u32 \<times> u64 option) \<times> 'w" where
  "CreateFence rt opc d info w = (case rt (opc ''vkCreateFence'') (create_request FenceCreateInfo d info) w of
       (None, w1) \<Rightarrow> ((VK_ERROR_INITIALIZATION_FAILED, None), w1)
     | (Some rep, w1) \<Rightarrow> (let (result, r1) = r_i32 (payload_reader rep); (i, r2) = r_handle r1 in
         ((result, if result = VK_SUCCESS then Some i else None), w1)))"

definition DestroyFence :: "'w oneway \<Rightarrow> (string \<Rightarrow> u32) \<Rightarrow> SyncDevice \<Rightarrow> u64 \<Rightarrow> 'w \<Rightarrow> SyncDevice \<times> 'w" where
  "DestroyFence ow opc d fence w = (if fence = VK_NULL_HANDLE then (d, w)
     else (d\<lparr>fence_writes := AList.delete fence (fence_writes d)\<rparr>, ow (opc ''vkDestroyFence'') (w_args [CH (device_id d), CH fence]) w))"

definition fences_valid :: "u64 list \<Rightarrow> bool" where
  "fences_valid fences \<longleftrightarrow> fences \<noteq> [] \<and> length fences \<le> unat kMaxArrayElements \<and> list_all (\<lambda>f. f \<noteq> VK_NULL_HANDLE) fences"

definition erase_fences :: "u64 list \<Rightarrow> SyncDevice \<Rightarrow> SyncDevice" where
  "erase_fences fences d = d\<lparr>fence_writes := fold AList.delete fences (fence_writes d)\<rparr>"

definition ResetFences :: "'w round_trip \<Rightarrow> (string \<Rightarrow> u32) \<Rightarrow> SyncDevice \<Rightarrow> u64 list \<Rightarrow> 'w \<Rightarrow> (u32 \<times> SyncDevice) \<times> 'w" where
  "ResetFences rt opc d fences w = (if \<not> fences_valid fences then ((VK_ERROR_INITIALIZATION_FAILED, d), w)
     else case rt (opc ''vkResetFences'') (w_args (CH (device_id d) # counted (\<lambda>f. [CH f]) fences)) w of
       (None, w1) \<Rightarrow> ((VK_ERROR_DEVICE_LOST, d), w1)
     | (Some rep, w1) \<Rightarrow> (let (result, r1) = r_i32 (payload_reader rep); good = (r_ok r1 \<and> r_remaining r1 = 0) in
         ((if good then result else VK_ERROR_DEVICE_LOST, if good \<and> result = VK_SUCCESS then erase_fences fences d else d), w1)))"

definition fence_memory :: "SyncDevice \<Rightarrow> u64 \<Rightarrow> u64 list" where
  "fence_memory d fence = (case map_of (fence_writes d) fence of None \<Rightarrow> [] | Some f \<Rightarrow> pc_memory_ids f)"

definition GetFenceStatus :: "'w round_trip \<Rightarrow> (string \<Rightarrow> u32) \<Rightarrow> SyncDevice \<Rightarrow> u64 \<Rightarrow> 'w \<Rightarrow> (u32 \<times> SyncDevice) \<times> 'w" where
  "GetFenceStatus rt opc d fence w = (if fence = VK_NULL_HANDLE then ((VK_ERROR_INITIALIZATION_FAILED, d), w)
     else case rt (opc ''vkGetFenceStatus'') (w_args [CH (device_id d), CH fence]) w of (None, w1) \<Rightarrow> ((VK_ERROR_DEVICE_LOST, d), w1)
     | (Some rep, w1) \<Rightarrow> (let (result, r1) = r_i32 (payload_reader rep) in
         if \<not> r_ok r1 then ((VK_ERROR_DEVICE_LOST, d), w1)
         else if result \<noteq> VK_SUCCESS then ((result, d), w1)
         else case acquire rt (Some (fence_memory d fence)) d w1 of ((False, d1), w2) \<Rightarrow> ((VK_ERROR_DEVICE_LOST, d1), w2)
           | ((True, d1), w2) \<Rightarrow> ((result, erase_fences [fence] d1), w2)))"

definition VK_NOT_READY :: u32 where "VK_NOT_READY = 1"

text \<open>After a wait for any fence, each is asked whether it was the one; the answer is the list of fences to take, or the error to return.\<close>

definition fence_done :: "'w round_trip \<Rightarrow> (string \<Rightarrow> u32) \<Rightarrow> u64 \<Rightarrow> u64 \<Rightarrow> 'w \<Rightarrow> (u32 + bool) \<times> 'w" where
  "fence_done rt opc dev f w = (case rt (opc ''vkGetFenceStatus'') (w_args [CH dev, CH f]) w of (None, w1) \<Rightarrow> (Inl VK_ERROR_DEVICE_LOST, w1)
     | (Some rep, w1) \<Rightarrow> (let (status, r1) = r_i32 (payload_reader rep) in
         (if \<not> r_ok r1 then Inl VK_ERROR_DEVICE_LOST else if status = VK_NOT_READY then Inr False
          else if status \<noteq> VK_SUCCESS then Inl status else Inr True, w1)))"

fun completed_fences :: "'w round_trip \<Rightarrow> (string \<Rightarrow> u32) \<Rightarrow> u64 \<Rightarrow> bool \<Rightarrow> u64 list \<Rightarrow> 'w \<Rightarrow> (u32 + u64 list) \<times> 'w" where
  "completed_fences rt opc dev wait_all [] w = (Inr [], w)"
| "completed_fences rt opc dev wait_all (f # fs) w =
     (case (if wait_all then (Inr True, w) else fence_done rt opc dev f w) of (Inl e, w1) \<Rightarrow> (Inl e, w1)
      | (Inr signaled, w1) \<Rightarrow> (case completed_fences rt opc dev wait_all fs w1 of (Inl e, w2) \<Rightarrow> (Inl e, w2)
          | (Inr xs, w2) \<Rightarrow> (Inr (if signaled then f # xs else xs), w2)))"

definition fences_memory :: "SyncDevice \<Rightarrow> u64 list \<Rightarrow> u64 list" where
  "fences_memory d fences = fold insert_all (map (fence_memory d) fences) []"

definition WaitForFences :: "'w round_trip \<Rightarrow> (string \<Rightarrow> u32) \<Rightarrow> SyncDevice \<Rightarrow> u64 list \<Rightarrow> bool \<Rightarrow> u64 \<Rightarrow> 'w \<Rightarrow> (u32 \<times> SyncDevice) \<times> 'w" where
  "WaitForFences rt opc d fences wait_all timeout w = (if \<not> fences_valid fences then ((VK_ERROR_INITIALIZATION_FAILED, d), w)
     else case rt (opc ''vkWaitForFences'')
         (w_args ([CH (device_id d), CW (if wait_all then 1 else 0)] @ counted (\<lambda>f. [CH f]) fences @ [CL timeout])) w of
       (None, w1) \<Rightarrow> ((VK_ERROR_DEVICE_LOST, d), w1)
     | (Some rep, w1) \<Rightarrow> (let (result, r1) = r_i32 (payload_reader rep) in
         if \<not> r_ok r1 then ((VK_ERROR_DEVICE_LOST, d), w1)
         else if result \<noteq> VK_SUCCESS then ((result, d), w1)
         else case completed_fences rt opc (device_id d) wait_all fences w1 of (Inl e, w2) \<Rightarrow> ((e, d), w2)
           | (Inr finished, w2) \<Rightarrow> (case acquire rt (Some (fences_memory d finished)) d w2 of ((False, d1), w3) \<Rightarrow> ((VK_ERROR_DEVICE_LOST, d1), w3)
               | ((True, d1), w3) \<Rightarrow> ((result, erase_fences finished d1), w3))))"

subsection \<open>Semaphores\<close>

definition creates_timeline :: "vk \<Rightarrow> bool" where
  "creates_timeline info = (case list_of info of None \<Rightarrow> False | Some vs \<Rightarrow> (case chain_of (slot vs 1) of None \<Rightarrow> False | Some chain \<Rightarrow>
     (case find (\<lambda>n. fst n = VK_STRUCTURE_TYPE_SEMAPHORE_TYPE_CREATE_INFO) (rev chain) of
        Some (ty, VNum semaphore_type # tail) \<Rightarrow> semaphore_type = 1 | _ \<Rightarrow> False)))"

definition CreateSemaphore :: "'w round_trip \<Rightarrow> (string \<Rightarrow> u32) \<Rightarrow> SyncDevice \<Rightarrow> vk \<Rightarrow> 'w \<Rightarrow> (u32 \<times> u64 option \<times> SyncDevice) \<times> 'w" where
  "CreateSemaphore rt opc d info w = (case rt (opc ''vkCreateSemaphore'') (create_request SemaphoreCreateInfo d info) w of
       (None, w1) \<Rightarrow> ((VK_ERROR_INITIALIZATION_FAILED, None, d), w1)
     | (Some rep, w1) \<Rightarrow> (let (result, r1) = r_i32 (payload_reader rep); (i, r2) = r_handle r1 in
         if result \<noteq> VK_SUCCESS then ((result, None, d), w1)
         else ((result, Some i, set_semaphore i ((semaphore_of d i)\<lparr>sp_timeline := creates_timeline info\<rparr>) d), w1)))"

definition DestroySemaphore :: "'w oneway \<Rightarrow> (string \<Rightarrow> u32) \<Rightarrow> SyncDevice \<Rightarrow> u64 \<Rightarrow> 'w \<Rightarrow> SyncDevice \<times> 'w" where
  "DestroySemaphore ow opc d sem w = (if sem = VK_NULL_HANDLE then (d, w)
     else (d\<lparr>semaphores := AList.delete sem (semaphores d)\<rparr>, ow (opc ''vkDestroySemaphore'') (w_args [CH (device_id d), CH sem]) w))"

definition timeline_completed :: "SemaphoreProvenance \<Rightarrow> u64 \<Rightarrow> u64 list" where
  "timeline_completed s value = fold insert_all (map tw_memory_ids (filter (\<lambda>r. tw_value r \<le> value) (timeline_writes s))) (acquired_timeline_writes s)"

definition acquire_timeline_writes :: "'w round_trip \<Rightarrow> SyncDevice \<Rightarrow> u64 \<Rightarrow> u64 \<Rightarrow> 'w \<Rightarrow> (bool \<times> SyncDevice) \<times> 'w" where
  "acquire_timeline_writes rt d sem value w = (case map_of (semaphores d) sem of None \<Rightarrow> ((True, d), w)
     | Some s \<Rightarrow> (let completed = timeline_completed s value in
         case acquire rt (Some completed) d w of ((False, d1), w1) \<Rightarrow> ((False, d1), w1)
         | ((True, d1), w1) \<Rightarrow> ((True, set_semaphore sem (s\<lparr>acquired_timeline_value := max (acquired_timeline_value s) value,
             acquired_timeline_writes := insert_all completed (acquired_timeline_writes s),
             timeline_writes := filter (\<lambda>r. \<not> tw_value r \<le> value) (timeline_writes s)\<rparr>) d1), w1)))"

definition GetSemaphoreCounterValue :: "'w round_trip \<Rightarrow> (string \<Rightarrow> u32) \<Rightarrow> SyncDevice \<Rightarrow> u64 \<Rightarrow> 'w \<Rightarrow> (u32 \<times> u64 option \<times> SyncDevice) \<times> 'w" where
  "GetSemaphoreCounterValue rt opc d sem w =
     (case rt (opc ''vkGetSemaphoreCounterValue'') (w_args [CH (device_id d), CH sem]) w of (None, w1) \<Rightarrow> ((VK_ERROR_DEVICE_LOST, None, d), w1)
      | (Some rep, w1) \<Rightarrow> (let (result, r1) = r_i32 (payload_reader rep); (v, r2) = r_u64 r1 in
          if \<not> r_ok r2 then ((VK_ERROR_DEVICE_LOST, None, d), w1)
          else if result \<noteq> VK_SUCCESS then ((result, None, d), w1)
          else case acquire_timeline_writes rt d sem v w1 of ((ok, d1), w2) \<Rightarrow>
            ((if ok then result else VK_ERROR_DEVICE_LOST, Some v, d1), w2)))"

text \<open>With \<open>VK_SEMAPHORE_WAIT_ANY_BIT\<close> each semaphore is asked for its value, and those that have not reached theirs are passed over.\<close>

fun acquire_waited :: "'w round_trip \<Rightarrow> (string \<Rightarrow> u32) \<Rightarrow> bool \<Rightarrow> (u64 \<times> u64) list \<Rightarrow> SyncDevice \<Rightarrow> 'w \<Rightarrow> (bool \<times> SyncDevice) \<times> 'w" where
  "acquire_waited rt opc any [] d w = ((True, d), w)"
| "acquire_waited rt opc any ((sem, value) # rest) d w =
     (case (if any then (case GetSemaphoreCounterValue rt opc d sem w of ((result, v, d1), w1) \<Rightarrow>
              (if result \<noteq> VK_SUCCESS then None else case v of None \<Rightarrow> None | Some seen \<Rightarrow> if seen < value then None else Some seen, d1, w1))
            else (Some value, d, w)) of
        (None, d1, w1) \<Rightarrow> acquire_waited rt opc any rest d1 w1
      | (Some seen, d1, w1) \<Rightarrow> (case acquire_timeline_writes rt d1 sem seen w1 of ((False, d2), w2) \<Rightarrow> ((False, d2), w2)
          | ((True, d2), w2) \<Rightarrow> acquire_waited rt opc any rest d2 w2))"

definition WaitSemaphores :: "'w round_trip \<Rightarrow> (string \<Rightarrow> u32) \<Rightarrow> SyncDevice \<Rightarrow> u32 \<Rightarrow> (u64 \<times> u64) list \<Rightarrow> u64 \<Rightarrow> 'w \<Rightarrow> (u32 \<times> SyncDevice) \<times> 'w" where
  "WaitSemaphores rt opc d flags pairs timeout w =
     (if length pairs > unat kMaxArrayElements then ((VK_ERROR_INITIALIZATION_FAILED, d), w)
      else case rt (opc ''vkWaitSemaphores'') (w_args ([CH (device_id d), CW flags] @ counted (\<lambda>(sem, v). [CH sem, CL v]) pairs @ [CL timeout])) w of
        (None, w1) \<Rightarrow> ((VK_ERROR_DEVICE_LOST, d), w1)
      | (Some rep, w1) \<Rightarrow> (let (result, r1) = r_i32 (payload_reader rep) in
          if \<not> r_ok r1 then ((VK_ERROR_DEVICE_LOST, d), w1)
          else if result \<noteq> VK_SUCCESS then ((result, d), w1)
          else case acquire_waited rt opc (flags AND 1 \<noteq> 0) pairs d w1 of ((ok, d1), w2) \<Rightarrow> ((if ok then result else VK_ERROR_DEVICE_LOST, d1), w2)))"

definition SignalSemaphore :: "'w round_trip \<Rightarrow> (string \<Rightarrow> u32) \<Rightarrow> SyncDevice \<Rightarrow> u64 \<Rightarrow> u64 \<Rightarrow> 'w \<Rightarrow> (u32 \<times> SyncDevice) \<times> 'w" where
  "SignalSemaphore rt opc d sem value w = (case publish rt d w of ((False, d1), w1) \<Rightarrow> ((VK_ERROR_DEVICE_LOST, d1), w1)
     | ((True, d1), w1) \<Rightarrow> (case rt (opc ''vkSignalSemaphore'') (w_args [CH (device_id d), CH sem, CL value]) w1 of
         (None, w2) \<Rightarrow> ((VK_ERROR_DEVICE_LOST, d1), w2)
       | (Some rep, w2) \<Rightarrow> (let (result, r1) = r_i32 (payload_reader rep) in
           if \<not> r_ok r1 then ((VK_ERROR_DEVICE_LOST, d1), w2)
           else ((result, if result \<noteq> VK_SUCCESS then d1 else case map_of (semaphores d1) sem of None \<Rightarrow> d1
             | Some s \<Rightarrow> set_semaphore sem (s\<lparr>pending_waits := filter (\<lambda>wait. \<not> pw_value wait \<le> value) (pending_waits s)\<rparr>) d1), w2))))"

end
