(* ===== verification/ClientProvenance.thy ===== *)
theory ClientProvenance
  imports ClientSubmit
begin

section \<open>From a recorded write to the wait that fetches it\<close>

text \<open>
  What \<open>ClientSubmit\<close> records for a fence is at least what the submission made visible, it only grows until somebody asks for
  the fence, and a successful wait fetches all of it. The two ways in which writes are lost on the way to a fence are shown at
  the end: a wait that was resolved before the writes arrived, and two calls on different queues that overlap.
\<close>

subsection \<open>Fences only gain\<close>

definition keeps_fence :: "u64 \<Rightarrow> SyncDevice \<Rightarrow> SyncDevice \<Rightarrow> bool" where
  "keeps_fence f d d' \<longleftrightarrow> (\<forall>e. map_of (fence_writes d) f = Some e \<longrightarrow>
     (\<exists>e'. map_of (fence_writes d') f = Some e' \<and> set (pc_memory_ids e) \<subseteq> set (pc_memory_ids e')))"

lemma keeps_refl [simp]: "keeps_fence f d d"
  by (simp add: keeps_fence_def)

lemma keeps_trans: "keeps_fence f a b \<Longrightarrow> keeps_fence f b c \<Longrightarrow> keeps_fence f a c"
  unfolding keeps_fence_def by (meson subset_trans)

lemma keeps_same: "fence_writes d' = fence_writes d \<Longrightarrow> keeps_fence f d d'"
  by (simp add: keeps_fence_def)

lemma keeps_fold: "(\<And>x d. keeps_fence f d (g x d)) \<Longrightarrow> keeps_fence f d (fold g xs d)"
  by (induction xs arbitrary: d) (auto intro: keeps_trans)

lemma fence_writes_unchanged [simp]:
  "fence_writes (set_semaphore i s d) = fence_writes d" "fence_writes (set_mapped ms d) = fence_writes d"
  "fence_writes (add_pending_wait iw d) = fence_writes d" "fence_writes (consume_binary i d) = fence_writes d"
  "fence_writes (add_downstream wait ws i d) = fence_writes d" "fence_writes (bind_wait q serial downstream iv d) = fence_writes d"
  by (simp_all add: set_semaphore_def set_mapped_def add_pending_wait_def consume_binary_def add_downstream_def bind_wait_def Let_def
      split: prod.splits option.splits)

lemma map_of_map_values: "map_of (map_values g xs) k = map_option g (map_of xs k)"
  by (induction xs) (auto simp: map_values_def)

lemma keeps_propagate: "keeps_fence f d (propagate_queue_writes_locked q after ws d)"
  by (auto simp: keeps_fence_def propagate_queue_writes_locked_def map_of_map_values add_to_fence_def)

lemma keeps_release: "keeps_fence f d (release_wait timeline v ws wait d)"
  unfolding release_wait_def using keeps_trans [OF keeps_propagate keeps_fold [of f "add_downstream wait ws"]] by (simp add: keeps_same)

lemma keeps_releases: "keeps_fence f d (release_waits i timeline v ws d)"
  unfolding release_waits_def Let_def by (rule keeps_trans [OF keeps_fold keeps_same]) (simp_all add: keeps_release)

lemma keeps_signals: "keeps_fence f d (apply_signal q sg d)" "keeps_fence f d (bind_signal q serial iv d)"
  unfolding apply_signal_def bind_signal_def Let_def
  by (auto split: prod.splits intro!: keeps_trans [OF keeps_same keeps_releases])

lemma keeps_fence_update: "f \<noteq> fence \<Longrightarrow> keeps_fence f d d' \<Longrightarrow> keeps_fence f d (d'\<lparr>fence_writes := AList.update fence x (fence_writes d')\<rparr>)"
  by (simp add: keeps_fence_def update_conv')

lemma keeps_commit:
  assumes "f \<noteq> fence"
  shows "keeps_fence f d (submit_commit q p fence serial d)"
proof -
  have "keeps_fence f d (fold (apply_signal q) (pl_signals p) (fold consume_binary (pl_consumed p) (fold add_pending_wait (pl_waits p)
      (d\<lparr>queue_writes := AList.update q (pl_writes p) (queue_writes d)\<rparr>))))"
    by (rule keeps_trans [OF keeps_trans [OF keeps_trans [OF keeps_same keeps_fold] keeps_fold] keeps_fold])
      (simp_all add: keeps_same keeps_signals)
  with assms show ?thesis by (simp add: submit_commit_def Let_def keeps_fence_update)
qed

lemma keeps_bind_one: "keeps_fence f d (bind_one q serial x d)"
proof (cases "timeline_values (bi_next x)")
  case (Pair waits signals)
  have "keeps_fence f d (fold (bind_signal q serial) (with_values (bi_signals x) signals)
      (fold (bind_wait q serial (bi_signals x)) (with_values (bi_waits x) waits) d))"
    by (rule keeps_trans [OF keeps_fold keeps_fold]) (simp_all add: keeps_same keeps_signals)
  then show ?thesis by (simp add: bind_one_def Pair)
qed

lemma keeps_bind_commit:
  assumes "f \<noteq> fence"
  shows "keeps_fence f d (bind_commit q binds fence d)"
proof -
  have "keeps_fence f d (fold (bind_one q (next_submission_serial d)) binds (d\<lparr>next_submission_serial := next_submission_serial d + 1\<rparr>))"
    by (rule keeps_trans [OF keeps_same keeps_fold]) (simp_all add: keeps_bind_one)
  with assms show ?thesis by (simp add: bind_commit_def Let_def keeps_fence_update)
qed

lemma map_of_deletes: "f \<notin> set fs \<Longrightarrow> map_of (fold AList.delete fs xs) f = map_of xs f"
  by (induction fs arbitrary: xs) (auto simp: delete_conv')

lemma keeps_erase: "f \<notin> set fs \<Longrightarrow> keeps_fence f d (erase_fences fs d)"
  by (simp add: keeps_fence_def erase_fences_def map_of_deletes)

lemma keeps_transfers:
  "publish rt d w = ((ok, d'), w') \<Longrightarrow> keeps_fence f d d'" "acquire rt memory_ids d w = ((ok, d'), w') \<Longrightarrow> keeps_fence f d d'"
  by (auto simp: publish_def acquire_def split: prod.splits intro: keeps_same)

lemma keeps_plan: "submit_plan d q ss = (p, d') \<Longrightarrow> keeps_fence f d d'"
  by (auto simp: submit_plan_def intro: keeps_same)

lemma keeps_submit_call:
  assumes "submit_call rt code d q request ss fence w = ((res, d'), w')" "f \<noteq> fence"
  shows "keeps_fence f d d'"
proof -
  obtain ok d1 w1 p d2 where *: "publish rt d w = ((ok, d1), w1)" "submit_plan d1 q ss = (p, d2)" by (metis surj_pair)
  have k: "keeps_fence f d d1" "keeps_fence f d d2" using keeps_transfers(1) [OF *(1)] keeps_plan [OF *(2)] by (blast intro: keeps_trans)+
  from assms(1) * have "d' = d1 \<or> d' = d2 \<or> d' = submit_commit q p fence (last_serial d1 ss) d2"
    by (auto simp: submit_call_def Let_def split: bool.splits prod.splits option.splits if_splits)
  with k assms(2) show ?thesis by (blast intro: keeps_trans keeps_commit)
qed


lemma keeps_submits:
  "QueueSubmit rt opc d q submits fence w = ((res, d'), w') \<Longrightarrow> f \<noteq> fence \<Longrightarrow> keeps_fence f d d'"
  "QueueSubmit2 rt opc d q infos fence w = ((res, d'), w') \<Longrightarrow> f \<noteq> fence \<Longrightarrow> keeps_fence f d d'"
  by (auto simp: QueueSubmit_def QueueSubmit2_def split: if_splits option.splits dest: keeps_submit_call)

lemma keeps_bind_sparse:
  assumes "QueueBindSparse rt opc d q binds fence w = ((res, d'), w')" "f \<noteq> fence"
  shows "keeps_fence f d d'"
proof -
  obtain ok d1 w1 where p: "publish rt d w = ((ok, d1), w1)" by (metis surj_pair)
  from assms(1) p have "d' = d \<or> d' = d1 \<or> d' = bind_commit q binds fence d1"
    by (auto simp: QueueBindSparse_def Let_def split: bool.splits prod.splits option.splits if_splits)
  moreover have "keeps_fence f d d1" using keeps_transfers(1) [OF p] .
  ultimately show ?thesis using keeps_trans [OF _ keeps_bind_commit [OF assms(2)]] by auto
qed

lemma keeps_queue_idle: "QueueWaitIdle rt opc d q w = ((res, d'), w') \<Longrightarrow> keeps_fence f d d'"
  by (auto simp: QueueWaitIdle_def Let_def keeps_fence_def split: bool.splits prod.splits option.splits if_splits
      dest!: keeps_transfers(2) [where f = f])

lemma keeps_taken: "acquire rt memory_ids d w = ((ok, d1), w1) \<Longrightarrow> f \<notin> set fs \<Longrightarrow> keeps_fence f d (erase_fences fs d1)"
  using keeps_trans [OF keeps_transfers(2) keeps_erase] .

lemma keeps_fence_status:
  assumes "GetFenceStatus rt opc d fence w = ((res, d'), w')" "f \<noteq> fence"
  shows "keeps_fence f d d'"
  using assms(1) keeps_transfers(2) [of rt "Some (fence_memory d fence)" d, where f = f]
    keeps_taken [of rt "Some (fence_memory d fence)" d, where f = f and fs = "[fence]"] assms(2)
  by (simp add: GetFenceStatus_def Let_def split: bool.splits prod.splits option.splits if_splits) blast

lemma completed_subset: "completed_fences rt opc dev wait_all fs w = (Inr xs, w') \<Longrightarrow> set xs \<subseteq> set fs"
  by (induction fs arbitrary: xs w) (fastforce split: if_splits prod.splits sum.splits)+

lemma lost_not_success [simp]: "VK_ERROR_DEVICE_LOST \<noteq> VK_SUCCESS" "VK_SUCCESS \<noteq> VK_ERROR_DEVICE_LOST"
    "VK_ERROR_INITIALIZATION_FAILED \<noteq> VK_SUCCESS" "VK_ERROR_FEATURE_NOT_PRESENT \<noteq> VK_SUCCESS"
  by (simp_all add: VK_ERROR_DEVICE_LOST_def  VK_ERROR_INITIALIZATION_FAILED_def VK_ERROR_FEATURE_NOT_PRESENT_def)

lemma completed_error: "completed_fences rt opc dev wait_all fs w = (Inl e, w') \<Longrightarrow> e \<noteq> VK_SUCCESS"
  by (induction fs arbitrary: e w)
    (auto simp: fence_done_def Let_def split: if_splits option.splits prod.splits sum.splits)

lemma wait_fences_cases:
  assumes "WaitForFences rt opc d fences wait_all timeout w = ((res, d'), w')"
  shows "(d' = d \<and> res \<noteq> VK_SUCCESS) \<or> (\<exists>xs w1 w2 d1. completed_fences rt opc (device_id d) wait_all fences w1 = (Inr xs, w2) \<and>
     (acquire rt (Some (fences_memory d xs)) d w2 = ((True, d1), w') \<and> d' = erase_fences xs d1 \<or>
      acquire rt (Some (fences_memory d xs)) d w2 = ((False, d'), w') \<and> res \<noteq> VK_SUCCESS))"
  using assms
  by (simp add: WaitForFences_def Let_def split: bool.splits prod.splits option.splits if_splits sum.splits)
    (auto dest: completed_error)

lemma keeps_wait_fences:
  assumes "WaitForFences rt opc d fences wait_all timeout w = ((res, d'), w')" "f \<notin> set fences"
  shows "keeps_fence f d d'"
  using wait_fences_cases [OF assms(1)]
proof (elim disjE exE conjE)
  fix xs w1 w2 d1
  assume c: "completed_fences rt opc (device_id d) wait_all fences w1 = (Inr xs, w2)"
    and a: "acquire rt (Some (fences_memory d xs)) d w2 = ((True, d1), w')" "d' = erase_fences xs d1"
  from completed_subset [OF c] assms(2) have "f \<notin> set xs" by blast
  with keeps_taken [OF a(1)] a(2) show ?thesis by simp
qed (auto dest: keeps_transfers(2))

lemma keeps_timeline: "acquire_timeline_writes rt d sem v w = ((ok, d'), w') \<Longrightarrow> keeps_fence f d d'"
  by (auto simp: acquire_timeline_writes_def Let_def keeps_fence_def split: bool.splits prod.splits option.splits
      dest!: keeps_transfers(2) [where f = f])

lemma keeps_counter: "GetSemaphoreCounterValue rt opc d sem w = ((res, v, d'), w') \<Longrightarrow> keeps_fence f d d'"
  by (auto simp: GetSemaphoreCounterValue_def Let_def split: prod.splits option.splits if_splits dest: keeps_timeline)

lemma keeps_waited: "acquire_waited rt opc any pairs d w = ((ok, d'), w') \<Longrightarrow> keeps_fence f d d'"
proof (induction rt opc any pairs d w arbitrary: ok d' w' rule: acquire_waited.induct)
  case (2 rt opc any sem v rest d w)
  define start where "start = (if any then (case GetSemaphoreCounterValue rt opc d sem w of ((result, x, d1), w1) \<Rightarrow>
      (if result \<noteq> VK_SUCCESS then None else case x of None \<Rightarrow> None | Some seen \<Rightarrow> if seen < v then None else Some seen, d1, w1))
    else (Some v, d, w))"
  obtain out d1 w1 where s: "start = (out, d1, w1)" by (metis surj_pair)
  have k: "keeps_fence f d d1" using s by (auto simp: start_def split: prod.splits if_splits dest: keeps_counter)
  show ?case
  proof (cases out)
    case None
    with 2(3) s have "acquire_waited rt opc any rest d1 w1 = ((ok, d'), w')" by (simp add: start_def)
    with 2(1) [OF s [unfolded start_def, symmetric] None refl] k show ?thesis by (blast intro: keeps_trans)
  next
    case (Some seen)
    obtain good d2 w2 where a: "acquire_timeline_writes rt d1 sem seen w1 = ((good, d2), w2)" by (metis surj_pair)
    have k2: "keeps_fence f d d2" using k keeps_timeline [OF a] by (rule keeps_trans)
    show ?thesis
    proof (cases good)
      case True
      with 2(3) s Some a have "acquire_waited rt opc any rest d2 w2 = ((ok, d'), w')" by (simp add: start_def)
      with 2(2) [OF s [unfolded start_def, symmetric] Some refl a [symmetric] refl eqTrueI [OF True]] k2 show ?thesis by (blast intro: keeps_trans)
    next
      case False
      with 2(3) s Some a k2 show ?thesis by (simp add: start_def)
    qed
  qed
qed simp


subsection \<open>A submission reaches its fence\<close>

lemma set_fold_insert_all [simp]: "set (fold insert_all xss acc) = \<Union> (set (map set xss)) \<union> set acc"
  by (induction xss arbitrary: acc) auto

lemma plan_wait_mono: "plan_wait d q serial downstream wait (ws, p) = (ws', p') \<Longrightarrow> set ws \<subseteq> set ws' \<and> pl_writes p' = pl_writes p"
  by (auto simp: plan_wait_def split: prod.splits option.splits)

lemma plan_waits_mono: "fold (plan_wait d q serial downstream) waits (ws, p) = (ws', p') \<Longrightarrow> set ws \<subseteq> set ws' \<and> pl_writes p' = pl_writes p"
proof (induction waits arbitrary: ws p)
  case (Cons a waits)
  obtain ws1 p1 where 1: "plan_wait d q serial downstream a (ws, p) = (ws1, p1)" by (metis surj_pair)
  from Cons.prems 1 have "fold (plan_wait d q serial downstream) waits (ws1, p1) = (ws', p')" by simp
  from Cons.IH [OF this] plan_wait_mono [OF 1] show ?case by auto
qed simp

lemma plan_submission_writes:
  "set (pl_writes p) \<subseteq> set (pl_writes (plan_submission d q serial s p))"
  "h \<in> set (sb_buffers s) \<Longrightarrow> set (buffer_writes (tracked d) h) \<subseteq> set (pl_writes (plan_submission d q serial s p))"
proof -
  obtain ws p1 where f: "fold (plan_wait d q serial (map fst (sb_signals s))) (sb_waits s)
      (fold insert_all (map (buffer_writes (tracked d)) (sb_buffers s)) [], p) = (ws, p1)" by (metis surj_pair)
  note m = plan_waits_mono [OF f]
  show "set (pl_writes p) \<subseteq> set (pl_writes (plan_submission d q serial s p))" using m by (auto simp: plan_submission_def f Let_def)
  show "set (buffer_writes (tracked d) h) \<subseteq> set (pl_writes (plan_submission d q serial s p))" if "h \<in> set (sb_buffers s)"
    using m that by (auto simp: plan_submission_def f Let_def)
qed

lemma plan_submissions_writes:
  "set (pl_writes p) \<subseteq> set (pl_writes (plan_submissions d q serial ss p)) \<and>
   (s \<in> set ss \<longrightarrow> h \<in> set (sb_buffers s) \<longrightarrow> set (buffer_writes (tracked d) h) \<subseteq> set (pl_writes (plan_submissions d q serial ss p)))"
proof (induction ss arbitrary: serial p)
  case (Cons a ss)
  note IH = Cons.IH [where serial = "serial + 1" and p = "plan_submission d q serial a p"]
  have "set (pl_writes p) \<subseteq> set (pl_writes (plan_submission d q serial a p))"
    "h \<in> set (sb_buffers a) \<Longrightarrow> set (buffer_writes (tracked d) h) \<subseteq> set (pl_writes (plan_submission d q serial a p))"
    by (rule plan_submission_writes)+
  with IH show ?case by auto
qed simp

lemma commit_fence:
  "fence \<noteq> VK_NULL_HANDLE \<Longrightarrow> fence_memory (submit_commit q p fence serial d) fence = pl_writes p"
  by (simp add: submit_commit_def Let_def fence_memory_def update_conv')

lemma resource_memory_mapped [simp]: "resource_memory (t\<lparr>base := (base t)\<lparr>mapped := ms\<rparr>\<rparr>) = resource_memory t"
  by (rule ext) (simp add: resource_memory_def)

lemma descriptor_writes_mapped [simp]: "descriptor_writes (t\<lparr>base := (base t)\<lparr>mapped := ms\<rparr>\<rparr>) cb = descriptor_writes t cb"
  by (simp add: descriptor_writes_def cong: option.case_cong)

lemma buffer_writes_mapped [simp]: "buffer_writes (tracked (set_mapped ms d)) h = buffer_writes (tracked d) h"
  by (simp add: buffer_writes_def set_mapped_def split: option.splits)

lemma publish_buffers: "publish rt d w = ((ok, d1), w1) \<Longrightarrow> buffer_writes (tracked d1) h = buffer_writes (tracked d) h"
  by (auto simp: publish_def split: prod.splits)

lemma publish_queues: "publish rt d w = ((ok, d1), w1) \<Longrightarrow> writes_of_queue d1 q = writes_of_queue d q"
  by (auto simp: publish_def set_mapped_def writes_of_queue_def split: prod.splits)

lemma submit_call_fence:
  assumes "submit_call rt code d q request ss fence w = ((VK_SUCCESS, d'), w')" "fence \<noteq> VK_NULL_HANDLE"
  shows "set (writes_of_queue d q) \<subseteq> set (fence_memory d' fence) \<and>
     (\<forall>s \<in> set ss. \<forall>h \<in> set (sb_buffers s). set (buffer_writes (tracked d) h) \<subseteq> set (fence_memory d' fence))"
proof -
  obtain ok d1 w1 p d2 where *: "publish rt d w = ((ok, d1), w1)" "submit_plan d1 q ss = (p, d2)" by (metis surj_pair)
  from assms(1) * have "d' = submit_commit q p fence (last_serial d1 ss) d2"
    by (auto simp: submit_call_def Let_def split: bool.splits prod.splits option.splits if_splits)
  then have f: "fence_memory d' fence = pl_writes p" using commit_fence [OF assms(2)] by simp
  from *(2) have p: "p = plan_submissions d1 q (next_submission_serial d1) ss \<lparr>pl_writes = writes_of_queue d1 q, pl_consumed = [], pl_waits = [], pl_signals = []\<rparr>"
    by (simp add: submit_plan_def)
  show ?thesis
    using plan_submissions_writes [of "\<lparr>pl_writes = writes_of_queue d1 q, pl_consumed = [], pl_waits = [], pl_signals = []\<rparr>" d1 q "next_submission_serial d1" ss]
    by (auto simp: f p publish_buffers [OF *(1)] publish_queues [OF *(1)])
qed


subsection \<open>Other calls\<close>

text \<open>What may happen between a submission and the wait for its fence: any call that does not name the fence, on any queue, the
  halves of overlapping submissions, and any recording, mapping or binding (which change \<open>tracked\<close>).\<close>

inductive other_call :: "'w round_trip \<Rightarrow> 'w oneway \<Rightarrow> (string \<Rightarrow> u32) \<Rightarrow> u64 \<Rightarrow> SyncDevice \<Rightarrow> SyncDevice \<Rightarrow> bool"
  for rt :: "'w round_trip" and ow :: "'w oneway" and opc :: "string \<Rightarrow> u32" and f :: u64 where
  "QueueSubmit rt opc d q submits fence w = ((res, d'), w') \<Longrightarrow> f \<noteq> fence \<Longrightarrow> other_call rt ow opc f d d'"
| "QueueSubmit2 rt opc d q infos fence w = ((res, d'), w') \<Longrightarrow> f \<noteq> fence \<Longrightarrow> other_call rt ow opc f d d'"
| "QueueBindSparse rt opc d q binds fence w = ((res, d'), w') \<Longrightarrow> f \<noteq> fence \<Longrightarrow> other_call rt ow opc f d d'"
| "submit_plan d q ss = (plan, d') \<Longrightarrow> other_call rt ow opc f d d'"
| "f \<noteq> fence \<Longrightarrow> other_call rt ow opc f d (submit_commit q plan fence serial d)"
| "QueueWaitIdle rt opc d q w = ((res, d'), w') \<Longrightarrow> other_call rt ow opc f d d'"
| "DeviceWaitIdle rt opc d w = ((res, d'), w') \<Longrightarrow> res \<noteq> VK_SUCCESS \<Longrightarrow> other_call rt ow opc f d d'"
| "DestroyFence ow opc d fence w = (d', w') \<Longrightarrow> f \<noteq> fence \<Longrightarrow> other_call rt ow opc f d d'"
| "ResetFences rt opc d fences w = ((res, d'), w') \<Longrightarrow> f \<notin> set fences \<Longrightarrow> other_call rt ow opc f d d'"
| "GetFenceStatus rt opc d fence w = ((res, d'), w') \<Longrightarrow> f \<noteq> fence \<Longrightarrow> other_call rt ow opc f d d'"
| "WaitForFences rt opc d fences wait_all timeout w = ((res, d'), w') \<Longrightarrow> f \<notin> set fences \<Longrightarrow> other_call rt ow opc f d d'"
| "CreateSemaphore rt opc d info w = ((res, sem, d'), w') \<Longrightarrow> other_call rt ow opc f d d'"
| "DestroySemaphore ow opc d s w = (d', w') \<Longrightarrow> other_call rt ow opc f d d'"
| "GetSemaphoreCounterValue rt opc d s w = ((res, v, d'), w') \<Longrightarrow> other_call rt ow opc f d d'"
| "WaitSemaphores rt opc d flags pairs timeout w = ((res, d'), w') \<Longrightarrow> other_call rt ow opc f d d'"
| "SignalSemaphore rt opc d s value w = ((res, d'), w') \<Longrightarrow> other_call rt ow opc f d d'"
| "other_call rt ow opc f d (d\<lparr>tracked := t\<rparr>)"

lemma keeps_device_idle: "DeviceWaitIdle rt opc d w = ((res, d'), w') \<Longrightarrow> res \<noteq> VK_SUCCESS \<Longrightarrow> keeps_fence f d d'"
  by (auto simp: DeviceWaitIdle_def Let_def split: bool.splits prod.splits option.splits if_splits dest: keeps_transfers(2))

lemma keeps_destroys:
  "DestroyFence ow opc d fence w = (d', w') \<Longrightarrow> f \<noteq> fence \<Longrightarrow> keeps_fence f d d'" "DestroySemaphore ow opc d s w = (d', w') \<Longrightarrow> keeps_fence f d d'"
  by (auto simp: DestroyFence_def DestroySemaphore_def keeps_fence_def delete_conv' split: if_splits)

lemma keeps_reset: "ResetFences rt opc d fences w = ((res, d'), w') \<Longrightarrow> f \<notin> set fences \<Longrightarrow> keeps_fence f d d'"
  by (auto simp: ResetFences_def Let_def split: prod.splits option.splits if_splits intro: keeps_erase)

lemma keeps_create_semaphore: "CreateSemaphore rt opc d info w = ((res, sem, d'), w') \<Longrightarrow> keeps_fence f d d'"
  by (auto simp: CreateSemaphore_def Let_def split: prod.splits option.splits if_splits intro: keeps_same)

lemma keeps_wait_semaphores: "WaitSemaphores rt opc d flags pairs timeout w = ((res, d'), w') \<Longrightarrow> keeps_fence f d d'"
  by (auto simp: WaitSemaphores_def Let_def split: prod.splits option.splits if_splits dest: keeps_waited)

lemma keeps_signal_semaphore:
  assumes "SignalSemaphore rt opc d s value w = ((res, d'), w')"
  shows "keeps_fence f d d'"
proof -
  obtain ok d1 w1 where p: "publish rt d w = ((ok, d1), w1)" by (metis surj_pair)
  from assms p have "fence_writes d' = fence_writes d1"
    by (auto simp: SignalSemaphore_def Let_def split: bool.splits prod.splits option.splits if_splits)
  with keeps_transfers(1) [OF p] show ?thesis by (simp add: keeps_fence_def)
qed

lemma other_call_keeps: "other_call rt ow opc f d d' \<Longrightarrow> keeps_fence f d d'"
  by (induction rule: other_call.induct)
    ((erule keeps_submits keeps_bind_sparse keeps_plan keeps_queue_idle keeps_device_idle keeps_destroys keeps_reset
      keeps_fence_status keeps_wait_fences keeps_create_semaphore keeps_counter keeps_wait_semaphores keeps_signal_semaphore; assumption)
     | (rule keeps_commit, assumption) | simp add: keeps_same)+

lemma other_calls_keep: "(other_call rt ow opc f)\<^sup>*\<^sup>* d d' \<Longrightarrow> keeps_fence f d d'"
  by (induction rule: rtranclp_induct) (auto intro: keeps_trans other_call_keeps)

lemma keeps_memory: "keeps_fence f d d' \<Longrightarrow> set (fence_memory d f) \<subseteq> set (fence_memory d' f)"
  by (force simp: keeps_fence_def fence_memory_def split: option.splits)

subsection \<open>A wait fetches what the fence has\<close>

lemma acquired_all:
  assumes "acquire_coherent_mapped rt dev (Some xs) ms w = ((True, ms'), w')" "mr \<in> set ms"
    "mr_emulated_coherent mr" "mr_transfer_ready mr" "mr_memory_id mr \<in> set xs"
  shows "\<exists>wa wb mr'. acquire_mapping rt dev mr 0 wa = ((True, mr'), wb) \<and> mr' \<in> set ms'"
  using assms
proof (induction ms arbitrary: ms' w)
  case (Cons m ms)
  show ?case
  proof (cases "mr = m")
    case True
    with Cons.prems show ?thesis by (fastforce split: bool.splits prod.splits)
  next
    case False
    obtain ok m1 w1 where a: "acquire_mapping rt dev m 0 w = ((ok, m1), w1)" by (metis surj_pair)
    from Cons.prems(1) a obtain m2 ms2 w2 where "ms' = m2 # ms2" "acquire_coherent_mapped rt dev (Some xs) ms w2 = ((True, ms2), w')"
      by (auto split: bool.splits prod.splits if_splits)
    with Cons.IH [of w2 ms2] Cons.prems False show ?thesis by auto
  qed
qed simp

lemma all_completed: "completed_fences rt opc dev True fs w = (out, w') \<Longrightarrow> out = Inr fs \<and> w' = w"
  by (induction fs arbitrary: out) (auto split: prod.splits sum.splits)

lemma wait_fetches:
  assumes "WaitForFences rt opc d fences True timeout w = ((VK_SUCCESS, d'), w')" "f \<in> set fences" "m \<in> set (fence_memory d f)"
    "mr \<in> set (mapped (base (tracked d)))" "mr_memory_id mr = m" "mr_emulated_coherent mr" "mr_transfer_ready mr"
  shows "\<exists>wa wb mr'. acquire_mapping rt (device_id d) mr 0 wa = ((True, mr'), wb) \<and> mr' \<in> set (mapped (base (tracked d')))"
proof -
  from wait_fences_cases [OF assms(1)] obtain xs w1 w2 d1 where c: "completed_fences rt opc (device_id d) True fences w1 = (Inr xs, w2)"
      and a: "acquire rt (Some (fences_memory d xs)) d w2 = ((True, d1), w')" "d' = erase_fences xs d1"
    by auto
  from all_completed [OF c] assms(2,3) have "m \<in> set (fences_memory d xs)" by (auto simp: fences_memory_def)
  moreover from a obtain ms where "acquire_coherent_mapped rt (device_id d) (Some (fences_memory d xs)) (mapped (base (tracked d))) w2 = ((True, ms), w')"
      "mapped (base (tracked d')) = ms"
    by (auto simp: acquire_def set_mapped_def erase_fences_def split: prod.splits)
  ultimately show ?thesis using acquired_all assms(4-7) by metis
qed

text \<open>
  C25. What a submission makes visible to the host is fetched by the wait for its fence: if a submission with a fence succeeds, then
  whatever other calls are made, on this queue or on others, a later successful wait for the fence brings the shadow of every
  coherent mapping of a memory among the command buffers' host-visible writes up to date from the server.
\<close>

theorem submitted_write_acquired:
  assumes "QueueSubmit rt opc d q submits fence w = ((VK_SUCCESS, d1), w1)" "fence \<noteq> VK_NULL_HANDLE"
    "s \<in> set submits" "h \<in> set (si_buffers s)" "map_of (command_buffers (tracked d)) h = Some cb" "m \<in> set (host_visible_writes cb)"
    "(other_call rt ow opc fence)\<^sup>*\<^sup>* d1 d2"
    "WaitForFences rt opc d2 fences True timeout w2 = ((VK_SUCCESS, d3), w3)" "fence \<in> set fences"
    "mr \<in> set (mapped (base (tracked d2)))" "mr_memory_id mr = m" "mr_emulated_coherent mr" "mr_transfer_ready mr"
  shows "\<exists>wa wb mr'. acquire_mapping rt (device_id d2) mr 0 wa = ((True, mr'), wb) \<and> mr' \<in> set (mapped (base (tracked d3)))"
proof -
  from assms(1) obtain request where "submit_call rt (opc ''vkQueueSubmit'') d q request (map submission submits) fence w = ((VK_SUCCESS, d1), w1)"
    by (auto simp: QueueSubmit_def split: if_splits option.splits)
  from submit_call_fence [OF this assms(2)] assms(3,4) have "set (buffer_writes (tracked d) h) \<subseteq> set (fence_memory d1 fence)"
    by (auto simp: submission_def split: prod.splits)
  with assms(5,6) have "m \<in> set (fence_memory d1 fence)" by (auto simp: buffer_writes_def)
  with keeps_memory [OF other_calls_keep [OF assms(7)]] have "m \<in> set (fence_memory d2 fence)" by blast
  from wait_fetches [OF assms(8,9) this assms(10-13)] show ?thesis .
qed


subsection \<open>Examples\<close>

text \<open>A server that accepts everything and answers a download with one byte.\<close>

definition example_rt :: "unit round_trip" where
  "example_rt code request w = (Some (le_bytes 4 (0 :: u32) @ le_bytes 4 (0 :: u32)
     @ (if code = kOpDownloadMappedMemory then blob [42] else le_bytes 4 (0 :: u32))), w)"

definition example_opc :: "string \<Rightarrow> u32" where
  "example_opc name = 100"

definition example_mapping :: MappedRange where
  "example_mapping = \<lparr>mr_memory_id = 7, mr_offset = 0, mr_size = 1, mr_shadow = [5], mr_emulated_coherent = True, mr_transfer_ready = True,
     mr_baseline = [5]\<rparr>"

definition example_device :: "(u64 \<times> RemoteCommandBuffer) list \<Rightarrow> (u64 \<times> SemaphoreProvenance) list \<Rightarrow> MappedRange list \<Rightarrow> SyncDevice" where
  "example_device cbs sems ms = \<lparr>tracked = record_device\<lparr>command_buffers := cbs, base := (base record_device)\<lparr>mapped := ms\<rparr>\<rparr>,
     semaphores = sems, next_submission_serial = 1, queue_writes = [], fence_writes = []\<rparr>"

definition example_buffer :: RemoteCommandBuffer where
  "example_buffer = (new_command_buffer 3 2)\<lparr>host_visible_writes := [7]\<rparr>"

definition example_submit :: VkSubmitInfo where
  "example_submit = \<lparr>si_type = 4, si_next = VNum 0, si_waits = [], si_buffers = [50], si_signals = []\<rparr>"

definition example_start :: SyncDevice where
  "example_start = example_device [(50, example_buffer)] [] [example_mapping]"

definition example_submitted :: SyncDevice where
  "example_submitted = example_start\<lparr>next_submission_serial := 2, queue_writes := [(11, [7])],
     fence_writes := [(9, \<lparr>pc_queue_id = 11, pc_submission_serial = 1, pc_memory_ids = [7]\<rparr>)]\<rparr>"

lemma example_publish: "publish example_rt example_start () = ((True, example_start), ())"
  by (simp add: publish_def example_start_def example_device_def example_mapping_def record_device_def set_mapped_def
      publish_mapping.simps scan.simps same_at_def)

lemma example_payload: "code \<noteq> kOpDownloadMappedMemory \<Longrightarrow> example_rt code request w =
    (Some (le_bytes 4 (0 :: u32) @ le_bytes 4 (0 :: u32) @ le_bytes 4 (0 :: u32)), w)"
  by (simp add: example_rt_def)

lemma example_opc_other: "example_opc n \<noteq> kOpDownloadMappedMemory"
  by (simp add: example_opc_def kOpDownloadMappedMemory_def)

lemma payload_at: "payload_reader (le_bytes 4 (s :: u32) @ b) = Reader_at (le_bytes 4 s) b"
  by (simp add: payload_reader_def reader_simps)

lemma example_submitted_eq:
  "QueueSubmit example_rt example_opc example_start 11 [example_submit] 9 () = ((VK_SUCCESS, example_submitted), ())"
proof -
  have c: "w_chain Submit (VNum 0) = Some (le_bytes 4 (0 :: u32))"
    by (simp add: w_chain_def chain_of_def write_pnext_chain_def wire_simps w_append_def)
  have p: "submit_plan example_start 11 [submission example_submit] =
      (\<lparr>pl_writes = [7], pl_consumed = [], pl_waits = [], pl_signals = []\<rparr>, example_start\<lparr>next_submission_serial := 2\<rparr>)"
    by (simp add: submit_plan_def plan_submission_def submission_def example_submit_def timeline_values_def chain_of_def with_values_def
        example_start_def example_device_def example_buffer_def buffer_writes_def new_command_buffer_def insert_all_def writes_of_queue_def)
  have s: "submit_args example_start example_submit \<noteq> None" by (simp add: submit_args_def example_submit_def c)
  have v: "submit_valid example_submit" by (simp add: submit_valid_def example_submit_def kMaxArrayElements_nat)
  have q: "submit_commit 11 \<lparr>pl_writes = [7], pl_consumed = [], pl_waits = [], pl_signals = []\<rparr> 9 (last_serial example_start [submission example_submit])
      (example_start\<lparr>next_submission_serial := 2\<rparr>) = example_submitted"
    by (simp add: submit_commit_def last_serial_def example_submitted_def example_start_def example_device_def)
  from s obtain as where "submit_args example_start example_submit = Some as" by blast
  then show ?thesis
    by (simp add: QueueSubmit_def v kMaxArrayElements_nat submit_call_def p q example_publish example_payload [OF example_opc_other] payload_at reader_simps)
qed


lemma example_download: "download_once example_rt dev 7 0 1 () = ((VK_SUCCESS, [42]), ())"
  by (simp add: download_once_def read_result_def example_rt_def reader_simps status_code_def)

lemma example_acquired:
  "acquire_mapping example_rt dev example_mapping 0 () = ((True, example_mapping\<lparr>mr_shadow := [42], mr_baseline := [42]\<rparr>), ())"
  by (simp add: example_mapping_def acquire_mapping.simps example_download coherent_chunk_def client_kMaxMappedChunk_def merge_chunk_def
      merge_byte_def blit_def)

lemma example_waited:
  "WaitForFences example_rt example_opc example_submitted [9] True 0 () =
     ((VK_SUCCESS, erase_fences [9] (set_mapped [example_mapping\<lparr>mr_shadow := [42], mr_baseline := [42]\<rparr>] example_submitted)), ())"
proof -
  have "fences_valid [9 :: u64]" by (simp add: fences_valid_def kMaxArrayElements_nat)
  moreover have "acquire example_rt (Some (fences_memory example_submitted [9])) example_submitted () =
      ((True, set_mapped [example_mapping\<lparr>mr_shadow := [42], mr_baseline := [42]\<rparr>] example_submitted), ())"
  proof -
    have m: "mapped (base (tracked example_submitted)) = [example_mapping]"
      by (simp add: example_submitted_def example_start_def example_device_def)
    have f: "fences_memory example_submitted [9] = [7]"
      by (simp add: fences_memory_def fence_memory_def example_submitted_def insert_all_def)
    have e: "mr_emulated_coherent example_mapping" "mr_transfer_ready example_mapping" "mr_memory_id example_mapping = 7"
      by (simp_all add: example_mapping_def)
    show ?thesis unfolding acquire_def m f by (simp add: e example_acquired)
  qed
  ultimately show ?thesis
    by (simp add: WaitForFences_def example_payload [OF example_opc_other] payload_at reader_simps)
qed

theorem submitted_write_acquired_witness:
  "\<exists>wa wb mr'. acquire_mapping example_rt (device_id example_submitted) example_mapping 0 wa = ((True, mr'), wb) \<and>
     mr' \<in> set (mapped (base (tracked (erase_fences [9] (set_mapped [example_mapping\<lparr>mr_shadow := [42], mr_baseline := [42]\<rparr>] example_submitted)))))"
proof (rule submitted_write_acquired [OF example_submitted_eq])
  show "example_submit \<in> set [example_submit]" by simp
  show "50 \<in> set (si_buffers example_submit)" by (simp add: example_submit_def)
  show "map_of (command_buffers (tracked example_start)) 50 = Some example_buffer" by (simp add: example_start_def example_device_def)
  show "7 \<in> set (host_visible_writes example_buffer)" by (simp add: example_buffer_def)
  show "(other_call example_rt (\<lambda>code b w. w) example_opc 9)\<^sup>*\<^sup>* example_submitted example_submitted" by simp
  show "WaitForFences example_rt example_opc example_submitted [9] True 0 () =
     ((VK_SUCCESS, erase_fences [9] (set_mapped [example_mapping\<lparr>mr_shadow := [42], mr_baseline := [42]\<rparr>] example_submitted)), ())"
    by (rule example_waited)
qed (simp_all add: example_submitted_def example_start_def example_device_def example_mapping_def)


subsection \<open>Two ways to lose a write\<close>

definition submit_tracking :: "SyncDevice \<Rightarrow> u64 \<Rightarrow> Submission list \<Rightarrow> u64 \<Rightarrow> SyncDevice" where
  "submit_tracking d q ss fence = (case submit_plan d q ss of (p, d1) \<Rightarrow> submit_commit q p fence (last_serial d ss) d1)"

definition only_waits :: "u64 \<Rightarrow> u64 \<Rightarrow> (u64 \<times> u64 option) list \<Rightarrow> Submission" where
  "only_waits sem v signals = \<lparr>sb_waits = [(sem, Some v, 0)], sb_buffers = [], sb_signals = signals\<rparr>"

definition only_writes :: "(u64 \<times> u64 option) list \<Rightarrow> Submission" where
  "only_writes signals = \<lparr>sb_waits = [], sb_buffers = [50], sb_signals = signals\<rparr>"

definition two_timelines :: SyncDevice where
  "two_timelines = example_device [(50, example_buffer)]
     [(1, new_semaphore\<lparr>sp_timeline := True\<rparr>), (2, new_semaphore\<lparr>sp_timeline := True\<rparr>)] []"

text \<open>
  Queue 22 waits for semaphore 1 before it is signalled, and signals semaphore 2; queue 33 waits for semaphore 2 and has
  fence 9; then queue 11 writes memory 7 and signals semaphore 1. The write reaches queue 22 and semaphore 2, but not the
  fence, whose submission runs after it on the device.
\<close>

definition chained :: SyncDevice where
  "chained = submit_tracking (submit_tracking (submit_tracking two_timelines 22 [only_waits 1 1 [(2, Some 1)]] 0)
     33 [only_waits 2 1 []] 9) 11 [only_writes [(1, Some 1)]] 0"

theorem chained_wait_loses_write:
  "writes_of_queue chained 22 = [7] \<and> map tw_memory_ids (timeline_writes (semaphore_of chained 2)) = [[7]] \<and>
     fence_memory chained 9 = [] \<and> writes_of_queue chained 33 = []"
  by code_simp

text \<open>
  Queue 11 waits for semaphore 1. Another call on it is planned; before it is committed a call on queue 22 writes memory 7 and
  signals the semaphore, which adds the write to queue 11. The commit puts back what was planned. When the calls do not
  overlap the write stays, and reaches the fence.
\<close>

definition waiting :: SyncDevice where
  "waiting = submit_tracking two_timelines 11 [only_waits 1 1 []] 0"

definition overlapping :: SyncDevice where
  "overlapping = (case submit_plan waiting 11 [] of (p, d1) \<Rightarrow>
     submit_commit 11 p 9 (last_serial waiting []) (submit_tracking d1 22 [only_writes [(1, Some 1)]] 0))"

definition in_turn :: SyncDevice where
  "in_turn = submit_tracking (submit_tracking waiting 22 [only_writes [(1, Some 1)]] 0) 11 [] 9"

theorem overlapping_submit_loses_write:
  "writes_of_queue overlapping 11 = [] \<and> fence_memory overlapping 9 = [] \<and> writes_of_queue in_turn 11 = [7] \<and> fence_memory in_turn 9 = [7]"
  by code_simp

end
