(* ===== verification/ServerMarshal.thy ===== *)
theory ServerMarshal
  imports Registry CreateInfo
begin

section \<open>The server with its own readers\<close>

text \<open>
  The handlers take the readers of marshal.cpp as the parameter \<open>read_struct\<close>. \<open>marshal_read\<close> is that parameter
  as the program has it: the reader of a structure by its name, with the session's tables as the handle resolver
  (server/objects.hpp).
\<close>

definition marshal_chain :: "PNextContext \<Rightarrow> ObjectTables \<Rightarrow> Reader \<Rightarrow> vk option \<times> Reader" where
  "marshal_chain c t r = r_chain (resolve t) c r"

definition marshal_read :: "string \<Rightarrow> ObjectTables \<Rightarrow> Reader \<Rightarrow> vk option \<times> Reader" where
  "marshal_read name t r =
     (case map_of (map (\<lambda>(n, S). (''read_'' @ n, S)) create_infos) name of
        Some S \<Rightarrow> read_struct_raw S (resolve t) r
      | None \<Rightarrow>
          if name = ''read_ShaderModuleCreateInfo'' then read_ShaderModuleCreateInfo (resolve t) r
          else if name = ''read_WriteDescriptorSet'' then read_WriteDescriptorSet (resolve t) r
          else if name = ''read_ComputePipelineCreateInfo'' then read_ComputePipelineCreateInfo (resolve t) r
          else if name = ''read_pnext_chain/Submit'' then marshal_chain Submit t r
          else if name = ''read_pnext_chain/BindImageMemory2'' then marshal_chain BindImageMemory2 t r
          else if name = ''read_pnext_chain/MemoryRequirements2'' then marshal_chain MemoryRequirements2 t r
          else if name = ''read_pnext_output_topology/MemoryRequirements2''
          then (case read_pnext_output_topology MemoryRequirements2 r of (nodes, r1) \<Rightarrow> (map_option chain_vk nodes, r1))
          else (None, r))"

definition with_marshal :: "Server \<Rightarrow> Server" where
  "with_marshal srv = srv\<lparr>read_struct := marshal_read\<rparr>"

lemma marshal_read_table:
  assumes "map_of create_infos n = Some S"
  shows "marshal_read (''read_'' @ n) t r = read_struct_raw S (resolve t) r"
proof -
  have "map_of (map (\<lambda>(n, S). (''read_'' @ n, S)) xs) (''read_'' @ n) = map_of xs n" for xs :: "(string \<times> raw_struct) list"
    by (induction xs) auto
  then show ?thesis using assms by (simp add: marshal_read_def)
qed

lemma read_struct_with_marshal [simp]: "read_struct (with_marshal srv) = marshal_read" "native (with_marshal srv) = native srv"
  by (simp_all add: with_marshal_def)

lemma server_create_log:
  assumes "\<not> replied s"
  shows "native_log (exec (server_create srv read_fn create_fn k) s) = native_log s \<or>
   (\<exists>d info r. d \<noteq> VK_NULL_HANDLE \<and> (\<exists>i. d = resolve (s_tables s) Devices i) \<and>
     fst (read_struct srv read_fn (s_tables s) r) = Some info \<and>
     native_log (exec (server_create srv read_fn create_fn k) s) = native_log s @ [NativeCall create_fn [VNum d, info]])"
  using assms by (auto simp: server_create_def run_simps reply_status_def split: option.splits)

lemma decoded_list: "fst (read_struct_raw S hr r) = Some info \<Longrightarrow> \<exists>vs. info = VList vs \<and> read_struct_raw S hr r = (Some (VList vs), snd (read_struct_raw S hr r))"
  by (auto simp: read_struct_raw_def split: prod.splits)


text \<open>
  C40. The create handlers pass a pointer of the peer's choice to the driver: for every \<open>x\<close> there is a well-formed
  fence request on which \<open>vkCreateFence\<close> is called with \<open>pNext = x\<close>.
\<close>

theorem create_fence_peer_pointer:
  assumes "resolve (s_tables s) Devices dev_id = d" "d \<noteq> VK_NULL_HANDLE" "\<not> replied s"
    "reader s = Reader_at pre (le_bytes 8 dev_id @ fence_message x)"
  shows "native_log (exec (handle_CreateFence (with_marshal srv)) s) =
     native_log s @ [NativeCall ''vkCreateFence'' [VNum d, VList [VNum 8, VNum x, VNum 1]]]"
proof -
  have "map_of create_infos ''FenceCreateInfo'' = Some FenceCreateInfo" by (simp add: create_infos_def)
  from marshal_read_table [OF this] have "marshal_read ''read_FenceCreateInfo'' t (Reader_at pre' (fence_message x)) =
      (Some (VList [VNum 8, VNum x, VNum 1]), Reader_at (pre' @ fence_message x) [])" for t pre'
    using fence_read [of "resolve t" pre' x "[]"] by simp
  with assms show ?thesis by (simp add: handle_CreateFence_def server_create_def run_simps reader_simps)
qed

theorem create_fence_peer_pointer_witness:
  "native_log (exec (handle_CreateFence (with_marshal example_server)) (example_session (le_bytes 8 (1 :: u64) @ fence_message 57005))) =
     [NativeCall ''vkCreateFence'' [VNum 9, VList [VNum 8, VNum 57005, VNum 1]]]"
  using create_fence_peer_pointer [of "example_session (le_bytes 8 (1 :: u64) @ fence_message 57005)" 1 9 "[]" 57005 example_server]
  by (simp add: example_session_def resolve_def tbl_get_def)


end
