(* ===== verification/CommandLink.thy ===== *)
theory CommandLink
  imports ClientRecord ServerMarshal
begin

section \<open>A recorded command on its way to the driver\<close>

text \<open>
  The client's entry points of \<open>ClientRecord\<close> put together with the handlers of \<open>HandlersCommand\<close>: what the application recorded
  is what the driver is called with, every handle replaced by the one the session's tables hold for it.
\<close>

subsection \<open>Arguments\<close>

fun enc_arg :: "carg \<Rightarrow> bytes" where
  "enc_arg (CH i) = le_bytes 8 i" | "enc_arg (CW v) = le_bytes 4 v" | "enc_arg (CI v) = le_bytes 4 v" | "enc_arg (CL v) = le_bytes 8 v"
| "enc_arg (CF v) = le_bytes 4 v" | "enc_arg (CB b) = blob b" | "enc_arg (CS b) = b"

lemma w_arg_enc: "w_arg c w = w @ enc_arg c"
  by (cases c) (simp_all add: wire_simps)

lemma w_args_simps [simp]: "w_args [] = []" "w_args (c # cs) = enc_arg c @ w_args cs" "w_args (as @ bs) = w_args as @ w_args bs"
proof -
  have *: "fold w_arg cs w = w @ concat (map enc_arg cs)" for cs w
    by (induction cs arbitrary: w) (simp_all add: w_arg_enc)
  show "w_args [] = []" "w_args (c # cs) = enc_arg c @ w_args cs" "w_args (as @ bs) = w_args as @ w_args bs"
    by (simp_all only: w_args_def * append_Nil concat.simps list.map map_append concat_append)
qed

text \<open>What a handler makes of an argument.\<close>

fun arg_value :: "ObjectTables \<Rightarrow> arg \<Rightarrow> carg \<Rightarrow> vk option" where
  "arg_value t AU32 (CW v) = Some (VNum (ucast v))"
| "arg_value t AI32 (CI v) = Some (VNum (ucast v))"
| "arg_value t AF32 (CF v) = Some (VNum (ucast v))"
| "arg_value t AU64 (CL v) = Some (VNum v)"
| "arg_value t (AObj k) (CH i) = Some (VNum (resolve t k i))"
| "arg_value t (ALive k) (CH i) = (if resolve t k i = VK_NULL_HANDLE then None else Some (VNum (resolve t k i)))"
| "arg_value t a c = None"

fun args_value :: "ObjectTables \<Rightarrow> arg list \<Rightarrow> carg list \<Rightarrow> vk list option" where
  "args_value t [] [] = Some []"
| "args_value t (a # as) (c # cs) = Option.bind (arg_value t a c) (\<lambda>v. map_option ((#) v) (args_value t as cs))"
| "args_value t as cs = None"

lemma r_f32_at: "r_f32 (Reader_at pre (le_bytes 4 v @ rest)) = (v, Reader_at (pre @ le_bytes 4 v) rest)"
  using reader_at_steps(1) [of pre v rest] by (simp add: r_f32_def r_u32_def)

lemma rd_arg_sent:
  assumes "arg_value t a c = Some v"
  shows "run_state (rd_arg a) (s\<lparr>reader := Reader_at pre (enc_arg c @ rest), s_tables := t\<rparr>) =
     ((v, True), s\<lparr>reader := Reader_at (pre @ enc_arg c) rest, s_tables := t\<rparr>)"
  using assms by (cases "(t, a, c)" rule: arg_value.cases)
    (auto simp: rd_arg_def run_simps reader_simps r_f32_at split: if_splits)

lemma rd_args_sent:
  assumes "args_value t as cs = Some vs"
  shows "run_state (rd_args as) (s\<lparr>reader := Reader_at pre (w_args cs @ rest), s_tables := t\<rparr>) =
     ((vs, True), s\<lparr>reader := Reader_at (pre @ w_args cs) rest, s_tables := t\<rparr>)"
  using assms
proof (induction t "as" cs arbitrary: vs pre rule: args_value.induct)
  case (2 t a "as" c cs)
  then obtain v vs' where v: "arg_value t a c = Some v" "args_value t as cs = Some vs'" "vs = v # vs'"
    by (auto simp: bind_eq_Some_conv)
  from "2.IH" [OF v(1,2)] show ?case by (simp add: run_simps rd_arg_sent [OF v(1)] v(3))
qed (simp_all add: run_simps)

lemma session_at: "s_tables s = t \<Longrightarrow> reader s = r \<Longrightarrow> s = s\<lparr>reader := r, s_tables := t\<rparr>"
  by (simp add: Session.defs)

subsection \<open>The shapes of the handlers\<close>

text \<open>A handler that turns a message into one call of the driver, and counts no error.\<close>

definition performs :: "ObjectTables \<Rightarrow> bytes \<Rightarrow> unit handler \<Rightarrow> native_call \<Rightarrow> bool" where
  "performs t b m c \<longleftrightarrow> (\<forall>s. s_tables s = t \<and> reader s = Reader_at [] b \<longrightarrow>
     native_log (exec m s) = native_log s @ [c] \<and> oneway_errors (exec m s) = oneway_errors s)"

lemma performsI:
  assumes "\<And>s. native_log (exec m (s\<lparr>reader := Reader_at [] b, s_tables := t\<rparr>)) = native_log s @ [c] \<and>
     oneway_errors (exec m (s\<lparr>reader := Reader_at [] b, s_tables := t\<rparr>)) = oneway_errors s"
  shows "performs t b m c"
  using assms session_at unfolding performs_def by metis

lemma rd_command_buffer_sent:
  "run_state rd_command_buffer (s\<lparr>reader := Reader_at pre (le_bytes 8 i @ rest), s_tables := t\<rparr>) =
     (resolve t CommandBuffers i, s\<lparr>reader := Reader_at (pre @ le_bytes 8 i) rest, s_tables := t\<rparr>)"
  by (simp add: rd_command_buffer_def run_simps reader_simps)

lemmas sent_simps = rd_command_buffer_sent rd_args_sent [where rest = "[]", simplified] run_simps reader_simps

lemma plain_performs:
  assumes "args_value t as cs = Some vs" "resolve t CommandBuffers i \<noteq> VK_NULL_HANDLE"
  shows "performs t (w_args (CH i # cs)) (cmd_plain srv name as) (NativeCall name (VNum (resolve t CommandBuffers i) # vs))"
  by (rule performsI) (simp add: assms cmd_plain_def native_unit_def sent_simps)

lemma ext_performs:
  assumes "args_value t as cs = Some vs" "resolve t CommandBuffers i \<noteq> VK_NULL_HANDLE"
    "map_of (command_buffer_devices t) (resolve t CommandBuffers i) = Some d" "proc_addr srv d name"
  shows "performs t (w_args (CH i # cs)) (cmd_ext srv name as) (NativeCall name (VNum (resolve t CommandBuffers i) # vs))"
  by (rule performsI) (simp add: assms cmd_ext_def native_unit_def sent_simps)

lemma indirect_count_performs:
  assumes "args_value t [ALive Buffers, AU64, ALive Buffers, AU64, AU32, AU32] cs = Some vs" "resolve t CommandBuffers i \<noteq> VK_NULL_HANDLE"
    "map_of (command_buffer_devices t) (resolve t CommandBuffers i) = Some d" "proc_addr srv d name"
  shows "performs t (w_args (CH i # cs)) (cmd_indirect_count srv name) (NativeCall name (VNum (resolve t CommandBuffers i) # vs))"
  by (rule performsI) (simp add: assms cmd_indirect_count_def cmd_looked_up_def device_of_command_buffer_def native_unit_def sent_simps
      del: rd_args.simps)

text \<open>A counted array of structures.\<close>

interpretation structs: piece_codec "write_struct_raw S" "read_struct_raw S hr" "view_struct_raw S hr"
  by unfold_locales (rule struct_raw_roundtrip)

lemma w_args_map: "w_args (map CS bs) = concat bs"
  by (induction bs) simp_all

lemma structs_least:
  "those (map (write_struct_raw S) vs) = Some bs \<Longrightarrow> least_parts (snd S) * length vs \<le> length (concat bs)"
proof (induction vs arbitrary: bs)
  case (Cons v vs)
  then obtain b bs' where b: "write_struct_raw S v = Some b" "those (map (write_struct_raw S) vs) = Some bs'" "bs = b # bs'"
    by (auto split: option.splits)
  from b(1) have "least_parts (snd S) \<le> length b" by (auto simp: write_struct_raw_def bind_eq_Some_conv dest: parts_least)
  with Cons.IH [OF b(2)] b(3) show ?case by simp
qed simp

lemma row_count: "n < 2 ^ 32 \<Longrightarrow> unat (of_nat n :: u32) = n"
  by (simp add: unat_of_nat take_bit_nat_eq_self)

lemma reader_of_table: "map_of create_infos n = Some S \<Longrightarrow> read_struct (with_marshal srv) (''read_'' @ n) t = read_struct_raw S (resolve t)"
  by (rule ext) (simp only: read_struct_with_marshal marshal_read_table)

lemma rd_regions_sent:
  assumes "those (map (write_struct_raw S) vs) = Some bs" "those (map (view_struct_raw S (resolve (s_tables s))) vs) = Some vs'" "length vs < 2 ^ 32"
    "read_struct srv f (s_tables s) = read_struct_raw S (resolve (s_tables s))" "reader s = Reader_at pre (concat bs @ rest)"
  shows "run_state (rd_regions srv f (of_nat (length vs))) s = (Some vs', s\<lparr>reader := Reader_at (pre @ concat bs) rest\<rparr>)"
  using structs.read_each_at [OF assms(1,2), of pre rest] assms(4,5)
  by (simp add: rd_regions_def run_simps reader_simps row_count [OF assms(3)])

lemma regions_fit:
  assumes "those (map (write_struct_raw S) vs) = Some bs" "4 \<le> least_parts (snd S)" "length vs < 2 ^ 32"
  shows "count_fits (Reader_at pre (concat bs @ rest)) (of_nat (length vs)) 4"
proof -
  have "4 * length vs \<le> least_parts (snd S) * length vs" using assms(2) by (rule mult_right_mono) simp
  also have "\<dots> \<le> length (concat bs @ rest)" using structs_least [OF assms(1)] by simp
  finally have "length vs \<le> length (concat bs @ rest) div 4" by simp
  then show ?thesis by (simp add: count_fits_def row_count [OF assms(3)] reader_simps del: length_append)
qed

lemma regions_performs:
  assumes "args_value t as cs = Some vs" "resolve t CommandBuffers i \<noteq> VK_NULL_HANDLE" "read_struct srv f t = read_struct_raw S (resolve t)"
    "those (map (write_struct_raw S) rows) = Some bs" "those (map (view_struct_raw S (resolve t)) rows) = Some rows'"
    "length rows < 2 ^ 32" "4 \<le> least_parts (snd S)" "nonzero \<Longrightarrow> rows \<noteq> []"
  shows "performs t (w_args (CH i # cs @ CW (of_nat (length rows)) # map CS bs)) (cmd_regions srv name as nonzero f)
     (NativeCall name (VNum (resolve t CommandBuffers i) # vs @ [VList rows']))"
proof (rule performsI)
  fix s :: Session
  have "nonzero \<Longrightarrow> (of_nat (length rows) :: u32) \<noteq> 0"
    using assms(8) row_count [OF assms(6)] by (metis length_0_conv unat_0)
  then show "native_log (exec (cmd_regions srv name as nonzero f)
        (s\<lparr>reader := Reader_at [] (w_args (CH i # cs @ CW (of_nat (length rows)) # map CS bs)), s_tables := t\<rparr>)) =
      native_log s @ [NativeCall name (VNum (resolve t CommandBuffers i) # vs @ [VList rows'])] \<and>
     oneway_errors (exec (cmd_regions srv name as nonzero f)
        (s\<lparr>reader := Reader_at [] (w_args (CH i # cs @ CW (of_nat (length rows)) # map CS bs)), s_tables := t\<rparr>)) = oneway_errors s"
    using assms(2,3,5) by (simp add: cmd_regions_def native_unit_def rd_command_buffer_sent rd_args_sent [OF assms(1)] run_simps reader_simps w_args_map
      rd_regions_sent [OF assms(4) _ assms(6), where rest = "[]", simplified] regions_fit [OF assms(4,7,6), where rest = "[]", simplified])
qed

lemma rd_barriers_sent:
  assumes "those (map (write_struct_raw S) vs) = Some bs" "those (map (view_struct_raw S (resolve (s_tables s))) vs) = Some vs'" "length vs < 2 ^ 32"
    "4 \<le> least_parts (snd S)" "read_struct srv f (s_tables s) = read_struct_raw S (resolve (s_tables s))"
    "reader s = Reader_at pre (le_bytes 4 (of_nat (length vs) :: u32) @ concat bs @ rest)"
  shows "run_state (rd_barriers srv f) s = (Some vs', s\<lparr>reader := Reader_at (pre @ le_bytes 4 (of_nat (length vs) :: u32) @ concat bs) rest\<rparr>)"
  using structs.read_each_at [OF assms(1,2)] assms(5,6) regions_fit [OF assms(1,4,3)]
  by (simp add: rd_barriers_def run_simps reader_simps row_count [OF assms(3)])

subsection \<open>Which call of the driver a recorded command is\<close>

definition arrives :: "raw_struct \<Rightarrow> ObjectTables \<Rightarrow> vk list \<Rightarrow> vk list \<Rightarrow> bool" where
  "arrives S t rows rows' \<longleftrightarrow> those (map (write_struct_raw S) rows) \<noteq> None \<and> those (map (view_struct_raw S (resolve t)) rows) = Some rows' \<and>
     length rows < 2 ^ 32"

abbreviation num :: "u32 \<Rightarrow> vk" where
  "num v \<equiv> VNum (ucast v)"

abbreviation live :: "ObjectTables \<Rightarrow> table_kind \<Rightarrow> u64 \<Rightarrow> bool" where
  "live t k i \<equiv> resolve t k i \<noteq> VK_NULL_HANDLE"

abbreviation handle :: "ObjectTables \<Rightarrow> table_kind \<Rightarrow> u64 \<Rightarrow> vk" where
  "handle t k i \<equiv> VNum (resolve t k i)"

definition looked_up :: "Server \<Rightarrow> ObjectTables \<Rightarrow> u64 \<Rightarrow> string \<Rightarrow> bool" where
  "looked_up srv t h name \<longleftrightarrow> (case map_of (command_buffer_devices t) h of None \<Rightarrow> False | Some d \<Rightarrow> proc_addr srv d name)"

text \<open>
  \<open>driver_call srv t h f name vs\<close>: the entry point \<open>f\<close> stands for the call of \<open>name\<close> on the command buffer \<open>h\<close> with the
  further arguments \<open>vs\<close>, as the Vulkan command has them. The premises are what the handler demands: live handles, and for some
  commands that the driver has the function.
\<close>

inductive driver_call :: "Server \<Rightarrow> ObjectTables \<Rightarrow> u64 \<Rightarrow> recorder \<Rightarrow> string \<Rightarrow> vk list \<Rightarrow> bool" for srv t h where
  "driver_call srv t h (CmdNextSubpass c) ''vkCmdNextSubpass'' [num c]"
| "driver_call srv t h CmdEndRenderPass ''vkCmdEndRenderPass'' []"
| "driver_call srv t h (CmdBindPipeline p i) ''vkCmdBindPipeline'' [num p, handle t Pipelines i]"
| "driver_call srv t h (CmdDraw a b c e) ''vkCmdDraw'' [num a, num b, num c, num e]"
| "driver_call srv t h (CmdDispatch a b c) ''vkCmdDispatch'' [num a, num b, num c]"
| "driver_call srv t h (CmdDrawIndexed a b c off e) ''vkCmdDrawIndexed'' [num a, num b, num c, num off, num e]"
| "live t Buffers i \<Longrightarrow> driver_call srv t h (CmdDrawIndirect i off n st) ''vkCmdDrawIndirect'' [handle t Buffers i, VNum off, num n, num st]"
| "live t Buffers i \<Longrightarrow>
     driver_call srv t h (CmdDrawIndexedIndirect i off n st) ''vkCmdDrawIndexedIndirect'' [handle t Buffers i, VNum off, num n, num st]"
| "live t Buffers i \<Longrightarrow> driver_call srv t h (CmdDispatchIndirect i off) ''vkCmdDispatchIndirect'' [handle t Buffers i, VNum off]"
| "live t QueryPools i \<Longrightarrow> driver_call srv t h (CmdBeginQuery i q fl) ''vkCmdBeginQuery'' [handle t QueryPools i, num q, num fl]"
| "live t QueryPools i \<Longrightarrow> driver_call srv t h (CmdEndQuery i q) ''vkCmdEndQuery'' [handle t QueryPools i, num q]"
| "live t QueryPools i \<Longrightarrow> driver_call srv t h (CmdResetQueryPool i q n) ''vkCmdResetQueryPool'' [handle t QueryPools i, num q, num n]"
| "live t QueryPools i \<Longrightarrow> driver_call srv t h (CmdWriteTimestamp st i q) ''vkCmdWriteTimestamp'' [num st, handle t QueryPools i, num q]"
| "live t QueryPools i \<Longrightarrow> live t Buffers b \<Longrightarrow> driver_call srv t h (CmdCopyQueryPoolResults d i q n b off st fl) ''vkCmdCopyQueryPoolResults''
     [handle t QueryPools i, num q, num n, handle t Buffers b, VNum off, VNum st, num fl]"
| "live t Events i \<Longrightarrow> driver_call srv t h (CmdSetEvent i st) ''vkCmdSetEvent'' [handle t Events i, num st]"
| "live t Events i \<Longrightarrow> driver_call srv t h (CmdResetEvent i st) ''vkCmdResetEvent'' [handle t Events i, num st]"
| "driver_call srv t h (CmdSetLineWidth a) ''vkCmdSetLineWidth'' [num a]"
| "driver_call srv t h (CmdSetDepthBias a b c) ''vkCmdSetDepthBias'' [num a, num b, num c]"
| "driver_call srv t h (CmdSetBlendConstants (a, b, c, e)) ''vkCmdSetBlendConstants'' [num a, num b, num c, num e]"
| "driver_call srv t h (CmdSetDepthBounds a b) ''vkCmdSetDepthBounds'' [num a, num b]"
| "driver_call srv t h (CmdSetStencilCompareMask a b) ''vkCmdSetStencilCompareMask'' [num a, num b]"
| "driver_call srv t h (CmdSetStencilWriteMask a b) ''vkCmdSetStencilWriteMask'' [num a, num b]"
| "driver_call srv t h (CmdSetStencilReference a b) ''vkCmdSetStencilReference'' [num a, num b]"
| "looked_up srv t h ''vkCmdSetFragmentShadingRateKHR'' \<Longrightarrow>
     driver_call srv t h (CmdSetFragmentShadingRateKHR (a, b) (c, e)) ''vkCmdSetFragmentShadingRateKHR'' [num a, num b, num c, num e]"
| "looked_up srv t h ''vkCmdSetDeviceMask'' \<Longrightarrow> driver_call srv t h (CmdSetDeviceMask a) ''vkCmdSetDeviceMask'' [num a]"
| "looked_up srv t h ''vkCmdDispatchBase'' \<Longrightarrow>
     driver_call srv t h (CmdDispatchBase a b c x y z) ''vkCmdDispatchBase'' [num a, num b, num c, num x, num y, num z]"
| "live t Buffers i \<Longrightarrow> live t Buffers j \<Longrightarrow> looked_up srv t h ''vkCmdDrawIndirectCount'' \<Longrightarrow>
     driver_call srv t h (CmdDrawIndirectCount i off j off2 n st) ''vkCmdDrawIndirectCount''
       [handle t Buffers i, VNum off, handle t Buffers j, VNum off2, num n, num st]"
| "live t Buffers i \<Longrightarrow> live t Buffers j \<Longrightarrow> looked_up srv t h ''vkCmdDrawIndexedIndirectCount'' \<Longrightarrow>
     driver_call srv t h (CmdDrawIndexedIndirectCount i off j off2 n st) ''vkCmdDrawIndexedIndirectCount''
       [handle t Buffers i, VNum off, handle t Buffers j, VNum off2, num n, num st]"
| "arrives Viewport t rows rows' \<Longrightarrow> driver_call srv t h (CmdSetViewport a rows) ''vkCmdSetViewport'' [num a, VList rows']"
| "arrives Rect2D t rows rows' \<Longrightarrow> driver_call srv t h (CmdSetScissor a rows) ''vkCmdSetScissor'' [num a, VList rows']"
| "arrives BufferCopy t rows rows' \<Longrightarrow>
     driver_call srv t h (CmdCopyBuffer d i j rows) ''vkCmdCopyBuffer'' [handle t Buffers i, handle t Buffers j, VList rows']"
| "arrives BufferImageCopy t rows rows' \<Longrightarrow> driver_call srv t h (CmdCopyBufferToImage d i j l rows) ''vkCmdCopyBufferToImage''
     [handle t Buffers i, handle t Images j, num l, VList rows']"
| "arrives BufferImageCopy t rows rows' \<Longrightarrow> driver_call srv t h (CmdCopyImageToBuffer d i l j rows) ''vkCmdCopyImageToBuffer''
     [handle t Images i, num l, handle t Buffers j, VList rows']"
| "arrives ImageCopy t rows rows' \<Longrightarrow> rows \<noteq> [] \<Longrightarrow> live t Images i \<Longrightarrow> live t Images j \<Longrightarrow>
     driver_call srv t h (CmdCopyImage d i l j l2 rows) ''vkCmdCopyImage'' [handle t Images i, num l, handle t Images j, num l2, VList rows']"
| "live t Buffers i \<Longrightarrow> it = 0 \<or> it = 1 \<Longrightarrow>
     driver_call srv t h (CmdBindIndexBuffer i off it) ''vkCmdBindIndexBuffer'' [handle t Buffers i, VNum off, num it]"
| "live t Buffers i \<Longrightarrow> off AND 3 = 0 \<Longrightarrow> sz = VK_WHOLE_SIZE \<or> sz \<noteq> 0 \<and> sz AND 3 = 0 \<Longrightarrow>
     driver_call srv t h (CmdFillBuffer d i off sz v) ''vkCmdFillBuffer'' [handle t Buffers i, VNum off, VNum sz, num v]"
| "arrives MemoryBarrier t ms ms' \<Longrightarrow> arrives BufferMemoryBarrier t bm bm' \<Longrightarrow> arrives ImageMemoryBarrier t im im' \<Longrightarrow>
     driver_call srv t h (CmdPipelineBarrier d src dst fl ms bm im) ''vkCmdPipelineBarrier''
       [num src, num dst, num fl, VList ms', VList bm', VList im']"

subsection \<open>From the recording to the driver\<close>

definition reaches :: "Server \<Rightarrow> ObjectTables \<Rightarrow> RemoteCommandBuffer \<Rightarrow> recorder \<Rightarrow> string \<Rightarrow> native_call \<Rightarrow> bool" where
  "reaches srv t cb f op c \<longleftrightarrow> (\<exists>b m. snd (f cb) = [(op, b)] \<and> map_of (oneway_table srv) op = Some m \<and> performs t b m c)"

lemma not_commands: "list_all (\<lambda>(n, m). take 5 n \<noteq> ''vkCmd'') (device_oneways srv @ wsi_oneways srv)"
  by (simp add: device_oneways_def wsi_oneways_def destroy_instances_def)

lemma command_names: "distinct (map fst (command_oneways srv))"
  unfolding command_oneways_def list.map fst_conv by code_simp

lemma command_handler:
  assumes "(n, m) \<in> set (command_oneways srv)" "take 5 n = ''vkCmd''"
  shows "map_of (oneway_table srv) n = Some m"
proof -
  from not_commands [of srv] assms(2) have "n \<notin> fst ` set (device_oneways srv)" by (auto simp: list_all_iff)
  then have "map_of (device_oneways srv) n = None" by (simp add: map_of_eq_None_iff)
  moreover from assms(1) command_names have "map_of (command_oneways srv) n = Some m" by (rule map_of_is_SomeI [rotated])
  ultimately show ?thesis by (simp add: oneway_table_def map_add_def)
qed

lemmas registered = command_oneways_def [unfolded handle_CmdNextSubpass_def handle_CmdEndRenderPass_def handle_CmdBindPipeline_def handle_CmdDraw_def handle_CmdDispatch_def
  handle_CmdDrawIndexed_def handle_CmdDrawIndirect_def handle_CmdDrawIndexedIndirect_def handle_CmdDispatchIndirect_def
  handle_CmdBeginQuery_def handle_CmdEndQuery_def handle_CmdResetQueryPool_def handle_CmdWriteTimestamp_def
  handle_CmdCopyQueryPoolResults_def handle_CmdSetEvent_def handle_CmdResetEvent_def handle_CmdSetLineWidth_def handle_CmdSetDepthBias_def
  handle_CmdSetBlendConstants_def handle_CmdSetDepthBounds_def handle_CmdSetStencilCompareMask_def handle_CmdSetStencilWriteMask_def
  handle_CmdSetStencilReference_def handle_CmdSetFragmentShadingRateKHR_def handle_CmdSetDeviceMask_def
  handle_CmdDispatchBase_def handle_CmdDrawIndirectCount_def handle_CmdDrawIndexedIndirectCount_def handle_CmdSetViewport_def handle_CmdSetScissor_def
  handle_CmdCopyBuffer_def handle_CmdCopyBufferToImage_def handle_CmdCopyImageToBuffer_def handle_CmdCopyImage_def]

lemma plain_reaches:
  assumes "f cb = send_oneway n cs cb'" "cb_remote_id cb' = cb_remote_id cb" "(n, cmd_plain srv n as) \<in> set (command_oneways srv)"
    "take 5 n = ''vkCmd''" "args_value t as cs = Some vs" "live t CommandBuffers (cb_remote_id cb)"
  shows "reaches srv t cb f n (NativeCall n (handle t CommandBuffers (cb_remote_id cb) # vs))"
  unfolding reaches_def using command_handler [OF assms(3,4)] plain_performs [OF assms(5,6), of srv n] assms(1,2)
  by (auto simp: send_oneway_def simp del: w_args_simps)

lemma tracking_id [simp]: "cb_remote_id (mark_descriptor_writes sets cb) = cb_remote_id cb" "cb_remote_id (mark_write bs i cb) = cb_remote_id cb"
  by (simp_all add: mark_descriptor_writes_def mark_write_def split: option.splits)

lemma ext_reaches:
  assumes "f cb = send_oneway n cs cb'" "cb_remote_id cb' = cb_remote_id cb" "(n, cmd_ext srv n as) \<in> set (command_oneways srv)"
    "take 5 n = ''vkCmd''" "args_value t as cs = Some vs" "live t CommandBuffers (cb_remote_id cb)"
    "looked_up srv t (resolve t CommandBuffers (cb_remote_id cb)) n"
  shows "reaches srv t cb f n (NativeCall n (handle t CommandBuffers (cb_remote_id cb) # vs))"
proof -
  from assms(7) obtain d where "map_of (command_buffer_devices t) (resolve t CommandBuffers (cb_remote_id cb)) = Some d" "proc_addr srv d n"
    by (auto simp: looked_up_def split: option.splits)
  from ext_performs [OF assms(5,6) this] command_handler [OF assms(3,4)] assms(1,2) show ?thesis
    unfolding reaches_def by (auto simp: send_oneway_def simp del: w_args_simps)
qed

lemma indirect_reaches:
  assumes "f cb = send_oneway n cs cb'" "cb_remote_id cb' = cb_remote_id cb" "(n, cmd_indirect_count srv n) \<in> set (command_oneways srv)"
    "take 5 n = ''vkCmd''" "args_value t [ALive Buffers, AU64, ALive Buffers, AU64, AU32, AU32] cs = Some vs"
    "live t CommandBuffers (cb_remote_id cb)" "looked_up srv t (resolve t CommandBuffers (cb_remote_id cb)) n"
  shows "reaches srv t cb f n (NativeCall n (handle t CommandBuffers (cb_remote_id cb) # vs))"
proof -
  from assms(7) obtain d where "map_of (command_buffer_devices t) (resolve t CommandBuffers (cb_remote_id cb)) = Some d" "proc_addr srv d n"
    by (auto simp: looked_up_def split: option.splits)
  from indirect_count_performs [OF assms(5,6) this] command_handler [OF assms(3,4)] assms(1,2) show ?thesis
    unfolding reaches_def by (auto simp: send_oneway_def simp del: w_args_simps)
qed

lemma regions_reaches:
  assumes "live t CommandBuffers (cb_remote_id cb)" "arrives S t rows rows'"
    "\<And>cb. f cb = with_structs S rows (\<lambda>as cb. send_oneway n (cs @ as) (g cb)) cb" "\<And>cb. cb_remote_id (g cb) = cb_remote_id cb"
    "(n, cmd_regions (with_marshal srv) n as nonzero rf) \<in> set (command_oneways (with_marshal srv))"
    "rf = ''read_'' @ k" "take 5 n = ''vkCmd''" "args_value t as cs = Some vs"
    "map_of create_infos k = Some S" "4 \<le> least_parts (snd S)" "nonzero \<Longrightarrow> rows \<noteq> []" "ws = vs @ [VList rows']"
  shows "reaches (with_marshal srv) t cb f n (NativeCall n (handle t CommandBuffers (cb_remote_id cb) # ws))"
proof -
  from assms(2) obtain bs where bs: "those (map (write_struct_raw S) rows) = Some bs" "those (map (view_struct_raw S (resolve t)) rows) = Some rows'"
    "length rows < 2 ^ 32" by (auto simp: arrives_def)
  from regions_performs [OF assms(8,1) reader_of_table [OF assms(9)] bs assms(10,11), where name = n] command_handler [OF assms(5,7)] bs(1) assms(3,4)
  show ?thesis unfolding reaches_def assms(6,12) by (auto simp: send_oneway_def with_structs_def simp del: w_args_simps)
qed

lemmas entry_defs = ClientRecord.command_defs prod.case fst_conv snd_conv

lemma live_id: "live t k i \<Longrightarrow> i \<noteq> 0"
  by (auto simp: resolve_def tbl_get_def)

lemma handler_in: "(''vkCmdBindIndexBuffer'', handle_CmdBindIndexBuffer srv) \<in> set (command_oneways srv)"
  "(''vkCmdFillBuffer'', handle_CmdFillBuffer srv) \<in> set (command_oneways srv)"
  "(''vkCmdPipelineBarrier'', handle_CmdPipelineBarrier srv) \<in> set (command_oneways srv)"
  unfolding command_oneways_def by ((rule list.set_intros(1) | rule list.set_intros(2))+)

lemma index_buffer_reaches:
  assumes "live t Buffers i" "it = 0 \<or> it = 1" "live t CommandBuffers (cb_remote_id cb)"
  shows "reaches srv t cb (CmdBindIndexBuffer i off it) ''vkCmdBindIndexBuffer''
     (NativeCall ''vkCmdBindIndexBuffer'' (handle t CommandBuffers (cb_remote_id cb) # [handle t Buffers i, VNum off, num it]))"
  using command_handler [OF handler_in(1) [of srv]] live_id [OF assms(1)] assms
  unfolding reaches_def CmdBindIndexBuffer_def
  by (auto simp: send_oneway_def handle_CmdBindIndexBuffer_def native_unit_def sent_simps intro!: performsI)

lemma fill_buffer_reaches:
  assumes "live t Buffers i" "off AND 3 = 0" "sz = VK_WHOLE_SIZE \<or> sz \<noteq> 0 \<and> sz AND 3 = 0" "live t CommandBuffers (cb_remote_id cb)"
  shows "reaches srv t cb (CmdFillBuffer d i off sz v) ''vkCmdFillBuffer''
     (NativeCall ''vkCmdFillBuffer'' (handle t CommandBuffers (cb_remote_id cb) # [handle t Buffers i, VNum off, VNum sz, num v]))"
  using command_handler [OF handler_in(2) [of srv]] assms
  unfolding reaches_def CmdFillBuffer_def
  by (auto simp: send_oneway_def handle_CmdFillBuffer_def native_unit_def sent_simps intro!: performsI)

lemma in_table: "map_of create_infos ''Viewport'' = Some Viewport" "map_of create_infos ''Rect2D'' = Some Rect2D"
  "map_of create_infos ''BufferCopy'' = Some BufferCopy" "map_of create_infos ''BufferImageCopy'' = Some BufferImageCopy"
  "map_of create_infos ''ImageCopy'' = Some ImageCopy" "map_of create_infos ''MemoryBarrier'' = Some MemoryBarrier"
  "map_of create_infos ''BufferMemoryBarrier'' = Some BufferMemoryBarrier" "map_of create_infos ''ImageMemoryBarrier'' = Some ImageMemoryBarrier"
  by (simp_all add: create_infos_def)

lemma table_least: "4 \<le> least_parts (snd Viewport)" "4 \<le> least_parts (snd Rect2D)" "4 \<le> least_parts (snd BufferCopy)"
  "4 \<le> least_parts (snd BufferImageCopy)" "4 \<le> least_parts (snd ImageCopy)" "4 \<le> least_parts (snd MemoryBarrier)"
  "4 \<le> least_parts (snd BufferMemoryBarrier)" "4 \<le> least_parts (snd ImageMemoryBarrier)"
  by code_simp+

lemma region_commands_reach:
  assumes "live t CommandBuffers (cb_remote_id cb)"
  shows "arrives Viewport t rows rows' \<Longrightarrow> reaches (with_marshal srv) t cb (CmdSetViewport a rows) ''vkCmdSetViewport''
      (NativeCall ''vkCmdSetViewport'' (handle t CommandBuffers (cb_remote_id cb) # [num a, VList rows']))"
    "arrives Rect2D t rows rows' \<Longrightarrow> reaches (with_marshal srv) t cb (CmdSetScissor a rows) ''vkCmdSetScissor''
      (NativeCall ''vkCmdSetScissor'' (handle t CommandBuffers (cb_remote_id cb) # [num a, VList rows']))"
    "arrives BufferCopy t rows rows' \<Longrightarrow> reaches (with_marshal srv) t cb (CmdCopyBuffer d i j rows) ''vkCmdCopyBuffer''
      (NativeCall ''vkCmdCopyBuffer'' (handle t CommandBuffers (cb_remote_id cb) # [handle t Buffers i, handle t Buffers j, VList rows']))"
    "arrives BufferImageCopy t rows rows' \<Longrightarrow> reaches (with_marshal srv) t cb (CmdCopyBufferToImage d i j l rows) ''vkCmdCopyBufferToImage''
      (NativeCall ''vkCmdCopyBufferToImage'' (handle t CommandBuffers (cb_remote_id cb) # [handle t Buffers i, handle t Images j, num l, VList rows']))"
    "arrives BufferImageCopy t rows rows' \<Longrightarrow> reaches (with_marshal srv) t cb (CmdCopyImageToBuffer d i l j rows) ''vkCmdCopyImageToBuffer''
      (NativeCall ''vkCmdCopyImageToBuffer'' (handle t CommandBuffers (cb_remote_id cb) # [handle t Images i, num l, handle t Buffers j, VList rows']))"
    "arrives ImageCopy t rows rows' \<Longrightarrow> rows \<noteq> [] \<Longrightarrow> live t Images i \<Longrightarrow> live t Images j \<Longrightarrow>
      reaches (with_marshal srv) t cb (CmdCopyImage d i l j l2 rows) ''vkCmdCopyImage''
      (NativeCall ''vkCmdCopyImage'' (handle t CommandBuffers (cb_remote_id cb) # [handle t Images i, num l, handle t Images j, num l2, VList rows']))"
  subgoal
    by (rule regions_reaches [OF assms, where cs = "[CW a]" and g = "\<lambda>cb. cb" and k = "''Viewport''"], assumption, simp add: CmdSetViewport_def,
        simp, (unfold registered)[1], (rule list.set_intros)+, simp_all add: in_table table_least)
  subgoal
    by (rule regions_reaches [OF assms, where cs = "[CW a]" and g = "\<lambda>cb. cb" and k = "''Rect2D''"], assumption, simp add: CmdSetScissor_def,
        simp, (unfold registered)[1], (rule list.set_intros)+, simp_all add: in_table table_least)
  subgoal
    by (rule regions_reaches [OF assms, where cs = "[CH i, CH j]" and g = "mark_write (buffer_bindings (base d)) j" and k = "''BufferCopy''"], assumption, simp add: CmdCopyBuffer_def,
        simp, (unfold registered)[1], (rule list.set_intros)+, simp_all add: in_table table_least)
  subgoal
    by (rule regions_reaches [OF assms, where cs = "[CH i, CH j, CI l]" and g = "mark_write (image_bindings (base d)) j" and k = "''BufferImageCopy''"], assumption, simp add: CmdCopyBufferToImage_def,
        simp, (unfold registered)[1], (rule list.set_intros)+, simp_all add: in_table table_least)
  subgoal
    by (rule regions_reaches [OF assms, where cs = "[CH i, CI l, CH j]" and g = "mark_write (buffer_bindings (base d)) j" and k = "''BufferImageCopy''"], assumption, simp add: CmdCopyImageToBuffer_def,
        simp, (unfold registered)[1], (rule list.set_intros)+, simp_all add: in_table table_least)
  subgoal
    by (rule regions_reaches [OF assms, where cs = "[CH i, CI l, CH j, CI l2]" and g = "mark_write (image_bindings (base d)) j" and k = "''ImageCopy''"], assumption, simp add: CmdCopyImage_def,
        simp, (unfold registered)[1], (rule list.set_intros)+, simp_all add: in_table table_least)
  done

lemma fold_id: "(\<And>x cb. cb_remote_id (f x cb) = cb_remote_id cb) \<Longrightarrow> cb_remote_id (fold f xs cb) = cb_remote_id cb"
  by (induction xs arbitrary: cb) simp_all

lemma host_barriers_id: "cb_remote_id (host_barriers d dst mems bufs imgs cb) = cb_remote_id cb"
  by (simp add: host_barriers_def fold_id resource_barrier_def global_barrier_def all_visible_def insert_visible_def split: option.splits)

lemma barrier_reaches:
  assumes "arrives MemoryBarrier t ms ms'" "arrives BufferMemoryBarrier t bm bm'" "arrives ImageMemoryBarrier t im im'"
    "live t CommandBuffers (cb_remote_id cb)"
  shows "reaches (with_marshal srv) t cb (CmdPipelineBarrier d src dst fl ms bm im) ''vkCmdPipelineBarrier''
     (NativeCall ''vkCmdPipelineBarrier'' (handle t CommandBuffers (cb_remote_id cb) # [num src, num dst, num fl, VList ms', VList bm', VList im']))"
proof -
  from assms(1-3) obtain m b i where w: "those (map (write_struct_raw MemoryBarrier) ms) = Some m"
      "those (map (write_struct_raw BufferMemoryBarrier) bm) = Some b" "those (map (write_struct_raw ImageMemoryBarrier) im) = Some i"
    and v: "those (map (view_struct_raw MemoryBarrier (resolve t)) ms) = Some ms'" "length ms < 2 ^ 32"
      "those (map (view_struct_raw BufferMemoryBarrier (resolve t)) bm) = Some bm'" "length bm < 2 ^ 32"
      "those (map (view_struct_raw ImageMemoryBarrier (resolve t)) im) = Some im'" "length im < 2 ^ 32"
    by (auto simp: arrives_def)
  let ?p = "w_args (CH (cb_remote_id cb) # [CW src, CW dst, CW fl] @ (CW (of_nat (length ms)) # map CS m) @ (CW (of_nat (length bm)) # map CS b)
     @ (CW (of_nat (length im)) # map CS i))"
  have "snd (CmdPipelineBarrier d src dst fl ms bm im cb) = [(''vkCmdPipelineBarrier'', ?p)]"
    using w by (simp add: CmdPipelineBarrier_def with_barriers_def with_structs_def send_oneway_def host_barriers_id)
  moreover have "performs t ?p (handle_CmdPipelineBarrier (with_marshal srv))
     (NativeCall ''vkCmdPipelineBarrier'' (handle t CommandBuffers (cb_remote_id cb) # [num src, num dst, num fl, VList ms', VList bm', VList im']))"
    using assms(4) v reader_of_table [OF in_table(6), simplified] reader_of_table [OF in_table(7), simplified] reader_of_table [OF in_table(8), simplified]
    by (intro performsI) (simp add: handle_CmdPipelineBarrier_def native_unit_def rd_barriers_after_def rd_command_buffer_sent run_simps reader_simps w_args_map
        regions_fit [OF w(1) table_least(6)] rd_regions_sent [OF w(1)] rd_barriers_sent [OF w(2) _ _ table_least(7)]
        rd_barriers_sent [OF w(3) _ _ table_least(8), where rest = "[]", simplified])
  ultimately show ?thesis unfolding reaches_def using command_handler [OF handler_in(3) [of "with_marshal srv"]] by auto
qed

lemma driver_call_reaches:
  assumes "driver_call (with_marshal srv) t (resolve t CommandBuffers (cb_remote_id cb)) f n vs" "live t CommandBuffers (cb_remote_id cb)"
  shows "reaches (with_marshal srv) t cb f n (NativeCall n (handle t CommandBuffers (cb_remote_id cb) # vs))"
  using assms
  apply (induction rule: driver_call.induct)
  apply (rule plain_reaches, (unfold entry_defs)[1], rule refl, simp, (unfold registered)[1], (rule list.set_intros)+, simp, simp, assumption)+
  apply (rule ext_reaches, (unfold entry_defs)[1], rule refl, simp, (unfold registered)[1], (rule list.set_intros)+, simp, simp, assumption+)+
  apply (rule indirect_reaches, (unfold entry_defs)[1], rule refl, simp, (unfold registered)[1], (rule list.set_intros)+, simp, simp, assumption+)+
  apply (rule region_commands_reach index_buffer_reaches fill_buffer_reaches barrier_reaches; assumption)+
  done

text \<open>
  C23. A recorded command reaches the driver: the client's entry point sends exactly one message, under the name of the command; the server
  has a handler for it; and in every session whose tables know the command buffer, that handler makes exactly the driver call the Vulkan
  command stands for, with every handle replaced by the one of the tables and every structure as the codecs promise, and counts no error.
\<close>

theorem recorded_command_reaches_driver:
  assumes "driver_call (with_marshal srv) t h f name vs" "h = resolve t CommandBuffers (cb_remote_id cb)" "h \<noteq> VK_NULL_HANDLE"
  shows "\<exists>payload m. snd (f cb) = [(name, payload)] \<and> map_of (oneway_table (with_marshal srv)) name = Some m \<and>
     (\<forall>s. s_tables s = t \<and> reader s = Reader_at [] payload \<longrightarrow>
        native_log (exec m s) = native_log s @ [NativeCall name (VNum h # vs)] \<and> oneway_errors (exec m s) = oneway_errors s)"
  using driver_call_reaches [of srv t cb f name vs] assms by (simp add: reaches_def performs_def)

definition example_tables :: ObjectTables where
  "example_tables = ObjectTables_init\<lparr>tables := (\<lambda>_. Table_empty)(CommandBuffers := \<lparr>m_slots = [70], m_owners = [9]\<rparr>,
     Buffers := \<lparr>m_slots = [66, 67], m_owners = [9, 9]\<rparr>)\<rparr>"

definition example_region :: vk where
  "example_region = VList [VNum 0, VNum 4, VNum 16]"

theorem recorded_command_reaches_driver_witness:
  "\<exists>payload m. snd (CmdCopyBuffer record_device 1 2 [example_region] (new_command_buffer 3 1)) = [(''vkCmdCopyBuffer'', payload)] \<and>
     map_of (oneway_table (with_marshal example_server)) ''vkCmdCopyBuffer'' = Some m \<and>
     (\<forall>s. s_tables s = example_tables \<and> reader s = Reader_at [] payload \<longrightarrow>
        native_log (exec m s) = native_log s @ [NativeCall ''vkCmdCopyBuffer'' [VNum 70, VNum 66, VNum 67, VList [example_region]]] \<and>
        oneway_errors (exec m s) = oneway_errors s)"
proof (rule recorded_command_reaches_driver)
  have r: "resolve example_tables CommandBuffers 1 = 70" "resolve example_tables Buffers 1 = 66" "resolve example_tables Buffers 2 = 67"
    by (simp_all add: example_tables_def resolve_def tbl_get_def)
  have "arrives BufferCopy example_tables [example_region] [example_region]"
    unfolding arrives_def
    by (simp add: example_region_def write_struct_raw_def view_struct_raw_def BufferCopy_def no_slots_def image_size_def)
  from driver_call.intros(31) [OF this, of "with_marshal example_server" 70 record_device 1 2]
  show "driver_call (with_marshal example_server) example_tables 70 (CmdCopyBuffer record_device 1 2 [example_region]) ''vkCmdCopyBuffer''
      [VNum 66, VNum 67, VList [example_region]]" by (simp add: r)
  show "70 = resolve example_tables CommandBuffers (cb_remote_id (new_command_buffer 3 1))" by (simp add: r new_command_buffer_def)
qed simp

end
