(* ===== verification/Spec2Isabelle.thy ===== *)
theory Spec2Isabelle
  imports MemoryProperties WsiProperties ClientProvenance CommandLink
begin

text \<open>
  A verification of \<open>vulkan_remote\<close>, which runs a Vulkan application on one machine and its
  driver on another.

  \<^bold>\<open>The program.\<close> The client (src/client) is a Vulkan driver for the loader: an entry point
  writes its arguments into a message, sends it over one TCP connection and, where the command has a
  result, waits for the reply with the same request id. The server (src/server) has one serve loop
  per connection: it decodes a message, resolves the ids in it through the connection's object
  tables, calls the real driver, and replies. Waits that may block run on a pool of worker threads.
  Mapped memory is a shadow on the client that is moved in bounded messages. src/common holds the
  wire format and the structure codecs both sides share.

  \<^bold>\<open>The theories.\<close>

  \<^item> \<open>Prelude\<close>: generic lemmas on lists, words and little-endian bytes; the locale
    \<open>invariant_system\<close> for step relations.
  \<^item> \<open>Wire\<close> (common/wire): \<open>Writer\<close>, \<open>Reader\<close>, \<open>send_message\<close> and
    \<open>recv_message\<close> over socket calls that may transfer less than asked, be interrupted or fail.
    Shown: framing is lossless under every fragmentation, an oversized header is refused, no read
    leaves its buffer.
  \<^item> \<open>Objects\<close> (server/objects.hpp, the teardown of server/session.cpp): tables of handles
    whose ids are never reused. Shown: a destroyed id stays dead; a teardown destroys exactly what a
    device owns, in a legal order, and never a borrowed swapchain image.
  \<^item> \<open>Workers\<close> (RequestWorkers): the pool as a step relation over its critical sections.
    Shown: bounds, one job per queue at a time, order, and that it drains.
  \<^item> \<open>Session\<close>, \<open>HandlerLogic\<close>, \<open>Serve\<close>, \<open>Registry\<close>,
    \<open>RegistryCommand\<close> (server/session): a handler is a state monad over the \<open>Session\<close> of one
    message; three judgements (\<open>answers\<close>, \<open>unsent\<close>, \<open>keeps\<close>) are proved for every
    registered handler by the rules of \<open>HandlerLogic\<close>, and the properties of the serve loop rest
    on them: at most one reply per message, every request answered or queued once, nothing before
    the handshake, nothing left after a disconnect.
  \<^item> \<open>HandlersDevice\<close>, \<open>HandlersDescriptor\<close>, \<open>HandlersTemplate\<close>,
    \<open>HandlersMemory\<close>, \<open>HandlersCommand\<close>, \<open>HandlersInstance\<close>,
    \<open>HandlersWsi\<close> (server/handlers_*.cpp): one definition per handler, presentation in its Linux
    branches. \<open>WsiProperties\<close>: every live surface has its window, a disconnect closes the windows,
    a swapchain's images keep their ids.
  \<^item> \<open>ExtensionContract\<close> (common/extension_contract.hpp): the reviewed extensions and the
    feature policies. Shown: what is offered has its dependencies and commands; the policies are one
    mask over the features.
  \<^item> \<open>FieldCodec\<close>, \<open>PNext\<close>, \<open>QueryCodec\<close> (common/marshal.cpp): structures sent
    field by field. Shown: chains survive the wire, a reader accepts at most sixteen admitted nodes,
    a query's chain is filled in place.
  \<^item> \<open>RawCodec\<close>, \<open>CreateInfo\<close> (common/marshal.cpp): structures sent as their C image and
    the arrays behind its pointers. A structure is described by its parts in the order of the wire; the
    locale \<open>piece_codec\<close> is the contract of a part, interpreted for each kind. Shown for all
    structures at once: what is written is read back with the handles resolved, and whatever arrives,
    the handles and pointers of what is accepted come from the session or the reader, except the
    pointers listed by \<open>kept_pointers\<close>.
  \<^item> \<open>ServerMarshal\<close>: the server with these readers in place of the parameter
    \<open>read_struct\<close>. Shown: what a create handler passes to the driver.
  \<^item> \<open>Connection\<close> (client/remote_objects): the pending table shared by application threads,
    the reader thread and the watchdog, as a step relation. Shown: ids are fresh, a reply reaches its
    own request and no other, a failure releases every waiter.
  \<^item> \<open>ClientMemory\<close>, \<open>ClientCoherent\<close>, \<open>ClientEntry\<close> (client/remote_objects.cpp,
    client/memory.cpp): the shadow of a mapping and the operations on it, over a round trip that is
    an argument. \<open>ClientInvariant\<close>: what they keep whatever the server answers.
  \<^item> \<open>MemoryLink\<close>, \<open>MemoryEndToEnd\<close>, \<open>MemoryProperties\<close>: the locale
    \<open>memory_link\<close> says what the client relies on at the other end; it is interpreted on the
    composition of the client's connection, the serve loop and the memory handlers, and the
    properties of flush, download, publish and acquire follow for the whole path.
  \<^item> \<open>ClientRecord\<close> (client/commands.cpp): every entry point that records a command, with the
    bookkeeping of what it writes; structures are written with the codecs above. Shown: a recorded
    write that a recorded barrier makes visible to the host is in the command buffer's set.
  \<^item> \<open>CommandLink\<close>: these entry points put together with the server. The inductive
    \<open>driver_call\<close> says which call of the driver a recorded command stands for. Shown: the message the
    client sends makes its handler do exactly that call.
  \<^item> \<open>ClientSubmit\<close> (client/device.cpp): submissions, sparse binding, fences, semaphores and
    waits. A submission is two critical sections, the plan before the round trip and the commit after
    it, so that overlapping calls can be written down. \<open>ClientProvenance\<close>: a successful wait for the
    fence of a submission has fetched what its command buffers made visible, whatever other calls
    (\<open>other_call\<close>) ran between; and two sequences of calls in which a write that arrives through a
    semaphore is lost (\<open>chained_wait_loses_write\<close>, \<open>overlapping_submit_loses_write\<close>).

  \<^bold>\<open>What stands for code outside the sources.\<close> The driver is the field \<open>native\<close> of the
  record \<open>Server\<close>: a function of the calls made so far and the call. \<open>proc_addr\<close> is its
  function lookup. The generated opcode numbers and digests are arguments. The handlers take the
  structure codecs they call as the fields \<open>read_struct\<close> and \<open>write_struct\<close>;
  \<open>with_marshal\<close> fills the first with the readers of common/marshal.cpp. A
  property that needs something of the driver says so (\<open>memory_driver\<close>) and has a witness with a
  concrete driver.

  \<^bold>\<open>Fuel and bounds.\<close> No definition has fuel: the chunk loops end because a chunk is positive
  and at most what is left (\<open>chunk_progress\<close>), the scan of a coherent mapping because a run is
  not empty (\<open>publish_progress\<close>), the id search of the client because fewer ids are in use than
  exist. Widths are kept: ids, offsets and sizes are 64-bit words, counts and opcodes 32-bit words.

  \<^bold>\<open>Not modelled.\<close> Sockets, threads and windows as system objects, the stall report and the
  server's command line have no logic of their own beyond system calls. Of the client: creation and
  destruction of objects, descriptor bookkeeping, the physical-device queries, the presentation and
  loader entry points; each marshals one request and copies its reply. What descriptors, views and
  framebuffers refer to is therefore state of \<open>TrackedDevice\<close> that recording and submission read. The
  Wayland proxy and the sample tools are separate programs.
\<close>

end
